(* ===== verification/Prelude.thy ===== *)
theory Prelude
  imports Main "HOL-Library.Word" "HOL-Library.Monad_Syntax" "HOL-Library.Multiset"
begin

unbundle bit_operations_syntax

text \<open>
  Shared vocabulary of the development: the collections the component proofs are driven by,
  the option monad in which a function that may stop the firmware is written (\<open>None\<close> is a
  failed \<open>fwk_assert\<close>, an \<open>fwk_trap\<close> or an access outside an object), fixed-width helpers and
  generic lemmas on lists, options and multisets.
\<close>

named_theorems model_defs \<open>definitions of the model that proofs unfold together\<close>
named_theorems frame_simps \<open>fields an operation leaves alone\<close>

type_synonym u8 = "8 word"
type_synonym u32 = "32 word"

section \<open>The option monad: code that may trap\<close>

definition fwk_assert :: "bool \<Rightarrow> unit option" where
  "fwk_assert c = (if c then Some () else None)"

lemma fwk_assert_Some [simp]: "fwk_assert c = Some u \<longleftrightarrow> c"
  by (simp add: fwk_assert_def)

lemma fwk_assert_bind [simp]: "fwk_assert c \<bind> f = (if c then f () else None)"
  by (simp add: fwk_assert_def)

lemma bind_eq_SomeD: "m \<bind> f = Some y \<Longrightarrow> \<exists>x. m = Some x \<and> f x = Some y"
  for m :: "'a option"
  by (cases m) auto

lemma bind_SomeE [elim!]:
  fixes m :: "'a option"
  assumes "m \<bind> f = Some y"
  obtains x where "m = Some x" and "f x = Some y"
  using assms by (cases m) auto

section \<open>Loops\<close>

text \<open>A loop over a list of items: \<open>for_each\<close> runs the body on every item, \<open>for_each_status\<close>
  returns at the first status that is not zero (\<open>FWK_SUCCESS\<close>).\<close>

fun for_each :: "('a \<Rightarrow> 's \<Rightarrow> 's option) \<Rightarrow> 'a list \<Rightarrow> 's \<Rightarrow> 's option" where
  "for_each f [] s = Some s"
| "for_each f (x # xs) s = do { s' \<leftarrow> f x s; for_each f xs s' }"

fun for_each_status :: "('a \<Rightarrow> 's \<Rightarrow> (int \<times> 's) option) \<Rightarrow> 'a list \<Rightarrow> 's \<Rightarrow> (int \<times> 's) option" where
  "for_each_status f [] s = Some (0, s)"
| "for_each_status f (x # xs) s = do {
    (status, s') \<leftarrow> f x s;
    if status \<noteq> 0 then Some (status, s') else for_each_status f xs s' }"

text \<open>The Hoare rules of the loops: an assertion indexed by the number of items done.\<close>

lemma for_each_rule:
  assumes "for_each f xs s = Some s'" "P 0 s"
    and "\<And>k s s'. k < length xs \<Longrightarrow> P k s \<Longrightarrow> f (xs ! k) s = Some s' \<Longrightarrow> P (Suc k) s'"
  shows "P (length xs) s'"
  using assms
proof (induction xs arbitrary: s P)
  case (Cons x xs)
  then obtain t where t: "f x s = Some t" "for_each f xs t = Some s'" by auto
  have "P (Suc 0) t" using Cons.prems(2) Cons.prems(3) [of 0 s t] t(1) by simp
  then show ?case
    using Cons.IH [OF t(2), of "\<lambda>k. P (Suc k)"] Cons.prems(3) [of "Suc _"] by simp
qed simp

lemma for_each_status_rule:
  assumes "for_each_status f xs s = Some (0, s')" "P 0 s"
    and "\<And>k s s'. k < length xs \<Longrightarrow> P k s \<Longrightarrow> f (xs ! k) s = Some (0, s') \<Longrightarrow> P (Suc k) s'"
  shows "P (length xs) s'"
  using assms
proof (induction xs arbitrary: s P)
  case (Cons x xs)
  then obtain t where t: "f x s = Some (0, t)" "for_each_status f xs t = Some (0, s')"
    by (auto split: if_splits)
  have "P (Suc 0) t" using Cons.prems(2) Cons.prems(3) [of 0 s t] t(1) by simp
  then show ?case
    using Cons.IH [OF t(2), of "\<lambda>k. P (Suc k)"] Cons.prems(3) [of "Suc _"] by simp
qed simp

lemma for_each_status_inv:
  assumes "for_each_status f xs s = Some (st, s')" "P s"
    and "\<And>x s st s'. x \<in> set xs \<Longrightarrow> P s \<Longrightarrow> f x s = Some (st, s') \<Longrightarrow> P s'"
  shows "P s'"
  using assms
proof (induction xs arbitrary: s)
  case (Cons x xs)
  then obtain st1 t where t: "f x s = Some (st1, t)"
    and rest: "if st1 \<noteq> 0 then Some (st1, t) = Some (st, s') else for_each_status f xs t = Some (st, s')"
    by (auto split: if_splits)
  have "P t" using Cons.prems(2) Cons.prems(3) [OF _ _ t] by simp
  then show ?case
    using rest Cons.IH [of t] Cons.prems(3) by (auto split: if_splits)
qed simp

text \<open>The rules for a loop that is shown to finish.\<close>

lemma for_each_total:
  assumes "P 0 s" "\<And>k s. k < length xs \<Longrightarrow> P k s \<Longrightarrow> \<exists>s'. f (xs ! k) s = Some s' \<and> P (Suc k) s'"
  shows "\<exists>s'. for_each f xs s = Some s' \<and> P (length xs) s'"
  using assms
proof (induction xs arbitrary: s P)
  case (Cons x xs)
  from Cons.prems(1) Cons.prems(2) [of 0 s] obtain t where "f x s = Some t" "P (Suc 0) t" by auto
  then show ?case using Cons.IH [of "\<lambda>k. P (Suc k)" t] Cons.prems(2) [of "Suc _"] by simp
qed simp

lemma for_each_status_total:
  assumes "P 0 s" "\<And>k s. k < length xs \<Longrightarrow> P k s \<Longrightarrow> \<exists>s'. f (xs ! k) s = Some (0, s') \<and> P (Suc k) s'"
  shows "\<exists>s'. for_each_status f xs s = Some (0, s') \<and> P (length xs) s'"
  using assms
proof (induction xs arbitrary: s P)
  case (Cons x xs)
  from Cons.prems(1) Cons.prems(2) [of 0 s] obtain t where "f x s = Some (0, t)" "P (Suc 0) t" by auto
  then show ?case using Cons.IH [of "\<lambda>k. P (Suc k)" t] Cons.prems(2) [of "Suc _"] by simp
qed simp

section \<open>Lists\<close>

lemma sum_list_update_add:
  fixes f :: "'a \<Rightarrow> 'b :: comm_monoid_add"
  shows "i < length xs \<Longrightarrow>
    (\<Sum>x\<leftarrow>xs[i := y]. f x) + f (xs ! i) = (\<Sum>x\<leftarrow>xs. f x) + f y"
proof (induction xs arbitrary: i)
  case (Cons x xs)
  show ?case
  proof (cases i)
    case 0
    then show ?thesis by (simp add: ac_simps)
  next
    case (Suc j)
    then show ?thesis using Cons.IH [of j] Cons.prems by (simp add: add.assoc)
  qed
qed simp

lemma in_set_butlast_or_last: "x \<in> set xs \<Longrightarrow> x \<in> set (butlast xs) \<or> x = last xs"
  by (induction xs) auto

lemma nth_list_update_same: "i < length xs \<Longrightarrow> xs[i := f (xs ! i)] ! i = f (xs ! i)"
  by simp

lemma mset_remove1_add: "x \<in> set xs \<Longrightarrow> mset (remove1 x xs) + {#x#} = mset xs"
  by simp

lemma mset_swap_parts:
  fixes a b X Y P Q :: "'a multiset"
  assumes "X + P = Y + Q" "Q + a = P + b"
  shows "X + a = Y + b"
proof (rule multiset_eqI)
  fix x
  have "count (X + P) x = count (Y + Q) x" "count (Q + a) x = count (P + b) x"
    using assms by simp_all
  then show "count (X + a) x = count (Y + b) x" by simp
qed

lemma take_drop_wrap:
  "h < n \<Longrightarrow> length xs = n \<Longrightarrow> k \<le> n \<Longrightarrow>
   take k (drop h (xs @ xs)) =
     (if h + k \<le> n then take k (drop h xs) else drop h xs @ take (h + k - n) xs)"
  by (auto simp: add.commute)

section \<open>Fixed-width values\<close>

text \<open>\<open>size_t\<close> and \<open>unsigned int\<close> are 32 bits wide on the firmware's targets.\<close>

definition size_bound :: nat where
  "size_bound = 2 ^ 32"

lemma unat_u32_less [simp]: "unat (x :: u32) < 4294967296"
  using unsigned_less [of x, where ?'a = nat] by simp

lemma unat_take_bit_less: "n < LENGTH('a) \<Longrightarrow> unat (take_bit n (w :: 'a :: len word)) < 2 ^ n"
  by (simp add: unsigned_take_bit_eq)

section \<open>Decimal text\<close>

fun dec :: "nat \<Rightarrow> string" where
  "dec n = (if n < 10 then [char_of (48 + n)] else dec (n div 10) @ [char_of (48 + n mod 10)])"

declare dec.simps [simp del]

lemma length_dec_le: "n < 10 ^ k \<Longrightarrow> 0 < k \<Longrightarrow> length (dec n) \<le> k"
proof (induction n arbitrary: k rule: dec.induct)
  case (1 n)
  show ?case
  proof (cases "n < 10")
    case True
    with "1.prems" show ?thesis by (simp add: dec.simps [of n])
  next
    case False
    with "1.prems" obtain j where k: "k = Suc j" "0 < j"
      by (cases k; cases "k - 1") auto
    with "1.prems" have "n div 10 < 10 ^ j" by auto
    then have "length (dec (n div 10)) \<le> j"
      using "1.IH" False k by blast
    with False k show ?thesis by (simp add: dec.simps [of n])
  qed
qed

end
