(* ===== verification/Fwk_Status.thy ===== *)
theory Fwk_Status
  imports Prelude
begin

text \<open>
  Status codes (\<open>fwk_status.h\<close>, \<open>fwk_status.c\<close>), the assertion macros of \<open>fwk_assert.h\<close> and
  the bounds check of \<open>fwk_string.c\<close>. A status is a C \<open>int\<close>: a driver may return any value,
  so the codes are integer constants and not a closed enumeration. The flag \<open>dbg\<close> of the
  model is true for a Debug build (\<open>BUILD_MODE_DEBUG\<close>, no \<open>NDEBUG\<close>) and false for a
  Release build.
\<close>

type_synonym fwk_status = int

abbreviation FWK_PENDING :: fwk_status where "FWK_PENDING \<equiv> 1"
abbreviation FWK_SUCCESS :: fwk_status where "FWK_SUCCESS \<equiv> 0"
abbreviation FWK_E_PARAM :: fwk_status where "FWK_E_PARAM \<equiv> - 1"
abbreviation FWK_E_ALIGN :: fwk_status where "FWK_E_ALIGN \<equiv> - 2"
abbreviation FWK_E_SIZE :: fwk_status where "FWK_E_SIZE \<equiv> - 3"
abbreviation FWK_E_HANDLER :: fwk_status where "FWK_E_HANDLER \<equiv> - 4"
abbreviation FWK_E_ACCESS :: fwk_status where "FWK_E_ACCESS \<equiv> - 5"
abbreviation FWK_E_RANGE :: fwk_status where "FWK_E_RANGE \<equiv> - 6"
abbreviation FWK_E_TIMEOUT :: fwk_status where "FWK_E_TIMEOUT \<equiv> - 7"
abbreviation FWK_E_NOMEM :: fwk_status where "FWK_E_NOMEM \<equiv> - 8"
abbreviation FWK_E_PWRSTATE :: fwk_status where "FWK_E_PWRSTATE \<equiv> - 9"
abbreviation FWK_E_SUPPORT :: fwk_status where "FWK_E_SUPPORT \<equiv> - 10"
abbreviation FWK_E_DEVICE :: fwk_status where "FWK_E_DEVICE \<equiv> - 11"
abbreviation FWK_E_BUSY :: fwk_status where "FWK_E_BUSY \<equiv> - 12"
abbreviation FWK_E_OS :: fwk_status where "FWK_E_OS \<equiv> - 13"
abbreviation FWK_E_DATA :: fwk_status where "FWK_E_DATA \<equiv> - 14"
abbreviation FWK_E_STATE :: fwk_status where "FWK_E_STATE \<equiv> - 15"
abbreviation FWK_E_INIT :: fwk_status where "FWK_E_INIT \<equiv> - 16"
abbreviation FWK_E_OVERWRITTEN :: fwk_status where "FWK_E_OVERWRITTEN \<equiv> - 17"
abbreviation FWK_E_PANIC :: fwk_status where "FWK_E_PANIC \<equiv> - 18"

section \<open>Names of the codes\<close>

text \<open>The tables are indexed by the code's absolute value; entry 0 of the error table is never
  initialised by the source and never read.\<close>

definition error_string :: "string list" where
  "error_string =
    ['''', ''E_PARAM'', ''E_ALIGN'', ''E_SIZE'', ''E_HANDLER'', ''E_ACCESS'', ''E_RANGE'',
     ''E_TIMEOUT'', ''E_NOMEM'', ''E_PWRSTATE'', ''E_SUPPORT'', ''E_DEVICE'', ''E_BUSY'',
     ''E_OS'', ''E_DATA'', ''E_STATE'', ''E_INIT'', ''E_OVERWRITTEN'', ''E_PANIC'']"

definition status_string :: "string list" where
  "status_string = [''SUCCESS'', ''PENDING'']"

definition fwk_status_str :: "fwk_status \<Rightarrow> string" where
  "fwk_status_str status =
    (if status < 0 \<and> nat (- status) < length error_string then error_string ! nat (- status)
     else if status \<ge> 0 \<and> status < int (length status_string) then status_string ! nat status
     else ''unknown'')"

section \<open>Assertion macros that differ between builds\<close>

text \<open>\<open>fwk_assert\<close> (see the prelude) stops a Debug build and is an assumption of a Release
  build, where a false one is undefined behaviour: both are \<open>None\<close>. \<open>fwk_unexpected\<close> and
  \<open>fwk_check\<close> stop a Debug build only.\<close>

definition fwk_trap :: "'a option" where
  "fwk_trap = None"

definition fwk_unexpected :: "bool \<Rightarrow> unit option" where
  "fwk_unexpected dbg = (if dbg then None else Some ())"

definition fwk_check :: "bool \<Rightarrow> bool \<Rightarrow> unit option" where
  "fwk_check dbg c = (if dbg then fwk_assert c else Some ())"

text \<open>In a Debug build \<open>fwk_expect\<close> asserts its condition and then yields 1.\<close>

definition fwk_expect :: "bool \<Rightarrow> bool \<Rightarrow> bool option" where
  "fwk_expect dbg c = (if dbg then (fwk_check dbg c \<bind> (\<lambda>_. Some True)) else Some c)"

lemma fwk_trap_simps [simp]: "fwk_trap \<bind> f = None" "fwk_trap \<noteq> Some x" "(fwk_trap :: 'a option) = None"
  by (simp_all add: fwk_trap_def)

lemma fwk_unexpected_bind [simp]: "fwk_unexpected dbg \<bind> f = (if dbg then None else f ())"
  by (simp add: fwk_unexpected_def)

lemma fwk_check_bind [simp]: "fwk_check dbg c \<bind> f = (if dbg \<and> \<not> c then None else f ())"
  by (simp add: fwk_check_def)

lemma fwk_expect_bind [simp]:
  "fwk_expect dbg c \<bind> f = (if c then f True else if dbg then None else f False)"
  by (simp add: fwk_expect_def)

section \<open>Bounds check\<close>

definition fwk_str_is_in_boundry :: "nat \<Rightarrow> nat \<Rightarrow> nat \<Rightarrow> bool" where
  "fwk_str_is_in_boundry buffer_size offset data_size =
    (if offset > buffer_size \<or> data_size > buffer_size - offset then False else True)"

lemma fwk_str_is_in_boundry_iff:
  "fwk_str_is_in_boundry b off n \<longleftrightarrow> off + n \<le> b"
  by (auto simp: fwk_str_is_in_boundry_def)

end
