(* ===== verification/Fwk_Ring.thy ===== *)
theory Fwk_Ring
  imports Fwk_Status
begin

text \<open>
  The byte ring buffer (\<open>fwk_ring.c\<close>). The storage is the list of its bytes, the indices are
  \<open>size_t\<close> values; the two additions of an index and a length are reduced modulo \<open>2 ^ 32\<close> as the
  32-bit \<open>size_t\<close> of the targets does. A \<open>memcpy\<close> that would read or write outside its object is
  \<open>None\<close>. The abstraction \<open>ring_contents\<close> is the queue of bytes, oldest first.
\<close>

record fwk_ring =
  storage :: "u8 list"
  head :: nat
  tail :: nat
  capacity :: nat
  full :: bool

section \<open>Operations\<close>

definition fwk_ring_offset :: "fwk_ring \<Rightarrow> nat \<Rightarrow> nat" where
  "fwk_ring_offset ring idx = (idx mod size_bound) mod capacity ring"

definition fwk_ring_clear :: "fwk_ring \<Rightarrow> fwk_ring" where
  "fwk_ring_clear ring = ring\<lparr>head := 0, tail := 0, full := False\<rparr>"

definition fwk_ring_init :: "u8 list \<Rightarrow> nat \<Rightarrow> fwk_ring option" where
  "fwk_ring_init store storage_size = do {
    fwk_assert (storage_size > 0);
    Some (fwk_ring_clear
      \<lparr>storage = store, head = 0, tail = 0, capacity = storage_size, full = False\<rparr>) }"

definition fwk_ring_get_capacity :: "fwk_ring \<Rightarrow> nat" where
  "fwk_ring_get_capacity ring = capacity ring"

definition fwk_ring_get_length :: "fwk_ring \<Rightarrow> nat" where
  "fwk_ring_get_length ring =
    (if tail ring \<ge> head ring \<and> \<not> full ring then tail ring - head ring
     else (capacity ring - head ring) + tail ring)"

definition fwk_ring_get_free :: "fwk_ring \<Rightarrow> nat" where
  "fwk_ring_get_free ring = capacity ring - fwk_ring_get_length ring"

definition fwk_ring_is_full :: "fwk_ring \<Rightarrow> bool" where
  "fwk_ring_is_full ring = full ring"

definition fwk_ring_is_empty :: "fwk_ring \<Rightarrow> bool" where
  "fwk_ring_is_empty ring = (head ring = tail ring \<and> \<not> full ring)"

text \<open>\<open>memcpy\<close> between a list and another at given offsets; both ranges must exist.\<close>

definition mem_read :: "u8 list \<Rightarrow> nat \<Rightarrow> nat \<Rightarrow> u8 list option" where
  "mem_read src off n = (if off + n \<le> length src then Some (take n (drop off src)) else None)"

definition mem_write :: "u8 list \<Rightarrow> nat \<Rightarrow> u8 list \<Rightarrow> u8 list option" where
  "mem_write dst off bytes =
    (if off + length bytes \<le> length dst
     then Some (take off dst @ bytes @ drop (off + length bytes) dst) else None)"

text \<open>The bytes stored through \<open>buffer\<close> by a peek of \<open>buffer_size\<close> bytes; their number is the
  value returned.\<close>

definition fwk_ring_peek :: "fwk_ring \<Rightarrow> nat \<Rightarrow> u8 list option" where
  "fwk_ring_peek ring buffer_size0 = do {
    let buffer_size = min buffer_size0 (fwk_ring_get_length ring);
    if buffer_size = 0 then Some []
    else if fwk_ring_offset ring (head ring + buffer_size) > head ring then
      mem_read (storage ring) (head ring) buffer_size
    else do {
      let chunk_size = capacity ring - head ring;
      first \<leftarrow> mem_read (storage ring) (head ring) chunk_size;
      second \<leftarrow> mem_read (storage ring) 0 (buffer_size - chunk_size);
      Some (first @ second) } }"

text \<open>\<open>None\<close> as the destination is a NULL \<open>buffer\<close>: the bytes are dropped.\<close>

definition fwk_ring_pop :: "fwk_ring \<Rightarrow> bool \<Rightarrow> nat \<Rightarrow> (nat \<times> u8 list \<times> fwk_ring) option" where
  "fwk_ring_pop ring buffer_is_null buffer_size0 = do {
    (buffer_size, bytes) \<leftarrow>
      (if buffer_is_null then Some (min buffer_size0 (fwk_ring_get_length ring), [])
       else do {
         bytes \<leftarrow> fwk_ring_peek ring buffer_size0;
         Some (length bytes, bytes) });
    if buffer_size > 0 then
      Some (buffer_size, bytes,
        ring\<lparr>head := fwk_ring_offset ring (head ring + buffer_size), full := False\<rparr>)
    else Some (buffer_size, bytes, ring) }"

definition fwk_ring_push :: "fwk_ring \<Rightarrow> u8 list \<Rightarrow> nat \<Rightarrow> (nat \<times> fwk_ring) option" where
  "fwk_ring_push ring buffer0 buffer_size0 =
    (if buffer_size0 = 0 then Some (buffer_size0, ring)
     else do {
       let (off, buffer_size) =
         (if buffer_size0 > capacity ring then (buffer_size0 - capacity ring, capacity ring)
          else (0, buffer_size0));
       let remaining = fwk_ring_get_free ring;
       st \<leftarrow>
         (if fwk_ring_offset ring (tail ring + buffer_size) > tail ring then do {
            bytes \<leftarrow> mem_read buffer0 off buffer_size;
            mem_write (storage ring) (tail ring) bytes }
          else do {
            let chunk_size = capacity ring - tail ring;
            first \<leftarrow> mem_read buffer0 off chunk_size;
            st1 \<leftarrow> mem_write (storage ring) (tail ring) first;
            second \<leftarrow> mem_read buffer0 (off + chunk_size) (buffer_size - chunk_size);
            mem_write st1 0 second });
       let ring1 = ring\<lparr>storage := st, tail := fwk_ring_offset ring (tail ring + buffer_size)\<rparr>;
       let ring2 =
         (if buffer_size \<ge> remaining then ring1\<lparr>head := tail ring1, full := True\<rparr> else ring1);
       Some (buffer_size, ring2) })"

section \<open>Abstraction and invariant\<close>

definition ring_contents :: "fwk_ring \<Rightarrow> u8 list" where
  "ring_contents ring = take (fwk_ring_get_length ring) (drop (head ring) (storage ring @ storage ring))"

text \<open>The capacity is at most half the address space, so an index plus a length does not wrap.\<close>

definition ring_wf :: "fwk_ring \<Rightarrow> bool" where
  "ring_wf ring \<longleftrightarrow>
    0 < capacity ring \<and> 2 * capacity ring \<le> size_bound \<and> length (storage ring) = capacity ring \<and>
    head ring < capacity ring \<and> tail ring < capacity ring \<and> (full ring \<longrightarrow> head ring = tail ring)"

section \<open>The storage seen from an index\<close>

lemma wrap_mod: "a < c \<Longrightarrow> n \<le> c \<Longrightarrow> (a + n) mod c = (if a + n < c then a + n else a + n - c)"
  for a :: nat
  by (cases "a + n = c + c") (auto simp: mod_if)

lemma ring_lengthE:
  assumes "ring_wf r"
  shows "fwk_ring_get_length r \<le> capacity r"
    and "tail r = (head r + fwk_ring_get_length r) mod capacity r"
    and "full r \<longleftrightarrow> fwk_ring_get_length r = capacity r"
  using assms wrap_mod [of "head r" "capacity r" "fwk_ring_get_length r"]
  by (auto simp: ring_wf_def fwk_ring_get_length_def)

lemma offset_mod:
  "ring_wf r \<Longrightarrow> a < capacity r \<Longrightarrow> n \<le> capacity r \<Longrightarrow> fwk_ring_offset r (a + n) = (a + n) mod capacity r"
  by (auto simp: fwk_ring_offset_def ring_wf_def)

lemma offset_greater_iff:
  "ring_wf r \<Longrightarrow> a < capacity r \<Longrightarrow> n \<le> capacity r \<Longrightarrow> 0 < n \<Longrightarrow>
   fwk_ring_offset r (a + n) > a \<longleftrightarrow> a + n < capacity r"
  by (auto simp: offset_mod wrap_mod)

lemma rotate_less: "h \<le> length s \<Longrightarrow> rotate h s = drop h s @ take h s"
  using rotate_append [of "take h s" "drop h s"] by simp

lemma take_rotate: "k \<le> n \<Longrightarrow> n \<le> length xs \<Longrightarrow> take (n - k) (rotate k xs) = drop k (take n xs)"
  by (simp add: rotate_less drop_take)

lemma ring_contents_rotate:
  "ring_wf r \<Longrightarrow> ring_contents r = take (fwk_ring_get_length r) (rotate (head r) (storage r))"
  using ring_lengthE(1) [of r]
  by (auto simp: ring_contents_def rotate_less ring_wf_def)

lemma length_ring_contents: "ring_wf r \<Longrightarrow> length (ring_contents r) = fwk_ring_get_length r"
  using ring_lengthE(1) [of r] by (simp add: ring_contents_rotate ring_wf_def)

text \<open>Reading and writing \<open>n\<close> bytes circularly from an index, as the two-chunk code does.\<close>

lemma circular_read:
  assumes "h < length s" "n \<le> length s"
  shows "h + n < length s \<Longrightarrow> mem_read s h n = Some (take n (rotate h s))"
    and "\<not> h + n < length s \<Longrightarrow>
      mem_read s h (length s - h) = Some (drop h s) \<and>
      mem_read s 0 (n - (length s - h)) = Some (take (n - (length s - h)) s) \<and>
      take n (rotate h s) = drop h s @ take (n - (length s - h)) s"
  using assms by (auto simp: mem_read_def rotate_less min_def)

lemma circular_write:
  assumes "t < length s" "length bs \<le> length s"
  shows "t + length bs < length s \<Longrightarrow>
      (\<exists>s'. mem_write s t bs = Some s' \<and> length s' = length s \<and>
        rotate t s' = bs @ drop (length bs) (rotate t s))"
    and "\<not> t + length bs < length s \<Longrightarrow>
      (\<exists>s1 s'. mem_write s t (take (length s - t) bs) = Some s1 \<and>
        mem_write s1 0 (drop (length s - t) bs) = Some s' \<and> length s' = length s \<and>
        rotate t s' = bs @ drop (length bs) (rotate t s))"
  using assms by (auto simp: mem_write_def rotate_less min_def add.commute)

lemma ring_peek_contents:
  assumes "ring_wf r"
  shows "fwk_ring_peek r n = Some (take n (ring_contents r))"
proof -
  define k where "k = min n (fwk_ring_get_length r)"
  have wf: "head r < capacity r" "length (storage r) = capacity r" "k \<le> capacity r"
    using assms ring_lengthE(1) [OF assms] by (auto simp: ring_wf_def k_def)
  have c: "take n (ring_contents r) = take k (rotate (head r) (storage r))"
    by (simp add: ring_contents_rotate assms k_def)
  show ?thesis
  proof (cases "k = 0")
    case True
    then show ?thesis by (simp add: fwk_ring_peek_def c Let_def flip: k_def)
  next
    case False
    then have "fwk_ring_offset r (head r + k) > head r \<longleftrightarrow> head r + k < capacity r"
      using wf offset_greater_iff [OF assms, of "head r" k] by simp
    then show ?thesis
      using False wf circular_read [of "head r" "storage r" k]
      by (cases "head r + k < capacity r") (simp_all add: fwk_ring_peek_def c Let_def flip: k_def)
  qed
qed

lemma ring_pop_wf:
  assumes "ring_wf r"
  shows "\<exists>r'. fwk_ring_pop r nul n =
      Some (min n (length (ring_contents r)), if nul then [] else take n (ring_contents r), r') \<and>
    ring_wf r' \<and> capacity r' = capacity r \<and> ring_contents r' = drop n (ring_contents r)"
proof -
  let ?L = "fwk_ring_get_length r"
  define k where "k = min n ?L"
  note L = ring_lengthE [OF assms] length_ring_contents [OF assms]
  have wf: "head r < capacity r" "length (storage r) = capacity r" "k \<le> capacity r" "0 < capacity r"
    using assms L(1) by (auto simp: ring_wf_def k_def)
  define r' where "r' = (if k > 0 then r\<lparr>head := fwk_ring_offset r (head r + k), full := False\<rparr> else r)"
  have pop: "fwk_ring_pop r nul n = Some (k, if nul then [] else take n (ring_contents r), r')"
    using ring_peek_contents [OF assms, of n]
    by (simp add: fwk_ring_pop_def r'_def k_def L(4) Let_def min.commute)
  show ?thesis
  proof (cases "k = 0")
    case True
    then have "drop n (ring_contents r) = ring_contents r"
      using L(4) by (cases "n = 0") (auto simp: k_def min_def split: if_splits)
    moreover have "r' = r" using True by (simp add: r'_def)
    ultimately show ?thesis using pop True assms by (simp add: L(4) flip: k_def)
  next
    case False
    let ?h = "(head r + k) mod capacity r"
    have r': "r' = r\<lparr>head := ?h, full := False\<rparr>"
      using False wf offset_mod [OF assms, of "head r" k] by (simp add: r'_def)
    have wf': "ring_wf r'" using assms wf by (simp add: r' ring_wf_def)
    have len': "fwk_ring_get_length r' = ?L - k"
    proof -
      have h: "?h = (if head r + k < capacity r then head r + k else head r + k - capacity r)"
        using wf by (intro wrap_mod)
      have "k \<le> ?L" "tail r < capacity r" "full r \<longrightarrow> head r = tail r"
        using assms by (auto simp: k_def ring_wf_def)
      with h False wf(1,3) show ?thesis
        unfolding r' fwk_ring_get_length_def by (auto split: if_splits)
    qed
    have "rotate ?h (storage r) = rotate k (rotate (head r) (storage r))"
      using wf by (metis add.commute rotate_conv_mod rotate_rotate)
    also have "take (?L - k) \<dots> = drop k (take ?L (rotate (head r) (storage r)))"
      using wf L(1) by (intro take_rotate) (simp_all add: k_def)
    finally have "ring_contents r' = drop k (ring_contents r)"
      using ring_contents_rotate [OF wf'] ring_contents_rotate [OF assms] unfolding len' by (simp add: r')
    moreover have "drop k (ring_contents r) = drop n (ring_contents r)"
      using L(4) by (simp add: k_def min_def)
    ultimately have "ring_contents r' = drop n (ring_contents r)" by simp
    with pop wf' show ?thesis by (simp add: k_def L(4) r')
  qed
qed

text \<open>The last \<open>n\<close> bytes of a list: what an overwriting buffer of that capacity retains.\<close>

definition last_n :: "nat \<Rightarrow> 'a list \<Rightarrow> 'a list" where
  "last_n n xs = drop (length xs - n) xs"

lemma length_last_n [simp]: "length (last_n n xs) = min n (length xs)"
  by (simp add: last_n_def)

lemma last_n_all: "length xs \<le> n \<Longrightarrow> last_n n xs = xs"
  by (simp add: last_n_def)

lemma last_n_append: "last_n n (last_n n xs @ ys) = last_n n (xs @ ys)"
  by (cases "length xs \<le> n") (simp_all add: last_n_def add.commute)

lemma last_n_drop: "n \<le> length xs \<Longrightarrow> k + n \<le> length xs \<Longrightarrow> last_n n (drop k xs) = last_n n xs"
  by (simp add: last_n_def)

text \<open>A push of at most \<open>capacity\<close> bytes.\<close>

lemma ring_push_small:
  assumes wf: "ring_wf r" and k: "0 < k" "k \<le> capacity r" "off + k \<le> length bs"
    and st: "(if fwk_ring_offset r (tail r + k) > tail r then do {
            bytes \<leftarrow> mem_read bs off k;
            mem_write (storage r) (tail r) bytes }
          else do {
            let chunk_size = capacity r - tail r;
            first \<leftarrow> mem_read bs off chunk_size;
            st1 \<leftarrow> mem_write (storage r) (tail r) first;
            second \<leftarrow> mem_read bs (off + chunk_size) (k - chunk_size);
            mem_write st1 0 second }) = st"
  shows "\<exists>s'. st = Some s' \<and> length s' = capacity r \<and>
    rotate (tail r) s' = take k (drop off bs) @ drop k (rotate (tail r) (storage r))"
proof -
  let ?b = "take k (drop off bs)"
  have t: "tail r < length (storage r)" "length (storage r) = capacity r" "length ?b = k"
    using wf k by (auto simp: ring_wf_def)
  note iff = offset_greater_iff [OF wf, of "tail r" k]
  show ?thesis
  proof (cases "tail r + k < capacity r")
    case True
    then show ?thesis
      using circular_write(1) [of "tail r" "storage r" ?b] t k iff st by (auto simp: mem_read_def)
  next
    case False
    let ?c = "capacity r - tail r"
    have "take ?c (drop off bs) = take ?c ?b" "take (k - ?c) (drop (off + ?c) bs) = drop ?c ?b"
      using False k by (simp_all add: min_def drop_take add.commute)
    moreover have "mem_read bs off ?c = Some (take ?c (drop off bs))"
      "mem_read bs (off + ?c) (k - ?c) = Some (take (k - ?c) (drop (off + ?c) bs))"
      using False k t by (simp_all add: mem_read_def)
    ultimately show ?thesis
      using circular_write(2) [of "tail r" "storage r" ?b] t k iff st False by (auto simp: Let_def)
  qed
qed

lemma rotate_to_tail:
  assumes "ring_wf r"
  shows "rotate (tail r) (storage r) =
    drop (fwk_ring_get_length r) (rotate (head r) (storage r)) @ ring_contents r"
proof -
  let ?L = "fwk_ring_get_length r" and ?s = "rotate (head r) (storage r)"
  have len: "length (storage r) = capacity r" and L: "?L \<le> capacity r"
    using assms ring_lengthE(1) [OF assms] by (auto simp: ring_wf_def)
  have "rotate (tail r) (storage r) = rotate ?L ?s"
    using ring_lengthE(2) [OF assms] len by (metis add.commute rotate_conv_mod rotate_rotate)
  also have "\<dots> = drop ?L ?s @ take ?L ?s"
    using L len by (simp add: rotate_less)
  finally show ?thesis using assms by (simp add: ring_contents_rotate)
qed

lemma ring_push_wf:
  assumes wf: "ring_wf r" and n: "n \<le> length bs"
  shows "\<exists>r'. fwk_ring_push r bs n = Some (min n (capacity r), r') \<and>
    ring_wf r' \<and> capacity r' = capacity r \<and>
    ring_contents r' = last_n (capacity r) (ring_contents r @ take n bs)"
proof (cases "n = 0")
  case True
  then show ?thesis
    using wf ring_lengthE(1) [OF wf]
    by (simp add: fwk_ring_push_def last_n_all length_ring_contents)
next
  case False
  define k where "k = min n (capacity r)"
  define off where "off = n - k"
  let ?L = "fwk_ring_get_length r" and ?b = "take k (drop off bs)" and ?c = "ring_contents r"
  define r1 where "r1 s' = r\<lparr>storage := s', tail := (tail r + k) mod capacity r\<rparr>" for s'
  define r2 where "r2 s' = (if k \<ge> fwk_ring_get_free r
    then (r1 s')\<lparr>head := tail (r1 s'), full := True\<rparr> else r1 s')" for s'
  have k: "0 < k" "k \<le> capacity r" "off + k \<le> length bs" "off + k = n"
    using False n wf by (auto simp: k_def off_def ring_wf_def)
  have b: "length ?b = k" "tail r < capacity r" "head r < capacity r" "length (storage r) = capacity r"
    using k wf by (auto simp: ring_wf_def)
  note L = ring_lengthE [OF wf] and lenc = length_ring_contents [OF wf]
  obtain s' where s': "length s' = capacity r"
      "rotate (tail r) s' = ?b @ drop k (rotate (tail r) (storage r))"
    and push: "fwk_ring_push r bs n = Some (k, r2 s')"
  proof -
    have pair: "(if n > capacity r then (n - capacity r, capacity r) else (0, n)) = (off, k)"
      by (auto simp: off_def k_def)
    have "fwk_ring_offset r (tail r + k) = (tail r + k) mod capacity r"
      using offset_mod [OF wf b(2) k(2)] .
    then show ?thesis
      using ring_push_small [OF wf k(1-3) refl] False that
      by (auto simp: fwk_ring_push_def pair r1_def r2_def Let_def)
  qed
  have rot: "rotate (tail r) s' = ?b @ drop k (drop ?L (rotate (head r) (storage r)) @ ?c)"
    using s' rotate_to_tail [OF wf] by simp
  have tk: "take n bs = take off bs @ ?b"
    using k by (metis take_add)
  have wf2: "ring_wf (r2 s')" "capacity (r2 s') = capacity r"
    using wf s' L k(1) by (auto simp: r2_def r1_def ring_wf_def fwk_ring_get_free_def)
  have "ring_contents (r2 s') = last_n (capacity r) (?c @ take n bs)"
  proof (cases "k \<ge> fwk_ring_get_free r")
    case True
    have rt: "rotate k (rotate (tail r) s') = drop (k - (capacity r - ?L)) ?c @ ?b"
      using rot True b(1,4) L(1) k rotate_append [of ?b "drop (k - (capacity r - ?L)) ?c"]
      by (simp add: fwk_ring_get_free_def)
    have "rotate ((tail r + k) mod capacity r) s' = rotate k (rotate (tail r) s')"
      using s' by (metis add.commute rotate_conv_mod rotate_rotate)
    moreover have "fwk_ring_get_length (r2 s') = capacity r"
      using ring_lengthE(3) [OF wf2(1)] True by (simp add: r2_def r1_def)
    ultimately have "ring_contents (r2 s') = rotate k (rotate (tail r) s')"
      using wf2 True s'(1) by (simp add: ring_contents_rotate r2_def r1_def)
    also have "\<dots> = drop (k - (capacity r - ?L)) ?c @ ?b" by (rule rt)
    also have "\<dots> = last_n (capacity r) (?c @ take n bs)"
    proof -
      have len: "length (?c @ take n bs) - capacity r = ?L + n - capacity r" "off \<le> length bs"
        using lenc n k by simp_all
      have "off = 0 \<or> k = capacity r" by (auto simp: off_def k_def)
      then show ?thesis
      proof
        assume "off = 0"
        then show ?thesis using k(2,4) len lenc L(1) by (simp add: last_n_def add.commute)
      next
        assume "k = capacity r"
        then show ?thesis using len lenc L(1) k(3,4) by (simp add: last_n_def drop_take flip: k(4))
      qed
    qed
    finally show ?thesis .
  next
    case False
    then have kL: "k + ?L < capacity r" by (simp add: fwk_ring_get_free_def)
    then have off: "off = 0" and nk: "n = k" using k by (auto simp: k_def off_def min_def split: if_splits)
    have len2: "fwk_ring_get_length (r2 s') = ?L + k"
    proof -
      have t: "(tail r + k) mod capacity r =
          (if tail r + k < capacity r then tail r + k else tail r + k - capacity r)"
        using b(2) k(2) by (rule wrap_mod)
      have nf: "\<not> full r" using L(3) kL by auto
      have "fwk_ring_get_length (r2 s') =
          (if (tail r + k) mod capacity r \<ge> head r then (tail r + k) mod capacity r - head r
           else capacity r - head r + (tail r + k) mod capacity r)"
        using False nf by (simp add: r2_def r1_def fwk_ring_get_length_def)
      moreover have "?L = (if tail r \<ge> head r then tail r - head r else capacity r - head r + tail r)"
        using nf by (simp add: fwk_ring_get_length_def)
      ultimately show ?thesis using t b(2,3) kL by (auto split: if_splits)
    qed
    have hs: "rotate (head r) s' = rotate (capacity r - ?L) (rotate (tail r) s')"
    proof -
      have "rotate (capacity r - ?L) (rotate (tail r) s')
        = rotate ((capacity r - ?L + (head r + ?L) mod capacity r) mod capacity r) s'"
        using s' L(2) by (metis rotate_conv_mod rotate_rotate)
      also have "(capacity r - ?L + (head r + ?L) mod capacity r) mod capacity r = head r"
        using b L(1) wrap_mod [of "head r" "capacity r" ?L] by auto
      finally show ?thesis by simp
    qed
    have "rotate (tail r) s' = (?b @ drop (k + ?L) (rotate (head r) (storage r))) @ ?c"
      using rot kL b by simp
    moreover have "length (?b @ drop (k + ?L) (rotate (head r) (storage r))) = capacity r - ?L"
      using b kL by simp
    ultimately have "rotate (head r) s' = ?c @ ?b @ drop (k + ?L) (rotate (head r) (storage r))"
      unfolding hs by (metis rotate_append append_assoc)
    then have "ring_contents (r2 s') = ?c @ ?b"
      using wf2 False len2 lenc b by (simp add: ring_contents_rotate r2_def r1_def)
    then show ?thesis using kL lenc b off nk by (simp add: last_n_all)
  qed
  then show ?thesis using push wf2 by (simp add: k_def)
qed

section \<open>The interface: a bounded byte queue that overwrites its oldest bytes\<close>

locale overwriting_fifo =
  fixes wf :: "'r \<Rightarrow> bool"
    and contents :: "'r \<Rightarrow> 'b list"
    and room :: "'r \<Rightarrow> nat"
    and push :: "'r \<Rightarrow> 'b list \<Rightarrow> nat \<Rightarrow> (nat \<times> 'r) option"
    and pop :: "'r \<Rightarrow> bool \<Rightarrow> nat \<Rightarrow> (nat \<times> 'b list \<times> 'r) option"
  assumes contents_bound: "wf r \<Longrightarrow> length (contents r) \<le> room r"
    and push_law: "wf r \<Longrightarrow> n \<le> length bs \<Longrightarrow>
      \<exists>r'. push r bs n = Some (min n (room r), r') \<and> wf r' \<and> room r' = room r \<and>
        contents r' = last_n (room r) (contents r @ take n bs)"
    and pop_law: "wf r \<Longrightarrow>
      \<exists>r'. pop r nul n =
          Some (min n (length (contents r)), if nul then [] else take n (contents r), r') \<and>
        wf r' \<and> room r' = room r \<and> contents r' = drop n (contents r)"
begin

fun push_all :: "'r \<Rightarrow> 'b list list \<Rightarrow> 'r option" where
  "push_all r [] = Some r"
| "push_all r (bs # bss) = do { (n, r') \<leftarrow> push r bs (length bs); push_all r' bss }"

lemma push_all_contents:
  "wf r \<Longrightarrow> \<exists>r'. push_all r bss = Some r' \<and> wf r' \<and> room r' = room r \<and>
    contents r' = last_n (room r) (contents r @ concat bss)"
proof (induction bss arbitrary: r)
  case Nil
  then show ?case using contents_bound by (simp add: last_n_all)
next
  case (Cons bs bss)
  obtain r1 where r1: "push r bs (length bs) = Some (min (length bs) (room r), r1)" "wf r1"
      "room r1 = room r" "contents r1 = last_n (room r) (contents r @ bs)"
    using push_law [OF Cons.prems, of "length bs" bs] by auto
  obtain r2 where "push_all r1 bss = Some r2" "wf r2" "room r2 = room r1"
      "contents r2 = last_n (room r1) (contents r1 @ concat bss)"
    using Cons.IH [OF r1(2)] by auto
  with r1 show ?case by (simp add: last_n_append)
qed

lemma push_all_then_pop:
  assumes "wf r"
  shows "\<exists>r1 r2. push_all r bss = Some r1 \<and>
    pop r1 False (room r) = Some (length (contents r1), last_n (room r) (contents r @ concat bss), r2) \<and>
    contents r2 = []"
proof -
  obtain r1 where r1: "push_all r bss = Some r1" "wf r1" "room r1 = room r"
      "contents r1 = last_n (room r) (contents r @ concat bss)"
    using push_all_contents [OF assms] by blast
  then show ?thesis
    using pop_law [OF r1(2), of False "room r"] contents_bound [OF r1(2)] by auto
qed

end

interpretation ring: overwriting_fifo ring_wf ring_contents capacity fwk_ring_push fwk_ring_pop
proof unfold_locales
  show "length (ring_contents r) \<le> capacity r" if "ring_wf r" for r
    using that by (simp add: length_ring_contents ring_lengthE(1))
qed (use ring_push_wf ring_pop_wf in blast)+

section \<open>Properties\<close>

lemma ring_init_wf:
  "0 < n \<Longrightarrow> 2 * n \<le> size_bound \<Longrightarrow> length st = n \<Longrightarrow>
    \<exists>r. fwk_ring_init st n = Some r \<and> ring_wf r \<and> ring_contents r = [] \<and> capacity r = n"
  by (simp add: fwk_ring_init_def fwk_ring_clear_def ring_wf_def ring_contents_def
      fwk_ring_get_length_def)

text \<open>Pushing onto a well-formed ring never touches memory outside its storage and behaves as
  an overwriting queue: the bytes kept are the last \<open>capacity\<close> of the old contents followed by the
  new data, the value returned is the number of bytes written and the ring stays well formed. This
  covers the wrap-around branch, the truncation of an oversized buffer and the head update when
  data is lost.\<close>

theorem fwk_ring_push_correct:
  assumes "ring_wf r" and "n \<le> length bs"
  shows "\<exists>r'. fwk_ring_push r bs n = Some (min n (fwk_ring_get_capacity r), r') \<and> ring_wf r' \<and>
    ring_contents r' = last_n (capacity r) (ring_contents r @ take n bs)"
  using ring.push_law [OF assms] by (auto simp: fwk_ring_get_capacity_def)

definition ring_example :: fwk_ring where
  "ring_example = \<lparr>storage = [1, 2, 3, 4], head = 2, tail = 1, capacity = 4, full = False\<rparr>"

theorem fwk_ring_push_correct_witness:
  "\<exists>r'. fwk_ring_push ring_example [7, 8, 9] 3 = Some (3, r') \<and> ring_contents r' = [1, 7, 8, 9]"
proof -
  have "ring_wf ring_example" by (simp add: ring_wf_def ring_example_def size_bound_def)
  from fwk_ring_push_correct [OF this, of 3 "[7, 8, 9]"] show ?thesis
    by (auto simp: ring_example_def ring_contents_def fwk_ring_get_length_def last_n_def
        fwk_ring_get_capacity_def)
qed

text \<open>Popping (or, with a NULL buffer, discarding) returns the oldest bytes in order, as many as
  asked for and present, and leaves the rest; peeking returns the same bytes.\<close>

theorem fwk_ring_pop_correct:
  assumes "ring_wf r"
  shows "\<exists>r'. fwk_ring_pop r nul n =
      Some (min n (fwk_ring_get_length r), if nul then [] else take n (ring_contents r), r') \<and>
    ring_wf r' \<and> ring_contents r' = drop n (ring_contents r) \<and>
    fwk_ring_peek r n = Some (take n (ring_contents r))"
  using ring.pop_law [OF assms, of nul n]
  by (auto simp: ring_peek_contents assms length_ring_contents)

theorem fwk_ring_pop_correct_witness:
  "\<exists>r'. fwk_ring_pop ring_example False 2 = Some (2, [3, 4], r') \<and> ring_contents r' = [1]"
proof -
  have "ring_wf ring_example" by (simp add: ring_wf_def ring_example_def size_bound_def)
  from fwk_ring_pop_correct [OF this, of False 2] show ?thesis
    by (auto simp: ring_example_def ring_contents_def fwk_ring_get_length_def)
qed

end
