(* ===== verification/Fwk_Id.thy ===== *)
theory Fwk_Id
  imports Fwk_Status
begin

unbundle bit_operations_syntax

text \<open>
  Identifiers (\<open>fwk_id.c\<close>, \<open>fwk_id.h\<close>, \<open>internal/fwk_id.h\<close>). The union \<open>fwk_id_t\<close> is its
  32-bit \<open>value\<close>; a bit-field is read with \<open>id_field lo width\<close>, the fields being packed from the
  least significant bit as the supported compilers do. An accessor whose \<open>fwk_assert\<close> fails is
  \<open>None\<close>.
\<close>

type_synonym fwk_id = u32

datatype fwk_id_type =
    FWK_ID_TYPE_INVALID
  | FWK_ID_TYPE_NONE
  | FWK_ID_TYPE_MODULE
  | FWK_ID_TYPE_ELEMENT
  | FWK_ID_TYPE_SUB_ELEMENT
  | FWK_ID_TYPE_API
  | FWK_ID_TYPE_EVENT
  | FWK_ID_TYPE_NOTIFICATION

fun id_type_code :: "fwk_id_type \<Rightarrow> u32" where
  "id_type_code FWK_ID_TYPE_INVALID = 0"
| "id_type_code FWK_ID_TYPE_NONE = 1"
| "id_type_code FWK_ID_TYPE_MODULE = 2"
| "id_type_code FWK_ID_TYPE_ELEMENT = 3"
| "id_type_code FWK_ID_TYPE_SUB_ELEMENT = 4"
| "id_type_code FWK_ID_TYPE_API = 5"
| "id_type_code FWK_ID_TYPE_EVENT = 6"
| "id_type_code FWK_ID_TYPE_NOTIFICATION = 7"

definition FWK_ID_TYPE_COUNT :: u32 where
  "FWK_ID_TYPE_COUNT = 8"

section \<open>The fields of the union\<close>

definition id_field :: "nat \<Rightarrow> nat \<Rightarrow> fwk_id \<Rightarrow> u32" where
  "id_field lo width v = take_bit width (drop_bit lo v)"

definition common_type :: "fwk_id \<Rightarrow> u32" where
  "common_type v = id_field 0 4 v"

definition common_module_idx :: "fwk_id \<Rightarrow> u32" where
  "common_module_idx v = id_field 4 8 v"

definition element_element_idx :: "fwk_id \<Rightarrow> u32" where
  "element_element_idx v = id_field 12 12 v"

definition sub_element_sub_element_idx :: "fwk_id \<Rightarrow> u32" where
  "sub_element_sub_element_idx v = id_field 24 8 v"

definition api_api_idx :: "fwk_id \<Rightarrow> u32" where
  "api_api_idx v = id_field 12 4 v"

definition event_event_idx :: "fwk_id \<Rightarrow> u32" where
  "event_event_idx v = id_field 12 6 v"

definition notification_notification_idx :: "fwk_id \<Rightarrow> u32" where
  "notification_notification_idx v = id_field 12 6 v"

lemmas id_field_defs = id_field_def common_type_def common_module_idx_def element_element_idx_def
  sub_element_sub_element_idx_def api_api_idx_def event_event_idx_def
  notification_notification_idx_def

section \<open>Constructors\<close>

text \<open>A designated initialiser stores each value truncated to the width of its field and leaves
  the other bits zero.\<close>

definition FWK_ID_NONE :: fwk_id where
  "FWK_ID_NONE = id_type_code FWK_ID_TYPE_NONE"

definition FWK_ID_MODULE :: "u32 \<Rightarrow> fwk_id" where
  "FWK_ID_MODULE m = id_type_code FWK_ID_TYPE_MODULE OR push_bit 4 (take_bit 8 m)"

definition FWK_ID_ELEMENT :: "u32 \<Rightarrow> u32 \<Rightarrow> fwk_id" where
  "FWK_ID_ELEMENT m e =
    id_type_code FWK_ID_TYPE_ELEMENT OR push_bit 4 (take_bit 8 m) OR push_bit 12 (take_bit 12 e)"

definition FWK_ID_SUB_ELEMENT :: "u32 \<Rightarrow> u32 \<Rightarrow> u32 \<Rightarrow> fwk_id" where
  "FWK_ID_SUB_ELEMENT m e s =
    id_type_code FWK_ID_TYPE_SUB_ELEMENT OR push_bit 4 (take_bit 8 m) OR push_bit 12 (take_bit 12 e)
      OR push_bit 24 (take_bit 8 s)"

definition FWK_ID_API :: "u32 \<Rightarrow> u32 \<Rightarrow> fwk_id" where
  "FWK_ID_API m a =
    id_type_code FWK_ID_TYPE_API OR push_bit 4 (take_bit 8 m) OR push_bit 12 (take_bit 4 a)"

definition FWK_ID_EVENT :: "u32 \<Rightarrow> u32 \<Rightarrow> fwk_id" where
  "FWK_ID_EVENT m e =
    id_type_code FWK_ID_TYPE_EVENT OR push_bit 4 (take_bit 8 m) OR push_bit 12 (take_bit 6 e)"

definition FWK_ID_NOTIFICATION :: "u32 \<Rightarrow> u32 \<Rightarrow> fwk_id" where
  "FWK_ID_NOTIFICATION m n =
    id_type_code FWK_ID_TYPE_NOTIFICATION OR push_bit 4 (take_bit 8 m) OR push_bit 12 (take_bit 6 n)"

lemmas id_constructor_defs = FWK_ID_NONE_def FWK_ID_MODULE_def FWK_ID_ELEMENT_def
  FWK_ID_SUB_ELEMENT_def FWK_ID_API_def FWK_ID_EVENT_def FWK_ID_NOTIFICATION_def

section \<open>Type queries\<close>

text \<open>Reading the numeric type as the enumeration; the values 8 to 15 of the 4-bit field name no
  constructor and every caller excludes them first.\<close>

definition id_type_of_code :: "u32 \<Rightarrow> fwk_id_type" where
  "id_type_of_code c =
    (if c = 1 then FWK_ID_TYPE_NONE else if c = 2 then FWK_ID_TYPE_MODULE
     else if c = 3 then FWK_ID_TYPE_ELEMENT else if c = 4 then FWK_ID_TYPE_SUB_ELEMENT
     else if c = 5 then FWK_ID_TYPE_API else if c = 6 then FWK_ID_TYPE_EVENT
     else if c = 7 then FWK_ID_TYPE_NOTIFICATION else FWK_ID_TYPE_INVALID)"

definition fwk_id_type_is_valid :: "fwk_id \<Rightarrow> bool" where
  "fwk_id_type_is_valid i \<longleftrightarrow>
    common_type i \<noteq> id_type_code FWK_ID_TYPE_INVALID \<and> common_type i < FWK_ID_TYPE_COUNT"

definition fwk_id_is_type :: "fwk_id \<Rightarrow> fwk_id_type \<Rightarrow> bool option" where
  "fwk_id_is_type i t = do {
    fwk_assert (common_type i \<noteq> id_type_code FWK_ID_TYPE_INVALID);
    fwk_assert (common_type i < FWK_ID_TYPE_COUNT);
    Some (common_type i = id_type_code t) }"

definition fwk_id_get_type :: "fwk_id \<Rightarrow> fwk_id_type option" where
  "fwk_id_get_type i = do {
    fwk_assert (common_type i \<noteq> id_type_code FWK_ID_TYPE_INVALID);
    fwk_assert (common_type i < FWK_ID_TYPE_COUNT);
    Some (id_type_of_code (common_type i)) }"

definition fwk_id_is_equal :: "fwk_id \<Rightarrow> fwk_id \<Rightarrow> bool option" where
  "fwk_id_is_equal left right = do {
    fwk_assert (common_type left \<noteq> id_type_code FWK_ID_TYPE_INVALID);
    fwk_assert (common_type left < FWK_ID_TYPE_COUNT);
    Some (left = right) }"

definition fwk_optional_id_is_defined :: "fwk_id \<Rightarrow> bool option" where
  "fwk_optional_id_is_defined i = do {
    fwk_assert (common_type i < FWK_ID_TYPE_COUNT);
    Some (common_type i \<noteq> id_type_code FWK_ID_TYPE_INVALID) }"

section \<open>Building identifiers from identifiers\<close>

definition fwk_id_build_module_id :: "fwk_id \<Rightarrow> fwk_id option" where
  "fwk_id_build_module_id i = do {
    fwk_assert (common_type i \<noteq> id_type_code FWK_ID_TYPE_INVALID);
    fwk_assert (common_type i < FWK_ID_TYPE_COUNT);
    Some (FWK_ID_MODULE (common_module_idx i)) }"

definition fwk_id_build_element_id :: "fwk_id \<Rightarrow> u32 \<Rightarrow> fwk_id option" where
  "fwk_id_build_element_id i element_idx = do {
    fwk_assert (common_type i \<noteq> id_type_code FWK_ID_TYPE_INVALID);
    fwk_assert (common_type i < FWK_ID_TYPE_COUNT);
    Some (FWK_ID_ELEMENT (common_module_idx i) element_idx) }"

definition fwk_id_build_sub_element_id :: "fwk_id \<Rightarrow> u32 \<Rightarrow> fwk_id option" where
  "fwk_id_build_sub_element_id i sub_element_idx = do {
    fwk_assert (common_type i = id_type_code FWK_ID_TYPE_ELEMENT);
    Some (FWK_ID_SUB_ELEMENT (common_module_idx i) (element_element_idx i) sub_element_idx) }"

definition fwk_id_build_api_id :: "fwk_id \<Rightarrow> u32 \<Rightarrow> fwk_id option" where
  "fwk_id_build_api_id i api_idx = do {
    fwk_assert (common_type i \<noteq> id_type_code FWK_ID_TYPE_INVALID);
    fwk_assert (common_type i < FWK_ID_TYPE_COUNT);
    Some (FWK_ID_API (common_module_idx i) api_idx) }"

section \<open>Reading indices\<close>

definition fwk_id_get_module_idx :: "fwk_id \<Rightarrow> u32 option" where
  "fwk_id_get_module_idx i = do {
    fwk_assert (common_type i \<noteq> id_type_code FWK_ID_TYPE_INVALID);
    fwk_assert (common_type i < FWK_ID_TYPE_COUNT);
    Some (common_module_idx i) }"

definition fwk_id_get_element_idx :: "fwk_id \<Rightarrow> u32 option" where
  "fwk_id_get_element_idx element_id = do {
    fwk_assert (common_type element_id = id_type_code FWK_ID_TYPE_ELEMENT \<or>
                common_type element_id = id_type_code FWK_ID_TYPE_SUB_ELEMENT);
    Some (element_element_idx element_id) }"

definition fwk_id_get_sub_element_idx :: "fwk_id \<Rightarrow> u32 option" where
  "fwk_id_get_sub_element_idx sub_element_id = do {
    fwk_assert (common_type sub_element_id = id_type_code FWK_ID_TYPE_SUB_ELEMENT);
    Some (sub_element_sub_element_idx sub_element_id) }"

definition fwk_id_get_api_idx :: "fwk_id \<Rightarrow> u32 option" where
  "fwk_id_get_api_idx api_id = do {
    fwk_assert (common_type api_id = id_type_code FWK_ID_TYPE_API);
    Some (api_api_idx api_id) }"

definition fwk_id_get_event_idx :: "fwk_id \<Rightarrow> u32 option" where
  "fwk_id_get_event_idx event_id = do {
    fwk_assert (common_type event_id = id_type_code FWK_ID_TYPE_EVENT);
    Some (event_event_idx event_id) }"

definition fwk_id_get_notification_idx :: "fwk_id \<Rightarrow> u32 option" where
  "fwk_id_get_notification_idx notification_id = do {
    fwk_assert (common_type notification_id = id_type_code FWK_ID_TYPE_NOTIFICATION);
    Some (notification_notification_idx notification_id) }"

lemmas id_query_defs = fwk_id_is_type_def fwk_id_get_type_def fwk_id_is_equal_def
  fwk_optional_id_is_defined_def fwk_id_build_module_id_def fwk_id_build_element_id_def
  fwk_id_build_sub_element_id_def fwk_id_build_api_id_def fwk_id_get_module_idx_def
  fwk_id_get_element_idx_def fwk_id_get_sub_element_idx_def fwk_id_get_api_idx_def
  fwk_id_get_event_idx_def fwk_id_get_notification_idx_def

section \<open>Fields of constructed identifiers\<close>

text \<open>Each field of a constructed identifier is the argument truncated to the field's width, so
  the constructors are injective on arguments in range and the variants are disjoint.\<close>

lemma pack_field:
  fixes c :: u32
  shows "id_field 0 4 (take_bit 4 c) = take_bit 4 c"
    and "id_field 0 4 (take_bit 4 c OR push_bit 4 x) = take_bit 4 c"
    and "id_field 0 4 (take_bit 4 c OR push_bit 4 x OR push_bit 12 y) = take_bit 4 c"
    and "id_field 0 4 (take_bit 4 c OR push_bit 4 x OR push_bit 12 y OR push_bit 24 z) = take_bit 4 c"
    and "id_field 4 8 (take_bit 4 c OR push_bit 4 (take_bit 8 m)) = take_bit 8 m"
    and "id_field 4 8 (take_bit 4 c OR push_bit 4 (take_bit 8 m) OR push_bit 12 y) = take_bit 8 m"
    and "id_field 4 8 (take_bit 4 c OR push_bit 4 (take_bit 8 m) OR push_bit 12 y OR push_bit 24 z)
      = take_bit 8 m"
    and "k \<le> 12 \<Longrightarrow> id_field 12 k (take_bit 4 c OR push_bit 4 (take_bit 8 m) OR push_bit 12 (take_bit k y))
      = take_bit k y"
    and "id_field 12 12 (take_bit 4 c OR push_bit 4 (take_bit 8 m) OR push_bit 12 (take_bit 12 y)
      OR push_bit 24 z) = take_bit 12 y"
    and "id_field 24 8 (take_bit 4 c OR push_bit 4 (take_bit 8 m) OR push_bit 12 (take_bit 12 y)
      OR push_bit 24 (take_bit 8 z)) = take_bit 8 z"
  by (rule bit_eqI; auto simp: id_field_def bit_simps)+

lemma type_code_take_bit [simp]: "take_bit 4 (id_type_code t) = id_type_code t"
  by (cases t) simp_all

lemma common_type_code: "common_type (id_type_code t) = id_type_code t"
  using pack_field(1) [of "id_type_code t"] by (simp add: common_type_def)

lemma common_type_simps [simp]:
  "common_type FWK_ID_NONE = 1"
  "common_type (FWK_ID_MODULE m) = 2"
  "common_type (FWK_ID_ELEMENT m e) = 3"
  "common_type (FWK_ID_SUB_ELEMENT m e s) = 4"
  "common_type (FWK_ID_API m a) = 5"
  "common_type (FWK_ID_EVENT m v) = 6"
  "common_type (FWK_ID_NOTIFICATION m n) = 7"
  using pack_field(1-4) [of 1] pack_field(1-4) [of 2] pack_field(1-4) [of 3] pack_field(1-4) [of 4]
    pack_field(1-4) [of 5] pack_field(1-4) [of 6] pack_field(1-4) [of 7]
  by (simp_all add: common_type_def id_constructor_defs)

lemma common_module_idx_simps [simp]:
  "common_module_idx (FWK_ID_MODULE m) = take_bit 8 m"
  "common_module_idx (FWK_ID_ELEMENT m e) = take_bit 8 m"
  "common_module_idx (FWK_ID_SUB_ELEMENT m e s) = take_bit 8 m"
  "common_module_idx (FWK_ID_API m a) = take_bit 8 m"
  "common_module_idx (FWK_ID_EVENT m v) = take_bit 8 m"
  "common_module_idx (FWK_ID_NOTIFICATION m n) = take_bit 8 m"
  using pack_field(5-7) [of 2 m] pack_field(5-7) [of 3 m] pack_field(5-7) [of 4 m]
    pack_field(5-7) [of 5 m] pack_field(5-7) [of 6 m] pack_field(5-7) [of 7 m]
  by (simp_all add: common_module_idx_def id_constructor_defs)

lemma variant_idx_simps [simp]:
  "element_element_idx (FWK_ID_ELEMENT m e) = take_bit 12 e"
  "element_element_idx (FWK_ID_SUB_ELEMENT m e s) = take_bit 12 e"
  "sub_element_sub_element_idx (FWK_ID_SUB_ELEMENT m e s) = take_bit 8 s"
  "api_api_idx (FWK_ID_API m a) = take_bit 4 a"
  "event_event_idx (FWK_ID_EVENT m v) = take_bit 6 v"
  "notification_notification_idx (FWK_ID_NOTIFICATION m n) = take_bit 6 n"
  using pack_field(8) [of 12 3 m e] pack_field(8) [of 4 5 m a] pack_field(8) [of 6 6 m v]
    pack_field(8) [of 6 7 m n] pack_field(9) [of 4 m e] pack_field(10) [of 4 m e s]
  by (simp_all add: element_element_idx_def sub_element_sub_element_idx_def api_api_idx_def
      event_event_idx_def notification_notification_idx_def id_constructor_defs)

lemma id_type_of_code_code: "t \<noteq> FWK_ID_TYPE_INVALID \<Longrightarrow> id_type_of_code (id_type_code t) = t"
  by (cases t) (simp_all add: id_type_of_code_def)

lemma u32_less_8_cases: "(c :: u32) < 8 \<Longrightarrow> c \<in> {0, 1, 2, 3, 4, 5, 6, 7}"
proof -
  assume "c < 8"
  then have "unat c \<in> {0, 1, 2, 3, 4, 5, 6, 7}" by (auto simp: word_less_nat_alt)
  then show ?thesis by (auto simp: word_unat_eq_iff)
qed

lemma fwk_id_get_type_Some_iff:
  "fwk_id_get_type i = Some t \<longleftrightarrow> t \<noteq> FWK_ID_TYPE_INVALID \<and> common_type i = id_type_code t"
  by (cases t) (auto simp: fwk_id_get_type_def FWK_ID_TYPE_COUNT_def id_type_of_code_def
      dest!: u32_less_8_cases split: if_splits)

lemma fwk_id_is_type_Some_iff:
  "fwk_id_is_type i t = Some b \<longleftrightarrow> fwk_id_type_is_valid i \<and> b = (common_type i = id_type_code t)"
  by (auto simp: fwk_id_is_type_def fwk_id_type_is_valid_def)

lemma fwk_id_is_equal_Some_iff:
  "fwk_id_is_equal l r = Some b \<longleftrightarrow> fwk_id_type_is_valid l \<and> b = (l = r)"
  by (auto simp: fwk_id_is_equal_def fwk_id_type_is_valid_def)

lemma type_valid_simps [simp]:
  "fwk_id_type_is_valid FWK_ID_NONE"
  "fwk_id_type_is_valid (FWK_ID_MODULE m)"
  "fwk_id_type_is_valid (FWK_ID_ELEMENT m e)"
  "fwk_id_type_is_valid (FWK_ID_SUB_ELEMENT m e s)"
  "fwk_id_type_is_valid (FWK_ID_API m a)"
  "fwk_id_type_is_valid (FWK_ID_EVENT m v)"
  "fwk_id_type_is_valid (FWK_ID_NOTIFICATION m n)"
  by (simp_all add: fwk_id_type_is_valid_def FWK_ID_TYPE_COUNT_def)


section \<open>Text form of an identifier\<close>

fun id_type_name :: "fwk_id_type \<Rightarrow> string" where
  "id_type_name FWK_ID_TYPE_INVALID = ''INV''"
| "id_type_name FWK_ID_TYPE_NONE = ''NON''"
| "id_type_name FWK_ID_TYPE_MODULE = ''MOD''"
| "id_type_name FWK_ID_TYPE_ELEMENT = ''ELM''"
| "id_type_name FWK_ID_TYPE_SUB_ELEMENT = ''SUB''"
| "id_type_name FWK_ID_TYPE_API = ''API''"
| "id_type_name FWK_ID_TYPE_EVENT = ''EVT''"
| "id_type_name FWK_ID_TYPE_NOTIFICATION = ''NOT''"

text \<open>\<open>snprintf_at\<close> is one step \<open>length += snprintf(buffer + length, buffer_size - length, ...)\<close>:
  the state is the text in the buffer and \<open>length\<close>. The call stores at most
  \<open>buffer_size - length - 1\<close> characters and returns the length of the whole text. Once \<open>length\<close>
  has passed \<open>buffer_size\<close> the subtraction wraps and the call would write outside the buffer:
  that is \<open>None\<close>.\<close>

definition snprintf_at :: "nat \<Rightarrow> string \<Rightarrow> string \<times> nat \<Rightarrow> (string \<times> nat) option" where
  "snprintf_at buffer_size txt st =
    (case st of (buffer, len) \<Rightarrow>
      if len > buffer_size then None
      else Some (buffer @ take (buffer_size - len - 1) txt, len + length txt))"

definition id_indices :: "fwk_id \<Rightarrow> fwk_id_type \<Rightarrow> u32 \<times> u32 \<times> u32" where
  "id_indices i t =
    (common_module_idx i,
     (case t of
        FWK_ID_TYPE_SUB_ELEMENT \<Rightarrow> element_element_idx i
      | FWK_ID_TYPE_ELEMENT \<Rightarrow> element_element_idx i
      | FWK_ID_TYPE_API \<Rightarrow> api_api_idx i
      | FWK_ID_TYPE_EVENT \<Rightarrow> event_event_idx i
      | FWK_ID_TYPE_NOTIFICATION \<Rightarrow> notification_notification_idx i
      | _ \<Rightarrow> 0),
     (case t of FWK_ID_TYPE_SUB_ELEMENT \<Rightarrow> sub_element_sub_element_idx i | _ \<Rightarrow> 0))"

definition has_second_index :: "fwk_id_type \<Rightarrow> bool" where
  "has_second_index t \<longleftrightarrow> t \<in> {FWK_ID_TYPE_ELEMENT, FWK_ID_TYPE_SUB_ELEMENT, FWK_ID_TYPE_API,
     FWK_ID_TYPE_EVENT, FWK_ID_TYPE_NOTIFICATION}"

definition fwk_id_format :: "nat \<Rightarrow> fwk_id \<Rightarrow> string option" where
  "fwk_id_format buffer_size i = do {
    fwk_assert (buffer_size > 0);
    if common_type i \<ge> FWK_ID_TYPE_COUNT \<or> common_type i = id_type_code FWK_ID_TYPE_INVALID then do {
      (buffer, len) \<leftarrow>
        snprintf_at buffer_size (''['' @ id_type_name FWK_ID_TYPE_INVALID @ '']'') ([], 0);
      Some buffer }
    else do {
      let t = id_type_of_code (common_type i);
      let (indices0, indices1, indices2) = id_indices i t;
      st \<leftarrow> snprintf_at buffer_size (''['' @ id_type_name t @ '' '' @ dec (unat indices0)) ([], 0);
      st \<leftarrow> (if has_second_index t
             then snprintf_at buffer_size ('':'' @ dec (unat indices1)) st else Some st);
      st \<leftarrow> (if t = FWK_ID_TYPE_SUB_ELEMENT
             then snprintf_at buffer_size ('':'' @ dec (unat indices2)) st else Some st);
      (buffer, len) \<leftarrow> snprintf_at buffer_size '']'' st;
      Some buffer } }"

text \<open>The only caller formats into the 20 bytes of \<open>struct __fwk_id_fmt\<close>.\<close>

definition fwk_id_fmt_size :: nat where
  "fwk_id_fmt_size = 20"

definition fwk_id_str :: "fwk_id \<Rightarrow> string option" where
  "fwk_id_str i = fwk_id_format fwk_id_fmt_size i"

text \<open>What the text should be, with no buffer: the specification of the formatter.\<close>

definition id_text :: "fwk_id \<Rightarrow> string" where
  "id_text i =
    (if fwk_id_type_is_valid i then
      (let t = id_type_of_code (common_type i); (a, b, c) = id_indices i t in
       ''['' @ id_type_name t @ '' '' @ dec (unat a)
         @ (if has_second_index t then '':'' @ dec (unat b) else '''')
         @ (if t = FWK_ID_TYPE_SUB_ELEMENT then '':'' @ dec (unat c) else '''') @ '']'')
     else ''[INV]'')"

lemma length_dec_field:
  assumes "2 ^ w \<le> (10 :: nat) ^ k" "0 < k" "w < 32"
  shows "length (dec (unat (id_field lo w i))) \<le> k"
proof (rule length_dec_le)
  have "unat (id_field lo w i) < 2 ^ w"
    unfolding id_field_def using assms by (intro unat_take_bit_less) simp
  then show "unat (id_field lo w i) < 10 ^ k" using assms by linarith
qed fact

lemma length_dec_indices:
  "length (dec (unat (common_module_idx i))) \<le> 3"
  "length (dec (unat (element_element_idx i))) \<le> 4"
  "length (dec (unat (sub_element_sub_element_idx i))) \<le> 3"
  "length (dec (unat (api_api_idx i))) \<le> 2"
  "length (dec (unat (event_event_idx i))) \<le> 2"
  "length (dec (unat (notification_notification_idx i))) \<le> 2"
  unfolding id_field_defs(2-) by (rule length_dec_field; simp)+

lemma length_id_type_name [simp]: "length (id_type_name t) = 3"
  by (cases t) simp_all

lemma length_id_text: "length (id_text i) < fwk_id_fmt_size"
proof -
  note l = length_dec_indices [of i]
  show ?thesis
    using l
    by (cases "id_type_of_code (common_type i)")
      (auto simp: id_text_def Let_def id_indices_def has_second_index_def fwk_id_fmt_size_def)
qed

lemma snprintf_at_fits:
  "len = length buffer \<Longrightarrow> len + length txt < n \<Longrightarrow>
   snprintf_at n txt (buffer, len) = Some (buffer @ txt, len + length txt)"
  by (simp add: snprintf_at_def)

lemma type_valid_unfold:
  "(common_type i \<ge> FWK_ID_TYPE_COUNT \<or> common_type i = id_type_code FWK_ID_TYPE_INVALID)
    \<longleftrightarrow> \<not> fwk_id_type_is_valid i"
  by (auto simp: fwk_id_type_is_valid_def)

lemma fwk_id_format_fits:
  assumes "length (id_text i) < n"
  shows "fwk_id_format n i = Some (id_text i)"
proof (cases "fwk_id_type_is_valid i")
  case False
  then show ?thesis
    using assms unfolding fwk_id_format_def type_valid_unfold
    by (simp add: id_text_def snprintf_at_def)
next
  case True
  then show ?thesis
    using assms unfolding fwk_id_format_def type_valid_unfold
    by (simp add: id_text_def Let_def snprintf_at_fits split: prod.splits if_splits)
qed

text \<open>Formatting an identifier into the 20-byte buffer of \<open>__fwk_id_str\<close> never truncates and
  never writes outside the buffer: whatever the 32-bit value, every snprintf step stays inside it
  and the text is the complete one with its terminator.\<close>

theorem fwk_id_str_complete:
  "fwk_id_str i = Some (id_text i) \<and> length (id_text i) + 1 \<le> fwk_id_fmt_size"
  using length_id_text [of i] fwk_id_format_fits [of i fwk_id_fmt_size]
  by (simp add: fwk_id_str_def)

section \<open>Round trip\<close>

lemma take_bit_id_iff: "n < LENGTH('a) \<Longrightarrow> take_bit n (w :: 'a :: len word) = w \<longleftrightarrow> unat w < 2 ^ n"
proof -
  assume n: "n < LENGTH('a)"
  have "take_bit n w = w \<longleftrightarrow> unat (take_bit n w) = unat w" by (simp add: word_unat_eq_iff)
  also have "\<dots> \<longleftrightarrow> unat w < 2 ^ n"
    using n by (simp add: unsigned_take_bit_eq take_bit_nat_eq_self_iff)
  finally show ?thesis .
qed

text \<open>Indices survive packing: an identifier built from indices within the widths of its
  bit-fields (8-bit module, 12-bit element, 8-bit sub-element, 4-bit API, 6-bit event) gives the
  same indices back through the accessors, without tripping an assertion.\<close>

theorem fwk_id_roundtrip:
  assumes "unat m < 256" "unat e < 4096" "unat s < 256" "unat a < 16" "unat v < 64"
  shows "fwk_id_get_module_idx (FWK_ID_ELEMENT m e) = Some m \<and>
    fwk_id_get_element_idx (FWK_ID_ELEMENT m e) = Some e \<and>
    fwk_id_build_module_id (FWK_ID_ELEMENT m e) = Some (FWK_ID_MODULE m) \<and>
    fwk_id_build_sub_element_id (FWK_ID_ELEMENT m e) s = Some (FWK_ID_SUB_ELEMENT m e s) \<and>
    fwk_id_get_element_idx (FWK_ID_SUB_ELEMENT m e s) = Some e \<and>
    fwk_id_get_sub_element_idx (FWK_ID_SUB_ELEMENT m e s) = Some s \<and>
    fwk_id_get_api_idx (FWK_ID_API m a) = Some a \<and>
    fwk_id_get_event_idx (FWK_ID_EVENT m v) = Some v \<and>
    fwk_id_get_notification_idx (FWK_ID_NOTIFICATION m v) = Some v"
proof -
  have "take_bit 8 m = m" "take_bit 12 e = e" "take_bit 8 s = s" "take_bit 4 a = a" "take_bit 6 v = v"
    using assms by (simp_all add: take_bit_id_iff)
  then show ?thesis by (simp add: id_query_defs FWK_ID_TYPE_COUNT_def)
qed

theorem fwk_id_roundtrip_witness:
  "fwk_id_get_element_idx (FWK_ID_ELEMENT 42 58) = Some 58 \<and>
   fwk_id_build_sub_element_id (FWK_ID_ELEMENT 42 58) 1 = Some (FWK_ID_SUB_ELEMENT 42 58 1)"
  using fwk_id_roundtrip [of 42 58 1 0 0] by simp

end
