(* ===== verification/Fwk_List.thy ===== *)
theory Fwk_List
  imports Fwk_Status
begin

text \<open>
  The intrusive linked lists (\<open>fwk_slist.c\<close>, \<open>fwk_dlist.c\<close>, reached through the macros of
  \<open>fwk_list.h\<close>), with \<open>FWK_MARKED_LIST_ENABLE\<close>. A list header and a node share their layout: the
  first word is \<open>slist.head\<close>, \<open>dlist.head\<close> or a node's \<open>next\<close>, the second is \<open>slist.tail\<close>,
  \<open>dlist.tail\<close> or a dlist node's \<open>prev\<close> (the static assertions of \<open>fwk_dlist.c\<close>). The heap
  therefore maps an address to its two words; NULL is 0. \<open>slist_repr\<close> and \<open>dlist_repr\<close> relate a
  header in the heap to the list of its nodes, and the interface \<open>intrusive_list\<close> states what
  every list of the framework promises; the two heap lists and the plain list with which the
  other theories model their queues are its three interpretations.
\<close>

type_synonym addr = nat

abbreviation NULL :: addr where "NULL \<equiv> 0"

record fwk_heap =
  nxt :: "addr \<Rightarrow> addr"
  prv :: "addr \<Rightarrow> addr"
  current_count :: "addr \<Rightarrow> u32"
  max_count :: "addr \<Rightarrow> u32"

definition set_nxt :: "addr \<Rightarrow> addr \<Rightarrow> fwk_heap \<Rightarrow> fwk_heap" where
  "set_nxt a v h = h\<lparr>nxt := (nxt h)(a := v)\<rparr>"

definition set_prv :: "addr \<Rightarrow> addr \<Rightarrow> fwk_heap \<Rightarrow> fwk_heap" where
  "set_prv a v h = h\<lparr>prv := (prv h)(a := v)\<rparr>"

lemma set_link_simps [simp]:
  "nxt (set_nxt a v h) = (nxt h)(a := v)" "prv (set_nxt a v h) = prv h"
  "nxt (set_prv a v h) = nxt h" "prv (set_prv a v h) = (prv h)(a := v)"
  "current_count (set_nxt a v h) = current_count h" "max_count (set_nxt a v h) = max_count h"
  "current_count (set_prv a v h) = current_count h" "max_count (set_prv a v h) = max_count h"
  by (simp_all add: set_nxt_def set_prv_def)

section \<open>Singly-linked lists\<close>

definition increment_slist_elements_count :: "addr \<Rightarrow> fwk_heap \<Rightarrow> fwk_heap" where
  "increment_slist_elements_count l h =
    (let c = current_count h l + 1 in
     h\<lparr>current_count := (current_count h)(l := c),
       max_count := (max_count h)(l := max (max_count h l) c)\<rparr>)"

definition decrement_slist_elements_count :: "addr \<Rightarrow> fwk_heap \<Rightarrow> fwk_heap" where
  "decrement_slist_elements_count l h =
    (if current_count h l > 0
     then h\<lparr>current_count := (current_count h)(l := current_count h l - 1)\<rparr> else h)"

lemma marks_links [simp]:
  "nxt (increment_slist_elements_count l h) = nxt h" "prv (increment_slist_elements_count l h) = prv h"
  "nxt (decrement_slist_elements_count l h) = nxt h" "prv (decrement_slist_elements_count l h) = prv h"
  by (simp_all add: increment_slist_elements_count_def decrement_slist_elements_count_def Let_def)

definition slist_init :: "addr \<Rightarrow> fwk_heap \<Rightarrow> fwk_heap option" where
  "slist_init l h = do {
    fwk_assert (l \<noteq> NULL);
    let h = set_prv l l (set_nxt l l h);
    Some (h\<lparr>current_count := (current_count h)(l := 0), max_count := (max_count h)(l := 0)\<rparr>) }"

definition slist_is_empty :: "addr \<Rightarrow> fwk_heap \<Rightarrow> bool option" where
  "slist_is_empty l h = do {
    fwk_assert (l \<noteq> NULL);
    let is_empty = (nxt h l = l);
    (if is_empty then fwk_assert (prv h l = nxt h l) else Some ());
    Some is_empty }"

definition slist_head :: "addr \<Rightarrow> fwk_heap \<Rightarrow> addr option" where
  "slist_head l h = do {
    fwk_assert (l \<noteq> NULL);
    is_empty \<leftarrow> slist_is_empty l h;
    if is_empty then Some NULL else Some (nxt h l) }"

definition slist_push_head :: "bool \<Rightarrow> addr \<Rightarrow> addr \<Rightarrow> fwk_heap \<Rightarrow> fwk_heap option" where
  "slist_push_head dbg l new h = do {
    fwk_assert (l \<noteq> NULL);
    fwk_assert (new \<noteq> NULL);
    fwk_check dbg (nxt h new = NULL);
    let h1 = set_nxt new (nxt h l) h;
    let h2 = set_nxt l new h1;
    let h3 = (if prv h2 l = l then set_prv l new h2 else h2);
    Some (increment_slist_elements_count l h3) }"

definition slist_push_tail :: "bool \<Rightarrow> addr \<Rightarrow> addr \<Rightarrow> fwk_heap \<Rightarrow> fwk_heap option" where
  "slist_push_tail dbg l new h = do {
    fwk_assert (l \<noteq> NULL);
    fwk_assert (new \<noteq> NULL);
    fwk_check dbg (nxt h new = NULL);
    let h1 = set_nxt new l h;
    let h2 = set_nxt (prv h1 l) new h1;
    let h3 = set_prv l new h2;
    Some (increment_slist_elements_count l h3) }"

definition slist_pop_head :: "addr \<Rightarrow> fwk_heap \<Rightarrow> (addr \<times> fwk_heap) option" where
  "slist_pop_head l h = do {
    fwk_assert (l \<noteq> NULL);
    is_empty \<leftarrow> slist_is_empty l h;
    if is_empty then Some (NULL, h)
    else do {
      let popped = nxt h l;
      let h1 = (if nxt h popped = l then set_prv l l h else h);
      let h2 = set_nxt l (nxt h1 popped) h1;
      let h3 = set_nxt popped NULL h2;
      Some (popped, decrement_slist_elements_count l h3) } }"

text \<open>The search loop shared by \<open>__fwk_slist_contains\<close> and \<open>__fwk_slist_remove\<close>: the iterator
  whose successor is the node, or \<open>Some None\<close> when the header is reached again. \<open>None\<close> is a
  NULL dereference or a loop that never meets either.\<close>

partial_function (option) slist_find :: "(addr \<Rightarrow> addr) \<Rightarrow> addr \<Rightarrow> addr \<Rightarrow> addr \<Rightarrow> addr option option" where
  "slist_find next l node node_iter =
    (if node_iter = NULL then None
     else if next node_iter = l then Some None
     else if next node_iter = node then Some (Some node_iter)
     else slist_find next l node (next node_iter))"

definition slist_contains :: "addr \<Rightarrow> addr \<Rightarrow> fwk_heap \<Rightarrow> bool option" where
  "slist_contains l node h = do {
    fwk_assert (l \<noteq> NULL);
    fwk_assert (node \<noteq> NULL);
    fwk_assert (nxt h node \<noteq> NULL);
    found \<leftarrow> slist_find (nxt h) l node l;
    Some (found \<noteq> None) }"

definition slist_next :: "addr \<Rightarrow> addr \<Rightarrow> fwk_heap \<Rightarrow> addr option" where
  "slist_next l node h = do {
    fwk_assert (l \<noteq> NULL);
    fwk_assert (node \<noteq> NULL);
    present \<leftarrow> slist_contains l node h;
    fwk_assert present;
    Some (if nxt h node = l then NULL else nxt h node) }"

definition slist_remove :: "bool \<Rightarrow> addr \<Rightarrow> addr \<Rightarrow> fwk_heap \<Rightarrow> fwk_heap option" where
  "slist_remove dbg l node h = do {
    fwk_assert (l \<noteq> NULL);
    fwk_assert (node \<noteq> NULL);
    fwk_assert (nxt h node \<noteq> NULL);
    found \<leftarrow> slist_find (nxt h) l node l;
    case found of
      Some node_iter \<Rightarrow> do {
        let h1 = set_nxt node_iter (nxt h node) h;
        let h2 = (if nxt h1 node = l then set_prv l node_iter h1 else h1);
        let h3 = set_nxt node NULL h2;
        Some (decrement_slist_elements_count l h3) }
    | None \<Rightarrow> do { fwk_unexpected dbg; Some h } }"

definition slist_get_max :: "addr \<Rightarrow> fwk_heap \<Rightarrow> u32" where
  "slist_get_max l h = max_count h l"

section \<open>Doubly-linked lists\<close>

definition dlist_push_head :: "bool \<Rightarrow> addr \<Rightarrow> addr \<Rightarrow> fwk_heap \<Rightarrow> fwk_heap option" where
  "dlist_push_head dbg l new h = do {
    fwk_assert (l \<noteq> NULL);
    fwk_assert (new \<noteq> NULL);
    fwk_check dbg (prv h new = NULL);
    let h1 = set_prv new l h;
    let h2 = set_prv (nxt h1 l) new h1;
    slist_push_head dbg l new h2 }"

definition dlist_push_tail :: "bool \<Rightarrow> addr \<Rightarrow> addr \<Rightarrow> fwk_heap \<Rightarrow> fwk_heap option" where
  "dlist_push_tail dbg l new h = do {
    fwk_assert (l \<noteq> NULL);
    fwk_assert (new \<noteq> NULL);
    fwk_check dbg (prv h new = NULL);
    let h1 = set_prv new (prv h l) h;
    slist_push_tail dbg l new h1 }"

definition dlist_pop_head :: "addr \<Rightarrow> fwk_heap \<Rightarrow> (addr \<times> fwk_heap) option" where
  "dlist_pop_head l h = do {
    fwk_assert (l \<noteq> NULL);
    (popped, h1) \<leftarrow> slist_pop_head l h;
    let h2 = set_prv (nxt h1 l) l h1;
    Some (popped, if popped \<noteq> NULL then set_prv popped NULL h2 else h2) }"

definition dlist_remove :: "addr \<Rightarrow> addr \<Rightarrow> fwk_heap \<Rightarrow> fwk_heap option" where
  "dlist_remove l node h = do {
    fwk_assert (l \<noteq> NULL);
    fwk_assert (node \<noteq> NULL);
    fwk_assert (node \<noteq> l);
    fwk_assert (prv h node \<noteq> NULL);
    fwk_assert (nxt h node \<noteq> NULL);
    present \<leftarrow> slist_contains l node h;
    fwk_assert present;
    let h1 = set_nxt (prv h node) (nxt h node) h;
    let h2 = set_prv (nxt h1 node) (prv h1 node) h1;
    Some (set_nxt node NULL (set_prv node NULL h2)) }"

definition dlist_insert :: "bool \<Rightarrow> addr \<Rightarrow> addr \<Rightarrow> addr \<Rightarrow> fwk_heap \<Rightarrow> fwk_heap option" where
  "dlist_insert dbg l new node h = do {
    fwk_assert (l \<noteq> NULL);
    fwk_assert (new \<noteq> NULL);
    fwk_assert (new \<noteq> node);
    fwk_check dbg (nxt h new = NULL);
    fwk_check dbg (prv h new = NULL);
    if node = NULL then dlist_push_tail dbg l new h
    else do {
      fwk_assert (prv h node \<noteq> NULL);
      fwk_assert (nxt h node \<noteq> NULL);
      present \<leftarrow> slist_contains l node h;
      fwk_assert present;
      let h1 = set_nxt (prv h node) new h;
      let h2 = set_prv new (prv h1 node) h1;
      let h3 = set_nxt new node h2;
      Some (set_prv node new h3) } }"

definition dlist_get_max :: "addr \<Rightarrow> fwk_heap \<Rightarrow> u32" where
  "dlist_get_max l h = max_count h l"

section \<open>Chains of links\<close>

fun chain :: "(addr \<Rightarrow> addr) \<Rightarrow> addr \<Rightarrow> addr list \<Rightarrow> addr \<Rightarrow> bool" where
  "chain f a [] z \<longleftrightarrow> f a = z"
| "chain f a (x # xs) z \<longleftrightarrow> f a = x \<and> chain f x xs z"

fun back_chain :: "(addr \<Rightarrow> addr) \<Rightarrow> addr \<Rightarrow> addr list \<Rightarrow> bool" where
  "back_chain p a [] \<longleftrightarrow> True"
| "back_chain p a (x # xs) \<longleftrightarrow> p x = a \<and> back_chain p x xs"

definition slist_repr :: "addr \<Rightarrow> fwk_heap \<Rightarrow> addr list \<Rightarrow> bool" where
  "slist_repr l h xs \<longleftrightarrow>
    chain (nxt h) l xs l \<and> distinct (l # xs) \<and> NULL \<notin> set (l # xs) \<and> prv h l = last (l # xs)"

definition dlist_repr :: "addr \<Rightarrow> fwk_heap \<Rightarrow> addr list \<Rightarrow> bool" where
  "dlist_repr l h xs \<longleftrightarrow> slist_repr l h xs \<and> back_chain (prv h) l xs"

lemma chain_upd [simp]: "y \<notin> set (a # xs) \<Longrightarrow> chain (f(y := v)) a xs z \<longleftrightarrow> chain f a xs z"
  by (induction xs arbitrary: a) auto

lemma chain_append: "chain f a (xs @ x # ys) z \<longleftrightarrow> chain f a xs x \<and> chain f x ys z"
  by (induction xs arbitrary: a) auto

lemma chain_redirect: "chain f a xs z \<Longrightarrow> distinct (a # xs) \<Longrightarrow> chain (f(last (a # xs) := y)) a xs y"
proof (induction xs arbitrary: a)
  case (Cons x xs)
  then show ?case by (cases xs) (auto split: if_splits)
qed simp

lemma back_chain_upd [simp]: "y \<notin> set xs \<Longrightarrow> back_chain (p(y := v)) a xs \<longleftrightarrow> back_chain p a xs"
  by (induction xs arbitrary: a) auto

lemma back_chain_append:
  "back_chain p a (xs @ x # ys) \<longleftrightarrow> back_chain p a xs \<and> p x = last (a # xs) \<and> back_chain p x ys"
  by (induction xs arbitrary: a) auto

lemma chain_first: "chain f a xs z \<Longrightarrow> f a = hd (xs @ [z])"
  by (cases xs) auto

lemma slist_find_present:
  "chain f a (xs @ x # ys) l \<Longrightarrow> l \<notin> set (xs @ x # ys) \<Longrightarrow> x \<notin> set xs \<Longrightarrow> NULL \<notin> set (a # xs) \<Longrightarrow>
   slist_find f l x a = Some (Some (last (a # xs)))"
proof (induction xs arbitrary: a)
  case Nil
  then show ?case by (simp add: slist_find.simps [of f l x a])
next
  case (Cons y xs)
  then show ?case by (auto simp: slist_find.simps [of f l x a])
qed

lemma slist_find_absent:
  "chain f a xs l \<Longrightarrow> l \<notin> set xs \<Longrightarrow> x \<notin> set xs \<Longrightarrow> NULL \<notin> set (a # xs) \<Longrightarrow>
   slist_find f l x a = Some None"
proof (induction xs arbitrary: a)
  case Nil
  then show ?case by (simp add: slist_find.simps [of f l x a])
next
  case (Cons y xs)
  then show ?case by (auto simp: slist_find.simps [of f l x a])
qed

lemma chain_nxt_not_null:
  "chain f a xs l \<Longrightarrow> NULL \<notin> set (l # xs) \<Longrightarrow> x \<in> set (a # xs) \<Longrightarrow> f x \<noteq> NULL"
  by (induction xs arbitrary: a) auto

lemma chain_last: "chain f a xs z \<Longrightarrow> f (last (a # xs)) = z"
  by (induction xs arbitrary: a) auto

lemma last_Cons_snoc [simp]: "last (a # xs @ [x]) = x"
  by simp

lemma last_Cons_append: "last (a # xs @ ys) = (if ys = [] then last (a # xs) else last ys)"
  by simp

section \<open>Effect on the represented list\<close>

definition slist_detached :: "addr \<Rightarrow> fwk_heap \<Rightarrow> addr \<Rightarrow> bool" where
  "slist_detached l h n \<longleftrightarrow> n \<noteq> NULL \<and> n \<noteq> l \<and> nxt h n = NULL"

definition dlist_detached :: "addr \<Rightarrow> fwk_heap \<Rightarrow> addr \<Rightarrow> bool" where
  "dlist_detached l h n \<longleftrightarrow> slist_detached l h n \<and> prv h n = NULL"

lemma slist_detached_notin: "slist_repr l h xs \<Longrightarrow> slist_detached l h n \<Longrightarrow> n \<notin> set xs"
  using chain_nxt_not_null [of "nxt h" l xs l n] by (auto simp: slist_repr_def slist_detached_def)

lemma slist_is_empty_repr: "slist_repr l h xs \<Longrightarrow> slist_is_empty l h = Some (xs = [])"
  by (cases xs) (auto simp: slist_repr_def slist_is_empty_def)

lemma slist_head_repr:
  "slist_repr l h xs \<Longrightarrow> slist_head l h = Some (case xs of [] \<Rightarrow> NULL | x # _ \<Rightarrow> x)"
  by (cases xs) (auto simp: slist_head_def slist_is_empty_repr, auto simp: slist_repr_def)

lemma slist_contains_repr:
  assumes "slist_repr l h xs" "x \<noteq> NULL" "x \<noteq> l" "nxt h x \<noteq> NULL"
  shows "slist_contains l x h = Some (x \<in> set xs)"
proof (cases "x \<in> set xs")
  case True
  then obtain as bs where "xs = as @ x # bs" "x \<notin> set as" by (meson split_list_first)
  then show ?thesis
    using assms slist_find_present [of "nxt h" l as x bs l]
    by (auto simp: slist_contains_def slist_repr_def)
next
  case False
  then show ?thesis
    using assms slist_find_absent [of "nxt h" l xs l x] by (auto simp: slist_contains_def slist_repr_def)
qed

lemma slist_contains_member: "slist_repr l h xs \<Longrightarrow> x \<in> set xs \<Longrightarrow> slist_contains l x h = Some True"
  using slist_contains_repr [of l h xs x] chain_nxt_not_null [of "nxt h" l xs l x]
  by (auto simp: slist_repr_def)

lemma slist_next_repr:
  assumes "slist_repr l h (as @ x # bs)"
  shows "slist_next l x h = Some (case bs of [] \<Rightarrow> NULL | b # _ \<Rightarrow> b)"
proof -
  have "chain (nxt h) x bs l" "l \<notin> set bs" "l \<noteq> NULL" "x \<noteq> NULL"
    using assms by (auto simp: slist_repr_def chain_append)
  then show ?thesis
    using slist_contains_member [OF assms, of x] by (cases bs) (auto simp: slist_next_def)
qed

lemma slist_push_tail_repr:
  assumes "slist_repr l h xs" "slist_detached l h n"
  shows "\<exists>h'. slist_push_tail dbg l n h = Some h' \<and> slist_repr l h' (xs @ [n]) \<and>
    nxt h' = (nxt h)(n := l, last (l # xs) := n) \<and> prv h' = (prv h)(l := n)"
proof -
  let ?f = "(nxt h)(n := l, last (l # xs) := n)"
  have n: "n \<notin> set xs" "n \<noteq> l" "n \<noteq> NULL" "nxt h n = NULL"
    using assms slist_detached_notin by (auto simp: slist_detached_def)
  have r: "chain (nxt h) l xs l" "distinct (l # xs)" "NULL \<notin> set (l # xs)" "prv h l = last (l # xs)"
    using assms(1) by (auto simp: slist_repr_def)
  have "chain ((nxt h)(n := l)) l xs l" using n r(1) by (subst chain_upd) auto
  then have "chain ?f l xs n" using r(2) by (intro chain_redirect)
  moreover have "last (l # xs) \<noteq> n" using n by (cases xs rule: rev_cases) auto
  ultimately have "chain ?f l (xs @ [n]) l" by (simp add: chain_append del: last.simps)
  then show ?thesis
    using n r by (auto simp: slist_push_tail_def slist_repr_def Let_def simp del: last.simps)
qed

lemma slist_push_head_repr:
  assumes "slist_repr l h xs" "slist_detached l h n"
  shows "\<exists>h'. slist_push_head dbg l n h = Some h' \<and> slist_repr l h' (n # xs) \<and>
    nxt h' = (nxt h)(n := nxt h l, l := n) \<and> prv h' = (if xs = [] then (prv h)(l := n) else prv h)"
proof -
  have n: "n \<notin> set xs" "n \<noteq> l" "n \<noteq> NULL" "nxt h n = NULL"
    using assms slist_detached_notin by (auto simp: slist_detached_def)
  have r: "chain (nxt h) l xs l" "distinct (l # xs)" "NULL \<notin> set (l # xs)" "prv h l = last (l # xs)"
    using assms(1) by (auto simp: slist_repr_def)
  have e: "prv h l = l \<longleftrightarrow> xs = []"
    using r by (cases xs rule: rev_cases) auto
  have "chain ((nxt h)(n := nxt h l, l := n)) n xs l"
    using n r by (cases xs) auto
  then show ?thesis
    using n r e by (cases xs) (auto simp: slist_push_head_def slist_repr_def Let_def)
qed

lemma slist_pop_empty: "slist_repr l h [] \<Longrightarrow> slist_pop_head l h = Some (NULL, h)"
  using slist_is_empty_repr [of l h "[]"] by (simp add: slist_pop_head_def slist_repr_def)

lemma slist_pop_repr:
  assumes "slist_repr l h (x # xs)"
  shows "\<exists>h'. slist_pop_head l h = Some (x, h') \<and> slist_repr l h' xs \<and>
    nxt h' = (nxt h)(l := nxt h x, x := NULL) \<and> prv h' = (if xs = [] then (prv h)(l := l) else prv h)"
proof -
  have r: "nxt h l = x" "chain (nxt h) x xs l" "distinct (l # x # xs)" "NULL \<notin> set (l # x # xs)"
    "prv h l = last (x # xs)"
    using assms by (auto simp: slist_repr_def)
  have e: "nxt h x = l \<longleftrightarrow> xs = []" using r by (cases xs) auto
  have "chain ((nxt h)(l := nxt h x, x := NULL)) l xs l" using r by (cases xs) auto
  then show ?thesis
    using r e slist_is_empty_repr [OF assms]
    by (auto simp: slist_pop_head_def slist_repr_def Let_def)
qed

lemma slist_remove_repr:
  assumes "slist_repr l h xs" "x \<in> set xs"
  shows "\<exists>h' y. slist_remove dbg l x h = Some h' \<and> slist_repr l h' (remove1 x xs) \<and>
    y \<in> set (l # xs) \<and> nxt h' = (nxt h)(y := nxt h x, x := NULL) \<and>
    (prv h' = prv h \<or> prv h' = (prv h)(l := y))"
proof -
  obtain as bs where xs: "xs = as @ x # bs" "x \<notin> set as" using assms(2) by (meson split_list_first)
  define y where "y = last (l # as)"
  let ?f = "(nxt h)(y := nxt h x, x := NULL)"
  have r: "chain (nxt h) l as x" "chain (nxt h) x bs l" "distinct (l # as @ x # bs)"
    "NULL \<notin> set (l # as @ x # bs)" "prv h l = last (x # bs)"
    using assms(1) xs by (auto simp: slist_repr_def chain_append)
  have y: "y \<in> set (l # as)" unfolding y_def by (rule last_in_set) simp
  then have yx: "y \<noteq> x" "y \<notin> set bs" using r(3) by auto
  have found: "slist_find (nxt h) l x l = Some (Some y)"
    unfolding y_def
    using assms(1) xs by (intro slist_find_present [where ys = bs]) (auto simp: slist_repr_def)
  have e: "nxt h x = l \<longleftrightarrow> bs = []" using r by (cases bs) auto
  have nn: "nxt h x \<noteq> NULL" using r by (intro chain_nxt_not_null [of "nxt h" x bs l]) auto
  have "chain ((nxt h)(y := nxt h x)) l as (nxt h x)"
    unfolding y_def using r by (intro chain_redirect) auto
  then have a: "chain ?f l as (nxt h x)" using r by (subst chain_upd) auto
  have ch: "chain ?f l (as @ bs) l"
  proof (cases bs)
    case Nil
    with a e show ?thesis by simp
  next
    case (Cons b bs')
    have "chain (nxt h) b bs' l" "nxt h x = b" using r Cons by auto
    with a r yx Cons show ?thesis by (simp add: chain_append)
  qed
  define h' where "h' = decrement_slist_elements_count l (set_nxt x NULL
    (if bs = [] then set_prv l y (set_nxt y (nxt h x) h) else set_nxt y (nxt h x) h))"
  have h': "nxt h' = ?f" "prv h' = (if bs = [] then (prv h)(l := y) else prv h)"
    by (simp_all add: h'_def)
  have "slist_remove dbg l x h = Some h'"
    using found r nn e yx by (simp add: slist_remove_def h'_def)
  moreover have "slist_repr l h' (remove1 x xs)"
    unfolding slist_repr_def h' using ch r xs
    by (auto simp: remove1_append last_Cons_append last_ConsR y_def simp del: last.simps)
  ultimately show ?thesis using h' y xs by auto
qed

text \<open>The same for doubly-linked lists, whose backward links name the predecessor.\<close>

lemma slist_repr_cong:
  "nxt h' = nxt h \<Longrightarrow> prv h' l = prv h l \<Longrightarrow> slist_repr l h' xs \<longleftrightarrow> slist_repr l h xs"
  by (simp add: slist_repr_def)

lemma dlist_push_tail_repr:
  assumes "dlist_repr l h xs" "dlist_detached l h n"
  shows "\<exists>h'. dlist_push_tail dbg l n h = Some h' \<and> dlist_repr l h' (xs @ [n]) \<and>
    nxt h' = (nxt h)(n := l, last (l # xs) := n) \<and> prv h' = (prv h)(n := prv h l, l := n)"
proof -
  let ?h1 = "set_prv n (prv h l) h"
  have s: "slist_repr l h xs" "back_chain (prv h) l xs" "n \<noteq> l" "n \<notin> set xs" "l \<notin> set xs" "l \<noteq> NULL"
    "n \<noteq> NULL" "prv h n = NULL" "prv h l = last (l # xs)"
    using assms slist_detached_notin [of l h xs n]
    by (auto simp: dlist_repr_def dlist_detached_def slist_detached_def slist_repr_def)
  have "slist_repr l ?h1 xs" "slist_detached l ?h1 n"
    using s assms(2) slist_repr_cong [of ?h1 h l xs]
    by (auto simp: dlist_detached_def slist_detached_def)
  then obtain h' where h': "slist_push_tail dbg l n ?h1 = Some h'" "slist_repr l h' (xs @ [n])"
    "nxt h' = (nxt h)(n := l, last (l # xs) := n)" "prv h' = (prv h)(n := prv h l, l := n)"
    using slist_push_tail_repr [of l ?h1 xs n dbg] by auto
  then show ?thesis
    using s by (auto simp: dlist_push_tail_def dlist_repr_def back_chain_append simp del: last.simps)
qed

lemma dlist_push_head_repr:
  assumes "dlist_repr l h xs" "dlist_detached l h n"
  shows "\<exists>h'. dlist_push_head dbg l n h = Some h' \<and> dlist_repr l h' (n # xs) \<and>
    nxt h' = (nxt h)(n := nxt h l, l := n) \<and> prv h' = (prv h)(n := l, nxt h l := n)"
proof -
  have s: "slist_repr l h xs" "back_chain (prv h) l xs" "n \<noteq> l" "n \<notin> set xs" "l \<notin> set xs" "l \<noteq> NULL"
    "n \<noteq> NULL" "prv h n = NULL" "nxt h n = NULL"
    using assms slist_detached_notin [of l h xs n]
    by (auto simp: dlist_repr_def dlist_detached_def slist_detached_def slist_repr_def)
  show ?thesis
  proof (cases xs)
    case Nil
    then show ?thesis
      using s by (auto simp: dlist_push_head_def slist_push_head_def dlist_repr_def slist_repr_def Let_def)
  next
    case (Cons x ys)
    let ?h2 = "set_prv x n (set_prv n l h)"
    have x: "nxt h l = x" "x \<noteq> l" "x \<noteq> n" using s Cons by (auto simp: slist_repr_def)
    have "slist_repr l ?h2 xs" "slist_detached l ?h2 n"
      using s x slist_repr_cong [of ?h2 h l xs] by (auto simp: slist_detached_def)
    then obtain h' where h': "slist_push_head dbg l n ?h2 = Some h'" "slist_repr l h' (n # xs)"
      "nxt h' = (nxt h)(n := nxt h l, l := n)" "prv h' = (prv h)(n := l, x := n)"
      using slist_push_head_repr [of l ?h2 xs n dbg] Cons by auto
    have "back_chain (prv h) x ys" "x \<notin> set ys" using s Cons by (auto simp: slist_repr_def)
    then show ?thesis
      using h' s x Cons by (auto simp: dlist_push_head_def dlist_repr_def)
  qed
qed

lemma dlist_pop_empty: "dlist_repr l h [] \<Longrightarrow> dlist_pop_head l h = Some (NULL, h)"
  using slist_pop_empty [of l h]
  by (auto simp: dlist_pop_head_def dlist_repr_def slist_repr_def set_prv_def fun_upd_idem)

lemma dlist_pop_repr:
  assumes "dlist_repr l h (x # xs)"
  shows "\<exists>h'. dlist_pop_head l h = Some (x, h') \<and> dlist_repr l h' xs \<and>
    nxt h' = (nxt h)(l := nxt h x, x := NULL) \<and> prv h' = (prv h)(nxt h x := l, x := NULL)"
proof -
  have s: "slist_repr l h (x # xs)" "back_chain (prv h) x xs" "x \<noteq> NULL" "x \<noteq> l" "x \<notin> set xs" "l \<notin> set xs"
    "l \<noteq> NULL"
    using assms by (auto simp: dlist_repr_def slist_repr_def)
  obtain h1 where h1: "slist_pop_head l h = Some (x, h1)" "slist_repr l h1 xs"
    "nxt h1 = (nxt h)(l := nxt h x, x := NULL)" "prv h1 = (if xs = [] then (prv h)(l := l) else prv h)"
    using slist_pop_repr [OF s(1)] by blast
  have nx: "nxt h x = (case xs of [] \<Rightarrow> l | y # _ \<Rightarrow> y)"
    using s(1) by (cases xs) (auto simp: slist_repr_def)
  let ?h' = "set_prv x NULL (set_prv (nxt h x) l h1)"
  have "dlist_pop_head l h = Some (x, ?h')"
    using h1 s by (simp add: dlist_pop_head_def)
  moreover have "slist_repr l ?h' xs"
    using h1(2) s slist_repr_cong [of ?h' h1 l xs] nx h1(4) by (cases xs) auto
  moreover have "back_chain (prv ?h') l xs"
    using s nx h1(4) by (cases xs) (auto simp: slist_repr_def)
  ultimately show ?thesis
    using h1 nx by (cases xs) (auto simp: dlist_repr_def fun_upd_twist)
qed

lemma dlist_middle:
  assumes "dlist_repr l h (as @ x # bs)"
  shows "chain (nxt h) l as x" "chain (nxt h) x bs l" "distinct (l # as @ x # bs)"
    "NULL \<notin> set (l # as @ x # bs)" "prv h l = last (x # bs)" "slist_repr l h (as @ x # bs)"
    "back_chain (prv h) l as" "prv h x = last (l # as)" "back_chain (prv h) x bs" "nxt h x \<noteq> NULL"
    "last (l # as) \<in> set (l # as)"
proof -
  show s: "chain (nxt h) l as x" "chain (nxt h) x bs l" "distinct (l # as @ x # bs)"
    "NULL \<notin> set (l # as @ x # bs)" "prv h l = last (x # bs)" "slist_repr l h (as @ x # bs)"
    "back_chain (prv h) l as" "prv h x = last (l # as)" "back_chain (prv h) x bs"
    using assms by (auto simp: dlist_repr_def slist_repr_def chain_append back_chain_append
        last_Cons_append simp del: last.simps)
  show "nxt h x \<noteq> NULL" using s by (intro chain_nxt_not_null [of "nxt h" x bs l]) auto
qed (rule last_in_set, simp)

lemma dlist_remove_repr:
  assumes "dlist_repr l h (as @ x # bs)"
  shows "\<exists>h'. dlist_remove l x h = Some h' \<and> dlist_repr l h' (as @ bs) \<and>
    nxt h' = (nxt h)(last (l # as) := nxt h x, x := NULL) \<and>
    prv h' = (prv h)(nxt h x := last (l # as), x := NULL)"
proof -
  define y where "y = last (l # as)"
  let ?n = "(nxt h)(y := nxt h x, x := NULL)" and ?p = "(prv h)(nxt h x := y, x := NULL)"
  note s = dlist_middle [OF assms, folded y_def]
  have y: "y \<in> set (l # as)" by (rule s)
  then have yx: "y \<noteq> x" "y \<notin> set bs" "y \<noteq> NULL" using s(3,4) by auto
  have nx: "nxt h x = (case bs of [] \<Rightarrow> l | b # _ \<Rightarrow> b)" using s(2) by (cases bs) auto
  define h' where
    "h' = set_nxt x NULL (set_prv x NULL (set_prv (nxt h x) y (set_nxt y (nxt h x) h)))"
  have h': "nxt h' = ?n" "prv h' = ?p" by (simp_all add: h'_def)
  have rm: "dlist_remove l x h = Some h'"
    using s yx slist_contains_member [OF s(6), of x] by (simp add: dlist_remove_def h'_def)
  have "chain ((nxt h)(y := nxt h x)) l as (nxt h x)"
    unfolding y_def using s by (intro chain_redirect) auto
  then have a: "chain ?n l as (nxt h x)" using s(3) by (subst chain_upd) auto
  have ch: "chain ?n l (as @ bs) l"
  proof (cases bs)
    case Nil
    with a nx show ?thesis by simp
  next
    case (Cons b bs')
    have "chain (nxt h) b bs' l" using s Cons by auto
    with a nx s(3) yx Cons show ?thesis by (simp add: chain_append)
  qed
  have bk: "back_chain ?p l (as @ bs)"
  proof (cases bs)
    case Nil
    with s nx show ?thesis by simp
  next
    case (Cons b bs')
    with s nx yx show ?thesis by (simp add: back_chain_append y_def del: last.simps)
  qed
  have "?p l = last (l # as @ bs)"
    using s(3,5) nx by (cases bs) (auto simp: last_Cons_append y_def)
  then have "dlist_repr l h' (as @ bs)"
    using ch bk s(3,4) by (auto simp: dlist_repr_def slist_repr_def h' simp del: last.simps)
  with rm h' show ?thesis by (simp add: y_def)
qed

lemma dlist_insert_repr:
  assumes "dlist_repr l h (as @ x # bs)" "dlist_detached l h n"
  shows "\<exists>h'. dlist_insert dbg l n x h = Some h' \<and> dlist_repr l h' (as @ n # x # bs)"
proof -
  define y where "y = last (l # as)"
  let ?n = "(nxt h)(y := n, n := x)" and ?p = "(prv h)(n := y, x := n)"
  note s = dlist_middle [OF assms(1), folded y_def]
  have n: "n \<notin> set (l # as @ x # bs)" "n \<noteq> NULL" "nxt h n = NULL" "prv h n = NULL"
    using slist_detached_notin [OF s(6), of n] assms(2)
    by (auto simp: dlist_detached_def slist_detached_def)
  have y: "y \<in> set (l # as)" by (rule s)
  then have yx: "y \<noteq> x" "y \<notin> set bs" "y \<noteq> NULL" "y \<noteq> n" using s(3,4) n(1) by auto
  define h' where "h' = set_prv x n (set_nxt n x (set_prv n y (set_nxt y n h)))"
  have h': "nxt h' = ?n" "prv h' = ?p" by (simp_all add: h'_def)
  have ins: "dlist_insert dbg l n x h = Some h'"
    using s n yx slist_contains_member [OF s(6), of x] by (auto simp: dlist_insert_def h'_def)
  have "chain ((nxt h)(y := n)) l as n" unfolding y_def using s by (intro chain_redirect) auto
  then have "chain ?n l as n" using n by (subst chain_upd) auto
  moreover have "chain ?n x bs l" using s n yx by (simp add: chain_upd)
  ultimately have "chain ?n l (as @ n # x # bs) l" by (simp add: chain_append)
  moreover have "back_chain ?p l (as @ n # x # bs)"
    using s n by (simp add: back_chain_append y_def del: last.simps)
  moreover have "?p l = last (l # as @ n # x # bs)" using s n by auto
  ultimately have "dlist_repr l h' (as @ n # x # bs)"
    using s n by (auto simp: dlist_repr_def slist_repr_def h' simp del: last.simps)
  with ins show ?thesis by blast
qed

section \<open>The interface every list keeps\<close>

text \<open>\<open>repr h xs\<close>: the list in \<open>h\<close> has the nodes \<open>xs\<close>; \<open>detached h n\<close>: \<open>n\<close> is a node that is in
  no list. A removed node is detached again and operations leave other detached nodes alone,
  which is what makes a node reusable.\<close>

fun push_all :: "(addr \<Rightarrow> 'h \<Rightarrow> 'h option) \<Rightarrow> addr list \<Rightarrow> 'h \<Rightarrow> 'h option" where
  "push_all push [] h = Some h"
| "push_all push (n # ns) h = do { h' \<leftarrow> push n h; push_all push ns h' }"

fun pop_n :: "('h \<Rightarrow> (addr \<times> 'h) option) \<Rightarrow> nat \<Rightarrow> 'h \<Rightarrow> (addr list \<times> 'h) option" where
  "pop_n pop 0 h = Some ([], h)"
| "pop_n pop (Suc k) h = do { (x, h1) \<leftarrow> pop h; (xs, h2) \<leftarrow> pop_n pop k h1; Some (x # xs, h2) }"

locale intrusive_list =
  fixes repr :: "'h \<Rightarrow> addr list \<Rightarrow> bool"
    and detached :: "'h \<Rightarrow> addr \<Rightarrow> bool"
    and push_head :: "addr \<Rightarrow> 'h \<Rightarrow> 'h option"
    and push_tail :: "addr \<Rightarrow> 'h \<Rightarrow> 'h option"
    and pop_head :: "'h \<Rightarrow> (addr \<times> 'h) option"
    and remove_node :: "addr \<Rightarrow> 'h \<Rightarrow> 'h option"
  assumes detached_law: "repr h xs \<Longrightarrow> detached h n \<Longrightarrow> n \<notin> set xs \<and> n \<noteq> NULL"
    and push_head_law: "repr h xs \<Longrightarrow> detached h n \<Longrightarrow>
      \<exists>h'. push_head n h = Some h' \<and> repr h' (n # xs) \<and> (\<forall>m. detached h m \<and> m \<noteq> n \<longrightarrow> detached h' m)"
    and push_tail_law: "repr h xs \<Longrightarrow> detached h n \<Longrightarrow>
      \<exists>h'. push_tail n h = Some h' \<and> repr h' (xs @ [n]) \<and> (\<forall>m. detached h m \<and> m \<noteq> n \<longrightarrow> detached h' m)"
    and pop_empty_law: "repr h [] \<Longrightarrow> pop_head h = Some (NULL, h)"
    and pop_head_law: "repr h (x # xs) \<Longrightarrow>
      \<exists>h'. pop_head h = Some (x, h') \<and> repr h' xs \<and> detached h' x \<and> (\<forall>m. detached h m \<longrightarrow> detached h' m)"
    and remove_law: "repr h xs \<Longrightarrow> x \<in> set xs \<Longrightarrow>
      \<exists>h'. remove_node x h = Some h' \<and> repr h' (remove1 x xs) \<and> detached h' x \<and>
        (\<forall>m. detached h m \<longrightarrow> detached h' m)"
begin

lemma push_all_repr:
  "repr h xs \<Longrightarrow> distinct ns \<Longrightarrow> \<forall>n \<in> set ns. detached h n \<Longrightarrow>
   \<exists>h'. push_all push_tail ns h = Some h' \<and> repr h' (xs @ ns)"
proof (induction ns arbitrary: h xs)
  case (Cons n ns)
  then obtain h1 where "push_tail n h = Some h1" "repr h1 (xs @ [n])"
      "\<forall>m. detached h m \<and> m \<noteq> n \<longrightarrow> detached h1 m"
    using push_tail_law [of h xs n] by auto
  with Cons.IH [of h1 "xs @ [n]"] Cons.prems show ?case by auto
qed simp

lemma pop_n_repr: "repr h (xs @ ys) \<Longrightarrow> \<exists>h'. pop_n pop_head (length xs) h = Some (xs, h') \<and> repr h' ys"
proof (induction xs arbitrary: h)
  case (Cons x xs)
  then obtain h1 where "pop_head h = Some (x, h1)" "repr h1 (xs @ ys)"
    using pop_head_law [of h x "xs @ ys"] by auto
  with Cons.IH [of h1] show ?case by auto
qed simp

lemma fifo:
  assumes "repr h xs" "distinct ns" "\<forall>n \<in> set ns. detached h n"
  shows "\<exists>h1 h2. push_all push_tail ns h = Some h1 \<and> pop_n pop_head (length (xs @ ns)) h1 = Some (xs @ ns, h2) \<and> repr h2 []"
  using push_all_repr [OF assms] pop_n_repr [of _ "xs @ ns" "[]"] by auto

lemma push_remove:
  assumes "repr h xs" "detached h n"
  shows "\<exists>h1 h2. push_tail n h = Some h1 \<and> remove_node n h1 = Some h2 \<and> repr h2 xs \<and> detached h2 n"
proof -
  obtain h1 where h1: "push_tail n h = Some h1" "repr h1 (xs @ [n])"
    using push_tail_law [OF assms] by blast
  moreover have "n \<notin> set xs" using detached_law [OF assms] by simp
  ultimately show ?thesis using remove_law [OF h1(2), of n] by (auto simp: remove1_append)
qed

end

text \<open>Members are linked, so an operation on the list never touches a detached node.\<close>

lemma slist_detached_keep:
  assumes "slist_repr l h xs" "slist_detached l h m" "y \<in> set (l # xs)" "m \<noteq> n"
  shows "slist_detached l (h\<lparr>nxt := (nxt h)(n := v, y := w)\<rparr>) m"
  using slist_detached_notin [OF assms(1,2)] assms by (auto simp: slist_detached_def)

lemma last_in_chain: "last (l # xs) \<in> set (l # xs)"
  by (rule last_in_set) simp

interpretation slist: intrusive_list "slist_repr l" "slist_detached l" "slist_push_head dbg l"
  "slist_push_tail dbg l" "slist_pop_head l" "slist_remove dbg l"
  for dbg :: bool and l :: addr
proof (unfold_locales, goal_cases)
  case (1 h xs n)
  then show ?case using slist_detached_notin by (auto simp: slist_detached_def)
next
  case (2 h xs n)
  then show ?case
    using slist_push_head_repr [of l h xs n dbg] by (fastforce simp: slist_detached_def)
next
  case (3 h xs n)
  then show ?case
    using slist_push_tail_repr [of l h xs n dbg] last_in_chain [of l xs]
      slist_detached_notin [of l h xs]
    by (fastforce simp: slist_detached_def simp del: last.simps)
next
  case (4 h)
  then show ?case by (rule slist_pop_empty)
next
  case (5 h x xs)
  then have "x \<noteq> NULL" "x \<noteq> l" by (auto simp: slist_repr_def)
  then show ?case using slist_pop_repr [OF 5] by (fastforce simp: slist_detached_def)
next
  case (6 h xs x)
  then have "x \<noteq> NULL" "x \<noteq> l" unfolding slist_repr_def by (metis list.set_intros(2), auto)
  then show ?case
    using slist_remove_repr [OF 6, of dbg] slist_detached_notin [OF 6(1)]
    by (fastforce simp: slist_detached_def)
qed

interpretation dlist: intrusive_list "dlist_repr l" "dlist_detached l" "dlist_push_head dbg l"
  "dlist_push_tail dbg l" "dlist_pop_head l" "dlist_remove l"
  for dbg :: bool and l :: addr
proof (unfold_locales, goal_cases)
  case (1 h xs n)
  then show ?case using slist_detached_notin
    by (auto simp: dlist_repr_def dlist_detached_def slist_detached_def)
next
  case (2 h xs n)
  have "nxt h l \<in> set (l # xs)"
    using 2(1) by (cases xs) (auto simp: dlist_repr_def slist_repr_def)
  then show ?case
    using dlist_push_head_repr [OF 2, of dbg] slist_detached_notin [of l h xs] 2(1)
    by (fastforce simp: dlist_detached_def slist_detached_def dlist_repr_def)
next
  case (3 h xs n)
  then show ?case
    using dlist_push_tail_repr [OF 3, of dbg] last_in_chain [of l xs] slist_detached_notin [of l h xs]
    by (fastforce simp: dlist_detached_def slist_detached_def dlist_repr_def simp del: last.simps)
next
  case (4 h)
  then show ?case by (rule dlist_pop_empty)
next
  case (5 h x xs)
  have "x \<noteq> NULL" "x \<noteq> l" "nxt h x \<in> set (l # xs)"
    using 5 by (cases xs; auto simp: dlist_repr_def slist_repr_def)+
  then show ?case
    using dlist_pop_repr [OF 5] slist_detached_notin [of l h "x # xs"] 5
    by (fastforce simp: dlist_detached_def slist_detached_def dlist_repr_def)
next
  case (6 h xs x)
  obtain as bs where xs: "xs = as @ x # bs" "x \<notin> set as" using 6(2) by (meson split_list_first)
  have r: "dlist_repr l h (as @ x # bs)" using 6(1) xs by simp
  note m = dlist_middle [OF r]
  have "nxt h x \<in> set (l # bs)" using m(2) by (cases bs) auto
  moreover have "x \<noteq> NULL" "x \<noteq> l" using m(3,4) by auto
  ultimately show ?case
    using dlist_remove_repr [OF r] slist_detached_notin [OF m(6)] m(11) xs
    by (fastforce simp: dlist_detached_def slist_detached_def remove1_append simp del: last.simps)
qed

section \<open>Plain lists\<close>

text \<open>The framework theories hold a queue as the list of the addresses it links, which is the
  abstraction of the heap lists above. They use the operations below; the interpretation shows
  that they keep the same interface.\<close>

definition fwk_list_push_tail :: "addr \<Rightarrow> addr list \<Rightarrow> addr list" where
  "fwk_list_push_tail n q = q @ [n]"

definition fwk_list_push_head :: "addr \<Rightarrow> addr list \<Rightarrow> addr list" where
  "fwk_list_push_head n q = n # q"

definition fwk_list_pop_head :: "addr list \<Rightarrow> addr \<times> addr list" where
  "fwk_list_pop_head q = (case q of [] \<Rightarrow> (NULL, []) | x # xs \<Rightarrow> (x, xs))"

definition fwk_list_head :: "addr list \<Rightarrow> addr" where
  "fwk_list_head q = (case q of [] \<Rightarrow> NULL | x # xs \<Rightarrow> x)"

definition fwk_list_remove :: "addr \<Rightarrow> addr list \<Rightarrow> addr list" where
  "fwk_list_remove n q = remove1 n q"

definition plain_repr :: "addr list \<Rightarrow> addr list \<Rightarrow> bool" where
  "plain_repr q xs \<longleftrightarrow> q = xs \<and> distinct xs \<and> NULL \<notin> set xs"

definition plain_detached :: "addr list \<Rightarrow> addr \<Rightarrow> bool" where
  "plain_detached q n \<longleftrightarrow> n \<noteq> NULL \<and> n \<notin> set q"

interpretation plain: intrusive_list plain_repr plain_detached
  "\<lambda>n q. Some (fwk_list_push_head n q)" "\<lambda>n q. Some (fwk_list_push_tail n q)"
  "\<lambda>q. Some (fwk_list_pop_head q)" "\<lambda>n q. Some (fwk_list_remove n q)"
proof (unfold_locales, goal_cases)
  case (5 h x xs)
  then show ?case by (cases xs) (auto simp: plain_repr_def plain_detached_def fwk_list_pop_head_def)
qed (auto simp: plain_repr_def plain_detached_def fwk_list_push_head_def fwk_list_push_tail_def
    fwk_list_pop_head_def fwk_list_remove_def intro: gr0I)

section \<open>Properties\<close>

text \<open>C39. The singly-linked list is a FIFO at pointer level: pushing distinct unlinked nodes at the
  tail of a well-formed circular list and popping as many nodes as there are then returns the old
  nodes followed by the new ones, in order, and leaves a well-formed empty list.\<close>

theorem slist_fifo:
  assumes "slist_repr l h xs" "distinct ns" "\<forall>n \<in> set ns. slist_detached l h n"
  shows "\<exists>h1 h2. push_all (slist_push_tail dbg l) ns h = Some h1 \<and>
    pop_n (slist_pop_head l) (length (xs @ ns)) h1 = Some (xs @ ns, h2) \<and> slist_repr l h2 []"
  by (rule slist.fifo [OF assms])

definition heap0 :: fwk_heap where
  "heap0 = \<lparr>nxt = (\<lambda>a. if a = 1 then 1 else 0), prv = (\<lambda>a. if a = 1 then 1 else 0),
    current_count = (\<lambda>_. 0), max_count = (\<lambda>_. 0)\<rparr>"

lemma heap0_repr: "slist_repr 1 heap0 []" "dlist_repr 1 heap0 []"
  by (simp_all add: slist_repr_def dlist_repr_def heap0_def)

lemma heap0_detached: "n > 1 \<Longrightarrow> slist_detached 1 heap0 n" "n > 1 \<Longrightarrow> dlist_detached 1 heap0 n"
  by (simp_all add: slist_detached_def dlist_detached_def heap0_def)

theorem slist_fifo_witness:
  "\<exists>h1 h2. push_all (slist_push_tail True 1) [5, 3, 7] heap0 = Some h1 \<and>
    pop_n (slist_pop_head 1) (length [5, 3, 7 :: addr]) h1 = Some ([5, 3, 7], h2) \<and> slist_repr 1 h2 []"
proof -
  have "\<forall>n \<in> set [5, 3, 7]. slist_detached 1 heap0 n" by (simp add: slist_detached_def heap0_def)
  from slist_fifo [OF heap0_repr(1) _ this, of True] show ?thesis by (simp only: append_Nil) simp
qed

text \<open>C40. Inserting a node before a member of a well-formed doubly-linked list and removing a member
  both keep the forward and the backward chain: the represented list is the expected one, and the
  removed node has both links reset to NULL.\<close>

theorem dlist_insert_remove:
  assumes "dlist_repr l h (as @ x # bs)" "dlist_detached l h n"
  shows "(\<exists>h'. dlist_insert dbg l n x h = Some h' \<and> dlist_repr l h' (as @ n # x # bs)) \<and>
    (\<exists>h'. dlist_remove l x h = Some h' \<and> dlist_repr l h' (as @ bs) \<and> dlist_detached l h' x)"
proof -
  have "x \<notin> set as" using dlist_middle(3) [OF assms(1)] by auto
  then show ?thesis
    using dlist_insert_repr [OF assms] dlist.remove_law [OF assms(1), of x]
    by (auto simp: remove1_append)
qed

theorem dlist_insert_remove_witness:
  "\<exists>h. dlist_repr 1 h [5] \<and>
    (\<exists>h'. dlist_insert True 1 7 5 h = Some h' \<and> dlist_repr 1 h' [7, 5]) \<and>
    (\<exists>h'. dlist_remove 1 5 h = Some h' \<and> dlist_repr 1 h' [])"
proof -
  obtain h where h: "dlist_repr 1 h [5]" "dlist_detached 1 h 7"
    using dlist.push_tail_law [OF heap0_repr(2) heap0_detached(2), of 5]
      heap0_detached(2) [of 7] by fastforce
  then show ?thesis using dlist_insert_remove [of 1 h "[]" 5 "[]" 7 True] by auto
qed

text \<open>The usage marks of a doubly-linked list are not maintained by removal: removing a member
  leaves \<open>current_count\<close> as it was, while removing the same member as a singly-linked list
  decrements it.\<close>

theorem dlist_remove_keeps_count:
  assumes "dlist_repr l h (as @ x # bs)" "current_count h l = c" "c > 0"
  shows "(\<exists>h'. dlist_remove l x h = Some h' \<and> current_count h' l = c) \<and>
    (\<exists>h'. slist_remove dbg l x h = Some h' \<and> current_count h' l = c - 1)"
proof -
  have d: "dlist_remove l x h = Some h' \<Longrightarrow> current_count h' = current_count h" for h'
    by (auto simp: dlist_remove_def Let_def split: if_splits)
  have "slist_remove dbg l x h = Some h' \<Longrightarrow> slist_find (nxt h) l x l \<noteq> Some None \<Longrightarrow>
      current_count h' l = c - 1" for h'
    using assms(2,3)
    by (auto simp: slist_remove_def decrement_slist_elements_count_def Let_def
        split: option.splits if_splits)
  moreover have "slist_find (nxt h) l x l \<noteq> Some None"
    using slist_contains_member [OF dlist_middle(6) [OF assms(1)], of x]
    by (auto simp: slist_contains_def split: if_splits)
  ultimately show ?thesis
    using d dlist_remove_repr [OF assms(1)] slist.remove_law [OF dlist_middle(6) [OF assms(1)], of x dbg]
      assms(2) by fastforce
qed

theorem dlist_remove_keeps_count_witness:
  "\<exists>h h'. dlist_repr 1 h [5] \<and> dlist_remove 1 5 h = Some h' \<and> current_count h' 1 = 1"
proof -
  obtain h where h: "dlist_push_tail True 1 5 heap0 = Some h" "dlist_repr 1 h [5]"
    using dlist.push_tail_law [OF heap0_repr(2) heap0_detached(2), of 5] by fastforce
  have "current_count h 1 = 1"
    using h(1)
    by (auto simp: dlist_push_tail_def slist_push_tail_def increment_slist_elements_count_def
        heap0_def Let_def split: if_splits)
  then show ?thesis using dlist_remove_keeps_count [of 1 h "[]" 5 "[]" 1 True] h by auto
qed

end
