(* ===== verification/Fwk_State.thy ===== *)
theory Fwk_State
  imports Fwk_Id Fwk_List
begin

unbundle bit_operations_syntax

text \<open>
  The state of the framework: events (\<open>fwk_event.h\<close>), element and module descriptions
  (\<open>fwk_element.h\<close>, \<open>fwk_module.h\<close>), the contexts the framework keeps for them
  (\<open>internal/fwk_module.h\<close>), the event queues (\<open>internal/fwk_context.h\<close>) and the notification
  subscriptions (\<open>internal/fwk_notification.h\<close>). Structures the code reaches through pointers
  (events, subscriptions) live in maps from addresses, queues are lists of addresses, so the
  identity of a recycled structure is visible. A module's own state extends the record.
\<close>

section \<open>Event parameters\<close>

text \<open>The 16 parameter bytes are read and written through casts to structures of 32-bit members,
  little-endian.\<close>

definition params_get32 :: "nat \<Rightarrow> u8 list \<Rightarrow> u32" where
  "params_get32 off ps =
    ucast (ps ! off) OR push_bit 8 (ucast (ps ! (off + 1)))
      OR push_bit 16 (ucast (ps ! (off + 2))) OR push_bit 24 (ucast (ps ! (off + 3)))"

definition params_put32 :: "nat \<Rightarrow> u32 \<Rightarrow> u8 list \<Rightarrow> u8 list" where
  "params_put32 off w ps =
    ps[off := ucast w, off + 1 := ucast (drop_bit 8 w), off + 2 := ucast (drop_bit 16 w),
       off + 3 := ucast (drop_bit 24 w)]"

lemma length_params_put32 [simp]: "length (params_put32 off w ps) = length ps"
  by (simp add: params_put32_def)

lemma bytes_of_u32:
  "(ucast (ucast w :: u8) :: u32) OR push_bit 8 (ucast (ucast (drop_bit 8 w) :: u8))
    OR push_bit 16 (ucast (ucast (drop_bit 16 w) :: u8))
    OR push_bit 24 (ucast (ucast (drop_bit 24 w) :: u8)) = (w :: u32)"
proof (rule bit_eqI)
  fix n assume p: "possible_bit TYPE(32 word) n"
  then have n: "n < 32" by simp
  consider "n < 8" | "8 \<le> n \<and> n < 16" | "16 \<le> n \<and> n < 24" | "24 \<le> n" by linarith
  then show "bit ((ucast (ucast w :: u8) :: u32) OR push_bit 8 (ucast (ucast (drop_bit 8 w) :: u8))
    OR push_bit 16 (ucast (ucast (drop_bit 16 w) :: u8))
    OR push_bit 24 (ucast (ucast (drop_bit 24 w) :: u8))) n \<longleftrightarrow> bit w n"
    using n by cases (auto simp: bit_simps)
qed

lemma params_get_put_same [simp]:
  "off + 3 < length ps \<Longrightarrow> params_get32 off (params_put32 off w ps) = w"
  by (simp add: params_get32_def params_put32_def bytes_of_u32)

lemma params_get_put_other [simp]:
  "off + 4 \<le> off' \<or> off' + 4 \<le> off \<Longrightarrow> params_get32 off' (params_put32 off w ps) = params_get32 off' ps"
  by (auto simp: params_get32_def params_put32_def nth_list_update)

definition FWK_EVENT_PARAMETERS_SIZE :: nat where
  "FWK_EVENT_PARAMETERS_SIZE = 16"

definition params_zero :: "u8 list" where
  "params_zero = replicate FWK_EVENT_PARAMETERS_SIZE 0"

lemma length_params_zero [simp]: "length params_zero = 16"
  by (simp add: params_zero_def FWK_EVENT_PARAMETERS_SIZE_def)

section \<open>Events\<close>

text \<open>\<open>slist_node\<close> is absent: an event is linked in the queue that holds its address.\<close>

record fwk_event =
  ev_source_id :: fwk_id
  ev_target_id :: fwk_id
  ev_cookie :: u32
  ev_is_response :: bool
  ev_response_requested :: bool
  ev_is_notification :: bool
  ev_is_delayed_response :: bool
  ev_id :: fwk_id
  ev_params :: "u8 list"

record fwk_event_light =
  evl_source_id :: fwk_id
  evl_target_id :: fwk_id
  evl_id :: fwk_id
  evl_response_requested :: bool

text \<open>\<open>(struct fwk_event){ 0 }\<close>\<close>

definition event_zero :: fwk_event where
  "event_zero = \<lparr>ev_source_id = 0, ev_target_id = 0, ev_cookie = 0, ev_is_response = False,
    ev_response_requested = False, ev_is_notification = False, ev_is_delayed_response = False,
    ev_id = 0, ev_params = params_zero\<rparr>"

section \<open>Modules and elements\<close>

record fwk_element =
  el_name :: "string option"
  el_sub_element_count :: nat
  el_data :: addr

datatype fwk_module_elements_type =
    FWK_MODULE_ELEMENTS_TYPE_NONE
  | FWK_MODULE_ELEMENTS_TYPE_STATIC
  | FWK_MODULE_ELEMENTS_TYPE_DYNAMIC

record fwk_module_config =
  cfg_data :: addr
  cfg_elements_type :: fwk_module_elements_type
  cfg_elements_table :: "fwk_element list"

datatype fwk_module_state =
    FWK_MODULE_STATE_UNINITIALIZED
  | FWK_MODULE_STATE_INITIALIZED
  | FWK_MODULE_STATE_BOUND
  | FWK_MODULE_STATE_STARTED
  | FWK_MODULE_STATE_SUSPENDED

text \<open>The constant data of \<open>struct fwk_module\<close>; its function pointers are \<open>module_ops\<close>.\<close>

record fwk_module_desc =
  md_type :: nat
  md_api_count :: nat
  md_event_count :: nat
  md_notification_count :: nat

definition FWK_MODULE_TYPE_COUNT :: nat where
  "FWK_MODULE_TYPE_COUNT = 4"

record fwk_element_ctx =
  ec_state :: fwk_module_state
  ec_desc :: fwk_element
  ec_sub_element_count :: nat
  ec_subscription_dlist_table :: "addr list list"
  ec_delayed_response_list :: "addr list"

record fwk_module_context =
  mc_id :: fwk_id
  mc_state :: fwk_module_state
  mc_desc :: fwk_module_desc
  mc_config :: fwk_module_config
  mc_element_count :: nat
  mc_element_ctx_table :: "fwk_element_ctx list"
  mc_subscription_dlist_table :: "addr list list"
  mc_delayed_response_list :: "addr list"

datatype fwk_module_stage =
    MODULE_STAGE_INITIALIZE
  | MODULE_STAGE_BIND
  | MODULE_STAGE_START
  | MODULE_STAGE_STOP

record fwk_notification_subscription =
  sub_source_id :: fwk_id
  sub_target_id :: fwk_id

section \<open>The framework state\<close>

text \<open>\<open>dbg\<close> is the build mode and \<open>interrupt_context\<close> what \<open>fwk_is_interrupt_context()\<close> returns;
  no operation of the framework writes either.\<close>

record fwk_state =
  dbg :: bool
  interrupt_context :: bool
  ctx_initialized :: bool
  event_cookie_counter :: u32
  free_event_queue :: "addr list"
  isr_event_queue :: "addr list"
  event_queue :: "addr list"
  current_event :: addr
  events :: "addr \<Rightarrow> fwk_event"
  mod_initialized :: bool
  module_ctx_table :: "fwk_module_context list"
  stage :: fwk_module_stage
  bind_id :: fwk_id
  free_subscription_dlist :: "addr list"
  subscriptions :: "addr \<Rightarrow> fwk_notification_subscription"

text \<open>The function pointers of \<open>struct fwk_module\<close> and the generator of \<open>struct
  fwk_module_elements\<close>; \<open>None\<close> is a NULL pointer. A function takes the state it runs in and
  returns the new one; it may itself trap.\<close>

record 's module_ops =
  op_init :: "(fwk_id \<Rightarrow> nat \<Rightarrow> addr \<Rightarrow> 's \<Rightarrow> (fwk_status \<times> 's) option) option"
  op_element_init :: "(fwk_id \<Rightarrow> nat \<Rightarrow> addr \<Rightarrow> 's \<Rightarrow> (fwk_status \<times> 's) option) option"
  op_post_init :: "(fwk_id \<Rightarrow> 's \<Rightarrow> (fwk_status \<times> 's) option) option"
  op_bind :: "(fwk_id \<Rightarrow> nat \<Rightarrow> 's \<Rightarrow> (fwk_status \<times> 's) option) option"
  op_start :: "(fwk_id \<Rightarrow> 's \<Rightarrow> (fwk_status \<times> 's) option) option"
  op_stop :: "(fwk_id \<Rightarrow> 's \<Rightarrow> (fwk_status \<times> 's) option) option"
  op_process_bind_request ::
    "(fwk_id \<Rightarrow> fwk_id \<Rightarrow> fwk_id \<Rightarrow> addr \<Rightarrow> 's \<Rightarrow> ((fwk_status \<times> addr) \<times> 's) option) option"
  op_process_event :: "(fwk_event \<Rightarrow> fwk_event \<Rightarrow> 's \<Rightarrow> ((fwk_status \<times> fwk_event) \<times> 's) option) option"
  op_process_notification ::
    "(fwk_event \<Rightarrow> fwk_event \<Rightarrow> 's \<Rightarrow> ((fwk_status \<times> fwk_event) \<times> 's) option) option"
  op_generator :: "(fwk_id \<Rightarrow> 's \<Rightarrow> (fwk_element list option \<times> 's) option) option"

text \<open>A module that implements none of the functions.\<close>

definition no_ops :: "'s module_ops" where
  "no_ops = \<lparr>op_init = None, op_element_init = None, op_post_init = None, op_bind = None,
    op_start = None, op_stop = None, op_process_bind_request = None, op_process_event = None,
    op_process_notification = None, op_generator = None\<rparr>"

section \<open>Writing a context in place\<close>

definition upd_module_ctx ::
  "nat \<Rightarrow> (fwk_module_context \<Rightarrow> fwk_module_context) \<Rightarrow> 'a fwk_state_scheme \<Rightarrow> 'a fwk_state_scheme" where
  "upd_module_ctx m f s =
    s\<lparr>module_ctx_table := (module_ctx_table s)[m := f (module_ctx_table s ! m)]\<rparr>"

definition upd_element_ctx ::
  "nat \<Rightarrow> nat \<Rightarrow> (fwk_element_ctx \<Rightarrow> fwk_element_ctx) \<Rightarrow> 'a fwk_state_scheme \<Rightarrow> 'a fwk_state_scheme" where
  "upd_element_ctx m e f s =
    upd_module_ctx m (\<lambda>c. c\<lparr>mc_element_ctx_table :=
      (mc_element_ctx_table c)[e := f (mc_element_ctx_table c ! e)]\<rparr>) s"

lemma upd_ctx_frame [simp]:
  "dbg (upd_module_ctx m f s) = dbg s"
  "interrupt_context (upd_module_ctx m f s) = interrupt_context s"
  "ctx_initialized (upd_module_ctx m f s) = ctx_initialized s"
  "event_cookie_counter (upd_module_ctx m f s) = event_cookie_counter s"
  "free_event_queue (upd_module_ctx m f s) = free_event_queue s"
  "isr_event_queue (upd_module_ctx m f s) = isr_event_queue s"
  "event_queue (upd_module_ctx m f s) = event_queue s"
  "current_event (upd_module_ctx m f s) = current_event s"
  "events (upd_module_ctx m f s) = events s"
  "mod_initialized (upd_module_ctx m f s) = mod_initialized s"
  "stage (upd_module_ctx m f s) = stage s"
  "bind_id (upd_module_ctx m f s) = bind_id s"
  "free_subscription_dlist (upd_module_ctx m f s) = free_subscription_dlist s"
  "subscriptions (upd_module_ctx m f s) = subscriptions s"
  "length (module_ctx_table (upd_module_ctx m f s)) = length (module_ctx_table s)"
  "fwk_state.more (upd_module_ctx m f s) = fwk_state.more s"
  by (simp_all add: upd_module_ctx_def)

end
