(* ===== verification/Fwk_Module.thy ===== *)
theory Fwk_Module
  imports Fwk_State
begin

text \<open>
  The contexts of the module framework (\<open>fwk_module.c\<close>): the validity of identifiers against the
  table of module contexts, the queries, and the construction of the table from the generated
  tables of modules and configurations. Modelled with \<open>BUILD_HAS_NOTIFICATION\<close>; an allocation
  succeeds. \<open>FWK_MODULE_IDX_COUNT\<close> is the length of the table. The pre-runtime phase is in
  \<open>Fwk_Lifecycle\<close>.
\<close>

section \<open>Contexts and identifiers\<close>

definition fwk_module_get_ctx :: "fwk_id \<Rightarrow> 'a fwk_state_scheme \<Rightarrow> fwk_module_context option" where
  "fwk_module_get_ctx i s = do {
    m \<leftarrow> fwk_id_get_module_idx i;
    if unat m < length (module_ctx_table s) then Some (module_ctx_table s ! unat m) else None }"

definition fwk_module_get_element_ctx :: "fwk_id \<Rightarrow> 'a fwk_state_scheme \<Rightarrow> fwk_element_ctx option" where
  "fwk_module_get_element_ctx element_id s = do {
    mod_ctx \<leftarrow> fwk_module_get_ctx element_id s;
    let e = unat (element_element_idx element_id);
    if e < length (mc_element_ctx_table mod_ctx) then Some (mc_element_ctx_table mod_ctx ! e) else None }"

definition fwk_module_is_valid_module_id :: "fwk_id \<Rightarrow> 'a fwk_state_scheme \<Rightarrow> bool option" where
  "fwk_module_is_valid_module_id i s = do {
    is_module \<leftarrow> fwk_id_is_type i FWK_ID_TYPE_MODULE;
    if \<not> is_module then Some False
    else do {
      m \<leftarrow> fwk_id_get_module_idx i;
      Some (unat m < length (module_ctx_table s)) } }"

definition fwk_module_is_valid_element_id :: "fwk_id \<Rightarrow> 'a fwk_state_scheme \<Rightarrow> bool option" where
  "fwk_module_is_valid_element_id i s = do {
    is_element \<leftarrow> fwk_id_is_type i FWK_ID_TYPE_ELEMENT;
    if \<not> is_element then Some False
    else do {
      m \<leftarrow> fwk_id_get_module_idx i;
      if unat m \<ge> length (module_ctx_table s) then Some False
      else do {
        e \<leftarrow> fwk_id_get_element_idx i;
        Some (unat e < mc_element_count (module_ctx_table s ! unat m)) } } }"

definition fwk_module_is_valid_sub_element_id :: "fwk_id \<Rightarrow> 'a fwk_state_scheme \<Rightarrow> bool option" where
  "fwk_module_is_valid_sub_element_id i s = do {
    is_sub_element \<leftarrow> fwk_id_is_type i FWK_ID_TYPE_SUB_ELEMENT;
    if \<not> is_sub_element then Some False
    else do {
      m \<leftarrow> fwk_id_get_module_idx i;
      if unat m \<ge> length (module_ctx_table s) then Some False
      else do {
        let mod_ctx = module_ctx_table s ! unat m;
        e \<leftarrow> fwk_id_get_element_idx i;
        if unat e \<ge> mc_element_count mod_ctx then Some False
        else do {
          sub \<leftarrow> fwk_id_get_sub_element_idx i;
          Some (unat sub < ec_sub_element_count (mc_element_ctx_table mod_ctx ! unat e)) } } } }"

definition fwk_module_is_valid_entity_id :: "fwk_id \<Rightarrow> 'a fwk_state_scheme \<Rightarrow> bool option" where
  "fwk_module_is_valid_entity_id i s = do {
    t \<leftarrow> fwk_id_get_type i;
    case t of
      FWK_ID_TYPE_MODULE \<Rightarrow> fwk_module_is_valid_module_id i s
    | FWK_ID_TYPE_ELEMENT \<Rightarrow> fwk_module_is_valid_element_id i s
    | FWK_ID_TYPE_SUB_ELEMENT \<Rightarrow> fwk_module_is_valid_sub_element_id i s
    | _ \<Rightarrow> Some False }"

text \<open>The three identifier kinds counted by the module description.\<close>

definition fwk_module_is_valid_api_id :: "fwk_id \<Rightarrow> 'a fwk_state_scheme \<Rightarrow> bool option" where
  "fwk_module_is_valid_api_id i s = do {
    is_api \<leftarrow> fwk_id_is_type i FWK_ID_TYPE_API;
    if \<not> is_api then Some False
    else do {
      m \<leftarrow> fwk_id_get_module_idx i;
      if unat m \<ge> length (module_ctx_table s) then Some False
      else do {
        a \<leftarrow> fwk_id_get_api_idx i;
        Some (unat a < md_api_count (mc_desc (module_ctx_table s ! unat m))) } } }"

definition fwk_module_is_valid_event_id :: "fwk_id \<Rightarrow> 'a fwk_state_scheme \<Rightarrow> bool option" where
  "fwk_module_is_valid_event_id i s = do {
    is_event \<leftarrow> fwk_id_is_type i FWK_ID_TYPE_EVENT;
    if \<not> is_event then Some False
    else do {
      m \<leftarrow> fwk_id_get_module_idx i;
      if unat m \<ge> length (module_ctx_table s) then Some False
      else do {
        e \<leftarrow> fwk_id_get_event_idx i;
        Some (unat e < md_event_count (mc_desc (module_ctx_table s ! unat m))) } } }"

definition fwk_module_is_valid_notification_id :: "fwk_id \<Rightarrow> 'a fwk_state_scheme \<Rightarrow> bool option" where
  "fwk_module_is_valid_notification_id i s = do {
    is_notification \<leftarrow> fwk_id_is_type i FWK_ID_TYPE_NOTIFICATION;
    if \<not> is_notification then Some False
    else do {
      m \<leftarrow> fwk_id_get_module_idx i;
      if unat m \<ge> length (module_ctx_table s) then Some False
      else do {
        n \<leftarrow> fwk_id_get_notification_idx i;
        Some (unat n < md_notification_count (mc_desc (module_ctx_table s ! unat m))) } } }"

lemmas valid_id_defs = fwk_module_is_valid_module_id_def fwk_module_is_valid_element_id_def
  fwk_module_is_valid_sub_element_id_def fwk_module_is_valid_entity_id_def
  fwk_module_is_valid_api_id_def fwk_module_is_valid_event_id_def
  fwk_module_is_valid_notification_id_def

section \<open>Queries\<close>

definition fwk_module_get_state ::
  "fwk_id \<Rightarrow> bool \<Rightarrow> 'a fwk_state_scheme \<Rightarrow> (fwk_status \<times> fwk_module_state option) option" where
  "fwk_module_get_state i state_is_null s =
    (if state_is_null then Some (FWK_E_PARAM, None)
     else do {
       valid_element \<leftarrow> fwk_module_is_valid_element_id i s;
       valid_sub_element \<leftarrow> (if valid_element then Some True else fwk_module_is_valid_sub_element_id i s);
       if valid_element \<or> valid_sub_element then do {
         c \<leftarrow> fwk_module_get_element_ctx i s;
         Some (FWK_SUCCESS, Some (ec_state c)) }
       else do {
         valid_module \<leftarrow> fwk_module_is_valid_module_id i s;
         if valid_module then do {
           c \<leftarrow> fwk_module_get_ctx i s;
           Some (FWK_SUCCESS, Some (mc_state c)) }
         else Some (FWK_E_PARAM, None) } })"

definition fwk_module_get_element_count :: "fwk_id \<Rightarrow> 'a fwk_state_scheme \<Rightarrow> int option" where
  "fwk_module_get_element_count i s = do {
    valid \<leftarrow> fwk_module_is_valid_module_id i s;
    if valid then do {
      c \<leftarrow> fwk_module_get_ctx i s;
      Some (int (mc_element_count c)) }
    else Some FWK_E_PARAM }"

definition fwk_module_get_sub_element_count :: "fwk_id \<Rightarrow> 'a fwk_state_scheme \<Rightarrow> int option" where
  "fwk_module_get_sub_element_count element_id s = do {
    valid \<leftarrow> fwk_module_is_valid_element_id element_id s;
    if valid then do {
      c \<leftarrow> fwk_module_get_element_ctx element_id s;
      Some (int (ec_sub_element_count c)) }
    else Some FWK_E_PARAM }"

text \<open>A NULL name is \<open>None\<close> inside the result.\<close>

definition fwk_module_get_element_name :: "fwk_id \<Rightarrow> 'a fwk_state_scheme \<Rightarrow> string option option" where
  "fwk_module_get_element_name i s = do {
    valid \<leftarrow> fwk_module_is_valid_element_id i s;
    if valid then do {
      c \<leftarrow> fwk_module_get_element_ctx i s;
      Some (el_name (ec_desc c)) }
    else do { fwk_unexpected (dbg s); Some None } }"

definition fwk_module_get_data :: "fwk_id \<Rightarrow> 'a fwk_state_scheme \<Rightarrow> addr option" where
  "fwk_module_get_data i s = do {
    valid_element \<leftarrow> fwk_module_is_valid_element_id i s;
    valid_sub_element \<leftarrow> (if valid_element then Some True else fwk_module_is_valid_sub_element_id i s);
    if valid_element \<or> valid_sub_element then do {
      c \<leftarrow> fwk_module_get_element_ctx i s;
      Some (el_data (ec_desc c)) }
    else do {
      valid_module \<leftarrow> fwk_module_is_valid_module_id i s;
      if valid_module then do {
        c \<leftarrow> fwk_module_get_ctx i s;
        Some (cfg_data (mc_config c)) }
      else do { fwk_unexpected (dbg s); Some NULL } } }"

text \<open>The adapter of a module is identified by the module's index.\<close>

definition fwk_module_adapter ::
  "bool \<Rightarrow> fwk_id \<Rightarrow> 'a fwk_state_scheme \<Rightarrow> (fwk_status \<times> nat option) option" where
  "fwk_module_adapter adapter_is_null i s =
    (if adapter_is_null then Some (FWK_E_PARAM, None)
     else do {
       valid \<leftarrow> fwk_module_is_valid_entity_id i s;
       if \<not> valid then Some (FWK_E_PARAM, None)
       else do {
         idx \<leftarrow> fwk_id_get_module_idx i;
         Some (FWK_SUCCESS, Some (unat idx)) } })"

section \<open>Construction of the contexts\<close>

text \<open>The element table ends with an entry whose name is NULL; a table with no such entry is read
  past its end.\<close>

fun fwk_module_count_elements :: "fwk_element list \<Rightarrow> nat option" where
  "fwk_module_count_elements [] = None"
| "fwk_module_count_elements (e # es) =
    (if el_name e \<noteq> None then do { n \<leftarrow> fwk_module_count_elements es; Some (Suc n) } else Some 0)"

definition fwk_module_init_subscriptions :: "nat \<Rightarrow> addr list list" where
  "fwk_module_init_subscriptions n = replicate n []"

definition fwk_module_init_element_ctx :: "fwk_element \<Rightarrow> nat \<Rightarrow> fwk_element_ctx" where
  "fwk_module_init_element_ctx element notification_count =
    \<lparr>ec_state = FWK_MODULE_STATE_UNINITIALIZED, ec_desc = element,
     ec_sub_element_count = el_sub_element_count element,
     ec_subscription_dlist_table =
       (if notification_count > 0 then fwk_module_init_subscriptions notification_count else []),
     ec_delayed_response_list = []\<rparr>"

definition fwk_module_init_element_ctxs ::
  "fwk_element list \<Rightarrow> nat \<Rightarrow> fwk_module_context \<Rightarrow> fwk_module_context option" where
  "fwk_module_init_element_ctxs elements notification_count c = do {
    n \<leftarrow> fwk_module_count_elements elements;
    Some (c\<lparr>mc_element_count := n,
      mc_element_ctx_table :=
        map (\<lambda>e. fwk_module_init_element_ctx e notification_count) (take n elements)\<rparr>) }"

text \<open>One turn of the loop of \<open>fwk_module_init\<close>; \<open>None\<close> in a table is a NULL entry.\<close>

definition fwk_module_init_ctx ::
  "nat \<Rightarrow> fwk_module_desc option \<Rightarrow> fwk_module_config option \<Rightarrow> fwk_module_context option" where
  "fwk_module_init_ctx i desc_p config_p = do {
    desc \<leftarrow> desc_p;
    config \<leftarrow> config_p;
    let c = \<lparr>mc_id = FWK_ID_MODULE (of_nat i), mc_state = FWK_MODULE_STATE_UNINITIALIZED,
      mc_desc = desc, mc_config = config, mc_element_count = 0, mc_element_ctx_table = [],
      mc_subscription_dlist_table = [], mc_delayed_response_list = []\<rparr>;
    c \<leftarrow> (if cfg_elements_type config = FWK_MODULE_ELEMENTS_TYPE_STATIC
          then fwk_module_init_element_ctxs (cfg_elements_table config) (md_notification_count desc) c
          else Some c);
    Some (if md_notification_count desc > 0
          then c\<lparr>mc_subscription_dlist_table := fwk_module_init_subscriptions (md_notification_count desc)\<rparr>
          else c) }"

fun fwk_module_init_loop ::
  "nat \<Rightarrow> fwk_module_desc option list \<Rightarrow> fwk_module_config option list \<Rightarrow> fwk_module_context list option" where
  "fwk_module_init_loop i (d # ds) (c # cs) = do {
    ctx \<leftarrow> fwk_module_init_ctx i d c;
    rest \<leftarrow> fwk_module_init_loop (Suc i) ds cs;
    Some (ctx # rest) }"
| "fwk_module_init_loop i _ _ = Some []"

definition fwk_module_init ::
  "fwk_module_desc option list \<Rightarrow> fwk_module_config option list \<Rightarrow> 'a fwk_state_scheme
    \<Rightarrow> 'a fwk_state_scheme option" where
  "fwk_module_init module_table module_config_table s = do {
    table \<leftarrow> fwk_module_init_loop 0 module_table module_config_table;
    Some (s\<lparr>module_ctx_table := table\<rparr>) }"

definition fwk_module_reset ::
  "fwk_module_desc option list \<Rightarrow> fwk_module_config option list \<Rightarrow> 'a fwk_state_scheme
    \<Rightarrow> 'a fwk_state_scheme option" where
  "fwk_module_reset module_table module_config_table s =
    fwk_module_init module_table module_config_table s"

section \<open>Well-formed contexts\<close>

text \<open>What initialisation establishes and every later operation keeps: the context at index \<open>m\<close>
  carries the identifier of module \<open>m\<close>, the element table has the advertised size, and each
  subscription table has one list per notification.\<close>

definition element_ctx_wf :: "nat \<Rightarrow> fwk_element_ctx \<Rightarrow> bool" where
  "element_ctx_wf n e \<longleftrightarrow> length (ec_subscription_dlist_table e) = n"

definition module_ctx_wf :: "nat \<Rightarrow> fwk_module_context \<Rightarrow> bool" where
  "module_ctx_wf m c \<longleftrightarrow>
    mc_id c = FWK_ID_MODULE (of_nat m) \<and>
    length (mc_element_ctx_table c) = mc_element_count c \<and>
    length (mc_subscription_dlist_table c) = md_notification_count (mc_desc c) \<and>
    (\<forall>e \<in> set (mc_element_ctx_table c). element_ctx_wf (md_notification_count (mc_desc c)) e)"

definition ctx_table_wf :: "'a fwk_state_scheme \<Rightarrow> bool" where
  "ctx_table_wf s \<longleftrightarrow>
    length (module_ctx_table s) \<le> 256 \<and>
    (\<forall>m < length (module_ctx_table s). module_ctx_wf m (module_ctx_table s ! m))"

lemma count_elements_le: "fwk_module_count_elements es = Some n \<Longrightarrow> n < length es"
  by (induction es arbitrary: n) (auto split: if_splits)

lemma init_ctx_wf: "fwk_module_init_ctx i d c = Some ctx \<Longrightarrow> module_ctx_wf i ctx"
  by (auto simp: fwk_module_init_ctx_def module_ctx_wf_def fwk_module_init_element_ctxs_def Let_def
      fwk_module_init_element_ctx_def element_ctx_wf_def fwk_module_init_subscriptions_def
      dest!: count_elements_le split: if_splits)

lemma init_loop_wf:
  "fwk_module_init_loop i ds cs = Some t \<Longrightarrow> m < length t \<Longrightarrow> module_ctx_wf (i + m) (t ! m)"
proof (induction i ds cs arbitrary: t m rule: fwk_module_init_loop.induct)
  case (1 i d ds c cs)
  then show ?case using init_ctx_wf [of i d c] by (cases m) fastforce+
qed simp_all

lemma init_loop_length:
  "fwk_module_init_loop i ds cs = Some t \<Longrightarrow> length t = min (length ds) (length cs)"
  by (induction i ds cs arbitrary: t rule: fwk_module_init_loop.induct) auto

lemma fwk_module_init_wf:
  "fwk_module_init ds cs s = Some s' \<Longrightarrow> length ds \<le> 256 \<Longrightarrow> ctx_table_wf s'"
  using init_loop_length [of 0 ds cs] init_loop_wf [of 0 ds cs]
  by (fastforce simp: fwk_module_init_def ctx_table_wf_def)

lemma fwk_module_init_frame:
  "fwk_module_init ds cs s = Some s' \<Longrightarrow> s' = s\<lparr>module_ctx_table := module_ctx_table s'\<rparr>"
  by (auto simp: fwk_module_init_def)

section \<open>Valid identifiers are safe to use\<close>

lemma type_valid_get_module_idx [simp]:
  "fwk_id_type_is_valid i \<Longrightarrow> fwk_id_get_module_idx i = Some (common_module_idx i)"
  by (simp add: fwk_id_get_module_idx_def fwk_id_type_is_valid_def)

lemma type_code_is_valid: "common_type i = id_type_code t \<Longrightarrow> t \<noteq> FWK_ID_TYPE_INVALID \<Longrightarrow> fwk_id_type_is_valid i"
  by (cases t) (simp_all add: fwk_id_type_is_valid_def FWK_ID_TYPE_COUNT_def)

lemma valid_module_id_iff:
  "fwk_module_is_valid_module_id i s = Some True \<longleftrightarrow>
    common_type i = 2 \<and> unat (common_module_idx i) < length (module_ctx_table s)"
  using type_code_is_valid [of i FWK_ID_TYPE_MODULE]
  by (auto simp: fwk_module_is_valid_module_id_def fwk_id_is_type_def fwk_id_get_module_idx_def
      FWK_ID_TYPE_COUNT_def split: if_splits)

lemma valid_element_id_iff:
  "fwk_module_is_valid_element_id i s = Some True \<longleftrightarrow>
    common_type i = 3 \<and> unat (common_module_idx i) < length (module_ctx_table s) \<and>
    unat (element_element_idx i) < mc_element_count (module_ctx_table s ! unat (common_module_idx i))"
  by (auto simp: fwk_module_is_valid_element_id_def fwk_id_is_type_def fwk_id_get_module_idx_def
      fwk_id_get_element_idx_def FWK_ID_TYPE_COUNT_def split: if_splits)

lemma valid_sub_element_id_iff:
  "fwk_module_is_valid_sub_element_id i s = Some True \<longleftrightarrow>
    common_type i = 4 \<and> unat (common_module_idx i) < length (module_ctx_table s) \<and>
    (let c = module_ctx_table s ! unat (common_module_idx i); e = unat (element_element_idx i) in
      e < mc_element_count c \<and>
      unat (sub_element_sub_element_idx i) < ec_sub_element_count (mc_element_ctx_table c ! e))"
  by (auto simp: fwk_module_is_valid_sub_element_id_def fwk_id_is_type_def fwk_id_get_module_idx_def
      fwk_id_get_element_idx_def fwk_id_get_sub_element_idx_def FWK_ID_TYPE_COUNT_def Let_def
      split: if_splits)

lemma valid_notification_id_iff:
  "fwk_module_is_valid_notification_id i s = Some True \<longleftrightarrow>
    common_type i = 7 \<and> unat (common_module_idx i) < length (module_ctx_table s) \<and>
    unat (notification_notification_idx i) <
      md_notification_count (mc_desc (module_ctx_table s ! unat (common_module_idx i)))"
  by (auto simp: fwk_module_is_valid_notification_id_def fwk_id_is_type_def fwk_id_get_module_idx_def
      fwk_id_get_notification_idx_def FWK_ID_TYPE_COUNT_def Let_def split: if_splits)

lemma get_type_code:
  "common_type i = 2 \<Longrightarrow> fwk_id_get_type i = Some FWK_ID_TYPE_MODULE"
  "common_type i = 3 \<Longrightarrow> fwk_id_get_type i = Some FWK_ID_TYPE_ELEMENT"
  "common_type i = 4 \<Longrightarrow> fwk_id_get_type i = Some FWK_ID_TYPE_SUB_ELEMENT"
  by (simp_all add: fwk_id_get_type_Some_iff)

lemma valid_entity_id_iff:
  "fwk_module_is_valid_entity_id i s = Some True \<longleftrightarrow>
    fwk_module_is_valid_module_id i s = Some True \<or> fwk_module_is_valid_element_id i s = Some True \<or>
    fwk_module_is_valid_sub_element_id i s = Some True"
  (is "_ \<longleftrightarrow> ?m \<or> ?e \<or> ?s")
proof
  assume "fwk_module_is_valid_entity_id i s = Some True"
  then show "?m \<or> ?e \<or> ?s"
    by (auto simp: fwk_module_is_valid_entity_id_def split: fwk_id_type.splits)
next
  assume "?m \<or> ?e \<or> ?s"
  then show "fwk_module_is_valid_entity_id i s = Some True"
    using get_type_code [of i]
    by (auto simp: fwk_module_is_valid_entity_id_def valid_module_id_iff valid_element_id_iff
        valid_sub_element_id_iff)
qed

lemma valid_id_defined:
  assumes "fwk_id_type_is_valid i"
  shows "fwk_module_is_valid_module_id i s = Some (fwk_module_is_valid_module_id i s = Some True)"
    and "fwk_module_is_valid_element_id i s = Some (fwk_module_is_valid_element_id i s = Some True)"
    and "fwk_module_is_valid_sub_element_id i s = Some (fwk_module_is_valid_sub_element_id i s = Some True)"
    and "fwk_module_is_valid_entity_id i s = Some (fwk_module_is_valid_entity_id i s = Some True)"
proof -
  have t: "common_type i \<noteq> 0" "common_type i < 8" using assms by (auto simp: fwk_id_type_is_valid_def FWK_ID_TYPE_COUNT_def)
  show m: "fwk_module_is_valid_module_id i s = Some (fwk_module_is_valid_module_id i s = Some True)"
    and e: "fwk_module_is_valid_element_id i s = Some (fwk_module_is_valid_element_id i s = Some True)"
    and b: "fwk_module_is_valid_sub_element_id i s = Some (fwk_module_is_valid_sub_element_id i s = Some True)"
    using t by (simp_all add: valid_id_defs id_query_defs FWK_ID_TYPE_COUNT_def Let_def)
  obtain ty where "fwk_id_get_type i = Some ty" using t by (auto simp: fwk_id_get_type_def FWK_ID_TYPE_COUNT_def)
  then show "fwk_module_is_valid_entity_id i s = Some (fwk_module_is_valid_entity_id i s = Some True)"
    using m e b by (cases ty) (simp_all add: fwk_module_is_valid_entity_id_def)
qed

lemma valid_entity_type_valid: "fwk_module_is_valid_entity_id i s = Some b \<Longrightarrow> fwk_id_type_is_valid i"
  using type_code_is_valid [of i]
  by (auto simp: fwk_module_is_valid_entity_id_def fwk_id_get_type_Some_iff)

lemma valid_entity_ctx:
  assumes "fwk_module_is_valid_entity_id i s = Some True"
  shows "unat (common_module_idx i) < length (module_ctx_table s)"
    and "fwk_module_get_ctx i s = Some (module_ctx_table s ! unat (common_module_idx i))"
  using assms valid_entity_type_valid [OF assms]
  by (auto simp: valid_entity_id_iff valid_module_id_iff valid_element_id_iff valid_sub_element_id_iff
      fwk_module_get_ctx_def Let_def)

lemma valid_entity_element_ctx:
  assumes "fwk_module_is_valid_entity_id i s = Some True" "common_type i \<noteq> 2" "ctx_table_wf s"
  shows "unat (element_element_idx i)
      < length (mc_element_ctx_table (module_ctx_table s ! unat (common_module_idx i)))"
    and "fwk_module_get_element_ctx i s = Some (mc_element_ctx_table
      (module_ctx_table s ! unat (common_module_idx i)) ! unat (element_element_idx i))"
proof -
  note v = valid_entity_ctx [OF assms(1)]
  have "module_ctx_wf (unat (common_module_idx i)) (module_ctx_table s ! unat (common_module_idx i))"
    using assms(3) v(1) by (simp add: ctx_table_wf_def)
  then show l: "unat (element_element_idx i)
      < length (mc_element_ctx_table (module_ctx_table s ! unat (common_module_idx i)))"
    using assms(1,2) by (auto simp: valid_entity_id_iff valid_module_id_iff valid_element_id_iff
        valid_sub_element_id_iff module_ctx_wf_def Let_def)
  then show "fwk_module_get_element_ctx i s = Some (mc_element_ctx_table
      (module_ctx_table s ! unat (common_module_idx i)) ! unat (element_element_idx i))"
    using v by (simp add: fwk_module_get_element_ctx_def Let_def)
qed

section \<open>Properties\<close>

text \<open>An identifier that passes \<open>fwk_module_is_valid_entity_id\<close> on a well-formed table is safe to
  dereference: its module context exists and carries the module's own identifier, an element or
  sub-element has its element context inside the table, and the state and data queries return
  without reaching their error branch.\<close>

theorem valid_entity_lookup:
  assumes "ctx_table_wf s" "fwk_module_is_valid_entity_id i s = Some True"
  shows "(\<exists>c. fwk_module_get_ctx i s = Some c \<and> mc_id c = FWK_ID_MODULE (common_module_idx i)) \<and>
    (fwk_module_is_valid_module_id i s = Some True \<or> (\<exists>e. fwk_module_get_element_ctx i s = Some e)) \<and>
    (\<exists>st. fwk_module_get_state i False s = Some (FWK_SUCCESS, Some st)) \<and>
    (\<exists>d. fwk_module_get_data i s = Some d)"
proof -
  note v = valid_entity_ctx [OF assms(2)]
  note def = valid_id_defined [OF valid_entity_type_valid [OF assms(2)], of s]
  have id: "mc_id (module_ctx_table s ! unat (common_module_idx i)) = FWK_ID_MODULE (common_module_idx i)"
    using assms(1) v(1) by (simp add: ctx_table_wf_def module_ctx_wf_def)
  show ?thesis
  proof (cases "common_type i = 2")
    case True
    then have m: "fwk_module_is_valid_module_id i s = Some True"
      using v(1) by (simp add: valid_module_id_iff)
    moreover have "fwk_module_is_valid_element_id i s = Some False"
      "fwk_module_is_valid_sub_element_id i s = Some False"
      using True def(2,3) by (auto simp: valid_element_id_iff valid_sub_element_id_iff)
    ultimately show ?thesis
      using v id by (simp add: fwk_module_get_state_def fwk_module_get_data_def)
  next
    case False
    then have "fwk_module_is_valid_module_id i s = Some False"
      using def(1) by (auto simp: valid_module_id_iff)
    then have "fwk_module_is_valid_element_id i s = Some True \<or>
        fwk_module_is_valid_sub_element_id i s = Some True"
      using assms(2) by (auto simp: valid_entity_id_iff)
    then show ?thesis
      using v id valid_entity_element_ctx [OF assms(2) False assms(1)] def(2)
      by (cases "fwk_module_is_valid_element_id i s = Some True")
        (simp_all add: fwk_module_get_state_def fwk_module_get_data_def)
  qed
qed

text \<open>A table of two modules, the second with two elements, each with two notifications.\<close>

definition desc0 :: fwk_module_desc where
  "desc0 = \<lparr>md_type = 0, md_api_count = 1, md_event_count = 2, md_notification_count = 2\<rparr>"

definition config0 :: fwk_module_config where
  "config0 = \<lparr>cfg_data = 1, cfg_elements_type = FWK_MODULE_ELEMENTS_TYPE_NONE, cfg_elements_table = []\<rparr>"

definition config1 :: fwk_module_config where
  "config1 = \<lparr>cfg_data = 2, cfg_elements_type = FWK_MODULE_ELEMENTS_TYPE_STATIC,
    cfg_elements_table =
      [\<lparr>el_name = Some ''a'', el_sub_element_count = 3, el_data = 10\<rparr>,
       \<lparr>el_name = Some ''b'', el_sub_element_count = 0, el_data = 11\<rparr>,
       \<lparr>el_name = None, el_sub_element_count = 0, el_data = 0\<rparr>]\<rparr>"

definition state0 :: fwk_state where
  "state0 = \<lparr>dbg = False, interrupt_context = False, ctx_initialized = False, event_cookie_counter = 0,
    free_event_queue = [], isr_event_queue = [], event_queue = [], current_event = NULL,
    events = (\<lambda>_. event_zero), mod_initialized = False, module_ctx_table = [],
    stage = MODULE_STAGE_INITIALIZE, bind_id = 0, free_subscription_dlist = [],
    subscriptions = (\<lambda>_. \<lparr>sub_source_id = 0, sub_target_id = 0\<rparr>)\<rparr>"

definition state1 :: fwk_state where
  "state1 = the (fwk_module_init [Some desc0, Some desc0] [Some config0, Some config1] state0)"

lemmas fwk_module_init_defs = fwk_module_init_def fwk_module_init_ctx_def
  fwk_module_init_element_ctxs_def fwk_module_init_element_ctx_def fwk_module_init_subscriptions_def

lemma state1_init:
  "fwk_module_init [Some desc0, Some desc0] [Some config0, Some config1] state0 = Some state1"
  by (simp add: state1_def fwk_module_init_defs desc0_def config0_def config1_def)

lemma state1_eq: "state1 = state0\<lparr>module_ctx_table := module_ctx_table state1\<rparr>"
  by (rule fwk_module_init_frame [OF state1_init])

lemma state1_wf: "ctx_table_wf state1"
  using fwk_module_init_wf [OF state1_init] by simp

lemma state1_fields [simp]:
  "dbg state1 = False" "interrupt_context state1 = False" "current_event state1 = NULL"
  by (subst state1_eq, simp add: state0_def)+

lemma state1_table [simp]:
  "length (module_ctx_table state1) = 2"
  "mc_element_count (module_ctx_table state1 ! 0) = 0"
  "mc_element_count (module_ctx_table state1 ! Suc 0) = 2"
  "mc_desc (module_ctx_table state1 ! 0) = desc0"
  "mc_desc (module_ctx_table state1 ! Suc 0) = desc0"
  by (simp_all add: state1_def fwk_module_init_defs desc0_def config0_def config1_def)

theorem valid_entity_lookup_witness:
  "(\<exists>c. fwk_module_get_ctx (FWK_ID_ELEMENT 1 1) state1 = Some c \<and> mc_id c = FWK_ID_MODULE 1) \<and>
    (\<exists>e. fwk_module_get_element_ctx (FWK_ID_ELEMENT 1 1) state1 = Some e)"
proof -
  have "fwk_module_is_valid_entity_id (FWK_ID_ELEMENT 1 1) state1 = Some True"
    by (simp add: valid_entity_id_iff valid_element_id_iff)
  moreover have "fwk_module_is_valid_module_id (FWK_ID_ELEMENT 1 1) state1 \<noteq> Some True"
    by (simp add: valid_module_id_iff)
  ultimately show ?thesis
    using valid_entity_lookup [OF state1_wf, of "FWK_ID_ELEMENT 1 1"] by simp
qed

end
