(* ===== verification/Fwk_Event.thy ===== *)
theory Fwk_Event
  imports Fwk_Module
begin

text \<open>
  The event core (\<open>fwk_core.c\<close>) and delayed responses (\<open>fwk_delayed_resp.c\<close>). Event structures are
  addresses taken from a fixed pool; a queue is the list of the addresses it links. Masking
  interrupts around a queue operation is not represented: an operation is one step, and an
  interrupt handler is a caller with \<open>interrupt_context\<close> set. The functions the source prefixes
  with two underscores are named here without them.
\<close>

datatype interrupt_states =
    UNKNOWN_STATE
  | INTERRUPT_STATE
  | NOT_INTERRUPT_STATE

text \<open>The \<open>void *event\<close> and \<open>event_type\<close> arguments of \<open>put_event\<close> as one tagged value.\<close>

datatype event_arg =
    FWK_EVENT_TYPE_STD fwk_event
  | FWK_EVENT_TYPE_LIGHT fwk_event_light

section \<open>Delayed responses\<close>

definition fwk_get_delayed_response_list :: "fwk_id \<Rightarrow> 'a fwk_state_scheme \<Rightarrow> addr list option" where
  "fwk_get_delayed_response_list i s = do {
    is_module \<leftarrow> fwk_id_is_type i FWK_ID_TYPE_MODULE;
    if is_module then do { c \<leftarrow> fwk_module_get_ctx i s; Some (mc_delayed_response_list c) }
    else do { e \<leftarrow> fwk_module_get_element_ctx i s; Some (ec_delayed_response_list e) } }"

text \<open>Writing through the pointer \<open>fwk_get_delayed_response_list\<close> returns.\<close>

definition upd_delayed_response_list ::
  "fwk_id \<Rightarrow> (addr list \<Rightarrow> addr list) \<Rightarrow> 'a fwk_state_scheme \<Rightarrow> 'a fwk_state_scheme option" where
  "upd_delayed_response_list i f s = do {
    is_module \<leftarrow> fwk_id_is_type i FWK_ID_TYPE_MODULE;
    let m = unat (common_module_idx i);
    if is_module then do {
      c \<leftarrow> fwk_module_get_ctx i s;
      Some (upd_module_ctx m (\<lambda>c. c\<lparr>mc_delayed_response_list := f (mc_delayed_response_list c)\<rparr>) s) }
    else do {
      e \<leftarrow> fwk_module_get_element_ctx i s;
      Some (upd_element_ctx m (unat (element_element_idx i))
        (\<lambda>e. e\<lparr>ec_delayed_response_list := f (ec_delayed_response_list e)\<rparr>) s) } }"

fun search_cookie :: "(addr \<Rightarrow> fwk_event) \<Rightarrow> u32 \<Rightarrow> addr list \<Rightarrow> addr" where
  "search_cookie evs c [] = NULL"
| "search_cookie evs c (x # xs) = (if ev_cookie (evs x) = c then x else search_cookie evs c xs)"

definition fwk_search_delayed_response :: "fwk_id \<Rightarrow> u32 \<Rightarrow> 'a fwk_state_scheme \<Rightarrow> addr option" where
  "fwk_search_delayed_response i c s = do {
    q \<leftarrow> fwk_get_delayed_response_list i s;
    Some (search_cookie (events s) c q) }"

definition check_api_call :: "fwk_id \<Rightarrow> bool \<Rightarrow> 'a fwk_state_scheme \<Rightarrow> fwk_status option" where
  "check_api_call i data_is_null s =
    (if interrupt_context s then Some FWK_E_ACCESS
     else do {
       valid \<leftarrow> fwk_module_is_valid_entity_id i s;
       if \<not> valid \<or> data_is_null then Some FWK_E_PARAM else Some FWK_SUCCESS })"

text \<open>\<open>event\<close> and \<open>is_empty\<close> are what the output pointer designates before the call; \<open>None\<close> is a
  NULL pointer.\<close>

definition fwk_get_delayed_response ::
  "fwk_id \<Rightarrow> u32 \<Rightarrow> fwk_event option \<Rightarrow> 'a fwk_state_scheme \<Rightarrow> (fwk_status \<times> fwk_event option) option" where
  "fwk_get_delayed_response i c event s = do {
    status \<leftarrow> check_api_call i (event = None) s;
    if status \<noteq> FWK_SUCCESS then Some (status, event)
    else do {
      delayed_response \<leftarrow> fwk_search_delayed_response i c s;
      if delayed_response = NULL then Some (FWK_E_PARAM, event)
      else Some (FWK_SUCCESS, Some (events s delayed_response)) } }"

definition fwk_is_delayed_response_list_empty ::
  "fwk_id \<Rightarrow> bool option \<Rightarrow> 'a fwk_state_scheme \<Rightarrow> (fwk_status \<times> bool option) option" where
  "fwk_is_delayed_response_list_empty i is_empty s = do {
    status \<leftarrow> check_api_call i (is_empty = None) s;
    if status \<noteq> FWK_SUCCESS then Some (status, is_empty)
    else do {
      q \<leftarrow> fwk_get_delayed_response_list i s;
      Some (FWK_SUCCESS, Some (fwk_list_head q = NULL)) } }"

definition fwk_get_first_delayed_response ::
  "fwk_id \<Rightarrow> fwk_event option \<Rightarrow> 'a fwk_state_scheme \<Rightarrow> (fwk_status \<times> fwk_event option) option" where
  "fwk_get_first_delayed_response i event s = do {
    status \<leftarrow> check_api_call i (event = None) s;
    if status \<noteq> FWK_SUCCESS then Some (status, event)
    else do {
      q \<leftarrow> fwk_get_delayed_response_list i s;
      if fwk_list_head q \<noteq> NULL then Some (FWK_SUCCESS, Some (events s (fwk_list_head q)))
      else Some (FWK_E_STATE, event) } }"

section \<open>Sending\<close>

text \<open>A light event leaves the cookie and the parameters of the recycled structure as they were.\<close>

definition duplicate_event :: "event_arg \<Rightarrow> 'a fwk_state_scheme \<Rightarrow> (addr \<times> 'a fwk_state_scheme) option" where
  "duplicate_event event s = do {
    let (allocated_event, free_q) = fwk_list_pop_head (free_event_queue s);
    let s = s\<lparr>free_event_queue := free_q\<rparr>;
    if allocated_event = NULL then do { fwk_unexpected (dbg s); Some (NULL, s) }
    else do {
      let contents = (case event of
          FWK_EVENT_TYPE_LIGHT light_event \<Rightarrow>
            (events s allocated_event)\<lparr>ev_id := evl_id light_event,
              ev_source_id := evl_source_id light_event, ev_target_id := evl_target_id light_event,
              ev_is_notification := False, ev_response_requested := evl_response_requested light_event,
              ev_is_delayed_response := False, ev_is_response := False\<rparr>
        | FWK_EVENT_TYPE_STD std_event \<Rightarrow> std_event);
      Some (allocated_event, s\<lparr>events := (events s)(allocated_event := contents)\<rparr>) } }"

text \<open>Taking the structure that will carry the event: the stored delayed response when the event is
  one, a duplicate otherwise. A status other than \<open>FWK_SUCCESS\<close> is an early return of
  \<open>put_event\<close>.\<close>

definition allocate_for ::
  "event_arg \<Rightarrow> 'a fwk_state_scheme \<Rightarrow> ((fwk_status \<times> addr) \<times> 'a fwk_state_scheme) option" where
  "allocate_for event s = (case event of
      FWK_EVENT_TYPE_STD std_event \<Rightarrow>
        (if ev_is_delayed_response std_event then do {
           a \<leftarrow> fwk_search_delayed_response (ev_source_id std_event) (ev_cookie std_event) s;
           if a = NULL then Some ((FWK_E_PARAM, NULL), s)
           else do {
             s \<leftarrow> upd_delayed_response_list (ev_source_id std_event) (fwk_list_remove a) s;
             Some ((FWK_SUCCESS, a),
               s\<lparr>events := (events s)(a := (events s a)\<lparr>ev_params := ev_params std_event\<rparr>)\<rparr>) } }
         else do {
           (a, s) \<leftarrow> duplicate_event event s;
           Some ((if a = NULL then FWK_E_NOMEM else FWK_SUCCESS, a), s) })
    | FWK_EVENT_TYPE_LIGHT _ \<Rightarrow> do {
        (a, s) \<leftarrow> duplicate_event event s;
        Some ((if a = NULL then FWK_E_NOMEM else FWK_SUCCESS, a), s) })"

definition enqueue_event :: "addr \<Rightarrow> interrupt_states \<Rightarrow> 'a fwk_state_scheme \<Rightarrow> 'a fwk_state_scheme" where
  "enqueue_event a intr_state s =
    (let intr_state =
       (if intr_state = UNKNOWN_STATE
        then (if interrupt_context s then INTERRUPT_STATE else NOT_INTERRUPT_STATE)
        else intr_state)
     in if intr_state = NOT_INTERRUPT_STATE
        then s\<lparr>event_queue := fwk_list_push_tail a (event_queue s)\<rparr>
        else s\<lparr>isr_event_queue := fwk_list_push_tail a (isr_event_queue s)\<rparr>)"

text \<open>The event of the caller is returned with the cookie written into it.\<close>

definition put_event ::
  "event_arg \<Rightarrow> interrupt_states \<Rightarrow> 'a fwk_state_scheme \<Rightarrow> ((fwk_status \<times> event_arg) \<times> 'a fwk_state_scheme) option" where
  "put_event event intr_state s = do {
    ((status, a), s) \<leftarrow> allocate_for event s;
    if status \<noteq> FWK_SUCCESS then Some ((status, event), s)
    else (case event of
        FWK_EVENT_TYPE_STD std_event \<Rightarrow> do {
          let c = event_cookie_counter s;
          let s = s\<lparr>event_cookie_counter := c + 1,
            events := (events s)(a := (events s a)\<lparr>ev_cookie := c\<rparr>)\<rparr>;
          Some ((FWK_SUCCESS, FWK_EVENT_TYPE_STD (std_event\<lparr>ev_cookie := c\<rparr>)),
            enqueue_event a intr_state s) }
      | FWK_EVENT_TYPE_LIGHT _ \<Rightarrow> Some ((FWK_SUCCESS, event), enqueue_event a intr_state s)) }"

text \<open>The checks both entry points make before \<open>put_event\<close>: the initialisation check of a Debug
  build and the resolution of the source. \<open>Inl\<close> is the status of the \<open>goto error\<close>, \<open>Inr\<close> the
  interrupt state and the source identifier to use.\<close>

definition resolve_source ::
  "fwk_id \<Rightarrow> 'a fwk_state_scheme \<Rightarrow> (fwk_status + interrupt_states \<times> fwk_id) option" where
  "resolve_source source_id s =
    (let intr_state = (if interrupt_context s then INTERRUPT_STATE else NOT_INTERRUPT_STATE)
     in if intr_state = NOT_INTERRUPT_STATE \<and> current_event s \<noteq> NULL
        then Some (Inr (intr_state, ev_target_id (events s (current_event s))))
        else if \<not> fwk_id_type_is_valid source_id then Some (Inl FWK_E_PARAM)
        else do {
          valid \<leftarrow> fwk_module_is_valid_entity_id source_id s;
          Some (if valid then Inr (intr_state, source_id) else Inl FWK_E_PARAM) })"

text \<open>The second \<open>BUILD_MODE_DEBUG\<close> block of \<open>fwk_put_event\<close>; \<open>False\<close> is its \<open>goto error\<close>.\<close>

definition event_is_consistent :: "fwk_event \<Rightarrow> 'a fwk_state_scheme \<Rightarrow> bool option" where
  "event_is_consistent event s =
    (if ev_is_notification event then do {
       valid \<leftarrow> fwk_module_is_valid_notification_id (ev_id event) s;
       if \<not> valid then Some False
       else if \<not> ev_is_response event \<or> ev_response_requested event then Some False
       else do {
         t \<leftarrow> fwk_id_get_module_idx (ev_target_id event);
         i \<leftarrow> fwk_id_get_module_idx (ev_id event);
         Some (t = i) } }
     else do {
       valid \<leftarrow> fwk_module_is_valid_event_id (ev_id event) s;
       if \<not> valid then Some False
       else if ev_is_response event then do {
         src \<leftarrow> fwk_id_get_module_idx (ev_source_id event);
         i \<leftarrow> fwk_id_get_module_idx (ev_id event);
         Some (src = i \<and> \<not> ev_response_requested event) }
       else do {
         t \<leftarrow> fwk_id_get_module_idx (ev_target_id event);
         i \<leftarrow> fwk_id_get_module_idx (ev_id event);
         Some (t = i) } })"

definition light_event_is_consistent :: "fwk_event_light \<Rightarrow> 'a fwk_state_scheme \<Rightarrow> bool option" where
  "light_event_is_consistent event s = do {
    valid \<leftarrow> fwk_module_is_valid_event_id (evl_id event) s;
    if \<not> valid then Some False
    else do {
      t \<leftarrow> fwk_id_get_module_idx (evl_target_id event);
      i \<leftarrow> fwk_id_get_module_idx (evl_id event);
      Some (t = i) } }"

text \<open>\<open>event = None\<close> is a NULL pointer, dereferenced by a Release build.\<close>

definition fwk_put_event ::
  "fwk_event option \<Rightarrow> 'a fwk_state_scheme \<Rightarrow> ((fwk_status \<times> fwk_event option) \<times> 'a fwk_state_scheme) option" where
  "fwk_put_event event_p s =
    (if dbg s \<and> \<not> ctx_initialized s then Some ((FWK_E_INIT, event_p), s)
     else case event_p of
       None \<Rightarrow> (if dbg s then Some ((FWK_E_PARAM, None), s) else None)
     | Some event \<Rightarrow> do {
         r \<leftarrow> resolve_source (ev_source_id event) s;
         (case r of
           Inl status \<Rightarrow> Some ((status, Some event), s)
         | Inr (intr_state, src) \<Rightarrow> do {
             let event = event\<lparr>ev_source_id := src\<rparr>;
             ok \<leftarrow> (if dbg s then event_is_consistent event s else Some True);
             if \<not> ok then Some ((FWK_E_PARAM, Some event), s)
             else do {
               ((status, arg), s) \<leftarrow> put_event (FWK_EVENT_TYPE_STD event) intr_state s;
               Some ((status, (case arg of FWK_EVENT_TYPE_STD e \<Rightarrow> Some e | _ \<Rightarrow> Some event)), s) } }) })"

definition fwk_put_event_light ::
  "fwk_event_light option \<Rightarrow> 'a fwk_state_scheme
    \<Rightarrow> ((fwk_status \<times> fwk_event_light option) \<times> 'a fwk_state_scheme) option" where
  "fwk_put_event_light event_p s =
    (if dbg s \<and> \<not> ctx_initialized s then Some ((FWK_E_INIT, event_p), s)
     else case event_p of
       None \<Rightarrow> (if dbg s then Some ((FWK_E_PARAM, None), s) else None)
     | Some event \<Rightarrow> do {
         r \<leftarrow> resolve_source (evl_source_id event) s;
         (case r of
           Inl status \<Rightarrow> Some ((status, Some event), s)
         | Inr (intr_state, src) \<Rightarrow> do {
             let event = event\<lparr>evl_source_id := src\<rparr>;
             ok \<leftarrow> (if dbg s then light_event_is_consistent event s else Some True);
             if \<not> ok then Some ((FWK_E_PARAM, Some event), s)
             else do {
               ((status, arg), s) \<leftarrow> put_event (FWK_EVENT_TYPE_LIGHT event) intr_state s;
               Some ((status, Some event), s) } }) })"

definition fwk_put_notification ::
  "fwk_event \<Rightarrow> 'a fwk_state_scheme \<Rightarrow> ((fwk_status \<times> fwk_event) \<times> 'a fwk_state_scheme) option" where
  "fwk_put_notification event s = do {
    let event = event\<lparr>ev_is_response := False, ev_is_notification := True\<rparr>;
    ((status, arg), s) \<leftarrow> put_event (FWK_EVENT_TYPE_STD event) UNKNOWN_STATE s;
    Some ((status, (case arg of FWK_EVENT_TYPE_STD e \<Rightarrow> e | _ \<Rightarrow> event)), s) }"

section \<open>Processing\<close>

definition free_event :: "addr \<Rightarrow> 'a fwk_state_scheme \<Rightarrow> 'a fwk_state_scheme" where
  "free_event event s = s\<lparr>free_event_queue := fwk_list_push_tail event (free_event_queue s)\<rparr>"

text \<open>\<open>target_handler ops s event\<close> is the function the event is given to; \<open>None\<close> when the module
  does not implement it, which the code calls as a NULL pointer.\<close>

definition target_handler ::
  "(nat \<Rightarrow> 's module_ops) \<Rightarrow> fwk_event \<Rightarrow> 'a fwk_state_scheme
    \<Rightarrow> (fwk_event \<Rightarrow> fwk_event \<Rightarrow> 's \<Rightarrow> ((fwk_status \<times> fwk_event) \<times> 's) option) option" where
  "target_handler ops event s = do {
    c \<leftarrow> fwk_module_get_ctx (ev_target_id event) s;
    let ops_m = ops (unat (common_module_idx (ev_target_id event)));
    if ev_is_notification event then op_process_notification ops_m else op_process_event ops_m }"

text \<open>The handling of the response event once the handler has returned.\<close>

definition store_delayed_response :: "fwk_event \<Rightarrow> 'a fwk_state_scheme \<Rightarrow> 'a fwk_state_scheme option" where
  "store_delayed_response response s = do {
    (a, s) \<leftarrow> duplicate_event (FWK_EVENT_TYPE_STD response) s;
    if a \<noteq> NULL then upd_delayed_response_list (ev_source_id response) (fwk_list_push_tail a) s
    else Some s }"

definition complete_response :: "fwk_event \<Rightarrow> 'a fwk_state_scheme \<Rightarrow> 'a fwk_state_scheme option" where
  "complete_response async_response_event s = do {
    let response = async_response_event\<lparr>ev_is_response := True, ev_response_requested := False\<rparr>;
    if \<not> ev_is_delayed_response response then do {
      (_, s) \<leftarrow> put_event (FWK_EVENT_TYPE_STD response) UNKNOWN_STATE s;
      Some s }
    else store_delayed_response response s }"

text \<open>The response a handler is given to fill in: the event with its source and target swapped.\<close>

definition response_template :: "fwk_event \<Rightarrow> fwk_event" where
  "response_template event =
    event\<lparr>ev_source_id := ev_target_id event, ev_target_id := ev_source_id event,
      ev_is_delayed_response := False\<rparr>"

text \<open>\<open>uninit\<close> is the content of the automatic variable \<open>async_response_event\<close>, which is not
  initialised when no response is requested. The caller has checked that the queue is not empty;
  popping an empty queue would dereference NULL.\<close>

definition process_next_event ::
  "(nat \<Rightarrow> 'a fwk_state_scheme module_ops) \<Rightarrow> fwk_event \<Rightarrow> 'a fwk_state_scheme \<Rightarrow> 'a fwk_state_scheme option" where
  "process_next_event ops uninit s = do {
    let (event, q) = fwk_list_pop_head (event_queue s);
    let s = s\<lparr>event_queue := q, current_event := event\<rparr>;
    if event = NULL then None
    else do {
      process_event \<leftarrow> target_handler ops (events s event) s;
      s \<leftarrow> (if ev_response_requested (events s event) then do {
              ((status, response), s) \<leftarrow>
                process_event (events s event) (response_template (events s event)) s;
              complete_response response s }
            else do {
              (_, s) \<leftarrow> process_event (events s event) uninit s;
              Some s });
      Some (free_event event (s\<lparr>current_event := NULL\<rparr>)) } }"

definition process_isr :: "'a fwk_state_scheme \<Rightarrow> bool \<times> 'a fwk_state_scheme" where
  "process_isr s =
    (let (isr_event, q) = fwk_list_pop_head (isr_event_queue s);
         s = s\<lparr>isr_event_queue := q\<rparr>
     in if isr_event = NULL then (False, s)
        else (True, s\<lparr>event_queue := fwk_list_push_tail isr_event (event_queue s)\<rparr>))"

text \<open>The structures of the pool are the addresses \<open>1 .. event_count\<close>, zeroed by the allocator.\<close>

definition fwk_init :: "nat \<Rightarrow> 'a fwk_state_scheme \<Rightarrow> fwk_status \<times> 'a fwk_state_scheme" where
  "fwk_init event_count s =
    (FWK_SUCCESS, s\<lparr>free_event_queue := [1..<Suc event_count], event_queue := [], isr_event_queue := [],
      events := (\<lambda>a. if 1 \<le> a \<and> a \<le> event_count then event_zero else events s a),
      ctx_initialized := True\<rparr>)"

text \<open>One turn of the two nested loops of \<open>fwk_process_event_queue\<close>: process an event when there is
  one, otherwise take one from the interrupt queue; the loop ends when both are empty. A module may
  send events for ever, so the loop runs on fuel: \<open>None\<close> is a trap, \<open>Some (False, s)\<close> fuel
  exhausted in state \<open>s\<close>.\<close>

fun fwk_process_event_queue ::
  "(nat \<Rightarrow> 'a fwk_state_scheme module_ops) \<Rightarrow> fwk_event \<Rightarrow> nat \<Rightarrow> 'a fwk_state_scheme
    \<Rightarrow> (bool \<times> 'a fwk_state_scheme) option" where
  "fwk_process_event_queue ops uninit 0 s = Some (False, s)"
| "fwk_process_event_queue ops uninit (Suc fuel) s =
    (if event_queue s \<noteq> [] then do {
       s \<leftarrow> process_next_event ops uninit s;
       fwk_process_event_queue ops uninit fuel s }
     else (case process_isr s of
         (True, s) \<Rightarrow> fwk_process_event_queue ops uninit fuel s
       | (False, s) \<Rightarrow> Some (True, s)))"

section \<open>The event pool\<close>

text \<open>Every event structure is in exactly one place: free, queued, pulled from an interrupt, being
  processed, or stored as the delayed response of a module or an element. \<open>pool\<close> counts them all.\<close>

definition delayed_of_ctx :: "fwk_module_context \<Rightarrow> addr multiset" where
  "delayed_of_ctx c = mset (mc_delayed_response_list c) +
    (\<Sum>e\<leftarrow>mc_element_ctx_table c. mset (ec_delayed_response_list e))"

definition delayed_events :: "'a fwk_state_scheme \<Rightarrow> addr multiset" where
  "delayed_events s = (\<Sum>c\<leftarrow>module_ctx_table s. delayed_of_ctx c)"

definition pool :: "'a fwk_state_scheme \<Rightarrow> addr multiset" where
  "pool s = mset (free_event_queue s) + mset (isr_event_queue s) + mset (event_queue s) +
    (if current_event s = NULL then {#} else {#current_event s#}) + delayed_events s"

lemma delayed_events_upd_module:
  "m < length (module_ctx_table s) \<Longrightarrow>
    delayed_events (upd_module_ctx m f s) + delayed_of_ctx (module_ctx_table s ! m) =
    delayed_events s + delayed_of_ctx (f (module_ctx_table s ! m))"
  using sum_list_update_add [of m "module_ctx_table s" delayed_of_ctx]
  by (simp add: delayed_events_def upd_module_ctx_def)

lemma delayed_of_ctx_upd_element:
  "e < length (mc_element_ctx_table c) \<Longrightarrow>
    delayed_of_ctx (c\<lparr>mc_element_ctx_table := (mc_element_ctx_table c)[e := y]\<rparr>) +
      mset (ec_delayed_response_list (mc_element_ctx_table c ! e)) =
    delayed_of_ctx c + mset (ec_delayed_response_list y)"
  using sum_list_update_add [of e "mc_element_ctx_table c" "\<lambda>e. mset (ec_delayed_response_list e)" y]
  by (simp add: delayed_of_ctx_def add.assoc)

lemma delayed_list_cases:
  assumes "fwk_get_delayed_response_list i s = Some q"
  shows "fwk_id_type_is_valid i"
    and "unat (common_module_idx i) < length (module_ctx_table s)"
    and "common_type i = 2 \<Longrightarrow>
      q = mc_delayed_response_list (module_ctx_table s ! unat (common_module_idx i))"
    and "common_type i \<noteq> 2 \<Longrightarrow> unat (element_element_idx i)
        < length (mc_element_ctx_table (module_ctx_table s ! unat (common_module_idx i))) \<and>
      q = ec_delayed_response_list (mc_element_ctx_table
        (module_ctx_table s ! unat (common_module_idx i)) ! unat (element_element_idx i))"
  using assms
  by (auto simp: fwk_get_delayed_response_list_def fwk_module_get_element_ctx_def fwk_module_get_ctx_def
      fwk_id_is_type_Some_iff Let_def split: if_splits)

lemma upd_delayed_eq:
  assumes "fwk_get_delayed_response_list i s = Some q"
  shows "upd_delayed_response_list i f s = Some
    (if common_type i = 2
     then upd_module_ctx (unat (common_module_idx i))
       (\<lambda>c. c\<lparr>mc_delayed_response_list := f (mc_delayed_response_list c)\<rparr>) s
     else upd_element_ctx (unat (common_module_idx i)) (unat (element_element_idx i))
       (\<lambda>e. e\<lparr>ec_delayed_response_list := f (ec_delayed_response_list e)\<rparr>) s)"
  using delayed_list_cases [OF assms]
  by (auto simp: upd_delayed_response_list_def fwk_module_get_element_ctx_def fwk_module_get_ctx_def
      fwk_id_is_type_def fwk_id_type_is_valid_def Let_def split: if_splits)

lemma upd_delayed_list:
  "upd_delayed_response_list i f s = Some s' \<Longrightarrow> \<exists>q. fwk_get_delayed_response_list i s = Some q"
  by (auto simp: upd_delayed_response_list_def fwk_get_delayed_response_list_def split: if_splits)

lemma upd_delayed_frame:
  assumes "upd_delayed_response_list i f s = Some s'"
  shows "s' = s\<lparr>module_ctx_table := module_ctx_table s'\<rparr>"
  using assms
  by (auto simp: upd_delayed_response_list_def upd_element_ctx_def upd_module_ctx_def Let_def
      split: if_splits)

lemma upd_delayed_fields:
  assumes "upd_delayed_response_list i f s = Some s'"
  shows "event_queue s' = event_queue s" "isr_event_queue s' = isr_event_queue s"
    "free_event_queue s' = free_event_queue s" "events s' = events s"
    "event_cookie_counter s' = event_cookie_counter s"
  using upd_delayed_frame [OF assms, THEN arg_cong, of event_queue]
    upd_delayed_frame [OF assms, THEN arg_cong, of isr_event_queue]
    upd_delayed_frame [OF assms, THEN arg_cong, of free_event_queue]
    upd_delayed_frame [OF assms, THEN arg_cong, of events]
    upd_delayed_frame [OF assms, THEN arg_cong, of event_cookie_counter]
  by simp_all

lemma upd_delayed_events:
  assumes "fwk_get_delayed_response_list i s = Some q" "upd_delayed_response_list i f s = Some s'"
  shows "delayed_events s' + mset q = delayed_events s + mset (f q)"
proof -
  let ?m = "unat (common_module_idx i)" and ?e = "unat (element_element_idx i)"
  let ?c = "module_ctx_table s ! ?m"
  note q = delayed_list_cases [OF assms(1)]
  show ?thesis
  proof (cases "common_type i = 2")
    case True
    let ?g = "\<lambda>c. c\<lparr>mc_delayed_response_list := f (mc_delayed_response_list c)\<rparr>"
    have s': "s' = upd_module_ctx ?m ?g s"
      using assms(2) upd_delayed_eq [OF assms(1), of f] True by simp
    have "delayed_of_ctx (?g ?c) + mset q = delayed_of_ctx ?c + mset (f q)"
      unfolding q(3) [OF True] by (simp add: delayed_of_ctx_def)
    then show ?thesis
      using delayed_events_upd_module [OF q(2), of ?g] mset_swap_parts unfolding s' by blast
  next
    case False
    let ?u = "\<lambda>e. e\<lparr>ec_delayed_response_list := f (ec_delayed_response_list e)\<rparr>"
    let ?g = "\<lambda>c. c\<lparr>mc_element_ctx_table := (mc_element_ctx_table c)[?e := ?u (mc_element_ctx_table c ! ?e)]\<rparr>"
    have s': "s' = upd_module_ctx ?m ?g s"
      using assms(2) upd_delayed_eq [OF assms(1), of f] False by (simp add: upd_element_ctx_def)
    have "delayed_of_ctx (?g ?c) + mset q = delayed_of_ctx ?c + mset (f q)"
      using delayed_of_ctx_upd_element [of ?e ?c "?u (mc_element_ctx_table ?c ! ?e)"] q(4) [OF False]
      by simp
    then show ?thesis
      using delayed_events_upd_module [OF q(2), of ?g] mset_swap_parts unfolding s' by blast
  qed
qed

lemma search_cookie_in: "search_cookie evs c q \<noteq> NULL \<Longrightarrow>
    search_cookie evs c q \<in> set q \<and> ev_cookie (evs (search_cookie evs c q)) = c"
  by (induction q) auto

lemma search_cookie_NULL:
  "NULL \<notin> set q \<Longrightarrow> search_cookie evs c q = NULL \<longleftrightarrow> (\<forall>a \<in> set q. ev_cookie (evs a) \<noteq> c)"
  by (induction q) auto

lemma pool_update [simp]:
  "pool (s\<lparr>events := es\<rparr>) = pool s"
  "pool (s\<lparr>event_cookie_counter := c\<rparr>) = pool s"
  by (simp_all add: pool_def delayed_events_def)

lemma pool_enqueue [simp]: "pool (enqueue_event a st s) = add_mset a (pool s)"
  by (simp add: pool_def delayed_events_def enqueue_event_def fwk_list_push_tail_def Let_def)

lemma pool_free_event [simp]: "pool (free_event a s) = add_mset a (pool s)"
  by (simp add: pool_def delayed_events_def free_event_def fwk_list_push_tail_def)

lemma pool_process_isr:
  "process_isr s = (b, s') \<Longrightarrow> NULL \<notin> set (isr_event_queue s) \<Longrightarrow> pool s' = pool s"
  by (auto simp: pool_def delayed_events_def process_isr_def fwk_list_push_tail_def
      fwk_list_pop_head_def split: list.splits if_splits)

lemma duplicate_event_pool:
  assumes "duplicate_event e s = Some (a, s')" "NULL \<notin># pool s"
  shows "a \<noteq> NULL \<Longrightarrow> pool s = add_mset a (pool s')"
    and "a = NULL \<Longrightarrow> s' = s \<and> free_event_queue s = []"
  using assms
  by (auto simp: duplicate_event_def fwk_list_pop_head_def pool_def delayed_events_def Let_def
      split: list.splits if_splits)

lemma allocate_for_pool:
  assumes "allocate_for e s = Some ((status, a), s')" "NULL \<notin># pool s"
  shows "status = FWK_SUCCESS \<Longrightarrow> pool s = add_mset a (pool s')"
    and "status \<noteq> FWK_SUCCESS \<Longrightarrow> s' = s"
proof -
  show "status \<noteq> FWK_SUCCESS \<Longrightarrow> s' = s"
    using assms duplicate_event_pool(2) [OF _ assms(2), of e]
    by (auto simp: allocate_for_def split: event_arg.splits if_splits)
  assume ok: "status = FWK_SUCCESS"
  show "pool s = add_mset a (pool s')"
  proof (cases "\<exists>t. duplicate_event e s = Some (a, t) \<and> a \<noteq> NULL \<and> s' = t")
    case True
    then show ?thesis using duplicate_event_pool(1) [OF _ assms(2)] by auto
  next
    case False
    then obtain std q t where std: "e = FWK_EVENT_TYPE_STD std"
      and q: "fwk_get_delayed_response_list (ev_source_id std) s = Some q"
      and a: "a = search_cookie (events s) (ev_cookie std) q" "a \<noteq> NULL"
      and t: "upd_delayed_response_list (ev_source_id std) (fwk_list_remove a) s = Some t"
      and s': "s' = t\<lparr>events := (events t)(a := (events t a)\<lparr>ev_params := ev_params std\<rparr>)\<rparr>"
      using assms(1) ok
      by (auto simp: allocate_for_def fwk_search_delayed_response_def split: event_arg.splits if_splits)
    have "a \<in> set q" using search_cookie_in a by blast
    then have "mset (fwk_list_remove a q) = mset q - {#a#}" "a \<in># mset q"
      by (simp_all add: fwk_list_remove_def)
    then have "delayed_events s = add_mset a (delayed_events t)"
      using upd_delayed_events [OF q t]
      mset_swap_parts [of "delayed_events t" "mset q" "delayed_events s" "mset q - {#a#}" "{#a#}" "{#}"]
      by simp
    then show ?thesis
      unfolding s' by (subst upd_delayed_frame [OF t]) (simp add: pool_def, simp add: delayed_events_def)
  qed
qed

lemma put_event_pool:
  assumes "put_event e st s = Some (r, s')" "NULL \<notin># pool s"
  shows "pool s' = pool s"
  using assms allocate_for_pool [OF _ assms(2), of e]
  by (auto simp: put_event_def Let_def split: event_arg.splits if_splits prod.splits)

section \<open>What the event operations leave alone\<close>

text \<open>\<open>event_frame\<close> blanks the queues, the event structures, the cookie counter and the delayed
  response lists: the operations of this theory keep everything else.\<close>

definition ctx_no_delayed :: "fwk_module_context \<Rightarrow> fwk_module_context" where
  "ctx_no_delayed c = c\<lparr>mc_delayed_response_list := [],
    mc_element_ctx_table := map (\<lambda>e. e\<lparr>ec_delayed_response_list := []\<rparr>) (mc_element_ctx_table c)\<rparr>"

definition event_frame :: "'a fwk_state_scheme \<Rightarrow> 'a fwk_state_scheme" where
  "event_frame s = s\<lparr>event_cookie_counter := 0, free_event_queue := [], isr_event_queue := [],
    event_queue := [], events := (\<lambda>_. event_zero),
    module_ctx_table := map ctx_no_delayed (module_ctx_table s)\<rparr>"

lemma event_frame_updates [simp]:
  "event_frame (s\<lparr>event_cookie_counter := c\<rparr>) = event_frame s"
  "event_frame (s\<lparr>free_event_queue := q\<rparr>) = event_frame s"
  "event_frame (s\<lparr>isr_event_queue := q\<rparr>) = event_frame s"
  "event_frame (s\<lparr>event_queue := q\<rparr>) = event_frame s"
  "event_frame (s\<lparr>events := es\<rparr>) = event_frame s"
  by (simp_all add: event_frame_def)

lemma map_update_same: "i < length xs \<Longrightarrow> f y = f (xs ! i) \<Longrightarrow> map f (xs[i := y]) = map f xs"
  by (metis list_update_id map_update nth_map)

lemma upd_delayed_event_frame:
  assumes "upd_delayed_response_list i f s = Some s'"
  shows "event_frame s' = event_frame s"
proof -
  obtain q where q: "fwk_get_delayed_response_list i s = Some q"
    using upd_delayed_list [OF assms] by auto
  note l = delayed_list_cases [OF q]
  have "map ctx_no_delayed (module_ctx_table s') = map ctx_no_delayed (module_ctx_table s)"
    using assms upd_delayed_eq [OF q, of f] l(2,4)
    by (auto simp: upd_module_ctx_def upd_element_ctx_def ctx_no_delayed_def map_update_same
        split: if_splits intro!: map_update_same)
  then show ?thesis by (subst upd_delayed_frame [OF assms]) (simp add: event_frame_def)
qed

lemma duplicate_event_frame: "duplicate_event e s = Some (a, s') \<Longrightarrow> event_frame s' = event_frame s"
  by (auto simp: duplicate_event_def Let_def split: prod.splits if_splits)

lemma allocate_for_frame: "allocate_for e s = Some (r, s') \<Longrightarrow> event_frame s' = event_frame s"
  using upd_delayed_event_frame duplicate_event_frame
  by (fastforce simp: allocate_for_def split: event_arg.splits if_splits)

lemma enqueue_event_frame [simp]: "event_frame (enqueue_event a st s) = event_frame s"
  by (simp add: enqueue_event_def Let_def)

lemma put_event_frame: "put_event e st s = Some (r, s') \<Longrightarrow> event_frame s' = event_frame s"
  using allocate_for_frame [of e s]
  by (fastforce simp: put_event_def Let_def split: event_arg.splits if_splits prod.splits)

lemma fwk_put_event_frame:
  "fwk_put_event e s = Some (r, s') \<Longrightarrow> event_frame s' = event_frame s"
  "fwk_put_event_light l s = Some (r', s') \<Longrightarrow> event_frame s' = event_frame s"
  "fwk_put_notification n s = Some (r'', s') \<Longrightarrow> event_frame s' = event_frame s"
  using put_event_frame
  by (fastforce simp: fwk_put_event_def fwk_put_event_light_def fwk_put_notification_def Let_def
      split: option.splits if_splits sum.splits prod.splits)+

lemma event_frameD:
  assumes "event_frame s' = event_frame s"
  shows "dbg s' = dbg s" "interrupt_context s' = interrupt_context s"
    "ctx_initialized s' = ctx_initialized s" "current_event s' = current_event s"
    "mod_initialized s' = mod_initialized s" "stage s' = stage s" "bind_id s' = bind_id s"
    "free_subscription_dlist s' = free_subscription_dlist s" "subscriptions s' = subscriptions s"
    "fwk_state.more s' = fwk_state.more s"
    "map ctx_no_delayed (module_ctx_table s') = map ctx_no_delayed (module_ctx_table s)"
  using arg_cong [OF assms, of dbg] arg_cong [OF assms, of interrupt_context]
    arg_cong [OF assms, of ctx_initialized] arg_cong [OF assms, of current_event]
    arg_cong [OF assms, of mod_initialized] arg_cong [OF assms, of stage] arg_cong [OF assms, of bind_id]
    arg_cong [OF assms, of free_subscription_dlist] arg_cong [OF assms, of subscriptions]
    arg_cong [OF assms, of fwk_state.more] arg_cong [OF assms, of module_ctx_table]
  by (simp_all add: event_frame_def)

section \<open>What the validity of identifiers depends on\<close>

text \<open>The part of the table no callback of a module may change.\<close>

definition element_skeleton :: "fwk_element_ctx \<Rightarrow> fwk_module_state \<times> fwk_element \<times> nat \<times> nat" where
  "element_skeleton e =
    (ec_state e, ec_desc e, ec_sub_element_count e, length (ec_subscription_dlist_table e))"

definition ctx_skeleton where
  "ctx_skeleton s = map (\<lambda>c. (mc_id c, mc_state c, mc_desc c, mc_config c, mc_element_count c,
      length (mc_subscription_dlist_table c), map element_skeleton (mc_element_ctx_table c)))
    (module_ctx_table s)"

definition module_skeleton where
  "module_skeleton c = (mc_id c, mc_state c, mc_desc c, mc_config c, mc_element_count c,
    length (mc_subscription_dlist_table c), map element_skeleton (mc_element_ctx_table c))"

lemma ctx_skeleton_map: "ctx_skeleton s = map module_skeleton (module_ctx_table s)"
  by (simp add: ctx_skeleton_def module_skeleton_def [abs_def])

lemma event_frame_skeleton:
  assumes "event_frame s' = event_frame s"
  shows "ctx_skeleton s' = ctx_skeleton s"
proof -
  have eq: "ctx_skeleton s = map (\<lambda>c. (mc_id c, mc_state c, mc_desc c, mc_config c, mc_element_count c,
      length (mc_subscription_dlist_table c), map element_skeleton (mc_element_ctx_table c)))
      (map ctx_no_delayed (module_ctx_table s))" for s :: "'a fwk_state_scheme"
    by (simp add: ctx_skeleton_def ctx_no_delayed_def element_skeleton_def comp_def)
  then show ?thesis by (simp only: eq event_frameD(11) [OF assms])
qed

lemma skeleton_length: "ctx_skeleton s' = ctx_skeleton s \<Longrightarrow>
    length (module_ctx_table s') = length (module_ctx_table s)"
  by (drule arg_cong [of _ _ length]) (simp add: ctx_skeleton_def)

lemma skeleton_nth:
  assumes "ctx_skeleton s' = ctx_skeleton s" "m < length (module_ctx_table s)"
  shows "mc_id (module_ctx_table s' ! m) = mc_id (module_ctx_table s ! m)"
    and "mc_state (module_ctx_table s' ! m) = mc_state (module_ctx_table s ! m)"
    and "mc_desc (module_ctx_table s' ! m) = mc_desc (module_ctx_table s ! m)"
    and "mc_config (module_ctx_table s' ! m) = mc_config (module_ctx_table s ! m)"
    and "mc_element_count (module_ctx_table s' ! m) = mc_element_count (module_ctx_table s ! m)"
    and "length (mc_subscription_dlist_table (module_ctx_table s' ! m)) =
      length (mc_subscription_dlist_table (module_ctx_table s ! m))"
    and "map element_skeleton (mc_element_ctx_table (module_ctx_table s' ! m)) =
      map element_skeleton (mc_element_ctx_table (module_ctx_table s ! m))"
  using arg_cong [OF assms(1), of "\<lambda>t. t ! m"] assms(2) skeleton_length [OF assms(1)]
  by (simp_all add: ctx_skeleton_def)

lemma skeleton_element:
  assumes "map element_skeleton es' = map element_skeleton es" "e < length es"
  shows "ec_state (es' ! e) = ec_state (es ! e)"
    and "ec_sub_element_count (es' ! e) = ec_sub_element_count (es ! e)"
    and "ec_desc (es' ! e) = ec_desc (es ! e)"
    and "length (ec_subscription_dlist_table (es' ! e)) = length (ec_subscription_dlist_table (es ! e))"
  using arg_cong [OF assms(1), of "\<lambda>t. t ! e"] assms(2) map_eq_imp_length_eq [OF assms(1)]
  by (simp_all add: element_skeleton_def)

lemma skeleton_wf:
  assumes "ctx_skeleton s' = ctx_skeleton s" "ctx_table_wf s"
  shows "ctx_table_wf s'"
proof -
  have "module_ctx_wf m (module_ctx_table s' ! m)" if "m < length (module_ctx_table s)" for m
  proof -
    have wf: "module_ctx_wf m (module_ctx_table s ! m)" using assms(2) that by (simp add: ctx_table_wf_def)
    note n = skeleton_nth [OF assms(1) that]
    have len: "length (mc_element_ctx_table (module_ctx_table s' ! m)) =
        length (mc_element_ctx_table (module_ctx_table s ! m))"
      using map_eq_imp_length_eq [OF n(7)] .
    have "length (ec_subscription_dlist_table e) = md_notification_count (mc_desc (module_ctx_table s ! m))"
      if e: "e \<in> set (mc_element_ctx_table (module_ctx_table s' ! m))" for e
      using e len wf skeleton_element(4) [OF n(7)]
      by (fastforce simp: in_set_conv_nth module_ctx_wf_def element_ctx_wf_def)
    then show ?thesis using wf n len by (simp add: module_ctx_wf_def element_ctx_wf_def)
  qed
  then show ?thesis using assms(2) skeleton_length [OF assms(1)] by (simp add: ctx_table_wf_def)
qed

lemma skeleton_valid_entity:
  assumes "ctx_skeleton s' = ctx_skeleton s" "ctx_table_wf s"
  shows "fwk_module_is_valid_entity_id i s' = fwk_module_is_valid_entity_id i s"
proof (cases "fwk_id_type_is_valid i")
  case True
  let ?m = "unat (common_module_idx i)" and ?e = "unat (element_element_idx i)"
  have "fwk_module_is_valid_entity_id i s' = Some True \<longleftrightarrow> fwk_module_is_valid_entity_id i s = Some True"
  proof (cases "?m < length (module_ctx_table s)")
    case m: True
    note n = skeleton_nth [OF assms(1) m]
    have "?e < mc_element_count (module_ctx_table s ! ?m) \<Longrightarrow>
        ?e < length (mc_element_ctx_table (module_ctx_table s ! ?m))"
      using assms(2) m by (simp add: ctx_table_wf_def module_ctx_wf_def)
    then show ?thesis
      using n(5) skeleton_element(2) [OF n(7), of ?e] skeleton_length [OF assms(1)]
      by (auto simp only: valid_entity_id_iff valid_module_id_iff valid_element_id_iff
          valid_sub_element_id_iff Let_def)
  qed (simp add: valid_entity_id_iff valid_module_id_iff valid_element_id_iff
      valid_sub_element_id_iff skeleton_length [OF assms(1)])
  then show ?thesis using valid_id_defined(4) [OF True] by metis
next
  case False
  then show ?thesis using valid_entity_type_valid by (metis option.exhaust)
qed

section \<open>Functional behaviour of sending\<close>

lemma duplicate_event_std:
  "free_event_queue s = a # rest \<Longrightarrow> a \<noteq> NULL \<Longrightarrow>
    duplicate_event (FWK_EVENT_TYPE_STD e) s =
      Some (a, s\<lparr>free_event_queue := rest, events := (events s)(a := e)\<rparr>)"
  by (simp add: duplicate_event_def fwk_list_pop_head_def)

lemma put_event_std:
  assumes "free_event_queue s = a # rest" "a \<noteq> NULL" "\<not> ev_is_delayed_response e"
  shows "put_event (FWK_EVENT_TYPE_STD e) st s =
    Some ((FWK_SUCCESS, FWK_EVENT_TYPE_STD (e\<lparr>ev_cookie := event_cookie_counter s\<rparr>)),
      enqueue_event a st (s\<lparr>free_event_queue := rest, event_cookie_counter := event_cookie_counter s + 1,
        events := (events s)(a := e\<lparr>ev_cookie := event_cookie_counter s\<rparr>)\<rparr>))"
  using assms by (simp add: put_event_def allocate_for_def duplicate_event_std Let_def)

lemma put_event_nomem:
  assumes "free_event_queue s = []" "\<not> dbg s"
    and "case e of FWK_EVENT_TYPE_STD x \<Rightarrow> \<not> ev_is_delayed_response x | FWK_EVENT_TYPE_LIGHT _ \<Rightarrow> True"
  shows "put_event e st s = Some ((FWK_E_NOMEM, e), s)"
proof -
  have "duplicate_event e s = Some (NULL, s)"
    using assms(1,2) by (simp add: duplicate_event_def fwk_list_pop_head_def)
  then show ?thesis
    using assms(3) by (cases e) (simp_all add: put_event_def allocate_for_def)
qed

lemma resolve_source_idle:
  "current_event s = NULL \<Longrightarrow> fwk_module_is_valid_entity_id src s = Some True \<Longrightarrow>
    resolve_source src s =
      Some (Inr (if interrupt_context s then INTERRUPT_STATE else NOT_INTERRUPT_STATE, src))"
  by (simp add: resolve_source_def valid_entity_type_valid Let_def)

lemma resolve_source_processing:
  "current_event s \<noteq> NULL \<Longrightarrow> \<not> interrupt_context s \<Longrightarrow>
    resolve_source src s = Some (Inr (NOT_INTERRUPT_STATE, ev_target_id (events s (current_event s))))"
  by (simp add: resolve_source_def Let_def)

lemma put_event_status:
  assumes "put_event e st s = Some ((status, e'), s')" "NULL \<notin># pool s" "status \<noteq> FWK_SUCCESS"
  shows "s' = s \<and> e' = e"
  using assms allocate_for_pool(2) [OF _ assms(2), of e]
  by (auto simp: put_event_def Let_def split: event_arg.splits if_splits prod.splits)

lemma put_event_status_values:
  "put_event e st s = Some ((status, e'), s') \<Longrightarrow> status \<in> {FWK_SUCCESS, FWK_E_PARAM, FWK_E_NOMEM}"
  by (auto simp: put_event_def allocate_for_def Let_def split: event_arg.splits if_splits prod.splits)

section \<open>Properties of sending\<close>

text \<open>A call of \<open>fwk_put_event\<close> that does not return \<open>FWK_SUCCESS\<close> sends nothing: whatever the
  event, the build and the context of the caller, the state of the framework is the one before the
  call; the statuses are \<open>FWK_E_INIT\<close>, \<open>FWK_E_PARAM\<close> and \<open>FWK_E_NOMEM\<close>.\<close>

theorem fwk_put_event_rejects:
  assumes "fwk_put_event e s = Some ((status, e'), s')" "NULL \<notin># pool s" "status \<noteq> FWK_SUCCESS"
  shows "s' = s \<and> status \<in> {FWK_E_INIT, FWK_E_PARAM, FWK_E_NOMEM}"
  using assms put_event_status [OF _ assms(2)] put_event_status_values
  by (fastforce simp: fwk_put_event_def resolve_source_def Let_def
      split: option.splits if_splits sum.splits prod.splits)

definition handler_conserves ::
  "(fwk_event \<Rightarrow> fwk_event \<Rightarrow> 'a fwk_state_scheme \<Rightarrow> ((fwk_status \<times> fwk_event) \<times> 'a fwk_state_scheme) option)
    \<Rightarrow> bool" where
  "handler_conserves h \<longleftrightarrow> (\<forall>event resp s r s'. NULL \<notin># pool s \<longrightarrow> h event resp s = Some (r, s') \<longrightarrow>
    pool s' = pool s \<and> current_event s' = current_event s)"

definition handlers_conserve :: "(nat \<Rightarrow> 'a fwk_state_scheme module_ops) \<Rightarrow> bool" where
  "handlers_conserve ops \<longleftrightarrow> (\<forall>m h. op_process_event (ops m) = Some h \<or>
    op_process_notification (ops m) = Some h \<longrightarrow> handler_conserves h)"

lemma handler_conservesD:
  "handler_conserves h \<Longrightarrow> h e r s = Some (x, s') \<Longrightarrow> NULL \<notin># pool s \<Longrightarrow>
    pool s' = pool s \<and> current_event s' = current_event s"
  unfolding handler_conserves_def by metis

lemma target_handler_conserve:
  "handlers_conserve ops \<Longrightarrow> target_handler ops e s = Some h \<Longrightarrow> handler_conserves h"
  by (auto simp: handlers_conserve_def target_handler_def Let_def split: if_splits)

lemma store_delayed_pool:
  assumes "store_delayed_response e s = Some s'" "NULL \<notin># pool s"
  shows "pool s' = pool s \<and> event_frame s' = event_frame s"
proof -
  obtain a t where a: "duplicate_event (FWK_EVENT_TYPE_STD e) s = Some (a, t)"
    and s': "if a \<noteq> NULL then upd_delayed_response_list (ev_source_id e) (fwk_list_push_tail a) t = Some s'
      else s' = t"
    using assms(1) by (auto simp: store_delayed_response_def split: if_splits)
  show ?thesis
  proof (cases "a = NULL")
    case True
    then show ?thesis using duplicate_event_pool(2) [OF a assms(2)] s' by simp
  next
    case False
    then have u: "upd_delayed_response_list (ev_source_id e) (fwk_list_push_tail a) t = Some s'"
      using s' by simp
    obtain q where q: "fwk_get_delayed_response_list (ev_source_id e) t = Some q"
      using upd_delayed_list [OF u] by auto
    have "delayed_events s' = add_mset a (delayed_events t)"
      using upd_delayed_events [OF q u] by (simp add: fwk_list_push_tail_def)
    then have "pool s' = add_mset a (pool t)"
      by (subst upd_delayed_frame [OF u]) (simp add: pool_def, simp add: delayed_events_def)
    then show ?thesis
      using duplicate_event_pool(1) [OF a assms(2) False] upd_delayed_event_frame [OF u]
        duplicate_event_frame [OF a] by simp
  qed
qed

lemma complete_response_pool:
  assumes "complete_response e s = Some s'" "NULL \<notin># pool s"
  shows "pool s' = pool s \<and> event_frame s' = event_frame s"
  using assms store_delayed_pool [OF _ assms(2)] put_event_pool [OF _ assms(2)] put_event_frame
  by (fastforce simp: complete_response_def Let_def split: if_splits)

lemma process_next_eventE:
  assumes "process_next_event ops u s = Some s'"
  obtains a q h t t' where "event_queue s = a # q" "a \<noteq> NULL"
    and "t = s\<lparr>event_queue := q, current_event := a\<rparr>"
    and "target_handler ops (events s a) t = Some h"
    and "if ev_response_requested (events s a)
      then \<exists>status resp t1. h (events s a) (response_template (events s a)) t = Some ((status, resp), t1) \<and>
        complete_response resp t1 = Some t'
      else \<exists>r. h (events s a) u t = Some (r, t')"
    and "s' = free_event a (t'\<lparr>current_event := NULL\<rparr>)"
proof (cases "event_queue s")
  case (Cons a q)
  let ?t = "s\<lparr>event_queue := q, current_event := a\<rparr>"
  have a: "a \<noteq> NULL"
    using assms Cons by (auto simp: process_next_event_def fwk_list_pop_head_def Let_def split: if_splits)
  obtain h where h: "target_handler ops (events s a) ?t = Some h"
    using assms Cons a by (auto simp: process_next_event_def fwk_list_pop_head_def Let_def)
  obtain t' where "if ev_response_requested (events s a)
      then \<exists>status resp t1. h (events s a) (response_template (events s a)) ?t = Some ((status, resp), t1) \<and>
        complete_response resp t1 = Some t'
      else \<exists>r. h (events s a) u ?t = Some (r, t')"
    and "s' = free_event a (t'\<lparr>current_event := NULL\<rparr>)"
    using assms Cons a h
    by (fastforce simp: process_next_event_def fwk_list_pop_head_def Let_def split: if_splits)
  then show thesis by (rule that [OF Cons a refl h])
qed (use assms in \<open>auto simp: process_next_event_def fwk_list_pop_head_def Let_def\<close>)

lemma process_next_event_pool:
  assumes "process_next_event ops u s = Some s'" "handlers_conserve ops" "NULL \<notin># pool s"
    and "current_event s = NULL"
  shows "pool s' = pool s \<and> current_event s' = NULL"
  using assms(1)
proof (cases rule: process_next_eventE)
  case (1 a q h t t')
  have p: "pool t = pool s" using 1(1,2,3) assms(4) by (simp add: pool_def delayed_events_def)
  note c = target_handler_conserve [OF assms(2) 1(4)]
  have t': "pool t' = pool t \<and> current_event t' = current_event t"
  proof (cases "ev_response_requested (events s a)")
    case True
    then obtain status resp t1 where h: "h (events s a) (response_template (events s a)) t = Some ((status, resp), t1)"
      and r: "complete_response resp t1 = Some t'" using 1(5) by auto
    have "pool t1 = pool t \<and> current_event t1 = current_event t"
      using handler_conservesD [OF c h] p assms(3) by simp
    then show ?thesis using complete_response_pool [OF r] event_frameD(4) p assms(3) by metis
  next
    case False
    then obtain r where "h (events s a) u t = Some (r, t')" using 1(5) by auto
    from handler_conservesD [OF c this] show ?thesis using p assms(3) by simp
  qed
  have "pool t' = add_mset a (pool (t'\<lparr>current_event := NULL\<rparr>))"
    using t' 1(2,3) by (simp add: pool_def delayed_events_def)
  then show ?thesis using t' p 1(6) by (simp add: pool_free_event) (simp add: free_event_def)
qed

lemma process_isr_frame [simp]: "process_isr s = (b, t) \<Longrightarrow> event_frame t = event_frame s"
  by (auto simp: process_isr_def Let_def split: prod.splits if_splits)

lemma pool_NULL: "NULL \<notin># pool s \<Longrightarrow>
    NULL \<notin> set (event_queue s) \<and> NULL \<notin> set (isr_event_queue s) \<and> NULL \<notin> set (free_event_queue s)"
  by (auto simp: pool_def)

lemma process_event_queue_pool:
  assumes "fwk_process_event_queue ops u n s = Some (b, s')" "handlers_conserve ops" "NULL \<notin># pool s"
    and "current_event s = NULL"
  shows "pool s' = pool s \<and> current_event s' = NULL"
  using assms(1,3,4)
proof (induction n arbitrary: s)
  case (Suc n)
  show ?case
  proof (cases "event_queue s = []")
    case True
    obtain c t where t: "process_isr s = (c, t)" by fastforce
    have "pool t = pool s" "current_event t = NULL"
      using pool_process_isr [OF t] Suc.prems pool_NULL event_frameD(4) [OF process_isr_frame [OF t]] by auto
    then show ?thesis using Suc t True by (auto split: bool.splits if_splits)
  next
    case False
    then obtain t where t: "process_next_event ops u s = Some t" "fwk_process_event_queue ops u n t = Some (b, s')"
      using Suc.prems(1) by auto
    then show ?thesis using process_next_event_pool [OF t(1) assms(2) Suc.prems(2,3)] Suc.IH [OF t(2)] Suc.prems
      by simp
  qed
qed simp

text \<open>C1. Accounting of the event structures. Sending a standard event, a light event or a
  notification and processing events conserve the pool: each structure is always in exactly one of
  the free list, the two queues, the event being processed and the delayed response lists, so none
  is ever lost or linked twice. For processing this holds whatever the handlers do as long as they
  conserve the pool and leave the event being processed in place, as every call of the framework
  does.\<close>

theorem event_pool_conserved:
  assumes "handlers_conserve ops" "NULL \<notin># pool s" "current_event s = NULL"
  shows "(\<forall>e r s'. fwk_put_event e s = Some (r, s') \<longrightarrow> pool s' = pool s) \<and>
    (\<forall>l r s'. fwk_put_event_light l s = Some (r, s') \<longrightarrow> pool s' = pool s) \<and>
    (\<forall>n r s'. fwk_put_notification n s = Some (r, s') \<longrightarrow> pool s' = pool s) \<and>
    (\<forall>u n b s'. fwk_process_event_queue ops u n s = Some (b, s') \<longrightarrow>
      pool s' = pool s \<and> current_event s' = NULL)"
  using process_event_queue_pool [OF _ assms] put_event_pool [OF _ assms(2)]
  by (fastforce simp: fwk_put_event_def fwk_put_event_light_def fwk_put_notification_def Let_def
      split: option.splits if_splits sum.splits prod.splits)

section \<open>Emptying the queues\<close>

text \<open>A handler is quiet when it returns, writes at most its own module's state and the parameters
  and the delay flag of the response, and sends nothing.\<close>

definition handler_quiet ::
  "(fwk_event \<Rightarrow> fwk_event \<Rightarrow> 'a fwk_state_scheme \<Rightarrow> ((fwk_status \<times> fwk_event) \<times> 'a fwk_state_scheme) option)
    \<Rightarrow> bool" where
  "handler_quiet h \<longleftrightarrow> (\<forall>e r s. \<exists>status ps d x.
    h e r s = Some ((status, r\<lparr>ev_params := ps, ev_is_delayed_response := d\<rparr>), fwk_state.more_update (\<lambda>_. x) s))"

definition ops_quiet :: "(nat \<Rightarrow> 'a fwk_state_scheme module_ops) \<Rightarrow> bool" where
  "ops_quiet ops \<longleftrightarrow> (\<forall>m. (\<exists>h. op_process_event (ops m) = Some h \<and> handler_quiet h) \<and>
    (\<exists>h. op_process_notification (ops m) = Some h \<and> handler_quiet h))"

definition pool_ok :: "'a fwk_state_scheme \<Rightarrow> bool" where
  "pool_ok s \<longleftrightarrow> NULL \<notin># pool s \<and> (\<forall>x. count (pool s) x \<le> 1)"

definition deliverable :: "'a fwk_state_scheme \<Rightarrow> fwk_event \<Rightarrow> bool" where
  "deliverable s e \<longleftrightarrow> fwk_module_is_valid_entity_id (ev_target_id e) s = Some True \<and>
    fwk_module_is_valid_entity_id (ev_source_id e) s = Some True"

text \<open>The state of a main loop of a Release build between two turns.\<close>

definition queue_ready :: "'a fwk_state_scheme \<Rightarrow> bool" where
  "queue_ready s \<longleftrightarrow> ctx_table_wf s \<and> pool_ok s \<and> current_event s = NULL \<and> \<not> dbg s \<and>
    \<not> interrupt_context s \<and> (\<forall>a \<in> set (event_queue s) \<union> set (isr_event_queue s). deliverable s (events s a))"

definition event_weight :: "fwk_event \<Rightarrow> nat" where
  "event_weight e = (if ev_response_requested e then 2 else 1)"

text \<open>A request costs two turns, an event from an interrupt one more.\<close>

definition queue_weight :: "'a fwk_state_scheme \<Rightarrow> nat" where
  "queue_weight s = (\<Sum>a\<leftarrow>event_queue s. event_weight (events s a)) +
    (\<Sum>a\<leftarrow>isr_event_queue s. Suc (event_weight (events s a)))"

lemma skeleton_deliverable:
  "ctx_skeleton s' = ctx_skeleton s \<Longrightarrow> ctx_table_wf s \<Longrightarrow> deliverable s' e = deliverable s e"
  unfolding deliverable_def
  by (metis skeleton_valid_entity)

lemma valid_entity_delayed_list:
  assumes "fwk_module_is_valid_entity_id i s = Some True" "ctx_table_wf s"
  shows "\<exists>q. fwk_get_delayed_response_list i s = Some q"
  using valid_entity_ctx [OF assms(1)] valid_entity_element_ctx [OF assms(1) _ assms(2)]
    valid_entity_type_valid [OF assms(1)]
  by (cases "common_type i = 2")
    (simp_all add: fwk_get_delayed_response_list_def fwk_id_is_type_def fwk_id_type_is_valid_def)

lemma deliverable_handler:
  assumes "deliverable s e" "ops_quiet ops" "ctx_skeleton t = ctx_skeleton s"
  shows "\<exists>h. target_handler ops e t = Some h \<and> handler_quiet h"
proof -
  have "unat (common_module_idx (ev_target_id e)) < length (module_ctx_table t)"
    using valid_entity_ctx(1) [of "ev_target_id e" s] assms(1) skeleton_length [OF assms(3)]
    by (simp add: deliverable_def)
  moreover have "fwk_id_get_module_idx (ev_target_id e) = Some (common_module_idx (ev_target_id e))"
    using valid_entity_type_valid [of "ev_target_id e" s] assms(1) by (simp add: deliverable_def)
  ultimately have "target_handler ops e t = (if ev_is_notification e
      then op_process_notification (ops (unat (common_module_idx (ev_target_id e))))
      else op_process_event (ops (unat (common_module_idx (ev_target_id e)))))"
    by (simp add: target_handler_def fwk_module_get_ctx_def)
  then show ?thesis using assms(2) unfolding ops_quiet_def by (cases "ev_is_notification e") auto
qed

lemma more_update_simps [simp]:
  "pool (fwk_state.more_update f s) = pool s"
  "event_frame (fwk_state.more_update f s) = fwk_state.more_update f (event_frame s)"
  "ctx_skeleton (fwk_state.more_update f s) = ctx_skeleton s"
  by (simp_all add: pool_def delayed_events_def event_frame_def ctx_skeleton_def)

lemma ctx_skeleton_updates [simp]:
  "ctx_skeleton (s\<lparr>event_queue := q\<rparr>) = ctx_skeleton s"
  "ctx_skeleton (s\<lparr>isr_event_queue := q\<rparr>) = ctx_skeleton s"
  "ctx_skeleton (s\<lparr>free_event_queue := q\<rparr>) = ctx_skeleton s"
  "ctx_skeleton (s\<lparr>current_event := a\<rparr>) = ctx_skeleton s"
  "ctx_skeleton (s\<lparr>events := es\<rparr>) = ctx_skeleton s"
  "ctx_skeleton (s\<lparr>free_subscription_dlist := q\<rparr>) = ctx_skeleton s"
  "ctx_skeleton (s\<lparr>subscriptions := su\<rparr>) = ctx_skeleton s"
  "ctx_skeleton (free_event a s) = ctx_skeleton s"
  by (simp_all add: ctx_skeleton_def free_event_def)

text \<open>What completing the response adds to the event queue: nothing, or the response.\<close>

lemma complete_response_effect:
  assumes s: "\<not> dbg s" "\<not> interrupt_context s" "pool_ok s" "ctx_table_wf s"
    and src: "fwk_module_is_valid_entity_id (ev_source_id r) s = Some True"
  shows "\<exists>s'. complete_response r s = Some s' \<and> isr_event_queue s' = isr_event_queue s \<and>
    (\<exists>b. b \<notin> set (event_queue s) \<and> b \<notin> set (isr_event_queue s) \<and>
      (event_queue s' = event_queue s \<or> event_queue s' = event_queue s @ [b]) \<and>
      (\<forall>a. a \<noteq> b \<longrightarrow> events s' a = events s a) \<and>
      (event_queue s' = event_queue s @ [b] \<longrightarrow> ev_source_id (events s' b) = ev_source_id r \<and>
        ev_target_id (events s' b) = ev_target_id r \<and> \<not> ev_response_requested (events s' b)))"
proof (cases "free_event_queue s")
  case Nil
  define r' where "r' = r\<lparr>ev_is_response := True, ev_response_requested := False\<rparr>"
  have d: "duplicate_event (FWK_EVENT_TYPE_STD r') s = Some (NULL, s)"
    using Nil s(1) by (simp add: duplicate_event_def fwk_list_pop_head_def)
  have "complete_response r s = Some s"
    using d put_event_nomem [of s "FWK_EVENT_TYPE_STD r'"] Nil s(1)
    by (auto simp: complete_response_def store_delayed_response_def r'_def [symmetric] Let_def)
  moreover have "NULL \<notin> set (event_queue s) \<and> NULL \<notin> set (isr_event_queue s)"
    using s(3) pool_NULL [of s] unfolding pool_ok_def by blast
  ultimately show ?thesis by (intro exI [of _ s]) auto
next
  case (Cons b rest)
  define r' where "r' = r\<lparr>ev_is_response := True, ev_response_requested := False\<rparr>"
  have b: "b \<noteq> NULL" using s(3) Cons pool_NULL [of s] by (auto simp: pool_ok_def)
  have "count (pool s) b \<le> 1" using s(3) by (simp add: pool_ok_def)
  then have nin: "b \<notin> set (event_queue s)" "b \<notin> set (isr_event_queue s)"
    using Cons by (auto simp: pool_def simp flip: count_greater_zero_iff count_mset_0_iff)
  show ?thesis
  proof (cases "ev_is_delayed_response r")
    case False
    then have "complete_response r s = Some (enqueue_event b UNKNOWN_STATE (s\<lparr>free_event_queue := rest,
        event_cookie_counter := event_cookie_counter s + 1,
        events := (events s)(b := r'\<lparr>ev_cookie := event_cookie_counter s\<rparr>)\<rparr>))"
      using put_event_std [OF Cons b, of r' UNKNOWN_STATE]
      by (simp add: complete_response_def r'_def Let_def)
    then show ?thesis
      using nin s(2) by (auto simp: enqueue_event_def fwk_list_push_tail_def r'_def intro!: exI [of _ b])
  next
    case True
    let ?t = "s\<lparr>free_event_queue := rest, events := (events s)(b := r')\<rparr>"
    obtain q where q: "fwk_get_delayed_response_list (ev_source_id r) ?t = Some q"
      using valid_entity_delayed_list [of "ev_source_id r" ?t] src s(4)
        skeleton_valid_entity [of ?t s] skeleton_wf [of ?t s] by auto
    from upd_delayed_eq [OF this, of "fwk_list_push_tail b"] obtain s' where
      u: "upd_delayed_response_list (ev_source_id r) (fwk_list_push_tail b) ?t = Some s'" by auto
    then have "complete_response r s = Some s'"
      using True b duplicate_event_std [OF Cons b, of r']
      by (simp add: complete_response_def store_delayed_response_def r'_def Let_def)
    moreover have "isr_event_queue s' = isr_event_queue s \<and> event_queue s' = event_queue s \<and>
        events s' = (events s)(b := r')"
      using upd_delayed_fields [OF u] by simp
    ultimately show ?thesis using nin by (auto intro!: exI [of _ b])
  qed
qed

lemma handler_quietE:
  assumes "handler_quiet h"
  obtains status ps d x where "h e r s =
    Some ((status, r\<lparr>ev_params := ps, ev_is_delayed_response := d\<rparr>), fwk_state.more_update (\<lambda>_. x) s)"
  using assms unfolding handler_quiet_def by blast

lemma process_next_event_quiet:
  assumes ready: "queue_ready s" and ops: "ops_quiet ops" and q: "event_queue s = a # q"
  shows "\<exists>s'. process_next_event ops u s = Some s' \<and> queue_ready s' \<and> queue_weight s' < queue_weight s"
proof -
  note r = ready [unfolded queue_ready_def]
  have ok: "pool_ok s" using r by simp
  have a: "a \<noteq> NULL" using ok q pool_NULL [of s] by (auto simp: pool_ok_def)
  let ?e = "events s a" and ?t = "s\<lparr>event_queue := q, current_event := a\<rparr>"
  have da: "deliverable s ?e" using r q by simp
  obtain h where h: "target_handler ops ?e ?t = Some h" "handler_quiet h"
    using deliverable_handler [OF da ops, of ?t] by auto
  have pt: "pool ?t = pool s" using q a r by (simp add: pool_def delayed_events_def)
  then have okt: "pool_ok ?t" using ok by (simp add: pool_ok_def)
  have "count (pool s) x \<le> 1" for x using ok by (simp add: pool_ok_def)
  obtain t' b new where t': "if ev_response_requested ?e
      then \<exists>status resp t1. h ?e (response_template ?e) ?t = Some ((status, resp), t1) \<and>
        complete_response resp t1 = Some t'
      else \<exists>r. h ?e u ?t = Some (r, t')"
    and p': "pool t' = pool s" and c': "current_event t' = a" and f': "ctx_skeleton t' = ctx_skeleton s"
    and d': "\<not> dbg t'" "\<not> interrupt_context t'"
    and isr': "isr_event_queue t' = isr_event_queue s" and q': "event_queue t' = q @ new"
    and new: "new = [] \<or> new = [b] \<and> ev_response_requested ?e"
    and b: "b \<notin> set q" "b \<notin> set (isr_event_queue s)"
    and ev': "\<forall>c. c \<noteq> b \<longrightarrow> events t' c = events s c"
    and evb: "new = [b] \<longrightarrow> deliverable s (events t' b) \<and> \<not> ev_response_requested (events t' b)"
  proof (cases "ev_response_requested ?e")
    case False
    obtain status ps d x where "h ?e u ?t = Some ((status, u\<lparr>ev_params := ps, ev_is_delayed_response := d\<rparr>),
        fwk_state.more_update (\<lambda>_. x) ?t)" using handler_quietE [OF h(2)] .
    then show thesis
      using False r pt a ok pool_NULL [of s] q
      by (intro that [of "fwk_state.more_update (\<lambda>_. x) ?t" "[]" NULL]) (auto simp: pool_ok_def)
  next
    case True
    obtain status ps d x where hr: "h ?e (response_template ?e) ?t =
        Some ((status, (response_template ?e)\<lparr>ev_params := ps, ev_is_delayed_response := d\<rparr>),
          fwk_state.more_update (\<lambda>_. x) ?t)" using handler_quietE [OF h(2)] .
    let ?r = "(response_template ?e)\<lparr>ev_params := ps, ev_is_delayed_response := d\<rparr>"
    let ?t1 = "fwk_state.more_update (\<lambda>_. x) ?t"
    have sk: "ctx_skeleton ?t1 = ctx_skeleton s" by simp
    have "fwk_module_is_valid_entity_id (ev_source_id ?r) ?t1 = Some True"
      using da r skeleton_valid_entity [OF sk] by (simp add: deliverable_def response_template_def)
    moreover have "pool_ok ?t1" "ctx_table_wf ?t1" using okt skeleton_wf [OF sk] r by (simp_all add: pool_ok_def)
    ultimately obtain s2 c where s2: "complete_response ?r ?t1 = Some s2"
      and i: "isr_event_queue s2 = isr_event_queue s" and c: "c \<notin> set q" "c \<notin> set (isr_event_queue s)"
      and q2: "event_queue s2 = q \<or> event_queue s2 = q @ [c]" and e2: "\<forall>a. a \<noteq> c \<longrightarrow> events s2 a = events s a"
      and ec: "event_queue s2 = q @ [c] \<longrightarrow> ev_source_id (events s2 c) = ev_source_id ?r \<and>
        ev_target_id (events s2 c) = ev_target_id ?r \<and> \<not> ev_response_requested (events s2 c)"
      using complete_response_effect [of ?t1 ?r] r by auto
    have "pool s2 = pool ?t1 \<and> event_frame s2 = event_frame ?t1"
      using complete_response_pool [OF s2] okt by (simp add: pool_ok_def)
    then have fr: "pool s2 = pool s" "current_event s2 = a" "ctx_skeleton s2 = ctx_skeleton s" "\<not> dbg s2" "\<not> interrupt_context s2"
      using pt event_frame_skeleton [of s2 ?t1] event_frameD [of s2 ?t1] r by auto
    show thesis
      using that [of s2 "drop (length q) (event_queue s2)" c] True hr s2 fr i c q2 e2 ec da
      by (auto simp: deliverable_def response_template_def)
  qed
  define s' where "s' = free_event a (t'\<lparr>current_event := NULL\<rparr>)"
  have run: "process_next_event ops u s = Some s'"
    using t' h(1) q a
    by (auto simp: process_next_event_def fwk_list_pop_head_def s'_def Let_def split: if_splits)
  have sk: "ctx_skeleton s' = ctx_skeleton s" using f' by (simp add: s'_def)
  have "pool t' = add_mset a (pool (t'\<lparr>current_event := NULL\<rparr>))"
    using c' a by (simp add: pool_def delayed_events_def)
  then have ps': "pool s' = pool s" using p' by (simp add: s'_def)
  have cs': "current_event s' = NULL" "\<not> dbg s'" "\<not> interrupt_context s'"
    using d' by (simp_all add: s'_def free_event_def)
  have evs: "events s' = events t'" "event_queue s' = q @ new" "isr_event_queue s' = isr_event_queue s"
    using q' isr' by (simp_all add: s'_def free_event_def)
  have same: "\<forall>c \<in> set q \<union> set (isr_event_queue s). events s' c = events s c"
    using evs(1) ev' b by auto
  then have m: "map (\<lambda>c. event_weight (events s' c)) q = map (\<lambda>c. event_weight (events s c)) q"
    "map (\<lambda>c. Suc (event_weight (events s' c))) (isr_event_queue s)
      = map (\<lambda>c. Suc (event_weight (events s c))) (isr_event_queue s)" by auto
  have "(\<Sum>c\<leftarrow>new. event_weight (events s' c)) < event_weight ?e"
    using new evb evs(1) by (auto simp: event_weight_def)
  moreover have "queue_weight s' = (\<Sum>c\<leftarrow>q. event_weight (events s c)) + (\<Sum>c\<leftarrow>new. event_weight (events s' c)) +
      (\<Sum>c\<leftarrow>isr_event_queue s. Suc (event_weight (events s c)))"
    unfolding queue_weight_def evs(2,3) map_append sum_list_append m ..
  ultimately have "queue_weight s' < queue_weight s"
    using q by (simp add: queue_weight_def)
  moreover have "queue_ready s'"
  proof -
    have wf: "ctx_table_wf s" using r by simp
    have "deliverable s (events s' c)" if "c \<in> set (event_queue s') \<union> set (isr_event_queue s')" for c
      using that same r q new evb evs by auto
    then show ?thesis
      using skeleton_deliverable [OF sk wf] skeleton_wf [OF sk wf] ok ps' cs'
      by (simp add: queue_ready_def pool_ok_def)
  qed
  ultimately show ?thesis using run by blast
qed

lemma process_isr_ready:
  assumes ready: "queue_ready s" and q: "event_queue s = []" "isr_event_queue s = a # rest"
  shows "\<exists>t. process_isr s = (True, t) \<and> queue_ready t \<and> queue_weight t < queue_weight s"
proof -
  have p: "NULL \<notin># pool s" using ready by (simp add: queue_ready_def pool_ok_def)
  then have a: "a \<noteq> NULL" using q pool_NULL by fastforce
  let ?t = "s\<lparr>isr_event_queue := rest, event_queue := [a]\<rparr>"
  have t: "process_isr s = (True, ?t)"
    using q a by (simp add: process_isr_def fwk_list_pop_head_def fwk_list_push_tail_def)
  have sk: "ctx_skeleton ?t = ctx_skeleton s" by simp
  have "pool ?t = pool s" using pool_process_isr [OF t] p pool_NULL by blast
  then have "queue_ready ?t"
    using ready q skeleton_wf [OF sk] skeleton_deliverable [OF sk] by (auto simp: queue_ready_def pool_ok_def)
  then show ?thesis using t q by (auto simp: queue_weight_def)
qed

text \<open>C2. Draining. In a Release build outside interrupt context, with every queued event addressed
  from and to an existing entity and every module implementing handlers that send nothing
  themselves, \<open>fwk_process_event_queue\<close> returns, with both queues empty and the framework ready
  for the next round, within as many turns as the weight of the queues: one per event, one more per
  requested response and one more per event raised by an interrupt.\<close>

theorem fwk_process_event_queue_returns:
  assumes "queue_ready s" "ops_quiet ops" "queue_weight s < fuel"
  shows "\<exists>s'. fwk_process_event_queue ops u fuel s = Some (True, s') \<and>
    event_queue s' = [] \<and> isr_event_queue s' = [] \<and> queue_ready s'"
  using assms(1,3)
proof (induction fuel arbitrary: s)
  case (Suc n)
  show ?case
  proof (cases "event_queue s")
    case (Cons a q)
    from process_next_event_quiet [OF Suc.prems(1) assms(2) Cons, of u] obtain t where
      "process_next_event ops u s = Some t" "queue_ready t" "queue_weight t < queue_weight s" by auto
    then show ?thesis using Suc.IH [of t] Suc.prems(2) Cons by simp
  next
    case q: Nil
    show ?thesis
    proof (cases "isr_event_queue s")
      case Nil
      then have "process_isr s = (False, s)"
        by (simp add: process_isr_def fwk_list_pop_head_def)
      then show ?thesis using q Nil Suc.prems(1) by simp
    next
      case (Cons a rest)
      from process_isr_ready [OF Suc.prems(1) q Cons] obtain t where
        "process_isr s = (True, t)" "queue_ready t" "queue_weight t < queue_weight s" by auto
      then show ?thesis using Suc.IH [of t] Suc.prems(2) q by simp
    qed
  qed
qed simp

section \<open>Instances\<close>

text \<open>Two modules (\<open>Fwk_Module\<close>), three event structures, one request queued in structure 1 for an
  element of module 1; handlers that answer without touching the framework.\<close>

definition request0 :: fwk_event where
  "request0 = event_zero\<lparr>ev_source_id := FWK_ID_MODULE 0, ev_target_id := FWK_ID_ELEMENT 1 0,
    ev_id := FWK_ID_EVENT 1 0, ev_response_requested := True\<rparr>"

definition state2 :: fwk_state where
  "state2 = snd (fwk_init 3 state1)"

definition state3 :: fwk_state where
  "state3 = state2\<lparr>free_event_queue := [2, 3], event_queue := [1],
    events := (events state2)(1 := request0)\<rparr>"

definition quiet_ops :: "nat \<Rightarrow> fwk_state module_ops" where
  "quiet_ops m = no_ops\<lparr>op_process_event := Some (\<lambda>e r s. Some ((FWK_SUCCESS, r), s)),
    op_process_notification := Some (\<lambda>e r s. Some ((FWK_SUCCESS, r), s))\<rparr>"

lemma quiet_ops_quiet: "ops_quiet quiet_ops"
proof -
  have "handler_quiet (\<lambda>e r (s :: fwk_state). Some ((FWK_SUCCESS, r), s))"
    unfolding handler_quiet_def
  proof (intro allI)
    fix e r :: fwk_event and s :: fwk_state
    show "\<exists>status ps d x. Some ((FWK_SUCCESS, r), s) = Some ((status,
        r\<lparr>ev_params := ps, ev_is_delayed_response := d\<rparr>), fwk_state.more_update (\<lambda>_. x) s)"
      by (intro exI [of _ FWK_SUCCESS] exI [of _ "ev_params r"] exI [of _ "ev_is_delayed_response r"]
          exI [of _ "()"]) simp
  qed
  then show ?thesis by (simp add: ops_quiet_def quiet_ops_def)
qed

lemma quiet_ops_conserve: "handlers_conserve quiet_ops"
  by (simp add: handlers_conserve_def handler_conserves_def quiet_ops_def)

lemma state2_fields [simp]:
  "free_event_queue state2 = [1, 2, 3]" "isr_event_queue state2 = []" "event_queue state2 = []"
  "current_event state2 = NULL" "dbg state2 = False" "interrupt_context state2 = False"
  "module_ctx_table state2 = module_ctx_table state1"
  by (simp_all add: state2_def fwk_init_def upt_rec numeral_nat)

lemma delayed_events_state1: "delayed_events state1 = {#}"
  by (simp add: delayed_events_def state1_def fwk_module_init_defs desc0_def config0_def config1_def
      delayed_of_ctx_def)

lemma state2_delayed [simp]: "delayed_events state2 = {#}"
  using delayed_events_state1 by (simp add: delayed_events_def)

lemma pool_state2: "pool state2 = {#1, 2, 3#}"
  by (simp add: pool_def)

lemma state3_fields [simp]:
  "free_event_queue state3 = [2, 3]" "isr_event_queue state3 = []" "event_queue state3 = [1]"
  "current_event state3 = NULL" "dbg state3 = False" "interrupt_context state3 = False"
  "events state3 1 = request0" "events state3 (Suc 0) = request0"
  "module_ctx_table state3 = module_ctx_table state1"
  by (simp_all add: state3_def)

lemma pool_state3: "pool state3 = {#1, 2, 3#}"
  using state2_delayed by (simp add: pool_def state3_def delayed_events_def)

lemma state3_ready: "queue_ready state3"
proof -
  have "ctx_table_wf state3" using state1_wf by (simp add: ctx_table_wf_def)
  moreover have "deliverable state3 request0"
    by (simp add: deliverable_def request0_def valid_entity_id_iff valid_element_id_iff
        valid_module_id_iff)
  ultimately show ?thesis by (simp add: queue_ready_def pool_ok_def pool_state3)
qed

theorem fwk_put_event_rejects_witness:
  "fwk_put_event (Some event_zero) state2 = Some ((FWK_E_PARAM, Some event_zero), state2)"
proof -
  have "fwk_put_event (Some event_zero) state2 = Some ((FWK_E_PARAM, Some event_zero), state2)"
    by (simp add: fwk_put_event_def resolve_source_def fwk_id_type_is_valid_def common_type_def
        id_field_def event_zero_def)
  then show ?thesis using fwk_put_event_rejects [of "Some event_zero" state2] by (simp add: pool_state2)
qed

theorem event_pool_conserved_witness:
  "\<exists>b s'. fwk_process_event_queue quiet_ops event_zero 3 state3 = Some (b, s') \<and> pool s' = {#1, 2, 3#}"
proof -
  have "case fwk_process_event_queue quiet_ops event_zero 3 state3 of None \<Rightarrow> False | Some _ \<Rightarrow> True"
    by code_simp
  then obtain b s' where "fwk_process_event_queue quiet_ops event_zero 3 state3 = Some (b, s')"
    by (auto split: option.splits)
  then show ?thesis
    using event_pool_conserved [OF quiet_ops_conserve, of state3] by (simp add: pool_state3)
qed

theorem fwk_process_event_queue_returns_witness:
  "\<exists>s'. fwk_process_event_queue quiet_ops event_zero 3 state3 = Some (True, s') \<and> event_queue s' = []"
proof -
  have "queue_weight state3 < 3"
    by (simp add: queue_weight_def event_weight_def request0_def)
  then show ?thesis
    using fwk_process_event_queue_returns [OF state3_ready quiet_ops_quiet, of 3 event_zero] by auto
qed

end
