(* ===== verification/Fwk_Event_Props.thy ===== *)
theory Fwk_Event_Props
  imports Fwk_Event
begin

text \<open>
  End-to-end behaviour of the event core: a request and its response, a delayed response from the
  request to its delivery, and the cookie of a light event.
\<close>

lemma get_after_upd_delayed:
  assumes "fwk_get_delayed_response_list i s = Some q" "upd_delayed_response_list i f s = Some s'"
  shows "fwk_get_delayed_response_list i s' = Some (f q)"
proof -
  note l = delayed_list_cases [OF assms(1)]
  show ?thesis
  proof (cases "common_type i = 2")
    case True
    then show ?thesis
      using l assms(2) upd_delayed_eq [OF assms(1), of f]
      by (auto simp: fwk_get_delayed_response_list_def fwk_module_get_ctx_def fwk_id_is_type_def
          fwk_id_type_is_valid_def upd_module_ctx_def FWK_ID_TYPE_COUNT_def)
  next
    case False
    then show ?thesis
      using l assms(2) upd_delayed_eq [OF assms(1), of f]
      by (auto simp: fwk_get_delayed_response_list_def fwk_module_get_ctx_def fwk_id_is_type_def
          fwk_module_get_element_ctx_def fwk_id_type_is_valid_def upd_module_ctx_def upd_element_ctx_def
          FWK_ID_TYPE_COUNT_def Let_def)
  qed
qed

lemma delayed_list_skeleton:
  "module_ctx_table s' = module_ctx_table s \<Longrightarrow>
    fwk_get_delayed_response_list i s' = fwk_get_delayed_response_list i s"
  by (simp add: fwk_get_delayed_response_list_def fwk_module_get_element_ctx_def fwk_module_get_ctx_def
      cong: if_cong)

lemma valid_entity_table:
  "module_ctx_table s' = module_ctx_table s \<Longrightarrow>
    fwk_module_is_valid_entity_id i s' = fwk_module_is_valid_entity_id i s"
  by (simp add: fwk_module_is_valid_entity_id_def fwk_module_is_valid_module_id_def
      fwk_module_is_valid_element_id_def fwk_module_is_valid_sub_element_id_def cong: if_cong fwk_id_type.case_cong)

lemma target_handler_table:
  assumes "fwk_module_is_valid_entity_id (ev_target_id e) s = Some True" "\<not> ev_is_notification e"
    and "module_ctx_table t = module_ctx_table s"
  shows "target_handler ops e t = op_process_event (ops (unat (common_module_idx (ev_target_id e))))"
proof -
  have "fwk_module_is_valid_entity_id (ev_target_id e) t = Some True"
    using assms(1) valid_entity_table [OF assms(3)] by simp
  from valid_entity_ctx(2) [OF this] assms(2) show ?thesis by (simp add: target_handler_def)
qed

lemma fwk_put_event_std:
  assumes "current_event s = NULL" "\<not> interrupt_context s" "\<not> dbg s"
    and "fwk_module_is_valid_entity_id (ev_source_id e) s = Some True"
    and "free_event_queue s = a # rest" "a \<noteq> NULL" "\<not> ev_is_delayed_response e"
  shows "fwk_put_event (Some e) s =
    Some ((FWK_SUCCESS, Some (e\<lparr>ev_cookie := event_cookie_counter s\<rparr>)),
      s\<lparr>free_event_queue := rest, event_cookie_counter := event_cookie_counter s + 1,
        events := (events s)(a := e\<lparr>ev_cookie := event_cookie_counter s\<rparr>),
        event_queue := event_queue s @ [a]\<rparr>)"
  using assms put_event_std [OF assms(5,6,7)]
  by (simp add: fwk_put_event_def resolve_source_idle enqueue_event_def fwk_list_push_tail_def)

section \<open>Properties\<close>

text \<open>C3. A request and its response. An idle Release build sends a request between two valid
  entities and processes it with a handler that fills in the parameters of the response: exactly
  one event is then queued, addressed back from the target to the source, with the identifier of
  the request, the handler's parameters, the response flag set, no further response requested and
  the next cookie; the structure of the request is free again.\<close>

theorem request_response:
  assumes idle: "current_event s = NULL" "\<not> interrupt_context s" "\<not> dbg s" "event_queue s = []"
    and pool: "free_event_queue s = a # b # rest" "pool_ok s"
    and ids: "fwk_module_is_valid_entity_id (ev_source_id e) s = Some True"
      "fwk_module_is_valid_entity_id (ev_target_id e) s = Some True"
    and e: "ev_response_requested e" "\<not> ev_is_delayed_response e" "\<not> ev_is_notification e"
    and h: "op_process_event (ops (unat (common_module_idx (ev_target_id e)))) = Some h"
      "\<And>ev r t. h ev r t = Some ((FWK_SUCCESS, r\<lparr>ev_params := reply ev\<rparr>), t)"
  shows "\<exists>s1 s2. fwk_put_event (Some e) s =
      Some ((FWK_SUCCESS, Some (e\<lparr>ev_cookie := event_cookie_counter s\<rparr>)), s1) \<and>
    process_next_event ops u s1 = Some s2 \<and> event_queue s2 = [b] \<and>
    events s2 b = \<lparr>ev_source_id = ev_target_id e, ev_target_id = ev_source_id e,
      ev_cookie = event_cookie_counter s + 1, ev_is_response = True, ev_response_requested = False,
      ev_is_notification = False, ev_is_delayed_response = False, ev_id = ev_id e,
      ev_params = reply (e\<lparr>ev_cookie := event_cookie_counter s\<rparr>)\<rparr> \<and>
    free_event_queue s2 = rest @ [a] \<and> current_event s2 = NULL"
proof -
  have nz: "a \<noteq> NULL" "b \<noteq> NULL" using pool pool_NULL [of s] by (auto simp: pool_ok_def)
  define e1 where "e1 = e\<lparr>ev_cookie := event_cookie_counter s\<rparr>"
  define s1 where "s1 = s\<lparr>free_event_queue := b # rest, event_cookie_counter := event_cookie_counter s + 1,
    events := (events s)(a := e1), event_queue := [a]\<rparr>"
  have put: "fwk_put_event (Some e) s = Some ((FWK_SUCCESS, Some e1), s1)"
    using fwk_put_event_std [OF idle(1-3) ids(1) pool(1) nz(1) e(2)] idle(4) by (simp add: s1_def e1_def)
  define t where "t = s1\<lparr>event_queue := [], current_event := a\<rparr>"
  have th: "target_handler ops e1 t = Some h"
    using target_handler_table [of e1 s t ops] ids(2) e(3) h(1) by (simp add: e1_def t_def s1_def)
  define r where "r = (response_template e1)\<lparr>ev_params := reply e1\<rparr>"
  define r' where "r' = r\<lparr>ev_is_response := True, ev_response_requested := False\<rparr>"
  have "complete_response r t = Some (enqueue_event b UNKNOWN_STATE (t\<lparr>free_event_queue := rest,
      event_cookie_counter := event_cookie_counter t + 1,
      events := (events t)(b := r'\<lparr>ev_cookie := event_cookie_counter t\<rparr>)\<rparr>))"
    using put_event_std [of t b rest r' UNKNOWN_STATE] nz(2)
    by (simp add: complete_response_def r'_def r_def response_template_def t_def s1_def Let_def)
  moreover have "events s1 a = e1" "ev_response_requested e1" using e by (simp_all add: s1_def e1_def)
  ultimately have run: "process_next_event ops u s1 = Some (free_event a
      ((enqueue_event b UNKNOWN_STATE (t\<lparr>free_event_queue := rest,
        event_cookie_counter := event_cookie_counter t + 1,
        events := (events t)(b := r'\<lparr>ev_cookie := event_cookie_counter t\<rparr>)\<rparr>))\<lparr>current_event := NULL\<rparr>))"
    using th nz(1) h(2) [of e1 "response_template e1" t]
    by (simp add: process_next_event_def fwk_list_pop_head_def t_def [symmetric] r_def [symmetric])
      (simp add: t_def s1_def)
  show ?thesis
    using put run idle(2) e(3)
    by (simp add: e1_def free_event_def fwk_list_push_tail_def enqueue_event_def t_def s1_def r'_def r_def
        response_template_def)
qed

lemma search_cookie_append:
  "\<forall>x \<in> set q. x \<noteq> NULL \<and> ev_cookie (evs x) \<noteq> c \<Longrightarrow> search_cookie evs c (q @ [a]) =
    (if ev_cookie (evs a) = c then a else NULL)"
  by (induction q) auto

lemma remove1_last: "a \<notin> set q \<Longrightarrow> remove1 a (q @ [a]) = q"
  by (simp add: remove1_append)

lemma search_cookie_none: "\<forall>x \<in> set q. ev_cookie (evs x) \<noteq> c \<Longrightarrow> search_cookie evs c q = NULL"
  by (induction q) auto

text \<open>The state in which a delayed response \<open>resp\<close> of entity \<open>i\<close> is stored in structure \<open>b\<close>, behind
  the responses \<open>dl\<close> with other cookies.\<close>

definition response_pending :: "fwk_id \<Rightarrow> addr \<Rightarrow> fwk_event \<Rightarrow> addr list \<Rightarrow> 'a fwk_state_scheme \<Rightarrow> bool" where
  "response_pending i b resp dl s \<longleftrightarrow>
    fwk_get_delayed_response_list i s = Some (dl @ [b]) \<and> b \<notin> set dl \<and> b \<noteq> NULL \<and>
    events s b = resp \<and> (\<forall>x \<in> set dl. x \<noteq> NULL \<and> ev_cookie (events s x) \<noteq> ev_cookie resp)"

lemma response_pending_search:
  "response_pending i b resp dl s \<Longrightarrow> fwk_search_delayed_response i (ev_cookie resp) s = Some b"
  using search_cookie_append [of dl "events s" "ev_cookie resp" b]
  by (simp add: response_pending_def fwk_search_delayed_response_def)

lemma store_delayed_effect:
  assumes "free_event_queue t = b # rest" "b \<noteq> NULL"
    and "fwk_get_delayed_response_list (ev_source_id resp) t = Some dl"
  shows "\<exists>t'. store_delayed_response resp t = Some t' \<and> free_event_queue t' = rest \<and>
    event_queue t' = event_queue t \<and> events t' = (events t)(b := resp) \<and>
    event_frame t' = event_frame t \<and>
    fwk_get_delayed_response_list (ev_source_id resp) t' = Some (dl @ [b])"
proof -
  define t1 where "t1 = t\<lparr>free_event_queue := rest, events := (events t)(b := resp)\<rparr>"
  have l1: "fwk_get_delayed_response_list (ev_source_id resp) t1 = Some dl"
    using assms(3) delayed_list_skeleton [of t1 t] by (simp add: t1_def)
  obtain t2 where t2: "upd_delayed_response_list (ev_source_id resp) (fwk_list_push_tail b) t1 = Some t2"
    using upd_delayed_eq [OF l1] by auto
  have "store_delayed_response resp t = Some t2"
    using duplicate_event_std [OF assms(1,2), of resp] assms(2) t2
    by (simp add: store_delayed_response_def t1_def)
  moreover have "event_frame t2 = event_frame t"
    using upd_delayed_event_frame [OF t2] by (simp add: t1_def)
  ultimately show ?thesis
    using upd_delayed_fields [OF t2] get_after_upd_delayed [OF l1 t2]
    by (simp add: t1_def fwk_list_push_tail_def)
qed

lemma free_not_delayed:
  assumes "pool_ok s" "free_event_queue s = b # rest" "fwk_get_delayed_response_list i s = Some dl"
  shows "b \<notin> set dl \<and> NULL \<notin> set dl \<and> b \<noteq> NULL"
proof -
  have p: "NULL \<notin># pool s" "count (pool s) b \<le> 1" using assms(1) by (simp_all add: pool_ok_def)
  have sub: "mset dl \<subseteq># delayed_events s"
    using upd_delayed_events [OF assms(3), of "\<lambda>_. []"] upd_delayed_eq [OF assms(3), of "\<lambda>_. []"]
    by (metis mset.simps(1) add.right_neutral mset_subset_eq_add_right)
  have "NULL \<notin># delayed_events s" using p(1) by (simp add: pool_def)
  moreover have "b \<notin># delayed_events s"
    using p(2) assms(2) by (auto simp: pool_def count_eq_zero_iff)
  ultimately show ?thesis
    using set_mset_mono [OF sub] p(1) assms(2) pool_NULL [of s] by auto
qed

text \<open>Delaying a response. When the handler of a request marks the response as delayed, nothing
  is sent: the response, addressed back to the requester, is stored with the cookie of the request
  at the end of the target's list, and \<open>fwk_get_delayed_response\<close> called with that cookie returns
  it.\<close>

theorem delayed_response_stored:
  assumes s: "\<not> interrupt_context s" "event_queue s = a # q" "free_event_queue s = b # rest" "pool_ok s"
    and wf: "ctx_table_wf s"
    and ids: "fwk_module_is_valid_entity_id (ev_target_id (events s a)) s = Some True"
    and e: "ev_response_requested (events s a)" "\<not> ev_is_notification (events s a)"
    and h: "op_process_event (ops (unat (common_module_idx (ev_target_id (events s a))))) = Some h"
      "\<And>ev r t. h ev r t = Some ((FWK_PENDING, r\<lparr>ev_is_delayed_response := True\<rparr>), t)"
    and dl: "fwk_get_delayed_response_list (ev_target_id (events s a)) s = Some dl"
      "\<forall>x \<in> set dl. ev_cookie (events s x) \<noteq> ev_cookie (events s a)"
  shows "\<exists>s' resp. process_next_event ops u s = Some s' \<and> event_queue s' = q \<and>
    free_event_queue s' = rest @ [a] \<and>
    resp = (events s a)\<lparr>ev_source_id := ev_target_id (events s a), ev_target_id := ev_source_id (events s a),
      ev_is_delayed_response := True, ev_is_response := True, ev_response_requested := False\<rparr> \<and>
    response_pending (ev_target_id (events s a)) b resp dl s' \<and>
    fwk_get_delayed_response (ev_target_id (events s a)) (ev_cookie (events s a)) (Some u) s' =
      Some (FWK_SUCCESS, Some resp)"
proof -
  define e where "e = events s a"
  define i where "i = ev_target_id e"
  have nz: "a \<noteq> NULL" "b \<notin> set dl" "NULL \<notin> set dl" "b \<noteq> NULL"
    using s(2,4) free_not_delayed [OF s(4,3) dl(1)] pool_NULL [of s] by (auto simp: pool_ok_def)
  define t where "t = s\<lparr>event_queue := q, current_event := a\<rparr>"
  define r where "r = (response_template e)\<lparr>ev_is_delayed_response := True\<rparr>"
  define resp where "resp = r\<lparr>ev_is_response := True, ev_response_requested := False\<rparr>"
  have src: "ev_source_id resp = i" by (simp add: resp_def r_def i_def response_template_def)
  have th: "target_handler ops e t = Some h"
    using target_handler_table [of e s t ops] ids e h(1) by (simp add: e_def t_def)
  have "fwk_get_delayed_response_list (ev_source_id resp) t = Some dl"
    using dl(1) delayed_list_skeleton [of t s] src by (simp add: t_def i_def e_def)
  from store_delayed_effect [OF _ nz(4) this, of rest] obtain t2 where
    t2: "store_delayed_response resp t = Some t2" "free_event_queue t2 = rest" "event_queue t2 = q"
      "events t2 = (events s)(b := resp)" "fwk_get_delayed_response_list i t2 = Some (dl @ [b])"
    and fr: "event_frame t2 = event_frame t"
    using s(3) src by (auto simp: t_def)
  define s' where "s' = free_event a (t2\<lparr>current_event := NULL\<rparr>)"
  have "complete_response r t = Some t2"
    using t2(1) by (simp add: complete_response_def Let_def resp_def) (simp add: r_def)
  then have run: "process_next_event ops u s = Some s'"
    using th nz(1) h(2) [of e "response_template e" t] s(2) e
    by (simp add: process_next_event_def fwk_list_pop_head_def t_def [symmetric] e_def [symmetric]
        r_def [symmetric] s'_def)
  have s': "fwk_get_delayed_response_list i s' = Some (dl @ [b])" "events s' = (events s)(b := resp)"
    using t2(4,5) delayed_list_skeleton [of s' t2] by (simp_all add: s'_def free_event_def)
  have pend: "response_pending i b resp dl s'"
    using s' nz dl(2) by (auto simp: response_pending_def resp_def r_def response_template_def e_def)
      (metis neq0_conv)
  have "ctx_skeleton s' = ctx_skeleton s"
    using event_frame_skeleton [OF fr] by (simp add: s'_def t_def)
  then have "fwk_module_is_valid_entity_id i s' = Some True" "\<not> interrupt_context s'"
    using skeleton_valid_entity [of s' s i] wf ids event_frameD(2) [OF fr] s(1)
    by (simp_all add: i_def e_def s'_def free_event_def t_def)
  then have "fwk_get_delayed_response i (ev_cookie e) (Some u) s' = Some (FWK_SUCCESS, Some resp)"
    using response_pending_search [OF pend] s'(2) nz(4)
    by (simp add: fwk_get_delayed_response_def check_api_call_def resp_def r_def response_template_def)
  moreover have "resp = e\<lparr>ev_source_id := ev_target_id e, ev_target_id := ev_source_id e,
      ev_is_delayed_response := True, ev_is_response := True, ev_response_requested := False\<rparr>"
    by (simp add: resp_def r_def response_template_def)
  moreover have "event_queue s' = q" "free_event_queue s' = rest @ [a]"
    using t2(2,3) by (simp_all add: s'_def free_event_def fwk_list_push_tail_def)
  ultimately show ?thesis using run pend unfolding e_def [symmetric] i_def [symmetric] by blast
qed

text \<open>C4. Delivering a delayed response. Sending the event that \<open>fwk_get_delayed_response\<close> returned,
  with new parameters, does not take a structure from the free list: the stored structure itself
  leaves the list of the entity and joins the tail of the event queue with these parameters and
  the next cookie, and asking again for the old cookie fails with \<open>FWK_E_PARAM\<close>.\<close>

theorem delayed_response_delivered:
  assumes s: "current_event s = NULL" "\<not> interrupt_context s" "\<not> dbg s" "ctx_table_wf s"
    and pend: "response_pending i b resp dl s" "ev_source_id resp = i" "ev_is_delayed_response resp"
    and ids: "fwk_module_is_valid_entity_id i s = Some True"
  shows "\<exists>s'. fwk_put_event (Some (resp\<lparr>ev_params := ps\<rparr>)) s =
      Some ((FWK_SUCCESS, Some (resp\<lparr>ev_params := ps, ev_cookie := event_cookie_counter s\<rparr>)), s') \<and>
    event_queue s' = event_queue s @ [b] \<and>
    events s' b = resp\<lparr>ev_params := ps, ev_cookie := event_cookie_counter s\<rparr> \<and>
    free_event_queue s' = free_event_queue s \<and>
    fwk_get_delayed_response_list i s' = Some dl \<and>
    fwk_get_delayed_response i (ev_cookie resp) (Some u) s' = Some (FWK_E_PARAM, Some u)"
proof -
  note p = pend(1) [unfolded response_pending_def]
  have l: "fwk_get_delayed_response_list i s = Some (dl @ [b])" using p by simp
  obtain t where t: "upd_delayed_response_list i (fwk_list_remove b) s = Some t"
    using upd_delayed_eq [OF l] by auto
  define c where "c = event_cookie_counter s"
  define s' where "s' = t\<lparr>events := (events s)(b := resp\<lparr>ev_params := ps, ev_cookie := c\<rparr>),
    event_cookie_counter := c + 1, event_queue := event_queue s @ [b]\<rparr>"
  note f = upd_delayed_fields [OF t] event_frameD [OF upd_delayed_event_frame [OF t]]
  have al: "allocate_for (FWK_EVENT_TYPE_STD (resp\<lparr>ev_params := ps\<rparr>)) s =
      Some ((FWK_SUCCESS, b), t\<lparr>events := (events t)(b := (events t b)\<lparr>ev_params := ps\<rparr>)\<rparr>)"
    using response_pending_search [OF pend(1)] pend(2,3) p t by (simp add: allocate_for_def)
  then have "put_event (FWK_EVENT_TYPE_STD (resp\<lparr>ev_params := ps\<rparr>)) NOT_INTERRUPT_STATE s =
      Some ((FWK_SUCCESS, FWK_EVENT_TYPE_STD (resp\<lparr>ev_params := ps, ev_cookie := c\<rparr>)), s')"
    using f p by (simp add: put_event_def Let_def enqueue_event_def fwk_list_push_tail_def s'_def c_def)
  moreover have src: "resp\<lparr>ev_params := ps, ev_source_id := i\<rparr> = resp\<lparr>ev_params := ps\<rparr>"
    using pend(2) by (cases resp) simp
  ultimately have put: "fwk_put_event (Some (resp\<lparr>ev_params := ps\<rparr>)) s =
      Some ((FWK_SUCCESS, Some (resp\<lparr>ev_params := ps, ev_cookie := c\<rparr>)), s')"
    using s ids pend(2) by (simp add: fwk_put_event_def resolve_source_idle Let_def src)
  have l': "fwk_get_delayed_response_list i s' = Some dl"
    using get_after_upd_delayed [OF l t] delayed_list_skeleton [of s' t] p
    by (simp add: s'_def fwk_list_remove_def remove1_last)
  have "ctx_skeleton s' = ctx_skeleton s"
    using event_frame_skeleton [OF upd_delayed_event_frame [OF t]] by (simp add: s'_def ctx_skeleton_def)
  then have "fwk_module_is_valid_entity_id i s' = Some True" "\<not> interrupt_context s'"
    using skeleton_valid_entity [of s' s i] s ids f by (simp_all add: s'_def)
  moreover have "search_cookie (events s') (ev_cookie resp) dl = NULL"
    by (rule search_cookie_none) (use p in \<open>auto simp: s'_def\<close>)
  ultimately have "fwk_get_delayed_response i (ev_cookie resp) (Some u) s' = Some (FWK_E_PARAM, Some u)"
    using l' by (simp add: fwk_get_delayed_response_def check_api_call_def fwk_search_delayed_response_def)
  then show ?thesis using put l' f by (simp add: s'_def c_def)
qed

section \<open>The cookie of a light event\<close>

text \<open>A run from initialisation with three event structures: a standard request to an element of
  module 1 whose handler delays the response, a light event and a light request to the same
  element, the three processed in order.\<close>

definition delay_ops :: "nat \<Rightarrow> fwk_state module_ops" where
  "delay_ops m = no_ops\<lparr>op_process_event :=
    Some (\<lambda>e r s. Some ((FWK_PENDING, r\<lparr>ev_is_delayed_response := True\<rparr>), s))\<rparr>"

definition light0 :: fwk_event_light where
  "light0 = \<lparr>evl_source_id = FWK_ID_MODULE 0, evl_target_id = FWK_ID_ELEMENT 1 0,
    evl_id = FWK_ID_EVENT 1 0, evl_response_requested = False\<rparr>"

definition two_requests :: "fwk_state option" where
  "two_requests = do {
    (_, s) \<leftarrow> fwk_put_event (Some request0) state2;
    s \<leftarrow> process_next_event delay_ops event_zero s;
    (_, s) \<leftarrow> fwk_put_event_light (Some light0) s;
    (_, s) \<leftarrow> fwk_put_event_light (Some (light0\<lparr>evl_response_requested := True\<rparr>)) s;
    s \<leftarrow> process_next_event delay_ops event_zero s;
    process_next_event delay_ops event_zero s }"

text \<open>The cookie of a light event is the one its recycled structure had before, so it may repeat
  the cookie of a pending delayed response: after this run from the initial state the element has
  two pending delayed responses, in structures 2 and 3, with the same cookie, and searching for
  the cookie of the second one finds the first.\<close>

theorem light_event_stale_cookie:
  "map_option (\<lambda>s. (fwk_get_delayed_response_list (FWK_ID_ELEMENT 1 0) s,
      ev_cookie (events s 2), ev_cookie (events s 3),
      fwk_search_delayed_response (FWK_ID_ELEMENT 1 0) (ev_cookie (events s 3)) s)) two_requests =
    Some (Some [2, 3], 0, 0, Some 2)"
  by code_simp

section \<open>Instances of the properties\<close>

definition reply0 :: "fwk_event \<Rightarrow> u8 list" where
  "reply0 e = params_put32 0 42 (ev_params e)"

definition reply_ops :: "nat \<Rightarrow> fwk_state module_ops" where
  "reply_ops m = no_ops\<lparr>op_process_event :=
    Some (\<lambda>e r s. Some ((FWK_SUCCESS, r\<lparr>ev_params := reply0 e\<rparr>), s))\<rparr>"

lemma state2_ids:
  "fwk_module_is_valid_entity_id (FWK_ID_MODULE 0) state2 = Some True"
  "fwk_module_is_valid_entity_id (FWK_ID_ELEMENT 1 0) state2 = Some True"
  "fwk_module_is_valid_entity_id (FWK_ID_ELEMENT 1 0) state3 = Some True"
  by (simp_all add: valid_entity_id_iff valid_element_id_iff valid_module_id_iff)

lemma state2_pool_ok: "pool_ok state2"
  by (simp add: pool_ok_def pool_state2)

theorem request_response_witness:
  "\<exists>s1 s2. fwk_put_event (Some request0) state2 = Some ((FWK_SUCCESS,
      Some (request0\<lparr>ev_cookie := event_cookie_counter state2\<rparr>)), s1) \<and>
    process_next_event reply_ops event_zero s1 = Some s2 \<and> event_queue s2 = [2] \<and>
    ev_target_id (events s2 2) = FWK_ID_MODULE 0 \<and> free_event_queue s2 = [3, 1]"
  using request_response [of state2 1 2 "[3]" request0 reply_ops
      "\<lambda>e r s. Some ((FWK_SUCCESS, r\<lparr>ev_params := reply0 e\<rparr>), s)" reply0 event_zero]
    state2_ids state2_pool_ok
  by (fastforce simp: request0_def event_zero_def reply_ops_def)

lemma state3_delayed: "fwk_get_delayed_response_list (FWK_ID_ELEMENT 1 0) state3 = Some []"
  by code_simp

theorem delayed_response_stored_witness:
  "\<exists>s' resp. process_next_event delay_ops event_zero state3 = Some s' \<and> event_queue s' = [] \<and>
    response_pending (FWK_ID_ELEMENT 1 0) 2 resp [] s'"
  using delayed_response_stored [of state3 1 "[]" 2 "[3]" delay_ops
      "\<lambda>e r s. Some ((FWK_PENDING, r\<lparr>ev_is_delayed_response := True\<rparr>), s)" "[]" event_zero]
    state2_ids(3) state3_ready state3_delayed
  by (fastforce simp: queue_ready_def request0_def event_zero_def delay_ops_def)

definition response0 :: fwk_event where
  "response0 = request0\<lparr>ev_source_id := FWK_ID_ELEMENT 1 0, ev_target_id := FWK_ID_MODULE 0,
    ev_is_delayed_response := True, ev_is_response := True, ev_response_requested := False\<rparr>"

definition state4 :: fwk_state where
  "state4 = upd_element_ctx 1 0 (\<lambda>e. e\<lparr>ec_delayed_response_list := [2]\<rparr>)
    (state2\<lparr>free_event_queue := [3, 1], events := (events state2)(2 := response0)\<rparr>)"

lemma state4_pending: "response_pending (FWK_ID_ELEMENT 1 0) 2 response0 [] state4"
proof -
  have "fwk_get_delayed_response_list (FWK_ID_ELEMENT 1 0) state4 = Some [2]" by code_simp
  then show ?thesis by (simp add: response_pending_def state4_def upd_element_ctx_def)
qed

lemma state4_wf: "ctx_table_wf state4"
proof -
  have "ctx_skeleton state4 = ctx_skeleton state1" by code_simp
  then show ?thesis using skeleton_wf state1_wf by blast
qed

theorem delayed_response_delivered_witness:
  "\<exists>s'. fwk_put_event (Some (response0\<lparr>ev_params := params_zero\<rparr>)) state4 =
      Some ((FWK_SUCCESS, Some (response0\<lparr>ev_params := params_zero,
        ev_cookie := event_cookie_counter state4\<rparr>)), s') \<and>
    event_queue s' = [2] \<and> fwk_get_delayed_response_list (FWK_ID_ELEMENT 1 0) s' = Some []"
proof -
  have "fwk_module_is_valid_entity_id (FWK_ID_ELEMENT 1 0) state4 = Some True" by code_simp
  moreover have "event_queue state4 = []" by (simp add: state4_def upd_element_ctx_def)
  ultimately show ?thesis
    using delayed_response_delivered [OF _ _ _ state4_wf state4_pending, of params_zero event_zero]
    by (auto simp: state4_def upd_element_ctx_def response0_def)
qed

end
