(* ===== verification/Fwk_Lifecycle.thy ===== *)
theory Fwk_Lifecycle
  imports Fwk_Event
begin

text \<open>
  The pre-runtime phase of the module framework (\<open>fwk_module.c\<close>): initialisation of the modules and
  their elements, the two binding rounds, start, stop, and the binding request a module makes while
  it is bound. The functions of the modules come as \<open>ops\<close>, indexed by module; a loop over the
  elements of a module reads their number once, as no callback can change it.
\<close>

definition FWK_MODULE_BIND_ROUND_MAX :: nat where
  "FWK_MODULE_BIND_ROUND_MAX = 1"

text \<open>\<open>notification_max\<close> is the build's \<open>FMW_NOTIFICATION_MAX\<close>.\<close>

definition FWK_MODULE_EVENT_COUNT :: "nat \<Rightarrow> nat" where
  "FWK_MODULE_EVENT_COUNT notification_max = (if notification_max > 64 then notification_max else 64)"

definition set_module_state :: "nat \<Rightarrow> fwk_module_state \<Rightarrow> 'a fwk_state_scheme \<Rightarrow> 'a fwk_state_scheme" where
  "set_module_state m st s = upd_module_ctx m (\<lambda>c. c\<lparr>mc_state := st\<rparr>) s"

definition set_element_state ::
  "nat \<Rightarrow> nat \<Rightarrow> fwk_module_state \<Rightarrow> 'a fwk_state_scheme \<Rightarrow> 'a fwk_state_scheme" where
  "set_element_state m e st s = upd_element_ctx m e (\<lambda>c. c\<lparr>ec_state := st\<rparr>) s"

section \<open>Initialisation\<close>

definition fwk_module_init_element ::
  "(fwk_id \<Rightarrow> nat \<Rightarrow> addr \<Rightarrow> 'a fwk_state_scheme \<Rightarrow> (fwk_status \<times> 'a fwk_state_scheme) option)
    \<Rightarrow> nat \<Rightarrow> nat \<Rightarrow> 'a fwk_state_scheme \<Rightarrow> 'a fwk_state_scheme option" where
  "fwk_module_init_element element_init m i s = do {
    let c = module_ctx_table s ! m;
    element_id \<leftarrow> fwk_id_build_element_id (mc_id c) (of_nat i);
    let element = ec_desc (mc_element_ctx_table c ! i);
    let s = s\<lparr>bind_id := element_id\<rparr>;
    if el_data element = NULL then fwk_trap
    else do {
      (status, s) \<leftarrow> element_init element_id (el_sub_element_count element) (el_data element) s;
      if status \<noteq> FWK_SUCCESS then fwk_trap
      else Some (set_element_state m i FWK_MODULE_STATE_INITIALIZED s) } }"

definition fwk_module_init_elements ::
  "(nat \<Rightarrow> 'a fwk_state_scheme module_ops) \<Rightarrow> nat \<Rightarrow> 'a fwk_state_scheme \<Rightarrow> 'a fwk_state_scheme option" where
  "fwk_module_init_elements ops m s = (case op_element_init (ops m) of
      None \<Rightarrow> fwk_trap
    | Some element_init \<Rightarrow>
        for_each (fwk_module_init_element element_init m) [0..<mc_element_count (module_ctx_table s ! m)] s)"

text \<open>Creation of the elements of a module whose table comes from a generator.\<close>

definition generate_elements ::
  "(nat \<Rightarrow> 'a fwk_state_scheme module_ops) \<Rightarrow> nat \<Rightarrow> 'a fwk_state_scheme \<Rightarrow> 'a fwk_state_scheme option" where
  "generate_elements ops m s = (case op_generator (ops m) of
      None \<Rightarrow> fwk_trap
    | Some generator \<Rightarrow> do {
        (elements, s) \<leftarrow> generator (mc_id (module_ctx_table s ! m)) s;
        (case elements of
          None \<Rightarrow> fwk_trap
        | Some es \<Rightarrow> do {
            let c = module_ctx_table s ! m;
            c \<leftarrow> fwk_module_init_element_ctxs es (md_notification_count (mc_desc c)) c;
            Some (upd_module_ctx m (\<lambda>_. c) s) }) })"

definition fwk_module_init_module ::
  "(nat \<Rightarrow> 'a fwk_state_scheme module_ops) \<Rightarrow> nat \<Rightarrow> 'a fwk_state_scheme \<Rightarrow> 'a fwk_state_scheme option" where
  "fwk_module_init_module ops m s = do {
    let c = module_ctx_table s ! m;
    if md_type (mc_desc c) \<ge> FWK_MODULE_TYPE_COUNT then fwk_trap
    else if (md_api_count (mc_desc c) = 0) \<noteq> (op_process_bind_request (ops m) = None) then fwk_trap
    else (case op_init (ops m) of
      None \<Rightarrow> fwk_trap
    | Some init \<Rightarrow> do {
        s \<leftarrow> (if cfg_elements_type (mc_config c) = FWK_MODULE_ELEMENTS_TYPE_DYNAMIC
              then generate_elements ops m s else Some s);
        let c = module_ctx_table s ! m;
        (status, s) \<leftarrow> init (mc_id c) (mc_element_count c) (cfg_data (mc_config c)) s;
        if status \<noteq> FWK_SUCCESS then fwk_trap
        else do {
          s \<leftarrow> (if mc_element_count (module_ctx_table s ! m) > 0
                then fwk_module_init_elements ops m s else Some s);
          (status, s) \<leftarrow> (case op_post_init (ops m) of
              None \<Rightarrow> Some (FWK_SUCCESS, s)
            | Some post_init \<Rightarrow> post_init (mc_id (module_ctx_table s ! m)) s);
          if status \<noteq> FWK_SUCCESS then fwk_trap
          else Some (set_module_state m FWK_MODULE_STATE_INITIALIZED s) } }) }"

definition fwk_module_init_modules ::
  "(nat \<Rightarrow> 'a fwk_state_scheme module_ops) \<Rightarrow> 'a fwk_state_scheme \<Rightarrow> 'a fwk_state_scheme option" where
  "fwk_module_init_modules ops s =
    for_each (fwk_module_init_module ops) [0..<length (module_ctx_table s)] s"

section \<open>Binding\<close>

definition fwk_module_bind_element ::
  "(nat \<Rightarrow> 'a fwk_state_scheme module_ops) \<Rightarrow> nat \<Rightarrow> nat \<Rightarrow> nat \<Rightarrow> 'a fwk_state_scheme
    \<Rightarrow> (fwk_status \<times> 'a fwk_state_scheme) option" where
  "fwk_module_bind_element ops m round e s = do {
    bind_f \<leftarrow> op_bind (ops m);
    i \<leftarrow> fwk_id_build_element_id (mc_id (module_ctx_table s ! m)) (of_nat e);
    (status, s) \<leftarrow> bind_f i round (s\<lparr>bind_id := i\<rparr>);
    ok \<leftarrow> fwk_expect (dbg s) (status = FWK_SUCCESS);
    if \<not> ok then Some (status, s)
    else Some (FWK_SUCCESS, if round = FWK_MODULE_BIND_ROUND_MAX
      then set_element_state m e FWK_MODULE_STATE_BOUND s else s) }"

definition fwk_module_bind_elements ::
  "(nat \<Rightarrow> 'a fwk_state_scheme module_ops) \<Rightarrow> nat \<Rightarrow> nat \<Rightarrow> 'a fwk_state_scheme
    \<Rightarrow> (fwk_status \<times> 'a fwk_state_scheme) option" where
  "fwk_module_bind_elements ops m round s =
    for_each_status (fwk_module_bind_element ops m round)
      [0..<mc_element_count (module_ctx_table s ! m)] s"

definition fwk_module_bind_module ::
  "(nat \<Rightarrow> 'a fwk_state_scheme module_ops) \<Rightarrow> nat \<Rightarrow> nat \<Rightarrow> 'a fwk_state_scheme
    \<Rightarrow> (fwk_status \<times> 'a fwk_state_scheme) option" where
  "fwk_module_bind_module ops round m s = (case op_bind (ops m) of
      None \<Rightarrow> Some (FWK_SUCCESS, set_module_state m FWK_MODULE_STATE_BOUND s)
    | Some bind_f \<Rightarrow> do {
        let i = mc_id (module_ctx_table s ! m);
        (status, s) \<leftarrow> bind_f i round (s\<lparr>bind_id := i\<rparr>);
        ok \<leftarrow> fwk_expect (dbg s) (status = FWK_SUCCESS);
        if \<not> ok then Some (status, s)
        else fwk_module_bind_elements ops m round
          (if round = FWK_MODULE_BIND_ROUND_MAX then set_module_state m FWK_MODULE_STATE_BOUND s else s) })"

definition fwk_module_bind_modules ::
  "(nat \<Rightarrow> 'a fwk_state_scheme module_ops) \<Rightarrow> nat \<Rightarrow> 'a fwk_state_scheme
    \<Rightarrow> (fwk_status \<times> 'a fwk_state_scheme) option" where
  "fwk_module_bind_modules ops round s =
    for_each_status (fwk_module_bind_module ops round) [0..<length (module_ctx_table s)] s"

text \<open>The request a module makes while it is bound. \<open>api_is_null\<close> says whether the pointer \<open>api\<close> is
  NULL and \<open>api0\<close> is what it designates; the result holds what it designates afterwards. Every
  \<open>goto error\<close> ends in \<open>fwk_check(false)\<close>.\<close>

definition bind_error ::
  "fwk_status \<Rightarrow> addr \<Rightarrow> 'a fwk_state_scheme \<Rightarrow> ((fwk_status \<times> addr) \<times> 'a fwk_state_scheme) option" where
  "bind_error status api s = do { fwk_check (dbg s) False; Some ((status, api), s) }"

definition fwk_module_bind ::
  "(nat \<Rightarrow> 'a fwk_state_scheme module_ops) \<Rightarrow> fwk_id \<Rightarrow> fwk_id \<Rightarrow> bool \<Rightarrow> addr \<Rightarrow> 'a fwk_state_scheme
    \<Rightarrow> ((fwk_status \<times> addr) \<times> 'a fwk_state_scheme) option" where
  "fwk_module_bind ops target_id api_id api_is_null api0 s = do {
    valid \<leftarrow> fwk_module_is_valid_entity_id target_id s;
    if \<not> valid then bind_error FWK_E_PARAM api0 s
    else do {
      valid_api \<leftarrow> fwk_module_is_valid_api_id api_id s;
      if \<not> valid_api then bind_error FWK_E_PARAM api0 s
      else do {
        mt \<leftarrow> fwk_id_get_module_idx target_id;
        ma \<leftarrow> fwk_id_get_module_idx api_id;
        if mt \<noteq> ma then bind_error FWK_E_PARAM api0 s
        else if api_is_null then bind_error FWK_E_PARAM api0 s
        else do {
          c \<leftarrow> fwk_module_get_ctx target_id s;
          if (stage s \<noteq> MODULE_STAGE_INITIALIZE \<or> mc_state c \<noteq> FWK_MODULE_STATE_INITIALIZED) \<and>
              stage s \<noteq> MODULE_STAGE_BIND
          then bind_error FWK_E_STATE api0 s
          else do {
            process_bind_request \<leftarrow> op_process_bind_request (ops (unat mt));
            ((status, api), s) \<leftarrow> process_bind_request (bind_id s) target_id api_id api0 s;
            ok \<leftarrow> fwk_expect (dbg s) (status = FWK_SUCCESS);
            if \<not> ok then Some ((status, api), s)
            else if api = NULL then bind_error FWK_E_HANDLER api s
            else Some ((FWK_SUCCESS, api), s) } } } } }"

section \<open>Start and stop\<close>

text \<open>Starting and stopping run the same loop with a different callback and final state; a NULL
  callback is skipped.\<close>

definition call_optional ::
  "(fwk_id \<Rightarrow> 's \<Rightarrow> (fwk_status \<times> 's) option) option \<Rightarrow> fwk_id option \<Rightarrow> 's \<Rightarrow> (fwk_status \<times> 's) option" where
  "call_optional callback i s = (case callback of
      None \<Rightarrow> Some (FWK_SUCCESS, s)
    | Some f \<Rightarrow> do { i \<leftarrow> i; f i s })"

definition advance_element ::
  "(fwk_id \<Rightarrow> 'a fwk_state_scheme \<Rightarrow> (fwk_status \<times> 'a fwk_state_scheme) option) option
    \<Rightarrow> fwk_module_state \<Rightarrow> nat \<Rightarrow> nat \<Rightarrow> 'a fwk_state_scheme \<Rightarrow> (fwk_status \<times> 'a fwk_state_scheme) option" where
  "advance_element callback st m e s = do {
    (status, s) \<leftarrow> call_optional callback
      (fwk_id_build_element_id (mc_id (module_ctx_table s ! m)) (of_nat e)) s;
    ok \<leftarrow> fwk_expect (dbg s) (status = FWK_SUCCESS);
    if \<not> ok then Some (status, s) else Some (FWK_SUCCESS, set_element_state m e st s) }"

definition advance_elements ::
  "(fwk_id \<Rightarrow> 'a fwk_state_scheme \<Rightarrow> (fwk_status \<times> 'a fwk_state_scheme) option) option
    \<Rightarrow> fwk_module_state \<Rightarrow> nat \<Rightarrow> 'a fwk_state_scheme \<Rightarrow> (fwk_status \<times> 'a fwk_state_scheme) option" where
  "advance_elements callback st m s =
    for_each_status (advance_element callback st m) [0..<mc_element_count (module_ctx_table s ! m)] s"

definition advance_module ::
  "(fwk_id \<Rightarrow> 'a fwk_state_scheme \<Rightarrow> (fwk_status \<times> 'a fwk_state_scheme) option) option
    \<Rightarrow> fwk_module_state \<Rightarrow> nat \<Rightarrow> 'a fwk_state_scheme \<Rightarrow> (fwk_status \<times> 'a fwk_state_scheme) option" where
  "advance_module callback st m s = do {
    (status, s) \<leftarrow> call_optional callback (Some (mc_id (module_ctx_table s ! m))) s;
    ok \<leftarrow> fwk_expect (dbg s) (status = FWK_SUCCESS);
    if \<not> ok then Some (status, s) else advance_elements callback st m (set_module_state m st s) }"

definition fwk_module_start_elements where
  "fwk_module_start_elements ops m s = advance_elements (op_start (ops m)) FWK_MODULE_STATE_STARTED m s"

definition fwk_module_start_module where
  "fwk_module_start_module ops m s = advance_module (op_start (ops m)) FWK_MODULE_STATE_STARTED m s"

definition start_modules where
  "start_modules ops s =
    for_each_status (fwk_module_start_module ops) [0..<length (module_ctx_table s)] s"

definition fwk_module_stop_elements where
  "fwk_module_stop_elements ops m s = advance_elements (op_stop (ops m)) FWK_MODULE_STATE_SUSPENDED m s"

definition fwk_module_stop_module where
  "fwk_module_stop_module ops m s = advance_module (op_stop (ops m)) FWK_MODULE_STATE_SUSPENDED m s"

definition stop_modules where
  "stop_modules ops s =
    for_each_status (fwk_module_stop_module ops) [0..<length (module_ctx_table s)] s"

definition fwk_module_start ::
  "(nat \<Rightarrow> 'a fwk_state_scheme module_ops) \<Rightarrow> nat \<Rightarrow> 'a fwk_state_scheme
    \<Rightarrow> (fwk_status \<times> 'a fwk_state_scheme) option" where
  "fwk_module_start ops notification_max s =
    (if mod_initialized s then Some (FWK_E_STATE, s)
     else case fwk_init (FWK_MODULE_EVENT_COUNT notification_max) s of (status, s) \<Rightarrow>
       if status \<noteq> FWK_SUCCESS then Some (status, s)
       else do {
         s \<leftarrow> fwk_module_init_modules ops (s\<lparr>stage := MODULE_STAGE_INITIALIZE\<rparr>);
         (status, s) \<leftarrow> for_each_status (fwk_module_bind_modules ops) [0..<Suc FWK_MODULE_BIND_ROUND_MAX]
           (s\<lparr>stage := MODULE_STAGE_BIND\<rparr>);
         if status \<noteq> FWK_SUCCESS then Some (status, s)
         else do {
           (status, s) \<leftarrow> start_modules ops (s\<lparr>stage := MODULE_STAGE_START\<rparr>);
           if status \<noteq> FWK_SUCCESS then Some (status, s)
           else Some (FWK_SUCCESS, s\<lparr>mod_initialized := True\<rparr>) } })"

definition fwk_module_stop ::
  "(nat \<Rightarrow> 'a fwk_state_scheme module_ops) \<Rightarrow> 'a fwk_state_scheme
    \<Rightarrow> (fwk_status \<times> 'a fwk_state_scheme) option" where
  "fwk_module_stop ops s =
    (if \<not> mod_initialized s then Some (FWK_E_STATE, s)
     else stop_modules ops (s\<lparr>stage := MODULE_STAGE_STOP\<rparr>))"

section \<open>The states of modules and elements\<close>

definition states :: "'a fwk_state_scheme \<Rightarrow> (fwk_module_state \<times> fwk_module_state list) list" where
  "states s = map (\<lambda>c. (mc_state c, map ec_state (mc_element_ctx_table c))) (module_ctx_table s)"

lemma length_states [simp]: "length (states s) = length (module_ctx_table s)"
  by (simp add: states_def)

lemma length_set_state [simp]:
  "length (module_ctx_table (set_module_state m st s)) = length (module_ctx_table s)"
  "length (module_ctx_table (set_element_state m e st s)) = length (module_ctx_table s)"
  by (simp_all add: set_module_state_def set_element_state_def upd_element_ctx_def)

lemma states_nth: "m < length (module_ctx_table s) \<Longrightarrow> states s ! m =
    (mc_state (module_ctx_table s ! m), map ec_state (mc_element_ctx_table (module_ctx_table s ! m)))"
  by (simp add: states_def)

lemma states_set_module_state:
  "m < length (module_ctx_table s) \<Longrightarrow>
    states (set_module_state m st s) = (states s)[m := (st, snd (states s ! m))]"
  by (simp add: states_def set_module_state_def upd_module_ctx_def map_update)

lemma states_set_element_state:
  "m < length (module_ctx_table s) \<Longrightarrow>
    states (set_element_state m e st s) = (states s)[m := (fst (states s ! m), (snd (states s ! m))[e := st])]"
  by (simp add: states_def set_element_state_def upd_element_ctx_def upd_module_ctx_def map_update)

lemma table_wf_upd_module:
  "ctx_table_wf s \<Longrightarrow> (m < length (module_ctx_table s) \<Longrightarrow> module_ctx_wf m (f (module_ctx_table s ! m))) \<Longrightarrow>
    ctx_table_wf (upd_module_ctx m f s)"
  unfolding ctx_table_wf_def upd_module_ctx_def
  by (cases "m < length (module_ctx_table s)") (auto simp: nth_list_update not_less)

lemma set_state_wf:
  assumes "ctx_table_wf s"
  shows "ctx_table_wf (set_module_state m st s)" "ctx_table_wf (set_element_state m e st s)"
proof -
  have m: "m < length (module_ctx_table s) \<Longrightarrow> module_ctx_wf m (module_ctx_table s ! m)"
    using assms by (simp add: ctx_table_wf_def)
  show "ctx_table_wf (set_module_state m st s)"
    unfolding set_module_state_def using assms m
    by (intro table_wf_upd_module) (simp_all add: module_ctx_wf_def)
  show "ctx_table_wf (set_element_state m e st s)"
    unfolding set_element_state_def upd_element_ctx_def
  proof (rule table_wf_upd_module [OF assms])
    assume "m < length (module_ctx_table s)"
    note w = m [OF this]
    have "element_ctx_wf n x" if "x \<in> set (es[e := (es ! e)\<lparr>ec_state := st\<rparr>])" "\<forall>x \<in> set es. element_ctx_wf n x"
      for x n es
    proof (cases "e < length es")
      case True
      then show ?thesis using that set_update_subset_insert [of es e] nth_mem [OF True]
        by (fastforce simp: element_ctx_wf_def)
    next
      case False
      then show ?thesis using that by (metis list_update_beyond not_less)
    qed
    then show "module_ctx_wf m ((module_ctx_table s ! m)\<lparr>mc_element_ctx_table :=
        (mc_element_ctx_table (module_ctx_table s ! m))[e := (mc_element_ctx_table (module_ctx_table s ! m) ! e)
          \<lparr>ec_state := st\<rparr>]\<rparr>)"
      using w by (auto simp: module_ctx_wf_def)
  qed
qed

lemma wf_element_count:
  "ctx_table_wf s \<Longrightarrow> m < length (module_ctx_table s) \<Longrightarrow>
    length (snd (states s ! m)) = mc_element_count (module_ctx_table s ! m)"
  by (simp add: states_nth ctx_table_wf_def module_ctx_wf_def)

lemma skeleton_states:
  assumes "ctx_skeleton s' = ctx_skeleton s"
  shows "states s' = states s"
proof -
  have "states s = map (\<lambda>c. (fst (snd c), map fst (snd (snd (snd (snd (snd (snd c)))))))) (ctx_skeleton s)"
    for s :: "'b fwk_state_scheme"
    by (simp add: states_def ctx_skeleton_def element_skeleton_def comp_def)
  note this [of s]
  moreover have "states s' = map (\<lambda>c. (fst (snd c), map fst (snd (snd (snd (snd (snd (snd c)))))))) (ctx_skeleton s')"
    by (simp add: states_def ctx_skeleton_def element_skeleton_def comp_def)
  ultimately show ?thesis using assms by simp
qed

text \<open>A callback of a module does not change the module framework's own bookkeeping.\<close>

definition keeps_skeleton :: "('a fwk_state_scheme \<Rightarrow> ('r \<times> 'a fwk_state_scheme) option) \<Rightarrow> bool" where
  "keeps_skeleton f \<longleftrightarrow> (\<forall>s r s'. f s = Some (r, s') \<longrightarrow> ctx_skeleton s' = ctx_skeleton s)"

lemma keeps_skeletonD:
  assumes "keeps_skeleton f" "f s = Some (r, s')" "ctx_table_wf s"
  shows "ctx_table_wf s' \<and> states s' = states s \<and> length (module_ctx_table s') = length (module_ctx_table s)"
proof -
  have "ctx_skeleton s' = ctx_skeleton s" using assms(1,2) unfolding keeps_skeleton_def by blast
  then show ?thesis using skeleton_wf [OF _ assms(3)] skeleton_states skeleton_length by blast
qed

definition callback_keeps :: "(fwk_id \<Rightarrow> 'a fwk_state_scheme \<Rightarrow> ('r \<times> 'a fwk_state_scheme) option) option \<Rightarrow> bool" where
  "callback_keeps callback \<longleftrightarrow> (\<forall>f i. callback = Some f \<longrightarrow> keeps_skeleton (f i))"

lemma call_optional_keeps: "callback_keeps callback \<Longrightarrow> keeps_skeleton (call_optional callback i)"
  by (cases callback; cases i)
    (auto simp: keeps_skeleton_def callback_keeps_def call_optional_def)

section \<open>Advancing a module\<close>

lemma advance_elements_states:
  assumes keeps: "callback_keeps callback"
    and run: "advance_elements callback st m s = Some (FWK_SUCCESS, s')"
    and s: "ctx_table_wf s" "m < length (module_ctx_table s)"
  shows "ctx_table_wf s' \<and> states s' =
    (states s)[m := (fst (states s ! m), replicate (length (snd (states s ! m))) st)]"
proof -
  define l where "l = snd (states s ! m)"
  let ?P = "\<lambda>k t. ctx_table_wf t \<and> length (module_ctx_table t) = length (module_ctx_table s) \<and>
    states t = (states s)[m := (fst (states s ! m), replicate k st @ drop k l)]"
  have len: "mc_element_count (module_ctx_table s ! m) = length l"
    using wf_element_count [OF s] by (simp add: l_def)
  have "?P (length [0..<length l]) s'"
  proof (rule for_each_status_rule [where P = ?P])
    show "for_each_status (advance_element callback st m) [0..<length l] s = Some (0, s')"
      using run len by (simp add: advance_elements_def)
    show "?P 0 s" using s by (simp add: l_def)
    fix k t t' assume k: "k < length [0..<length l]" and P: "?P k t"
      and "advance_element callback st m ([0..<length l] ! k) t = Some (0, t')"
    then obtain t1 where c: "call_optional callback
        (fwk_id_build_element_id (mc_id (module_ctx_table t ! m)) (of_nat k)) t = Some (FWK_SUCCESS, t1)"
      and t': "t' = set_element_state m k st t1"
      by (auto simp: advance_element_def split: if_splits)
    have t1: "ctx_table_wf t1 \<and> states t1 = states t \<and> length (module_ctx_table t1) = length (module_ctx_table t)"
      using keeps_skeletonD [OF call_optional_keeps [OF keeps] c] P by simp
    have "(replicate k st @ drop k l)[k := st] = replicate (Suc k) st @ drop (Suc k) l"
      using k by (simp add: list_update_append replicate_app_Cons_same flip: Cons_nth_drop_Suc)
    then show "?P (Suc k) t'"
      using t1 P s(2) k by (simp add: t' set_state_wf states_set_element_state)
  qed
  then show ?thesis by (simp add: l_def)
qed

lemma advance_module_states:
  assumes keeps: "callback_keeps callback"
    and run: "advance_module callback st m s = Some (FWK_SUCCESS, s')"
    and s: "ctx_table_wf s" "m < length (module_ctx_table s)"
  shows "ctx_table_wf s' \<and> states s' = (states s)[m := (st, replicate (length (snd (states s ! m))) st)]"
proof -
  obtain t where c: "call_optional callback (Some (mc_id (module_ctx_table s ! m))) s = Some (FWK_SUCCESS, t)"
    and r: "advance_elements callback st m (set_module_state m st t) = Some (FWK_SUCCESS, s')"
    using run by (auto simp: advance_module_def split: if_splits)
  have t: "ctx_table_wf t \<and> states t = states s \<and> length (module_ctx_table t) = length (module_ctx_table s)"
    using keeps_skeletonD [OF call_optional_keeps [OF keeps] c s(1)] .
  show ?thesis
    using advance_elements_states [OF keeps r] t s(2)
    by (simp add: set_state_wf states_set_module_state)
qed

section \<open>Running the whole phase\<close>

definition config_of :: "fwk_module_context \<Rightarrow> fwk_id \<times> fwk_module_desc \<times> fwk_module_config \<times> nat \<times> fwk_element list" where
  "config_of c = (mc_id c, mc_desc c, mc_config c, mc_element_count c, map ec_desc (mc_element_ctx_table c))"

definition table_config where
  "table_config s = map config_of (module_ctx_table s)"

text \<open>A callback that succeeds in every state and keeps the framework's bookkeeping.\<close>

definition succeeds :: "('a fwk_state_scheme \<Rightarrow> (fwk_status \<times> 'a fwk_state_scheme) option) \<Rightarrow> bool" where
  "succeeds f \<longleftrightarrow> (\<forall>s. \<exists>s'. f s = Some (FWK_SUCCESS, s') \<and> ctx_skeleton s' = ctx_skeleton s)"

definition ops_succeed :: "(nat \<Rightarrow> 'a fwk_state_scheme module_ops) \<Rightarrow> bool" where
  "ops_succeed ops \<longleftrightarrow> (\<forall>m.
    (\<forall>f i n d. op_init (ops m) = Some f \<longrightarrow> succeeds (f i n d)) \<and>
    (\<forall>f i n d. op_element_init (ops m) = Some f \<longrightarrow> succeeds (f i n d)) \<and>
    (\<forall>f i. op_post_init (ops m) = Some f \<longrightarrow> succeeds (f i)) \<and>
    (\<forall>f i r. op_bind (ops m) = Some f \<longrightarrow> succeeds (f i r)) \<and>
    (\<forall>f i. op_start (ops m) = Some f \<longrightarrow> succeeds (f i)))"

text \<open>What \<open>fwk_module_init_module\<close> demands of a module with a static table of elements.\<close>

definition module_configured :: "'s module_ops \<Rightarrow> fwk_module_context \<Rightarrow> bool" where
  "module_configured o_m c \<longleftrightarrow> md_type (mc_desc c) < FWK_MODULE_TYPE_COUNT \<and> op_init o_m \<noteq> None \<and>
    ((md_api_count (mc_desc c) = 0) = (op_process_bind_request o_m = None)) \<and>
    cfg_elements_type (mc_config c) \<noteq> FWK_MODULE_ELEMENTS_TYPE_DYNAMIC \<and>
    (mc_element_count c > 0 \<longrightarrow> op_element_init o_m \<noteq> None) \<and>
    (\<forall>e \<in> set (mc_element_ctx_table c). el_data (ec_desc e) \<noteq> NULL)"

definition well_configured :: "(nat \<Rightarrow> 'a fwk_state_scheme module_ops) \<Rightarrow> 'a fwk_state_scheme \<Rightarrow> bool" where
  "well_configured ops s \<longleftrightarrow> ctx_table_wf s \<and>
    (\<forall>m < length (module_ctx_table s). module_configured (ops m) (module_ctx_table s ! m))"

definition progressed :: "'a fwk_state_scheme \<Rightarrow> 'a fwk_state_scheme \<Rightarrow> bool" where
  "progressed s t \<longleftrightarrow> ctx_table_wf t \<and> table_config t = table_config s"

lemma progressed_length: "progressed s t \<Longrightarrow> length (module_ctx_table t) = length (module_ctx_table s)"
  by (metis progressed_def table_config_def length_map)

lemma progressed_nth:
  assumes "progressed s t" "m < length (module_ctx_table s)"
  shows "config_of (module_ctx_table t ! m) = config_of (module_ctx_table s ! m)"
  using assms progressed_length [OF assms(1)]
  by (metis progressed_def table_config_def nth_map)

lemma progressed_configured:
  assumes "progressed s t" "m < length (module_ctx_table s)"
  shows "module_configured o_m (module_ctx_table t ! m) = module_configured o_m (module_ctx_table s ! m)"
proof -
  have all: "(\<forall>e \<in> set es. el_data (ec_desc e) \<noteq> NULL) = (\<forall>d \<in> set (map ec_desc es). el_data d \<noteq> NULL)" for es
    by simp
  have "mc_desc (module_ctx_table t ! m) = mc_desc (module_ctx_table s ! m)"
    "mc_config (module_ctx_table t ! m) = mc_config (module_ctx_table s ! m)"
    "mc_element_count (module_ctx_table t ! m) = mc_element_count (module_ctx_table s ! m)"
    "map ec_desc (mc_element_ctx_table (module_ctx_table t ! m)) =
      map ec_desc (mc_element_ctx_table (module_ctx_table s ! m))"
    using progressed_nth [OF assms] by (simp_all add: config_of_def)
  then show ?thesis unfolding module_configured_def all by simp
qed

lemma table_config_skeleton: "table_config s = map (\<lambda>c. (fst c, fst (snd (snd c)), fst (snd (snd (snd c))),
      fst (snd (snd (snd (snd c)))), map (\<lambda>e. fst (snd e)) (snd (snd (snd (snd (snd (snd c)))))))) (ctx_skeleton s)"
  by (simp add: table_config_def config_of_def ctx_skeleton_def element_skeleton_def comp_def)

lemma skeleton_config: "ctx_skeleton t = ctx_skeleton s \<Longrightarrow> table_config t = table_config s"
  unfolding table_config_skeleton by simp

lemma table_config_upd_module:
  "(m < length (module_ctx_table s) \<Longrightarrow>
      config_of (f (module_ctx_table s ! m)) = config_of (module_ctx_table s ! m)) \<Longrightarrow>
    table_config (upd_module_ctx m f s) = table_config s"
  unfolding table_config_def upd_module_ctx_def
  by (cases "m < length (module_ctx_table s)") (simp_all add: map_update_same list_update_beyond not_less)

lemma set_state_config [simp]:
  "table_config (set_module_state m st s) = table_config s"
  "table_config (set_element_state m e st s) = table_config s"
proof -
  have "map ec_desc (es[e := (es ! e)\<lparr>ec_state := st\<rparr>]) = map ec_desc es" for es
    by (cases "e < length es") (simp_all add: map_update_same list_update_beyond not_less)
  note es = this
  show "table_config (set_module_state m st s) = table_config s"
    unfolding set_module_state_def by (rule table_config_upd_module) (simp add: config_of_def)
  show "table_config (set_element_state m e st s) = table_config s"
    unfolding set_element_state_def upd_element_ctx_def
    by (rule table_config_upd_module) (use es in \<open>simp add: config_of_def\<close>)
qed

lemma progressed_steps:
  assumes "progressed s t"
  shows "ctx_skeleton t' = ctx_skeleton t \<Longrightarrow> progressed s t'"
    and "progressed s (set_module_state m st t)" and "progressed s (set_element_state m e st t)"
    and "progressed s (t\<lparr>bind_id := i\<rparr>)" and "progressed s (t\<lparr>stage := x\<rparr>)"
  using assms
  by (simp_all add: progressed_def set_state_wf)
    (metis skeleton_wf skeleton_config, simp_all add: ctx_table_wf_def table_config_def)

lemma progressed_callback:
  assumes "succeeds f" "progressed s t"
  shows "\<exists>t'. f t = Some (FWK_SUCCESS, t') \<and> progressed s t'"
  using assms(1) progressed_steps(1) [OF assms(2)] unfolding succeeds_def by metis

lemma progressed_build_id:
  assumes "progressed s t" "m < length (module_ctx_table s)"
  shows "\<exists>i. fwk_id_build_element_id (mc_id (module_ctx_table t ! m)) e = Some i"
proof -
  have "module_ctx_wf m (module_ctx_table t ! m)"
    using assms progressed_length [OF assms(1)] by (simp add: progressed_def ctx_table_wf_def)
  then show ?thesis
    by (simp add: module_ctx_wf_def fwk_id_build_element_id_def FWK_ID_TYPE_COUNT_def)
qed

lemma progressed_init_elements:
  assumes "ops_succeed ops" "well_configured ops s" "progressed s t" "m < length (module_ctx_table s)"
    and "mc_element_count (module_ctx_table t ! m) > 0"
  shows "\<exists>t'. fwk_module_init_elements ops m t = Some t' \<and> progressed s t'"
proof -
  have mc: "module_configured (ops m) (module_ctx_table u ! m)" if "progressed s u" for u
    using progressed_configured [OF that assms(4), of "ops m"] assms(2,4) by (simp add: well_configured_def)
  obtain f where f: "op_element_init (ops m) = Some f"
    using mc [OF assms(3)] assms(5) by (auto simp: module_configured_def)
  define n where "n = mc_element_count (module_ctx_table t ! m)"
  have len: "length (mc_element_ctx_table (module_ctx_table u ! m)) = n" if "progressed s u" for u
  proof -
    have "mc_element_count (module_ctx_table u ! m) = n"
      using progressed_nth [OF that assms(4)] progressed_nth [OF assms(3,4)] by (simp add: config_of_def n_def)
    then show ?thesis
      using that assms(4) progressed_length [OF that] by (simp add: progressed_def ctx_table_wf_def module_ctx_wf_def)
  qed
  have "\<exists>t'. for_each (fwk_module_init_element f m) [0..<n] t = Some t' \<and> progressed s t'"
  proof (rule for_each_total [where P = "\<lambda>_. progressed s"])
    fix k u assume k: "k < length [0..<n]" and u: "progressed s u"
    let ?c = "module_ctx_table u ! m"
    let ?e = "mc_element_ctx_table ?c ! k"
    obtain i where i: "fwk_id_build_element_id (mc_id ?c) (of_nat k) = Some i"
      using progressed_build_id [OF u assms(4)] by blast
    have "el_data (ec_desc ?e) \<noteq> NULL"
      using mc [OF u] len [OF u] k by (simp add: module_configured_def)
    moreover have "succeeds (f i (el_sub_element_count (ec_desc ?e)) (el_data (ec_desc ?e)))"
      using assms(1) f by (simp add: ops_succeed_def)
    from progressed_callback [OF this progressed_steps(4) [OF u, of i]] obtain u' where
      "f i (el_sub_element_count (ec_desc ?e)) (el_data (ec_desc ?e)) (u\<lparr>bind_id := i\<rparr>) = Some (FWK_SUCCESS, u')"
      "progressed s u'" by auto
    ultimately show "\<exists>u'. fwk_module_init_element f m ([0..<n] ! k) u = Some u' \<and> progressed s u'"
      using i k progressed_steps(3) by (simp add: fwk_module_init_element_def Let_def)
  qed (use assms(3) in simp)
  then show ?thesis using f by (simp add: fwk_module_init_elements_def n_def)
qed

lemma progressed_initialise:
  assumes "ops_succeed ops" "well_configured ops s" "progressed s t" "m < length (module_ctx_table s)"
  shows "\<exists>t'. fwk_module_init_module ops m t = Some t' \<and> progressed s t'"
proof -
  have mc: "module_configured (ops m) (module_ctx_table t ! m)"
    using progressed_configured [OF assms(3,4), of "ops m"] assms(2,4) by (simp add: well_configured_def)
  obtain init where init: "op_init (ops m) = Some init" using mc by (auto simp: module_configured_def)
  let ?c = "module_ctx_table t ! m"
  have "succeeds (init (mc_id ?c) (mc_element_count ?c) (cfg_data (mc_config ?c)))"
    using assms(1) init by (simp add: ops_succeed_def)
  from progressed_callback [OF this assms(3)] obtain t1 where
    t1: "init (mc_id ?c) (mc_element_count ?c) (cfg_data (mc_config ?c)) t = Some (FWK_SUCCESS, t1)" "progressed s t1" by auto
  have "\<exists>t2. (if mc_element_count (module_ctx_table t1 ! m) > 0 then fwk_module_init_elements ops m t1
      else Some t1) = Some t2 \<and> progressed s t2"
    using progressed_init_elements [OF assms(1,2) t1(2) assms(4)] t1(2) by auto
  then obtain t2 where t2: "(if mc_element_count (module_ctx_table t1 ! m) > 0
      then fwk_module_init_elements ops m t1 else Some t1) = Some t2" "progressed s t2" by blast
  have "\<exists>t3. (case op_post_init (ops m) of None \<Rightarrow> Some (FWK_SUCCESS, t2)
      | Some post_init \<Rightarrow> post_init (mc_id (module_ctx_table t2 ! m)) t2) = Some (FWK_SUCCESS, t3) \<and> progressed s t3"
    using progressed_callback [OF _ t2(2)] assms(1) t2(2)
    by (auto simp: ops_succeed_def split: option.split)
  then obtain t3 where "(case op_post_init (ops m) of None \<Rightarrow> Some (FWK_SUCCESS, t2)
      | Some post_init \<Rightarrow> post_init (mc_id (module_ctx_table t2 ! m)) t2) = Some (FWK_SUCCESS, t3)"
    "progressed s t3" by blast
  then show ?thesis
    using mc init t1 t2 progressed_steps(2) [of s t3]
    by (auto simp: fwk_module_init_module_def module_configured_def Let_def)
qed

lemma progressed_bind_elements:
  assumes "ops_succeed ops" "progressed s t" "m < length (module_ctx_table s)" "op_bind (ops m) = Some f"
  shows "\<exists>t'. fwk_module_bind_elements ops m r t = Some (FWK_SUCCESS, t') \<and> progressed s t'"
proof -
  have "\<exists>t'. for_each_status (fwk_module_bind_element ops m r)
      [0..<mc_element_count (module_ctx_table t ! m)] t = Some (0, t') \<and> progressed s t'"
  proof (rule for_each_status_total [where P = "\<lambda>_. progressed s"])
    fix k u assume k: "k < length [0..<mc_element_count (module_ctx_table t ! m)]" and u: "progressed s u"
    obtain i where i: "fwk_id_build_element_id (mc_id (module_ctx_table u ! m)) (of_nat k) = Some i"
      using progressed_build_id [OF u assms(3)] by blast
    have "succeeds (f i r)" using assms(1,4) by (simp add: ops_succeed_def)
    from progressed_callback [OF this progressed_steps(4) [OF u, of i]] obtain u' where
      "f i r (u\<lparr>bind_id := i\<rparr>) = Some (FWK_SUCCESS, u')" "progressed s u'" by auto
    then show "\<exists>u'. fwk_module_bind_element ops m r ([0..<mc_element_count (module_ctx_table t ! m)] ! k) u =
        Some (0, u') \<and> progressed s u'"
      using i k assms(4) progressed_steps(3) [of s u'] by (simp add: fwk_module_bind_element_def)
  qed (use assms(2) in simp)
  then show ?thesis by (simp add: fwk_module_bind_elements_def)
qed

lemma progressed_bind:
  assumes "ops_succeed ops" "progressed s t" "m < length (module_ctx_table s)"
  shows "\<exists>t'. fwk_module_bind_module ops r m t = Some (FWK_SUCCESS, t') \<and> progressed s t'"
proof (cases "op_bind (ops m)")
  case None
  then show ?thesis using progressed_steps(2) [OF assms(2)] by (simp add: fwk_module_bind_module_def)
next
  case (Some f)
  let ?i = "mc_id (module_ctx_table t ! m)"
  have "succeeds (f ?i r)" using assms(1) Some by (simp add: ops_succeed_def)
  from progressed_callback [OF this progressed_steps(4) [OF assms(2), of ?i]] obtain u where
    u: "f ?i r (t\<lparr>bind_id := ?i\<rparr>) = Some (FWK_SUCCESS, u)" "progressed s u" by auto
  have "progressed s (if r = FWK_MODULE_BIND_ROUND_MAX then set_module_state m FWK_MODULE_STATE_BOUND u else u)"
    using u(2) progressed_steps(2) by auto
  from progressed_bind_elements [OF assms(1) this assms(3) Some, of r] show ?thesis
    using Some u by (simp add: fwk_module_bind_module_def Let_def)
qed

lemma progressed_advance:
  assumes "\<And>f i. callback = Some f \<Longrightarrow> succeeds (f i)" "progressed s t" "m < length (module_ctx_table s)"
  shows "\<exists>t'. advance_module callback st m t = Some (FWK_SUCCESS, t') \<and> progressed s t'"
proof -
  have call: "\<exists>u'. call_optional callback (Some i) u = Some (FWK_SUCCESS, u') \<and> progressed s u'" if "progressed s u" for i u
    using progressed_callback [OF assms(1) that] that by (auto simp: call_optional_def split: option.split)
  from call [OF assms(2)] obtain u where
    u: "call_optional callback (Some (mc_id (module_ctx_table t ! m))) t = Some (FWK_SUCCESS, u)" "progressed s u" by blast
  let ?v = "set_module_state m st u"
  have "\<exists>t'. for_each_status (advance_element callback st m)
      [0..<mc_element_count (module_ctx_table ?v ! m)] ?v = Some (0, t') \<and> progressed s t'"
  proof (rule for_each_status_total [where P = "\<lambda>_. progressed s"])
    fix k w assume k: "k < length [0..<mc_element_count (module_ctx_table ?v ! m)]" and w: "progressed s w"
    obtain i where i: "fwk_id_build_element_id (mc_id (module_ctx_table w ! m)) (of_nat k) = Some i"
      using progressed_build_id [OF w assms(3)] by blast
    from call [OF w, of i] obtain w1 where
      "call_optional callback (Some i) w = Some (FWK_SUCCESS, w1)" "progressed s w1" by blast
    then show "\<exists>w'. advance_element callback st m
        ([0..<mc_element_count (module_ctx_table ?v ! m)] ! k) w = Some (0, w') \<and> progressed s w'"
      using i k progressed_steps(3) [of s w1] by (simp add: advance_element_def)
  qed (use progressed_steps(2) [OF u(2)] in simp)
  then show ?thesis using u by (simp add: advance_module_def advance_elements_def)
qed

lemma advance_all_states:
  assumes keeps: "\<And>m. callback_keeps (callback m)"
    and run: "for_each_status (\<lambda>m. advance_module (callback m) st m) [0..<length (module_ctx_table s)] s =
      Some (FWK_SUCCESS, s')"
    and wf: "ctx_table_wf s"
  shows "ctx_table_wf s' \<and> states s' = map (\<lambda>p. (st, replicate (length (snd p)) st)) (states s)"
proof -
  define g where "g = (\<lambda>p :: fwk_module_state \<times> fwk_module_state list. (st, replicate (length (snd p)) st))"
  define n where "n = length (module_ctx_table s)"
  let ?P = "\<lambda>k t. ctx_table_wf t \<and> states t = map g (take k (states s)) @ drop k (states s)"
  have "?P (length [0..<n]) s'"
  proof (rule for_each_status_rule [where P = ?P])
    show "for_each_status (\<lambda>m. advance_module (callback m) st m) [0..<n] s = Some (0, s')"
      using run by (simp add: n_def)
    show "?P 0 s" using wf by simp
    fix k t t' assume k: "k < length [0..<n]" and P: "?P k t"
      and r: "advance_module (callback ([0..<n] ! k)) st ([0..<n] ! k) t = Some (0, t')"
    have ks: "k < length (states s)" using k by (simp add: n_def)
    have kl: "k < length (module_ctx_table t)"
      using P k by (simp flip: length_states) (simp add: n_def)
    have nth: "states t ! k = states s ! k" using P ks by (simp add: nth_append)
    have "states t' = (states t)[k := g (states t ! k)]" "ctx_table_wf t'"
      using advance_module_states [OF keeps, of k st k t t'] r k P kl by (simp_all add: g_def)
    moreover have "(map g (take k (states s)) @ drop k (states s))[k := g (states s ! k)] =
        map g (take (Suc k) (states s)) @ drop (Suc k) (states s)"
      using ks by (simp add: list_update_append take_Suc_conv_app_nth flip: Cons_nth_drop_Suc)
    ultimately show "?P (Suc k) t'" using P nth by simp
  qed
  then show ?thesis by (simp add: n_def g_def)
qed

text \<open>Reading the outcome through the query of the module framework.\<close>

lemma all_states_query:
  assumes "ctx_table_wf s" "states s = map (\<lambda>p. (st, replicate (length (snd p)) st)) S"
    and "fwk_module_is_valid_entity_id i s = Some True"
  shows "fwk_module_get_state i False s = Some (FWK_SUCCESS, Some st)"
proof -
  let ?m = "unat (common_module_idx i)" and ?e = "unat (element_element_idx i)"
  note v = valid_entity_ctx [OF assms(3)]
  note def = valid_id_defined [OF valid_entity_type_valid [OF assms(3)], of s]
  have nth: "states s ! ?m = (st, replicate (length (snd (S ! ?m))) st)"
    using assms(2) v(1) by (metis length_map length_states nth_map)
  then have mst: "mc_state (module_ctx_table s ! ?m) = st"
    and est: "map ec_state (mc_element_ctx_table (module_ctx_table s ! ?m)) = replicate (length (snd (S ! ?m))) st"
    using states_nth [OF v(1)] by simp_all
  show ?thesis
  proof (cases "common_type i = 2")
    case True
    then have "fwk_module_is_valid_element_id i s = Some False" "fwk_module_is_valid_sub_element_id i s = Some False"
      "fwk_module_is_valid_module_id i s = Some True"
      using def(2,3) v(1) by (auto simp: valid_element_id_iff valid_sub_element_id_iff valid_module_id_iff)
    then show ?thesis using v(2) mst by (simp add: fwk_module_get_state_def)
  next
    case False
    note e = valid_entity_element_ctx [OF assms(3) False assms(1)]
    have "ec_state (mc_element_ctx_table (module_ctx_table s ! ?m) ! ?e) = st"
      using est e(1) by (metis length_map length_replicate nth_map nth_replicate)
    moreover have "fwk_module_is_valid_element_id i s = Some True \<or> fwk_module_is_valid_sub_element_id i s = Some True"
      using assms(3) False by (auto simp: valid_entity_id_iff valid_module_id_iff)
    ultimately show ?thesis
      using e(2) def(2) by (cases "fwk_module_is_valid_element_id i s = Some True")
        (simp_all add: fwk_module_get_state_def)
  qed
qed

section \<open>Properties\<close>

lemma succeeds_keeps: "succeeds f \<Longrightarrow> keeps_skeleton f"
  unfolding succeeds_def keeps_skeleton_def by (metis option.inject prod.inject)

lemma ops_succeed_start_keeps: "ops_succeed ops \<Longrightarrow> callback_keeps (op_start (ops m))"
  using succeeds_keeps by (fastforce simp: ops_succeed_def callback_keeps_def)

lemma init_modules_total:
  assumes "ops_succeed ops" "well_configured ops s"
  shows "\<exists>t. fwk_module_init_modules ops s = Some t \<and> progressed s t"
proof -
  have "progressed s s" using assms(2) by (simp add: progressed_def well_configured_def)
  then have "\<exists>t. for_each (fwk_module_init_module ops) [0..<length (module_ctx_table s)] s = Some t \<and> progressed s t"
    using progressed_initialise [OF assms]
    by (intro for_each_total [where P = "\<lambda>_. progressed s"]) simp_all
  then show ?thesis by (simp add: fwk_module_init_modules_def)
qed

lemma bind_modules_total:
  assumes "ops_succeed ops" "progressed s t"
  shows "\<exists>u. for_each_status (fwk_module_bind_modules ops) [0..<Suc FWK_MODULE_BIND_ROUND_MAX] t =
    Some (FWK_SUCCESS, u) \<and> progressed s u"
proof (rule for_each_status_total [where P = "\<lambda>_. progressed s"])
  fix k w assume w: "progressed s w"
  have "\<exists>u. for_each_status (fwk_module_bind_module ops ([0..<Suc FWK_MODULE_BIND_ROUND_MAX] ! k))
      [0..<length (module_ctx_table w)] w = Some (0, u) \<and> progressed s u"
    using progressed_bind [OF assms(1)] w progressed_length [OF w]
    by (intro for_each_status_total [where P = "\<lambda>_. progressed s"]) simp_all
  then show "\<exists>u. fwk_module_bind_modules ops ([0..<Suc FWK_MODULE_BIND_ROUND_MAX] ! k) w = Some (0, u) \<and>
      progressed s u"
    by (simp add: fwk_module_bind_modules_def)
qed (use assms(2) in simp)

lemma start_modules_total:
  assumes "ops_succeed ops" "progressed s t"
  shows "\<exists>u. start_modules ops t = Some (FWK_SUCCESS, u) \<and> progressed s u \<and>
    states u = map (\<lambda>p. (FWK_MODULE_STATE_STARTED, replicate (length (snd p)) FWK_MODULE_STATE_STARTED)) (states t)"
proof -
  have run: "start_modules ops t = for_each_status (\<lambda>m. advance_module (op_start (ops m)) FWK_MODULE_STATE_STARTED m)
      [0..<length (module_ctx_table t)] t"
    by (simp add: start_modules_def fwk_module_start_module_def [abs_def])
  have "\<exists>u. for_each_status (\<lambda>m. advance_module (op_start (ops m)) FWK_MODULE_STATE_STARTED m)
      [0..<length (module_ctx_table t)] t = Some (0, u) \<and> progressed s u"
    using assms(2) progressed_length [OF assms(2)] assms(1)
    by (intro for_each_status_total [where P = "\<lambda>_. progressed s"] progressed_advance)
      (auto simp: ops_succeed_def)
  then show ?thesis
    using advance_all_states [of "\<lambda>m. op_start (ops m)", OF ops_succeed_start_keeps [OF assms(1)]] run assms(2)
    by (fastforce simp: progressed_def)
qed

text \<open>C36. Start-up of a well-configured system. When every callback of the modules succeeds and
  leaves the framework's tables alone, \<open>fwk_module_start\<close> returns \<open>FWK_SUCCESS\<close>: the modules are
  initialised, bound in two rounds and started, afterwards every module, element and sub-element
  reports the state STARTED, and a second start is refused with \<open>FWK_E_STATE\<close> and no effect.\<close>

theorem fwk_module_start_starts_all:
  assumes "ops_succeed ops" "well_configured ops s" "\<not> mod_initialized s"
  shows "\<exists>s'. fwk_module_start ops n s = Some (FWK_SUCCESS, s') \<and>
    (\<forall>i. fwk_module_is_valid_entity_id i s' = Some True \<longrightarrow>
      fwk_module_get_state i False s' = Some (FWK_SUCCESS, Some FWK_MODULE_STATE_STARTED)) \<and>
    fwk_module_start ops n s' = Some (FWK_E_STATE, s')"
proof -
  define s0 where "s0 = (snd (fwk_init (FWK_MODULE_EVENT_COUNT n) s))\<lparr>stage := MODULE_STAGE_INITIALIZE\<rparr>"
  have wc: "well_configured ops s0"
    using assms(2) by (simp add: s0_def fwk_init_def well_configured_def ctx_table_wf_def)
  obtain s1 where s1: "fwk_module_init_modules ops s0 = Some s1" "progressed s0 s1"
    using init_modules_total [OF assms(1) wc] by blast
  obtain s2 where s2: "for_each_status (fwk_module_bind_modules ops) [0..<Suc FWK_MODULE_BIND_ROUND_MAX]
      (s1\<lparr>stage := MODULE_STAGE_BIND\<rparr>) = Some (FWK_SUCCESS, s2)" "progressed s0 s2"
    using bind_modules_total [OF assms(1) progressed_steps(5) [OF s1(2), of MODULE_STAGE_BIND]] by blast
  obtain s3 where s3: "start_modules ops (s2\<lparr>stage := MODULE_STAGE_START\<rparr>) = Some (FWK_SUCCESS, s3)"
    "progressed s0 s3" "states s3 = map (\<lambda>p. (FWK_MODULE_STATE_STARTED,
      replicate (length (snd p)) FWK_MODULE_STATE_STARTED)) (states (s2\<lparr>stage := MODULE_STAGE_START\<rparr>))"
    using start_modules_total [OF assms(1) progressed_steps(5) [OF s2(2), of MODULE_STAGE_START]] by blast
  define s' where "s' = s3\<lparr>mod_initialized := True\<rparr>"
  have "fwk_module_start ops n s = Some (FWK_SUCCESS, s')"
    using assms(3) s1(1) s2(1) s3(1)
    by (simp add: fwk_module_start_def s0_def fwk_init_def s'_def del: upt_Suc)
  moreover have "ctx_table_wf s'" "states s' = states s3"
    using s3(2) by (simp_all add: s'_def progressed_def ctx_table_wf_def states_def)
  moreover have "fwk_module_start ops n s' = Some (FWK_E_STATE, s')"
    by (simp add: fwk_module_start_def s'_def)
  ultimately show ?thesis using all_states_query s3(3) by metis
qed

text \<open>Stop. Before start-up \<open>fwk_module_stop\<close> is refused with \<open>FWK_E_STATE\<close> and changes nothing;
  afterwards, when it returns \<open>FWK_SUCCESS\<close>, every module, element and sub-element reports the
  state SUSPENDED, provided the stop callbacks leave the framework's tables alone.\<close>

theorem fwk_module_stop_suspends_all:
  assumes "\<And>m. callback_keeps (op_stop (ops m))" "ctx_table_wf s"
    and "fwk_module_stop ops s = Some (status, s')"
  shows "(\<not> mod_initialized s \<longrightarrow> status = FWK_E_STATE \<and> s' = s) \<and>
    (mod_initialized s \<and> status = FWK_SUCCESS \<longrightarrow>
      (\<forall>i. fwk_module_is_valid_entity_id i s' = Some True \<longrightarrow>
        fwk_module_get_state i False s' = Some (FWK_SUCCESS, Some FWK_MODULE_STATE_SUSPENDED)))"
proof (cases "mod_initialized s \<and> status = FWK_SUCCESS")
  case True
  let ?t = "s\<lparr>stage := MODULE_STAGE_STOP\<rparr>"
  have run: "for_each_status (\<lambda>m. advance_module (op_stop (ops m)) FWK_MODULE_STATE_SUSPENDED m)
      [0..<length (module_ctx_table ?t)] ?t = Some (FWK_SUCCESS, s')"
    using True assms(3) by (simp add: fwk_module_stop_def stop_modules_def fwk_module_stop_module_def [abs_def])
  have "ctx_table_wf ?t" using assms(2) by (simp add: ctx_table_wf_def)
  from advance_all_states [of "\<lambda>m. op_stop (ops m)", OF assms(1) run this] show ?thesis
    using True all_states_query [of s'] by blast
qed (use assms(3) in \<open>auto simp: fwk_module_stop_def\<close>)

text \<open>The conditions under which a binding request reaches the module it is made to.\<close>

definition bind_permitted :: "fwk_id \<Rightarrow> fwk_id \<Rightarrow> bool \<Rightarrow> 'a fwk_state_scheme \<Rightarrow> bool" where
  "bind_permitted target_id api_id api_is_null s \<longleftrightarrow>
    fwk_module_is_valid_entity_id target_id s = Some True \<and> fwk_module_is_valid_api_id api_id s = Some True \<and>
    common_module_idx target_id = common_module_idx api_id \<and> \<not> api_is_null \<and>
    (stage s = MODULE_STAGE_BIND \<or> stage s = MODULE_STAGE_INITIALIZE \<and>
      mc_state (module_ctx_table s ! unat (common_module_idx target_id)) = FWK_MODULE_STATE_INITIALIZED)"

lemma get_module_idx_Some: "fwk_id_get_module_idx i = Some m \<Longrightarrow> m = common_module_idx i"
  by (auto simp: fwk_id_get_module_idx_def split: if_splits)

lemma bind_error_iff: "bind_error st api s = Some r \<longleftrightarrow> \<not> dbg s \<and> r = ((st, api), s)"
  by (auto simp: bind_error_def split: if_splits)

text \<open>The binding guard. A binding request is passed on only for a valid target and a valid API
  of the same module, a non-NULL destination, and while modules are being bound or the target's
  module is already initialised; any other request returns \<open>FWK_E_PARAM\<close> or \<open>FWK_E_STATE\<close> in a
  Release build, without calling the module and with no effect. Success also means that the module
  has supplied an API.\<close>

theorem fwk_module_bind_guard:
  assumes "fwk_module_bind ops target_id api_id api_is_null api0 s = Some ((status, api), s')"
  shows "(status = FWK_SUCCESS \<longrightarrow> bind_permitted target_id api_id api_is_null s \<and> api \<noteq> NULL) \<and>
    (\<not> bind_permitted target_id api_id api_is_null s \<longrightarrow>
      status \<in> {FWK_E_PARAM, FWK_E_STATE} \<and> api = api0 \<and> s' = s \<and> \<not> dbg s)"
proof (cases "bind_permitted target_id api_id api_is_null s")
  case True
  then have v: "fwk_module_is_valid_entity_id target_id s = Some True" by (simp add: bind_permitted_def)
  show ?thesis
    using assms True valid_entity_ctx(2) [OF v]
    by (auto simp: fwk_module_bind_def bind_permitted_def bind_error_iff split: if_splits)
next
  case False
  then show ?thesis
    using assms valid_entity_ctx(2) [of target_id s]
    by (auto simp: fwk_module_bind_def bind_permitted_def bind_error_iff
        dest!: get_module_idx_Some split: if_splits)
qed

section \<open>Instances\<close>

text \<open>The table of \<open>Fwk_Module\<close> with modules whose every callback succeeds at once.\<close>

definition boot_ops :: "nat \<Rightarrow> fwk_state module_ops" where
  "boot_ops m = no_ops\<lparr>op_init := Some (\<lambda>i n d s. Some (FWK_SUCCESS, s)),
    op_element_init := Some (\<lambda>i n d s. Some (FWK_SUCCESS, s)),
    op_bind := Some (\<lambda>i r s. Some (FWK_SUCCESS, s)),
    op_start := Some (\<lambda>i s. Some (FWK_SUCCESS, s)),
    op_stop := Some (\<lambda>i s. Some (FWK_SUCCESS, s)),
    op_process_bind_request := Some (\<lambda>src target a api0 s. Some ((FWK_SUCCESS, 7), s))\<rparr>"

lemma boot_ops_succeed: "ops_succeed boot_ops"
  by (simp add: ops_succeed_def succeeds_def boot_ops_def no_ops_def)

lemma state1_configured: "well_configured boot_ops state1"
proof -
  have "module_configured (boot_ops m) (module_ctx_table state1 ! m)" if "m < 2" for m
  proof -
    have "m = 0 \<or> m = 1" using that by auto
    then show ?thesis
      by (auto simp: module_configured_def boot_ops_def no_ops_def state1_def fwk_module_init_defs
          desc0_def config0_def config1_def FWK_MODULE_TYPE_COUNT_def)
  qed
  then show ?thesis using state1_wf by (simp add: well_configured_def)
qed

theorem fwk_module_start_starts_all_witness:
  "\<exists>s'. fwk_module_start boot_ops 10 state1 = Some (FWK_SUCCESS, s') \<and>
    fwk_module_start boot_ops 10 s' = Some (FWK_E_STATE, s')"
proof -
  have "\<not> mod_initialized state1" by (subst state1_eq) (simp add: state0_def)
  from fwk_module_start_starts_all [OF boot_ops_succeed state1_configured this, of 10] show ?thesis by blast
qed

theorem fwk_module_stop_suspends_all_witness:
  "\<exists>s'. fwk_module_stop boot_ops (state1\<lparr>mod_initialized := True\<rparr>) = Some (FWK_SUCCESS, s') \<and>
    (fwk_module_is_valid_entity_id (FWK_ID_ELEMENT 1 1) s' = Some True \<and>
      fwk_module_get_state (FWK_ID_ELEMENT 1 1) False s' = Some (FWK_SUCCESS, Some FWK_MODULE_STATE_SUSPENDED))"
proof -
  let ?s = "state1\<lparr>mod_initialized := True\<rparr>"
  have wf: "ctx_table_wf ?s" using state1_wf by (simp add: ctx_table_wf_def)
  have keeps: "callback_keeps (op_stop (boot_ops m))" for m
    by (auto simp: callback_keeps_def keeps_skeleton_def boot_ops_def)
  have "case fwk_module_stop boot_ops ?s of Some (st, s') \<Rightarrow> st = FWK_SUCCESS \<and>
      fwk_module_is_valid_entity_id (FWK_ID_ELEMENT 1 1) s' = Some True | None \<Rightarrow> False" by code_simp
  then obtain s' where "fwk_module_stop boot_ops ?s = Some (FWK_SUCCESS, s')"
    "fwk_module_is_valid_entity_id (FWK_ID_ELEMENT 1 1) s' = Some True" by (auto split: option.splits)
  then show ?thesis using fwk_module_stop_suspends_all [OF keeps wf] by auto
qed

theorem fwk_module_bind_guard_witness:
  "\<exists>api s'. fwk_module_bind boot_ops (FWK_ID_MODULE 0) (FWK_ID_API 0 0) False 0 (state1\<lparr>stage := MODULE_STAGE_BIND\<rparr>) =
      Some ((FWK_SUCCESS, api), s') \<and>
    bind_permitted (FWK_ID_MODULE 0) (FWK_ID_API 0 0) False (state1\<lparr>stage := MODULE_STAGE_BIND\<rparr>) \<and> api \<noteq> NULL"
proof -
  have "case fwk_module_bind boot_ops (FWK_ID_MODULE 0) (FWK_ID_API 0 0) False 0 (state1\<lparr>stage := MODULE_STAGE_BIND\<rparr>)
      of Some ((st, api), s') \<Rightarrow> st = FWK_SUCCESS | None \<Rightarrow> False" by code_simp
  then obtain api s' where "fwk_module_bind boot_ops (FWK_ID_MODULE 0) (FWK_ID_API 0 0) False 0
      (state1\<lparr>stage := MODULE_STAGE_BIND\<rparr>) = Some ((FWK_SUCCESS, api), s')" by (auto split: option.splits)
  then show ?thesis using fwk_module_bind_guard by blast
qed

end
