(* ===== verification/Fwk_Notification.thy ===== *)
theory Fwk_Notification
  imports Fwk_Lifecycle
begin

text \<open>
  Notifications (\<open>fwk_notification.c\<close>): the subscription lists kept in the module and element
  contexts, one per notification, the pool of subscription structures, subscription and
  cancellation, and the sending of a notification to the subscribers of its source.
\<close>

section \<open>Operations\<close>

definition subscription_table :: "fwk_id \<Rightarrow> 'a fwk_state_scheme \<Rightarrow> addr list list option" where
  "subscription_table source_id s = do {
    is_module \<leftarrow> fwk_id_is_type source_id FWK_ID_TYPE_MODULE;
    if is_module then do { c \<leftarrow> fwk_module_get_ctx source_id s; Some (mc_subscription_dlist_table c) }
    else do { e \<leftarrow> fwk_module_get_element_ctx source_id s; Some (ec_subscription_dlist_table e) } }"

definition get_subscription_dlist :: "fwk_id \<Rightarrow> fwk_id \<Rightarrow> 'a fwk_state_scheme \<Rightarrow> addr list option" where
  "get_subscription_dlist notification_id source_id s = do {
    table \<leftarrow> subscription_table source_id s;
    n \<leftarrow> fwk_id_get_notification_idx notification_id;
    if unat n < length table then Some (table ! unat n) else None }"

text \<open>Writing through the pointer \<open>get_subscription_dlist\<close> returns.\<close>

definition upd_subscription_dlist ::
  "fwk_id \<Rightarrow> fwk_id \<Rightarrow> (addr list \<Rightarrow> addr list) \<Rightarrow> 'a fwk_state_scheme \<Rightarrow> 'a fwk_state_scheme" where
  "upd_subscription_dlist notification_id source_id f s =
    (let m = unat (common_module_idx source_id); n = unat (notification_notification_idx notification_id)
     in if common_type source_id = id_type_code FWK_ID_TYPE_MODULE
        then upd_module_ctx m (\<lambda>c. c\<lparr>mc_subscription_dlist_table :=
          (mc_subscription_dlist_table c)[n := f (mc_subscription_dlist_table c ! n)]\<rparr>) s
        else upd_element_ctx m (unat (element_element_idx source_id)) (\<lambda>e. e\<lparr>ec_subscription_dlist_table :=
          (ec_subscription_dlist_table e)[n := f (ec_subscription_dlist_table e ! n)]\<rparr>) s)"

fun search_subscription ::
  "(addr \<Rightarrow> fwk_notification_subscription) \<Rightarrow> addr list \<Rightarrow> fwk_id \<Rightarrow> fwk_id \<Rightarrow> addr option" where
  "search_subscription subs [] source_id target_id = Some NULL"
| "search_subscription subs (x # xs) source_id target_id = do {
    same_source \<leftarrow> fwk_id_is_equal (sub_source_id (subs x)) source_id;
    same_target \<leftarrow> (if same_source then fwk_id_is_equal (sub_target_id (subs x)) target_id else Some False);
    if same_source \<and> same_target then Some x else search_subscription subs xs source_id target_id }"

text \<open>The loop of \<open>send_notifications\<close>; sending an event does not change a subscription list.\<close>

fun send_to_subscribers ::
  "addr list \<Rightarrow> fwk_event \<Rightarrow> nat \<Rightarrow> 'a fwk_state_scheme \<Rightarrow> ((fwk_event \<times> nat) \<times> 'a fwk_state_scheme) option" where
  "send_to_subscribers [] event n s = Some ((event, n), s)"
| "send_to_subscribers (x # xs) event n s = do {
    same_source \<leftarrow> fwk_id_is_equal (sub_source_id (subscriptions s x)) (ev_source_id event);
    if \<not> same_source then send_to_subscribers xs event n s
    else do {
      ((status, event), s) \<leftarrow>
        fwk_put_notification (event\<lparr>ev_target_id := sub_target_id (subscriptions s x)\<rparr>) s;
      send_to_subscribers xs event (if status = FWK_SUCCESS then n + 1 else n) s } }"

definition send_notifications ::
  "fwk_event \<Rightarrow> nat \<Rightarrow> 'a fwk_state_scheme \<Rightarrow> ((fwk_event \<times> nat) \<times> 'a fwk_state_scheme) option" where
  "send_notifications event n s = do {
    subscription_dlist \<leftarrow> get_subscription_dlist (ev_id event) (ev_source_id event) s;
    send_to_subscribers subscription_dlist
      (event\<lparr>ev_is_response := False, ev_is_notification := True\<rparr>) n s }"

text \<open>The subscription structures are the addresses \<open>1 .. notification_max\<close>.\<close>

definition fwk_notification_init :: "nat \<Rightarrow> 'a fwk_state_scheme \<Rightarrow> 'a fwk_state_scheme" where
  "fwk_notification_init notification_max s = s\<lparr>free_subscription_dlist := [1..<Suc notification_max]\<rparr>"

definition fwk_notification_reset :: "nat \<Rightarrow> 'a fwk_state_scheme \<Rightarrow> 'a fwk_state_scheme" where
  "fwk_notification_reset notification_max s = fwk_notification_init notification_max s"

text \<open>The parameter check shared by subscription and cancellation, in the order of the \<open>||\<close>.\<close>

definition subscription_params_valid ::
  "fwk_id \<Rightarrow> fwk_id \<Rightarrow> fwk_id \<Rightarrow> 'a fwk_state_scheme \<Rightarrow> bool option" where
  "subscription_params_valid notification_id source_id target_id s = do {
    v1 \<leftarrow> fwk_module_is_valid_notification_id notification_id s;
    if \<not> v1 then Some False
    else do {
      v2 \<leftarrow> fwk_module_is_valid_entity_id source_id s;
      if \<not> v2 then Some False
      else do {
        v3 \<leftarrow> fwk_module_is_valid_entity_id target_id s;
        if \<not> v3 then Some False
        else do {
          mn \<leftarrow> fwk_id_build_module_id notification_id;
          ms \<leftarrow> fwk_id_build_module_id source_id;
          fwk_id_is_equal mn ms } } } }"

definition fwk_notification_subscribe ::
  "fwk_id \<Rightarrow> fwk_id \<Rightarrow> fwk_id \<Rightarrow> 'a fwk_state_scheme \<Rightarrow> (fwk_status \<times> 'a fwk_state_scheme) option" where
  "fwk_notification_subscribe notification_id source_id target_id s =
    (if interrupt_context s then Some (FWK_E_HANDLER, s)
     else do {
       valid \<leftarrow> subscription_params_valid notification_id source_id target_id s;
       if \<not> valid then Some (FWK_E_PARAM, s)
       else do {
         dlist \<leftarrow> get_subscription_dlist notification_id source_id s;
         found \<leftarrow> search_subscription (subscriptions s) dlist source_id target_id;
         if found \<noteq> NULL then Some (FWK_E_STATE, s)
         else do {
           let (sub, free) = fwk_list_pop_head (free_subscription_dlist s);
           let s = s\<lparr>free_subscription_dlist := free\<rparr>;
           if sub = NULL then do { fwk_unexpected (dbg s); Some (FWK_E_NOMEM, s) }
           else do {
             let s = s\<lparr>subscriptions := (subscriptions s)(sub :=
               \<lparr>sub_source_id = source_id, sub_target_id = target_id\<rparr>)\<rparr>;
             Some (FWK_SUCCESS, upd_subscription_dlist notification_id source_id (fwk_list_push_tail sub) s) } } } })"

definition fwk_notification_unsubscribe ::
  "fwk_id \<Rightarrow> fwk_id \<Rightarrow> fwk_id \<Rightarrow> 'a fwk_state_scheme \<Rightarrow> (fwk_status \<times> 'a fwk_state_scheme) option" where
  "fwk_notification_unsubscribe notification_id source_id target_id s =
    (if interrupt_context s then Some (FWK_E_HANDLER, s)
     else do {
       valid \<leftarrow> subscription_params_valid notification_id source_id target_id s;
       if \<not> valid then Some (FWK_E_PARAM, s)
       else do {
         dlist \<leftarrow> get_subscription_dlist notification_id source_id s;
         sub \<leftarrow> search_subscription (subscriptions s) dlist source_id target_id;
         if sub = NULL then Some (FWK_E_STATE, s)
         else do {
           let s = upd_subscription_dlist notification_id source_id (fwk_list_remove sub) s;
           Some (FWK_SUCCESS,
             s\<lparr>free_subscription_dlist := fwk_list_push_tail sub (free_subscription_dlist s)\<rparr>) } } })"

text \<open>\<open>event\<close> is the event the first pointer designates, \<open>n\<close> what the counter holds; \<open>None\<close> is
  NULL. Both are returned as the call leaves them.\<close>

definition fwk_notification_notify ::
  "fwk_event option \<Rightarrow> nat option \<Rightarrow> 'a fwk_state_scheme
    \<Rightarrow> ((fwk_status \<times> fwk_event option \<times> nat option) \<times> 'a fwk_state_scheme) option" where
  "fwk_notification_notify event_p count_p s = (case (event_p, count_p) of
      (Some event, Some n) \<Rightarrow> do {
        event' \<leftarrow> (if interrupt_context s then do {
                    valid \<leftarrow> fwk_module_is_valid_entity_id (ev_source_id event) s;
                    Some (if valid then Some event else None) }
                  else if current_event s \<noteq> NULL then do {
                    valid \<leftarrow> fwk_module_is_valid_entity_id (ev_source_id event) s;
                    Some (Some (if valid then event
                      else event\<lparr>ev_source_id := ev_target_id (events s (current_event s))\<rparr>)) }
                  else Some (Some event));
        (case event' of
          None \<Rightarrow> Some ((FWK_E_PARAM, event_p, count_p), s)
        | Some event \<Rightarrow> do {
            valid \<leftarrow> fwk_module_is_valid_notification_id (ev_id event) s;
            same \<leftarrow> (if \<not> valid then Some False
                    else do {
                      mi \<leftarrow> fwk_id_get_module_idx (ev_id event);
                      ms \<leftarrow> fwk_id_get_module_idx (ev_source_id event);
                      Some (mi = ms) });
            if \<not> same then Some ((FWK_E_PARAM, Some event, count_p), s)
            else do {
              ((event, n), s) \<leftarrow> send_notifications event 0 s;
              Some ((FWK_SUCCESS, Some event, Some n), s) } }) }
    | _ \<Rightarrow> Some ((FWK_E_PARAM, event_p, count_p), s))"

section \<open>Reading and writing a subscription list\<close>

lemma subscription_dlist_cases:
  assumes "get_subscription_dlist n i s = Some q"
  shows "fwk_id_type_is_valid i" "common_type n = 7"
    and "unat (common_module_idx i) < length (module_ctx_table s)"
    and "common_type i = 2 \<Longrightarrow>
      unat (notification_notification_idx n)
        < length (mc_subscription_dlist_table (module_ctx_table s ! unat (common_module_idx i))) \<and>
      q = mc_subscription_dlist_table (module_ctx_table s ! unat (common_module_idx i))
        ! unat (notification_notification_idx n)"
    and "common_type i \<noteq> 2 \<Longrightarrow>
      unat (element_element_idx i)
        < length (mc_element_ctx_table (module_ctx_table s ! unat (common_module_idx i))) \<and>
      unat (notification_notification_idx n) < length (ec_subscription_dlist_table (mc_element_ctx_table
        (module_ctx_table s ! unat (common_module_idx i)) ! unat (element_element_idx i))) \<and>
      q = ec_subscription_dlist_table (mc_element_ctx_table
        (module_ctx_table s ! unat (common_module_idx i)) ! unat (element_element_idx i))
        ! unat (notification_notification_idx n)"
  using assms
  by (auto simp: get_subscription_dlist_def subscription_table_def fwk_module_get_element_ctx_def
      fwk_module_get_ctx_def fwk_id_is_type_Some_iff fwk_id_get_notification_idx_def Let_def
      split: if_splits)

lemma get_after_upd_subscription:
  assumes "get_subscription_dlist n i s = Some q"
  shows "get_subscription_dlist n i (upd_subscription_dlist n i f s) = Some (f q)"
proof -
  note l = subscription_dlist_cases [OF assms]
  show ?thesis
  proof (cases "common_type i = 2")
    case True
    then show ?thesis
      using l by (auto simp: get_subscription_dlist_def subscription_table_def fwk_module_get_ctx_def
          fwk_id_is_type_def fwk_id_type_is_valid_def fwk_id_get_notification_idx_def
          FWK_ID_TYPE_COUNT_def upd_subscription_dlist_def upd_module_ctx_def Let_def)
  next
    case False
    then show ?thesis
      using l by (auto simp: get_subscription_dlist_def subscription_table_def fwk_module_get_ctx_def
          fwk_module_get_element_ctx_def fwk_id_is_type_def fwk_id_type_is_valid_def
          fwk_id_get_notification_idx_def FWK_ID_TYPE_COUNT_def upd_subscription_dlist_def
          upd_module_ctx_def upd_element_ctx_def Let_def)
  qed
qed

lemma upd_subscription_frame [simp]:
  "dbg (upd_subscription_dlist n i f s) = dbg s"
  "interrupt_context (upd_subscription_dlist n i f s) = interrupt_context s"
  "free_subscription_dlist (upd_subscription_dlist n i f s) = free_subscription_dlist s"
  "subscriptions (upd_subscription_dlist n i f s) = subscriptions s"
  "current_event (upd_subscription_dlist n i f s) = current_event s"
  "events (upd_subscription_dlist n i f s) = events s"
  "event_queue (upd_subscription_dlist n i f s) = event_queue s"
  "isr_event_queue (upd_subscription_dlist n i f s) = isr_event_queue s"
  "free_event_queue (upd_subscription_dlist n i f s) = free_event_queue s"
  by (simp_all add: upd_subscription_dlist_def upd_element_ctx_def Let_def)

lemma ctx_skeleton_upd_module:
  assumes "m < length (module_ctx_table s) \<Longrightarrow>
    module_skeleton (f (module_ctx_table s ! m)) = module_skeleton (module_ctx_table s ! m)"
  shows "ctx_skeleton (upd_module_ctx m f s) = ctx_skeleton s"
  using assms unfolding ctx_skeleton_map upd_module_ctx_def
  by (cases "m < length (module_ctx_table s)") (simp_all add: map_update_same list_update_beyond not_less)

lemma upd_subscription_skeleton [simp]:
  "ctx_skeleton (upd_subscription_dlist n i f s) = ctx_skeleton s"
proof -
  have es: "map element_skeleton (es[e := (es ! e)\<lparr>ec_subscription_dlist_table :=
      (ec_subscription_dlist_table (es ! e))[k := x]\<rparr>]) = map element_skeleton es" for es e k x
    by (cases "e < length es") (simp_all add: list_update_beyond not_less element_skeleton_def map_update_same)
  show ?thesis
  proof (cases "common_type i = 2")
    case True
    then show ?thesis
      unfolding upd_subscription_dlist_def Let_def
      by simp (rule ctx_skeleton_upd_module, simp add: module_skeleton_def)
  next
    case False
    then show ?thesis
      unfolding upd_subscription_dlist_def Let_def upd_element_ctx_def
      by simp (rule ctx_skeleton_upd_module, use es in \<open>simp add: module_skeleton_def\<close>)
  qed
qed

section \<open>The pool of subscription structures\<close>

definition subs_of_ctx :: "fwk_module_context \<Rightarrow> addr multiset" where
  "subs_of_ctx c = (\<Sum>q\<leftarrow>mc_subscription_dlist_table c. mset q) +
    (\<Sum>e\<leftarrow>mc_element_ctx_table c. \<Sum>q\<leftarrow>ec_subscription_dlist_table e. mset q)"

definition subscription_pool :: "'a fwk_state_scheme \<Rightarrow> addr multiset" where
  "subscription_pool s = mset (free_subscription_dlist s) + (\<Sum>c\<leftarrow>module_ctx_table s. subs_of_ctx c)"

lemma subs_of_ctx_upd:
  "n < length (mc_subscription_dlist_table c) \<Longrightarrow>
    subs_of_ctx (c\<lparr>mc_subscription_dlist_table := (mc_subscription_dlist_table c)[n := q]\<rparr>) +
      mset (mc_subscription_dlist_table c ! n) = subs_of_ctx c + mset q"
  using sum_list_update_add [of n "mc_subscription_dlist_table c" mset q]
  by (simp add: subs_of_ctx_def ac_simps)

lemma subs_of_ctx_upd_element:
  assumes "e < length (mc_element_ctx_table c)"
    and "n < length (ec_subscription_dlist_table (mc_element_ctx_table c ! e))"
  shows "subs_of_ctx (c\<lparr>mc_element_ctx_table := (mc_element_ctx_table c)[e := (mc_element_ctx_table c ! e)
      \<lparr>ec_subscription_dlist_table := (ec_subscription_dlist_table (mc_element_ctx_table c ! e))[n := q]\<rparr>]\<rparr>) +
      mset (ec_subscription_dlist_table (mc_element_ctx_table c ! e) ! n) = subs_of_ctx c + mset q"
proof -
  let ?es = "mc_element_ctx_table c"
  let ?t = "ec_subscription_dlist_table (?es ! e)"
  let ?g = "\<lambda>e. \<Sum>q\<leftarrow>ec_subscription_dlist_table e. mset q"
  have a: "(\<Sum>x\<leftarrow>?es[e := (?es ! e)\<lparr>ec_subscription_dlist_table := ?t[n := q]\<rparr>]. ?g x) + ?g (?es ! e) =
      (\<Sum>x\<leftarrow>?es. ?g x) + (\<Sum>q\<leftarrow>?t[n := q]. mset q)"
    using sum_list_update_add [OF assms(1), of ?g "(?es ! e)\<lparr>ec_subscription_dlist_table := ?t[n := q]\<rparr>"] by simp
  have b: "(\<Sum>q\<leftarrow>?t[n := q]. mset q) + mset (?t ! n) = (\<Sum>q\<leftarrow>?t. mset q) + mset q"
    using sum_list_update_add [OF assms(2), of mset q] by simp
  from mset_swap_parts [OF a b] show ?thesis by (simp add: subs_of_ctx_def add.assoc)
qed

lemma subscription_pool_upd:
  assumes "get_subscription_dlist n i s = Some q"
  shows "subscription_pool (upd_subscription_dlist n i f s) + mset q = subscription_pool s + mset (f q)"
proof -
  let ?m = "unat (common_module_idx i)" and ?n = "unat (notification_notification_idx n)"
  let ?e = "unat (element_element_idx i)"
  let ?c = "module_ctx_table s ! ?m"
  note l = subscription_dlist_cases [OF assms]
  define g where "g = (\<lambda>c :: fwk_module_context. if common_type i = 2
    then c\<lparr>mc_subscription_dlist_table := (mc_subscription_dlist_table c)[?n := f (mc_subscription_dlist_table c ! ?n)]\<rparr>
    else c\<lparr>mc_element_ctx_table := (mc_element_ctx_table c)[?e := (mc_element_ctx_table c ! ?e)
      \<lparr>ec_subscription_dlist_table := (ec_subscription_dlist_table (mc_element_ctx_table c ! ?e))
        [?n := f (ec_subscription_dlist_table (mc_element_ctx_table c ! ?e) ! ?n)]\<rparr>]\<rparr>)"
  have u: "upd_subscription_dlist n i f s = upd_module_ctx ?m g s"
    by (simp add: upd_subscription_dlist_def upd_element_ctx_def g_def Let_def)
  have "subs_of_ctx (g ?c) + mset q = subs_of_ctx ?c + mset (f q)"
    using l(4,5) subs_of_ctx_upd [of ?n ?c "f q"] subs_of_ctx_upd_element [of ?e ?c ?n "f q"]
    by (cases "common_type i = 2") (simp_all add: g_def)
  moreover have "(\<Sum>c\<leftarrow>(module_ctx_table s)[?m := g ?c]. subs_of_ctx c) + subs_of_ctx ?c =
      (\<Sum>c\<leftarrow>module_ctx_table s. subs_of_ctx c) + subs_of_ctx (g ?c)"
    using sum_list_update_add [OF l(3), of subs_of_ctx "g ?c"] .
  ultimately have "(\<Sum>c\<leftarrow>(module_ctx_table s)[?m := g ?c]. subs_of_ctx c) + mset q =
      (\<Sum>c\<leftarrow>module_ctx_table s. subs_of_ctx c) + mset (f q)"
    using mset_swap_parts by blast
  then show ?thesis unfolding u by (simp add: subscription_pool_def upd_module_ctx_def add.assoc)
qed

lemma search_subscription_in:
  "search_subscription subs q i t = Some x \<Longrightarrow> x \<noteq> NULL \<Longrightarrow>
    x \<in> set q \<and> sub_source_id (subs x) = i \<and> sub_target_id (subs x) = t"
  by (induction q) (auto simp: fwk_id_is_equal_Some_iff split: if_splits)

lemma subscription_pool_free [simp]:
  "subscription_pool (s\<lparr>free_subscription_dlist := q\<rparr>) + mset (free_subscription_dlist s) =
    subscription_pool s + mset q"
  "subscription_pool (s\<lparr>subscriptions := x\<rparr>) = subscription_pool s"
  by (simp_all add: subscription_pool_def ac_simps)

lemma subscribe_conserves:
  assumes "fwk_notification_subscribe n i t s = Some (st, s')" "NULL \<notin># subscription_pool s"
  shows "subscription_pool s' = subscription_pool s"
proof (cases "st = FWK_SUCCESS")
  case False
  have "NULL \<notin> set (free_subscription_dlist s)" using assms(2) by (simp add: subscription_pool_def)
  then show ?thesis
    using assms(1) False
    by (auto simp: fwk_notification_subscribe_def fwk_list_pop_head_def Let_def subscription_pool_def
        split: if_splits list.splits)
next
  case True
  then obtain q x rest where q: "get_subscription_dlist n i s = Some q"
    and f: "free_subscription_dlist s = x # rest" and s': "s' = upd_subscription_dlist n i (fwk_list_push_tail x)
      (s\<lparr>free_subscription_dlist := rest, subscriptions := (subscriptions s)(x := \<lparr>sub_source_id = i, sub_target_id = t\<rparr>)\<rparr>)"
    using assms(1)
    by (auto simp: fwk_notification_subscribe_def fwk_list_pop_head_def Let_def split: if_splits list.splits)
  let ?t = "s\<lparr>free_subscription_dlist := rest, subscriptions := (subscriptions s)(x := \<lparr>sub_source_id = i, sub_target_id = t\<rparr>)\<rparr>"
  have "get_subscription_dlist n i ?t = Some q"
    using q by (simp add: get_subscription_dlist_def subscription_table_def fwk_module_get_element_ctx_def
        fwk_module_get_ctx_def cong: if_cong)
  from subscription_pool_upd [OF this, of "fwk_list_push_tail x"]
  have "subscription_pool s' + mset q = subscription_pool ?t + mset (q @ [x])"
    by (simp add: s' fwk_list_push_tail_def)
  moreover have "subscription_pool s = add_mset x (subscription_pool ?t)"
    using f by (simp add: subscription_pool_def)
  ultimately show ?thesis by simp
qed

lemma unsubscribe_conserves:
  assumes "fwk_notification_unsubscribe n i t s = Some (st, s')"
  shows "subscription_pool s' = subscription_pool s"
proof (cases "st = FWK_SUCCESS")
  case False
  then show ?thesis
    using assms(1) by (auto simp: fwk_notification_unsubscribe_def Let_def split: if_splits)
next
  case True
  then obtain q x where q: "get_subscription_dlist n i s = Some q"
    and x: "search_subscription (subscriptions s) q i t = Some x" "x \<noteq> NULL"
    and s': "s' = (upd_subscription_dlist n i (fwk_list_remove x) s)
      \<lparr>free_subscription_dlist := free_subscription_dlist s @ [x]\<rparr>"
    using assms(1)
    by (auto simp: fwk_notification_unsubscribe_def Let_def fwk_list_push_tail_def split: if_splits)
  let ?t = "upd_subscription_dlist n i (fwk_list_remove x) s"
  have "x \<in># mset q" using search_subscription_in [OF x] by simp
  then have "subscription_pool s = add_mset x (subscription_pool ?t)"
    using subscription_pool_upd [OF q, of "fwk_list_remove x"]
      mset_swap_parts [of "subscription_pool ?t" "mset q" "subscription_pool s" "mset q - {#x#}" "{#x#}" "{#}"]
    by (simp add: fwk_list_remove_def)
  then show ?thesis unfolding s' by (simp add: subscription_pool_def)
qed

text \<open>What a list of subscriptions means: the pairs of source and target, in order.\<close>

definition subscribers :: "fwk_id \<Rightarrow> fwk_id \<Rightarrow> 'a fwk_state_scheme \<Rightarrow> (fwk_id \<times> fwk_id) list option" where
  "subscribers n i s = map_option (map (\<lambda>a. (sub_source_id (subscriptions s a), sub_target_id (subscriptions s a))))
    (get_subscription_dlist n i s)"

text \<open>The identifiers stored in the list were checked when they were stored.\<close>

definition subscription_ids_ok :: "fwk_id \<Rightarrow> fwk_id \<Rightarrow> 'a fwk_state_scheme \<Rightarrow> bool" where
  "subscription_ids_ok n i s \<longleftrightarrow> (\<forall>l. subscribers n i s = Some l \<longrightarrow>
    (\<forall>(src, tgt) \<in> set l. fwk_id_type_is_valid src \<and> fwk_id_type_is_valid tgt))"

lemma search_subscription_result:
  assumes "\<forall>a \<in> set q. fwk_id_type_is_valid (sub_source_id (subs a)) \<and> fwk_id_type_is_valid (sub_target_id (subs a))"
  shows "\<exists>x. search_subscription subs q i t = Some x \<and>
    ((i, t) \<notin> set (map (\<lambda>a. (sub_source_id (subs a), sub_target_id (subs a))) q) \<longrightarrow> x = NULL)"
  using assms by (induction q) (auto simp: fwk_id_is_equal_def fwk_id_type_is_valid_def)

lemma search_subscription_appended:
  assumes "\<forall>a \<in> set q. fwk_id_type_is_valid (sub_source_id (subs a)) \<and> fwk_id_type_is_valid (sub_target_id (subs a))"
    and "(i, t) \<notin> set (map (\<lambda>a. (sub_source_id (subs a), sub_target_id (subs a))) q)"
    and "subs x = \<lparr>sub_source_id = i, sub_target_id = t\<rparr>" "fwk_id_type_is_valid i" "fwk_id_type_is_valid t"
  shows "search_subscription subs (q @ [x]) i t = Some x"
  using assms by (induction q) (auto simp: fwk_id_is_equal_def fwk_id_type_is_valid_def)

lemma params_valid_skeleton:
  assumes "ctx_skeleton s' = ctx_skeleton s" "ctx_table_wf s"
  shows "subscription_params_valid n i t s' = subscription_params_valid n i t s"
proof -
  have "fwk_module_is_valid_notification_id n s' = fwk_module_is_valid_notification_id n s"
  proof (cases "fwk_id_get_module_idx n")
    case (Some m)
    then show ?thesis
      using skeleton_nth(3) [OF assms(1), of "unat m"] skeleton_length [OF assms(1)]
      by (cases "unat m < length (module_ctx_table s)")
        (simp_all add: fwk_module_is_valid_notification_id_def cong: if_cong)
  qed (simp add: fwk_module_is_valid_notification_id_def cong: if_cong)
  then show ?thesis
    using skeleton_valid_entity [OF assms] by (simp add: subscription_params_valid_def cong: if_cong)
qed

lemma get_subscription_table:
  "module_ctx_table s' = module_ctx_table s \<Longrightarrow> get_subscription_dlist n i s' = get_subscription_dlist n i s"
  by (simp add: get_subscription_dlist_def subscription_table_def fwk_module_get_element_ctx_def
      fwk_module_get_ctx_def cong: if_cong)

lemma subscription_free_not_listed:
  assumes "free_subscription_dlist s = x # rest" "count (subscription_pool s) x \<le> 1"
    and "get_subscription_dlist n i s = Some q"
  shows "x \<notin> set q"
proof
  assume "x \<in> set q"
  then have "count (mset q) x \<ge> 1" by (simp add: Suc_le_eq)
  moreover have "count (subscription_pool (upd_subscription_dlist n i (\<lambda>_. []) s)) x + count (mset q) x =
      count (subscription_pool s) x"
    using arg_cong [OF subscription_pool_upd [OF assms(3), of "\<lambda>_. []"], of "\<lambda>m. count m x"] by simp
  moreover have "count (subscription_pool (upd_subscription_dlist n i (\<lambda>_. []) s)) x \<ge> 1"
    using assms(1) by (simp add: subscription_pool_def)
  ultimately show False using assms(2) by linarith
qed

section \<open>Properties\<close>

text \<open>C38. Accounting of the subscription structures. Subscribing and unsubscribing, successful or
  not, conserve the pool: each structure is in the free list or in exactly one subscription list.\<close>

theorem subscription_pool_conserved:
  assumes "NULL \<notin># subscription_pool s"
  shows "(\<forall>r s'. fwk_notification_subscribe n i t s = Some (r, s') \<longrightarrow> subscription_pool s' = subscription_pool s) \<and>
    (\<forall>r s'. fwk_notification_unsubscribe n i t s = Some (r, s') \<longrightarrow> subscription_pool s' = subscription_pool s)"
  using subscribe_conserves [OF _ assms] unsubscribe_conserves by blast

text \<open>Subscribing and cancelling. For a valid triple that is not subscribed yet, with a free
  structure left, \<open>fwk_notification_subscribe\<close> appends the pair of source and target to the
  subscribers of the notification; a second subscription is refused with \<open>FWK_E_STATE\<close>; and
  \<open>fwk_notification_unsubscribe\<close> gives back the subscribers there were before, after which
  cancelling again is refused with \<open>FWK_E_STATE\<close>.\<close>

theorem subscribe_unsubscribe:
  assumes ctx: "\<not> interrupt_context s" "ctx_table_wf s"
    and params: "subscription_params_valid n i t s = Some True"
    and free: "free_subscription_dlist s = x # rest" "NULL \<notin># subscription_pool s"
      "count (subscription_pool s) x \<le> 1"
    and subs: "subscribers n i s = Some l" "subscription_ids_ok n i s" "(i, t) \<notin> set l"
  shows "\<exists>s1 s2. fwk_notification_subscribe n i t s = Some (FWK_SUCCESS, s1) \<and>
    subscribers n i s1 = Some (l @ [(i, t)]) \<and>
    fwk_notification_subscribe n i t s1 = Some (FWK_E_STATE, s1) \<and>
    fwk_notification_unsubscribe n i t s1 = Some (FWK_SUCCESS, s2) \<and>
    subscribers n i s2 = Some l \<and>
    fwk_notification_unsubscribe n i t s2 = Some (FWK_E_STATE, s2)"
proof -
  obtain q where q: "get_subscription_dlist n i s = Some q"
    and l: "l = map (\<lambda>a. (sub_source_id (subscriptions s a), sub_target_id (subscriptions s a))) q"
    using subs(1) by (auto simp: subscribers_def)
  define new where "new = \<lparr>sub_source_id = i, sub_target_id = t\<rparr>"
  define subs1 where "subs1 = (subscriptions s)(x := new)"
  define t1 where "t1 = s\<lparr>free_subscription_dlist := rest, subscriptions := subs1\<rparr>"
  define s1 where "s1 = upd_subscription_dlist n i (fwk_list_push_tail x) t1"
  define s2 where "s2 = (upd_subscription_dlist n i (fwk_list_remove x) s1)\<lparr>free_subscription_dlist := rest @ [x]\<rparr>"
  have xnz: "x \<noteq> NULL" using free(1,2) by (auto simp: subscription_pool_def)
  have xq: "x \<notin> set q" using subscription_free_not_listed [OF free(1,3) q] .
  have valid: "fwk_id_type_is_valid i" "fwk_id_type_is_valid t"
    using params valid_entity_type_valid by (auto simp: subscription_params_valid_def split: if_splits)
  have ids: "\<forall>a \<in> set q. fwk_id_type_is_valid (sub_source_id (subs1 a)) \<and> fwk_id_type_is_valid (sub_target_id (subs1 a))"
    "\<forall>a \<in> set q. fwk_id_type_is_valid (sub_source_id (subscriptions s a)) \<and>
      fwk_id_type_is_valid (sub_target_id (subscriptions s a))"
    using subs(2) q xq by (auto simp: subscription_ids_ok_def subscribers_def subs1_def)
  have l1: "map (\<lambda>a. (sub_source_id (subs1 a), sub_target_id (subs1 a))) q = l"
    using xq by (auto simp: l subs1_def)
  have g1: "get_subscription_dlist n i s1 = Some (q @ [x])"
    using get_after_upd_subscription [of n i t1 q "fwk_list_push_tail x"] q get_subscription_table [of t1 s n i]
    by (simp add: s1_def t1_def fwk_list_push_tail_def)
  have g2: "get_subscription_dlist n i s2 = Some q"
    using get_after_upd_subscription [OF g1, of "fwk_list_remove x"] xq
      get_subscription_table [of s2 "upd_subscription_dlist n i (fwk_list_remove x) s1" n i]
    by (simp add: s2_def fwk_list_remove_def remove1_append)
  have k1: "ctx_skeleton s1 = ctx_skeleton s" "ctx_skeleton s2 = ctx_skeleton s"
    by (simp_all add: s1_def s2_def t1_def)
  have p: "subscription_params_valid n i t s1 = Some True" "subscription_params_valid n i t s2 = Some True"
    using params_valid_skeleton [OF k1(1) ctx(2)] params_valid_skeleton [OF k1(2) ctx(2)] params by simp_all
  have "(i, t) \<notin> set (map (\<lambda>a. (sub_source_id (subs1 a), sub_target_id (subs1 a))) q)"
    unfolding l1 by (rule subs(3))
  moreover have "subs1 x = \<lparr>sub_source_id = i, sub_target_id = t\<rparr>" by (simp add: subs1_def new_def)
  ultimately have f1: "search_subscription subs1 (q @ [x]) i t = Some x"
    using search_subscription_appended [OF ids(1) _ _ valid] by blast
  have f0: "search_subscription (subscriptions s) q i t = Some NULL"
    "search_subscription subs1 q i t = Some NULL"
    using search_subscription_result [OF ids(2), of i t] search_subscription_result [OF ids(1), of i t] subs(3) l l1
    by auto
  have a: "fwk_notification_subscribe n i t s = Some (FWK_SUCCESS, s1)"
    using ctx(1) params q f0(1) free(1) xnz
    by (simp add: fwk_notification_subscribe_def fwk_list_pop_head_def s1_def t1_def subs1_def new_def)
  have b: "fwk_notification_subscribe n i t s1 = Some (FWK_E_STATE, s1)"
    using ctx(1) p g1 f1 xnz by (simp add: fwk_notification_subscribe_def s1_def t1_def)
  have c: "fwk_notification_unsubscribe n i t s1 = Some (FWK_SUCCESS, s2)"
    using ctx(1) p g1 f1 xnz
    by (simp add: fwk_notification_unsubscribe_def s2_def s1_def t1_def fwk_list_push_tail_def)
  have d: "fwk_notification_unsubscribe n i t s2 = Some (FWK_E_STATE, s2)"
    using ctx(1) p g2 f0(2) by (simp add: fwk_notification_unsubscribe_def s2_def s1_def t1_def)
  show ?thesis
    using a b c d g1 g2 l1
    by (intro exI [of _ s1] exI [of _ s2])
      (simp add: subscribers_def, simp add: s1_def s2_def t1_def subs1_def new_def)
qed

text \<open>The event a subscriber receives, up to the cookie.\<close>

definition notification_for :: "fwk_event \<Rightarrow> fwk_id \<Rightarrow> u32 \<Rightarrow> fwk_event" where
  "notification_for e target c = e\<lparr>ev_target_id := target, ev_is_response := False,
    ev_is_notification := True, ev_cookie := c\<rparr>"

lemma put_notification_step:
  assumes "\<not> interrupt_context s" "\<not> ev_is_delayed_response e" "free_event_queue s = f # rest" "f \<noteq> NULL"
  shows "fwk_put_notification (e\<lparr>ev_target_id := t\<rparr>) s =
    Some ((FWK_SUCCESS, notification_for e t (event_cookie_counter s)),
      s\<lparr>free_event_queue := rest, event_cookie_counter := event_cookie_counter s + 1,
        events := (events s)(f := notification_for e t (event_cookie_counter s)),
        event_queue := event_queue s @ [f]\<rparr>)"
  using put_event_std [OF assms(3,4), of "e\<lparr>ev_target_id := t, ev_is_response := False, ev_is_notification := True\<rparr>"
      UNKNOWN_STATE] assms(1,2)
  by (simp add: fwk_put_notification_def notification_for_def enqueue_event_def fwk_list_push_tail_def Let_def)

lemma send_to_subscribers_effect:
  assumes "\<not> interrupt_context s" "\<not> ev_is_delayed_response e"
    and "\<forall>a \<in> set q. fwk_id_type_is_valid (sub_source_id (subscriptions s a))"
    and "free_event_queue s = fs @ rest" "distinct fs" "NULL \<notin> set fs"
    and "length fs = length (filter (\<lambda>a. sub_source_id (subscriptions s a) = ev_source_id e) q)"
  shows "\<exists>e' s'. send_to_subscribers q e n s = Some ((e', n + length fs), s') \<and>
    event_queue s' = event_queue s @ fs \<and> free_event_queue s' = rest \<and>
    (\<forall>a. a \<notin> set fs \<longrightarrow> events s' a = events s a) \<and>
    list_all2 (\<lambda>f a. \<exists>c. events s' f = notification_for e (sub_target_id (subscriptions s a)) c) fs
      (filter (\<lambda>a. sub_source_id (subscriptions s a) = ev_source_id e) q)"
  using assms
proof (induction q arbitrary: e n s fs)
  case (Cons a q)
  have eq: "fwk_id_is_equal (sub_source_id (subscriptions s a)) (ev_source_id e) =
      Some (sub_source_id (subscriptions s a) = ev_source_id e)"
    using Cons.prems(3) by (simp add: fwk_id_is_equal_Some_iff)
  show ?case
  proof (cases "sub_source_id (subscriptions s a) = ev_source_id e")
    case False
    then show ?thesis using Cons.IH [of s e fs n] Cons.prems eq by simp
  next
    case True
    then obtain f fs' where fs: "fs = f # fs'" using Cons.prems(7) by (cases fs) auto
    let ?t = "sub_target_id (subscriptions s a)" and ?c = "event_cookie_counter s"
    let ?e = "notification_for e ?t ?c"
    let ?s = "s\<lparr>free_event_queue := fs' @ rest, event_cookie_counter := ?c + 1,
        events := (events s)(f := ?e), event_queue := event_queue s @ [f]\<rparr>"
    have put: "fwk_put_notification (e\<lparr>ev_target_id := ?t\<rparr>) s = Some ((FWK_SUCCESS, ?e), ?s)"
      using put_notification_step [OF Cons.prems(1,2), of f "fs' @ rest"] Cons.prems(4,6) fs by auto
    have same: "notification_for ?e t' c' = notification_for e t' c'" for t' c'
      by (simp add: notification_for_def)
    have src: "ev_source_id ?e = ev_source_id e" by (simp add: notification_for_def)
    obtain e' s' where r: "send_to_subscribers q ?e (n + 1) ?s = Some ((e', n + 1 + length fs'), s')"
      "event_queue s' = event_queue ?s @ fs'" "free_event_queue s' = rest"
      "\<forall>a. a \<notin> set fs' \<longrightarrow> events s' a = events ?s a"
      "list_all2 (\<lambda>f a. \<exists>c. events s' f = notification_for e (sub_target_id (subscriptions s a)) c) fs'
        (filter (\<lambda>a. sub_source_id (subscriptions s a) = ev_source_id e) q)"
      using Cons.IH [of ?s ?e fs' "n + 1"] Cons.prems True fs same src
      by (auto simp: notification_for_def [of e])
    have "events s' f = ?e" using r(4) Cons.prems(5) fs by auto
    then show ?thesis
      using r put eq True fs Cons.prems(5) by (auto intro!: exI [of _ e'])
  qed
qed (auto)

text \<open>C37. Notifying. Outside interrupt context, with a source of the notification's own module and
  enough free event structures, \<open>fwk_notification_notify\<close> succeeds: it queues exactly one event for
  each subscription whose source is the notification's source, in the order of subscription,
  addressed to the subscriber, marked as a notification and not as a response, with the identifier,
  source and parameters of the caller's event; and it counts them.\<close>

theorem notify_subscribers:
  assumes ctx: "\<not> interrupt_context s" "current_event s = NULL"
    and ids: "fwk_module_is_valid_notification_id (ev_id e) s = Some True"
      "fwk_id_type_is_valid (ev_source_id e)" "common_module_idx (ev_source_id e) = common_module_idx (ev_id e)"
    and e: "\<not> ev_is_delayed_response e"
    and subs: "get_subscription_dlist (ev_id e) (ev_source_id e) s = Some q"
      "\<forall>a \<in> set q. fwk_id_type_is_valid (sub_source_id (subscriptions s a))"
      "matching = filter (\<lambda>a. sub_source_id (subscriptions s a) = ev_source_id e) q"
    and free: "free_event_queue s = fs @ rest" "length fs = length matching" "distinct fs" "NULL \<notin> set fs"
  shows "\<exists>e' s'. fwk_notification_notify (Some e) (Some n) s =
      Some ((FWK_SUCCESS, Some e', Some (length matching)), s') \<and>
    event_queue s' = event_queue s @ fs \<and> free_event_queue s' = rest \<and>
    list_all2 (\<lambda>f a. \<exists>c. events s' f = notification_for e (sub_target_id (subscriptions s a)) c) fs matching"
proof -
  let ?e = "e\<lparr>ev_is_response := False, ev_is_notification := True\<rparr>"
  have idx: "fwk_id_get_module_idx (ev_id e) = Some (common_module_idx (ev_id e))"
    "fwk_id_get_module_idx (ev_source_id e) = Some (common_module_idx (ev_source_id e))"
    using ids type_code_is_valid [of "ev_id e" FWK_ID_TYPE_NOTIFICATION]
    by (auto simp: valid_notification_id_iff)
  have eq: "notification_for ?e t c = notification_for e t c" for t c
    by (cases e) (simp add: notification_for_def)
  obtain e' s' where r: "send_to_subscribers q ?e 0 s = Some ((e', 0 + length fs), s')"
    "event_queue s' = event_queue s @ fs" "free_event_queue s' = rest"
    "list_all2 (\<lambda>f a. \<exists>c. events s' f = notification_for e (sub_target_id (subscriptions s a)) c) fs matching"
    using send_to_subscribers_effect [of s ?e q fs rest 0] ctx(1) e subs(2,3) free eq by auto
  have "fwk_notification_notify (Some e) (Some n) s = Some ((FWK_SUCCESS, Some e', Some (length matching)), s')"
    using ctx ids(1,3) idx r(1) subs(1) free(2)
    by (simp add: fwk_notification_notify_def send_notifications_def)
  then show ?thesis using r by blast
qed

section \<open>Instances\<close>

definition note0 :: fwk_id where
  "note0 = FWK_ID_NOTIFICATION 1 1"

definition state5 :: fwk_state where
  "state5 = fwk_notification_init 2 state2"

lemma state5_simps [simp]:
  "interrupt_context state5 = False" "current_event state5 = NULL" "event_queue state5 = []"
  "free_event_queue state5 = [1, 2, 3]" "module_ctx_table state5 = module_ctx_table state1"
  "free_subscription_dlist state5 = [1, 2]"
  by (simp_all add: state5_def fwk_notification_init_def upt_rec numeral_nat)

lemma state5_pool: "subscription_pool state5 = {#1, 2#}"
proof -
  have "(\<Sum>c\<leftarrow>module_ctx_table state1. subs_of_ctx c) = {#}"
    by (simp add: state1_def fwk_module_init_defs desc0_def config0_def config1_def subs_of_ctx_def
        numeral_2_eq_2)
  then show ?thesis by (simp add: subscription_pool_def)
qed

lemma state5_params: "subscription_params_valid note0 (FWK_ID_ELEMENT 1 0) (FWK_ID_MODULE 0) state5 = Some True"
  by code_simp

lemma state5_subscribers: "subscribers note0 (FWK_ID_ELEMENT 1 0) state5 = Some []"
  by code_simp

lemma state5_wf: "ctx_table_wf state5"
  using state1_wf by (simp add: ctx_table_wf_def)

theorem subscription_pool_conserved_witness:
  "\<exists>s'. fwk_notification_subscribe note0 (FWK_ID_ELEMENT 1 0) (FWK_ID_MODULE 0) state5 = Some (FWK_SUCCESS, s') \<and>
    subscription_pool s' = {#1, 2#}"
proof -
  have "case fwk_notification_subscribe note0 (FWK_ID_ELEMENT 1 0) (FWK_ID_MODULE 0) state5 of
      Some (st, s') \<Rightarrow> st = FWK_SUCCESS | None \<Rightarrow> False" by code_simp
  then obtain s' where "fwk_notification_subscribe note0 (FWK_ID_ELEMENT 1 0) (FWK_ID_MODULE 0) state5 =
      Some (FWK_SUCCESS, s')" by (auto split: option.splits)
  then show ?thesis
    using subscription_pool_conserved [of state5 note0 "FWK_ID_ELEMENT 1 0" "FWK_ID_MODULE 0"]
    by (simp add: state5_pool)
qed

theorem subscribe_unsubscribe_witness:
  "\<exists>s1 s2. fwk_notification_subscribe note0 (FWK_ID_ELEMENT 1 0) (FWK_ID_MODULE 0) state5 = Some (FWK_SUCCESS, s1) \<and>
    subscribers note0 (FWK_ID_ELEMENT 1 0) s1 = Some [(FWK_ID_ELEMENT 1 0, FWK_ID_MODULE 0)] \<and>
    fwk_notification_unsubscribe note0 (FWK_ID_ELEMENT 1 0) (FWK_ID_MODULE 0) s1 = Some (FWK_SUCCESS, s2)"
  using subscribe_unsubscribe [of state5 note0 "FWK_ID_ELEMENT 1 0" "FWK_ID_MODULE 0" 1 "[2]" "[]"]
  by (simp add: state5_wf state5_params state5_subscribers state5_pool subscription_ids_ok_def) blast

text \<open>One subscriber of the second notification of element (1, 0).\<close>

definition state6 :: fwk_state where
  "state6 = upd_subscription_dlist note0 (FWK_ID_ELEMENT 1 0) (\<lambda>_. [1])
    (state5\<lparr>free_subscription_dlist := [2], subscriptions := (subscriptions state5)(1 :=
      \<lparr>sub_source_id = FWK_ID_ELEMENT 1 0, sub_target_id = FWK_ID_MODULE 0\<rparr>)\<rparr>)"

definition notification0 :: fwk_event where
  "notification0 = event_zero\<lparr>ev_id := note0, ev_source_id := FWK_ID_ELEMENT 1 0\<rparr>"

theorem notify_subscribers_witness:
  "\<exists>e' s'. fwk_notification_notify (Some notification0) (Some 0) state6 =
      Some ((FWK_SUCCESS, Some e', Some 1), s') \<and> event_queue s' = [1] \<and>
    ev_target_id (events s' 1) = FWK_ID_MODULE 0"
proof -
  have "fwk_module_is_valid_notification_id note0 state6 = Some True"
    "get_subscription_dlist note0 (FWK_ID_ELEMENT 1 0) state6 = Some [1]" by code_simp+
  moreover have "subscriptions state6 1 = \<lparr>sub_source_id = FWK_ID_ELEMENT 1 0, sub_target_id = FWK_ID_MODULE 0\<rparr>"
    "interrupt_context state6 = False" "current_event state6 = NULL" "free_event_queue state6 = [1, 2, 3]"
    "event_queue state6 = []"
    by (simp_all add: state6_def)
  ultimately show ?thesis
    using notify_subscribers [of state6 notification0 "[1]" "[1]" "[1]" "[2, 3]" 0]
    by (force simp: notification0_def event_zero_def note0_def notification_for_def)
qed

end
