(* ===== verification/Pd_States.thy ===== *)
theory Pd_States
  imports Fwk_Notification
begin

unbundle bit_operations_syntax

text \<open>
  The power domain module: its data (\<open>mod_power_domain.h\<close>, \<open>internal/power_domain.h\<close>) and the
  checks on power states (\<open>power_domain_state_checks.c\<close>). A pointer to a power domain context is
  its index in \<open>mod_pd_ctx.pd_ctx_table\<close>, a table with its size is a list (empty for a NULL
  pointer); reading past a table is \<open>None\<close>. In \<open>is_allowed_by_child\<close> a state of 32 or more, whose
  shift is undefined in C, reads as a state that is not allowed.
\<close>

section \<open>Power states\<close>

definition MOD_PD_STATE_COUNT_MAX :: u32 where
  "MOD_PD_STATE_COUNT_MAX = 16"

abbreviation MOD_PD_STATE_OFF :: u32 where "MOD_PD_STATE_OFF \<equiv> 0"
abbreviation MOD_PD_STATE_ON :: u32 where "MOD_PD_STATE_ON \<equiv> 1"
abbreviation MOD_PD_STATE_SLEEP :: u32 where "MOD_PD_STATE_SLEEP \<equiv> 2"
abbreviation MOD_PD_STATE_OFF_0 :: u32 where "MOD_PD_STATE_OFF_0 \<equiv> 3"
abbreviation MOD_PD_STATE_OFF_1 :: u32 where "MOD_PD_STATE_OFF_1 \<equiv> 4"
abbreviation MOD_PD_STATE_OFF_2 :: u32 where "MOD_PD_STATE_OFF_2 \<equiv> 5"

datatype mod_pd_type =
    MOD_PD_TYPE_CORE
  | MOD_PD_TYPE_CLUSTER
  | MOD_PD_TYPE_DEVICE
  | MOD_PD_TYPE_DEVICE_DEBUG
  | MOD_PD_TYPE_SYSTEM
  | MOD_PD_TYPE_COUNT

definition MOD_PD_CS_STATE_MASK :: u32 where
  "MOD_PD_CS_STATE_MASK = push_bit 4 1 - 1"

definition MOD_PD_CS_LEVEL_SHIFT :: nat where
  "MOD_PD_CS_LEVEL_SHIFT = 4 * 4"

definition core_composite_state_mask_table :: "u32 list" where
  "core_composite_state_mask_table = [push_bit (0 * 4) MOD_PD_CS_STATE_MASK,
    push_bit (1 * 4) MOD_PD_CS_STATE_MASK, push_bit (2 * 4) MOD_PD_CS_STATE_MASK,
    push_bit (3 * 4) MOD_PD_CS_STATE_MASK]"

section \<open>Data\<close>

record mod_power_domain_config =
  authorized_id_table :: "fwk_id list option"
  authorized_id_table_size :: nat
  enable_system_suspend_notification :: bool

record mod_power_domain_element_config =
  pc_parent_idx :: u32
  pc_driver_id :: fwk_id
  pc_api_id :: fwk_id
  pc_pd_type :: mod_pd_type
  pc_allowed_state_mask_table :: "u32 list"
  pc_composite_state_levels_mask :: u32
  pc_composite_state_mask_table :: "u32 list"
  pc_disable_state_transition_notifications :: bool
  pc_pd_state_mapping_table :: "u32 list option"

record response_ctx =
  rc_pending :: bool
  rc_cookie :: u32

record transition_notification_ctx =
  tn_pending_responses :: nat
  tn_state :: u32
  tn_previous_state :: u32

record pre_transition_notification_ctx =
  pn_pending_responses :: nat
  pn_state :: u32
  pn_response_status :: fwk_status
  pn_valid :: bool

record pd_ctx =
  pd_id :: fwk_id
  pd_driver_api :: addr
  pd_driver_id :: fwk_id
  pd_config :: mod_power_domain_element_config
  pd_valid_state_mask :: u32
  pd_allowed_state_mask_table :: "u32 list"
  pd_cs_support :: bool
  pd_composite_state_mask_table :: "u32 list"
  pd_composite_state_levels_mask :: u32
  pd_parent :: "nat option"
  pd_children :: "nat list"
  pd_requested_state :: u32
  pd_state_requested_to_driver :: u32
  pd_current_state :: u32
  pd_driver_state :: u32
  pd_response :: response_ctx
  pd_transition_notification :: transition_notification_ctx
  pd_pre_transition_notification :: pre_transition_notification_ctx

text \<open>A context as \<open>fwk_mm_calloc\<close> leaves it; \<open>config\<close>, a NULL pointer there, is written before it is
  read.\<close>

definition pd_ctx_zero :: pd_ctx where
  "pd_ctx_zero = \<lparr>pd_id = 0, pd_driver_api = NULL, pd_driver_id = 0,
    pd_config = \<lparr>pc_parent_idx = 0, pc_driver_id = 0, pc_api_id = 0, pc_pd_type = MOD_PD_TYPE_CORE,
      pc_allowed_state_mask_table = [], pc_composite_state_levels_mask = 0,
      pc_composite_state_mask_table = [], pc_disable_state_transition_notifications = False,
      pc_pd_state_mapping_table = None\<rparr>,
    pd_valid_state_mask = 0, pd_allowed_state_mask_table = [], pd_cs_support = False,
    pd_composite_state_mask_table = [], pd_composite_state_levels_mask = 0, pd_parent = None,
    pd_children = [], pd_requested_state = 0, pd_state_requested_to_driver = 0, pd_current_state = 0,
    pd_driver_state = 0, pd_response = \<lparr>rc_pending = False, rc_cookie = 0\<rparr>,
    pd_transition_notification = \<lparr>tn_pending_responses = 0, tn_state = 0, tn_previous_state = 0\<rparr>,
    pd_pre_transition_notification =
      \<lparr>pn_pending_responses = 0, pn_state = 0, pn_response_status = 0, pn_valid = False\<rparr>\<rparr>"

definition pd_at :: "pd_ctx list \<Rightarrow> nat \<Rightarrow> pd_ctx option" where
  "pd_at tbl p = (if p < length tbl then Some (tbl ! p) else None)"

section \<open>Single states\<close>

definition is_valid_state :: "pd_ctx \<Rightarrow> u32 \<Rightarrow> bool" where
  "is_valid_state pd state \<longleftrightarrow>
    state < MOD_PD_STATE_COUNT_MAX \<and> pd_valid_state_mask pd AND push_bit (unat state) 1 \<noteq> 0"

definition normalize_state :: "u32 \<Rightarrow> u32" where
  "normalize_state state =
    (if state = MOD_PD_STATE_OFF then MOD_PD_STATE_COUNT_MAX + 4
     else if state = MOD_PD_STATE_OFF_2 then MOD_PD_STATE_COUNT_MAX + 3
     else if state = MOD_PD_STATE_OFF_1 then MOD_PD_STATE_COUNT_MAX + 2
     else if state = MOD_PD_STATE_OFF_0 then MOD_PD_STATE_COUNT_MAX + 1
     else if state = MOD_PD_STATE_SLEEP then MOD_PD_STATE_COUNT_MAX
     else state)"

definition is_deeper_state :: "u32 \<Rightarrow> u32 \<Rightarrow> bool" where
  "is_deeper_state state state_to_compare_to \<longleftrightarrow> normalize_state state > normalize_state state_to_compare_to"

definition is_shallower_state :: "u32 \<Rightarrow> u32 \<Rightarrow> bool" where
  "is_shallower_state state state_to_compare_to \<longleftrightarrow> normalize_state state < normalize_state state_to_compare_to"

definition is_allowed_by_child :: "pd_ctx \<Rightarrow> u32 \<Rightarrow> u32 \<Rightarrow> bool" where
  "is_allowed_by_child child parent_state child_state \<longleftrightarrow>
    (if unat parent_state \<ge> length (pd_allowed_state_mask_table child) then False
     else pd_allowed_state_mask_table child ! unat parent_state AND push_bit (unat child_state) 1 \<noteq> 0)"

text \<open>The loops over \<open>children_list\<close>; the children of a domain are indices of the table.\<close>

definition is_allowed_by_children :: "pd_ctx list \<Rightarrow> pd_ctx \<Rightarrow> u32 \<Rightarrow> bool" where
  "is_allowed_by_children tbl pd state \<longleftrightarrow>
    (\<forall>c \<in> set (pd_children pd). is_allowed_by_child (tbl ! c) state (pd_requested_state (tbl ! c)))"

definition is_allowed_by_parent_and_children :: "pd_ctx list \<Rightarrow> pd_ctx \<Rightarrow> u32 \<Rightarrow> bool" where
  "is_allowed_by_parent_and_children tbl pd state \<longleftrightarrow>
    (case pd_parent pd of None \<Rightarrow> True
     | Some p \<Rightarrow> is_allowed_by_child pd (pd_current_state (tbl ! p)) state) \<and>
    (\<forall>c \<in> set (pd_children pd). is_allowed_by_child (tbl ! c) state (pd_current_state (tbl ! c)))"

definition is_state_in_transition :: "pd_ctx \<Rightarrow> u32 \<Rightarrow> bool" where
  "is_state_in_transition pd state \<longleftrightarrow>
    pd_requested_state pd \<noteq> state \<or> pd_current_state pd \<noteq> state \<or> pd_state_requested_to_driver pd \<noteq> state"

definition retrieve_mapped_state :: "pd_ctx \<Rightarrow> u32 \<Rightarrow> u32 option" where
  "retrieve_mapped_state pd state = (case pc_pd_state_mapping_table (pd_config pd) of
      None \<Rightarrow> Some state
    | Some table \<Rightarrow> if unat state < length table then Some (table ! unat state) else None)"

section \<open>Composite states\<close>

lemma drop_bit_less: "msk \<noteq> 0 \<Longrightarrow> unat (drop_bit (Suc 0) msk :: u32) < unat msk"
proof -
  assume "msk \<noteq> 0"
  then have "0 < unat msk" by (simp add: unat_gt_0)
  moreover have "unat (drop_bit (Suc 0) msk) = unat msk div 2"
    by (simp add: drop_bit_eq_div unat_div)
  ultimately show ?thesis by simp
qed

text \<open>The loop of \<open>number_of_bits_to_shift\<close> shifts a mask that is not zero until its lowest bit is
  set: at most 31 times.\<close>

function shift_loop :: "u32 \<Rightarrow> nat \<Rightarrow> nat" where
  "shift_loop msk num_bits =
    (if msk = 0 then num_bits
     else if msk AND 1 = 0 then shift_loop (drop_bit 1 msk) (num_bits + 1) else num_bits)"
  by auto

termination
  by (relation "measure (\<lambda>(msk, _). unat msk)") (simp_all add: drop_bit_less)

declare shift_loop.simps [simp del]

definition number_of_bits_to_shift :: "u32 \<Rightarrow> nat" where
  "number_of_bits_to_shift msk = (if msk = 0 then 0 else shift_loop msk 0)"

definition level_state :: "u32 \<Rightarrow> u32 \<Rightarrow> u32" where
  "level_state msk composite_state =
    drop_bit (number_of_bits_to_shift msk) (composite_state AND msk)"

definition get_level_state_from_composite_state :: "u32 list \<Rightarrow> u32 \<Rightarrow> nat \<Rightarrow> u32 option" where
  "get_level_state_from_composite_state table composite_state level =
    (if level < length table then Some (level_state (table ! level) composite_state) else None)"

text \<open>The loop that finds the highest level whose state is valid; it stops at the end of the table,
  at the root or at the first state that is not valid.\<close>

fun highest_level_loop :: "pd_ctx list \<Rightarrow> u32 list \<Rightarrow> u32 \<Rightarrow> nat option \<Rightarrow> u32 \<Rightarrow> u32 option" where
  "highest_level_loop tbl [] composite_state pd level = Some level"
| "highest_level_loop tbl (msk # masks) composite_state None level = Some level"
| "highest_level_loop tbl (msk # masks) composite_state (Some p) level = do {
    pd \<leftarrow> pd_at tbl p;
    if \<not> is_valid_state pd (level_state msk composite_state) then Some level
    else highest_level_loop tbl masks composite_state (pd_parent pd) (level + 1) }"

text \<open>The result is a C \<open>int\<close>: \<open>-1\<close> when no level is valid.\<close>

definition get_highest_level_from_composite_state :: "pd_ctx list \<Rightarrow> nat \<Rightarrow> u32 \<Rightarrow> int option" where
  "get_highest_level_from_composite_state tbl p composite_state = do {
    pd \<leftarrow> pd_at tbl p;
    if \<not> pd_cs_support pd then Some 0
    else if pd_composite_state_levels_mask pd \<noteq> 0 then
      Some (sint (level_state (pd_composite_state_levels_mask pd) composite_state))
    else do {
      level \<leftarrow> highest_level_loop tbl (pd_composite_state_mask_table pd) composite_state (Some p) 0;
      Some (sint (level - 1)) } }"

text \<open>The loop of \<open>is_valid_composite_state\<close> over the levels up to the highest one: \<open>masks\<close> are
  their masks, \<open>child\<close> the previous domain with its state.\<close>

fun valid_levels ::
  "pd_ctx list \<Rightarrow> u32 list \<Rightarrow> u32 \<Rightarrow> nat option \<Rightarrow> (pd_ctx \<times> u32) option \<Rightarrow> bool option" where
  "valid_levels tbl [] composite_state pd child = Some True"
| "valid_levels tbl (msk # masks) composite_state None child = Some False"
| "valid_levels tbl (msk # masks) composite_state (Some p) child = do {
    pd \<leftarrow> pd_at tbl p;
    let state = level_state msk composite_state;
    if \<not> is_valid_state pd state then Some False
    else if (case child of None \<Rightarrow> False | Some (c, child_state) \<Rightarrow> \<not> is_allowed_by_child c state child_state)
    then Some False
    else valid_levels tbl masks composite_state (pd_parent pd) (Some (pd, state)) }"

definition is_valid_composite_state :: "pd_ctx list \<Rightarrow> nat \<Rightarrow> u32 \<Rightarrow> bool option" where
  "is_valid_composite_state tbl target composite_state = do {
    pd \<leftarrow> pd_at tbl target;
    if \<not> pd_cs_support pd then Some False
    else do {
      highest \<leftarrow> get_highest_level_from_composite_state tbl target composite_state;
      let highest_level = unat (word_of_int highest :: u32);
      if highest_level \<ge> length (pd_composite_state_mask_table pd) then Some False
      else valid_levels tbl (take (Suc highest_level) (pd_composite_state_mask_table pd))
        composite_state (Some target) None } }"

text \<open>The walk of \<open>is_upwards_transition_propagation\<close>: the first level whose state differs from the
  requested one decides.\<close>

fun upwards_levels :: "pd_ctx list \<Rightarrow> u32 list \<Rightarrow> u32 \<Rightarrow> nat \<Rightarrow> int \<Rightarrow> nat option \<Rightarrow> nat \<Rightarrow> bool option" where
  "upwards_levels tbl table composite_state level highest_level pd 0 = Some False"
| "upwards_levels tbl table composite_state level highest_level pd (Suc fuel) =
    (case pd of
      None \<Rightarrow> Some False
    | Some p \<Rightarrow>
        if int level > highest_level then Some False
        else do {
          c \<leftarrow> pd_at tbl p;
          state \<leftarrow> get_level_state_from_composite_state table composite_state level;
          if state = pd_requested_state c
          then upwards_levels tbl table composite_state (level + 1) highest_level (pd_parent c) fuel
          else Some (is_deeper_state state (pd_requested_state c)) })"

text \<open>One more turn than the table has levels is enough: reading the table past its end stops the
  walk.\<close>

definition is_upwards_transition_propagation :: "pd_ctx list \<Rightarrow> nat \<Rightarrow> u32 \<Rightarrow> bool option" where
  "is_upwards_transition_propagation tbl lowest composite_state = do {
    highest_level \<leftarrow> get_highest_level_from_composite_state tbl lowest composite_state;
    pd \<leftarrow> pd_at tbl lowest;
    if \<not> pd_cs_support pd then Some (is_deeper_state composite_state (pd_requested_state pd))
    else upwards_levels tbl (pd_composite_state_mask_table pd) composite_state 0 highest_level
      (Some lowest) (Suc (length (pd_composite_state_mask_table pd))) }"

section \<open>The order of the states\<close>

lemma normalize_state_cases:
  obtains "s = 0" "normalize_state s = 20" | "s = 5" "normalize_state s = 19"
    | "s = 4" "normalize_state s = 18" | "s = 3" "normalize_state s = 17"
    | "s = 2" "normalize_state s = 16" | "normalize_state s = s" "s \<notin> {0, 2, 3, 4, 5}"
  by (auto simp: normalize_state_def MOD_PD_STATE_COUNT_MAX_def split: if_splits)

lemma normalize_state_inj:
  assumes "s < MOD_PD_STATE_COUNT_MAX" "t < MOD_PD_STATE_COUNT_MAX" "normalize_state s = normalize_state t"
  shows "s = t"
  using assms
  by (cases s rule: normalize_state_cases; cases t rule: normalize_state_cases)
    (auto simp: MOD_PD_STATE_COUNT_MAX_def)

lemma normalize_state_max: "s < MOD_PD_STATE_COUNT_MAX \<Longrightarrow> normalize_state s \<le> 20"
  by (auto simp: normalize_state_def MOD_PD_STATE_COUNT_MAX_def intro: order.trans [of _ 16])

lemma off_is_deepest:
  assumes "s < MOD_PD_STATE_COUNT_MAX" "s \<noteq> MOD_PD_STATE_OFF"
  shows "is_deeper_state MOD_PD_STATE_OFF s"
proof -
  have "normalize_state s \<noteq> normalize_state MOD_PD_STATE_OFF"
    using normalize_state_inj [OF assms(1), of MOD_PD_STATE_OFF] assms(2) by (auto simp: MOD_PD_STATE_COUNT_MAX_def)
  then show ?thesis
    using normalize_state_max [OF assms(1)]
    by (simp add: is_deeper_state_def normalize_state_def [of MOD_PD_STATE_OFF] MOD_PD_STATE_COUNT_MAX_def)
qed

section \<open>The field a mask selects\<close>

lemma shift_loop_spec:
  "msk \<noteq> 0 \<Longrightarrow> \<exists>k < 32. shift_loop msk n = n + k \<and> bit msk k \<and> (\<forall>i < k. \<not> bit msk i)"
proof (induction msk n rule: shift_loop.induct)
  case (1 msk n)
  show ?case
  proof (cases "msk AND 1 = 0")
    case False
    then have "bit msk 0" by (metis and_one_eq even_iff_mod_2_eq_zero bit_0)
    then show ?thesis using 1 False by (intro exI [of _ 0]) (simp add: shift_loop.simps [of msk n])
  next
    case True
    then have "\<not> bit msk 0" by (metis and_one_eq even_iff_mod_2_eq_zero bit_0)
    have nz: "drop_bit 1 msk \<noteq> 0"
    proof
      assume z: "drop_bit 1 msk = 0"
      have "msk = 0"
      proof (rule bit_eqI)
        fix i show "bit msk i = bit 0 i"
          using \<open>\<not> bit msk 0\<close> z by (cases i) (auto dest: arg_cong [where f = "\<lambda>w. bit w (i - 1)"] simp: bit_simps)
      qed
      then show False using 1 by simp
    qed
    obtain k where k: "k < 32" "shift_loop (drop_bit 1 msk) (n + 1) = n + 1 + k" "bit (drop_bit 1 msk) k"
      "\<forall>i < k. \<not> bit (drop_bit 1 msk) i"
      using "1.IH" [OF "1.prems" True nz] by blast
    have "bit msk (Suc k)" using k(3) by (simp add: bit_simps)
    moreover have "\<not> bit msk i" if "i < Suc k" for i
      using that k(4) \<open>\<not> bit msk 0\<close> by (cases i) (auto simp: bit_simps)
    moreover have "Suc k < 32" using bit_imp_le_length [of msk "Suc k"] calculation(1) by simp
    ultimately show ?thesis
      using k(2) 1 True by (intro exI [of _ "Suc k"]) (simp add: shift_loop.simps [of msk n])
  qed
qed

lemma number_of_bits_to_shift_field:
  assumes "0 < w" "k + w \<le> 32"
  shows "number_of_bits_to_shift (push_bit k (mask w)) = k"
proof -
  let ?m = "push_bit k (mask w) :: u32"
  have bit: "bit ?m i \<longleftrightarrow> k \<le> i \<and> i < k + w" for i
    using assms by (auto simp: bit_simps)
  then have "?m \<noteq> 0" using assms(1) by (metis bit_0_eq bot_apply le_refl less_add_same_cancel1 bot_bool_def)
  from shift_loop_spec [OF this, of 0] obtain j where
    "shift_loop ?m 0 = j" "bit ?m j" "\<forall>i < j. \<not> bit ?m i" by auto
  moreover from this have "j = k"
    using bit [of j] bit [of k] assms(1) by (metis le_refl less_add_same_cancel1 nat_less_le not_le)
  ultimately show ?thesis
    using \<open>?m \<noteq> 0\<close> by (simp add: number_of_bits_to_shift_def)
qed

lemma level_state_field:
  assumes "0 < w" "k + w \<le> 32"
  shows "level_state (push_bit k (mask w)) cs = take_bit w (drop_bit k cs)"
proof (rule bit_eqI)
  fix i assume "possible_bit TYPE(32 word) i"
  then show "bit (level_state (push_bit k (mask w)) cs) i = bit (take_bit w (drop_bit k cs)) i"
    using assms by (auto simp: level_state_def number_of_bits_to_shift_field [OF assms] bit_simps)
qed

section \<open>What a valid composite state is\<close>

fun ancestor :: "pd_ctx list \<Rightarrow> nat \<Rightarrow> nat \<Rightarrow> nat option" where
  "ancestor tbl p 0 = Some p"
| "ancestor tbl p (Suc n) = do { pd \<leftarrow> pd_at tbl p; q \<leftarrow> pd_parent pd; ancestor tbl q n }"

text \<open>The domain at level \<open>i\<close> above \<open>p\<close> exists, the state the composite state gives it is one of its
  states, and the domain one level below (for level 0 the given one, if any) allows that state of its
  parent in the state it is itself given.\<close>

definition level_below ::
  "pd_ctx list \<Rightarrow> nat \<Rightarrow> (pd_ctx \<times> u32) option \<Rightarrow> u32 list \<Rightarrow> u32 \<Rightarrow> nat \<Rightarrow> (pd_ctx \<times> u32) option" where
  "level_below tbl p child masks cs i = (case i of 0 \<Rightarrow> child | Suc j \<Rightarrow> do {
    r \<leftarrow> ancestor tbl p j; c \<leftarrow> pd_at tbl r; Some (c, level_state (masks ! j) cs) })"

definition level_ok :: "pd_ctx list \<Rightarrow> nat \<Rightarrow> (pd_ctx \<times> u32) option \<Rightarrow> u32 list \<Rightarrow> u32 \<Rightarrow> nat \<Rightarrow> bool" where
  "level_ok tbl p child masks cs i \<longleftrightarrow> (\<exists>q pd. ancestor tbl p i = Some q \<and> pd_at tbl q = Some pd \<and>
    is_valid_state pd (level_state (masks ! i) cs) \<and>
    (case level_below tbl p child masks cs i of None \<Rightarrow> True
     | Some (c, child_state) \<Rightarrow> is_allowed_by_child c (level_state (masks ! i) cs) child_state))"

lemma level_ok_Suc:
  assumes "pd_at tbl p = Some pd"
  shows "level_ok tbl p child (msk # masks) cs (Suc i) \<longleftrightarrow>
    (\<exists>q. pd_parent pd = Some q \<and> level_ok tbl q (Some (pd, level_state msk cs)) masks cs i)"
  using assms by (cases i; cases "pd_parent pd") (simp_all add: level_ok_def level_below_def cong: option.case_cong prod.case_cong)

lemma level_ok_0:
  "level_ok tbl p child (msk # masks) cs 0 \<longleftrightarrow> (\<exists>pd. pd_at tbl p = Some pd \<and>
    is_valid_state pd (level_state msk cs) \<and> (case child of None \<Rightarrow> True
     | Some (c, child_state) \<Rightarrow> is_allowed_by_child c (level_state msk cs) child_state))"
  by (simp add: level_ok_def level_below_def cong: option.case_cong prod.case_cong)

lemma valid_levels_iff:
  "valid_levels tbl masks cs (Some p) child = Some True \<longleftrightarrow>
    (\<forall>i < length masks. level_ok tbl p child masks cs i)"
proof (induction masks arbitrary: p child)
  case (Cons msk masks)
  have split: "(\<forall>i < length (msk # masks). level_ok tbl p child (msk # masks) cs i) \<longleftrightarrow>
    level_ok tbl p child (msk # masks) cs 0 \<and>
    (\<forall>i < length masks. level_ok tbl p child (msk # masks) cs (Suc i))"
    by (simp add: All_less_Suc2)
  show ?case
  proof (cases "pd_at tbl p")
    case None
    then have "\<not> level_ok tbl p child (msk # masks) cs 0" by (simp add: level_ok_0)
    with None show ?thesis by auto
  next
    case (Some pd)
    have "valid_levels tbl masks cs (pd_parent pd) (Some (pd, level_state msk cs)) = Some True \<longleftrightarrow>
      (\<forall>i < length masks. level_ok tbl p child (msk # masks) cs (Suc i))"
    proof (cases "pd_parent pd")
      case None
      then show ?thesis by (cases masks) (auto simp: level_ok_Suc [OF Some])
    next
      case (Some q)
      then show ?thesis using Cons.IH [of q] by (simp add: level_ok_Suc [OF \<open>pd_at tbl p = Some pd\<close>])
    qed
    moreover have "valid_levels tbl (msk # masks) cs (Some p) child = Some True \<longleftrightarrow>
      level_ok tbl p child (msk # masks) cs 0 \<and>
      valid_levels tbl masks cs (pd_parent pd) (Some (pd, level_state msk cs)) = Some True"
      using Some by (cases child) (auto simp: Let_def level_ok_0 split: prod.splits)
    ultimately show ?thesis by (simp only: split)
  qed
qed simp


section \<open>Properties\<close>

text \<open>The order of the power states. On the states below \<open>MOD_PD_STATE_COUNT_MAX\<close>, exactly one of
  "deeper", "shallower" and "equal" holds of two states, each is the converse of the other, "deeper"
  is transitive, and \<open>MOD_PD_STATE_OFF\<close> is deeper than every other state.\<close>

theorem state_order:
  assumes "s < MOD_PD_STATE_COUNT_MAX" "t < MOD_PD_STATE_COUNT_MAX"
  shows "(if s = t then \<not> is_deeper_state s t \<and> \<not> is_shallower_state s t
      else is_deeper_state s t \<noteq> is_shallower_state s t) \<and>
    is_deeper_state s t = is_shallower_state t s \<and>
    (s \<noteq> MOD_PD_STATE_OFF \<longrightarrow> is_deeper_state MOD_PD_STATE_OFF s) \<and>
    (is_deeper_state s t \<and> is_deeper_state t r \<longrightarrow> is_deeper_state s r)"
  using normalize_state_inj [OF assms] off_is_deepest [OF assms(1)]
    linorder_less_linear [of "normalize_state s" "normalize_state t"]
  by (auto simp: is_deeper_state_def is_shallower_state_def)

theorem state_order_witness:
  "is_deeper_state MOD_PD_STATE_OFF MOD_PD_STATE_SLEEP \<and> is_deeper_state MOD_PD_STATE_OFF_0 MOD_PD_STATE_SLEEP"
proof -
  have "is_deeper_state MOD_PD_STATE_OFF_0 MOD_PD_STATE_SLEEP" by code_simp
  then show ?thesis
    using state_order [of MOD_PD_STATE_SLEEP MOD_PD_STATE_OFF] by (simp add: MOD_PD_STATE_COUNT_MAX_def)
qed

text \<open>C6. Which composite states are accepted. For a domain that supports composite states,
  \<open>is_valid_composite_state\<close> returns true exactly when the highest level named by the composite
  state has an entry in the mask table and, at every level up to it, the ancestor exists, the state
  its mask selects is one of the ancestor's valid states and is allowed, as a parent state, by the
  domain one level below in the state selected for that one.\<close>

theorem composite_state_valid_iff:
  assumes "pd_at tbl p = Some pd" "pd_cs_support pd"
    and "get_highest_level_from_composite_state tbl p cs = Some highest"
  shows "is_valid_composite_state tbl p cs = Some True \<longleftrightarrow>
    (let h = unat (word_of_int highest :: u32) in h < length (pd_composite_state_mask_table pd) \<and>
      (\<forall>i \<le> h. level_ok tbl p None (pd_composite_state_mask_table pd) cs i))"
proof -
  have "level_ok tbl p None (take (Suc h) masks) cs i = level_ok tbl p None masks cs i" if "i \<le> h" for h masks i
    using that by (cases i) (simp_all add: level_ok_def level_below_def cong: option.case_cong prod.case_cong)
  then show ?thesis
    using assms by (auto simp: is_valid_composite_state_def valid_levels_iff Let_def less_Suc_eq_le)
qed

text \<open>A system domain, a cluster in it and a core in the cluster: a domain must be OFF when its parent
  is.\<close>

definition pd_config0 :: "mod_pd_type \<Rightarrow> u32 \<Rightarrow> mod_power_domain_element_config" where
  "pd_config0 type parent = \<lparr>pc_parent_idx = parent, pc_driver_id = FWK_ID_ELEMENT 1 0, pc_api_id = FWK_ID_API 1 0,
    pc_pd_type = type, pc_allowed_state_mask_table = [1, 3], pc_composite_state_levels_mask = 0,
    pc_composite_state_mask_table = [], pc_disable_state_transition_notifications = False,
    pc_pd_state_mapping_table = None\<rparr>"

definition pd0 :: "mod_pd_type \<Rightarrow> u32 \<Rightarrow> bool \<Rightarrow> nat option \<Rightarrow> nat list \<Rightarrow> nat \<Rightarrow> u32 \<Rightarrow> pd_ctx" where
  "pd0 type parent cs par children i state = pd_ctx_zero\<lparr>pd_id := FWK_ID_ELEMENT 0 (of_nat i),
    pd_driver_api := 1, pd_driver_id := FWK_ID_ELEMENT 1 0,
    pd_config := pd_config0 type parent, pd_valid_state_mask := 3, pd_allowed_state_mask_table := [1, 3],
    pd_cs_support := cs, pd_composite_state_mask_table := (if cs then core_composite_state_mask_table else []),
    pd_composite_state_levels_mask := (if cs then push_bit MOD_PD_CS_LEVEL_SHIFT MOD_PD_CS_STATE_MASK else 0),
    pd_parent := par, pd_children := children, pd_requested_state := state,
    pd_state_requested_to_driver := state, pd_current_state := state, pd_driver_state := state\<rparr>"

definition tree0 :: "pd_ctx list" where
  "tree0 = [pd0 MOD_PD_TYPE_CORE 1 True (Some 1) [] 0 MOD_PD_STATE_OFF,
    pd0 MOD_PD_TYPE_CLUSTER 2 False (Some 2) [0] 1 MOD_PD_STATE_OFF,
    pd0 MOD_PD_TYPE_SYSTEM 3 False None [1] 2 MOD_PD_STATE_ON]"

theorem composite_state_valid_iff_witness:
  "is_valid_composite_state tree0 0 0x20111 = Some True \<and> level_ok tree0 0 None core_composite_state_mask_table 0x20111 2"
proof -
  have "get_highest_level_from_composite_state tree0 0 0x20111 = Some 2"
    "is_valid_composite_state tree0 0 0x20111 = Some True" by code_simp+
  moreover have "pd_at tree0 0 = Some (pd0 MOD_PD_TYPE_CORE 1 True (Some 1) [] 0 MOD_PD_STATE_OFF)"
    by (simp add: pd_at_def tree0_def)
  ultimately show ?thesis
    using composite_state_valid_iff [of tree0 0 _ "0x20111" 2] by (simp add: pd0_def Let_def)
qed

definition MOD_PD_COMPOSITE_STATE :: "u32 \<Rightarrow> u32 \<Rightarrow> u32 \<Rightarrow> u32 \<Rightarrow> u32 \<Rightarrow> u32" where
  "MOD_PD_COMPOSITE_STATE highest l3 l2 l1 l0 =
    push_bit MOD_PD_CS_LEVEL_SHIFT highest OR push_bit (3 * 4) l3 OR push_bit (2 * 4) l2
      OR push_bit (1 * 4) l1 OR push_bit (0 * 4) l0"

lemma nibble_bits:
  assumes "(w :: u32) < 16" "bit w n"
  shows "n < 4"
proof -
  have "take_bit 4 w = w"
    using assms(1) by (simp add: take_bit_id_iff word_less_nat_alt)
  then show ?thesis using assms(2) by (metis bit_take_bit_iff)
qed

lemma core_level_state:
  "i < 4 \<Longrightarrow> level_state (core_composite_state_mask_table ! i) cs = take_bit 4 (drop_bit (i * 4) cs)"
  "level_state (push_bit MOD_PD_CS_LEVEL_SHIFT MOD_PD_CS_STATE_MASK) cs = take_bit 4 (drop_bit 16 cs)"
proof -
  have "(MOD_PD_CS_STATE_MASK :: u32) = mask 4" by (simp add: MOD_PD_CS_STATE_MASK_def mask_eq_exp_minus_1 push_bit_eq_mult)
  moreover assume "i < 4"
  then have "i \<in> {0, 1, 2, 3}" by auto
  ultimately show "level_state (core_composite_state_mask_table ! i) cs = take_bit 4 (drop_bit (i * 4) cs)"
    using level_state_field [of 4 "i * 4" cs] \<open>i < 4\<close>
    by (auto simp: core_composite_state_mask_table_def)
next
  show "level_state (push_bit MOD_PD_CS_LEVEL_SHIFT MOD_PD_CS_STATE_MASK) cs = take_bit 4 (drop_bit 16 cs)"
    using level_state_field [of 4 16 cs]
    by (simp add: MOD_PD_CS_STATE_MASK_def MOD_PD_CS_LEVEL_SHIFT_def mask_eq_exp_minus_1 push_bit_eq_mult)
qed

text \<open>The level of a composite state. With the masks a core domain gets by default, level \<open>i < 4\<close>
  of a composite state is its nibble \<open>i\<close> and the highest level is its nibble 4; composing states
  below 16 and a highest level below 16 with the shifts of \<open>mod_power_domain.h\<close> gives them back.\<close>

theorem composite_state_levels:
  assumes "l0 < 16" "l1 < 16" "l2 < 16" "l3 < 16" "highest < 16"
    and "cs = MOD_PD_COMPOSITE_STATE highest l3 l2 l1 l0"
  shows "get_level_state_from_composite_state core_composite_state_mask_table cs 0 = Some l0 \<and>
    get_level_state_from_composite_state core_composite_state_mask_table cs 1 = Some l1 \<and>
    get_level_state_from_composite_state core_composite_state_mask_table cs 2 = Some l2 \<and>
    get_level_state_from_composite_state core_composite_state_mask_table cs 3 = Some l3 \<and>
    level_state (push_bit MOD_PD_CS_LEVEL_SHIFT MOD_PD_CS_STATE_MASK) cs = highest"
proof -
  note nb = assms(1-5) [THEN nibble_bits]
  have cs: "bit cs n \<longleftrightarrow> n < 32 \<and> (bit l0 n \<or> 4 \<le> n \<and> bit l1 (n - 4) \<or> 8 \<le> n \<and> bit l2 (n - 8) \<or>
      12 \<le> n \<and> bit l3 (n - 12) \<or> 16 \<le> n \<and> bit highest (n - 16))" for n
    by (auto simp: assms(6) MOD_PD_COMPOSITE_STATE_def MOD_PD_CS_LEVEL_SHIFT_def bit_simps dest: bit_imp_le_length)
  have field: "take_bit 4 (drop_bit k cs) = w"
    if "\<And>n. n < 4 \<Longrightarrow> bit cs (k + n) = bit w n" "w < 16" for k w
    using that(1) nibble_bits [OF that(2)] by (intro bit_eqI) (auto simp: bit_simps)
  have "take_bit 4 (drop_bit 0 cs) = l0" by (rule field) (use assms(1) in \<open>auto simp: cs\<close>)
  moreover have "take_bit 4 (drop_bit 4 cs) = l1" by (rule field) (use assms(2) in \<open>auto simp: cs dest: nb\<close>)
  moreover have "take_bit 4 (drop_bit 8 cs) = l2" by (rule field) (use assms(3) in \<open>auto simp: cs dest: nb\<close>)
  moreover have "take_bit 4 (drop_bit 12 cs) = l3" by (rule field) (use assms(4) in \<open>auto simp: cs dest: nb\<close>)
  moreover have "take_bit 4 (drop_bit 16 cs) = highest" by (rule field) (use assms(5) in \<open>auto simp: cs dest: nb\<close>)
  moreover have "get_level_state_from_composite_state core_composite_state_mask_table cs i =
      Some (take_bit 4 (drop_bit (i * 4) cs))" if "i < 4" for i
    using core_level_state(1) [OF that] that
    by (simp add: get_level_state_from_composite_state_def core_composite_state_mask_table_def)
  ultimately show ?thesis
    using core_level_state(2) by simp
qed

theorem composite_state_levels_witness:
  "MOD_PD_COMPOSITE_STATE 2 0 1 1 1 = 0x20111 \<and>
    get_level_state_from_composite_state core_composite_state_mask_table 0x20111 2 = Some 1"
proof -
  have "MOD_PD_COMPOSITE_STATE 2 0 1 1 1 = 0x20111" by code_simp
  then show ?thesis using composite_state_levels [of 1 1 1 0 2 "0x20111"] by simp
qed

end
