(* ===== verification/Pd_Core.thy ===== *)
theory Pd_Core
  imports Pd_States Fwk_Lifecycle
begin

unbundle bit_operations_syntax

text \<open>
  The power domain module at run time (\<open>mod_power_domain.c\<close>): its state, the transition of a domain,
  the notifications it sends (\<open>power_domain_notifications.c\<close>) and the processing of its events. The
  driver of a domain is a record of functions on the whole state, found through the address in
  \<open>driver_api\<close>; calling a NULL function or reading a context through NULL is \<open>None\<close>. Log messages are
  left out.
\<close>

section \<open>State\<close>

record system_suspend_ctx =
  sus_last_core_off_ongoing :: bool
  sus_suspend_ongoing :: bool
  sus_last_core_pd :: "nat option"
  sus_state :: u32

text \<open>\<open>response_event\<close> points to the response the caller of the handler holds; the event is an argument
  of the functions that run while it exists, and using it later is \<open>None\<close>.\<close>

record system_shutdown_ctx =
  sd_ongoing :: bool
  sd_notifications_count :: nat
  sd_system_shutdown :: u32
  sd_is_response_requested :: bool
  sd_is_delayed_response :: bool
  sd_cookie :: u32

abbreviation MOD_PD_SYSTEM_SHUTDOWN :: u32 where "MOD_PD_SYSTEM_SHUTDOWN \<equiv> 0"
abbreviation MOD_PD_SYSTEM_COLD_RESET :: u32 where "MOD_PD_SYSTEM_COLD_RESET \<equiv> 1"
abbreviation MOD_PD_SYSTEM_WARM_RESET :: u32 where "MOD_PD_SYSTEM_WARM_RESET \<equiv> 2"

text \<open>\<open>struct mod_pd_mod_ctx\<close>; \<open>pd_count\<close> is the length of the table.\<close>

record pd_state = fwk_state +
  pdm_config :: mod_power_domain_config
  pd_ctx_table :: "pd_ctx list"
  system_pd_ctx :: nat
  system_suspend :: system_suspend_ctx
  system_shutdown :: system_shutdown_ctx
  suspend_notifications_count :: nat

record 's mod_pd_driver_api =
  drv_set_state :: "(fwk_id \<Rightarrow> u32 \<Rightarrow> 's \<Rightarrow> (fwk_status \<times> 's) option) option"
  drv_get_state :: "(fwk_id \<Rightarrow> 's \<Rightarrow> ((fwk_status \<times> u32) \<times> 's) option) option"
  drv_reset :: "(fwk_id \<Rightarrow> 's \<Rightarrow> (fwk_status \<times> 's) option) option"
  drv_prepare_core_for_system_suspend :: "(fwk_id \<Rightarrow> 's \<Rightarrow> (fwk_status \<times> 's) option) option"
  drv_deny :: "(fwk_id \<Rightarrow> u32 \<Rightarrow> 's \<Rightarrow> (bool \<times> 's) option) option"
  drv_shutdown :: "(fwk_id \<Rightarrow> u32 \<Rightarrow> 's \<Rightarrow> (fwk_status \<times> 's) option) option"

text \<open>What the build gives the module: its index, whether notifications are built in, the
  configuration tables and driver interfaces by address, and the addresses of its own interfaces.\<close>

record 's pd_env =
  env_idx :: u32
  env_has_notification :: bool
  env_module_config :: "addr \<Rightarrow> mod_power_domain_config"
  env_element_config :: "addr \<Rightarrow> mod_power_domain_element_config"
  env_driver :: "addr \<Rightarrow> 's mod_pd_driver_api"
  env_public_api :: addr
  env_restricted_api :: addr
  env_driver_input_api :: addr

definition get_pd :: "nat \<Rightarrow> 'a pd_state_scheme \<Rightarrow> pd_ctx option" where
  "get_pd p s = pd_at (pd_ctx_table s) p"

definition upd_pd :: "nat \<Rightarrow> (pd_ctx \<Rightarrow> pd_ctx) \<Rightarrow> 'a pd_state_scheme \<Rightarrow> 'a pd_state_scheme" where
  "upd_pd p f s = s\<lparr>pd_ctx_table := (pd_ctx_table s)[p := f (pd_ctx_table s ! p)]\<rparr>"

definition driver_of :: "'s pd_env \<Rightarrow> pd_ctx \<Rightarrow> 's mod_pd_driver_api option" where
  "driver_of env pd = (if pd_driver_api pd = NULL then None else Some (env_driver env (pd_driver_api pd)))"

definition status_word :: "fwk_status \<Rightarrow> u32" where
  "status_word status = word_of_int status"

section \<open>Identifiers\<close>

abbreviation PD_EVENT_IDX_SET_STATE :: u32 where "PD_EVENT_IDX_SET_STATE \<equiv> 0"
abbreviation PD_EVENT_IDX_RESET :: u32 where "PD_EVENT_IDX_RESET \<equiv> 1"
abbreviation PD_EVENT_IDX_REPORT_POWER_STATE_TRANSITION :: u32 where
  "PD_EVENT_IDX_REPORT_POWER_STATE_TRANSITION \<equiv> 2"
abbreviation PD_EVENT_IDX_SYSTEM_SUSPEND :: u32 where "PD_EVENT_IDX_SYSTEM_SUSPEND \<equiv> 3"
abbreviation PD_EVENT_IDX_SYSTEM_SHUTDOWN :: u32 where "PD_EVENT_IDX_SYSTEM_SHUTDOWN \<equiv> 4"

definition mod_pd_notification_id :: "'s pd_env \<Rightarrow> u32 \<Rightarrow> fwk_id" where
  "mod_pd_notification_id env i = FWK_ID_NOTIFICATION (env_idx env) i"

abbreviation MOD_PD_NOTIFICATION_IDX_POWER_STATE_TRANSITION :: u32 where
  "MOD_PD_NOTIFICATION_IDX_POWER_STATE_TRANSITION \<equiv> 0"
abbreviation MOD_PD_NOTIFICATION_IDX_POWER_DOMAIN_SYSTEM_SUSPEND :: u32 where
  "MOD_PD_NOTIFICATION_IDX_POWER_DOMAIN_SYSTEM_SUSPEND \<equiv> 1"
abbreviation MOD_PD_NOTIFICATION_IDX_POWER_STATE_PRE_TRANSITION :: u32 where
  "MOD_PD_NOTIFICATION_IDX_POWER_STATE_PRE_TRANSITION \<equiv> 2"
abbreviation MOD_PD_NOTIFICATION_IDX_PRE_SHUTDOWN :: u32 where
  "MOD_PD_NOTIFICATION_IDX_PRE_SHUTDOWN \<equiv> 3"
abbreviation MOD_PD_NOTIFICATION_IDX_PRE_WARM_RESET :: u32 where
  "MOD_PD_NOTIFICATION_IDX_PRE_WARM_RESET \<equiv> 4"

section \<open>The tree\<close>

text \<open>The body of the loop of \<open>connect_pd_tree\<close>.\<close>

definition connect_pd :: "nat \<Rightarrow> 'a pd_state_scheme \<Rightarrow> 'a pd_state_scheme option" where
  "connect_pd i s = do {
    pd \<leftarrow> get_pd i s;
    let parent = unat (pc_parent_idx (pd_config pd));
    if parent \<ge> length (pd_ctx_table s) then Some (upd_pd i (\<lambda>pd. pd\<lparr>pd_parent := None\<rparr>) s)
    else do {
      let s = upd_pd i (\<lambda>pd. pd\<lparr>pd_parent := Some parent\<rparr>) s;
      Some (upd_pd parent (\<lambda>pd. pd\<lparr>pd_children := pd_children pd @ [i]\<rparr>) s) } }"

definition connect_pd_tree :: "'a pd_state_scheme \<Rightarrow> (fwk_status \<times> 'a pd_state_scheme) option" where
  "connect_pd_tree s = do {
    s \<leftarrow> for_each connect_pd [0..<length (pd_ctx_table s)] s;
    Some (FWK_SUCCESS, s) }"

section \<open>Transition of a domain\<close>

text \<open>\<open>deny\<close> may be NULL.\<close>

definition driver_denies ::
  "'a pd_state_scheme mod_pd_driver_api \<Rightarrow> fwk_id \<Rightarrow> u32 \<Rightarrow> 'a pd_state_scheme
    \<Rightarrow> (bool \<times> 'a pd_state_scheme) option" where
  "driver_denies api i state s =
    (case drv_deny api of None \<Rightarrow> Some (False, s) | Some deny \<Rightarrow> deny i state s)"

definition initiate_power_state_transition ::
  "'a pd_state_scheme pd_env \<Rightarrow> nat \<Rightarrow> 'a pd_state_scheme \<Rightarrow> (fwk_status \<times> 'a pd_state_scheme) option" where
  "initiate_power_state_transition env p s = do {
    pd \<leftarrow> get_pd p s;
    let state = pd_requested_state pd;
    api \<leftarrow> driver_of env pd;
    (denied, s) \<leftarrow> driver_denies api (pd_driver_id pd) state s;
    if denied then Some (FWK_E_DEVICE, s)
    else do {
      mapped_state \<leftarrow> retrieve_mapped_state pd state;
      set_state \<leftarrow> drv_set_state api;
      (status, s) \<leftarrow> set_state (pd_driver_id pd) mapped_state s;
      Some (status, (if status = FWK_SUCCESS
        then upd_pd p (\<lambda>pd. pd\<lparr>pd_driver_state := mapped_state, pd_state_requested_to_driver := state\<rparr>) s
        else s)) } }"

text \<open>The request's parameters are at offset 0 of the stored event, the response's status and
  composite state at offsets 0 and 4. What the event holds before the call is overwritten or never
  used.\<close>

definition send_pd_set_state_delayed_response ::
  "nat \<Rightarrow> fwk_status \<Rightarrow> 'a pd_state_scheme \<Rightarrow> 'a pd_state_scheme option" where
  "send_pd_set_state_delayed_response p resp_status s = do {
    pd \<leftarrow> get_pd p s;
    if \<not> rc_pending (pd_response pd) then Some s
    else do {
      (status, resp_event) \<leftarrow>
        fwk_get_delayed_response (pd_id pd) (rc_cookie (pd_response pd)) (Some event_zero) s;
      let s = upd_pd p (\<lambda>pd. pd\<lparr>pd_response := (pd_response pd)\<lparr>rc_pending := False\<rparr>\<rparr>) s;
      if status \<noteq> FWK_SUCCESS then Some s
      else do {
        resp \<leftarrow> resp_event;
        let params = params_put32 4 (params_get32 0 (ev_params resp)) (ev_params resp);
        (_, s) \<leftarrow> fwk_put_event (Some (resp\<lparr>ev_params := params_put32 0 (status_word resp_status) params\<rparr>)) s;
        Some s } } }"

section \<open>Notifications\<close>

text \<open>Sends an event and gives back what the counter passed by address holds after it.\<close>

definition notify_counting ::
  "fwk_event \<Rightarrow> nat \<Rightarrow> 'a fwk_state_scheme \<Rightarrow> ((fwk_status \<times> nat) \<times> 'a fwk_state_scheme) option" where
  "notify_counting event n s = do {
    ((status, _, m), s) \<leftarrow> fwk_notification_notify (Some event) (Some n) s;
    m \<leftarrow> m;
    Some ((status, m), s) }"

definition check_power_state_pre_transition_notification :: "pd_ctx \<Rightarrow> u32 \<Rightarrow> bool" where
  "check_power_state_pre_transition_notification pd state =
    (let ctx = pd_pre_transition_notification pd in
     if state = pn_state ctx \<and> pn_valid ctx then pn_response_status ctx \<noteq> FWK_SUCCESS else True)"

definition initiate_power_state_pre_transition_notification ::
  "'a pd_state_scheme pd_env \<Rightarrow> nat \<Rightarrow> 'a pd_state_scheme \<Rightarrow> (bool \<times> 'a pd_state_scheme) option" where
  "initiate_power_state_pre_transition_notification env p s = do {
    pd \<leftarrow> get_pd p s;
    if pc_disable_state_transition_notifications (pd_config pd) then Some (False, s)
    else do {
      let state = pd_requested_state pd;
      if \<not> check_power_state_pre_transition_notification pd state then Some (False, s)
      else if pn_pending_responses (pd_pre_transition_notification pd) \<noteq> 0 then Some (True, s)
      else do {
        let event = event_zero\<lparr>
          ev_id := mod_pd_notification_id env MOD_PD_NOTIFICATION_IDX_POWER_STATE_PRE_TRANSITION,
          ev_response_requested := True, ev_source_id := pd_id pd,
          ev_params := params_put32 4 state (params_put32 0 (pd_current_state pd) params_zero)\<rparr>;
        ((_, n), s) \<leftarrow> notify_counting event (pn_pending_responses (pd_pre_transition_notification pd)) s;
        let s = upd_pd p (\<lambda>pd. pd\<lparr>pd_pre_transition_notification :=
          \<lparr>pn_pending_responses = n, pn_state = state, pn_response_status = FWK_SUCCESS, pn_valid = True\<rparr>\<rparr>) s;
        Some (n \<noteq> 0, s) } } }"

definition power_state_pre_transition_notification_wrapper ::
  "'a pd_state_scheme pd_env \<Rightarrow> nat \<Rightarrow> 'a pd_state_scheme \<Rightarrow> (bool \<times> 'a pd_state_scheme) option" where
  "power_state_pre_transition_notification_wrapper env p s =
    (if env_has_notification env then initiate_power_state_pre_transition_notification env p s
     else Some (False, s))"

definition check_and_notify_system_shutdown ::
  "'a pd_state_scheme pd_env \<Rightarrow> u32 \<Rightarrow> 'a pd_state_scheme \<Rightarrow> (bool \<times> 'a pd_state_scheme) option" where
  "check_and_notify_system_shutdown env shutdown s = do {
    let event = event_zero\<lparr>ev_id := mod_pd_notification_id env MOD_PD_NOTIFICATION_IDX_PRE_SHUTDOWN,
      ev_source_id := FWK_ID_MODULE (env_idx env), ev_response_requested := True,
      ev_params := params_put32 0 shutdown params_zero\<rparr>;
    ((_, n), s) \<leftarrow> notify_counting event (sd_notifications_count (system_shutdown s)) s;
    Some (n \<noteq> 0, s\<lparr>system_shutdown := (system_shutdown s)\<lparr>sd_notifications_count := n\<rparr>\<rparr>) }"

definition notify_system_shutdown_wrapper ::
  "'a pd_state_scheme pd_env \<Rightarrow> u32 \<Rightarrow> 'a pd_state_scheme \<Rightarrow> (bool \<times> 'a pd_state_scheme) option" where
  "notify_system_shutdown_wrapper env shutdown s =
    (if env_has_notification env then check_and_notify_system_shutdown env shutdown s else Some (False, s))"

text \<open>The counter is a local that is never read.\<close>

definition notify_warm_reset ::
  "'a pd_state_scheme pd_env \<Rightarrow> 'a pd_state_scheme \<Rightarrow> (fwk_status \<times> 'a pd_state_scheme) option" where
  "notify_warm_reset env s = do {
    ((status, _), s) \<leftarrow> notify_counting (event_zero\<lparr>
      ev_id := mod_pd_notification_id env MOD_PD_NOTIFICATION_IDX_PRE_WARM_RESET,
      ev_source_id := FWK_ID_MODULE (env_idx env)\<rparr>) 0 s;
    Some (status, s) }"

definition warm_reset_notification_wrapper ::
  "'a pd_state_scheme pd_env \<Rightarrow> 'a pd_state_scheme \<Rightarrow> (fwk_status \<times> 'a pd_state_scheme) option" where
  "warm_reset_notification_wrapper env s =
    (if env_has_notification env then notify_warm_reset env s else Some (FWK_SUCCESS, s))"

section \<open>Set state requests\<close>

text \<open>The locals of \<open>process_set_state_request\<close> its loop writes.\<close>

record set_state_locals =
  sl_pd :: "nat option"
  sl_status :: fwk_status
  sl_in_charge :: "nat option"
  sl_initiated :: bool

text \<open>The body of the loop once the domain \<open>p\<close> and the \<open>state\<close> requested for it are known; the result
  says whether the loop is left. A \<open>continue\<close> leaves the locals as they are.\<close>

definition set_state_domain ::
  "'a pd_state_scheme pd_env \<Rightarrow> nat \<Rightarrow> u32 \<Rightarrow> set_state_locals \<Rightarrow> 'a pd_state_scheme
    \<Rightarrow> ((bool \<times> set_state_locals) \<times> 'a pd_state_scheme) option" where
  "set_state_domain env p state l s = do {
    pd \<leftarrow> get_pd p s;
    if state = pd_requested_state pd then Some ((False, l), s)
    else do {
      allowed \<leftarrow> (case pd_parent pd of None \<Rightarrow> Some True
                 | Some q \<Rightarrow> do { parent \<leftarrow> get_pd q s;
                     Some (is_allowed_by_child pd (pd_requested_state parent) state) });
      if \<not> allowed then Some ((True, l\<lparr>sl_status := FWK_E_PWRSTATE\<rparr>), s)
      else if \<not> is_allowed_by_children (pd_ctx_table s) pd state then Some ((False, l), s)
      else do {
        let prev_state = pd_requested_state pd;
        let s = upd_pd p (\<lambda>pd. pd\<lparr>pd_requested_state := state, pd_pre_transition_notification :=
          (pd_pre_transition_notification pd)\<lparr>pn_valid := False\<rparr>\<rparr>) s;
        s \<leftarrow> send_pd_set_state_delayed_response p FWK_E_OVERWRITTEN s;
        pd \<leftarrow> get_pd p s;
        if pd_state_requested_to_driver pd = state then Some ((False, l), s)
        else do {
          let l = l\<lparr>sl_in_charge := Some p\<rparr>;
          if sl_initiated l then Some ((False, l), s)
          else if \<not> is_allowed_by_parent_and_children (pd_ctx_table s) pd state then Some ((False, l), s)
          else do {
            (wait, s) \<leftarrow> power_state_pre_transition_notification_wrapper env p s;
            if wait then Some ((False, l), s)
            else do {
              (status, s) \<leftarrow> initiate_power_state_transition env p s;
              if status \<noteq> FWK_SUCCESS then
                Some ((True, l\<lparr>sl_status := status, sl_in_charge := None\<rparr>),
                  upd_pd p (\<lambda>pd. pd\<lparr>pd_requested_state := prev_state\<rparr>) s)
              else Some ((False, l\<lparr>sl_status := status, sl_initiated := True\<rparr>), s) } } } } } }"

text \<open>The loop over \<open>pd_index\<close>. Upwards the domain is the one the previous turn left (its parent);
  downwards it is found again from the lowest domain.\<close>

fun set_state_loop ::
  "'a pd_state_scheme pd_env \<Rightarrow> nat \<Rightarrow> bool \<Rightarrow> u32 list option \<Rightarrow> u32 \<Rightarrow> nat \<Rightarrow> nat list
    \<Rightarrow> set_state_locals \<Rightarrow> 'a pd_state_scheme \<Rightarrow> (set_state_locals \<times> 'a pd_state_scheme) option" where
  "set_state_loop env lowest_pd up table composite_state highest_level [] l s = Some (l, s)"
| "set_state_loop env lowest_pd up table composite_state highest_level (pd_index # rest) l s = do {
    let level = (if up then pd_index else highest_level - pd_index);
    p \<leftarrow> (if up then sl_pd l else ancestor (pd_ctx_table s) lowest_pd level);
    state \<leftarrow> (case table of None \<Rightarrow> Some composite_state
             | Some t \<Rightarrow> get_level_state_from_composite_state t composite_state level);
    ((break, l), s) \<leftarrow> set_state_domain env p state (l\<lparr>sl_pd := Some p\<rparr>) s;
    if break then Some (l, s)
    else do {
      pd \<leftarrow> get_pd p s;
      set_state_loop env lowest_pd up table composite_state highest_level rest
        (l\<lparr>sl_pd := pd_parent pd\<rparr>) s } }"

definition process_set_state_request ::
  "'a pd_state_scheme pd_env \<Rightarrow> nat \<Rightarrow> fwk_event \<Rightarrow> fwk_event \<Rightarrow> 'a pd_state_scheme
    \<Rightarrow> (fwk_event \<times> 'a pd_state_scheme) option" where
  "process_set_state_request env lowest_pd event resp_event s = do {
    let s = s\<lparr>system_suspend := (system_suspend s)\<lparr>sus_last_core_off_ongoing := False\<rparr>\<rparr>;
    let composite_state = params_get32 0 (ev_params event);
    up \<leftarrow> is_upwards_transition_propagation (pd_ctx_table s) lowest_pd composite_state;
    highest \<leftarrow> get_highest_level_from_composite_state (pd_ctx_table s) lowest_pd composite_state;
    let highest_level = (word_of_int highest :: u32);
    let nb_pds = unat (highest_level + 1);
    pd \<leftarrow> get_pd lowest_pd s;
    let table = (if pd_cs_support pd then Some (pd_composite_state_mask_table pd) else None);
    (l, s) \<leftarrow> set_state_loop env lowest_pd up table composite_state (unat highest_level) [0..<nb_pds]
      \<lparr>sl_pd = Some lowest_pd, sl_status = FWK_SUCCESS, sl_in_charge = None, sl_initiated = False\<rparr> s;
    if \<not> ev_response_requested event then Some (resp_event, s)
    else (case sl_in_charge l of
        Some p \<Rightarrow> do {
          pd \<leftarrow> get_pd p s;
          Some (resp_event\<lparr>ev_is_delayed_response := True, ev_source_id := pd_id pd\<rparr>,
            upd_pd p (\<lambda>pd. pd\<lparr>pd_response := \<lparr>rc_pending = True, rc_cookie = ev_cookie resp_event\<rparr>\<rparr>) s) }
      | None \<Rightarrow> Some (resp_event\<lparr>ev_params := params_put32 4 composite_state
          (params_put32 0 (status_word (sl_status l)) (ev_params resp_event))\<rparr>, s)) }"

section \<open>Composite states of a branch\<close>

text \<open>The loop that walks from a domain to the root and puts each domain's value in the field of its
  level; \<open>process_get_state_request\<close> and \<open>complete_system_suspend\<close> run it with different values. The
  result is the composite state and the number of levels.\<close>

fun composite_loop :: "pd_ctx list \<Rightarrow> (pd_ctx \<Rightarrow> u32) \<Rightarrow> u32 list \<Rightarrow> nat \<Rightarrow> u32 \<Rightarrow> u32 \<Rightarrow> (u32 \<times> u32) option" where
  "composite_loop tbl f [] p composite_state level = None"
| "composite_loop tbl f (msk # masks) p composite_state level = do {
    pd \<leftarrow> pd_at tbl p;
    let composite_state = composite_state OR push_bit (number_of_bits_to_shift msk) (f pd);
    (case pd_parent pd of
        Some q \<Rightarrow> if masks \<noteq> [] then composite_loop tbl f masks q composite_state (level + 1)
                 else Some (composite_state, level + 1)
      | None \<Rightarrow> Some (composite_state, level + 1)) }"

definition process_get_state_request :: "nat \<Rightarrow> 'a pd_state_scheme \<Rightarrow> u32 option" where
  "process_get_state_request p s = do {
    base_pd \<leftarrow> get_pd p s;
    if \<not> pd_cs_support base_pd then Some (pd_current_state base_pd)
    else do {
      (composite_state, level) \<leftarrow> composite_loop (pd_ctx_table s) pd_current_state
        (pd_composite_state_mask_table base_pd) p 0 0;
      Some (if pd_composite_state_levels_mask base_pd \<noteq> 0
        then composite_state OR
          push_bit (number_of_bits_to_shift (pd_composite_state_levels_mask base_pd)) (level - 1)
        else composite_state) } }"

definition complete_system_suspend ::
  "'a pd_state_scheme pd_env \<Rightarrow> nat \<Rightarrow> 'a pd_state_scheme \<Rightarrow> (fwk_status \<times> 'a pd_state_scheme) option" where
  "complete_system_suspend env target_pd s = do {
    pd \<leftarrow> get_pd target_pd s;
    if \<not> pd_cs_support pd then Some (FWK_E_PARAM, s)
    else do {
      let s = s\<lparr>system_suspend := (system_suspend s)\<lparr>sus_suspend_ongoing := True\<rparr>\<rparr>;
      (composite_state, level) \<leftarrow> composite_loop (pd_ctx_table s)
        (\<lambda>pd. if pd_parent pd \<noteq> None then MOD_PD_STATE_OFF else sus_state (system_suspend s))
        (pd_composite_state_mask_table pd) target_pd 0 0;
      let composite_state = composite_state OR push_bit MOD_PD_CS_LEVEL_SHIFT (level - 1);
      (resp_event, s) \<leftarrow> process_set_state_request env target_pd
        (event_zero\<lparr>ev_params := params_put32 0 composite_state params_zero\<rparr>) event_zero s;
      Some (sint (params_get32 0 (ev_params resp_event)), s) } }"

section \<open>Reset\<close>

definition process_reset_request ::
  "'a pd_state_scheme pd_env \<Rightarrow> nat \<Rightarrow> 'a pd_state_scheme \<Rightarrow> (fwk_status \<times> 'a pd_state_scheme) option" where
  "process_reset_request env p s = do {
    pd \<leftarrow> get_pd p s;
    if pd_requested_state pd = MOD_PD_STATE_OFF then Some (FWK_E_PWRSTATE, s)
    else if \<exists>c \<in> set (pd_children pd). pd_requested_state (pd_ctx_table s ! c) \<noteq> MOD_PD_STATE_OFF \<or>
      pd_current_state (pd_ctx_table s ! c) \<noteq> MOD_PD_STATE_OFF
    then Some (FWK_E_PWRSTATE, s)
    else do {
      api \<leftarrow> driver_of env pd;
      reset \<leftarrow> drv_reset api;
      reset (pd_driver_id pd) s } }"

section \<open>Reports of a driver\<close>

definition process_power_state_transition_report_deeper_state ::
  "'a pd_state_scheme pd_env \<Rightarrow> nat \<Rightarrow> 'a pd_state_scheme \<Rightarrow> 'a pd_state_scheme option" where
  "process_power_state_transition_report_deeper_state env p s = do {
    pd \<leftarrow> get_pd p s;
    (case pd_parent pd of
        None \<Rightarrow> Some s
      | Some q \<Rightarrow> do {
          parent \<leftarrow> get_pd q s;
          let requested_state = pd_requested_state parent;
          if pd_state_requested_to_driver parent = requested_state then Some s
          else if \<not> is_allowed_by_parent_and_children (pd_ctx_table s) parent requested_state then Some s
          else do {
            (wait, s) \<leftarrow> power_state_pre_transition_notification_wrapper env q s;
            if wait then Some s
            else do { (_, s) \<leftarrow> initiate_power_state_transition env q s; Some s } } }) }"

fun shallower_children ::
  "'a pd_state_scheme pd_env \<Rightarrow> nat list \<Rightarrow> 'a pd_state_scheme \<Rightarrow> 'a pd_state_scheme option" where
  "shallower_children env [] s = Some s"
| "shallower_children env (c # cs) s = do {
    child \<leftarrow> get_pd c s;
    let requested_state = pd_requested_state child;
    if pd_state_requested_to_driver child = requested_state then shallower_children env cs s
    else if \<not> is_allowed_by_parent_and_children (pd_ctx_table s) child requested_state then Some s
    else do {
      (wait, s) \<leftarrow> power_state_pre_transition_notification_wrapper env c s;
      if wait then shallower_children env cs s
      else do {
        (_, s) \<leftarrow> initiate_power_state_transition env c s;
        shallower_children env cs s } } }"

definition process_power_state_transition_report_shallower_state ::
  "'a pd_state_scheme pd_env \<Rightarrow> nat \<Rightarrow> 'a pd_state_scheme \<Rightarrow> 'a pd_state_scheme option" where
  "process_power_state_transition_report_shallower_state env p s = do {
    pd \<leftarrow> get_pd p s;
    shallower_children env (pd_children pd) s }"

text \<open>The part of \<open>process_power_state_transition_report\<close> built with notifications: the notification of
  the transition, when none is pending and the domain has not disabled it.\<close>

definition notify_power_state_transition ::
  "'a pd_state_scheme pd_env \<Rightarrow> nat \<Rightarrow> u32 \<Rightarrow> 'a pd_state_scheme
    \<Rightarrow> ((fwk_status \<times> nat) \<times> 'a pd_state_scheme) option" where
  "notify_power_state_transition env p state s = do {
    pd \<leftarrow> get_pd p s;
    let s = upd_pd p (\<lambda>pd. pd\<lparr>pd_transition_notification :=
      (pd_transition_notification pd)\<lparr>tn_state := state\<rparr>\<rparr>) s;
    ((status, n), s) \<leftarrow> notify_counting (event_zero\<lparr>
      ev_id := mod_pd_notification_id env MOD_PD_NOTIFICATION_IDX_POWER_STATE_TRANSITION,
      ev_response_requested := True, ev_source_id := FWK_ID_NONE,
      ev_params := params_put32 0 state params_zero\<rparr>)
      (tn_pending_responses (pd_transition_notification pd)) s;
    Some ((status, n), upd_pd p (\<lambda>pd. pd\<lparr>pd_transition_notification :=
      (pd_transition_notification pd)\<lparr>tn_pending_responses := n\<rparr>\<rparr>) s) }"

text \<open>The last core has gone off: the suspend is completed, or notified when the platform asks for it.\<close>

definition last_core_off ::
  "'a pd_state_scheme pd_env \<Rightarrow> nat \<Rightarrow> 'a pd_state_scheme \<Rightarrow> 'a pd_state_scheme option" where
  "last_core_off env p s = do {
    let s = s\<lparr>system_suspend := (system_suspend s)\<lparr>sus_last_core_off_ongoing := False\<rparr>\<rparr>;
    if \<not> env_has_notification env \<or> \<not> enable_system_suspend_notification (pdm_config s) then do {
      (_, s) \<leftarrow> complete_system_suspend env p s; Some s }
    else do {
      ((_, n), s) \<leftarrow> notify_counting (event_zero\<lparr>
        ev_id := mod_pd_notification_id env MOD_PD_NOTIFICATION_IDX_POWER_DOMAIN_SYSTEM_SUSPEND,
        ev_source_id := FWK_ID_MODULE (env_idx env)\<rparr>) (suspend_notifications_count s) s;
      Some (s\<lparr>suspend_notifications_count := n\<rparr>) } }"

definition process_power_state_transition_report ::
  "'a pd_state_scheme pd_env \<Rightarrow> nat \<Rightarrow> u32 \<Rightarrow> 'a pd_state_scheme \<Rightarrow> 'a pd_state_scheme option" where
  "process_power_state_transition_report env p new_state s = do {
    pd \<leftarrow> get_pd p s;
    s \<leftarrow> (if new_state = pd_driver_state pd then send_pd_set_state_delayed_response p FWK_SUCCESS s else Some s);
    pd \<leftarrow> get_pd p s;
    let previous_state = pd_current_state pd;
    let s = upd_pd p (\<lambda>pd. pd\<lparr>pd_current_state := pd_requested_state pd\<rparr>) s;
    s \<leftarrow> (if env_has_notification env \<and> tn_pending_responses (pd_transition_notification pd) = 0 \<and>
            \<not> pc_disable_state_transition_notifications (pd_config pd)
         then do { (_, s) \<leftarrow> notify_power_state_transition env p new_state s; Some s }
         else Some s);
    if sus_last_core_off_ongoing (system_suspend s) \<and> sus_last_core_pd (system_suspend s) = Some p
    then last_core_off env p s
    else do {
      pd \<leftarrow> get_pd p s;
      let s = (if pd_parent pd = None \<and> sus_state (system_suspend s) \<noteq> MOD_PD_STATE_ON
        then s\<lparr>system_suspend := (system_suspend s)\<lparr>sus_suspend_ongoing := False\<rparr>\<rparr> else s);
      if env_has_notification env \<and> tn_pending_responses (pd_transition_notification pd) > 0
      then Some (upd_pd p (\<lambda>pd. pd\<lparr>pd_transition_notification :=
        (pd_transition_notification pd)\<lparr>tn_previous_state := previous_state\<rparr>\<rparr>) s)
      else do {
        let s = upd_pd p (\<lambda>pd. pd\<lparr>pd_requested_state := pd_current_state pd,
          pd_state_requested_to_driver := pd_current_state pd\<rparr>) s;
        if is_deeper_state new_state previous_state
        then process_power_state_transition_report_deeper_state env p s
        else if is_shallower_state new_state previous_state
        then process_power_state_transition_report_shallower_state env p s
        else Some s } } }"

section \<open>System suspend\<close>

text \<open>The loop over the domains: the core and the cluster that are not off, or \<open>None\<close> when there are
  two of a kind.\<close>

fun find_last_pds ::
  "pd_ctx list \<Rightarrow> nat \<Rightarrow> nat option \<times> nat option \<Rightarrow> (nat option \<times> nat option) option" where
  "find_last_pds [] i (core, cluster) = Some (core, cluster)"
| "find_last_pds (pd # pds) i (core, cluster) =
    (if pd_requested_state pd = MOD_PD_STATE_OFF \<and> pd_current_state pd = MOD_PD_STATE_OFF
     then find_last_pds pds (i + 1) (core, cluster)
     else if pc_pd_type (pd_config pd) = MOD_PD_TYPE_CORE then
       (if core \<noteq> None then None else find_last_pds pds (i + 1) (Some i, cluster))
     else if pc_pd_type (pd_config pd) = MOD_PD_TYPE_CLUSTER then
       (if cluster \<noteq> None then None else find_last_pds pds (i + 1) (core, Some i))
     else find_last_pds pds (i + 1) (core, cluster))"

definition process_system_suspend_request ::
  "'a pd_state_scheme pd_env \<Rightarrow> u32 \<Rightarrow> 'a pd_state_scheme \<Rightarrow> (fwk_status \<times> 'a pd_state_scheme) option" where
  "process_system_suspend_request env state s =
    (case find_last_pds (pd_ctx_table s) 0 (None, None) of
      None \<Rightarrow> Some (FWK_E_STATE, s)
    | Some (None, cluster) \<Rightarrow>
        complete_system_suspend env (case cluster of Some c \<Rightarrow> c | None \<Rightarrow> system_pd_ctx s) s
    | Some (Some core, cluster) \<Rightarrow> do {
        pd \<leftarrow> get_pd core s;
        api \<leftarrow> driver_of env pd;
        prepare \<leftarrow> drv_prepare_core_for_system_suspend api;
        (status, s) \<leftarrow> prepare (pd_driver_id pd) s;
        if status \<noteq> FWK_SUCCESS then Some (status, s)
        else do {
          let s = s\<lparr>system_suspend := (system_suspend s)\<lparr>sus_last_core_off_ongoing := True,
            sus_last_core_pd := Some core, sus_state := state\<rparr>\<rparr>;
          Some (status, upd_pd core (\<lambda>pd. pd\<lparr>pd_requested_state := MOD_PD_STATE_OFF,
            pd_state_requested_to_driver := MOD_PD_STATE_OFF\<rparr>) s) } })"

section \<open>System shutdown\<close>

text \<open>\<open>resp\<close> is the event \<open>response_event\<close> points to, \<open>None\<close> when no handler holds it any more.\<close>

definition perform_shutdown_send_response ::
  "'a pd_state_scheme pd_env \<Rightarrow> fwk_event option \<Rightarrow> 'a pd_state_scheme
    \<Rightarrow> ((fwk_status \<times> fwk_event option) \<times> 'a pd_state_scheme) option" where
  "perform_shutdown_send_response env resp s =
    (if sd_is_delayed_response (system_shutdown s) then do {
       (status, delayed_resp) \<leftarrow> fwk_get_delayed_response (FWK_ID_MODULE (env_idx env))
         (sd_cookie (system_shutdown s)) (Some event_zero) s;
       if status \<noteq> FWK_SUCCESS then Some ((status, resp), s)
       else do {
         e \<leftarrow> delayed_resp;
         ((status, _), s) \<leftarrow> fwk_put_event (Some (e\<lparr>ev_source_id := FWK_ID_MODULE (env_idx env),
           ev_params := params_put32 0 (status_word FWK_E_PANIC) (ev_params e)\<rparr>)) s;
         Some ((status, resp), s) } }
     else do {
       e \<leftarrow> resp;
       fwk_put_event (Some (e\<lparr>ev_params := params_put32 0 (status_word FWK_E_PANIC) (ev_params e)\<rparr>)) s })"

text \<open>The body of the loop over the domains; the result says whether the driver deferred the
  shutdown.\<close>

definition shutdown_pd ::
  "'a pd_state_scheme pd_env \<Rightarrow> u32 \<Rightarrow> nat \<Rightarrow> 'a pd_state_scheme \<Rightarrow> (bool \<times> 'a pd_state_scheme) option" where
  "shutdown_pd env shutdown p s = do {
    pd \<leftarrow> get_pd p s;
    api \<leftarrow> driver_of env pd;
    (pending, s) \<leftarrow> (case drv_shutdown api of
        Some f \<Rightarrow> do { (status, s) \<leftarrow> f (pd_driver_id pd) shutdown s; Some (status = FWK_PENDING, s) }
      | None \<Rightarrow> do {
          (denied, s) \<leftarrow> driver_denies api (pd_driver_id pd) MOD_PD_STATE_OFF s;
          if denied then Some (False, s)
          else do {
            set_state \<leftarrow> drv_set_state api;
            (_, s) \<leftarrow> set_state (pd_driver_id pd) MOD_PD_STATE_OFF s;
            Some (False, s) } });
    if pending then Some (True, s)
    else Some (False, upd_pd p (\<lambda>pd. pd\<lparr>pd_requested_state := MOD_PD_STATE_OFF,
      pd_state_requested_to_driver := MOD_PD_STATE_OFF, pd_current_state := MOD_PD_STATE_OFF\<rparr>) s) }"

fun shutdown_loop ::
  "'a pd_state_scheme pd_env \<Rightarrow> u32 \<Rightarrow> nat list \<Rightarrow> 'a pd_state_scheme \<Rightarrow> (bool \<times> 'a pd_state_scheme) option" where
  "shutdown_loop env shutdown [] s = Some (False, s)"
| "shutdown_loop env shutdown (p # ps) s = do {
    (pending, s) \<leftarrow> shutdown_pd env shutdown p s;
    if pending then Some (True, s) else shutdown_loop env shutdown ps s }"

definition perform_shutdown ::
  "'a pd_state_scheme pd_env \<Rightarrow> u32 \<Rightarrow> fwk_event option \<Rightarrow> 'a pd_state_scheme
    \<Rightarrow> (fwk_event option \<times> 'a pd_state_scheme) option" where
  "perform_shutdown env shutdown resp s = do {
    (pending, s) \<leftarrow> shutdown_loop env shutdown [0..<length (pd_ctx_table s)] s;
    if pending then Some (resp, s)
    else do {
      (resp, s) \<leftarrow> (if sd_is_response_requested (system_shutdown s) then do {
          ((status, resp), s) \<leftarrow> perform_shutdown_send_response env resp s;
          fwk_assert (status = FWK_SUCCESS);
          Some (resp, s) }
        else Some (resp, s));
      Some (resp, s\<lparr>system_shutdown := (system_shutdown s)\<lparr>sd_ongoing := False\<rparr>\<rparr>) } }"

definition put_resp_status :: "fwk_status \<Rightarrow> fwk_event \<Rightarrow> fwk_event" where
  "put_resp_status status resp = resp\<lparr>ev_params := params_put32 0 (status_word status) (ev_params resp)\<rparr>"

definition process_system_shutdown_request ::
  "'a pd_state_scheme pd_env \<Rightarrow> fwk_event \<Rightarrow> fwk_event \<Rightarrow> 'a pd_state_scheme
    \<Rightarrow> (fwk_event \<times> 'a pd_state_scheme) option" where
  "process_system_shutdown_request env event resp s = do {
    let shutdown = params_get32 0 (ev_params event);
    if shutdown = MOD_PD_SYSTEM_WARM_RESET then do {
      (status, s) \<leftarrow> warm_reset_notification_wrapper env s;
      Some (put_resp_status status resp, s) }
    else do {
      (wait, s) \<leftarrow> notify_system_shutdown_wrapper env shutdown s;
      if wait then do {
        let s = s\<lparr>system_shutdown := (system_shutdown s)\<lparr>sd_ongoing := True, sd_system_shutdown := shutdown\<rparr>\<rparr>;
        if ev_response_requested event then
          Some (resp\<lparr>ev_is_delayed_response := True\<rparr>, s\<lparr>system_shutdown := (system_shutdown s)
            \<lparr>sd_is_delayed_response := True, sd_cookie := ev_cookie event\<rparr>\<rparr>)
        else Some (resp, s) }
      else do {
        let s = (if ev_response_requested event
          then s\<lparr>system_shutdown := (system_shutdown s)\<lparr>sd_is_delayed_response := False\<rparr>\<rparr> else s);
        let s = s\<lparr>system_shutdown := (system_shutdown s)
          \<lparr>sd_is_response_requested := ev_response_requested event\<rparr>\<rparr>;
        (resp, s) \<leftarrow> perform_shutdown env shutdown (Some resp) s;
        resp \<leftarrow> resp;
        Some (put_resp_status FWK_E_PANIC resp, s) } } }"

section \<open>Responses to notifications\<close>

text \<open>The count is unsigned and is decremented without a check.\<close>

definition process_pre_shutdown_notification_response ::
  "'a pd_state_scheme pd_env \<Rightarrow> 'a pd_state_scheme \<Rightarrow> (fwk_status \<times> 'a pd_state_scheme) option" where
  "process_pre_shutdown_notification_response env s =
    (if sd_ongoing (system_shutdown s) then do {
       let n = (sd_notifications_count (system_shutdown s) + (2 ^ 32 - 1)) mod 2 ^ 32;
       let s = s\<lparr>system_shutdown := (system_shutdown s)\<lparr>sd_notifications_count := n\<rparr>\<rparr>;
       if n = 0 then do {
         (_, s) \<leftarrow> perform_shutdown env (sd_system_shutdown (system_shutdown s)) None s;
         Some (FWK_SUCCESS, s) }
       else Some (FWK_SUCCESS, s) }
     else Some (FWK_E_PARAM, s))"

definition process_power_state_pre_transition_notification_response ::
  "'a pd_state_scheme pd_env \<Rightarrow> nat \<Rightarrow> fwk_status \<Rightarrow> 'a pd_state_scheme
    \<Rightarrow> (fwk_status \<times> 'a pd_state_scheme) option" where
  "process_power_state_pre_transition_notification_response env p resp_status s = do {
    pd \<leftarrow> get_pd p s;
    if pn_pending_responses (pd_pre_transition_notification pd) = 0 then do {
      fwk_unexpected (dbg s);
      Some (FWK_E_PANIC, s) }
    else do {
      let ctx = pd_pre_transition_notification pd;
      let ctx = (if resp_status \<noteq> FWK_SUCCESS then ctx\<lparr>pn_response_status := FWK_E_DEVICE\<rparr> else ctx);
      let ctx = ctx\<lparr>pn_pending_responses := pn_pending_responses ctx - 1\<rparr>;
      let s = upd_pd p (\<lambda>pd. pd\<lparr>pd_pre_transition_notification := ctx\<rparr>) s;
      if pn_pending_responses ctx \<noteq> 0 then Some (FWK_SUCCESS, s)
      else if pn_valid ctx then
        (if pn_response_status ctx = FWK_SUCCESS then initiate_power_state_transition env p s
         else Some (FWK_SUCCESS, s))
      else do {
        pd \<leftarrow> get_pd p s;
        if pd_requested_state pd = pd_state_requested_to_driver pd \<or>
           \<not> is_allowed_by_parent_and_children (pd_ctx_table s) pd (pd_requested_state pd)
        then Some (FWK_SUCCESS, s)
        else do {
          (wait, s) \<leftarrow> initiate_power_state_pre_transition_notification env p s;
          if \<not> wait then initiate_power_state_transition env p s else Some (FWK_SUCCESS, s) } } } }"

definition process_power_state_transition_notification_response ::
  "'a pd_state_scheme pd_env \<Rightarrow> nat \<Rightarrow> 'a pd_state_scheme \<Rightarrow> (fwk_status \<times> 'a pd_state_scheme) option" where
  "process_power_state_transition_notification_response env p s = do {
    pd \<leftarrow> get_pd p s;
    if tn_pending_responses (pd_transition_notification pd) = 0 then do {
      fwk_unexpected (dbg s);
      Some (FWK_E_PANIC, s) }
    else do {
      let ctx = pd_transition_notification pd;
      let ctx = ctx\<lparr>tn_pending_responses := tn_pending_responses ctx - 1\<rparr>;
      let s = upd_pd p (\<lambda>pd. pd\<lparr>pd_transition_notification := ctx\<rparr>) s;
      if tn_pending_responses ctx \<noteq> 0 then Some (FWK_SUCCESS, s)
      else if tn_state ctx = pd_current_state pd then do {
        let previous_state = tn_previous_state ctx;
        let s = upd_pd p (\<lambda>pd. pd\<lparr>pd_transition_notification :=
          ctx\<lparr>tn_previous_state := pd_current_state pd\<rparr>\<rparr>) s;
        s \<leftarrow> (if is_deeper_state (pd_current_state pd) previous_state
              then process_power_state_transition_report_deeper_state env p s
              else if is_shallower_state (pd_current_state pd) previous_state
              then process_power_state_transition_report_shallower_state env p s
              else Some s);
        Some (FWK_SUCCESS, s) }
      else do {
        ((status, _), s) \<leftarrow> notify_power_state_transition env p (pd_current_state pd) s;
        Some (status, s) } } }"

definition pd_process_notification ::
  "'a pd_state_scheme pd_env \<Rightarrow> fwk_event \<Rightarrow> fwk_event \<Rightarrow> 'a pd_state_scheme
    \<Rightarrow> ((fwk_status \<times> fwk_event) \<times> 'a pd_state_scheme) option" where
  "pd_process_notification env event resp s =
    (if \<not> ev_is_response event then do {
       fwk_unexpected (dbg s);
       Some ((FWK_E_SUPPORT, resp), s) }
     else do {
       pre_shutdown \<leftarrow> fwk_id_is_equal (ev_id event)
         (mod_pd_notification_id env MOD_PD_NOTIFICATION_IDX_PRE_SHUTDOWN);
       if pre_shutdown then do {
         (status, s) \<leftarrow> process_pre_shutdown_notification_response env s;
         Some ((status, resp), s) }
       else do {
         valid \<leftarrow> fwk_module_is_valid_element_id (ev_target_id event) s;
         if \<not> valid then do {
           fwk_unexpected (dbg s);
           Some ((FWK_E_PARAM, resp), s) }
         else do {
           e \<leftarrow> fwk_id_get_element_idx (ev_target_id event);
           transition \<leftarrow> fwk_id_is_equal (ev_id event)
             (mod_pd_notification_id env MOD_PD_NOTIFICATION_IDX_POWER_STATE_TRANSITION);
           (status, s) \<leftarrow> (if transition
             then process_power_state_transition_notification_response env (unat e) s
             else process_power_state_pre_transition_notification_response env (unat e)
               (sint (params_get32 0 (ev_params event))) s);
           Some ((status, resp), s) } } })"

section \<open>Interfaces\<close>

text \<open>\<open>None\<close> for an output argument is a NULL pointer.\<close>

definition pd_of_id :: "fwk_id \<Rightarrow> 'a pd_state_scheme \<Rightarrow> pd_ctx option" where
  "pd_of_id i s = do { e \<leftarrow> fwk_id_get_element_idx i; get_pd (unat e) s }"

definition pd_get_domain_type ::
  "fwk_id \<Rightarrow> mod_pd_type option \<Rightarrow> 'a pd_state_scheme \<Rightarrow> (fwk_status \<times> mod_pd_type option) option" where
  "pd_get_domain_type i type s =
    (if type = None then Some (FWK_E_PARAM, type)
     else do {
       valid \<leftarrow> fwk_module_is_valid_element_id i s;
       if \<not> valid then Some (FWK_E_PARAM, type)
       else do {
         pd \<leftarrow> pd_of_id i s;
         Some (FWK_SUCCESS, Some (pc_pd_type (pd_config pd))) } })"

definition pd_get_domain_parent_id ::
  "fwk_id \<Rightarrow> fwk_id option \<Rightarrow> 'a pd_state_scheme \<Rightarrow> (fwk_status \<times> fwk_id option) option" where
  "pd_get_domain_parent_id i parent_pd_id s =
    (if parent_pd_id = None then Some (FWK_E_PARAM, parent_pd_id)
     else do {
       valid \<leftarrow> fwk_module_is_valid_element_id i s;
       if \<not> valid then Some (FWK_E_PARAM, parent_pd_id)
       else do {
         pd \<leftarrow> pd_of_id i s;
         (case pd_parent pd of
            None \<Rightarrow> Some (FWK_SUCCESS, Some FWK_ID_NONE)
          | Some q \<Rightarrow> do { parent \<leftarrow> get_pd q s; Some (FWK_SUCCESS, Some (pd_id parent)) }) } })"

definition pd_request ::
  "'a pd_state_scheme pd_env \<Rightarrow> u32 \<Rightarrow> fwk_id \<Rightarrow> fwk_id \<Rightarrow> bool \<Rightarrow> u32 \<Rightarrow> fwk_event" where
  "pd_request env event_idx source target response_requested param = event_zero\<lparr>
    ev_id := FWK_ID_EVENT (env_idx env) event_idx, ev_source_id := source, ev_target_id := target,
    ev_response_requested := response_requested, ev_params := params_put32 0 param params_zero\<rparr>"

definition put_request :: "fwk_event \<Rightarrow> 'a fwk_state_scheme \<Rightarrow> (fwk_status \<times> 'a fwk_state_scheme) option" where
  "put_request event s = do { ((status, _), s) \<leftarrow> fwk_put_event (Some event) s; Some (status, s) }"

definition pd_set_state ::
  "'a pd_state_scheme pd_env \<Rightarrow> fwk_id \<Rightarrow> bool \<Rightarrow> u32 \<Rightarrow> 'a pd_state_scheme
    \<Rightarrow> (fwk_status \<times> 'a pd_state_scheme) option" where
  "pd_set_state env i response_requested state s = do {
    e \<leftarrow> fwk_id_get_element_idx i;
    pd \<leftarrow> get_pd (unat e) s;
    valid \<leftarrow> (if pd_cs_support pd then is_valid_composite_state (pd_ctx_table s) (unat e) state
             else Some (is_valid_state pd state));
    if \<not> valid then Some (FWK_E_PARAM, s)
    else put_request (pd_request env PD_EVENT_IDX_SET_STATE (pd_driver_id pd) i response_requested state) s }"

definition pd_get_state :: "fwk_id \<Rightarrow> u32 option \<Rightarrow> 'a pd_state_scheme \<Rightarrow> (fwk_status \<times> u32 option) option" where
  "pd_get_state i state s =
    (if state = None then Some (FWK_E_PARAM, state)
     else do {
       e \<leftarrow> fwk_id_get_element_idx i;
       composite_state \<leftarrow> process_get_state_request (unat e) s;
       Some (FWK_SUCCESS, Some composite_state) })"

text \<open>\<open>source_id\<close> is 0 in the next two requests: it is not set.\<close>

definition pd_system_suspend ::
  "'a pd_state_scheme pd_env \<Rightarrow> u32 \<Rightarrow> 'a pd_state_scheme \<Rightarrow> (fwk_status \<times> 'a pd_state_scheme) option" where
  "pd_system_suspend env state s =
    (if length (filter (\<lambda>pd. pc_pd_type (pd_config pd) = MOD_PD_TYPE_CORE \<and>
          is_state_in_transition pd MOD_PD_STATE_OFF) (pd_ctx_table s)) > 1
     then Some (FWK_E_STATE, s)
     else put_request (pd_request env PD_EVENT_IDX_SYSTEM_SUSPEND 0 (FWK_ID_MODULE (env_idx env)) False state) s)"

definition pd_system_shutdown ::
  "'a pd_state_scheme pd_env \<Rightarrow> u32 \<Rightarrow> 'a pd_state_scheme \<Rightarrow> (fwk_status \<times> 'a pd_state_scheme) option" where
  "pd_system_shutdown env shutdown s = do {
    (status, s) \<leftarrow>
      put_request (pd_request env PD_EVENT_IDX_SYSTEM_SHUTDOWN 0 (FWK_ID_MODULE (env_idx env)) False shutdown) s;
    if status = FWK_SUCCESS then Some (FWK_PENDING, s) else Some (status, s) }"

definition pd_reset ::
  "'a pd_state_scheme pd_env \<Rightarrow> fwk_id \<Rightarrow> bool \<Rightarrow> 'a pd_state_scheme
    \<Rightarrow> (fwk_status \<times> 'a pd_state_scheme) option" where
  "pd_reset env i response_requested s = do {
    pd \<leftarrow> pd_of_id i s;
    ((status, _), s) \<leftarrow> fwk_put_event_light (Some \<lparr>evl_source_id = pd_driver_id pd, evl_target_id = i,
      evl_id = FWK_ID_EVENT (env_idx env) PD_EVENT_IDX_RESET,
      evl_response_requested = response_requested\<rparr>) s;
    Some (status, s) }"

definition report_power_state_transition ::
  "'a pd_state_scheme pd_env \<Rightarrow> pd_ctx \<Rightarrow> u32 \<Rightarrow> 'a pd_state_scheme
    \<Rightarrow> (fwk_status \<times> 'a pd_state_scheme) option" where
  "report_power_state_transition env pd state s =
    put_request (pd_request env PD_EVENT_IDX_REPORT_POWER_STATE_TRANSITION (pd_driver_id pd) (pd_id pd) False state) s"

definition pd_report_power_state_transition ::
  "'a pd_state_scheme pd_env \<Rightarrow> fwk_id \<Rightarrow> u32 \<Rightarrow> 'a pd_state_scheme
    \<Rightarrow> (fwk_status \<times> 'a pd_state_scheme) option" where
  "pd_report_power_state_transition env i state s = do {
    pd \<leftarrow> pd_of_id i s;
    report_power_state_transition env pd state s }"

definition pd_get_last_core_pd_id ::
  "fwk_id option \<Rightarrow> 'a pd_state_scheme \<Rightarrow> (fwk_status \<times> fwk_id option) option" where
  "pd_get_last_core_pd_id last_core_pd_id s =
    (if last_core_pd_id = None then Some (FWK_E_PARAM, last_core_pd_id)
     else if \<not> sus_suspend_ongoing (system_suspend s) then Some (FWK_E_PWRSTATE, last_core_pd_id)
     else do {
       p \<leftarrow> sus_last_core_pd (system_suspend s);
       pd \<leftarrow> get_pd p s;
       Some (FWK_SUCCESS, Some (pd_id pd)) })"

end
