(* ===== verification/Pd_Module.thy ===== *)
theory Pd_Module
  imports Pd_Core
begin

text \<open>
  The power domain module's framework handlers (\<open>mod_power_domain.c\<close>): initialisation of the contexts,
  binding to the drivers, start, access to the module's interfaces, and dispatch of its events. A bind
  request returns an interface by address; \<open>pd_ops\<close> is \<open>module_power_domain\<close>.
\<close>

section \<open>Initialisation\<close>

definition pd_init ::
  "'a pd_state_scheme pd_env \<Rightarrow> fwk_id \<Rightarrow> nat \<Rightarrow> addr \<Rightarrow> 'a pd_state_scheme
    \<Rightarrow> (fwk_status \<times> 'a pd_state_scheme) option" where
  "pd_init env module_id dev_count data s =
    (if data = NULL \<or> dev_count = 0 then Some (FWK_E_PARAM, s)
     else let s = s\<lparr>pdm_config := env_module_config env data\<rparr> in
       if authorized_id_table (pdm_config s) = None \<and> authorized_id_table_size (pdm_config s) \<noteq> 0
       then Some (FWK_E_PARAM, s)
       else Some (FWK_SUCCESS, s\<lparr>pd_ctx_table := replicate dev_count pd_ctx_zero,
         system_pd_ctx := dev_count - 1\<rparr>))"

definition pd_config_applied :: "fwk_id \<Rightarrow> mod_power_domain_element_config \<Rightarrow> pd_ctx \<Rightarrow> pd_ctx" where
  "pd_config_applied i cfg pd =
    (let table = pc_allowed_state_mask_table cfg;
         pd = pd\<lparr>pd_allowed_state_mask_table := table,
           pd_valid_state_mask := fold (OR) table (pd_valid_state_mask pd)\<rparr>;
         pd = (if pc_composite_state_mask_table cfg \<noteq> [] then
                 pd\<lparr>pd_composite_state_mask_table := pc_composite_state_mask_table cfg,
                   pd_composite_state_levels_mask := pc_composite_state_levels_mask cfg,
                   pd_cs_support := True\<rparr>
               else if pc_pd_type cfg = MOD_PD_TYPE_CORE then
                 pd\<lparr>pd_composite_state_mask_table := core_composite_state_mask_table,
                   pd_composite_state_levels_mask := push_bit MOD_PD_CS_LEVEL_SHIFT MOD_PD_CS_STATE_MASK,
                   pd_cs_support := True\<rparr>
               else pd\<lparr>pd_cs_support := False\<rparr>)
     in pd\<lparr>pd_id := i, pd_config := cfg\<rparr>)"

definition pd_power_domain_init ::
  "'a pd_state_scheme pd_env \<Rightarrow> fwk_id \<Rightarrow> nat \<Rightarrow> addr \<Rightarrow> 'a pd_state_scheme
    \<Rightarrow> (fwk_status \<times> 'a pd_state_scheme) option" where
  "pd_power_domain_init env i unused config s = do {
    let cfg = env_element_config env config;
    e \<leftarrow> fwk_id_get_element_idx i;
    let p = unat e;
    _ \<leftarrow> get_pd p s;
    let s = upd_pd p (\<lambda>pd. pd\<lparr>pd_children := []\<rparr>) s;
    if config = NULL then None
    else if pc_pd_type cfg = MOD_PD_TYPE_COUNT then Some (FWK_E_PARAM, s)
    else if pc_allowed_state_mask_table cfg = [] then Some (FWK_E_PARAM, s)
    else Some (FWK_SUCCESS, upd_pd p (pd_config_applied i cfg) s) }"

definition pd_post_init :: "fwk_id \<Rightarrow> 'a pd_state_scheme \<Rightarrow> (fwk_status \<times> 'a pd_state_scheme) option" where
  "pd_post_init module_id s = do {
    (status, s) \<leftarrow> connect_pd_tree s;
    if status \<noteq> FWK_SUCCESS then Some (status, s) else Some (FWK_SUCCESS, s) }"

section \<open>Bind and start\<close>

definition pd_bind ::
  "'a pd_state_scheme pd_env \<Rightarrow> (nat \<Rightarrow> 'a pd_state_scheme module_ops) \<Rightarrow> fwk_id \<Rightarrow> nat
    \<Rightarrow> 'a pd_state_scheme \<Rightarrow> (fwk_status \<times> 'a pd_state_scheme) option" where
  "pd_bind env ops i rnd s =
    (if rnd \<noteq> 0 then Some (FWK_SUCCESS, s)
     else do {
       is_module \<leftarrow> fwk_id_is_type i FWK_ID_TYPE_MODULE;
       if is_module then Some (FWK_SUCCESS, s)
       else do {
         e \<leftarrow> fwk_id_get_element_idx i;
         let p = unat e;
         pd \<leftarrow> get_pd p s;
         let config = pd_config pd;
         ((status, api), s) \<leftarrow> fwk_module_bind ops (pc_driver_id config) (pc_api_id config) False NULL s;
         if status \<noteq> FWK_SUCCESS then Some (status, s)
         else do {
           let s = upd_pd p (\<lambda>pd. pd\<lparr>pd_driver_id := pc_driver_id config\<rparr>) s;
           driver_api \<leftarrow> (if api = NULL then None else Some (env_driver env api));
           if drv_set_state driver_api = None \<or> drv_get_state driver_api = None \<or> drv_reset driver_api = None \<or>
              (pc_pd_type config = MOD_PD_TYPE_CORE \<and> drv_prepare_core_for_system_suspend driver_api = None)
           then Some (FWK_E_PARAM, s)
           else Some (FWK_SUCCESS, upd_pd p (\<lambda>pd. pd\<lparr>pd_driver_api := api\<rparr>) s) } } })"

text \<open>The body of the loop of \<open>pd_start\<close>, which runs from the last domain to the first.\<close>

definition pd_start_one ::
  "'a pd_state_scheme pd_env \<Rightarrow> nat \<Rightarrow> 'a pd_state_scheme \<Rightarrow> 'a pd_state_scheme option" where
  "pd_start_one env p s = do {
    _ \<leftarrow> get_pd p s;
    let s = upd_pd p (\<lambda>pd. pd\<lparr>pd_requested_state := MOD_PD_STATE_OFF,
      pd_state_requested_to_driver := MOD_PD_STATE_OFF, pd_current_state := MOD_PD_STATE_OFF\<rparr>) s;
    pd \<leftarrow> get_pd p s;
    parent_off \<leftarrow> (case pd_parent pd of None \<Rightarrow> Some False
                  | Some q \<Rightarrow> do { parent \<leftarrow> get_pd q s; Some (pd_requested_state parent = MOD_PD_STATE_OFF) });
    if parent_off then Some s
    else do {
      api \<leftarrow> driver_of env pd;
      get_state \<leftarrow> drv_get_state api;
      ((status, state), s) \<leftarrow> get_state (pd_driver_id pd) s;
      if status \<noteq> FWK_SUCCESS then Some s
      else do {
        let s = upd_pd p (\<lambda>pd. pd\<lparr>pd_requested_state := state, pd_state_requested_to_driver := state\<rparr>) s;
        if state = MOD_PD_STATE_OFF then Some s
        else do {
          pd \<leftarrow> get_pd p s;
          (_, s) \<leftarrow> report_power_state_transition env pd state s;
          Some s } } } }"

definition pd_start ::
  "'a pd_state_scheme pd_env \<Rightarrow> fwk_id \<Rightarrow> 'a pd_state_scheme \<Rightarrow> (fwk_status \<times> 'a pd_state_scheme) option" where
  "pd_start env i s = do {
    is_element \<leftarrow> fwk_module_is_valid_element_id i s;
    if is_element then Some (FWK_SUCCESS, s)
    else do {
      s \<leftarrow> for_each (pd_start_one env) (rev [0..<length (pd_ctx_table s)]) s;
      Some (FWK_SUCCESS, s) } }"

section \<open>Access to the interfaces\<close>

abbreviation MOD_PD_API_IDX_PUBLIC :: u32 where "MOD_PD_API_IDX_PUBLIC \<equiv> 0"
abbreviation MOD_PD_API_IDX_RESTRICTED :: u32 where "MOD_PD_API_IDX_RESTRICTED \<equiv> 1"
abbreviation MOD_PD_API_IDX_DRIVER_INPUT :: u32 where "MOD_PD_API_IDX_DRIVER_INPUT \<equiv> 2"

text \<open>The search of the table of authorised identifiers.\<close>

fun is_authorized :: "fwk_id \<Rightarrow> fwk_id list \<Rightarrow> bool option" where
  "is_authorized source_id [] = Some False"
| "is_authorized source_id (i # is) = do {
    eq \<leftarrow> fwk_id_is_equal source_id i;
    if eq then Some True else is_authorized source_id is }"

definition pd_process_bind_request ::
  "'a pd_state_scheme pd_env \<Rightarrow> fwk_id \<Rightarrow> fwk_id \<Rightarrow> fwk_id \<Rightarrow> addr \<Rightarrow> 'a pd_state_scheme
    \<Rightarrow> ((fwk_status \<times> addr) \<times> 'a pd_state_scheme) option" where
  "pd_process_bind_request env source_id target_id api_id api s = do {
    api_id_type \<leftarrow> fwk_id_get_api_idx api_id;
    if api_id_type = MOD_PD_API_IDX_PUBLIC then do {
      is_module \<leftarrow> fwk_id_is_type target_id FWK_ID_TYPE_MODULE;
      if \<not> is_module then Some ((FWK_E_ACCESS, api), s)
      else Some ((FWK_SUCCESS, env_public_api env), s) }
    else if api_id_type = MOD_PD_API_IDX_RESTRICTED then do {
      is_module \<leftarrow> fwk_id_is_type target_id FWK_ID_TYPE_MODULE;
      if \<not> is_module then Some ((FWK_E_ACCESS, api), s)
      else if authorized_id_table_size (pdm_config s) = 0 then Some ((FWK_SUCCESS, env_restricted_api env), s)
      else do {
        table \<leftarrow> authorized_id_table (pdm_config s);
        found \<leftarrow> is_authorized source_id (take (authorized_id_table_size (pdm_config s)) table);
        if found then Some ((FWK_SUCCESS, env_restricted_api env), s)
        else if length table < authorized_id_table_size (pdm_config s) then None
        else Some ((FWK_E_ACCESS, api), s) } }
    else if api_id_type = MOD_PD_API_IDX_DRIVER_INPUT then do {
      is_element \<leftarrow> fwk_id_is_type target_id FWK_ID_TYPE_ELEMENT;
      if \<not> is_element then Some ((FWK_E_ACCESS, api), s)
      else do {
        pd \<leftarrow> pd_of_id target_id s;
        eq \<leftarrow> fwk_id_is_equal source_id (pd_driver_id pd);
        if \<not> eq then Some ((FWK_E_ACCESS, api), s)
        else Some ((FWK_SUCCESS, env_driver_input_api env), s) } }
    else Some ((FWK_E_PARAM, api), s) }"

section \<open>Events\<close>

definition pd_process_event ::
  "'a pd_state_scheme pd_env \<Rightarrow> fwk_event \<Rightarrow> fwk_event \<Rightarrow> 'a pd_state_scheme
    \<Rightarrow> ((fwk_status \<times> fwk_event) \<times> 'a pd_state_scheme) option" where
  "pd_process_event env event resp s = do {
    is_element \<leftarrow> fwk_id_is_type (ev_target_id event) FWK_ID_TYPE_ELEMENT;
    pd \<leftarrow> (if is_element then do { e \<leftarrow> fwk_id_get_element_idx (ev_target_id event); Some (Some (unat e)) }
          else Some None);
    event_idx \<leftarrow> fwk_id_get_event_idx (ev_id event);
    if event_idx = PD_EVENT_IDX_SET_STATE then do {
      p \<leftarrow> pd;
      (resp, s) \<leftarrow> process_set_state_request env p event resp s;
      Some ((FWK_SUCCESS, resp), s) }
    else if event_idx = PD_EVENT_IDX_RESET then do {
      p \<leftarrow> pd;
      (status, s) \<leftarrow> process_reset_request env p s;
      Some ((FWK_SUCCESS, put_resp_status status resp), s) }
    else if event_idx = PD_EVENT_IDX_REPORT_POWER_STATE_TRANSITION then do {
      p \<leftarrow> pd;
      s \<leftarrow> process_power_state_transition_report env p (params_get32 0 (ev_params event)) s;
      Some ((FWK_SUCCESS, resp), s) }
    else if event_idx = PD_EVENT_IDX_SYSTEM_SUSPEND then do {
      (status, s) \<leftarrow> process_system_suspend_request env (params_get32 0 (ev_params event)) s;
      Some ((FWK_SUCCESS, put_resp_status status resp), s) }
    else if event_idx = PD_EVENT_IDX_SYSTEM_SHUTDOWN then do {
      (resp, s) \<leftarrow> process_system_shutdown_request env event resp s;
      Some ((FWK_SUCCESS, resp), s) }
    else Some ((FWK_E_PARAM, resp), s) }"

definition pd_ops ::
  "'a pd_state_scheme pd_env \<Rightarrow> (nat \<Rightarrow> 'a pd_state_scheme module_ops) \<Rightarrow> 'a pd_state_scheme module_ops" where
  "pd_ops env ops = \<lparr>op_init = Some (pd_init env), op_element_init = Some (pd_power_domain_init env),
    op_post_init = Some pd_post_init, op_bind = Some (pd_bind env ops), op_start = Some (pd_start env),
    op_stop = None, op_process_bind_request = Some (pd_process_bind_request env),
    op_process_event = Some (pd_process_event env),
    op_process_notification = (if env_has_notification env then Some (pd_process_notification env) else None),
    op_generator = None\<rparr>"

end
