(* ===== verification/Pd_Invariants.thy ===== *)
theory Pd_Invariants
  imports Pd_Module
begin

text \<open>
  What the handlers of the power domain module preserve. The locale \<open>pd_invariant\<close> collects what an
  assertion on the state must be insensitive to (sending, notifying, the run-time fields of a domain,
  the suspend and shutdown records); inside it every handler is shown to keep the assertion, whatever
  the drivers are, as long as they keep it. It is interpreted on the pool of event structures and on
  the tree of domains with its configuration.
\<close>

section \<open>The configuration part of a domain\<close>

text \<open>The fields written when the module is initialised and bound, the others erased.\<close>

definition pd_static :: "pd_ctx \<Rightarrow> pd_ctx" where
  "pd_static pd = pd\<lparr>pd_requested_state := 0, pd_state_requested_to_driver := 0, pd_current_state := 0,
    pd_driver_state := 0, pd_response := pd_response pd_ctx_zero,
    pd_transition_notification := pd_transition_notification pd_ctx_zero,
    pd_pre_transition_notification := pd_pre_transition_notification pd_ctx_zero\<rparr>"

definition pd_dynamic :: "(pd_ctx \<Rightarrow> pd_ctx) \<Rightarrow> bool" where
  "pd_dynamic f \<longleftrightarrow> (\<forall>pd. pd_static (f pd) = pd_static pd)"

lemma pd_static_updates [simp]:
  "pd_static (pd\<lparr>pd_requested_state := x\<rparr>) = pd_static pd"
  "pd_static (pd\<lparr>pd_state_requested_to_driver := x\<rparr>) = pd_static pd"
  "pd_static (pd\<lparr>pd_current_state := x\<rparr>) = pd_static pd"
  "pd_static (pd\<lparr>pd_driver_state := x\<rparr>) = pd_static pd"
  "pd_static (pd\<lparr>pd_response := r\<rparr>) = pd_static pd"
  "pd_static (pd\<lparr>pd_transition_notification := t\<rparr>) = pd_static pd"
  "pd_static (pd\<lparr>pd_pre_transition_notification := q\<rparr>) = pd_static pd"
  by (simp_all add: pd_static_def)

lemma pd_dynamic_intro [simp]: "(\<And>pd. pd_static (f pd) = pd_static pd) \<Longrightarrow> pd_dynamic f"
  by (simp add: pd_dynamic_def)

text \<open>The updates that also leave the requested and the current state of the domain alone.\<close>

definition pd_quiet :: "(pd_ctx \<Rightarrow> pd_ctx) \<Rightarrow> bool" where
  "pd_quiet f \<longleftrightarrow> (\<forall>pd. pd_static (f pd) = pd_static pd \<and>
    pd_requested_state (f pd) = pd_requested_state pd \<and> pd_current_state (f pd) = pd_current_state pd)"

lemma pd_quiet_intro [simp]:
  "(\<And>pd. pd_static (f pd) = pd_static pd) \<Longrightarrow> (\<And>pd. pd_requested_state (f pd) = pd_requested_state pd) \<Longrightarrow>
    (\<And>pd. pd_current_state (f pd) = pd_current_state pd) \<Longrightarrow> pd_quiet f"
  by (simp add: pd_quiet_def)

lemma pd_quiet_dynamic: "pd_quiet f \<Longrightarrow> pd_dynamic f"
  by (simp add: pd_quiet_def)

section \<open>Partial correctness in the option monad\<close>

definition holds :: "('x \<Rightarrow> bool) \<Rightarrow> 'x option \<Rightarrow> bool" where
  "holds J v \<longleftrightarrow> (\<forall>x. v = Some x \<longrightarrow> J x)"

lemma holdsI: "(\<And>x. v = Some x \<Longrightarrow> J x) \<Longrightarrow> holds J v"
  by (simp add: holds_def)

lemma holdsD: "holds J v \<Longrightarrow> v = Some x \<Longrightarrow> J x"
  by (simp add: holds_def)

lemma holds_Some [simp]: "holds J (Some x) \<longleftrightarrow> J x"
  and holds_None [simp]: "holds J None"
  by (simp_all add: holds_def)

lemma holds_bind_any: "(\<And>x. m = Some x \<Longrightarrow> holds J (f x)) \<Longrightarrow> holds J (m \<bind> f)"
  by (cases m) simp_all

lemma holds_bind: "holds K m \<Longrightarrow> (\<And>x. K x \<Longrightarrow> holds J (f x)) \<Longrightarrow> holds J (m \<bind> f)"
  by (cases m) simp_all

lemma holds_bind_pair:
  "holds (\<lambda>(r, s). K s) m \<Longrightarrow> (\<And>r s. K s \<Longrightarrow> holds J (f r s)) \<Longrightarrow> holds J (m \<bind> case_prod f)"
  by (cases m) auto

lemma holds_prod: "(\<And>a b. holds J (f a b)) \<Longrightarrow> holds J (case_prod f x)"
  "(\<And>a b. holds J (g a b s)) \<Longrightarrow> holds J (case_prod g x s)"
  "(\<And>a b c. holds J (h a (b, c) s)) \<Longrightarrow> holds J (case_prod h y s)"
  by (cases x; simp; fail)+ (cases y; auto)

lemma holds_if: "(b \<Longrightarrow> holds J v) \<Longrightarrow> (\<not> b \<Longrightarrow> holds J w) \<Longrightarrow> holds J (if b then v else w)"
  by simp

lemma holds_option:
  "(o' = None \<Longrightarrow> holds J v) \<Longrightarrow> (\<And>x. o' = Some x \<Longrightarrow> holds J (f x)) \<Longrightarrow> holds J (case_option v f o')"
  by (cases o') simp_all

lemmas holds_steps = holds_if holds_option holds_prod(1,2) holds_bind_any

section \<open>Drivers that keep an assertion\<close>

definition driver_keeps :: "('s \<Rightarrow> bool) \<Rightarrow> 's mod_pd_driver_api \<Rightarrow> bool" where
  "driver_keeps I api \<longleftrightarrow>
    (\<forall>f i st s. drv_set_state api = Some f \<longrightarrow> I s \<longrightarrow> holds (\<lambda>(r, s'). I s') (f i st s)) \<and>
    (\<forall>f i s. drv_get_state api = Some f \<longrightarrow> I s \<longrightarrow> holds (\<lambda>(r, s'). I s') (f i s)) \<and>
    (\<forall>f i s. drv_reset api = Some f \<longrightarrow> I s \<longrightarrow> holds (\<lambda>(r, s'). I s') (f i s)) \<and>
    (\<forall>f i s. drv_prepare_core_for_system_suspend api = Some f \<longrightarrow> I s \<longrightarrow> holds (\<lambda>(r, s'). I s') (f i s)) \<and>
    (\<forall>f i st s. drv_deny api = Some f \<longrightarrow> I s \<longrightarrow> holds (\<lambda>(r, s'). I s') (f i st s)) \<and>
    (\<forall>f i st s. drv_shutdown api = Some f \<longrightarrow> I s \<longrightarrow> holds (\<lambda>(r, s'). I s') (f i st s))"

definition drivers_keep :: "('s \<Rightarrow> bool) \<Rightarrow> 's pd_env \<Rightarrow> bool" where
  "drivers_keep I env \<longleftrightarrow> (\<forall>a. driver_keeps I (env_driver env a))"

text \<open>A driver that keeps a relation to any earlier state keeps what the relation transports.\<close>

lemma drivers_keep_mono:
  assumes K: "\<And>s0. drivers_keep (K s0) env" and refl: "\<And>s. K s s"
    and imp: "\<And>s t. I s \<Longrightarrow> K s t \<Longrightarrow> I t"
  shows "drivers_keep I env"
proof -
  have mono: "I s \<Longrightarrow> holds (\<lambda>(r, t). K s t) v \<Longrightarrow> holds (\<lambda>(r, t). I t) v" for s v
    by (auto simp: holds_def intro: imp)
  have "driver_keeps I (env_driver env a)" for a
  proof -
    have D: "driver_keeps (K s) (env_driver env a)" for s using K by (simp add: drivers_keep_def)
    show ?thesis
      unfolding driver_keeps_def
      by (intro conjI allI impI; erule mono; use D refl in \<open>simp add: driver_keeps_def\<close>)
  qed
  then show ?thesis by (simp add: drivers_keep_def)
qed

lemma driver_keeps_fun:
  assumes "drivers_keep I env" "driver_of env pd = Some api" "I s"
  shows "drv_set_state api = Some f1 \<Longrightarrow> holds (\<lambda>(r, s'). I s') (f1 i st s)"
    "drv_get_state api = Some f2 \<Longrightarrow> holds (\<lambda>(r, s'). I s') (f2 i s)"
    "drv_reset api = Some f3 \<Longrightarrow> holds (\<lambda>(r, s'). I s') (f3 i s)"
    "drv_prepare_core_for_system_suspend api = Some f3 \<Longrightarrow> holds (\<lambda>(r, s'). I s') (f3 i s)"
    "drv_shutdown api = Some f1 \<Longrightarrow> holds (\<lambda>(r, s'). I s') (f1 i st s)"
    "holds (\<lambda>(r, s'). I s') (driver_denies api i st s)"
proof -
  have "driver_keeps I api"
    using assms(1,2) by (auto simp: drivers_keep_def driver_of_def split: if_splits)
  with assms(3) show "drv_set_state api = Some f1 \<Longrightarrow> holds (\<lambda>(r, s'). I s') (f1 i st s)"
    "drv_get_state api = Some f2 \<Longrightarrow> holds (\<lambda>(r, s'). I s') (f2 i s)"
    "drv_reset api = Some f3 \<Longrightarrow> holds (\<lambda>(r, s'). I s') (f3 i s)"
    "drv_prepare_core_for_system_suspend api = Some f3 \<Longrightarrow> holds (\<lambda>(r, s'). I s') (f3 i s)"
    "drv_shutdown api = Some f1 \<Longrightarrow> holds (\<lambda>(r, s'). I s') (f1 i st s)"
    "holds (\<lambda>(r, s'). I s') (driver_denies api i st s)"
    unfolding driver_keeps_def driver_denies_def by (simp_all split: option.split)
qed

section \<open>Assertions every handler keeps\<close>

text \<open>Driver calls, notifications and responses write no requested or current state: an assertion on
  these may be interpreted here.\<close>

locale pd_request_invariant =
  fixes I :: "'a pd_state_scheme \<Rightarrow> bool"
  assumes put_event: "I s \<Longrightarrow> holds (\<lambda>(r, s'). I s') (fwk_put_event e s)"
    and notify: "I s \<Longrightarrow> holds (\<lambda>(r, s'). I s') (fwk_notification_notify e' n s)"
    and quiet: "I s \<Longrightarrow> pd_quiet f \<Longrightarrow> I (upd_pd p f s)"
begin

lemma notify_counting: "I s \<Longrightarrow> holds (\<lambda>(r, s'). I s') (notify_counting e n s)"
  unfolding notify_counting_def
  by (intro holds_bind_pair [OF notify] holds_steps) auto

lemma transition:
  assumes "drivers_keep I env" "I s"
  shows "holds (\<lambda>(r, s'). I s') (initiate_power_state_transition env p s)"
  unfolding initiate_power_state_transition_def Let_def
  by (rule holds_bind_any, rule holds_bind_any,
      rule holds_bind_pair [OF driver_keeps_fun(6) [OF assms(1) _ assms(2)]], assumption,
      intro holds_steps holds_bind_pair [OF driver_keeps_fun(1) [OF assms(1)]])
    (auto intro!: quiet intro: driver_keeps_fun [OF assms(1)])

lemma delayed_response: "I s \<Longrightarrow> holds I (send_pd_set_state_delayed_response p st s)"
  unfolding send_pd_set_state_delayed_response_def Let_def
  by (intro holds_bind_pair [OF put_event] holds_steps) (auto intro!: quiet)

lemma pre_transition:
  "I s \<Longrightarrow> holds (\<lambda>(r, s'). I s') (initiate_power_state_pre_transition_notification env p s)"
  unfolding initiate_power_state_pre_transition_notification_def Let_def
  by (intro holds_bind_pair [OF notify_counting] holds_steps) (auto intro!: quiet)

lemma pre_transition_wrapper:
  "I s \<Longrightarrow> holds (\<lambda>(r, s'). I s') (power_state_pre_transition_notification_wrapper env p s)"
  by (simp add: power_state_pre_transition_notification_wrapper_def pre_transition)

lemma report_deeper:
  assumes "drivers_keep I env" "I s"
  shows "holds I (process_power_state_transition_report_deeper_state env p s)"
  unfolding process_power_state_transition_report_deeper_state_def Let_def
  by (intro holds_bind_pair [OF pre_transition_wrapper] holds_bind_pair [OF transition [OF assms(1)]]
      holds_steps) (auto simp: assms(2))

lemma shallower_children:
  assumes "drivers_keep I env"
  shows "I s \<Longrightarrow> holds I (shallower_children env cs s)"
proof (induction cs arbitrary: s)
  case (Cons c cs)
  show ?case
    unfolding shallower_children.simps Let_def
    by (intro holds_bind_pair [OF pre_transition_wrapper] holds_bind_pair [OF transition [OF assms]]
        holds_steps) (auto intro: Cons)
qed simp

lemma report_shallower:
  assumes "drivers_keep I env" "I s"
  shows "holds I (process_power_state_transition_report_shallower_state env p s)"
  unfolding process_power_state_transition_report_shallower_state_def
  by (intro holds_steps shallower_children assms)

lemma notify_transition: "I s \<Longrightarrow> holds (\<lambda>(r, s'). I s') (notify_power_state_transition env p st s)"
  unfolding notify_power_state_transition_def Let_def
  by (intro holds_bind_pair [OF notify_counting] holds_steps) (auto intro!: quiet)

end

locale pd_invariant = pd_request_invariant +
  assumes dynamic: "I s \<Longrightarrow> pd_dynamic f \<Longrightarrow> I (upd_pd p f s)"
    and suspend: "I s \<Longrightarrow> I (s\<lparr>system_suspend := x\<rparr>)"
    and shutdown: "I s \<Longrightarrow> I (s\<lparr>system_shutdown := y\<rparr>)"
    and suspend_count: "I s \<Longrightarrow> I (s\<lparr>suspend_notifications_count := m\<rparr>)"
begin

lemmas kept = dynamic suspend shutdown suspend_count

lemma set_state_domain:
  assumes "drivers_keep I env" "I s"
  shows "holds (\<lambda>(r, s'). I s') (set_state_domain env p state l s)"
  unfolding set_state_domain_def Let_def
  by (intro holds_bind [OF delayed_response] holds_bind_pair [OF pre_transition_wrapper]
      holds_bind_pair [OF transition [OF assms(1)]] holds_steps) (auto intro!: kept simp: assms(2))

lemma set_state_loop:
  assumes "drivers_keep I env"
  shows "I s \<Longrightarrow> holds (\<lambda>(r, s'). I s') (set_state_loop env lowest up table cs highest is l s)"
proof (induction "is" arbitrary: l s)
  case (Cons i "is")
  show ?case
    unfolding set_state_loop.simps Let_def
    by (intro holds_bind_pair [OF set_state_domain [OF assms]] holds_steps) (auto intro: Cons)
qed simp

lemma set_state:
  assumes "drivers_keep I env" "I s"
  shows "holds (\<lambda>(r, s'). I s') (process_set_state_request env p e r0 s)"
  unfolding process_set_state_request_def Let_def
  by (intro holds_bind_pair [OF set_state_loop [OF assms(1)]] holds_steps)
    (auto intro!: kept simp: assms(2))

lemma complete_suspend:
  assumes "drivers_keep I env" "I s"
  shows "holds (\<lambda>(r, s'). I s') (complete_system_suspend env p s)"
  unfolding complete_system_suspend_def Let_def
  by (intro holds_bind_pair [OF set_state [OF assms(1)]] holds_steps) (auto intro!: kept simp: assms(2))

lemma reset:
  assumes "drivers_keep I env" "I s"
  shows "holds (\<lambda>(r, s'). I s') (process_reset_request env p s)"
  unfolding process_reset_request_def
  by (intro holds_steps) (auto intro: driver_keeps_fun(3) [OF assms(1)] simp: assms(2))

lemma last_core_off:
  assumes "drivers_keep I env" "I s"
  shows "holds I (last_core_off env p s)"
  unfolding last_core_off_def Let_def
  by (intro holds_bind_pair [OF complete_suspend [OF assms(1)]] holds_bind_pair [OF notify_counting] holds_steps)
    (auto intro!: kept simp: assms(2))

lemma report:
  assumes "drivers_keep I env" "I s"
  shows "holds I (process_power_state_transition_report env p st s)"
proof -
  have 1: "holds I (if b then send_pd_set_state_delayed_response p st' s else Some s)" if "I s" for b st' s
    using that delayed_response by simp
  have 2: "holds I (if b then do { (_, s) \<leftarrow> notify_power_state_transition env p st' s; Some s } else Some s)"
    if "I s" for b st' s
    using that by (intro holds_if holds_bind_pair [OF notify_transition]) auto
  have 3: "holds I (if b then last_core_off env p s else v)" if "I s" "\<not> b \<Longrightarrow> holds I v" for b s v
    using that last_core_off [OF assms(1)] by simp
  show ?thesis
    unfolding process_power_state_transition_report_def Let_def
    by (intro holds_bind [OF 1] holds_bind [OF 2] 3 holds_steps report_deeper report_shallower assms)
      (auto intro!: kept)
qed

lemma system_suspend_request:
  assumes "drivers_keep I env" "I s"
  shows "holds (\<lambda>(r, s'). I s') (process_system_suspend_request env st s)"
  unfolding process_system_suspend_request_def Let_def
  by (intro holds_steps complete_suspend assms
      holds_bind_pair [OF driver_keeps_fun(4) [OF assms(1) _ assms(2)]])
    (auto intro!: kept simp: assms(2))

lemma shutdown_pd:
  assumes "drivers_keep I env" "I s"
  shows "holds (\<lambda>(r, s'). I s') (shutdown_pd env sd p s)"
proof -
  have call: "holds (\<lambda>(r, s'). I s') (case drv_shutdown api of
        Some f \<Rightarrow> do { (status, s) \<leftarrow> f i sd s; Some (status = FWK_PENDING, s) }
      | None \<Rightarrow> do {
          (denied, s) \<leftarrow> driver_denies api i MOD_PD_STATE_OFF s;
          if denied then Some (False, s)
          else do {
            set_state \<leftarrow> drv_set_state api;
            (_, s) \<leftarrow> set_state i MOD_PD_STATE_OFF s;
            Some (False, s) } })"
    if "driver_of env pd = Some api" "I s" for api pd i s
    using that
    by (intro holds_option holds_bind_pair [OF driver_keeps_fun(5) [OF assms(1)]]
        holds_bind_pair [OF driver_keeps_fun(6) [OF assms(1)]]
        holds_bind_pair [OF driver_keeps_fun(1) [OF assms(1)]] holds_steps) auto
  show ?thesis
    unfolding shutdown_pd_def
    by (intro holds_bind_pair [OF call] holds_steps) (auto intro!: kept simp: assms(2))
qed

lemma shutdown_loop:
  assumes "drivers_keep I env"
  shows "I s \<Longrightarrow> holds (\<lambda>(r, s'). I s') (shutdown_loop env sd ps s)"
proof (induction ps arbitrary: s)
  case (Cons p ps)
  show ?case
    unfolding shutdown_loop.simps
    by (intro holds_bind_pair [OF shutdown_pd [OF assms]] holds_steps) (auto intro: Cons)
qed simp

lemma shutdown_response: "I s \<Longrightarrow> holds (\<lambda>(r, s'). I s') (perform_shutdown_send_response env resp s)"
  unfolding perform_shutdown_send_response_def
  by (intro holds_if holds_bind_pair [OF put_event] holds_steps put_event) auto

lemma perform_shutdown:
  assumes "drivers_keep I env" "I s"
  shows "holds (\<lambda>(r, s'). I s') (perform_shutdown env sd resp s)"
proof -
  have 1: "holds (\<lambda>(r, s'). I s') (if b then do {
      ((status, resp), s) \<leftarrow> perform_shutdown_send_response env resp s;
      fwk_assert (status = FWK_SUCCESS);
      Some (resp, s) } else Some (resp, s))" if "I s" for b resp s
    using that by (intro holds_if holds_bind_pair [OF shutdown_response] holds_steps) auto
  show ?thesis
    unfolding perform_shutdown_def
    by (intro holds_bind_pair [OF shutdown_loop [OF assms(1)]] holds_bind_pair [OF 1] holds_steps)
      (auto intro!: kept simp: assms(2))
qed

lemma shutdown_notifications:
  assumes "I s"
  shows "holds (\<lambda>(r, s'). I s') (notify_system_shutdown_wrapper env sd s)"
    "holds (\<lambda>(r, s'). I s') (warm_reset_notification_wrapper env s)"
  unfolding notify_system_shutdown_wrapper_def warm_reset_notification_wrapper_def
    check_and_notify_system_shutdown_def notify_warm_reset_def Let_def
  by (intro holds_if holds_bind_pair [OF notify_counting] holds_steps; auto intro!: kept simp: assms)+

lemma system_shutdown_request:
  assumes "drivers_keep I env" "I s"
  shows "holds (\<lambda>(r, s'). I s') (process_system_shutdown_request env e resp s)"
  unfolding process_system_shutdown_request_def Let_def
  by (intro holds_if holds_bind_pair [OF shutdown_notifications(1)] holds_bind_pair [OF shutdown_notifications(2)]
      holds_bind_pair [OF perform_shutdown [OF assms(1)]] holds_steps) (auto intro!: kept simp: assms(2))

lemma process_event:
  assumes "drivers_keep I env" "I s"
  shows "holds (\<lambda>(r, s'). I s') (pd_process_event env e resp s)"
  unfolding pd_process_event_def
  by (intro holds_if holds_bind_pair [OF set_state [OF assms(1)]] holds_bind_pair [OF reset [OF assms(1)]]
      holds_bind [OF report [OF assms(1)]] holds_bind_pair [OF system_suspend_request [OF assms(1)]]
      holds_bind_pair [OF system_shutdown_request [OF assms(1)]] holds_steps) (auto simp: assms(2))

lemma pre_shutdown_response:
  assumes "drivers_keep I env" "I s"
  shows "holds (\<lambda>(r, s'). I s') (process_pre_shutdown_notification_response env s)"
  unfolding process_pre_shutdown_notification_response_def Let_def
  by (intro holds_if holds_bind_pair [OF perform_shutdown [OF assms(1)]] holds_steps)
    (auto intro!: kept simp: assms(2))

lemma pre_transition_response:
  assumes "drivers_keep I env" "I s"
  shows "holds (\<lambda>(r, s'). I s') (process_power_state_pre_transition_notification_response env p st s)"
  unfolding process_power_state_pre_transition_notification_response_def Let_def
  by (intro holds_if holds_bind_pair [OF pre_transition] transition assms holds_steps)
    (auto intro!: kept simp: assms(2))

lemma transition_response:
  assumes "drivers_keep I env" "I s"
  shows "holds (\<lambda>(r, s'). I s') (process_power_state_transition_notification_response env p s)"
proof -
  have 1: "holds I (if a then process_power_state_transition_report_deeper_state env p s
      else if b then process_power_state_transition_report_shallower_state env p s else Some s)"
    if "I s" for a b s
    using that report_deeper [OF assms(1)] report_shallower [OF assms(1)] by simp
  show ?thesis
    unfolding process_power_state_transition_notification_response_def Let_def
    by (intro holds_if holds_bind [OF 1] holds_bind_pair [OF notify_transition] holds_steps)
      (auto intro!: kept simp: assms(2))
qed

lemma process_notification:
  assumes "drivers_keep I env" "I s"
  shows "holds (\<lambda>(r, s'). I s') (pd_process_notification env e resp s)"
proof -
  have 1: "holds (\<lambda>(r, s'). I s') (if b then process_power_state_transition_notification_response env p s
      else process_power_state_pre_transition_notification_response env p st s)" for b p st
    using transition_response [OF assms] pre_transition_response [OF assms] by simp
  show ?thesis
    unfolding pd_process_notification_def
    by (intro holds_if holds_bind_pair [OF pre_shutdown_response [OF assms]] holds_bind_pair [OF 1] holds_steps)
      (auto simp: assms(2))
qed

end

section \<open>The pool of event structures\<close>

definition sends_only :: "'a fwk_state_scheme \<Rightarrow> 'a fwk_state_scheme \<Rightarrow> bool" where
  "sends_only s0 s \<longleftrightarrow> event_frame s = event_frame s0 \<and> (NULL \<notin># pool s0 \<longrightarrow> pool s = pool s0)"

lemma put_sends_only:
  assumes "sends_only s0 s"
  shows "holds (\<lambda>(r, s'). sends_only s0 s') (fwk_put_event e s)"
    "holds (\<lambda>(r, s'). sends_only s0 s') (fwk_put_notification e' s)"
  using assms put_event_pool [of _ _ s] fwk_put_event_frame(1,3) [of _ s]
  by (auto intro!: holdsI simp: sends_only_def)
    (fastforce simp: fwk_put_event_def fwk_put_notification_def Let_def
      split: option.splits if_splits sum.splits prod.splits)+

lemma send_sends_only:
  "sends_only s0 s \<Longrightarrow> holds (\<lambda>(r, s'). sends_only s0 s') (send_to_subscribers q e n s)"
proof (induction q arbitrary: e n s)
  case (Cons x xs)
  show ?case
    unfolding send_to_subscribers.simps
    by (intro holds_if holds_bind_pair [OF put_sends_only(2)] holds_steps) (auto intro: Cons)
qed simp

lemma notify_sends_only:
  "sends_only s0 s \<Longrightarrow> holds (\<lambda>(r, s'). sends_only s0 s') (fwk_notification_notify e n s)"
proof -
  assume s: "sends_only s0 s"
  have send: "holds (\<lambda>(r, s'). sends_only s0 s') (send_notifications e n s)" for e n
    unfolding send_notifications_def by (intro holds_bind_any send_sends_only s)
  show ?thesis
    unfolding fwk_notification_notify_def
    by (cases e; cases n; simp only: option.case prod.case; (simp add: s; fail)?;
        intro holds_if holds_bind_pair [OF send] holds_steps; simp add: s)
qed

lemma sends_only_current: "sends_only s0 s \<Longrightarrow> current_event s = current_event s0"
  using event_frameD(4) by (auto simp: sends_only_def)

lemma sends_only_more: "sends_only s0 s \<Longrightarrow> fwk_state.more s = fwk_state.more s0"
  using event_frameD(10) by (auto simp: sends_only_def)

lemma sends_only_pool: "sends_only s0 s \<Longrightarrow> NULL \<notin># pool s0 \<Longrightarrow> pool s = pool s0"
  by (simp add: sends_only_def)

lemma holds_mono: "holds J v \<Longrightarrow> (\<And>x. J x \<Longrightarrow> K x) \<Longrightarrow> holds K v"
  by (simp add: holds_def)

lemma upd_pd_frame [simp]:
  "pool (upd_pd p f s) = pool s" "current_event (upd_pd p f s) = current_event s"
  by (simp_all add: upd_pd_def pool_def delayed_events_def)

lemma pd_fields_pool [simp]:
  "pool (s\<lparr>system_suspend := x\<rparr>) = pool s" "pool (s\<lparr>system_shutdown := y\<rparr>) = pool s"
  "pool (s\<lparr>suspend_notifications_count := m\<rparr>) = pool s"
  by (simp_all add: pool_def delayed_events_def)

interpretation pd_pool: pd_invariant "\<lambda>s. pool s = P \<and> NULL \<notin># P \<and> current_event s = c" for P c
proof (unfold_locales, goal_cases)
  case (1 s e)
  then have "sends_only s s" by (simp add: sends_only_def)
  from put_sends_only(1) [OF this, of e] show ?case
    by (rule holds_mono) (use 1 in \<open>auto dest: sends_only_pool sends_only_current\<close>)
next
  case (2 s e n)
  then have "sends_only s s" by (simp add: sends_only_def)
  from notify_sends_only [OF this, of e n] show ?case
    by (rule holds_mono) (use 2 in \<open>auto dest: sends_only_pool sends_only_current\<close>)
qed (auto dest: pd_quiet_dynamic)

section \<open>The tree of domains\<close>

text \<open>\<open>fwk_state.more\<close> is the module's own part of the state.\<close>

definition pd_tree :: "'a pd_state_scheme \<Rightarrow> pd_ctx list" where
  "pd_tree s = map pd_static (pd_ctx_table s)"

lemma pd_tree_upd: "pd_dynamic f \<Longrightarrow> pd_tree (upd_pd p f s) = pd_tree s"
  by (cases "p < length (pd_ctx_table s)")
    (simp_all add: pd_tree_def upd_pd_def pd_dynamic_def map_update_same list_update_beyond)

lemma more_eq_pd_fields:
  fixes s t :: "'a pd_state_scheme"
  assumes "fwk_state.more s = fwk_state.more t"
  shows "pd_ctx_table s = pd_ctx_table t" "pdm_config s = pdm_config t" "system_pd_ctx s = system_pd_ctx t"
    "system_suspend s = system_suspend t" "system_shutdown s = system_shutdown t"
    "suspend_notifications_count s = suspend_notifications_count t" "pd_state.more s = pd_state.more t"
  using assms by (cases s; cases t; simp)+

lemma sends_only_pd:
  fixes s t :: "'a pd_state_scheme"
  assumes "sends_only s t"
  shows "pd_ctx_table t = pd_ctx_table s \<and> pdm_config t = pdm_config s \<and> system_pd_ctx t = system_pd_ctx s \<and>
    system_suspend t = system_suspend s \<and> system_shutdown t = system_shutdown s"
  using more_eq_pd_fields [OF sends_only_more [OF assms]] by simp

interpretation pd_tree: pd_invariant "\<lambda>s. pd_tree s = T \<and> pdm_config s = g \<and> system_pd_ctx s = k" for T g k
proof (unfold_locales, goal_cases)
  case (1 s e)
  have "holds (\<lambda>(r, s'). sends_only s s') (fwk_put_event e s)" by (rule put_sends_only) (simp add: sends_only_def)
  then show ?case
    by (rule holds_mono) (use 1 in \<open>auto simp: pd_tree_def dest!: sends_only_pd\<close>)
next
  case (2 s e n)
  have "holds (\<lambda>(r, s'). sends_only s s') (fwk_notification_notify e n s)"
    by (rule notify_sends_only) (simp add: sends_only_def)
  then show ?case
    by (rule holds_mono) (use 2 in \<open>auto simp: pd_tree_def dest!: sends_only_pd\<close>)
next
  case (3 s f p)
  then show ?case by (simp add: pd_tree_upd pd_quiet_dynamic) (simp add: upd_pd_def)
next
  case (4 s f p)
  then show ?case by (simp add: pd_tree_upd) (simp add: upd_pd_def)
qed (auto simp: pd_tree_def)

end
