(* ===== verification/Pd_Props.thy ===== *)
theory Pd_Props
  imports Pd_Invariants
begin

text \<open>
  What the power domain module promises: the states requested in the tree stay allowed by one another,
  its interfaces are given to the entities entitled to them only, the tree follows the configuration, and
  suspend and shutdown act on the domains they should.
\<close>

section \<open>Requested states\<close>

text \<open>Every domain allows the state requested for its parent together with its own.\<close>

definition requests_consistent :: "pd_ctx list \<Rightarrow> bool" where
  "requests_consistent tbl \<longleftrightarrow> (\<forall>p < length tbl. case pd_parent (tbl ! p) of None \<Rightarrow> True
    | Some q \<Rightarrow> is_allowed_by_child (tbl ! p) (pd_requested_state (tbl ! q)) (pd_requested_state (tbl ! p)))"

definition tree_wf :: "pd_ctx list \<Rightarrow> bool" where
  "tree_wf tbl \<longleftrightarrow> (\<forall>p < length tbl.
    (\<forall>c \<in> set (pd_children (tbl ! p)). c < length tbl \<and> pd_parent (tbl ! c) = Some p) \<and>
    (case pd_parent (tbl ! p) of None \<Rightarrow> True
     | Some q \<Rightarrow> q < length tbl \<and> q \<noteq> p \<and> p \<in> set (pd_children (tbl ! q))))"

lemma tree_wf_parent:
  assumes "tree_wf t" "p < length t" "pd_parent (t ! p) = Some q"
  shows "q < length t" "q \<noteq> p" "p \<in> set (pd_children (t ! q))"
proof -
  have "case pd_parent (t ! p) of None \<Rightarrow> True
     | Some q \<Rightarrow> q < length t \<and> q \<noteq> p \<and> p \<in> set (pd_children (t ! q))"
    using assms(1,2) unfolding tree_wf_def by blast
  then show "q < length t" "q \<noteq> p" "p \<in> set (pd_children (t ! q))" using assms(3) by simp_all
qed

lemma requests_consistentD:
  assumes "requests_consistent t" "p < length t" "pd_parent (t ! p) = Some q"
  shows "is_allowed_by_child (t ! p) (pd_requested_state (t ! q)) (pd_requested_state (t ! p))"
proof -
  have "case pd_parent (t ! p) of None \<Rightarrow> True
     | Some q \<Rightarrow> is_allowed_by_child (t ! p) (pd_requested_state (t ! q)) (pd_requested_state (t ! p))"
    using assms(1,2) unfolding requests_consistent_def by blast
  then show ?thesis using assms(3) by simp
qed

lemma requests_consistentI:
  assumes "\<And>p q. p < length t \<Longrightarrow> pd_parent (t ! p) = Some q \<Longrightarrow>
    is_allowed_by_child (t ! p) (pd_requested_state (t ! q)) (pd_requested_state (t ! p))"
  shows "requests_consistent t"
  unfolding requests_consistent_def using assms by (auto split: option.split)

definition pd_requests :: "'a pd_state_scheme \<Rightarrow> (u32 \<times> u32) list" where
  "pd_requests s = map (\<lambda>pd. (pd_requested_state pd, pd_current_state pd)) (pd_ctx_table s)"

lemma pd_requests_upd: "pd_quiet f \<Longrightarrow> pd_requests (upd_pd p f s) = pd_requests s"
  by (cases "p < length (pd_ctx_table s)")
    (simp_all add: pd_requests_def upd_pd_def pd_quiet_def map_update_same list_update_beyond)

definition drivers_keep_requests :: "'a pd_state_scheme pd_env \<Rightarrow> bool" where
  "drivers_keep_requests env \<longleftrightarrow> (\<forall>T R. drivers_keep (\<lambda>s. pd_tree s = T \<and> pd_requests s = R) env)"

interpretation pd_req: pd_request_invariant "\<lambda>s. pd_tree s = T \<and> pd_requests s = R" for T R
proof (unfold_locales, goal_cases)
  case (1 s e)
  have "holds (\<lambda>(r, s'). sends_only s s') (fwk_put_event e s)" by (rule put_sends_only) (simp add: sends_only_def)
  then show ?case
    by (rule holds_mono) (use 1 in \<open>auto simp: pd_tree_def pd_requests_def dest!: sends_only_pd\<close>)
next
  case (2 s e n)
  have "holds (\<lambda>(r, s'). sends_only s s') (fwk_notification_notify e n s)"
    by (rule notify_sends_only) (simp add: sends_only_def)
  then show ?case
    by (rule holds_mono) (use 2 in \<open>auto simp: pd_tree_def pd_requests_def dest!: sends_only_pd\<close>)
next
  case (3 s f p)
  then show ?case by (simp add: pd_tree_upd pd_quiet_dynamic pd_requests_upd)
qed

text \<open>What the consistency depends on.\<close>

lemma pd_static_fields:
  assumes "pd_static a = pd_static b"
  shows "pd_parent a = pd_parent b" "pd_children a = pd_children b" "pd_id a = pd_id b"
    "pd_allowed_state_mask_table a = pd_allowed_state_mask_table b" "pd_config a = pd_config b"
    "pd_driver_id a = pd_driver_id b" "pd_driver_api a = pd_driver_api b" "pd_cs_support a = pd_cs_support b"
    "pd_composite_state_mask_table a = pd_composite_state_mask_table b"
  using assms by (cases a; cases b; simp add: pd_static_def)+

lemma pd_tree_nth:
  assumes "pd_tree s' = pd_tree s"
  shows "length (pd_ctx_table s') = length (pd_ctx_table s)"
    "p < length (pd_ctx_table s) \<Longrightarrow> pd_static (pd_ctx_table s' ! p) = pd_static (pd_ctx_table s ! p)"
proof -
  show len: "length (pd_ctx_table s') = length (pd_ctx_table s)"
    using arg_cong [OF assms, of length] by (simp add: pd_tree_def)
  show "p < length (pd_ctx_table s) \<Longrightarrow> pd_static (pd_ctx_table s' ! p) = pd_static (pd_ctx_table s ! p)"
    using arg_cong [OF assms, of "\<lambda>xs. xs ! p"] len by (simp add: pd_tree_def)
qed

lemma pd_requests_nth:
  assumes "pd_requests s' = pd_requests s" "p < length (pd_ctx_table s)"
  shows "pd_requested_state (pd_ctx_table s' ! p) = pd_requested_state (pd_ctx_table s ! p)"
    "pd_current_state (pd_ctx_table s' ! p) = pd_current_state (pd_ctx_table s ! p)"
proof -
  have "length (pd_ctx_table s') = length (pd_ctx_table s)"
    using arg_cong [OF assms(1), of length] by (simp add: pd_requests_def)
  then show "pd_requested_state (pd_ctx_table s' ! p) = pd_requested_state (pd_ctx_table s ! p)"
    "pd_current_state (pd_ctx_table s' ! p) = pd_current_state (pd_ctx_table s ! p)"
    using arg_cong [OF assms(1), of "\<lambda>xs. xs ! p"] assms(2) by (simp_all add: pd_requests_def)
qed

lemma allowed_by_child_static:
  assumes "pd_static a = pd_static b"
  shows "is_allowed_by_child a ps cs = is_allowed_by_child b ps cs"
  unfolding is_allowed_by_child_def pd_static_fields(4) [OF assms] ..

lemma tree_wf_static:
  assumes "pd_tree s' = pd_tree s" "tree_wf (pd_ctx_table s)"
  shows "tree_wf (pd_ctx_table s')"
proof -
  define t t' where "t = pd_ctx_table s" and "t' = pd_ctx_table s'"
  have len: "length t' = length t" using pd_tree_nth(1) [OF assms(1)] by (simp add: t_def t'_def)
  have par: "pd_parent (t' ! p) = pd_parent (t ! p)" and ch: "pd_children (t' ! p) = pd_children (t ! p)"
    if "p < length t" for p
    using pd_static_fields(1,2) [OF pd_tree_nth(2) [OF assms(1)]] that by (simp_all add: t_def t'_def)
  have "tree_wf t" using assms(2) by (simp add: t_def)
  then have "tree_wf t'"
    unfolding tree_wf_def len by (simp add: par ch cong: conj_cong option.case_cong)
  then show ?thesis by (simp add: t'_def)
qed

lemma requests_consistent_eq:
  assumes "pd_tree s' = pd_tree s" "pd_requests s' = pd_requests s" "tree_wf (pd_ctx_table s)"
    "requests_consistent (pd_ctx_table s)"
  shows "requests_consistent (pd_ctx_table s')"
proof -
  define t t' where "t = pd_ctx_table s" and "t' = pd_ctx_table s'"
  note tt = t_def [symmetric] t'_def [symmetric]
  note st = pd_tree_nth [OF assms(1), unfolded tt] and rq = pd_requests_nth [OF assms(2), unfolded tt]
  have "is_allowed_by_child (t' ! p) (pd_requested_state (t' ! q)) (pd_requested_state (t' ! p))"
    if p: "p < length t'" and q: "pd_parent (t' ! p) = Some q" for p q
  proof -
    have p': "p < length t" "pd_parent (t ! p) = Some q"
      using p q st(1) pd_static_fields(1) [OF st(2)] by auto
    then have q': "q < length t" "is_allowed_by_child (t ! p) (pd_requested_state (t ! q)) (pd_requested_state (t ! p))"
      using tree_wf_parent(1) [of t p q] requests_consistentD [of t p q] assms(3,4) unfolding tt by blast+
    then show ?thesis
      using rq(1) [OF p'(1)] rq(1) [OF q'(1)] allowed_by_child_static [OF st(2) [OF p'(1)]] by simp
  qed
  then show ?thesis unfolding tt by (rule requests_consistentI)
qed

definition pd_consistent :: "'a pd_state_scheme \<Rightarrow> bool" where
  "pd_consistent s \<longleftrightarrow> tree_wf (pd_ctx_table s) \<and> requests_consistent (pd_ctx_table s)"

lemma pd_consistent_eq:
  "pd_consistent s \<Longrightarrow> pd_tree s' = pd_tree s \<Longrightarrow> pd_requests s' = pd_requests s \<Longrightarrow> pd_consistent s'"
  using tree_wf_static requests_consistent_eq by (auto simp: pd_consistent_def)

text \<open>The checks before a new state is recorded are what keeps the tree consistent.\<close>

lemma record_request_consistent:
  assumes c: "pd_consistent s" and p: "get_pd p s = Some pd"
    and parent: "\<And>q parent. pd_parent pd = Some q \<Longrightarrow> get_pd q s = Some parent \<Longrightarrow>
      is_allowed_by_child pd (pd_requested_state parent) state"
    and children: "is_allowed_by_children (pd_ctx_table s) pd state"
    and f: "\<And>pd. pd_static (f pd) = pd_static pd" "\<And>pd. pd_requested_state (f pd) = state"
  shows "pd_consistent (upd_pd p f s)"
proof -
  define tbl where "tbl = pd_ctx_table s"
  have wf: "tree_wf tbl" and rc: "requests_consistent tbl" using c by (simp_all add: pd_consistent_def tbl_def)
  have pd: "p < length tbl" "pd = tbl ! p"
    using p by (auto simp: get_pd_def pd_at_def tbl_def split: if_splits)
  have st: "pd_static ((tbl[p := f pd]) ! c) = pd_static (tbl ! c)" if "c < length tbl" for c
    using that pd f(1) by (cases "c = p") simp_all
  have allowed: "is_allowed_by_child (tbl ! c) (pd_requested_state (tbl[p := f pd] ! q))
      (pd_requested_state (tbl[p := f pd] ! c))"
    if c: "c < length tbl" and par: "pd_parent (tbl ! c) = Some q" for c q
  proof -
    have q: "q < length tbl" "q \<noteq> c" "c \<in> set (pd_children (tbl ! q))"
      using tree_wf_parent [OF wf c par] by blast+
    consider "c = p" | "q = p" | "c \<noteq> p" "q \<noteq> p" by blast
    then show ?thesis
    proof cases
      case 1
      then show ?thesis
        using par q pd parent [of q "tbl ! q"] by (simp add: f(2) get_pd_def pd_at_def tbl_def)
    next
      case 2
      then show ?thesis
        using c q pd children by (auto simp: f(2) is_allowed_by_children_def tbl_def)
    next
      case 3
      then show ?thesis using requests_consistentD [OF rc c par] by simp
    qed
  qed
  have "requests_consistent (tbl[p := f pd])"
  proof (rule requests_consistentI)
    fix c q assume "c < length (tbl[p := f pd])" "pd_parent (tbl[p := f pd] ! c) = Some q"
    then have "c < length tbl" "pd_parent (tbl ! c) = Some q"
      using pd_static_fields(1) [OF st [of c]] by simp_all
    then show "is_allowed_by_child (tbl[p := f pd] ! c) (pd_requested_state (tbl[p := f pd] ! q))
        (pd_requested_state (tbl[p := f pd] ! c))"
      using allowed [of c q] allowed_by_child_static [OF st [of c]] by blast
  qed
  moreover have "tree_wf (pd_ctx_table (upd_pd p f s))"
    by (rule tree_wf_static [of _ s]) (use wf f in \<open>simp_all add: pd_tree_upd pd_dynamic_def tbl_def\<close>)
  ultimately show ?thesis
    using pd by (simp add: pd_consistent_def upd_pd_def tbl_def)
qed

lemma pd_requests_upd_any:
  "pd_requests (upd_pd p f s) = (pd_requests s)[p := (pd_requested_state (f (pd_ctx_table s ! p)),
    pd_current_state (f (pd_ctx_table s ! p)))]"
  by (simp add: pd_requests_def upd_pd_def map_update)

lemma pd_requests_own:
  "p < length (pd_ctx_table s) \<Longrightarrow> (pd_requests s)[p := (pd_requested_state (pd_ctx_table s ! p),
    pd_current_state (pd_ctx_table s ! p))] = pd_requests s"
  using list_update_id [of "pd_requests s" p] unfolding pd_requests_def by (simp only: nth_map)

lemma restore_request_consistent:
  assumes c: "pd_consistent s" and p: "get_pd p s = Some pd"
    and f: "pd_dynamic f" "pd_current_state (f pd) = pd_current_state pd"
    and t: "pd_tree t = pd_tree (upd_pd p f s)" "pd_requests t = pd_requests (upd_pd p f s)"
  shows "pd_consistent (upd_pd p (\<lambda>x. x\<lparr>pd_requested_state := pd_requested_state pd\<rparr>) t)"
proof (rule pd_consistent_eq [OF c])
  have pd: "p < length (pd_ctx_table s)" "pd = pd_ctx_table s ! p"
    using p by (auto simp: get_pd_def pd_at_def split: if_splits)
  then have p': "p < length (pd_ctx_table (upd_pd p f s))" by (simp add: upd_pd_def)
  show "pd_tree (upd_pd p (\<lambda>x. x\<lparr>pd_requested_state := pd_requested_state pd\<rparr>) t) = pd_tree s"
    using t(1) f(1) by (simp add: pd_tree_upd)
  have "pd_current_state (pd_ctx_table t ! p) = pd_current_state pd"
    using pd_requests_nth(2) [OF t(2) p'] pd f(2) by (simp add: upd_pd_def)
  then show "pd_requests (upd_pd p (\<lambda>x. x\<lparr>pd_requested_state := pd_requested_state pd\<rparr>) t) = pd_requests s"
    using pd pd_requests_own [OF pd(1)] by (simp add: pd_requests_upd_any t(2))
qed

lemma set_state_domain_consistent:
  fixes s :: "'a pd_state_scheme"
  assumes env: "drivers_keep_requests env" and c: "pd_consistent s"
  shows "holds (\<lambda>(r, s'). pd_consistent s') (set_state_domain env p state l s)"
proof (cases "get_pd p s")
  case None
  then show ?thesis by (simp add: set_state_domain_def)
next
  case (Some pd)
  define f :: "pd_ctx \<Rightarrow> pd_ctx" where "f = (\<lambda>pd. pd\<lparr>pd_requested_state := state, pd_pre_transition_notification :=
          (pd_pre_transition_notification pd)\<lparr>pn_valid := False\<rparr>\<rparr>)"
  define s1 where "s1 = upd_pd p f s"
  let ?same = "\<lambda>t :: 'a pd_state_scheme. pd_tree t = pd_tree s1 \<and> pd_requests t = pd_requests s1"
  have keep: "drivers_keep ?same env" using env by (simp add: drivers_keep_requests_def)
  have restore: "pd_consistent (upd_pd p (\<lambda>x. x\<lparr>pd_requested_state := pd_requested_state pd\<rparr>) t)" if "?same t" for t
    using restore_request_consistent [OF c Some, of f t] that by (simp add: s1_def f_def)
  have s1: "pd_consistent s1" if "is_allowed_by_children (pd_ctx_table s) pd state"
    "(case pd_parent pd of None \<Rightarrow> Some True
      | Some q \<Rightarrow> do { parent \<leftarrow> get_pd q s; Some (is_allowed_by_child pd (pd_requested_state parent) state) }) = Some True"
    unfolding s1_def using that
    by (intro record_request_consistent [OF c Some]) (auto simp: f_def)
  have same: "pd_consistent t" if "?same t" "pd_consistent s1" for t
    by (rule pd_consistent_eq [OF that(2)]) (use that(1) in simp_all)
  show ?thesis
    unfolding set_state_domain_def Some Let_def f_def [symmetric] s1_def [symmetric] Option.bind.simps
    by
      (intro holds_if holds_bind [OF pd_req.delayed_response] holds_bind_pair [OF pd_req.pre_transition_wrapper]
      holds_bind_pair [OF pd_req.transition [OF keep]] holds_steps; auto simp: c intro: same s1 restore)
qed

lemma set_state_loop_consistent:
  assumes "drivers_keep_requests env"
  shows "pd_consistent s \<Longrightarrow>
    holds (\<lambda>(r, s'). pd_consistent s') (set_state_loop env lowest up table cs highest is l s)"
proof (induction "is" arbitrary: l s)
  case (Cons i "is")
  show ?case
    unfolding set_state_loop.simps Let_def
    by (intro holds_bind_pair [OF set_state_domain_consistent [OF assms]] holds_steps) (auto intro: Cons)
qed simp

lemma pd_consistent_other_fields [simp]:
  "pd_consistent (s\<lparr>system_suspend := x\<rparr>) = pd_consistent s"
  "pd_consistent (s\<lparr>suspend_notifications_count := m\<rparr>) = pd_consistent s"
  by (simp_all add: pd_consistent_def)

lemma pd_consistent_upd_quiet: "pd_consistent s \<Longrightarrow> pd_quiet f \<Longrightarrow> pd_consistent (upd_pd p f s)"
  by (erule pd_consistent_eq) (simp_all add: pd_tree_upd pd_quiet_dynamic pd_requests_upd)

lemma set_state_consistent:
  assumes "drivers_keep_requests env" "pd_consistent s"
  shows "holds (\<lambda>(r, s'). pd_consistent s') (process_set_state_request env p e r0 s)"
  unfolding process_set_state_request_def Let_def
  by (intro holds_bind_pair [OF set_state_loop_consistent [OF assms(1)]] holds_steps)
    (auto simp: assms(2) pd_consistent_upd_quiet)

lemma complete_suspend_consistent:
  assumes "drivers_keep_requests env" "pd_consistent s"
  shows "holds (\<lambda>(r, s'). pd_consistent s') (complete_system_suspend env p s)"
  unfolding complete_system_suspend_def Let_def
  by (intro holds_bind_pair [OF set_state_consistent [OF assms(1)]] holds_steps) (auto simp: assms(2))

text \<open>A report leaves the requests alone: the requested state it writes is the current state, which it
  has just set to the requested one. \<open>settled\<close> says that the two agree.\<close>

definition settled :: "nat \<Rightarrow> 'a pd_state_scheme \<Rightarrow> bool" where
  "settled p s \<longleftrightarrow> pd_consistent s \<and> (p < length (pd_ctx_table s) \<longrightarrow>
    pd_requested_state (pd_ctx_table s ! p) = pd_current_state (pd_ctx_table s ! p))"

lemma settled_eq:
  assumes "settled p s" "pd_tree s' = pd_tree s" "pd_requests s' = pd_requests s"
  shows "settled p s'"
  using assms(1) pd_consistent_eq [OF _ assms(2,3)] pd_tree_nth(1) [OF assms(2)] pd_requests_nth [OF assms(3), of p]
  by (auto simp: settled_def)

lemma drivers_keep_settled: "drivers_keep_requests env \<Longrightarrow> drivers_keep (settled p) env"
  by (rule drivers_keep_mono [where K = "\<lambda>s0 s. pd_tree s = pd_tree s0 \<and> pd_requests s = pd_requests s0"])
    (auto simp: drivers_keep_requests_def intro: settled_eq)

interpretation pd_settled: pd_request_invariant "settled p" for p
proof (unfold_locales, goal_cases)
  case (1 s e)
  then show ?case using pd_req.put_event [of s "pd_tree s" "pd_requests s" e]
    by (auto elim!: holds_mono intro: settled_eq)
next
  case (2 s e n)
  then show ?case using pd_req.notify [of s "pd_tree s" "pd_requests s" e n]
    by (auto elim!: holds_mono intro: settled_eq)
next
  case (3 s f q)
  then show ?case by (auto intro: settled_eq simp: pd_tree_upd pd_quiet_dynamic pd_requests_upd)
qed

lemma settled_consistent: "settled p s \<Longrightarrow> pd_consistent s"
  by (simp add: settled_def)

lemma settle:
  assumes "pd_consistent s"
  shows "settled p (upd_pd p (\<lambda>pd. pd\<lparr>pd_current_state := pd_requested_state pd\<rparr>) s)"
proof -
  let ?t = "upd_pd p (\<lambda>pd. pd\<lparr>pd_current_state := pd_requested_state pd\<rparr>) s"
  have req: "pd_requested_state (pd_ctx_table ?t ! q) = pd_requested_state (pd_ctx_table s ! q)" for q
    by (cases "p < length (pd_ctx_table s)") (auto simp: upd_pd_def nth_list_update list_update_beyond)
  have tree: "pd_tree ?t = pd_tree s" by (simp add: pd_tree_upd)
  note st = pd_tree_nth [OF tree]
  have "requests_consistent (pd_ctx_table ?t)"
  proof (rule requests_consistentI)
    fix c q assume c: "c < length (pd_ctx_table ?t)" "pd_parent (pd_ctx_table ?t ! c) = Some q"
    then have c': "c < length (pd_ctx_table s)" using st(1) by simp
    have "pd_parent (pd_ctx_table s ! c) = Some q"
      using c(2) pd_static_fields(1) [OF st(2) [OF c']] by simp
    from requests_consistentD [OF _ c' this] assms
    show "is_allowed_by_child (pd_ctx_table ?t ! c) (pd_requested_state (pd_ctx_table ?t ! q))
        (pd_requested_state (pd_ctx_table ?t ! c))"
      unfolding req allowed_by_child_static [OF st(2) [OF c']] by (simp add: pd_consistent_def)
  qed
  then show ?thesis
    using tree_wf_static [OF tree] assms by (simp add: settled_def pd_consistent_def) (simp add: upd_pd_def)
qed

lemma settled_request:
  assumes "settled p s"
  shows "settled p (upd_pd p (\<lambda>pd. pd\<lparr>pd_requested_state := pd_current_state pd,
    pd_state_requested_to_driver := pd_current_state pd\<rparr>) s)"
proof (cases "p < length (pd_ctx_table s)")
  case True
  then show ?thesis
    by (intro settled_eq [OF assms])
      (use pd_requests_own [OF True] assms in \<open>simp_all add: pd_requests_upd_any pd_tree_upd settled_def\<close>)
next
  case False
  then show ?thesis using assms by (simp add: upd_pd_def list_update_beyond)
qed

lemma settled_other_fields [simp]: "settled p (s\<lparr>system_suspend := x\<rparr>) = settled p s"
  by (simp add: settled_def)

lemma last_core_off_consistent:
  assumes "drivers_keep_requests env" "settled p s"
  shows "holds pd_consistent (last_core_off env q s)"
  unfolding last_core_off_def Let_def
  by (intro holds_bind_pair [OF complete_suspend_consistent [OF assms(1)]]
      holds_bind_pair [OF pd_settled.notify_counting] holds_steps)
    (use assms(2) in \<open>auto intro: settled_consistent\<close>)

lemma report_consistent:
  assumes "drivers_keep_requests env" "pd_consistent s"
  shows "holds pd_consistent (process_power_state_transition_report env p st s)"
proof -
  note env = drivers_keep_settled [OF assms(1), of p]
  have 1: "holds pd_consistent (if b then send_pd_set_state_delayed_response p st' s else Some s)"
    if "pd_consistent s" for b st' s
    using pd_req.delayed_response [of s "pd_tree s" "pd_requests s" p st'] that
    by (auto elim!: holds_mono intro: pd_consistent_eq)
  have 2: "holds (settled p)
      (if b then do { (_, s) \<leftarrow> notify_power_state_transition env p st' s; Some s } else Some s)"
    if "settled p s" for b st' s
    using that by (intro holds_if holds_bind_pair [OF pd_settled.notify_transition]) auto
  have 3: "holds pd_consistent (if b then last_core_off env p s else v)"
    if "settled p s" "\<not> b \<Longrightarrow> holds pd_consistent v" for b s v
    using that last_core_off_consistent [OF assms(1)] by simp
  have 4: "holds pd_consistent (if a then process_power_state_transition_report_deeper_state env p s
      else if b then process_power_state_transition_report_shallower_state env p s else Some s)"
    if "settled p s" for a b s
    using that pd_settled.report_deeper [OF env that, of p] pd_settled.report_shallower [OF env that, of p]
    by (auto elim!: holds_mono intro: settled_consistent)
  have 5: "pd_consistent (upd_pd p (\<lambda>pd. pd\<lparr>pd_transition_notification := g pd\<rparr>) (s\<lparr>system_suspend := x\<rparr>))"
    if "settled p s" for g s x
    using that by (intro pd_consistent_upd_quiet) (simp_all add: settled_consistent)
  show ?thesis
    unfolding process_power_state_transition_report_def Let_def
    by (intro holds_bind [OF 1] holds_bind [OF 2] 3 4 holds_steps)
      (auto intro: settle settled_request settled_consistent pd_consistent_upd_quiet 5 simp: assms(2))
qed

section \<open>Instances\<close>

definition pd_driver0 :: "'a pd_state_scheme mod_pd_driver_api" where
  "pd_driver0 = \<lparr>drv_set_state = Some (\<lambda>i st s. Some (FWK_SUCCESS, s)),
    drv_get_state = Some (\<lambda>i s. Some ((FWK_SUCCESS, MOD_PD_STATE_ON), s)),
    drv_reset = Some (\<lambda>i s. Some (FWK_SUCCESS, s)),
    drv_prepare_core_for_system_suspend = Some (\<lambda>i s. Some (FWK_SUCCESS, s)),
    drv_deny = Some (\<lambda>i st s. Some (False, s)), drv_shutdown = None\<rparr>"

definition pd_env0 :: "'a pd_state_scheme pd_env" where
  "pd_env0 = \<lparr>env_idx = 0, env_has_notification = False,
    env_module_config = (\<lambda>_. \<lparr>authorized_id_table = Some [FWK_ID_MODULE 1], authorized_id_table_size = 1,
      enable_system_suspend_notification = False\<rparr>),
    env_element_config = (\<lambda>_. pd_config0 MOD_PD_TYPE_CORE 3), env_driver = (\<lambda>_. pd_driver0),
    env_public_api = 1, env_restricted_api = 2, env_driver_input_api = 3\<rparr>"

definition pd_state0 :: pd_state where
  "pd_state0 = fwk_state.extend state2 (pd_state.fields (env_module_config (pd_env0 :: pd_state pd_env) 1) tree0 2
    \<lparr>sus_last_core_off_ongoing = False, sus_suspend_ongoing = False, sus_last_core_pd = None,
      sus_state = MOD_PD_STATE_OFF\<rparr>
    \<lparr>sd_ongoing = False, sd_notifications_count = 0, sd_system_shutdown = 0, sd_is_response_requested = False,
      sd_is_delayed_response = False, sd_cookie = 0\<rparr> 0)"

lemma pd_state0_fields [simp]:
  "pd_ctx_table pd_state0 = tree0" "dbg pd_state0 = dbg state2" "events pd_state0 = events state2"
  "pdm_config pd_state0 = env_module_config (pd_env0 :: pd_state pd_env) 1"
  by (simp_all add: pd_state0_def fwk_state.defs pd_state.defs)

lemma drivers_keep_env0: "drivers_keep I pd_env0"
  by (simp add: drivers_keep_def driver_keeps_def pd_env0_def pd_driver0_def)

lemma drivers_keep_requests_env0: "drivers_keep_requests pd_env0"
  by (simp add: drivers_keep_requests_def drivers_keep_env0)

lemma pd_consistent_state0: "pd_consistent pd_state0"
proof -
  have "tree_wf tree0" "requests_consistent tree0" by code_simp+
  then show ?thesis by (simp add: pd_consistent_def)
qed

definition set_state0 :: fwk_event where
  "set_state0 = pd_request (pd_env0 :: pd_state pd_env) PD_EVENT_IDX_SET_STATE (FWK_ID_ELEMENT 1 0)
    (FWK_ID_ELEMENT 0 0) True 0x20111"

section \<open>Properties\<close>

text \<open>C5. The requested states stay consistent. Whatever a set state request, a report of a driver or a
  reset request asks for, if every domain allows the state requested for its parent together with its
  own before the event, it does after it; so no event makes the module request a combination of states
  the configuration forbids, even when a driver refuses a transition half-way. The drivers are only
  assumed not to write the module's requested and current states.\<close>

theorem requests_stay_consistent:
  assumes "drivers_keep_requests env" "pd_consistent s"
    and "fwk_id_get_event_idx (ev_id e) \<in> {Some PD_EVENT_IDX_SET_STATE, Some PD_EVENT_IDX_RESET,
      Some PD_EVENT_IDX_REPORT_POWER_STATE_TRANSITION}"
    and "pd_process_event env e resp s = Some (r, s')"
  shows "pd_consistent s'"
proof -
  have reset: "holds (\<lambda>(r, s'). pd_consistent s') (process_reset_request env p s)" for p
  proof -
    have "drivers_keep pd_consistent env"
      by (rule drivers_keep_mono [where K = "\<lambda>s0 s. pd_tree s = pd_tree s0 \<and> pd_requests s = pd_requests s0"])
        (use assms(1) in \<open>auto simp: drivers_keep_requests_def intro: pd_consistent_eq\<close>)
    then show ?thesis
      unfolding process_reset_request_def using assms(2)
      by (intro holds_steps) (auto intro: driver_keeps_fun(3))
  qed
  have "holds (\<lambda>(r, s'). pd_consistent s') (pd_process_event env e resp s)"
    unfolding pd_process_event_def
    by (intro holds_if holds_bind_pair [OF set_state_consistent [OF assms(1)]] holds_bind_pair [OF reset]
        holds_bind [OF report_consistent [OF assms(1)]] holds_steps) (use assms(2,3) in auto)
  then show ?thesis using assms(4) by (auto dest: holdsD)
qed

theorem requests_stay_consistent_witness:
  "\<exists>r s'. pd_process_event pd_env0 set_state0 event_zero pd_state0 = Some (r, s') \<and> pd_consistent s' \<and>
    map pd_requested_state (pd_ctx_table s') = [MOD_PD_STATE_ON, MOD_PD_STATE_ON, MOD_PD_STATE_ON]"
proof -
  have "case pd_process_event pd_env0 set_state0 event_zero pd_state0 of None \<Rightarrow> False
    | Some (r, s') \<Rightarrow> map pd_requested_state (pd_ctx_table s') = [1, 1, 1]" by code_simp
  then obtain r s' where *: "pd_process_event pd_env0 set_state0 event_zero pd_state0 = Some (r, s')"
    "map pd_requested_state (pd_ctx_table s') = [1, 1, 1]" by (auto split: option.splits)
  have "fwk_id_get_event_idx (ev_id set_state0) = Some PD_EVENT_IDX_SET_STATE" by code_simp
  then have "pd_consistent s'"
    using requests_stay_consistent [OF drivers_keep_requests_env0 pd_consistent_state0 _ *(1)] by simp
  then show ?thesis using * by (intro exI [of _ r] exI [of _ s']) simp
qed

definition drivers_conserve_pool :: "'a pd_state_scheme pd_env \<Rightarrow> bool" where
  "drivers_conserve_pool env \<longleftrightarrow>
    (\<forall>P c. drivers_keep (\<lambda>s. pool s = P \<and> NULL \<notin># P \<and> current_event s = c) env)"

text \<open>The handlers reach the event structures only through the interfaces of the framework, so they meet the
  condition \<open>handler_conserves\<close> of the event core when the drivers do.\<close>

lemma pd_handlers_conserve:
  assumes "drivers_conserve_pool env"
  shows "handler_conserves (pd_process_event env) \<and> handler_conserves (pd_process_notification env)"
proof -
  have keep: "drivers_keep (\<lambda>s. pool s = P \<and> NULL \<notin># P \<and> current_event s = c) env" for P c
    using assms by (simp add: drivers_conserve_pool_def)
  show ?thesis
    unfolding handler_conserves_def
    using pd_pool.process_event [OF keep] pd_pool.process_notification [OF keep]
    by (fastforce dest: holdsD)
qed

text \<open>C7. Access to the interfaces. A bind request that succeeds leaves the state alone and was entitled
  to what it got: the public interface is given to anyone addressing the module; the restricted one
  only when no table of authorised identifiers is configured or the requester is in it; the driver
  input interface of a domain only to the entity its context names as its driver.\<close>

theorem pd_bind_authorised:
  assumes "pd_process_bind_request env source target i api s = Some ((FWK_SUCCESS, api'), s')"
  shows "s' = s \<and>
    (fwk_id_get_api_idx i = Some MOD_PD_API_IDX_PUBLIC \<and> api' = env_public_api env \<and>
      fwk_id_is_type target FWK_ID_TYPE_MODULE = Some True \<or>
     fwk_id_get_api_idx i = Some MOD_PD_API_IDX_RESTRICTED \<and> api' = env_restricted_api env \<and>
      fwk_id_is_type target FWK_ID_TYPE_MODULE = Some True \<and>
      (authorized_id_table_size (pdm_config s) = 0 \<or>
       (\<exists>table. authorized_id_table (pdm_config s) = Some table \<and>
         source \<in> set (take (authorized_id_table_size (pdm_config s)) table))) \<or>
     fwk_id_get_api_idx i = Some MOD_PD_API_IDX_DRIVER_INPUT \<and> api' = env_driver_input_api env \<and>
      fwk_id_is_type target FWK_ID_TYPE_ELEMENT = Some True \<and>
      (\<exists>pd. pd_of_id target s = Some pd \<and> source = pd_driver_id pd))"
proof -
  have eq: "a = b" if "fwk_id_is_equal a b = Some True" for a b
    using that by (auto simp: fwk_id_is_equal_def split: if_splits)
  have auth: "source \<in> set ids" if "is_authorized source ids = Some True" for ids
    using that by (induction ids) (auto split: if_splits dest: eq)
  obtain k where k: "fwk_id_get_api_idx i = Some k"
    using assms by (auto simp: pd_process_bind_request_def)
  note body = assms [unfolded pd_process_bind_request_def k Option.bind.simps]
  consider "k = MOD_PD_API_IDX_PUBLIC" | "k = MOD_PD_API_IDX_RESTRICTED" | "k = MOD_PD_API_IDX_DRIVER_INPUT"
    using body by (force split: if_splits)
  then show ?thesis
  proof cases
    case 1
    then show ?thesis using body k by (auto split: if_splits)
  next
    case 2
    then show ?thesis using body k by (auto split: if_splits dest!: auth)
  next
    case 3
    then show ?thesis using body k by (auto split: if_splits dest!: eq)
  qed
qed

theorem pd_bind_authorised_witness:
  "\<exists>s'. pd_process_bind_request pd_env0 (FWK_ID_MODULE 1) (FWK_ID_MODULE 0) (FWK_ID_API 0 1) 0 pd_state0 =
      Some ((FWK_SUCCESS, 2), s') \<and> s' = pd_state0"
proof -
  have "map_option fst (pd_process_bind_request pd_env0 (FWK_ID_MODULE 1) (FWK_ID_MODULE 0) (FWK_ID_API 0 1) 0
      pd_state0) = Some (FWK_SUCCESS, 2)" by code_simp
  then show ?thesis
    using pd_bind_authorised [of pd_env0 "FWK_ID_MODULE 1" "FWK_ID_MODULE 0" "FWK_ID_API 0 1" 0 pd_state0 2]
    by fastforce
qed

end
