(* ===== verification/Pd_System.thy ===== *)
theory Pd_System
  imports Pd_Props
begin

text \<open>
  Operations of the power domain module on the whole tree: its construction from the configuration,
  the composite state read back for a branch, system suspend and system shutdown.
\<close>

section \<open>The tree of domains follows the configuration\<close>

definition parent_idx :: "pd_ctx list \<Rightarrow> nat \<Rightarrow> nat" where
  "parent_idx tbl p = unat (pc_parent_idx (pd_config (tbl ! p)))"

text \<open>The contexts after the first \<open>k\<close> turns of the loop.\<close>

definition connected :: "pd_ctx list \<Rightarrow> nat \<Rightarrow> pd_ctx list \<Rightarrow> bool" where
  "connected tbl k t \<longleftrightarrow> length t = length tbl \<and> (\<forall>p < length tbl.
    pd_config (t ! p) = pd_config (tbl ! p) \<and>
    pd_parent (t ! p) = (if p < k then if parent_idx tbl p < length tbl then Some (parent_idx tbl p) else None
      else pd_parent (tbl ! p)) \<and>
    pd_children (t ! p) = pd_children (tbl ! p) @ filter (\<lambda>i. parent_idx tbl i = p) [0..<k])"

lemma connect_pd_step:
  assumes "connected tbl k (pd_ctx_table s)" "k < length tbl"
  shows "\<exists>s'. connect_pd k s = Some s' \<and> connected tbl (Suc k) (pd_ctx_table s')"
proof -
  have len: "length (pd_ctx_table s) = length tbl" using assms(1) by (simp add: connected_def)
  have idx: "unat (pc_parent_idx (pd_config (pd_ctx_table s ! k))) = parent_idx tbl k"
    using assms by (simp add: connected_def parent_idx_def)
  define s' where "s' = (if parent_idx tbl k \<ge> length tbl then upd_pd k (\<lambda>pd. pd\<lparr>pd_parent := None\<rparr>) s
    else upd_pd (parent_idx tbl k) (\<lambda>pd. pd\<lparr>pd_children := pd_children pd @ [k]\<rparr>)
      (upd_pd k (\<lambda>pd. pd\<lparr>pd_parent := Some (parent_idx tbl k)\<rparr>) s))"
  have "connect_pd k s = Some s'"
    using assms(2) by (simp add: connect_pd_def get_pd_def pd_at_def len idx s'_def Let_def)
  moreover have "connected tbl (Suc k) (pd_ctx_table s')"
    using assms unfolding connected_def
    by (auto simp: s'_def upd_pd_def nth_list_update less_Suc_eq)
  ultimately show ?thesis by blast
qed

text \<open>C9. The tree. On contexts without children, \<open>connect_pd_tree\<close> always succeeds and builds exactly the
  tree of the configuration: a domain's parent is the one its configuration names when that index is
  the index of a domain and none otherwise, and the children of a domain are, in increasing order,
  the domains that name it as their parent. If no domain names itself, every child and every parent
  recorded is a domain of the table and the two relations are converse.\<close>

theorem connect_pd_tree_builds:
  assumes "\<And>p. p < length (pd_ctx_table s) \<Longrightarrow> pd_children (pd_ctx_table s ! p) = []"
    and "t = pd_ctx_table s"
  shows "\<exists>s'. connect_pd_tree s = Some (FWK_SUCCESS, s') \<and> length (pd_ctx_table s') = length t \<and>
    (\<forall>p < length t.
      pd_parent (pd_ctx_table s' ! p) = (if parent_idx t p < length t then Some (parent_idx t p) else None) \<and>
      pd_children (pd_ctx_table s' ! p) = filter (\<lambda>i. parent_idx t i = p) [0..<length t]) \<and>
    ((\<forall>p < length t. parent_idx t p \<noteq> p) \<longrightarrow> tree_wf (pd_ctx_table s'))"
proof -
  have "connected t 0 (pd_ctx_table s)" using assms by (simp add: connected_def)
  from for_each_total [of "\<lambda>k s. connected t k (pd_ctx_table s)" s "[0..<length t]" connect_pd, OF this]
  obtain s' where s': "for_each connect_pd [0..<length t] s = Some s'" "connected t (length t) (pd_ctx_table s')"
    using connect_pd_step [of t] by (auto simp del: upt_Suc)
  have "connect_pd_tree s = Some (FWK_SUCCESS, s')"
    using s'(1) assms(2) by (simp add: connect_pd_tree_def)
  moreover have "tree_wf (pd_ctx_table s')" if "\<forall>p < length t. parent_idx t p \<noteq> p"
    using s'(2) that assms by (auto simp: connected_def tree_wf_def)
  ultimately show ?thesis using s'(2) assms by (auto simp: connected_def)
qed

definition tree1 :: "pd_ctx list" where
  "tree1 = map (\<lambda>pd. pd\<lparr>pd_children := [], pd_parent := None\<rparr>) tree0"

theorem connect_pd_tree_builds_witness:
  "\<exists>s'. connect_pd_tree (pd_state0\<lparr>pd_ctx_table := tree1\<rparr>) = Some (FWK_SUCCESS, s') \<and>
    pd_children (pd_ctx_table s' ! 1) = [0] \<and> tree_wf (pd_ctx_table s')"
proof -
  have t: "length tree1 = 3" "filter (\<lambda>i. parent_idx tree1 i = 1) [0..<3] = [0]"
    "\<forall>p < length tree1. parent_idx tree1 p \<noteq> p" by code_simp+
  have "pd_children (tree1 ! p) = []" if "p < length tree1" for p
    using that by (simp add: tree1_def)
  then obtain s' where "connect_pd_tree (pd_state0\<lparr>pd_ctx_table := tree1\<rparr>) = Some (FWK_SUCCESS, s')"
    "\<forall>p < length tree1. pd_children (pd_ctx_table s' ! p) = filter (\<lambda>i. parent_idx tree1 i = p) [0..<length tree1]"
    "tree_wf (pd_ctx_table s')"
    using connect_pd_tree_builds [of "pd_state0\<lparr>pd_ctx_table := tree1\<rparr>" tree1] t(3) by auto
  then show ?thesis using t by (intro exI [of _ s']) simp
qed

section \<open>The composite state of a branch\<close>

text \<open>The domains from \<open>p\<close> to the root, at most \<open>n\<close> of them.\<close>

fun branch :: "pd_ctx list \<Rightarrow> nat \<Rightarrow> nat \<Rightarrow> pd_ctx list option" where
  "branch tbl p 0 = Some []"
| "branch tbl p (Suc n) = do {
    pd \<leftarrow> pd_at tbl p;
    (case pd_parent pd of None \<Rightarrow> Some [pd]
     | Some q \<Rightarrow> do { rest \<leftarrow> branch tbl q n; Some (pd # rest) }) }"

fun fields :: "nat list \<Rightarrow> u32 list \<Rightarrow> u32" where
  "fields (k # ks) (x # xs) = push_bit k x OR fields ks xs"
| "fields _ _ = 0"

lemma composite_loop_fields:
  assumes "branch tbl p (length masks) = Some b" "masks \<noteq> []"
  shows "composite_loop tbl f masks p cs level =
    Some (cs OR fields (map number_of_bits_to_shift masks) (map f b), level + of_nat (length b))"
  using assms
proof (induction masks arbitrary: p cs level b)
  case (Cons msk masks)
  then obtain pd where pd: "pd_at tbl p = Some pd" by auto
  show ?case
  proof (cases "pd_parent pd")
    case None
    then show ?thesis using Cons.prems pd by (auto simp: Let_def)
  next
    case (Some q)
    then obtain rest where rest: "branch tbl q (length masks) = Some rest" "b = pd # rest"
      using Cons.prems pd by auto
    show ?thesis
    proof (cases "masks = []")
      case True
      then show ?thesis using rest pd Some by (simp add: Let_def)
    next
      case False
      then show ?thesis using Cons.IH [OF rest(1) False] rest pd Some by (simp add: Let_def or.assoc add.assoc)
    qed
  qed
qed simp

lemma bit_fields:
  "length xs \<le> length ks \<Longrightarrow>
    bit (fields ks xs) n \<longleftrightarrow> n < 32 \<and> (\<exists>i < length xs. ks ! i \<le> n \<and> bit (xs ! i) (n - ks ! i))"
proof (induction ks xs rule: fields.induct)
  case (1 k ks x xs)
  then show ?case by (simp add: bit_or_iff bit_push_bit_iff Ex_less_Suc2) blast
qed auto

lemma fields_nibble:
  assumes "length xs \<le> 4" "\<forall>x \<in> set xs. x < 16" "i < length xs"
  shows "take_bit 4 (drop_bit (i * 4) (fields [0, 4, 8, 12] xs)) = xs ! i"
proof (rule bit_eqI)
  fix n assume "possible_bit TYPE(32 word) n"
  have ks: "[0, 4, 8, 12] ! j = 4 * j" if "j < length xs" for j
  proof -
    have "j \<in> {0, 1, 2, 3}" using that assms(1) by auto
    then show ?thesis by auto
  qed
  have nib: "bit (xs ! j) m \<Longrightarrow> m < 4" if "j < length xs" for j m
    using nibble_bits [of "xs ! j"] assms(2) that by simp
  have "bit (fields [0, 4, 8, 12] xs) (i * 4 + n) \<longleftrightarrow> bit (xs ! i) n" if "n < 4"
  proof -
    have "bit (xs ! i) n" if "j < length xs" "4 * j \<le> i * 4 + n" "bit (xs ! j) (i * 4 + n - 4 * j)" for j
    proof -
      have "j = i" using nib [OF that(1,3)] that(2) \<open>n < 4\<close> by simp
      then show ?thesis using that(3) by simp
    qed
    moreover have "i < 4" using assms(1,3) by simp
    ultimately show ?thesis
      using assms(1,3) that ks by (auto simp: bit_fields)
  qed
  then show "bit (take_bit 4 (drop_bit (i * 4) (fields [0, 4, 8, 12] xs))) n = bit (xs ! i) n"
    using nib [OF assms(3), of n] by (auto simp: bit_take_bit_iff bit_drop_bit_eq)
qed

lemma fields_high:
  assumes "length xs \<le> 4" "\<forall>x \<in> set xs. x < 16" "bit (fields [0, 4, 8, 12] xs) n"
  shows "n < 16"
proof -
  obtain j where j: "j < length xs" "bit (xs ! j) (n - [0, 4, 8, 12] ! j)"
    using assms(1,3) by (auto simp: bit_fields)
  have "j \<in> {0, 1, 2, 3}" using j(1) assms(1) by auto
  then have "[0, 4, 8, 12] ! j \<le> (12 :: nat)" by auto
  moreover have "n - [0, 4, 8, 12] ! j < 4"
    using nibble_bits [OF _ j(2)] assms(2) j(1) by simp
  ultimately show ?thesis by simp
qed

lemma branch_length: "branch tbl p (Suc n) = Some b \<Longrightarrow> 0 < length b \<and> length b \<le> Suc n"
proof (induction n arbitrary: p b)
  case 0
  then show ?case by (auto split: option.splits)
next
  case (Suc n)
  obtain pd where "pd_at tbl p = Some pd" using Suc.prems by auto
  then show ?case
  proof (cases "pd_parent pd")
    case None
    then show ?thesis using Suc.prems \<open>pd_at tbl p = Some pd\<close> by auto
  next
    case (Some q)
    then obtain rest where "branch tbl q (Suc n) = Some rest" "b = pd # rest"
      using Suc.prems \<open>pd_at tbl p = Some pd\<close> by (auto simp del: branch.simps(2) simp: branch.simps(2) [of tbl p])
    then show ?thesis using Suc.IH [of q rest] by simp
  qed
qed

text \<open>C8. Reading the state of a domain back. For a domain with the default composite state layout whose
  branch has at most four levels, all in states below 16, the composite state returned holds at every
  level \<open>i\<close> the current state of the \<open>i\<close>-th ancestor, and its highest level is the number of levels
  above the domain: decoding it with the functions the module uses on requests gives the branch back.\<close>

theorem get_state_reads_branch:
  assumes "get_pd p s = Some pd" "pd_cs_support pd"
    and "pd_composite_state_mask_table pd = core_composite_state_mask_table"
    and "pd_composite_state_levels_mask pd = push_bit MOD_PD_CS_LEVEL_SHIFT MOD_PD_CS_STATE_MASK"
    and "branch (pd_ctx_table s) p 4 = Some b" "\<forall>d \<in> set b. pd_current_state d < 16"
  shows "\<exists>cs. process_get_state_request p s = Some cs \<and>
    (\<forall>i < length b. get_level_state_from_composite_state core_composite_state_mask_table cs i =
      Some (pd_current_state (b ! i))) \<and>
    get_highest_level_from_composite_state (pd_ctx_table s) p cs = Some (int (length b) - 1)"
proof -
  have len: "0 < length b" "length b \<le> 4"
    using branch_length [of "pd_ctx_table s" p 3 b] assms(5) by simp_all
  have shifts: "map number_of_bits_to_shift core_composite_state_mask_table = [0, 4, 8, 12]"
    "number_of_bits_to_shift (push_bit MOD_PD_CS_LEVEL_SHIFT MOD_PD_CS_STATE_MASK) = 16"
    "length core_composite_state_mask_table = 4" "core_composite_state_mask_table \<noteq> []"
    "push_bit MOD_PD_CS_LEVEL_SHIFT MOD_PD_CS_STATE_MASK \<noteq> 0" by code_simp+
  define xs where "xs = map pd_current_state b"
  define cs where "cs = fields [0, 4, 8, 12] xs OR push_bit 16 (of_nat (length b) - 1)"
  have xs: "length xs \<le> 4" "\<forall>x \<in> set xs. x < 16" using len assms(6) by (auto simp: xs_def)
  have n1: "of_nat (length b) - (1 :: u32) = of_nat (length b - 1)" using len by (cases "length b") simp_all
  have "process_get_state_request p s = Some cs"
    using composite_loop_fields [of "pd_ctx_table s" p core_composite_state_mask_table b pd_current_state 0 0] assms shifts
    by (simp add: process_get_state_request_def cs_def xs_def or.assoc)
  moreover have "take_bit 4 (drop_bit (i * 4) cs) = xs ! i" if "i < length b" for i
  proof -
    have "take_bit 4 (drop_bit (i * 4) cs) = take_bit 4 (drop_bit (i * 4) (fields [0, 4, 8, 12] xs))"
      using that len by (intro bit_eqI) (auto simp: cs_def bit_simps)
    then show ?thesis using fields_nibble [OF xs, of i] that by (simp add: xs_def)
  qed
  moreover have "take_bit 4 (drop_bit 16 cs) = of_nat (length b - 1)"
  proof -
    define h :: u32 where "h = of_nat (length b - 1)"
    have "h < 16" using len by (simp add: h_def word_less_nat_alt unat_of_nat)
    then have h: "take_bit 4 h = h" by (simp add: take_bit_id_iff word_less_nat_alt)
    have "drop_bit 16 (fields [0, 4, 8, 12] xs) = 0"
      using fields_high [OF xs] by (intro bit_eqI) (auto simp: bit_drop_bit_eq)
    moreover have "take_bit 4 (drop_bit 16 (push_bit 16 h)) = take_bit 4 h"
      by (intro bit_eqI) (auto simp: bit_simps)
    ultimately show ?thesis
      using h unfolding cs_def n1 h_def [symmetric] drop_bit_or take_bit_or by simp
  qed
  moreover have "sint (of_nat (length b - 1) :: u32) = int (length b) - 1"
  proof -
    have "length b = 1 \<or> length b = 2 \<or> length b = 3 \<or> length b = 4" using len by linarith
    then show ?thesis by (elim disjE) simp_all
  qed
  ultimately show ?thesis
    using assms(1-4) shifts len core_level_state
    by (auto simp: get_level_state_from_composite_state_def get_highest_level_from_composite_state_def get_pd_def xs_def)
qed

theorem get_state_reads_branch_witness:
  "\<exists>cs. process_get_state_request 0 pd_state0 = Some cs \<and>
    get_highest_level_from_composite_state tree0 0 cs = Some 2 \<and>
    get_level_state_from_composite_state core_composite_state_mask_table cs 2 = Some MOD_PD_STATE_ON"
proof -
  have b: "branch tree0 0 4 = Some [tree0 ! 0, tree0 ! 1, tree0 ! 2]"
    by (simp add: tree0_def pd0_def pd_at_def numeral_nat)
  have "\<forall>d \<in> set [tree0 ! 0, tree0 ! 1, tree0 ! 2]. pd_current_state d < 16"
    "pd_current_state (tree0 ! 2) = MOD_PD_STATE_ON"
    by (simp_all add: tree0_def pd0_def)
  then show ?thesis
    using get_state_reads_branch [of 0 pd_state0 "tree0 ! 0" "[tree0 ! 0, tree0 ! 1, tree0 ! 2]"] b
    by (fastforce simp: get_pd_def pd_at_def tree0_def pd0_def)
qed

section \<open>System suspend\<close>

definition pd_active :: "mod_pd_type \<Rightarrow> pd_ctx \<Rightarrow> bool" where
  "pd_active type pd \<longleftrightarrow> pc_pd_type (pd_config pd) = type \<and>
    (pd_requested_state pd \<noteq> MOD_PD_STATE_OFF \<or> pd_current_state pd \<noteq> MOD_PD_STATE_OFF)"

text \<open>The indices, from \<open>i\<close> on, of the domains of a type that are not off.\<close>

fun actives :: "mod_pd_type \<Rightarrow> nat \<Rightarrow> pd_ctx list \<Rightarrow> nat list" where
  "actives type i [] = []"
| "actives type i (pd # pds) = (if pd_active type pd then i # actives type (i + 1) pds else actives type (i + 1) pds)"

definition one_of :: "nat option \<Rightarrow> nat list \<Rightarrow> nat option option" where
  "one_of found is = (case (found, is) of
    (found, []) \<Rightarrow> Some found | (None, [i]) \<Rightarrow> Some (Some i) | _ \<Rightarrow> None)"

lemma one_of_simps [simp]:
  "one_of found [] = Some found" "one_of None (i # is) = one_of (Some i) is" "one_of (Some j) (i # is) = None"
  by (simp_all add: one_of_def split: list.split option.split)

lemma find_last_pds_actives:
  "find_last_pds pds i (core, cluster) = do {
    core' \<leftarrow> one_of core (actives MOD_PD_TYPE_CORE i pds);
    cluster' \<leftarrow> one_of cluster (actives MOD_PD_TYPE_CLUSTER i pds);
    Some (core', cluster') }"
proof (induction pds arbitrary: i core cluster)
  case (Cons pd pds)
  have "one_of core (actives MOD_PD_TYPE_CORE i (pd # pds)) \<bind> (\<lambda>c. None) = (None :: (nat option \<times> nat option) option)"
    by (cases "one_of core (actives MOD_PD_TYPE_CORE i (pd # pds))") simp_all
  then show ?case
    using Cons.IH by (cases core; cases cluster) (auto simp: pd_active_def)
qed simp

text \<open>C10. System suspend. If more than one core, or more than one cluster, is not off (its requested or its
  current state is not \<open>MOD_PD_STATE_OFF\<close>), the request is refused with \<open>FWK_E_STATE\<close> and nothing
  changes. If exactly one core is not off and at most one cluster is, a request that succeeds has
  marked that core as the last one going off, recorded the state asked for the system, and requested
  \<open>MOD_PD_STATE_OFF\<close> for the core, whatever the drivers do.\<close>

theorem system_suspend_last_core:
  assumes "process_system_suspend_request env state s = Some (status, s')" "drivers_keep_requests env"
    and "cores = actives MOD_PD_TYPE_CORE 0 (pd_ctx_table s)"
    and "clusters = actives MOD_PD_TYPE_CLUSTER 0 (pd_ctx_table s)"
  shows "(length cores > 1 \<or> length clusters > 1 \<longrightarrow> status = FWK_E_STATE \<and> s' = s) \<and>
    (length clusters \<le> 1 \<and> cores = [c] \<and> status = FWK_SUCCESS \<longrightarrow>
      sus_last_core_off_ongoing (system_suspend s') \<and> sus_last_core_pd (system_suspend s') = Some c \<and>
      sus_state (system_suspend s') = state \<and> pd_requested_state (pd_ctx_table s' ! c) = MOD_PD_STATE_OFF)"
proof -
  have many: "one_of None is = None" if "length is > 1" for "is"
    using that by (cases "is"; cases "tl is") auto
  have few: "\<exists>x. one_of None is = Some x" if "length is \<le> 1" for "is"
    using that by (cases "is") auto
  have find: "find_last_pds (pd_ctx_table s) 0 (None, None) =
      do { x \<leftarrow> one_of None cores; y \<leftarrow> one_of None clusters; Some (x, y) }"
    by (simp add: find_last_pds_actives assms(3,4))
  have refused: "status = FWK_E_STATE \<and> s' = s" if "length cores > 1 \<or> length clusters > 1"
  proof -
    have "find_last_pds (pd_ctx_table s) 0 (None, None) = None"
      using that many unfolding find by (cases "one_of None cores") auto
    then show ?thesis using assms(1) by (simp add: process_system_suspend_request_def)
  qed
  have accepted: "sus_last_core_off_ongoing (system_suspend s') \<and> sus_last_core_pd (system_suspend s') = Some c \<and>
      sus_state (system_suspend s') = state \<and> pd_requested_state (pd_ctx_table s' ! c) = MOD_PD_STATE_OFF"
    if one: "length clusters \<le> 1" "cores = [c]" and ok: "status = FWK_SUCCESS"
  proof -
    obtain y where "find_last_pds (pd_ctx_table s) 0 (None, None) = Some (Some c, y)"
      using few [OF one(1)] by (auto simp: find one(2))
    then obtain pd api prepare t where pd: "get_pd c s = Some pd" and api: "driver_of env pd = Some api"
      and f: "drv_prepare_core_for_system_suspend api = Some prepare" "prepare (pd_driver_id pd) s = Some (status, t)"
      and s': "s' = upd_pd c (\<lambda>pd. pd\<lparr>pd_requested_state := MOD_PD_STATE_OFF,
            pd_state_requested_to_driver := MOD_PD_STATE_OFF\<rparr>)
          (t\<lparr>system_suspend := (system_suspend t)\<lparr>sus_last_core_off_ongoing := True,
            sus_last_core_pd := Some c, sus_state := state\<rparr>\<rparr>)"
      using assms(1) ok unfolding process_system_suspend_request_def Let_def by (auto split: if_splits)
    have "drivers_keep (\<lambda>t. pd_tree t = pd_tree s \<and> pd_requests t = pd_requests s) env"
      using assms(2) by (simp add: drivers_keep_requests_def)
    from driver_keeps_fun(4) [OF this api _ f(1), of s] f(2)
    have "pd_tree t = pd_tree s" by (auto dest: holdsD)
    then have "c < length (pd_ctx_table t)"
      using pd pd_tree_nth(1) [of t s] by (simp add: get_pd_def pd_at_def split: if_splits)
    then show ?thesis by (simp add: s' upd_pd_def)
  qed
  show ?thesis using refused accepted by blast
qed

text \<open>The tree with the core on.\<close>

definition tree2 :: "pd_ctx list" where
  "tree2 = [pd0 MOD_PD_TYPE_CORE 1 True (Some 1) [] 0 MOD_PD_STATE_ON,
    pd0 MOD_PD_TYPE_CLUSTER 2 False (Some 2) [0] 1 MOD_PD_STATE_ON,
    pd0 MOD_PD_TYPE_SYSTEM 3 False None [1] 2 MOD_PD_STATE_ON]"

theorem system_suspend_last_core_witness:
  "\<exists>s'. process_system_suspend_request pd_env0 MOD_PD_STATE_SLEEP (pd_state0\<lparr>pd_ctx_table := tree2\<rparr>) =
      Some (FWK_SUCCESS, s') \<and> sus_last_core_pd (system_suspend s') = Some 0 \<and>
    pd_requested_state (pd_ctx_table s' ! 0) = MOD_PD_STATE_OFF"
proof -
  let ?s = "pd_state0\<lparr>pd_ctx_table := tree2\<rparr>"
  have "map_option fst (process_system_suspend_request pd_env0 MOD_PD_STATE_SLEEP ?s) = Some FWK_SUCCESS"
    "actives MOD_PD_TYPE_CORE 0 tree2 = [0]" "actives MOD_PD_TYPE_CLUSTER 0 tree2 = [1]" by code_simp+
  then show ?thesis
    using system_suspend_last_core [OF _ drivers_keep_requests_env0, of MOD_PD_STATE_SLEEP ?s FWK_SUCCESS _ "[0]" "[1]" 0]
    by fastforce
qed

text \<open>The status of a completed suspend. \<open>complete_system_suspend\<close> on a domain with composite states
  always returns \<open>FWK_SUCCESS\<close>: the request it runs does not ask for a response, so
  \<open>process_set_state_request\<close> never writes the status that is then read, not even when a driver or the
  tree refused the transition.\<close>

theorem complete_system_suspend_status:
  assumes "complete_system_suspend env p s = Some (status, s')" "get_pd p s = Some pd" "pd_cs_support pd"
  shows "status = FWK_SUCCESS"
proof -
  have untouched: "r = resp" if "process_set_state_request env p e resp s = Some (r, t)" "\<not> ev_response_requested e"
    for r t e resp s
    using that by (auto simp: process_set_state_request_def Let_def)
  obtain cs level r t where "process_set_state_request env p (event_zero\<lparr>ev_params := cs\<rparr>) event_zero level = Some (r, t)"
    "status = sint (params_get32 0 (ev_params r))"
    using assms by (auto simp: complete_system_suspend_def Let_def)
  then have "status = sint (params_get32 0 params_zero)"
    by (auto dest!: untouched simp: event_zero_def)
  also have "\<dots> = FWK_SUCCESS" by code_simp
  finally show ?thesis .
qed

theorem complete_system_suspend_status_witness:
  "\<exists>s'. complete_system_suspend pd_env0 0 (pd_state0\<lparr>pd_ctx_table := tree2\<rparr>) = Some (FWK_SUCCESS, s')"
proof -
  let ?s = "pd_state0\<lparr>pd_ctx_table := tree2\<rparr>"
  have "case complete_system_suspend pd_env0 0 ?s of None \<Rightarrow> False | Some _ \<Rightarrow> True" by code_simp
  then obtain st s' where *: "complete_system_suspend pd_env0 0 ?s = Some (st, s')" by (auto split: option.splits)
  have "st = FWK_SUCCESS"
    using complete_system_suspend_status [OF *, of "tree2 ! 0"]
    by (simp add: get_pd_def pd_at_def tree2_def pd0_def)
  with * show ?thesis by blast
qed

section \<open>System shutdown\<close>

text \<open>A driver that does not implement the deferral of a shutdown.\<close>

definition drivers_shut_down_now :: "'a pd_state_scheme pd_env \<Rightarrow> bool" where
  "drivers_shut_down_now env \<longleftrightarrow> (\<forall>a f i sd s r s'. drv_shutdown (env_driver env a) = Some f \<longrightarrow>
    f i sd s = Some (r, s') \<longrightarrow> r \<noteq> FWK_PENDING)"

lemma holds_bind_both:
  "holds (\<lambda>(r, s). K r s) m \<Longrightarrow> (\<And>r s. K r s \<Longrightarrow> holds J (f r s)) \<Longrightarrow> holds J (m \<bind> case_prod f)"
  by (cases m) auto

lemma shutdown_pd_off:
  assumes env: "drivers_keep_requests env" "drivers_shut_down_now env"
  shows "holds (\<lambda>(pending, s'). \<not> pending \<and> pd_requests s' = (pd_requests s)[p := (MOD_PD_STATE_OFF, MOD_PD_STATE_OFF)])
    (shutdown_pd env sd p s)"
proof -
  let ?I = "\<lambda>t. pd_tree t = pd_tree s \<and> pd_requests t = pd_requests s"
  have keep: "drivers_keep ?I env" using env(1) by (simp add: drivers_keep_requests_def)
  have shut: "holds (\<lambda>(r, t). r \<noteq> FWK_PENDING \<and> ?I t) (f i sd s)"
    if d: "driver_of env pd = Some api" and f: "drv_shutdown api = Some f" for pd api f i
  proof -
    obtain a where "api = env_driver env a" using d by (auto simp: driver_of_def split: if_splits)
    then have "r \<noteq> FWK_PENDING" if "f i sd s = Some (r, t)" for r t
      using that f env(2) unfolding drivers_shut_down_now_def by blast
    then show ?thesis
      using driver_keeps_fun(5) [OF keep d _ f, of s i sd] by (auto simp: holds_def)
  qed
  have call: "holds (\<lambda>(pending, t). \<not> pending \<and> ?I t) (case drv_shutdown api of
        Some f \<Rightarrow> do { (status, s) \<leftarrow> f i sd s; Some (status = FWK_PENDING, s) }
      | None \<Rightarrow> do {
          (denied, s) \<leftarrow> driver_denies api i MOD_PD_STATE_OFF s;
          if denied then Some (False, s)
          else do {
            set_state \<leftarrow> drv_set_state api;
            (_, s) \<leftarrow> set_state i MOD_PD_STATE_OFF s;
            Some (False, s) } })"
    if "driver_of env pd = Some api" for api pd i
  proof (cases "drv_shutdown api")
    case None
    have set_state: "holds (\<lambda>(r, t). ?I t) (f j st t)" if "drv_set_state api = Some f" "?I t" for f j st t
      using driver_keeps_fun(1) [OF keep \<open>driver_of env pd = Some api\<close> that(2,1)] .
    show ?thesis
      unfolding None option.case
      by (rule holds_bind_pair [OF driver_keeps_fun(6) [OF keep that]], simp,
          intro holds_if holds_bind_any, simp, drule set_state, assumption) (auto simp: holds_def)
  next
    case (Some f)
    then show ?thesis using shut [OF that Some, of i] by (auto simp: holds_def)
  qed
  show ?thesis
    unfolding shutdown_pd_def
    by (intro holds_bind_both [OF call] holds_steps; assumption?) (auto simp: pd_requests_upd_any pd_requests_def [symmetric])
qed

lemma shutdown_loop_off:
  assumes env: "drivers_keep_requests env" "drivers_shut_down_now env"
  shows "holds (\<lambda>(pending, s'). \<not> pending \<and> length (pd_requests s') = length (pd_requests s) \<and>
    (\<forall>p < length (pd_requests s). pd_requests s' ! p =
      (if p \<in> set ps then (MOD_PD_STATE_OFF, MOD_PD_STATE_OFF) else pd_requests s ! p))) (shutdown_loop env sd ps s)"
proof (induction ps arbitrary: s)
  case (Cons q ps)
  show ?case
    unfolding shutdown_loop.simps
    by (rule holds_bind [OF shutdown_pd_off [OF env]])
      (auto intro!: holds_mono [OF Cons] simp: nth_list_update split: if_splits)
qed simp

text \<open>C11. System shutdown. When no driver defers the shutdown, \<open>perform_shutdown\<close> leaves every domain of
  the tree with its requested and its current state \<open>MOD_PD_STATE_OFF\<close>, even those whose driver denied or
  failed the transition, and the shutdown is no longer marked as ongoing.\<close>

theorem perform_shutdown_all_off:
  assumes "drivers_keep_requests env" "drivers_shut_down_now env"
    and "perform_shutdown env sd resp s = Some (resp', s')"
  shows "\<not> sd_ongoing (system_shutdown s') \<and> length (pd_ctx_table s') = length (pd_ctx_table s) \<and>
    (\<forall>pd \<in> set (pd_ctx_table s'). pd_requested_state pd = MOD_PD_STATE_OFF \<and> pd_current_state pd = MOD_PD_STATE_OFF)"
proof -
  let ?n = "length (pd_ctx_table s)"
  obtain pending t where t: "shutdown_loop env sd [0..<?n] s = Some (pending, t)"
    using assms(3) unfolding perform_shutdown_def by fast
  from holdsD [OF shutdown_loop_off [OF assms(1,2)] t]
  have "\<not> pending" and len: "length (pd_ctx_table t) = ?n"
    and off: "\<And>p. p < ?n \<Longrightarrow> pd_requests t ! p = (MOD_PD_STATE_OFF, MOD_PD_STATE_OFF)"
    by (auto simp: pd_requests_def)
  have "pd_requests s' = pd_requests t \<and> \<not> sd_ongoing (system_shutdown s')"
  proof -
    have "holds (\<lambda>(r, u). pd_tree u = pd_tree t \<and> pd_requests u = pd_requests t) (perform_shutdown_send_response env resp t)"
      unfolding perform_shutdown_send_response_def
      by (intro holds_if holds_bind_pair [OF pd_req.put_event] holds_steps pd_req.put_event) auto
    then show ?thesis
      using assms(3) t \<open>\<not> pending\<close> by (fastforce simp: perform_shutdown_def pd_requests_def holds_def split: if_splits)
  qed
  moreover from this have "length (pd_requests s') = length (pd_requests t)" by simp
  then have "length (pd_ctx_table s') = ?n"
  proof -
    assume "length (pd_requests s') = length (pd_requests t)"
    then show ?thesis using len by (simp add: pd_requests_def)
  qed
  ultimately show ?thesis
  proof -
    assume *: "pd_requests s' = pd_requests t \<and> \<not> sd_ongoing (system_shutdown s')"
      and l: "length (pd_ctx_table s') = ?n"
    have "pd_requested_state (pd_ctx_table s' ! p) = MOD_PD_STATE_OFF \<and>
        pd_current_state (pd_ctx_table s' ! p) = MOD_PD_STATE_OFF" if "p < ?n" for p
      using off [OF that] that len pd_requests_nth [OF conjunct1 [OF *], of p] by (simp add: pd_requests_def)
    then show ?thesis using * l by (auto simp: in_set_conv_nth)
  qed
qed

theorem perform_shutdown_all_off_witness:
  "\<exists>s'. perform_shutdown pd_env0 MOD_PD_SYSTEM_SHUTDOWN None (pd_state0\<lparr>pd_ctx_table := tree2\<rparr>) = Some (None, s') \<and>
    (\<exists>a b c. pd_ctx_table s' = [a, b, c] \<and> pd_current_state a = MOD_PD_STATE_OFF)"
proof -
  let ?s = "pd_state0\<lparr>pd_ctx_table := tree2\<rparr>"
  have "case perform_shutdown pd_env0 MOD_PD_SYSTEM_SHUTDOWN None ?s of None \<Rightarrow> False | Some (r, _) \<Rightarrow> r = None"
    by code_simp
  then obtain s' where *: "perform_shutdown pd_env0 MOD_PD_SYSTEM_SHUTDOWN None ?s = Some (None, s')"
    by (auto split: option.splits)
  have "drivers_shut_down_now pd_env0" by (simp add: drivers_shut_down_now_def pd_env0_def pd_driver0_def)
  from perform_shutdown_all_off [OF drivers_keep_requests_env0 this *]
  have "length (pd_ctx_table s') = 3" "\<forall>pd \<in> set (pd_ctx_table s'). pd_current_state pd = MOD_PD_STATE_OFF"
    by (simp_all add: tree2_def)
  then have "\<exists>a b c. pd_ctx_table s' = [a, b, c] \<and> pd_current_state a = MOD_PD_STATE_OFF"
    by (auto simp: numeral_3_eq_3 length_Suc_conv)
  with * show ?thesis by blast
qed

end
