(* ===== verification/Pldm_Queue.thy ===== *)
theory Pldm_Queue
  imports Fwk_Ring
begin

unbundle bit_operations_syntax

text \<open>
  The platform event queue of the PLDM firmware module (\<open>module/pldm_fw/src/mcp.c\<close>, types in
  \<open>internal/mod_pldm_fw_int.h\<close>): a ring of five event slots whose oldest event is discarded when a
  new one arrives on a full queue. The static counter \<open>event_id\<close> of \<open>event_queue_put\<close> is the second
  component of the state. The locale \<open>event_log\<close> is the interface the polling of events relies on.
\<close>

type_synonym u16 = "16 word"

definition EVENT_MAX_SIZE :: u32 where "EVENT_MAX_SIZE = 256"
definition EVENT_QUEUE_SIZE :: nat where "EVENT_QUEUE_SIZE = 5"
definition EVENT_MAX_BUFFER_SIZE :: u16 where "EVENT_MAX_BUFFER_SIZE = 32"

record pldm_event =
  pe_size :: u32
  pe_id :: u16
  pe_class :: u8
  pe_checksum :: u32
  pe_data :: "u8 list"

text \<open>The members \<open>head\<close>, \<open>tail\<close> and \<open>length\<close> are C \<open>int\<close>s that only take the values \<open>0 .. 5\<close>.\<close>

record pldm_event_queue =
  eq_head :: nat
  eq_tail :: nat
  eq_length :: nat
  eq_events :: "pldm_event list"

section \<open>Operations\<close>

definition next_event_id :: "u16 \<Rightarrow> u16" where
  "next_event_id event_id = (if event_id + 1 = 0xffff then 1 else event_id + 1)"

definition event_queue_put ::
  "u8 list \<Rightarrow> u32 \<Rightarrow> u8 \<Rightarrow> u32 \<Rightarrow> pldm_event_queue \<times> u16 \<Rightarrow> (int \<times> pldm_event_queue \<times> u16) option" where
  "event_queue_put event_data event_size event_class checksum st =
    (let (queue, event_id) = st in
     if event_size > EVENT_MAX_SIZE then Some (- 1, queue, event_id)
     else do {
       let queue =
         (if eq_tail queue = eq_head queue \<and> eq_length queue > 0
          then queue\<lparr>eq_head := (eq_tail queue + 1) mod EVENT_QUEUE_SIZE\<rparr>
          else queue\<lparr>eq_length := eq_length queue + 1\<rparr>);
       fwk_assert (eq_tail queue < length (eq_events queue));
       bytes \<leftarrow> mem_read event_data 0 (unat event_size);
       data \<leftarrow> mem_write (pe_data (eq_events queue ! eq_tail queue)) 0 bytes;
       let slot = \<lparr>pe_size = event_size, pe_id = event_id, pe_class = event_class,
         pe_checksum = checksum, pe_data = data\<rparr>;
       let queue = queue\<lparr>eq_events := (eq_events queue)[eq_tail queue := slot],
         eq_tail := (eq_tail queue + 1) mod EVENT_QUEUE_SIZE\<rparr>;
       Some (0, queue, next_event_id event_id) })"

text \<open>What \<open>event_queue_get\<close> stores through its pointers; \<open>go_data\<close> is the caller's buffer.\<close>

record event_queue_out =
  go_data :: "u8 list"
  go_size :: u32
  go_id :: u16
  go_class :: u8
  go_checksum :: u32

definition event_queue_get ::
  "u8 list \<Rightarrow> pldm_event_queue \<Rightarrow> (event_queue_out \<times> pldm_event_queue) option" where
  "event_queue_get event_data queue =
    (if eq_length queue = 0
     then Some (\<lparr>go_data = event_data, go_size = 0, go_id = 0, go_class = 0, go_checksum = 0\<rparr>, queue)
     else do {
       fwk_assert (eq_head queue < length (eq_events queue));
       let e = eq_events queue ! eq_head queue;
       bytes \<leftarrow> mem_read (pe_data e) 0 (unat (pe_size e));
       data \<leftarrow> mem_write event_data 0 bytes;
       Some (\<lparr>go_data = data, go_size = pe_size e, go_id = pe_id e, go_class = pe_class e,
           go_checksum = pe_checksum e\<rparr>,
         queue\<lparr>eq_head := (eq_head queue + 1) mod EVENT_QUEUE_SIZE, eq_length := eq_length queue - 1\<rparr>) })"

section \<open>The queue as a list of events\<close>

text \<open>An event as its reader sees it: identifier, class, checksum and data.\<close>

type_synonym event_value = "u16 \<times> u8 \<times> u32 \<times> u8 list"

definition event_value :: "pldm_event \<Rightarrow> event_value" where
  "event_value e = (pe_id e, pe_class e, pe_checksum e, take (unat (pe_size e)) (pe_data e))"

definition queue_contents :: "pldm_event_queue \<Rightarrow> event_value list" where
  "queue_contents q =
    map (\<lambda>i. event_value (eq_events q ! ((eq_head q + i) mod EVENT_QUEUE_SIZE))) [0..<eq_length q]"

definition queue_wf :: "pldm_event_queue \<Rightarrow> bool" where
  "queue_wf q \<longleftrightarrow> eq_head q < EVENT_QUEUE_SIZE \<and> eq_length q \<le> EVENT_QUEUE_SIZE \<and>
    eq_tail q = (eq_head q + eq_length q) mod EVENT_QUEUE_SIZE \<and>
    length (eq_events q) = EVENT_QUEUE_SIZE \<and>
    (\<forall>e \<in> set (eq_events q). length (pe_data e) = 256 \<and> unat (pe_size e) \<le> 256)"

text \<open>The identifiers \<open>0\<close> (no event) and \<open>0xffff\<close> (reserved for multi-part transfers) are never
  handed out.\<close>

definition event_id_ok :: "u16 \<Rightarrow> bool" where
  "event_id_ok i \<longleftrightarrow> i \<noteq> 0 \<and> i \<noteq> 0xffff"

lemma length_queue_contents [simp]: "length (queue_contents q) = eq_length q"
  by (simp add: queue_contents_def)

lemma next_event_id_ok: "event_id_ok i \<Longrightarrow> event_id_ok (next_event_id i)"
proof -
  assume "event_id_ok i"
  then have "i + 1 \<noteq> 0" by (auto simp: event_id_ok_def eq_neg_iff_add_eq_0 [symmetric])
  then show ?thesis by (auto simp: event_id_ok_def next_event_id_def)
qed

lemma take_mem_write: "length bytes \<le> length dst \<Longrightarrow> \<exists>d. mem_write dst 0 bytes = Some d \<and>
    length d = length dst \<and> take (length bytes) d = bytes"
  by (simp add: mem_write_def)

text \<open>Slots in order from the head: position \<open>k\<close> is the tail exactly for \<open>k = length\<close>.\<close>

lemma slot_tail_iff:
  assumes "h < 5" "k < 5" "n < 5"
  shows "(h + k) mod 5 = (h + n) mod 5 \<longleftrightarrow> k = (n :: nat)"
proof
  assume "(h + k) mod 5 = (h + n) mod 5"
  then show "k = n" using assms by (auto simp: mod_if split: if_splits)
qed simp

lemma queue_contents_put:
  assumes wf: "queue_wf q" and v: "event_value slot = x"
    and ok: "length (pe_data slot) = 256" "unat (pe_size slot) \<le> 256"
    and q': "q' = (if eq_tail q = eq_head q \<and> eq_length q > 0
      then q\<lparr>eq_head := (eq_tail q + 1) mod EVENT_QUEUE_SIZE\<rparr> else q\<lparr>eq_length := eq_length q + 1\<rparr>)
      \<lparr>eq_events := (eq_events q)[eq_tail q := slot], eq_tail := (eq_tail q + 1) mod EVENT_QUEUE_SIZE\<rparr>"
  shows "queue_wf q' \<and> queue_contents q' = last_n EVENT_QUEUE_SIZE (queue_contents q @ [x])"
proof (cases "eq_length q = 5")
  case True
  with wf have h: "eq_head q < 5" "eq_tail q = eq_head q" "length (eq_events q) = 5"
    by (auto simp: queue_wf_def EVENT_QUEUE_SIZE_def)
  with True q' have q': "q' = q\<lparr>eq_head := (eq_head q + 1) mod 5,
      eq_events := (eq_events q)[eq_head q := slot], eq_tail := (eq_head q + 1) mod 5\<rparr>"
    by (simp add: EVENT_QUEUE_SIZE_def)
  have "queue_wf q'"
    using wf ok True h by (auto simp: q' queue_wf_def EVENT_QUEUE_SIZE_def mod_simps
        dest!: set_update_subset_insert [THEN subsetD])
  moreover have "queue_contents q' ! i = last_n 5 (queue_contents q @ [x]) ! i" if "i < 5" for i
  proof (cases "i = 4")
    case True
    have "(Suc (eq_head q) mod 5 + 4) mod 5 = eq_head q"
      using h by (simp add: mod_simps)
    then show ?thesis using h v \<open>eq_length q = 5\<close> True
      by (simp add: q' queue_contents_def last_n_def EVENT_QUEUE_SIZE_def nth_append)
  next
    case False
    then have "(Suc (eq_head q) mod 5 + i) mod 5 = (eq_head q + Suc i) mod 5"
      by (simp add: mod_simps)
    moreover have "(eq_head q + Suc i) mod 5 \<noteq> eq_head q"
      using slot_tail_iff [of "eq_head q" "Suc i" 0] h that False by auto
    ultimately show ?thesis using that h v \<open>eq_length q = 5\<close> False
      by (auto simp: q' queue_contents_def last_n_def EVENT_QUEUE_SIZE_def nth_append)
  qed
  ultimately show ?thesis using True
    by (auto intro!: nth_equalityI simp: q' last_n_def EVENT_QUEUE_SIZE_def)
next
  case False
  with wf have n: "eq_length q < 5" by (simp add: queue_wf_def EVENT_QUEUE_SIZE_def)
  from wf have h: "eq_head q < 5" "eq_tail q = (eq_head q + eq_length q) mod 5" "length (eq_events q) = 5"
    by (auto simp: queue_wf_def EVENT_QUEUE_SIZE_def)
  have "\<not> (eq_tail q = eq_head q \<and> eq_length q > 0)"
    using h n slot_tail_iff [of "eq_head q" "eq_length q" 0] by auto
  with q' have q': "q' = q\<lparr>eq_length := eq_length q + 1,
      eq_events := (eq_events q)[eq_tail q := slot], eq_tail := (eq_tail q + 1) mod 5\<rparr>"
    by (simp add: EVENT_QUEUE_SIZE_def)
  have "queue_wf q'"
    using wf ok n h by (auto simp: q' queue_wf_def EVENT_QUEUE_SIZE_def mod_simps
        dest!: set_update_subset_insert [THEN subsetD])
  moreover have "queue_contents q' ! i = (queue_contents q @ [x]) ! i" if "i < Suc (eq_length q)" for i
    using that n h v slot_tail_iff [of "eq_head q" i "eq_length q"]
    by (cases "i = eq_length q")
      (auto simp: q' queue_contents_def EVENT_QUEUE_SIZE_def nth_append nth_list_update simp del: upt_Suc)
  then have "queue_contents q' = queue_contents q @ [x]"
    by (auto intro!: nth_equalityI simp: q')
  ultimately show ?thesis using n by (auto simp: last_n_def EVENT_QUEUE_SIZE_def)
qed

lemma event_queue_put_law:
  assumes "queue_wf q" "unat sz \<le> 256" "unat sz \<le> length data"
  shows "\<exists>q'. event_queue_put data sz cls chk (q, i) = Some (0, q', next_event_id i) \<and> queue_wf q' \<and>
    queue_contents q' = last_n EVENT_QUEUE_SIZE (queue_contents q @ [(i, cls, chk, take (unat sz) data)])"
proof -
  have small: "\<not> EVENT_MAX_SIZE < sz"
    using assms(2) by (simp add: EVENT_MAX_SIZE_def word_less_nat_alt)
  have t: "eq_tail q < length (eq_events q)" "length (pe_data (eq_events q ! eq_tail q)) = 256"
    using assms(1) by (auto simp: queue_wf_def EVENT_QUEUE_SIZE_def)
  obtain d where d: "mem_write (pe_data (eq_events q ! eq_tail q)) 0 (take (unat sz) data) = Some d"
      "length d = 256" "take (unat sz) d = take (unat sz) data"
    using take_mem_write [of "take (unat sz) data" "pe_data (eq_events q ! eq_tail q)"] t assms by auto
  define slot where "slot = \<lparr>pe_size = sz, pe_id = i, pe_class = cls, pe_checksum = chk, pe_data = d\<rparr>"
  have v: "event_value slot = (i, cls, chk, take (unat sz) data)"
    using d by (simp add: slot_def event_value_def)
  have ok: "length (pe_data slot) = 256" "unat (pe_size slot) \<le> 256" using d assms(2) by (simp_all add: slot_def)
  note law = queue_contents_put [OF assms(1) v ok refl]
  show ?thesis
  proof (cases "eq_tail q = eq_head q \<and> eq_length q > 0")
    case True
    with law d t small show ?thesis
      by (simp add: event_queue_put_def mem_read_def assms(3) slot_def)
  next
    case False
    then have n: "(eq_tail q = eq_head q \<and> eq_length q > 0) = False" by blast
    from law d t small show ?thesis unfolding n
      by (simp add: event_queue_put_def mem_read_def assms(3) slot_def n del: not_gr_zero)
  qed
qed

lemma event_queue_get_law:
  assumes "queue_wf q" "length buf = 256"
  shows "eq_length q = 0 \<Longrightarrow> event_queue_get buf q =
      Some (\<lparr>go_data = buf, go_size = 0, go_id = 0, go_class = 0, go_checksum = 0\<rparr>, q)"
    and "queue_contents q = (i, c, k, data) # es \<Longrightarrow> \<exists>d q'. event_queue_get buf q =
      Some (\<lparr>go_data = d, go_size = of_nat (length data), go_id = i, go_class = c, go_checksum = k\<rparr>, q') \<and>
      length data \<le> 256 \<and> length d = 256 \<and> take (length data) d = data \<and>
      queue_wf q' \<and> queue_contents q' = es"
proof -
  show "event_queue_get buf q = Some (\<lparr>go_data = buf, go_size = 0, go_id = 0, go_class = 0, go_checksum = 0\<rparr>, q)"
    if "eq_length q = 0" using that by (simp add: event_queue_get_def)
  assume c: "queue_contents q = (i, c, k, data) # es"
  then obtain n where n: "eq_length q = Suc n" by (cases "eq_length q") (auto simp: queue_contents_def)
  define e where "e = eq_events q ! eq_head q"
  from assms(1) have h: "eq_head q < 5" "length (eq_events q) = 5" "length (pe_data e) = 256" "unat (pe_size e) \<le> 256"
    by (auto simp: queue_wf_def EVENT_QUEUE_SIZE_def e_def)
  have up: "[0..<Suc n] = 0 # map Suc [0..<n]" by (simp add: map_Suc_upt upt_conv_Cons del: upt_Suc)
  have cs: "event_value e = (i, c, k, data)"
      "es = map (\<lambda>j. event_value (eq_events q ! ((eq_head q + Suc j) mod 5))) [0..<n]"
    using c h by (simp_all add: queue_contents_def n up e_def EVENT_QUEUE_SIZE_def o_def del: upt_Suc)
  have data: "data = take (unat (pe_size e)) (pe_data e)" "length data = unat (pe_size e)"
    using cs(1) h by (auto simp: event_value_def)
  obtain d where d: "mem_write buf 0 data = Some d" "length d = 256" "take (length data) d = data"
    using take_mem_write [of data buf] data h assms(2) by auto
  let ?q' = "q\<lparr>eq_head := (eq_head q + 1) mod EVENT_QUEUE_SIZE, eq_length := eq_length q - 1\<rparr>"
  have "queue_wf ?q'"
    using assms(1) n by (auto simp: queue_wf_def EVENT_QUEUE_SIZE_def mod_simps)
  moreover have "queue_contents ?q' = es"
    using h by (auto simp: queue_contents_def n cs(2) EVENT_QUEUE_SIZE_def mod_simps)
  ultimately show "\<exists>d q'. event_queue_get buf q =
      Some (\<lparr>go_data = d, go_size = of_nat (length data), go_id = i, go_class = c, go_checksum = k\<rparr>, q') \<and>
      length data \<le> 256 \<and> length d = 256 \<and> take (length data) d = data \<and> queue_wf q' \<and> queue_contents q' = es"
    using d h cs(1) data n
    by (auto simp: event_queue_get_def mem_read_def e_def [symmetric] event_value_def)
qed

lemma event_queue_put_too_big:
  "unat sz > 256 \<Longrightarrow> event_queue_put data sz cls chk st = Some (- 1, st)"
  by (cases st) (simp add: event_queue_put_def EVENT_MAX_SIZE_def word_less_nat_alt)

section \<open>The interface of an event log\<close>

text \<open>What the polling of events relies on: storing an item appends it and may lose the oldest ones,
  taking one out returns the oldest. \<open>stamp\<close> gives the form in which a sequence of inputs is stored (the
  log adds the identifiers), \<open>valid\<close> the inputs it accepts.\<close>

fun take_out :: "('s \<Rightarrow> ('e option \<times> 's) option) \<Rightarrow> nat \<Rightarrow> 's \<Rightarrow> ('e list \<times> 's) option" where
  "take_out get 0 s = Some ([], s)"
| "take_out get (Suc n) s = do {
    (e, s) \<leftarrow> get s;
    case e of None \<Rightarrow> Some ([], s)
    | Some e \<Rightarrow> do { (es, s) \<leftarrow> take_out get n s; Some (e # es, s) } }"

locale event_log =
  fixes wf :: "'s \<Rightarrow> bool" and contents :: "'s \<Rightarrow> 'e list" and bound :: nat
    and valid :: "'x \<Rightarrow> bool" and stamp :: "'s \<Rightarrow> 'x list \<Rightarrow> 'e list"
    and put :: "'x \<Rightarrow> 's \<Rightarrow> 's option" and get :: "'s \<Rightarrow> ('e option \<times> 's) option"
  assumes put_law: "wf s \<Longrightarrow> valid x \<Longrightarrow> \<exists>s' e. put x s = Some s' \<and> wf s' \<and>
      contents s' = last_n bound (contents s @ [e]) \<and> (\<forall>xs. stamp s (x # xs) = e # stamp s' xs)"
    and stamp_Nil [simp]: "stamp s [] = []"
    and get_law: "wf s \<Longrightarrow> \<exists>s'. get s = Some (case contents s of [] \<Rightarrow> None | e # _ \<Rightarrow> Some e, s') \<and>
      wf s' \<and> contents s' = tl (contents s)"
    and bounded: "wf s \<Longrightarrow> length (contents s) \<le> bound"
begin

lemma put_all_law:
  "wf s \<Longrightarrow> \<forall>x \<in> set xs. valid x \<Longrightarrow>
    \<exists>s'. for_each put xs s = Some s' \<and> wf s' \<and> contents s' = last_n bound (contents s @ stamp s xs)"
proof (induction xs arbitrary: s)
  case Nil
  then show ?case using bounded [OF Nil(1)] by (simp add: last_n_all)
next
  case (Cons x xs)
  then obtain s1 e where s1: "put x s = Some s1" "wf s1" "contents s1 = last_n bound (contents s @ [e])"
      "\<forall>xs. stamp s (x # xs) = e # stamp s1 xs"
    using put_law by fastforce
  with Cons.IH [OF s1(2)] Cons.prems show ?case by (auto simp: last_n_append)
qed

lemma take_out_law:
  "wf s \<Longrightarrow> \<exists>s'. take_out get n s = Some (take n (contents s), s') \<and> wf s' \<and> contents s' = drop n (contents s)"
proof (induction n arbitrary: s)
  case (Suc n)
  obtain s1 where s1: "get s = Some (case contents s of [] \<Rightarrow> None | e # _ \<Rightarrow> Some e, s1)" "wf s1"
      "contents s1 = tl (contents s)"
    using get_law [OF Suc.prems] by blast
  then show ?case using Suc.IH [OF s1(2)] by (cases "contents s") auto
qed simp

lemma put_all_then_take_out:
  assumes "wf s" "\<forall>x \<in> set xs. valid x" "bound \<le> n"
  shows "\<exists>s1 s2. for_each put xs s = Some s1 \<and>
    take_out get n s1 = Some (last_n bound (contents s @ stamp s xs), s2) \<and> contents s2 = []"
proof -
  obtain s1 where s1: "for_each put xs s = Some s1" "wf s1" "contents s1 = last_n bound (contents s @ stamp s xs)"
    using put_all_law [OF assms(1,2)] by blast
  have "length (contents s1) \<le> n" using bounded [OF s1(2)] assms(3) by simp
  then show ?thesis using s1 take_out_law [OF s1(2), of n] by auto
qed

end

text \<open>The two operations as the module calls them: the data given has the size given, and the reader
  brings a buffer of \<open>EVENT_MAX_SIZE\<close> bytes.\<close>

definition log_put :: "u8 list \<times> u8 \<times> u32 \<Rightarrow> pldm_event_queue \<times> u16 \<Rightarrow> (pldm_event_queue \<times> u16) option" where
  "log_put x st = (case x of (data, cls, chk) \<Rightarrow> do {
    (_, st) \<leftarrow> event_queue_put data (of_nat (length data)) cls chk st;
    Some st })"

definition log_get :: "pldm_event_queue \<times> u16 \<Rightarrow> (event_value option \<times> pldm_event_queue \<times> u16) option" where
  "log_get st = do {
    (out, q) \<leftarrow> event_queue_get (replicate 256 0) (fst st);
    Some (if go_id out = 0 then None
          else Some (go_id out, go_class out, go_checksum out, take (unat (go_size out)) (go_data out)),
      q, snd st) }"

fun stamped :: "u16 \<Rightarrow> (u8 list \<times> u8 \<times> u32) list \<Rightarrow> event_value list" where
  "stamped i [] = []"
| "stamped i ((data, cls, chk) # xs) = (i, cls, chk, data) # stamped (next_event_id i) xs"

definition log_wf :: "pldm_event_queue \<times> u16 \<Rightarrow> bool" where
  "log_wf st \<longleftrightarrow> queue_wf (fst st) \<and> event_id_ok (snd st) \<and>
    (\<forall>e \<in> set (queue_contents (fst st)). event_id_ok (fst e))"

lemma set_last_n: "set (last_n n xs) \<subseteq> set xs"
  by (simp add: last_n_def set_drop_subset)

interpretation events: event_log log_wf "\<lambda>st. queue_contents (fst st)" EVENT_QUEUE_SIZE
  "\<lambda>x. length (fst x) \<le> 256" "\<lambda>st. stamped (snd st)" log_put log_get
proof
  fix s :: "pldm_event_queue \<times> u16" and x :: "u8 list \<times> u8 \<times> u32"
  assume wf: "log_wf s"
  obtain q i where s: "s = (q, i)" by force
  obtain data cls chk where x: "x = (data, cls, chk)" by (cases x) auto
  show "\<exists>s' e. log_put x s = Some s' \<and> log_wf s' \<and>
      queue_contents (fst s') = last_n EVENT_QUEUE_SIZE (queue_contents (fst s) @ [e]) \<and>
      (\<forall>xs. stamped (snd s) (x # xs) = e # stamped (snd s') xs)"
    if "length (fst x) \<le> 256"
  proof -
    have d: "unat (of_nat (length data) :: u32) = length data"
      using that x by (simp add: unat_of_nat)
    from wf s have i: "queue_wf q" "event_id_ok i" "\<forall>e \<in> set (queue_contents q). event_id_ok (fst e)"
      by (auto simp: log_wf_def)
    from event_queue_put_law [OF i(1), of "of_nat (length data)" data cls chk i] d that x
    obtain q' where q': "event_queue_put data (of_nat (length data)) cls chk (q, i) = Some (0, q', next_event_id i)"
        "queue_wf q'" "queue_contents q' = last_n EVENT_QUEUE_SIZE (queue_contents q @ [(i, cls, chk, data)])"
      by auto
    have "\<forall>e \<in> set (queue_contents q'). event_id_ok (fst e)"
      using set_last_n [of EVENT_QUEUE_SIZE "queue_contents q @ [(i, cls, chk, data)]"] i unfolding q'(3)
      by fastforce
    then show ?thesis using q' i by (auto simp: log_put_def s x log_wf_def next_event_id_ok)
  qed
  show "\<exists>s'. log_get s = Some (case queue_contents (fst s) of [] \<Rightarrow> None | e # _ \<Rightarrow> Some e, s') \<and>
      log_wf s' \<and> queue_contents (fst s') = tl (queue_contents (fst s))"
  proof (cases "queue_contents q")
    case Nil
    then have "eq_length q = 0" by (metis length_queue_contents list.size(3))
    then show ?thesis using wf event_queue_get_law(1) [of q "replicate 256 0"]
      by (auto simp: log_get_def s log_wf_def Nil)
  next
    case (Cons e es)
    obtain j c k data where e: "e = (j, c, k, data)" by (cases e) auto
    from wf s Cons e have "queue_wf q" "event_id_ok j" "\<forall>e \<in> set es. event_id_ok (fst e)" "event_id_ok i"
      by (auto simp: log_wf_def)
    then show ?thesis using event_queue_get_law(2) [of q "replicate 256 0" j c k data es] Cons e
      by (auto simp: log_get_def s log_wf_def unat_of_nat event_id_ok_def)
  qed
  show "length (queue_contents (fst s)) \<le> EVENT_QUEUE_SIZE"
    using wf by (simp add: log_wf_def queue_wf_def)
qed simp

section \<open>The initial queue\<close>

definition event_zero_slot :: pldm_event where
  "event_zero_slot = \<lparr>pe_size = 0, pe_id = 0, pe_class = 0, pe_checksum = 0, pe_data = replicate 256 0\<rparr>"

text \<open>The queue of the zero-initialised context \<open>pldm_fw_mcp_ctx\<close>.\<close>

definition event_queue_init :: pldm_event_queue where
  "event_queue_init = \<lparr>eq_head = 0, eq_tail = 0, eq_length = 0, eq_events = replicate 5 event_zero_slot\<rparr>"

lemma event_queue_init_wf: "queue_wf event_queue_init" "queue_contents event_queue_init = []"
  by (simp_all add: queue_wf_def event_queue_init_def event_zero_slot_def EVENT_QUEUE_SIZE_def queue_contents_def)

text \<open>C17. The event queue refines a log of the five newest events: after any sequence of events of at
  most 256 bytes is put on a well-formed queue, taking events out until the queue is empty returns the
  newest five of the old and new events, oldest first, each with its class, checksum and bytes and the
  identifiers handed out; none of the accesses leaves a slot or a buffer.\<close>

theorem event_queue_keeps_newest:
  assumes "log_wf st" and "\<forall>x \<in> set xs. length (fst x) \<le> 256" and "EVENT_QUEUE_SIZE \<le> n"
  shows "\<exists>st1 st2. for_each log_put xs st = Some st1 \<and>
    take_out log_get n st1 =
      Some (last_n EVENT_QUEUE_SIZE (queue_contents (fst st) @ stamped (snd st) xs), st2) \<and>
    queue_contents (fst st2) = []"
  using assms by (rule events.put_all_then_take_out)

definition seven_events :: "(u8 list \<times> u8 \<times> u32) list" where
  "seven_events = map (\<lambda>k. ([k, k], k, 0)) [1, 2, 3, 4, 5, 6, 7]"

theorem event_queue_keeps_newest_witness:
  "\<exists>st1 st2. for_each log_put seven_events (event_queue_init, 0xfffd) = Some st1 \<and>
    take_out log_get 7 st1 = Some ([(1, 3, 0, [3, 3]), (2, 4, 0, [4, 4]), (3, 5, 0, [5, 5]),
      (4, 6, 0, [6, 6]), (5, 7, 0, [7, 7])], st2) \<and> queue_contents (fst st2) = []"
proof -
  have wf: "log_wf (event_queue_init, 0xfffd)"
    by (simp add: log_wf_def event_queue_init_wf event_id_ok_def)
  have ids: "stamped 0xfffd seven_events =
    [(0xfffd, 1, 0, [1, 1]), (0xfffe, 2, 0, [2, 2]), (1, 3, 0, [3, 3]), (2, 4, 0, [4, 4]), (3, 5, 0, [5, 5]),
      (4, 6, 0, [6, 6]), (5, 7, 0, [7, 7])]"
    by code_simp
  have small: "\<forall>x \<in> set seven_events. length (fst x) \<le> 256" by (simp add: seven_events_def)
  from event_queue_keeps_newest [OF wf small, of 7]
  show ?thesis by (simp add: ids event_queue_init_wf last_n_def EVENT_QUEUE_SIZE_def)
qed

end
