(* ===== verification/Pldm_Types.thy ===== *)
theory Pldm_Types
  imports Pldm_Queue Fwk_Lifecycle
begin

unbundle bit_operations_syntax

text \<open>
  The data of the PLDM firmware module (\<open>module/pldm_fw\<close>): what it takes from libpldm, the contexts of
  its two termini and the state it keeps. libpldm is a submodule that is not part of the repository:
  its constants, structure sizes and encoders and decoders are the fields of \<open>pldm_lib\<close>, and a message
  has the members of \<open>struct pldm_msg\<close> the module touches.
\<close>

section \<open>libpldm\<close>

record pldm_msg =
  msg_request :: u8
  msg_datagram :: u8
  msg_reserved :: u8
  msg_instance_id :: u8
  msg_header_ver :: u8
  msg_type :: u8
  msg_command :: u8
  msg_payload :: "u8 list"

text \<open>Constants of libpldm's headers, one constructor for each name the module uses.\<close>

datatype pldm_const =
    PLDM_SUCCESS | PLDM_ERROR_UNSUPPORTED_PLDM_CMD | PLDM_REQUEST
  | PLDM_BASE | PLDM_PLATFORM | PLDM_FRU
  | PLDM_GET_TID | PLDM_GET_PLDM_TYPES | PLDM_GET_PLDM_VERSION | PLDM_GET_PLDM_COMMANDS
  | PLDM_SET_EVENT_RECEIVER | PLDM_GET_PDR | PLDM_GET_SENSOR_READING | PLDM_GET_STATE_SENSOR_READINGS
  | PLDM_POLL_FOR_PLATFORM_EVENT_MESSAGE | PLDM_PLATFORM_EVENT_MESSAGE | PLDM_EVENT_MESSAGE_BUFFER_SIZE
  | PLDM_SET_NUMERIC_EFFECTER_VALUE | PLDM_SET_STATE_EFFECTER_STATES | PLDM_GET_FRU_RECORD_TABLE
  | PLDM_ACKNOWLEDGEMENT_ONLY | PLDM_GET_FIRSTPART | PLDM_GET_NEXTPART | PLDM_START_AND_END
  | PLDM_PLATFORM_INVALID_DATA_TRANSFER_HANDLE
  | PLDM_SENSOR_EVENT | PLDM_MESSAGE_POLL_EVENT | PLDM_EVENT_LOGGED | PLDM_EVENT_NO_LOGGING
  | PLDM_EVENT_MESSAGE_GLOBAL_ENABLE_POLLING | PLDM_TRANSPORT_PROTOCOL_TYPE_MCTP
  | PLDM_SENSOR_ENABLED | PLDM_SENSOR_NORMAL | PLDM_NO_EVENT_GENERATION | PLDM_EFFECTER_DATA_SIZE_UINT8
  | PLDM_STATE_SET_HEALTH_STATE_NORMAL | PLDM_STATE_SET_HEALTH_STATE_NON_CRITICAL

text \<open>Sizes in bytes: macros of libpldm and \<open>sizeof\<close> of its structures.\<close>

datatype pldm_size =
    PLDM_MSG_HDR_T_SIZE | PLDM_MSG_T_SIZE | PLDM_SET_EVENT_RECEIVER_REQ_BYTES | PLDM_GET_PDR_REQ_BYTES
  | SIZEOF_pldm_state_sensor_pdr | PLDM_GET_VERSION_REQ_BYTES | PLDM_GET_COMMANDS_REQ_BYTES
  | SIZEOF_pldm_get_tid_resp | SIZEOF_pldm_get_event_receiver_resp | SIZEOF_pldm_get_types_resp
  | SIZEOF_pldm_get_version_resp | SIZEOF_ver32 | SIZEOF_pldm_get_commands_resp | PLDM_GET_COMMANDS_RESP_BYTES
  | PLDM_GET_PDR_MIN_RESP_BYTES | PLDM_GET_STATE_SENSOR_READINGS_REQ_BYTES
  | SIZEOF_pldm_get_state_sensor_readings_resp | PLDM_GET_SENSOR_READING_REQ_BYTES
  | SIZEOF_pldm_get_sensor_reading_resp | PLDM_POLL_FOR_PLATFORM_EVENT_MESSAGE_REQ_BYTES
  | PLDM_POLL_FOR_PLATFORM_EVENT_MESSAGE_MIN_RESP_BYTES | PLDM_POLL_FOR_PLATFORM_EVENT_MESSAGE_RESP_BYTES
  | SIZEOF_pldm_platform_event_message_resp | PLDM_EVENT_MESSAGE_BUFFER_SIZE_REQ_BYTES
  | SIZEOF_pldm_event_message_buffer_size_resp | SIZEOF_pldm_get_fru_record_table_resp
  | OFFSETOF_fru_record_table_data | PLDM_PLATFORM_EVENT_MESSAGE_MIN_REQ_BYTES | PLDM_MSG_POLL_EVENT_LENGTH

type_synonym ver32 = "u8 \<times> u8 \<times> u8 \<times> u8"

text \<open>An encoder writes into the message it is given and returns a completion code; a decoder is given a
  message and a payload length and returns a completion code and what it stores through its pointers.
  \<open>'r\<close> is the type of a PDR repository.\<close>

type_synonym pldm_encoder = "pldm_msg \<Rightarrow> int \<times> pldm_msg"
type_synonym 'a pldm_decoder = "pldm_msg \<Rightarrow> nat \<Rightarrow> int \<times> 'a"

record 'r pldm_lib =
  pldm_const :: "pldm_const \<Rightarrow> u8"
  pldm_size :: "pldm_size \<Rightarrow> nat"
  encode_cc_only_resp :: "u8 \<Rightarrow> u8 \<Rightarrow> u8 \<Rightarrow> u8 \<Rightarrow> pldm_encoder"
  encode_get_tid_req :: "u8 \<Rightarrow> pldm_encoder"
  encode_get_tid_resp :: "u8 \<Rightarrow> u8 \<Rightarrow> u8 \<Rightarrow> pldm_encoder"
  decode_get_tid_resp :: "(u8 \<times> u8) pldm_decoder"
  encode_get_types_req :: "u8 \<Rightarrow> pldm_encoder"
  encode_get_types_resp :: "u8 \<Rightarrow> u8 \<Rightarrow> u8 list \<Rightarrow> pldm_encoder"
  decode_get_types_resp :: "(u8 \<times> u8 list) pldm_decoder"
  encode_get_version_req :: "u8 \<Rightarrow> u32 \<Rightarrow> u8 \<Rightarrow> u8 \<Rightarrow> pldm_encoder"
  decode_get_version_req :: "(u32 \<times> u8 \<times> u8) pldm_decoder"
  encode_get_version_resp :: "u8 \<Rightarrow> u8 \<Rightarrow> u32 \<Rightarrow> u8 \<Rightarrow> ver32 option \<Rightarrow> nat \<Rightarrow> pldm_encoder"
  decode_get_version_resp :: "(u8 \<times> u32 \<times> u8 \<times> ver32) pldm_decoder"
  encode_get_commands_req :: "u8 \<Rightarrow> u8 \<Rightarrow> ver32 \<Rightarrow> pldm_encoder"
  decode_get_commands_req :: "(u8 \<times> ver32) pldm_decoder"
  encode_get_commands_resp :: "u8 \<Rightarrow> u8 \<Rightarrow> u8 list \<Rightarrow> pldm_encoder"
  decode_get_commands_resp :: "(u8 \<times> u8 list) pldm_decoder"
  encode_set_event_receiver_req :: "u8 \<Rightarrow> u8 \<Rightarrow> u8 \<Rightarrow> u8 \<Rightarrow> u16 \<Rightarrow> pldm_encoder"
  decode_set_event_receiver_req :: "(u8 \<times> u8 \<times> u8 \<times> u16) pldm_decoder"
  encode_set_event_receiver_resp :: "u8 \<Rightarrow> u8 \<Rightarrow> pldm_encoder"
  decode_set_event_receiver_resp :: "u8 pldm_decoder"
  encode_get_event_receiver_resp :: "u8 \<Rightarrow> u8 \<Rightarrow> u8 \<Rightarrow> u8 \<Rightarrow> pldm_encoder"
  encode_get_pdr_req :: "u8 \<Rightarrow> u32 \<Rightarrow> u32 \<Rightarrow> u8 \<Rightarrow> u16 \<Rightarrow> u16 \<Rightarrow> nat \<Rightarrow> pldm_encoder"
  decode_get_pdr_req :: "(u32 \<times> u32 \<times> u8 \<times> u16 \<times> u16) pldm_decoder"
  encode_get_pdr_resp :: "u8 \<Rightarrow> u8 \<Rightarrow> u32 \<Rightarrow> u32 \<Rightarrow> u8 \<Rightarrow> u16 \<Rightarrow> u8 list \<Rightarrow> u8 \<Rightarrow> pldm_encoder"
  decode_get_pdr_resp :: "nat \<Rightarrow> (u8 \<times> u32 \<times> u32 \<times> u8 \<times> u16 \<times> u8 list \<times> u8) pldm_decoder"
  get_pdr_response_count :: "pldm_msg \<Rightarrow> u16"
  decode_get_state_sensor_readings_req :: "(u16 \<times> u8) pldm_decoder"
  encode_get_state_sensor_readings_resp :: "u8 \<Rightarrow> u8 \<Rightarrow> u8 \<Rightarrow> u8 \<times> u8 \<times> u8 \<times> u8 \<Rightarrow> pldm_encoder"
  decode_get_sensor_reading_req :: "(u16 \<times> u8) pldm_decoder"
  encode_get_sensor_reading_resp ::
    "u8 \<Rightarrow> u8 \<Rightarrow> u8 \<Rightarrow> u8 \<Rightarrow> u8 \<Rightarrow> u8 \<Rightarrow> u8 \<Rightarrow> u8 \<Rightarrow> u8 \<Rightarrow> nat \<Rightarrow> pldm_encoder"
  decode_poll_for_platform_event_message_req :: "(u8 \<times> u8 \<times> u32 \<times> u16) pldm_decoder"
  encode_poll_for_platform_event_message_resp ::
    "u8 \<Rightarrow> u8 \<Rightarrow> u8 \<Rightarrow> u16 \<Rightarrow> u32 \<Rightarrow> u8 \<Rightarrow> u8 \<Rightarrow> u32 \<Rightarrow> u8 list \<Rightarrow> u32 \<Rightarrow> nat \<Rightarrow> pldm_encoder"
  encode_platform_event_message_req :: "u8 \<Rightarrow> u8 \<Rightarrow> u8 \<Rightarrow> u8 \<Rightarrow> u8 list \<Rightarrow> nat \<Rightarrow> nat \<Rightarrow> pldm_encoder"
  decode_platform_event_message_req :: "(u8 \<times> u8 \<times> u8 \<times> nat) pldm_decoder"
  encode_platform_event_message_resp :: "u8 \<Rightarrow> u8 \<Rightarrow> u8 \<Rightarrow> pldm_encoder"
  decode_platform_event_message_resp :: "(u8 \<times> u8) pldm_decoder"
  decode_event_message_buffer_size_req :: "u16 pldm_decoder"
  encode_event_message_buffer_size_resp :: "u8 \<Rightarrow> u8 \<Rightarrow> u16 \<Rightarrow> pldm_encoder"
  decode_get_fru_record_table_req :: "(u32 \<times> u8) pldm_decoder"
  encode_get_fru_record_table_resp :: "u8 \<Rightarrow> u8 \<Rightarrow> u32 \<Rightarrow> u8 \<Rightarrow> pldm_encoder"
  pldm_pdr_find_record :: "'r \<Rightarrow> u32 \<Rightarrow> u8 list \<times> u32 \<times> u32"
  crc32 :: "u8 list \<Rightarrow> u32"

text \<open>Constants the repository defines itself (\<open>mod_pldm.h\<close>, \<open>mod_pldm_fw.c\<close>, \<open>mod_mctp_fw.h\<close>).\<close>

definition PLDM_SET_TID :: u8 where "PLDM_SET_TID = 1"
definition PLDM_GET_EVENT_RECEIVER :: u8 where "PLDM_GET_EVENT_RECEIVER = 5"
definition PLDM_SET_TID_RESP_BYTES :: nat where "PLDM_SET_TID_RESP_BYTES = 1"
definition PLDM_CPER_EVENT :: u8 where "PLDM_CPER_EVENT = 7"
definition PLDM_PLATFORM_EVENT_ID_NOT_VALID :: u8 where "PLDM_PLATFORM_EVENT_ID_NOT_VALID = 0x82"
definition PLDM_EVENT_START :: u8 where "PLDM_EVENT_START = 0"
definition PLDM_EVENT_MIDDLE :: u8 where "PLDM_EVENT_MIDDLE = 1"
definition PLDM_EVENT_END :: u8 where "PLDM_EVENT_END = 4"
definition PLDM_EVENT_START_AND_END :: u8 where "PLDM_EVENT_START_AND_END = 5"
definition BITS_PER_BYTE :: nat where "BITS_PER_BYTE = 8"
definition PLDM_INSTANCE_ID :: u8 where "PLDM_INSTANCE_ID = 0"
definition PLDM_TYPES_COUNT :: nat where "PLDM_TYPES_COUNT = 8"
definition PLDM_MAX_PDR :: nat where "PLDM_MAX_PDR = 5"
definition MCTP_FW_BIND_SERIAL_API_IDX :: u32 where "MCTP_FW_BIND_SERIAL_API_IDX = 0"

definition PLDM_HASH :: "u8 \<Rightarrow> u8 \<Rightarrow> u16" where
  "PLDM_HASH type cmd = (ucast cmd OR push_bit BITS_PER_BYTE (ucast type)) AND 0xFFFF"

section \<open>Terminus contexts\<close>

record version =
  ver_idx :: u8
  ver_commands_count :: u8
  ver_commands :: "u8 list"
  ver_version :: ver32

record pldm_info =
  inf_type :: u8
  inf_idx :: u8
  inf_version_count :: u8
  inf_version :: "version list"

record receiver_ev_state =
  global_enable :: u8
  receiver_addr :: u8
  heartbeat_timer :: u8
  transport_protocol_type :: u8

text \<open>A \<open>pdr_t\<close> is the list of its bytes; its \<open>sz\<close> is the length.\<close>

record 'r pdr_info =
  pdr_owner :: bool
  pdr_repo :: "'r option"
  pdr_idx :: u8
  pdr_pdr :: "u8 list list"

record 'r terminus_ctx =
  tid :: u8
  types_count :: u8
  tc_idx :: u8
  tc_pldm_info :: "pldm_info list"
  receiver_ev_state :: receiver_ev_state
  tc_pdr_info :: "'r pdr_info"
  event_queue_of :: pldm_event_queue
  event_terminus_max_buffer_size :: u16
  event_receiver_max_buffer_size :: u16

section \<open>State of the module\<close>

text \<open>The two global contexts are selected by name where the code passes a pointer to one of them.\<close>

datatype terminus = MCP | BMC

datatype pldm_discovery =
  PLDM_FW_REQ_TID | PLDM_FW_SET_EVENT_RECEIVER | PLDM_FW_GET_PDR | PLDM_FW_REQ_TYPES
  | PLDM_FW_REQ_VERSION | PLDM_FW_REQ_CMDS | PLDM_FW_DISCOVERY_DONE

datatype pldm_fw_state = PLDM_FW_DISCOVERY

text \<open>The static variables of \<open>handle_pldm_poll_for_platform_event_message\<close>: the event being
  transferred.\<close>

record poll_state =
  po_event_data :: "u8 list"
  po_event_id :: u16
  po_event_size :: u32
  po_checksum :: u32
  po_event_class :: u8

text \<open>A packet handed to the MCTP layer: bus, tag owner, tag, message (\<open>None\<close> is NULL) and size.\<close>

record sent_packet =
  sp_bus :: u32
  sp_tag_owner :: bool
  sp_msg_tag :: u8
  sp_packet :: "pldm_msg option"
  sp_size :: nat

text \<open>\<open>fw_sent\<close> lists the packets given to \<open>mctp_fw_receive_from_app_layer\<close>, in order.\<close>

record 'r pldm_fw = fwk_state +
  pldm_fw_idx :: u32
  pldm_fw_mcp_ctx :: "'r terminus_ctx"
  pldm_fw_bmc_mcp_ctx :: "'r terminus_ctx"
  fw_state :: pldm_fw_state
  fw_discovery :: pldm_discovery
  fw_poll :: poll_state
  fw_event_id :: u16
  fw_sensor_value :: u8
  fw_sent :: "sent_packet list"

definition ctx_of :: "terminus \<Rightarrow> ('r, 'a) pldm_fw_scheme \<Rightarrow> 'r terminus_ctx" where
  "ctx_of t s = (case t of MCP \<Rightarrow> pldm_fw_mcp_ctx s | BMC \<Rightarrow> pldm_fw_bmc_mcp_ctx s)"

definition upd_ctx ::
  "terminus \<Rightarrow> ('r terminus_ctx \<Rightarrow> 'r terminus_ctx) \<Rightarrow> ('r, 'a) pldm_fw_scheme \<Rightarrow> ('r, 'a) pldm_fw_scheme" where
  "upd_ctx t f s = (case t of
      MCP \<Rightarrow> s\<lparr>pldm_fw_mcp_ctx := f (pldm_fw_mcp_ctx s)\<rparr>
    | BMC \<Rightarrow> s\<lparr>pldm_fw_bmc_mcp_ctx := f (pldm_fw_bmc_mcp_ctx s)\<rparr>)"

lemma ctx_of_upd [simp]:
  "ctx_of t (upd_ctx t f s) = f (ctx_of t s)"
  "t \<noteq> u \<Longrightarrow> ctx_of u (upd_ctx t f s) = ctx_of u s"
  by (cases t; cases u; simp add: ctx_of_def upd_ctx_def)+

lemma upd_ctx_fields [simp]:
  "fw_sent (upd_ctx t f s) = fw_sent s" "fw_discovery (upd_ctx t f s) = fw_discovery s"
  "fw_state (upd_ctx t f s) = fw_state s" "fw_poll (upd_ctx t f s) = fw_poll s"
  "fw_event_id (upd_ctx t f s) = fw_event_id s" "fw_sensor_value (upd_ctx t f s) = fw_sensor_value s"
  by (cases t; simp add: upd_ctx_def)+

lemma ctx_of_simps [simp]:
  "ctx_of t (s\<lparr>fw_sent := x\<rparr>) = ctx_of t s" "ctx_of t (s\<lparr>fw_discovery := d\<rparr>) = ctx_of t s"
  "ctx_of t (s\<lparr>fw_sensor_value := v\<rparr>) = ctx_of t s" "ctx_of t (s\<lparr>fw_poll := q\<rparr>) = ctx_of t s"
  "ctx_of t (s\<lparr>fw_event_id := e\<rparr>) = ctx_of t s"
  by (cases t; simp add: ctx_of_def)+

section \<open>Helpers\<close>

text \<open>\<open>fwk_mm_calloc\<close> of a message of \<open>size\<close> bytes: a zero header and what is left as payload. The
  allocator of the framework does not return when it has no memory left.\<close>

definition calloc_msg :: "'r pldm_lib \<Rightarrow> nat \<Rightarrow> pldm_msg" where
  "calloc_msg lib sz = \<lparr>msg_request = 0, msg_datagram = 0, msg_reserved = 0, msg_instance_id = 0,
    msg_header_ver = 0, msg_type = 0, msg_command = 0,
    msg_payload = replicate (sz - pldm_size lib PLDM_MSG_HDR_T_SIZE) 0\<rparr>"

text \<open>\<open>PLDM_ASSERT\<close>; the module is built with assertions enabled.\<close>

definition PLDM_ASSERT :: "'r pldm_lib \<Rightarrow> int \<Rightarrow> unit option" where
  "PLDM_ASSERT lib x = fwk_assert (uint (pldm_const lib PLDM_SUCCESS) = x)"

text \<open>An encoder call followed by the check of its result.\<close>

definition encode_checked :: "'r pldm_lib \<Rightarrow> int \<times> pldm_msg \<Rightarrow> pldm_msg option" where
  "encode_checked lib r = (case r of (rc, m) \<Rightarrow> do { PLDM_ASSERT lib rc; Some m })"

definition decode_checked :: "'r pldm_lib \<Rightarrow> int \<times> 'b \<Rightarrow> 'b option" where
  "decode_checked lib r = (case r of (rc, v) \<Rightarrow> do { PLDM_ASSERT lib rc; Some v })"

definition send_pldm_packet ::
  "u32 \<Rightarrow> bool \<Rightarrow> u8 \<Rightarrow> pldm_msg option \<Rightarrow> nat \<Rightarrow> ('r, 'a) pldm_fw_scheme \<Rightarrow> ('r, 'a) pldm_fw_scheme" where
  "send_pldm_packet bus tag_owner msg_tag pkt sz s =
    s\<lparr>fw_sent := fw_sent s @ [\<lparr>sp_bus = bus, sp_tag_owner = tag_owner, sp_msg_tag = msg_tag,
      sp_packet = pkt, sp_size = sz\<rparr>]\<rparr>"

lemma PLDM_ASSERT_bind [simp]:
  "PLDM_ASSERT lib x \<bind> f = (if uint (pldm_const lib PLDM_SUCCESS) = x then f () else None)"
  by (simp add: PLDM_ASSERT_def)

section \<open>Sets of small numbers as bit fields\<close>

text \<open>\<open>bits[v / 8].byte |= 1 << v % 8\<close>; writing past the array is \<open>None\<close>.\<close>

definition set_bit_of :: "u8 \<Rightarrow> u8 list \<Rightarrow> u8 list option" where
  "set_bit_of v bits =
    (if unat v div BITS_PER_BYTE < length bits
     then Some (bits[unat v div BITS_PER_BYTE :=
       bits ! (unat v div BITS_PER_BYTE) OR push_bit (unat v mod BITS_PER_BYTE) 1])
     else None)"

text \<open>The loops that read a bit field back, in the order of their index.\<close>

definition set_bits :: "u8 list \<Rightarrow> nat list" where
  "set_bits bits =
    concat (map (\<lambda>i. if bits ! i \<noteq> 0
      then map (\<lambda>j. i * PLDM_TYPES_COUNT + j)
        (filter (\<lambda>j. bits ! i AND push_bit j 1 \<noteq> 0) [0..<BITS_PER_BYTE])
      else []) [0..<length bits])"

end
