(* ===== verification/Pldm_Fw.thy ===== *)
theory Pldm_Fw
  imports Pldm_Types
begin

unbundle bit_operations_syntax

text \<open>
  The PLDM firmware module at run time (\<open>mod_pldm_fw.c\<close>, \<open>bmc.c\<close>): the discovery state machine, the
  handlers of requests and responses and the dispatch of a packet received from MCTP. A request
  handler returns the response message and its length; a failed \<open>PLDM_ASSERT\<close> and an access outside
  an object are \<open>None\<close>. Log messages are left out.
\<close>

section \<open>Base commands\<close>

definition pldm_response_unsupport :: "'r pldm_lib \<Rightarrow> pldm_msg \<Rightarrow> pldm_msg \<times> nat" where
  "pldm_response_unsupport lib pldm_req =
    (let len = pldm_size lib PLDM_MSG_HDR_T_SIZE + 1 in
     ((calloc_msg lib len)\<lparr>msg_instance_id := msg_instance_id pldm_req, msg_reserved := 0,
        msg_datagram := 0, msg_request := 0, msg_type := msg_type pldm_req,
        msg_header_ver := msg_header_ver pldm_req, msg_command := msg_command pldm_req,
        msg_payload := [pldm_const lib PLDM_ERROR_UNSUPPORTED_PLDM_CMD]\<rparr>, len))"

definition handle_pldm_set_tid_req ::
  "'r pldm_lib \<Rightarrow> pldm_msg \<Rightarrow> terminus \<Rightarrow> ('r, 'a) pldm_fw_scheme
    \<Rightarrow> ((pldm_msg \<times> nat) \<times> ('r, 'a) pldm_fw_scheme) option" where
  "handle_pldm_set_tid_req lib pldm_req t s = do {
    fwk_assert (msg_payload pldm_req \<noteq> []);
    let s = upd_ctx t (\<lambda>c. c\<lparr>tid := msg_payload pldm_req ! 0\<rparr>) s;
    let len = pldm_size lib PLDM_MSG_HDR_T_SIZE + PLDM_SET_TID_RESP_BYTES;
    resp \<leftarrow> encode_checked lib (encode_cc_only_resp lib (msg_instance_id pldm_req) (msg_type pldm_req)
      (msg_command pldm_req) (pldm_const lib PLDM_SUCCESS) (calloc_msg lib len));
    Some ((resp, len), s) }"

definition handle_pldm_get_tid_req ::
  "'r pldm_lib \<Rightarrow> pldm_msg \<Rightarrow> terminus \<Rightarrow> ('r, 'a) pldm_fw_scheme
    \<Rightarrow> ((pldm_msg \<times> nat) \<times> ('r, 'a) pldm_fw_scheme) option" where
  "handle_pldm_get_tid_req lib pldm_req t s = do {
    let len = pldm_size lib PLDM_MSG_HDR_T_SIZE + pldm_size lib SIZEOF_pldm_get_tid_resp;
    resp \<leftarrow> encode_checked lib (encode_get_tid_resp lib (msg_instance_id pldm_req)
      (pldm_const lib PLDM_SUCCESS) (tid (ctx_of t s)) (calloc_msg lib len));
    Some ((resp, len), s) }"

definition handle_pldm_get_tid_resp ::
  "'r pldm_lib \<Rightarrow> pldm_msg \<Rightarrow> terminus \<Rightarrow> ('r, 'a) pldm_fw_scheme \<Rightarrow> ('r, 'a) pldm_fw_scheme option" where
  "handle_pldm_get_tid_resp lib pldm_resp t s = do {
    (_, new_tid) \<leftarrow> decode_checked lib
      (decode_get_tid_resp lib pldm_resp (pldm_size lib SIZEOF_pldm_get_tid_resp));
    Some (upd_ctx t (\<lambda>c. c\<lparr>tid := new_tid\<rparr>) s) }"

text \<open>The types of the table are marked in an array of eight bytes.\<close>

definition handle_pldm_get_pldm_types_req ::
  "'r pldm_lib \<Rightarrow> pldm_msg \<Rightarrow> terminus \<Rightarrow> ('r, 'a) pldm_fw_scheme
    \<Rightarrow> ((pldm_msg \<times> nat) \<times> ('r, 'a) pldm_fw_scheme) option" where
  "handle_pldm_get_pldm_types_req lib pldm_req t s = do {
    let ctx = ctx_of t s;
    fwk_assert (unat (types_count ctx) \<le> length (tc_pldm_info ctx));
    types \<leftarrow> for_each (\<lambda>info. set_bit_of (inf_type info))
      (take (unat (types_count ctx)) (tc_pldm_info ctx)) (replicate PLDM_TYPES_COUNT 0);
    let len = pldm_size lib PLDM_MSG_HDR_T_SIZE + pldm_size lib SIZEOF_pldm_get_types_resp;
    resp \<leftarrow> encode_checked lib (encode_get_types_resp lib (msg_instance_id pldm_req)
      (pldm_const lib PLDM_SUCCESS) types (calloc_msg lib len));
    Some ((resp, len), s) }"

definition pldm_info_zero :: pldm_info where
  "pldm_info_zero = \<lparr>inf_type = 0, inf_idx = 0, inf_version_count = 0, inf_version = []\<rparr>"

text \<open>The first pass counts the types into the 8-bit \<open>types_count\<close>, the second fills the new table of
  \<open>k\<close> entries.\<close>

definition handle_pldm_get_pldm_types_resp ::
  "'r pldm_lib \<Rightarrow> pldm_msg \<Rightarrow> terminus \<Rightarrow> ('r, 'a) pldm_fw_scheme \<Rightarrow> ('r, 'a) pldm_fw_scheme option" where
  "handle_pldm_get_pldm_types_resp lib pldm_resp t s = do {
    (_, types) \<leftarrow> decode_checked lib
      (decode_get_types_resp lib pldm_resp (pldm_size lib SIZEOF_pldm_get_types_resp));
    let found = set_bits (take PLDM_TYPES_COUNT types);
    Some (upd_ctx t (\<lambda>c. c\<lparr>types_count := of_nat (length found),
      tc_pldm_info := map (\<lambda>v. pldm_info_zero\<lparr>inf_type := of_nat v\<rparr>) found\<rparr>) s) }"

text \<open>The loop keeps the last entry with the type asked for; its first version must exist.\<close>

fun version_of_type :: "u8 \<Rightarrow> pldm_info list \<Rightarrow> ver32 option \<Rightarrow> ver32 option option" where
  "version_of_type type [] version = Some version"
| "version_of_type type (info # infos) version =
    (if inf_type info = type then do {
       fwk_assert (inf_version info \<noteq> []);
       version_of_type type infos (Some (ver_version (inf_version info ! 0))) }
     else version_of_type type infos version)"

definition handle_pldm_get_version_req ::
  "'r pldm_lib \<Rightarrow> pldm_msg \<Rightarrow> terminus \<Rightarrow> ('r, 'a) pldm_fw_scheme
    \<Rightarrow> ((pldm_msg \<times> nat) \<times> ('r, 'a) pldm_fw_scheme) option" where
  "handle_pldm_get_version_req lib pldm_req t s = do {
    (transfer_handle, transfer_opflag, type) \<leftarrow> decode_checked lib
      (decode_get_version_req lib pldm_req (pldm_size lib PLDM_GET_VERSION_REQ_BYTES));
    let ctx = ctx_of t s;
    fwk_assert (unat (types_count ctx) \<le> length (tc_pldm_info ctx));
    version \<leftarrow> version_of_type type (take (unat (types_count ctx)) (tc_pldm_info ctx)) None;
    let len = pldm_size lib PLDM_MSG_HDR_T_SIZE + pldm_size lib SIZEOF_pldm_get_version_resp +
      pldm_size lib SIZEOF_ver32;
    resp \<leftarrow> encode_checked lib (encode_get_version_resp lib (msg_instance_id pldm_req)
      (pldm_const lib PLDM_SUCCESS) 1 (pldm_const lib PLDM_START_AND_END) version
      (pldm_size lib SIZEOF_ver32) (calloc_msg lib len));
    Some ((resp, len), s) }"

definition upd_info ::
  "terminus \<Rightarrow> nat \<Rightarrow> (pldm_info \<Rightarrow> pldm_info) \<Rightarrow> ('r, 'a) pldm_fw_scheme \<Rightarrow> ('r, 'a) pldm_fw_scheme" where
  "upd_info t i f = upd_ctx t (\<lambda>c. c\<lparr>tc_pldm_info := (tc_pldm_info c)[i := f (tc_pldm_info c ! i)]\<rparr>)"

definition version_zero :: version where
  "version_zero = \<lparr>ver_idx = 0, ver_commands_count = 0, ver_commands = [], ver_version = (0, 0, 0, 0)\<rparr>"

definition handle_pldm_get_version_resp ::
  "'r pldm_lib \<Rightarrow> pldm_msg \<Rightarrow> nat \<Rightarrow> terminus \<Rightarrow> ('r, 'a) pldm_fw_scheme
    \<Rightarrow> ('r, 'a) pldm_fw_scheme option" where
  "handle_pldm_get_version_resp lib pldm_resp resp_len t s = do {
    let i = unat (tc_idx (ctx_of t s));
    fwk_assert (i < length (tc_pldm_info (ctx_of t s)));
    (_, _, _, version) \<leftarrow> decode_checked lib (decode_get_version_resp lib pldm_resp resp_len);
    Some (upd_info t i (\<lambda>info. info\<lparr>inf_version_count := 1, inf_idx := 0,
      inf_version := [version_zero\<lparr>ver_version := version\<rparr>]\<rparr>) s) }"

text \<open>The commands of one version; \<open>commands_count\<close> of them are read.\<close>

definition mark_commands :: "version \<Rightarrow> u8 list \<Rightarrow> u8 list option" where
  "mark_commands ver commands = do {
    fwk_assert (unat (ver_commands_count ver) \<le> length (ver_commands ver));
    for_each set_bit_of (take (unat (ver_commands_count ver)) (ver_commands ver)) commands }"

definition any_version :: ver32 where "any_version = (0xFF, 0xFF, 0xFF, 0xFF)"

text \<open>The body of the loop over the types of the context.\<close>

definition mark_commands_of_info :: "u8 \<Rightarrow> ver32 \<Rightarrow> pldm_info \<Rightarrow> u8 list \<Rightarrow> u8 list option" where
  "mark_commands_of_info type version info commands =
    (if inf_type info = type then
       if any_version = version then do {
         fwk_assert (inf_version info \<noteq> []);
         mark_commands (inf_version info ! 0) commands }
       else do {
         fwk_assert (unat (inf_version_count info) \<le> length (inf_version info));
         for_each (\<lambda>ver commands. if ver_version ver = version then mark_commands ver commands else Some commands)
           (take (unat (inf_version_count info)) (inf_version info)) commands }
     else Some commands)"

definition handle_pldm_get_commands_req ::
  "'r pldm_lib \<Rightarrow> pldm_msg \<Rightarrow> terminus \<Rightarrow> ('r, 'a) pldm_fw_scheme
    \<Rightarrow> ((pldm_msg \<times> nat) \<times> ('r, 'a) pldm_fw_scheme) option" where
  "handle_pldm_get_commands_req lib pldm_req t s = do {
    (type, version) \<leftarrow> decode_checked lib
      (decode_get_commands_req lib pldm_req (pldm_size lib PLDM_GET_COMMANDS_REQ_BYTES));
    let ctx = ctx_of t s;
    fwk_assert (unat (types_count ctx) \<le> length (tc_pldm_info ctx));
    commands \<leftarrow> for_each (mark_commands_of_info type version)
      (take (unat (types_count ctx)) (tc_pldm_info ctx)) (replicate 32 0);
    let len = pldm_size lib PLDM_MSG_HDR_T_SIZE + pldm_size lib SIZEOF_pldm_get_commands_resp;
    resp \<leftarrow> encode_checked lib (encode_get_commands_resp lib (msg_instance_id pldm_req)
      (pldm_const lib PLDM_SUCCESS) commands (calloc_msg lib len));
    Some ((resp, len), s) }"

text \<open>The count of the commands is kept in 8 bits: with all 256 set it is 0 and the second loop would
  write past the array allocated. The version and the context indices move on once the commands are
  stored.\<close>

definition handle_pldm_get_commands_resp ::
  "'r pldm_lib \<Rightarrow> pldm_msg \<Rightarrow> terminus \<Rightarrow> ('r, 'a) pldm_fw_scheme \<Rightarrow> ('r, 'a) pldm_fw_scheme option" where
  "handle_pldm_get_commands_resp lib pldm_resp t s = do {
    let i = unat (tc_idx (ctx_of t s));
    fwk_assert (i < length (tc_pldm_info (ctx_of t s)));
    let info = tc_pldm_info (ctx_of t s) ! i;
    let v = unat (inf_idx info);
    fwk_assert (v < length (inf_version info));
    let (rc, _, commands) =
      decode_get_commands_resp lib pldm_resp (pldm_size lib PLDM_GET_COMMANDS_RESP_BYTES);
    let found = set_bits (take 32 commands);
    fwk_assert (length found < 256);
    PLDM_ASSERT lib rc;
    let info = info\<lparr>inf_version := (inf_version info)[v := (inf_version info ! v)\<lparr>
      ver_commands_count := of_nat (length found), ver_commands := map of_nat found\<rparr>],
      inf_idx := inf_idx info + 1\<rparr>;
    let s = upd_info t i (\<lambda>_. info) s;
    Some (if inf_idx info \<ge> inf_version_count info
      then upd_ctx t (\<lambda>c. c\<lparr>tc_idx := tc_idx c + 1\<rparr>) s else s) }"

section \<open>Event receiver\<close>

text \<open>The 16-bit heartbeat timer of the request is stored in an 8-bit member; the response carries the
  constant instance identifier.\<close>

definition handle_pldm_set_event_receiver_req ::
  "'r pldm_lib \<Rightarrow> pldm_msg \<Rightarrow> terminus \<Rightarrow> ('r, 'a) pldm_fw_scheme
    \<Rightarrow> ((pldm_msg \<times> nat) \<times> ('r, 'a) pldm_fw_scheme) option" where
  "handle_pldm_set_event_receiver_req lib pldm_req t s = do {
    (enable, transport, address, heartbeat) \<leftarrow> decode_checked lib
      (decode_set_event_receiver_req lib pldm_req (pldm_size lib PLDM_SET_EVENT_RECEIVER_REQ_BYTES));
    let s = upd_ctx t (\<lambda>c. c\<lparr>receiver_ev_state := \<lparr>global_enable = enable, receiver_addr = address,
      heartbeat_timer = ucast heartbeat, transport_protocol_type = transport\<rparr>\<rparr>) s;
    let len = pldm_size lib PLDM_MSG_HDR_T_SIZE;
    resp \<leftarrow> encode_checked lib (encode_set_event_receiver_resp lib PLDM_INSTANCE_ID
      (pldm_const lib PLDM_SUCCESS) (calloc_msg lib len));
    Some ((resp, len), s) }"

definition handle_pldm_get_event_receiver_req ::
  "'r pldm_lib \<Rightarrow> pldm_msg \<Rightarrow> terminus \<Rightarrow> ('r, 'a) pldm_fw_scheme
    \<Rightarrow> ((pldm_msg \<times> nat) \<times> ('r, 'a) pldm_fw_scheme) option" where
  "handle_pldm_get_event_receiver_req lib pldm_req t s = do {
    let len = pldm_size lib PLDM_MSG_HDR_T_SIZE + pldm_size lib SIZEOF_pldm_get_event_receiver_resp;
    let ev_state = receiver_ev_state (ctx_of t s);
    resp \<leftarrow> encode_checked lib (encode_get_event_receiver_resp lib (msg_instance_id pldm_req)
      (pldm_const lib PLDM_SUCCESS) (transport_protocol_type ev_state) (receiver_addr ev_state)
      (calloc_msg lib len));
    Some ((resp, len), s) }"

text \<open>The check is \<open>PLDM_ASSERT(rc & completion_code)\<close>.\<close>

definition handle_pldm_set_event_receiver_resp ::
  "'r pldm_lib \<Rightarrow> pldm_msg \<Rightarrow> nat \<Rightarrow> terminus \<Rightarrow> ('r, 'a) pldm_fw_scheme
    \<Rightarrow> ('r, 'a) pldm_fw_scheme option" where
  "handle_pldm_set_event_receiver_resp lib pldm_resp resp_len t s = do {
    let (rc, completion_code) = decode_set_event_receiver_resp lib pldm_resp resp_len;
    PLDM_ASSERT lib (rc AND uint completion_code);
    Some s }"

section \<open>PDRs and sensors\<close>

text \<open>The repository belongs to the context; there is no result check on the search.\<close>

definition handle_pldm_get_pdr_req ::
  "'r pldm_lib \<Rightarrow> pldm_msg \<Rightarrow> terminus \<Rightarrow> ('r, 'a) pldm_fw_scheme
    \<Rightarrow> ((pldm_msg \<times> nat) \<times> ('r, 'a) pldm_fw_scheme) option" where
  "handle_pldm_get_pdr_req lib pldm_req t s = do {
    (record_hndl, data_transfer_hndl, transfer_op_flag, request_cnt, record_chg_num) \<leftarrow> decode_checked lib
      (decode_get_pdr_req lib pldm_req (pldm_size lib PLDM_GET_PDR_REQ_BYTES));
    repo \<leftarrow> pdr_repo (tc_pdr_info (ctx_of t s));
    let (record_data, resp_cnt, next_record_hndl) = pldm_pdr_find_record lib repo record_hndl;
    let len = pldm_size lib PLDM_MSG_HDR_T_SIZE + pldm_size lib PLDM_GET_PDR_MIN_RESP_BYTES + unat resp_cnt;
    resp \<leftarrow> encode_checked lib (encode_get_pdr_resp lib (msg_instance_id pldm_req)
      (pldm_const lib PLDM_SUCCESS) next_record_hndl 0 PLDM_EVENT_START_AND_END (ucast resp_cnt)
      record_data 0xFF (calloc_msg lib len));
    Some ((resp, len), s) }"

text \<open>The size announced by the response is read before the response is decoded.\<close>

definition handle_pldm_get_pdr_resp ::
  "'r pldm_lib \<Rightarrow> pldm_msg \<Rightarrow> terminus \<Rightarrow> ('r, 'a) pldm_fw_scheme \<Rightarrow> ('r, 'a) pldm_fw_scheme option" where
  "handle_pldm_get_pdr_resp lib pldm_resp t s = (
    let i = unat (pdr_idx (tc_pdr_info (ctx_of t s))) in
    if i \<ge> PLDM_MAX_PDR then Some s
    else do {
      let sz = unat (get_pdr_response_count lib pldm_resp);
      (_, _, _, _, _, record_data, _) \<leftarrow> decode_checked lib
        (decode_get_pdr_resp lib sz pldm_resp (pldm_size lib PLDM_GET_PDR_MIN_RESP_BYTES + sz));
      Some (upd_ctx t (\<lambda>c. c\<lparr>tc_pdr_info := (tc_pdr_info c)\<lparr>
        pdr_pdr := (pdr_pdr (tc_pdr_info c))[i := record_data],
        pdr_idx := pdr_idx (tc_pdr_info c) + 1\<rparr>\<rparr>) s) })"

definition handle_pldm_get_state_sensor_reading_req ::
  "'r pldm_lib \<Rightarrow> pldm_msg \<Rightarrow> terminus \<Rightarrow> ('r, 'a) pldm_fw_scheme
    \<Rightarrow> ((pldm_msg \<times> nat) \<times> ('r, 'a) pldm_fw_scheme) option" where
  "handle_pldm_get_state_sensor_reading_req lib pldm_req t s = do {
    (sensor_id, rearm_event_state) \<leftarrow> decode_checked lib
      (decode_get_state_sensor_readings_req lib pldm_req
        (pldm_size lib PLDM_GET_STATE_SENSOR_READINGS_REQ_BYTES));
    let len = pldm_size lib PLDM_MSG_HDR_T_SIZE + pldm_size lib SIZEOF_pldm_get_state_sensor_readings_resp;
    let field = (pldm_const lib PLDM_SENSOR_ENABLED, pldm_const lib PLDM_STATE_SET_HEALTH_STATE_NORMAL,
      pldm_const lib PLDM_STATE_SET_HEALTH_STATE_NON_CRITICAL, pldm_const lib PLDM_SENSOR_NORMAL);
    resp \<leftarrow> encode_checked lib (encode_get_state_sensor_readings_resp lib (msg_instance_id pldm_req)
      (pldm_const lib PLDM_SUCCESS) 1 field (calloc_msg lib len));
    Some ((resp, len), s) }"

text \<open>The reading is a static counter of the requests; \<open>resp_cnt\<close> is 0.\<close>

definition handle_pldm_get_sensor_reading_req ::
  "'r pldm_lib \<Rightarrow> pldm_msg \<Rightarrow> terminus \<Rightarrow> ('r, 'a) pldm_fw_scheme
    \<Rightarrow> ((pldm_msg \<times> nat) \<times> ('r, 'a) pldm_fw_scheme) option" where
  "handle_pldm_get_sensor_reading_req lib pldm_req t s = do {
    (sensor_id, rearm_event_state) \<leftarrow> decode_checked lib
      (decode_get_sensor_reading_req lib pldm_req (pldm_size lib PLDM_GET_SENSOR_READING_REQ_BYTES));
    let len = pldm_size lib PLDM_MSG_HDR_T_SIZE + pldm_size lib SIZEOF_pldm_get_sensor_reading_resp;
    let s = s\<lparr>fw_sensor_value := fw_sensor_value s + 1\<rparr>;
    resp \<leftarrow> encode_checked lib (encode_get_sensor_reading_resp lib (msg_instance_id pldm_req)
      (pldm_const lib PLDM_SUCCESS) (pldm_const lib PLDM_EFFECTER_DATA_SIZE_UINT8)
      (pldm_const lib PLDM_SENSOR_ENABLED) (pldm_const lib PLDM_NO_EVENT_GENERATION)
      (pldm_const lib PLDM_SENSOR_NORMAL) (pldm_const lib PLDM_SENSOR_NORMAL)
      (pldm_const lib PLDM_SENSOR_NORMAL) (fw_sensor_value s)
      (pldm_size lib SIZEOF_pldm_get_sensor_reading_resp) (calloc_msg lib len));
    Some ((resp, len), s) }"

section \<open>Polling for platform events\<close>

text \<open>The local variables the switch of \<open>handle_pldm_poll_for_platform_event_message\<close> sets, and the
  event data from \<open>data_transfer_handle\<close> on.\<close>

record poll_resp =
  pr_transfer_flag :: u8
  pr_completion_code :: u8
  pr_xfer_id :: u16
  pr_xfer_size :: u32
  pr_next_handle :: u32
  pr_handle :: u32
  pr_payload_length :: nat

definition max_xfer_size :: "'r terminus_ctx \<Rightarrow> u32" where
  "max_xfer_size ctx =
    (if event_terminus_max_buffer_size ctx > event_receiver_max_buffer_size ctx
     then ucast (event_receiver_max_buffer_size ctx) else ucast (event_terminus_max_buffer_size ctx))"

text \<open>\<open>PLDM_GET_FIRSTPART\<close>: takes the next event out of the queue unless one is being transferred.\<close>

definition poll_first_part ::
  "'r pldm_lib \<Rightarrow> u32 \<Rightarrow> u32 \<Rightarrow> poll_state \<times> pldm_event_queue
    \<Rightarrow> (poll_resp \<times> poll_state \<times> pldm_event_queue) option" where
  "poll_first_part lib max_size handle st = do {
    let (po, queue) = st;
    (po, queue) \<leftarrow> (if po_event_id po = 0 then do {
        (out, queue) \<leftarrow> event_queue_get (po_event_data po) queue;
        Some (\<lparr>po_event_data = go_data out, po_event_id = go_id out, po_event_size = go_size out,
          po_checksum = go_checksum out, po_event_class = go_class out\<rparr>, queue) }
      else Some (po, queue));
    Some (if po_event_id po = 0
      then (\<lparr>pr_transfer_flag = PLDM_EVENT_START, pr_completion_code = pldm_const lib PLDM_SUCCESS,
          pr_xfer_id = po_event_id po, pr_xfer_size = 0, pr_next_handle = 0, pr_handle = handle,
          pr_payload_length = pldm_size lib PLDM_POLL_FOR_PLATFORM_EVENT_MESSAGE_MIN_RESP_BYTES\<rparr>, po, queue)
      else let (flag, xfer_size, crc_length) =
          (if po_event_size po \<ge> max_size then (PLDM_EVENT_START, max_size, 0)
           else (PLDM_EVENT_START_AND_END, po_event_size po, 4))
        in (\<lparr>pr_transfer_flag = flag, pr_completion_code = pldm_const lib PLDM_SUCCESS,
          pr_xfer_id = po_event_id po, pr_xfer_size = xfer_size, pr_next_handle = xfer_size, pr_handle = 0,
          pr_payload_length = crc_length +
            (pldm_size lib PLDM_POLL_FOR_PLATFORM_EVENT_MESSAGE_RESP_BYTES + unat xfer_size)\<rparr>, po, queue)) }"

text \<open>\<open>PLDM_GET_NEXTPART\<close> and every other flag. The two refusals leave \<open>payload_length\<close> at 0.\<close>

definition poll_next_part ::
  "'r pldm_lib \<Rightarrow> u32 \<Rightarrow> u32 \<Rightarrow> u16 \<Rightarrow> poll_state \<Rightarrow> poll_resp" where
  "poll_next_part lib max_size handle event_id_to_acknowledge po =
    (let refused = \<lambda>code. \<lparr>pr_transfer_flag = PLDM_EVENT_MIDDLE, pr_completion_code = code,
        pr_xfer_id = po_event_id po, pr_xfer_size = 0, pr_next_handle = 0, pr_handle = 0,
        pr_payload_length = 0\<rparr>
     in if event_id_to_acknowledge \<noteq> 0xffff then refused PLDM_PLATFORM_EVENT_ID_NOT_VALID
     else if po_event_id po = 0 \<or> handle > po_event_size po
       then refused (pldm_const lib PLDM_PLATFORM_INVALID_DATA_TRANSFER_HANDLE)
     else
       let left = po_event_size po - handle;
           xfer_size = (if left > max_size then max_size else left);
           (flag, crc_length) = (if xfer_size + 4 \<le> max_size then (PLDM_EVENT_END, 4) else (PLDM_EVENT_MIDDLE, 0))
       in \<lparr>pr_transfer_flag = flag, pr_completion_code = pldm_const lib PLDM_SUCCESS,
         pr_xfer_id = po_event_id po, pr_xfer_size = xfer_size, pr_next_handle = handle + xfer_size,
         pr_handle = handle, pr_payload_length =
           pldm_size lib PLDM_POLL_FOR_PLATFORM_EVENT_MESSAGE_RESP_BYTES + unat xfer_size + crc_length\<rparr>)"

text \<open>\<open>PLDM_ACKNOWLEDGEMENT_ONLY\<close>.\<close>

definition poll_acknowledge ::
  "'r pldm_lib \<Rightarrow> u16 \<Rightarrow> poll_state \<times> pldm_event_queue \<Rightarrow> poll_resp \<times> poll_state" where
  "poll_acknowledge lib event_id_to_acknowledge st =
    (let (po, queue) = st;
         acknowledged = (po_event_id po = event_id_to_acknowledge)
     in (\<lparr>pr_transfer_flag = PLDM_EVENT_START,
          pr_completion_code = (if acknowledged then pldm_const lib PLDM_SUCCESS else PLDM_PLATFORM_EVENT_ID_NOT_VALID),
          pr_xfer_id = (if eq_length queue > 0 then 0xffff else 0), pr_xfer_size = 0, pr_next_handle = 0,
          pr_handle = 0,
          pr_payload_length = pldm_size lib PLDM_POLL_FOR_PLATFORM_EVENT_MESSAGE_MIN_RESP_BYTES\<rparr>,
         if acknowledged then po\<lparr>po_event_id := 0\<rparr> else po))"

definition poll_transfer ::
  "'r pldm_lib \<Rightarrow> u32 \<Rightarrow> u8 \<Rightarrow> u32 \<Rightarrow> u16 \<Rightarrow> poll_state \<times> pldm_event_queue
    \<Rightarrow> (poll_resp \<times> poll_state \<times> pldm_event_queue) option" where
  "poll_transfer lib max_size transfer_operation_flag data_transfer_handle event_id_to_acknowledge st =
    (if transfer_operation_flag = pldm_const lib PLDM_ACKNOWLEDGEMENT_ONLY
     then case poll_acknowledge lib event_id_to_acknowledge st of (r, po) \<Rightarrow> Some (r, po, snd st)
     else if transfer_operation_flag = pldm_const lib PLDM_GET_FIRSTPART
     then poll_first_part lib max_size data_transfer_handle st
     else Some (poll_next_part lib max_size data_transfer_handle event_id_to_acknowledge (fst st), st))"

text \<open>The encoder reads \<open>xfer_size\<close> bytes from \<open>&event_data[data_transfer_handle]\<close> on; they must lie in
  the array.\<close>

definition handle_pldm_poll_for_platform_event_message ::
  "'r pldm_lib \<Rightarrow> pldm_msg \<Rightarrow> terminus \<Rightarrow> ('r, 'a) pldm_fw_scheme
    \<Rightarrow> ((pldm_msg \<times> nat) \<times> ('r, 'a) pldm_fw_scheme) option" where
  "handle_pldm_poll_for_platform_event_message lib pldm_req t s = do {
    (format_version, transfer_operation_flag, data_transfer_handle, event_id_to_acknowledge) \<leftarrow>
      decode_checked lib (decode_poll_for_platform_event_message_req lib pldm_req
        (pldm_size lib PLDM_POLL_FOR_PLATFORM_EVENT_MESSAGE_REQ_BYTES));
    (r, po, queue) \<leftarrow> poll_transfer lib (max_xfer_size (ctx_of MCP s)) transfer_operation_flag
      data_transfer_handle event_id_to_acknowledge (fw_poll s, event_queue_of (ctx_of MCP s));
    let s = upd_ctx MCP (\<lambda>c. c\<lparr>event_queue_of := queue\<rparr>) (s\<lparr>fw_poll := po\<rparr>);
    let len = pldm_size lib PLDM_MSG_HDR_T_SIZE + pr_payload_length r;
    fwk_assert (pr_xfer_size r = 0 \<or> unat (pr_handle r) + unat (pr_xfer_size r) \<le> length (po_event_data po));
    resp \<leftarrow> encode_checked lib (encode_poll_for_platform_event_message_resp lib (msg_instance_id pldm_req)
      (pr_completion_code r) (tid (ctx_of t s)) (pr_xfer_id r) (pr_next_handle r) (pr_transfer_flag r)
      (po_event_class po) (pr_xfer_size r) (drop (unat (pr_handle r)) (po_event_data po)) (po_checksum po)
      (pr_payload_length r) (calloc_msg lib len));
    Some ((resp, len), s) }"

section \<open>Platform events sent to the terminus\<close>

text \<open>The size of the event follows from its class, for a sensor event from the byte behind the sensor
  identifier; the number of bytes received is not looked at. Sizes of the packed structures of
  \<open>mod_pldm_fw_int.h\<close> (those of \<open>Cper.h\<close> are 72 and 32 bytes).\<close>

definition SIZEOF_event_data_state_sensor_state :: u32 where "SIZEOF_event_data_state_sensor_state = 6"
definition SIZEOF_event_data_numeric_sensor_state_uint8 :: u32 where
  "SIZEOF_event_data_numeric_sensor_state_uint8 = 7"
definition SIZEOF_cper_event_data :: u32 where "SIZEOF_cper_event_data = 4 + 72 + 32"

definition event_data_size :: "'r pldm_lib \<Rightarrow> u8 \<Rightarrow> u8 list \<Rightarrow> u32 option" where
  "event_data_size lib event_class event_data =
    (if event_class = pldm_const lib PLDM_SENSOR_EVENT then do {
       fwk_assert (2 < length event_data);
       Some (if event_data ! 2 = 1 then SIZEOF_event_data_state_sensor_state
         else if event_data ! 2 = 2 then SIZEOF_event_data_numeric_sensor_state_uint8 else 0) }
     else if event_class = PLDM_CPER_EVENT then Some SIZEOF_cper_event_data
     else Some 0)"

definition PLDM_FW_EVENT_IDX_PLDM_EVENT_MESSAGE :: u32 where "PLDM_FW_EVENT_IDX_PLDM_EVENT_MESSAGE = 0"

text \<open>The event the module sends itself to notify the receiver.\<close>

definition pldm_event_message :: "u32 \<Rightarrow> fwk_event" where
  "pldm_event_message idx = event_zero\<lparr>ev_target_id := FWK_ID_MODULE idx, ev_source_id := FWK_ID_MODULE idx,
    ev_id := FWK_ID_EVENT idx PLDM_FW_EVENT_IDX_PLDM_EVENT_MESSAGE\<rparr>"

text \<open>The queue is the one of \<open>pldm_fw_mcp_ctx\<close>; the result of \<open>event_queue_put\<close> is ignored.\<close>

definition put_platform_event ::
  "u8 list \<Rightarrow> u32 \<Rightarrow> u8 \<Rightarrow> u32 \<Rightarrow> ('r, 'a) pldm_fw_scheme \<Rightarrow> ('r, 'a) pldm_fw_scheme option" where
  "put_platform_event event_data event_size event_class checksum s = do {
    (_, queue, next_id) \<leftarrow> event_queue_put event_data event_size event_class checksum
      (event_queue_of (ctx_of MCP s), fw_event_id s);
    Some (upd_ctx MCP (\<lambda>c. c\<lparr>event_queue_of := queue\<rparr>) (s\<lparr>fw_event_id := next_id\<rparr>)) }"

text \<open>The response is allocated with \<open>fwk_mm_alloc\<close>, which does not clear it; the encoder writes all of it, so it is
  modelled as cleared like the others.\<close>

definition handle_pldm_platform_event_message_req ::
  "'r pldm_lib \<Rightarrow> pldm_msg \<Rightarrow> nat \<Rightarrow> ('r, 'a) pldm_fw_scheme
    \<Rightarrow> ((pldm_msg \<times> nat) \<times> ('r, 'a) pldm_fw_scheme) option" where
  "handle_pldm_platform_event_message_req lib pldm_req req_len s = do {
    (format_version, event_tid, event_class, event_data_offset) \<leftarrow> decode_checked lib
      (decode_platform_event_message_req lib pldm_req (req_len - pldm_size lib PLDM_MSG_HDR_T_SIZE));
    let event_data = drop event_data_offset (msg_payload pldm_req);
    sz \<leftarrow> event_data_size lib event_class event_data;
    bytes \<leftarrow> mem_read event_data 0 (unat sz);
    s \<leftarrow> put_platform_event event_data sz event_class (crc32 lib bytes) s;
    let len = pldm_size lib PLDM_MSG_HDR_T_SIZE + pldm_size lib SIZEOF_pldm_platform_event_message_resp;
    resp \<leftarrow> encode_checked lib (encode_platform_event_message_resp lib (msg_instance_id pldm_req)
      (pldm_const lib PLDM_SUCCESS) (pldm_const lib PLDM_EVENT_LOGGED) (calloc_msg lib len));
    ((status, _), s) \<leftarrow> fwk_put_event (Some (pldm_event_message (pldm_fw_idx s))) s;
    PLDM_ASSERT lib status;
    Some ((resp, len), s) }"

definition handle_pldm_platform_event_message_resp ::
  "'r pldm_lib \<Rightarrow> pldm_msg \<Rightarrow> nat \<Rightarrow> ('r, 'a) pldm_fw_scheme \<Rightarrow> ('r, 'a) pldm_fw_scheme option" where
  "handle_pldm_platform_event_message_resp lib pldm_resp resp_len s = do {
    _ \<leftarrow> decode_checked lib (decode_platform_event_message_resp lib pldm_resp resp_len);
    Some s }"

definition handle_pldm_event_message_buffer_req ::
  "'r pldm_lib \<Rightarrow> pldm_msg \<Rightarrow> terminus \<Rightarrow> ('r, 'a) pldm_fw_scheme
    \<Rightarrow> ((pldm_msg \<times> nat) \<times> ('r, 'a) pldm_fw_scheme) option" where
  "handle_pldm_event_message_buffer_req lib pldm_req t s = do {
    max_buffer_size \<leftarrow> decode_checked lib (decode_event_message_buffer_size_req lib pldm_req
      (pldm_size lib PLDM_EVENT_MESSAGE_BUFFER_SIZE_REQ_BYTES));
    let s = upd_ctx t (\<lambda>c. c\<lparr>event_receiver_max_buffer_size := max_buffer_size\<rparr>) s;
    let len = pldm_size lib PLDM_MSG_HDR_T_SIZE + pldm_size lib SIZEOF_pldm_event_message_buffer_size_resp;
    resp \<leftarrow> encode_checked lib (encode_event_message_buffer_size_resp lib (msg_instance_id pldm_req)
      (pldm_const lib PLDM_SUCCESS) (event_terminus_max_buffer_size (ctx_of t s)) (calloc_msg lib len));
    Some ((resp, len), s) }"

section \<open>FRU records\<close>

definition fru_record_table :: "u8 list" where
  "fru_record_table =
    [0x0, 0x0, 0x01, 0x03, 0x01,
     0x03, 0x06, 0x31, 0x32, 0x33, 0x34, 0x35, 0x36,
     0x04, 0x07, 0x53, 0x4E, 0x31, 0x32, 0x33, 0x34, 0x35,
     0x08, 0x05, 0x53, 0x61, 0x74, 0x4D, 0x43]"

definition get_fru_record_table_size :: nat where
  "get_fru_record_table_size = length fru_record_table"

text \<open>The table, its padding and four fixed bytes in the place of the checksum are written into the
  payload behind the fixed members of the response.\<close>

definition handle_pldm_get_fru_record_table ::
  "'r pldm_lib \<Rightarrow> pldm_msg \<Rightarrow> nat \<Rightarrow> ('r, 'a) pldm_fw_scheme
    \<Rightarrow> ((pldm_msg \<times> nat) \<times> ('r, 'a) pldm_fw_scheme) option" where
  "handle_pldm_get_fru_record_table lib pldm_req req_len s = do {
    _ \<leftarrow> decode_checked lib (decode_get_fru_record_table_req lib pldm_req
      (req_len - pldm_size lib PLDM_MSG_HDR_T_SIZE));
    let pad = 4 - (get_fru_record_table_size mod 4);
    let len = pldm_size lib PLDM_MSG_HDR_T_SIZE + pldm_size lib SIZEOF_pldm_get_fru_record_table_resp - 1 +
      get_fru_record_table_size + pad + 4;
    let (rc, resp) = encode_get_fru_record_table_resp lib (msg_instance_id pldm_req)
      (pldm_const lib PLDM_SUCCESS) 0 (pldm_const lib PLDM_START_AND_END) (calloc_msg lib len);
    payload \<leftarrow> mem_write (msg_payload resp) (pldm_size lib OFFSETOF_fru_record_table_data)
      (fru_record_table @ replicate pad 0 @ [1, 2, 3, 4]);
    PLDM_ASSERT lib rc;
    Some ((resp\<lparr>msg_payload := payload\<rparr>, len), s) }"

section \<open>Dispatch\<close>

definition get_pldm_request :: "pldm_msg \<Rightarrow> u8" where
  "get_pldm_request msg = msg_request msg"

definition pldm_get_hash :: "pldm_msg \<Rightarrow> u16" where
  "pldm_get_hash pldm_req = PLDM_HASH (msg_type pldm_req) (msg_command pldm_req)"

text \<open>The switch of \<open>process_pldm_packet\<close> when a response is expected. The labels of the switch are
  distinct, or it would not compile.\<close>

definition process_pldm_request ::
  "'r pldm_lib \<Rightarrow> pldm_msg \<Rightarrow> nat \<Rightarrow> u16 \<Rightarrow> terminus \<Rightarrow> ('r, 'a) pldm_fw_scheme
    \<Rightarrow> ((pldm_msg \<times> nat) \<times> ('r, 'a) pldm_fw_scheme) option" where
  "process_pldm_request lib p len hash t s =
    (let base = \<lambda>c. PLDM_HASH (pldm_const lib PLDM_BASE) (pldm_const lib c);
         platform = \<lambda>c. PLDM_HASH (pldm_const lib PLDM_PLATFORM) (pldm_const lib c) in
     if hash = PLDM_HASH (pldm_const lib PLDM_BASE) PLDM_SET_TID then handle_pldm_set_tid_req lib p t s
     else if hash = base PLDM_GET_TID then handle_pldm_get_tid_req lib p t s
     else if hash = platform PLDM_SET_EVENT_RECEIVER then handle_pldm_set_event_receiver_req lib p t s
     else if hash = base PLDM_GET_PLDM_TYPES then handle_pldm_get_pldm_types_req lib p t s
     else if hash = base PLDM_GET_PLDM_VERSION then handle_pldm_get_version_req lib p t s
     else if hash = base PLDM_GET_PLDM_COMMANDS then handle_pldm_get_commands_req lib p t s
     else if hash = platform PLDM_GET_PDR then handle_pldm_get_pdr_req lib p t s
     else if hash = platform PLDM_GET_SENSOR_READING then handle_pldm_get_sensor_reading_req lib p t s
     else if hash = platform PLDM_GET_STATE_SENSOR_READINGS then handle_pldm_get_state_sensor_reading_req lib p t s
     else if hash = platform PLDM_POLL_FOR_PLATFORM_EVENT_MESSAGE
     then handle_pldm_poll_for_platform_event_message lib p t s
     else if hash = platform PLDM_PLATFORM_EVENT_MESSAGE then handle_pldm_platform_event_message_req lib p len s
     else if hash = PLDM_HASH (pldm_const lib PLDM_PLATFORM) PLDM_GET_EVENT_RECEIVER
     then handle_pldm_get_event_receiver_req lib p t s
     else if hash = platform PLDM_EVENT_MESSAGE_BUFFER_SIZE then handle_pldm_event_message_buffer_req lib p t s
     else if hash = PLDM_HASH (pldm_const lib PLDM_FRU) (pldm_const lib PLDM_GET_FRU_RECORD_TABLE)
     then handle_pldm_get_fru_record_table lib p len s
     else Some (pldm_response_unsupport lib p, s))"

text \<open>The same switch when \<open>pldm_resp_ptr\<close> is NULL: labels without a response handler do nothing.\<close>

definition process_pldm_response ::
  "'r pldm_lib \<Rightarrow> pldm_msg \<Rightarrow> nat \<Rightarrow> u16 \<Rightarrow> terminus \<Rightarrow> ('r, 'a) pldm_fw_scheme
    \<Rightarrow> ('r, 'a) pldm_fw_scheme option" where
  "process_pldm_response lib p len hash t s =
    (let base = \<lambda>c. PLDM_HASH (pldm_const lib PLDM_BASE) (pldm_const lib c);
         platform = \<lambda>c. PLDM_HASH (pldm_const lib PLDM_PLATFORM) (pldm_const lib c) in
     if hash = PLDM_HASH (pldm_const lib PLDM_BASE) PLDM_SET_TID then Some s
     else if hash = base PLDM_GET_TID then handle_pldm_get_tid_resp lib p t s
     else if hash = platform PLDM_SET_EVENT_RECEIVER then handle_pldm_set_event_receiver_resp lib p len t s
     else if hash = base PLDM_GET_PLDM_TYPES then handle_pldm_get_pldm_types_resp lib p t s
     else if hash = base PLDM_GET_PLDM_VERSION then handle_pldm_get_version_resp lib p len t s
     else if hash = base PLDM_GET_PLDM_COMMANDS then handle_pldm_get_commands_resp lib p t s
     else if hash = platform PLDM_GET_PDR then handle_pldm_get_pdr_resp lib p t s
     else if hash = platform PLDM_PLATFORM_EVENT_MESSAGE then handle_pldm_platform_event_message_resp lib p len s
     else Some s)"

text \<open>A request is answered on the bus it came from; it goes to the context of the MCP, a response to the
  view the BMC has of it.\<close>

definition pldm_fw_receive_from_transport_layer ::
  "'r pldm_lib \<Rightarrow> u32 \<Rightarrow> pldm_msg \<Rightarrow> nat \<Rightarrow> ('r, 'a) pldm_fw_scheme \<Rightarrow> ('r, 'a) pldm_fw_scheme option" where
  "pldm_fw_receive_from_transport_layer lib bus pldm_packet len s =
    (let hash = pldm_get_hash pldm_packet in
     if get_pldm_request pldm_packet = pldm_const lib PLDM_REQUEST then do {
       ((pldm_resp, sz), s) \<leftarrow> process_pldm_request lib pldm_packet len hash MCP s;
       Some (send_pldm_packet bus False 0 (Some pldm_resp) sz s) }
     else process_pldm_response lib pldm_packet len hash BMC s)"

section \<open>Discovery\<close>

text \<open>\<open>info\<close> and \<open>version_idx\<close> are read before the state is looked at, also when the table has no entry
  at the index (before the types are known it is NULL); \<open>stray\<close> is what such a read finds.\<close>

definition current_info :: "pldm_info \<Rightarrow> 'r terminus_ctx \<Rightarrow> pldm_info" where
  "current_info stray ctx =
    (if unat (tc_idx ctx) < length (tc_pldm_info ctx) then tc_pldm_info ctx ! unat (tc_idx ctx) else stray)"

text \<open>The end of \<open>pldm_fw_discovery\<close>: the request is checked and sent on the serial bus.\<close>

definition send_request ::
  "'r pldm_lib \<Rightarrow> int \<times> pldm_msg \<Rightarrow> nat \<Rightarrow> ('r, 'a) pldm_fw_scheme \<Rightarrow> ('r, 'a) pldm_fw_scheme option" where
  "send_request lib r sz s = do {
    request \<leftarrow> encode_checked lib r;
    Some (send_pldm_packet MCTP_FW_BIND_SERIAL_API_IDX True 0 (Some request) sz s) }"

text \<open>Without a type or a version left to ask for, \<open>rc\<close> is used uninitialised: \<open>None\<close>. The request for
  a PDR is allocated without room for the header.\<close>

definition pldm_fw_discovery ::
  "'r pldm_lib \<Rightarrow> pldm_info \<Rightarrow> terminus \<Rightarrow> ('r, 'a) pldm_fw_scheme \<Rightarrow> ('r, 'a) pldm_fw_scheme option" where
  "pldm_fw_discovery lib stray t s =
    (let ctx = ctx_of t s; idx = tc_idx ctx; info = current_info stray ctx; version_idx = inf_idx info in
     case fw_discovery s of
       PLDM_FW_REQ_TID \<Rightarrow>
         let sz = pldm_size lib PLDM_MSG_T_SIZE in
         send_request lib (encode_get_tid_req lib PLDM_INSTANCE_ID (calloc_msg lib sz)) sz
           (s\<lparr>fw_discovery := PLDM_FW_SET_EVENT_RECEIVER\<rparr>)
     | PLDM_FW_SET_EVENT_RECEIVER \<Rightarrow>
         let sz = pldm_size lib PLDM_MSG_HDR_T_SIZE + pldm_size lib PLDM_SET_EVENT_RECEIVER_REQ_BYTES;
             ev_state = receiver_ev_state ctx in
         send_request lib (encode_set_event_receiver_req lib PLDM_INSTANCE_ID (global_enable ev_state)
             (transport_protocol_type ev_state) (receiver_addr ev_state) (ucast (heartbeat_timer ev_state))
             (calloc_msg lib sz)) sz
           (s\<lparr>fw_discovery := PLDM_FW_GET_PDR\<rparr>)
     | PLDM_FW_GET_PDR \<Rightarrow>
         let sz = pldm_size lib PLDM_GET_PDR_REQ_BYTES in
         send_request lib (encode_get_pdr_req lib PLDM_INSTANCE_ID 0 0 (pldm_const lib PLDM_GET_FIRSTPART)
             (of_nat (pldm_size lib SIZEOF_pldm_state_sensor_pdr)) 0 (pldm_size lib PLDM_GET_PDR_REQ_BYTES)
             (calloc_msg lib sz)) sz
           (s\<lparr>fw_discovery := PLDM_FW_REQ_TYPES\<rparr>)
     | PLDM_FW_REQ_TYPES \<Rightarrow>
         let sz = pldm_size lib PLDM_MSG_T_SIZE in
         send_request lib (encode_get_types_req lib PLDM_INSTANCE_ID (calloc_msg lib sz)) sz
           (s\<lparr>fw_discovery := PLDM_FW_REQ_VERSION\<rparr>)
     | PLDM_FW_REQ_VERSION \<Rightarrow>
         if idx < types_count ctx then
           let sz = pldm_size lib PLDM_MSG_HDR_T_SIZE + pldm_size lib PLDM_GET_VERSION_REQ_BYTES in
           send_request lib (encode_get_version_req lib PLDM_INSTANCE_ID 0 (pldm_const lib PLDM_GET_FIRSTPART)
               (inf_type info) (calloc_msg lib sz)) sz
             (s\<lparr>fw_discovery := PLDM_FW_REQ_CMDS\<rparr>)
         else None
     | PLDM_FW_REQ_CMDS \<Rightarrow>
         if version_idx < inf_version_count info then do {
           let sz = pldm_size lib PLDM_MSG_HDR_T_SIZE + pldm_size lib PLDM_GET_COMMANDS_REQ_BYTES;
           fwk_assert (unat version_idx < length (inf_version info));
           send_request lib (encode_get_commands_req lib PLDM_INSTANCE_ID (inf_type info)
               (ver_version (inf_version info ! unat version_idx)) (calloc_msg lib sz)) sz
             (s\<lparr>fw_discovery :=
               (if unat version_idx + 1 < unat (inf_version_count info) then PLDM_FW_REQ_CMDS
                else if unat idx + 1 < unat (types_count ctx) then PLDM_FW_REQ_VERSION
                else PLDM_FW_DISCOVERY_DONE)\<rparr>) }
         else None
     | PLDM_FW_DISCOVERY_DONE \<Rightarrow> Some s)"

definition pldm_fw_send_next_request ::
  "'r pldm_lib \<Rightarrow> pldm_info \<Rightarrow> terminus \<Rightarrow> ('r, 'a) pldm_fw_scheme \<Rightarrow> ('r, 'a) pldm_fw_scheme option" where
  "pldm_fw_send_next_request lib stray t s =
    (case fw_state s of PLDM_FW_DISCOVERY \<Rightarrow> pldm_fw_discovery lib stray t s)"

definition bmc_init_ctx :: "'r pldm_lib \<Rightarrow> 'r terminus_ctx \<Rightarrow> 'r terminus_ctx" where
  "bmc_init_ctx lib ctx = ctx\<lparr>receiver_ev_state :=
      \<lparr>global_enable = pldm_const lib PLDM_EVENT_MESSAGE_GLOBAL_ENABLE_POLLING, receiver_addr = 8,
        heartbeat_timer = 0, transport_protocol_type = pldm_const lib PLDM_TRANSPORT_PROTOCOL_TYPE_MCTP\<rparr>,
    tc_pdr_info := (tc_pdr_info ctx)\<lparr>pdr_owner := False, pdr_repo := None\<rparr>\<rparr>"

definition bmc_init ::
  "'r pldm_lib \<Rightarrow> pldm_info \<Rightarrow> ('r, 'a) pldm_fw_scheme \<Rightarrow> ('r, 'a) pldm_fw_scheme option" where
  "bmc_init lib stray s = pldm_fw_discovery lib stray BMC (upd_ctx BMC (bmc_init_ctx lib) s)"

text \<open>The description the MCP gives of itself.\<close>

definition MCP_TID :: u8 where "MCP_TID = 0"

definition mcp_set_ctx :: "'r pldm_lib \<Rightarrow> 'r terminus_ctx \<Rightarrow> 'r terminus_ctx" where
  "mcp_set_ctx lib ctx =
    (let entry = \<lambda>type version commands. \<lparr>inf_type = type, inf_idx = 0, inf_version_count = 1,
        inf_version = [\<lparr>ver_idx = 0, ver_commands_count = of_nat (length commands),
          ver_commands = commands, ver_version = version\<rparr>]\<rparr>
     in ctx\<lparr>tid := MCP_TID, types_count := 2,
       tc_pldm_info :=
        [entry (pldm_const lib PLDM_BASE) (0xF1, 0xF0, 0xF0, 0x00)
           (map (pldm_const lib) [PLDM_GET_TID, PLDM_GET_PLDM_VERSION, PLDM_GET_PLDM_TYPES, PLDM_GET_PLDM_COMMANDS]),
         entry (pldm_const lib PLDM_PLATFORM) (0xF1, 0xF2, 0xF0, 0x00)
           (map (pldm_const lib) [PLDM_SET_NUMERIC_EFFECTER_VALUE, PLDM_SET_STATE_EFFECTER_STATES, PLDM_GET_PDR,
             PLDM_SET_EVENT_RECEIVER, PLDM_PLATFORM_EVENT_MESSAGE])],
       event_terminus_max_buffer_size := EVENT_MAX_BUFFER_SIZE,
       event_receiver_max_buffer_size := EVENT_MAX_BUFFER_SIZE\<rparr>)"

section \<open>Events of the framework\<close>

text \<open>\<open>pldm_message_poll_event_data_t\<close> is packed: version, 16-bit event identifier, 32-bit handle.\<close>

definition poll_event_data_bytes :: "u8 \<Rightarrow> u16 \<Rightarrow> u32 \<Rightarrow> u8 list" where
  "poll_event_data_bytes version event_id handle =
    version # [ucast event_id, ucast (drop_bit 8 event_id)] @ params_put32 0 handle [0, 0, 0, 0]"

definition send_pldm_platform_event_message ::
  "'r pldm_lib \<Rightarrow> u16 \<Rightarrow> u32 \<Rightarrow> ('r, 'a) pldm_fw_scheme \<Rightarrow> (fwk_status \<times> ('r, 'a) pldm_fw_scheme) option" where
  "send_pldm_platform_event_message lib terminus_id data_transfer_handle s = do {
    let sz = pldm_size lib PLDM_PLATFORM_EVENT_MESSAGE_MIN_REQ_BYTES + pldm_size lib PLDM_MSG_POLL_EVENT_LENGTH;
    let len = pldm_size lib PLDM_MSG_HDR_T_SIZE + sz;
    s \<leftarrow> send_request lib (encode_platform_event_message_req lib PLDM_INSTANCE_ID 1 (ucast terminus_id)
      (pldm_const lib PLDM_MESSAGE_POLL_EVENT) (poll_event_data_bytes 1 terminus_id data_transfer_handle)
      7 sz (calloc_msg lib len)) len s;
    Some (FWK_SUCCESS, s) }"

definition pldm_fw_process_event ::
  "'r pldm_lib \<Rightarrow> fwk_event \<Rightarrow> fwk_event \<Rightarrow> ('r, 'a) pldm_fw_scheme
    \<Rightarrow> ((fwk_status \<times> fwk_event) \<times> ('r, 'a) pldm_fw_scheme) option" where
  "pldm_fw_process_event lib event resp s = do {
    idx \<leftarrow> fwk_id_get_event_idx (ev_id event);
    if idx = PLDM_FW_EVENT_IDX_PLDM_EVENT_MESSAGE then do {
      (_, s) \<leftarrow> send_pldm_platform_event_message lib 1 0 s;
      Some ((FWK_SUCCESS, resp), s) }
    else Some ((FWK_E_PARAM, resp), s) }"

end
