(* ===== verification/Pldm_Example.thy ===== *)
theory Pldm_Example
  imports Pldm_Fw
begin

unbundle bit_operations_syntax

text \<open>
  A concrete codec and a state for the examples: constants and sizes as the PLDM specifications
  DSP0240, DSP0248 and DSP0257 give them, messages whose payload lists the arguments byte by byte, and
  the module as it is when discovery has reached the supported types.
\<close>

definition const0 :: "pldm_const \<Rightarrow> u8" where
  "const0 c = (case c of
      PLDM_SUCCESS \<Rightarrow> 0 | PLDM_ERROR_UNSUPPORTED_PLDM_CMD \<Rightarrow> 5 | PLDM_REQUEST \<Rightarrow> 1
    | PLDM_BASE \<Rightarrow> 0 | PLDM_PLATFORM \<Rightarrow> 2 | PLDM_FRU \<Rightarrow> 4
    | PLDM_GET_TID \<Rightarrow> 2 | PLDM_GET_PLDM_VERSION \<Rightarrow> 3 | PLDM_GET_PLDM_TYPES \<Rightarrow> 4 | PLDM_GET_PLDM_COMMANDS \<Rightarrow> 5
    | PLDM_SET_EVENT_RECEIVER \<Rightarrow> 4 | PLDM_PLATFORM_EVENT_MESSAGE \<Rightarrow> 0xA
    | PLDM_POLL_FOR_PLATFORM_EVENT_MESSAGE \<Rightarrow> 0xB | PLDM_EVENT_MESSAGE_BUFFER_SIZE \<Rightarrow> 0xD
    | PLDM_GET_SENSOR_READING \<Rightarrow> 0x11 | PLDM_GET_STATE_SENSOR_READINGS \<Rightarrow> 0x21
    | PLDM_SET_NUMERIC_EFFECTER_VALUE \<Rightarrow> 0x31 | PLDM_SET_STATE_EFFECTER_STATES \<Rightarrow> 0x39
    | PLDM_GET_PDR \<Rightarrow> 0x51 | PLDM_GET_FRU_RECORD_TABLE \<Rightarrow> 2
    | PLDM_GET_NEXTPART \<Rightarrow> 0 | PLDM_GET_FIRSTPART \<Rightarrow> 1 | PLDM_ACKNOWLEDGEMENT_ONLY \<Rightarrow> 2
    | PLDM_START_AND_END \<Rightarrow> 5 | PLDM_PLATFORM_INVALID_DATA_TRANSFER_HANDLE \<Rightarrow> 0x80
    | PLDM_SENSOR_EVENT \<Rightarrow> 0 | PLDM_MESSAGE_POLL_EVENT \<Rightarrow> 5 | PLDM_EVENT_LOGGED \<Rightarrow> 1 | PLDM_EVENT_NO_LOGGING \<Rightarrow> 0
    | PLDM_EVENT_MESSAGE_GLOBAL_ENABLE_POLLING \<Rightarrow> 2 | PLDM_TRANSPORT_PROTOCOL_TYPE_MCTP \<Rightarrow> 0
    | PLDM_SENSOR_ENABLED \<Rightarrow> 0 | PLDM_SENSOR_NORMAL \<Rightarrow> 1 | PLDM_NO_EVENT_GENERATION \<Rightarrow> 0
    | PLDM_EFFECTER_DATA_SIZE_UINT8 \<Rightarrow> 0 | PLDM_STATE_SET_HEALTH_STATE_NORMAL \<Rightarrow> 1
    | PLDM_STATE_SET_HEALTH_STATE_NON_CRITICAL \<Rightarrow> 2)"

definition size0 :: "pldm_size \<Rightarrow> nat" where
  "size0 c = (case c of
      PLDM_MSG_HDR_T_SIZE \<Rightarrow> 3 | PLDM_MSG_T_SIZE \<Rightarrow> 4 | PLDM_SET_EVENT_RECEIVER_REQ_BYTES \<Rightarrow> 5
    | PLDM_GET_PDR_REQ_BYTES \<Rightarrow> 13 | SIZEOF_pldm_state_sensor_pdr \<Rightarrow> 27 | PLDM_GET_VERSION_REQ_BYTES \<Rightarrow> 6
    | PLDM_GET_COMMANDS_REQ_BYTES \<Rightarrow> 5 | SIZEOF_pldm_get_tid_resp \<Rightarrow> 2
    | SIZEOF_pldm_get_event_receiver_resp \<Rightarrow> 3 | SIZEOF_pldm_get_types_resp \<Rightarrow> 9
    | SIZEOF_pldm_get_version_resp \<Rightarrow> 7 | SIZEOF_ver32 \<Rightarrow> 4 | SIZEOF_pldm_get_commands_resp \<Rightarrow> 33
    | PLDM_GET_COMMANDS_RESP_BYTES \<Rightarrow> 33 | PLDM_GET_PDR_MIN_RESP_BYTES \<Rightarrow> 12
    | PLDM_GET_STATE_SENSOR_READINGS_REQ_BYTES \<Rightarrow> 4 | SIZEOF_pldm_get_state_sensor_readings_resp \<Rightarrow> 6
    | PLDM_GET_SENSOR_READING_REQ_BYTES \<Rightarrow> 3 | SIZEOF_pldm_get_sensor_reading_resp \<Rightarrow> 8
    | PLDM_POLL_FOR_PLATFORM_EVENT_MESSAGE_REQ_BYTES \<Rightarrow> 8
    | PLDM_POLL_FOR_PLATFORM_EVENT_MESSAGE_MIN_RESP_BYTES \<Rightarrow> 4
    | PLDM_POLL_FOR_PLATFORM_EVENT_MESSAGE_RESP_BYTES \<Rightarrow> 14
    | SIZEOF_pldm_platform_event_message_resp \<Rightarrow> 2 | PLDM_EVENT_MESSAGE_BUFFER_SIZE_REQ_BYTES \<Rightarrow> 2
    | SIZEOF_pldm_event_message_buffer_size_resp \<Rightarrow> 3 | SIZEOF_pldm_get_fru_record_table_resp \<Rightarrow> 7
    | OFFSETOF_fru_record_table_data \<Rightarrow> 6 | PLDM_PLATFORM_EVENT_MESSAGE_MIN_REQ_BYTES \<Rightarrow> 3
    | PLDM_MSG_POLL_EVENT_LENGTH \<Rightarrow> 7)"

text \<open>\<open>put_msg\<close> fills in the header and keeps the payload's length by padding with what was there; like
  \<open>pack_pldm_header\<close> it refuses an instance identifier above 31. A response carries data only when it reports
  success (\<open>on_success\<close>).\<close>

definition put_msg :: "u8 \<Rightarrow> u8 \<Rightarrow> u8 \<Rightarrow> u8 \<Rightarrow> u8 list \<Rightarrow> pldm_encoder" where
  "put_msg req i type cmd bytes m = (if 31 < i then (2, m) else (0, m\<lparr>msg_request := req, msg_instance_id := i,
    msg_type := type, msg_command := cmd, msg_payload := bytes @ drop (length bytes) (msg_payload m)\<rparr>))"

definition on_success :: "u8 \<Rightarrow> u8 list \<Rightarrow> u8 list" where
  "on_success cc bytes = cc # (if cc = 0 then bytes else [])"

definition byte_at :: "pldm_msg \<Rightarrow> nat \<Rightarrow> u8" where
  "byte_at m k = (if k < length (msg_payload m) then msg_payload m ! k else 0)"

definition half_at :: "pldm_msg \<Rightarrow> nat \<Rightarrow> u16" where
  "half_at m k = ucast (byte_at m k) OR push_bit 8 (ucast (byte_at m (k + 1)))"

definition word_at :: "pldm_msg \<Rightarrow> nat \<Rightarrow> u32" where
  "word_at m k = ucast (half_at m k) OR push_bit 16 (ucast (half_at m (k + 2)))"

definition ver_at :: "pldm_msg \<Rightarrow> nat \<Rightarrow> ver32" where
  "ver_at m k = (byte_at m k, byte_at m (k + 1), byte_at m (k + 2), byte_at m (k + 3))"

definition half_bytes :: "u16 \<Rightarrow> u8 list" where
  "half_bytes h = [ucast h, ucast (drop_bit 8 h)]"

definition word_bytes :: "u32 \<Rightarrow> u8 list" where
  "word_bytes w = params_put32 0 w [0, 0, 0, 0]"

definition ver_bytes :: "ver32 \<Rightarrow> u8 list" where
  "ver_bytes v = (case v of (a, b, c, d) \<Rightarrow> [a, b, c, d])"

definition lib0 :: "unit pldm_lib" where
  "lib0 = \<lparr>pldm_const = const0, pldm_size = size0,
    encode_cc_only_resp = (\<lambda>i t c cc. put_msg 0 i t c [cc]),
    encode_get_tid_req = (\<lambda>i. put_msg 1 i 0 2 []),
    encode_get_tid_resp = (\<lambda>i cc t. put_msg 0 i 0 2 (on_success cc [t])),
    decode_get_tid_resp = (\<lambda>m n. (0, byte_at m 0, byte_at m 1)),
    encode_get_types_req = (\<lambda>i. put_msg 1 i 0 4 []),
    encode_get_types_resp = (\<lambda>i cc types. put_msg 0 i 0 4 (on_success cc types)),
    decode_get_types_resp = (\<lambda>m n. if byte_at m 0 \<noteq> 0 then (0, byte_at m 0, replicate 8 0)
      else if n \<noteq> 9 then (3, 0, replicate 8 0) else (0, 0, take 8 (drop 1 (msg_payload m)))),
    encode_get_version_req = (\<lambda>i h f t. put_msg 1 i 0 3 (word_bytes h @ [f, t])),
    decode_get_version_req = (\<lambda>m n. if n \<noteq> 6 then (3, 0, 0, 0) else (0, word_at m 0, byte_at m 4, byte_at m 5)),
    encode_get_version_resp = (\<lambda>i cc h f v n. case v of None \<Rightarrow> (\<lambda>m. (2, m))
      | Some v \<Rightarrow> put_msg 0 i 0 3 (on_success cc (word_bytes h @ f # ver_bytes v))),
    decode_get_version_resp = (\<lambda>m n. if byte_at m 0 \<noteq> 0 then (0, byte_at m 0, 0, 0, 0, 0, 0, 0)
      else if n < 10 then (3, 0, 0, 0, 0, 0, 0, 0) else (0, 0, word_at m 1, byte_at m 5, ver_at m 6)),
    encode_get_commands_req = (\<lambda>i t v. put_msg 1 i 0 5 (t # ver_bytes v)),
    decode_get_commands_req = (\<lambda>m n. if n \<noteq> 5 then (3, 0, 0, 0, 0, 0) else (0, byte_at m 0, ver_at m 1)),
    encode_get_commands_resp = (\<lambda>i cc cs. put_msg 0 i 0 5 (on_success cc cs)),
    decode_get_commands_resp = (\<lambda>m n. if byte_at m 0 \<noteq> 0 then (0, byte_at m 0, replicate 32 0)
      else if n < 33 then (3, 0, replicate 32 0) else (0, 0, take 32 (drop 1 (msg_payload m)))),
    encode_set_event_receiver_req = (\<lambda>i g t a h. put_msg 1 i 2 4 ([g, t, a] @ half_bytes h)),
    decode_set_event_receiver_req = (\<lambda>m n. (0, byte_at m 0, byte_at m 1, byte_at m 2, half_at m 3)),
    encode_set_event_receiver_resp = (\<lambda>i cc. put_msg 0 i 2 4 [cc]),
    decode_set_event_receiver_resp = (\<lambda>m n. (0, byte_at m 0)),
    encode_get_event_receiver_resp = (\<lambda>i cc t a. put_msg 0 i 2 5 [cc, t, a]),
    encode_get_pdr_req = (\<lambda>i r d f c k n. put_msg 1 i 2 0x51 (word_bytes r @ word_bytes d @ [f] @ half_bytes c @ half_bytes k)),
    decode_get_pdr_req = (\<lambda>m n. (0, word_at m 0, word_at m 4, byte_at m 8, half_at m 9, half_at m 11)),
    encode_get_pdr_resp = (\<lambda>i cc r d f c data crc. put_msg 0 i 2 0x51
      (cc # word_bytes r @ word_bytes d @ [f] @ half_bytes c @ data @ [crc])),
    decode_get_pdr_resp = (\<lambda>k m n. (0, byte_at m 0, word_at m 1, word_at m 5, byte_at m 9, half_at m 10,
      take k (drop 12 (msg_payload m)), byte_at m (12 + k))),
    get_pdr_response_count = (\<lambda>m. half_at m 10),
    decode_get_state_sensor_readings_req = (\<lambda>m n. (0, half_at m 0, byte_at m 2)),
    encode_get_state_sensor_readings_resp = (\<lambda>i cc k (a, b, c, d). put_msg 0 i 2 0x21 [cc, k, a, b, c, d]),
    decode_get_sensor_reading_req = (\<lambda>m n. (0, half_at m 0, byte_at m 2)),
    encode_get_sensor_reading_resp = (\<lambda>i cc a b c d e f v n. put_msg 0 i 2 0x11 [cc, a, b, c, d, e, f, v]),
    decode_poll_for_platform_event_message_req = (\<lambda>m n. (0, byte_at m 0, byte_at m 1, word_at m 2, half_at m 6)),
    encode_poll_for_platform_event_message_resp = (\<lambda>i cc t e h f c k data chk n. put_msg 0 i 2 0xB
      ([cc, t] @ half_bytes e @ (if n \<le> 4 then [] else word_bytes h @ [f, c] @ word_bytes k @
        take (unat k) data @ (if f = 4 \<or> f = 5 then word_bytes chk else [])))),
    encode_platform_event_message_req = (\<lambda>i v t c data k n. put_msg 1 i 2 0xA ([v, t, c] @ take k data)),
    decode_platform_event_message_req = (\<lambda>m n. (0, byte_at m 0, byte_at m 1, byte_at m 2, 3)),
    encode_platform_event_message_resp = (\<lambda>i cc st. put_msg 0 i 2 0xA [cc, st]),
    decode_platform_event_message_resp = (\<lambda>m n. (0, byte_at m 0, byte_at m 1)),
    decode_event_message_buffer_size_req = (\<lambda>m n. (0, half_at m 0)),
    encode_event_message_buffer_size_resp = (\<lambda>i cc k. put_msg 0 i 2 0xD (cc # half_bytes k)),
    decode_get_fru_record_table_req = (\<lambda>m n. (0, word_at m 0, byte_at m 4)),
    encode_get_fru_record_table_resp = (\<lambda>i cc h f. put_msg 0 i 4 2 (cc # word_bytes h @ [f])),
    pldm_pdr_find_record = (\<lambda>_ h. ([1, 2, 3], 3, 0)),
    crc32 = (\<lambda>bytes. of_nat (length bytes))\<rparr>"

definition terminus0 :: "unit terminus_ctx" where
  "terminus0 = \<lparr>tid = 0, types_count = 0, tc_idx = 0, tc_pldm_info = [],
    receiver_ev_state = \<lparr>global_enable = 0, receiver_addr = 0, heartbeat_timer = 0, transport_protocol_type = 0\<rparr>,
    tc_pdr_info = \<lparr>pdr_owner = False, pdr_repo = None, pdr_idx = 0, pdr_pdr = [[], [], [], [], []]\<rparr>,
    event_queue_of = event_queue_init, event_terminus_max_buffer_size = 0, event_receiver_max_buffer_size = 0\<rparr>"

definition poll0 :: poll_state where
  "poll0 = \<lparr>po_event_data = replicate 256 0, po_event_id = 0, po_event_size = 0, po_checksum = 0,
    po_event_class = 0\<rparr>"

definition fw0 :: "unit pldm_fw" where
  "fw0 = fwk_state.extend state2 (pldm_fw.fields 1 (mcp_set_ctx lib0 terminus0) terminus0 PLDM_FW_DISCOVERY
    PLDM_FW_REQ_TYPES poll0 1 0 [])"

end
