(* ===== verification/Pldm_Poll.thy ===== *)
theory Pldm_Poll
  imports Pldm_Fw
begin

unbundle bit_operations_syntax

text \<open>
  The transfer of an event to its receiver. The receiver is the one the PLDM specification describes:
  it asks for the first part, then for the following ones with the handle the last response gave, until
  a part is marked as the end.
\<close>

section \<open>The receiver\<close>

definition part_data :: "poll_resp \<Rightarrow> poll_state \<Rightarrow> u8 list" where
  "part_data r po = take (unat (pr_xfer_size r)) (drop (unat (pr_handle r)) (po_event_data po))"

text \<open>The result is the data and the last response, or \<open>None\<close> when the \<open>fuel\<close> polls are used up.\<close>

fun collect_parts ::
  "'r pldm_lib \<Rightarrow> u32 \<Rightarrow> nat \<Rightarrow> u32 \<Rightarrow> u8 list \<Rightarrow> poll_state \<times> pldm_event_queue
    \<Rightarrow> ((u8 list \<times> poll_resp) option \<times> poll_state \<times> pldm_event_queue) option" where
  "collect_parts lib max_size 0 handle acc st = Some (None, st)"
| "collect_parts lib max_size (Suc fuel) handle acc st = do {
    (r, st) \<leftarrow> poll_transfer lib max_size (pldm_const lib PLDM_GET_NEXTPART) handle 0xffff st;
    let acc = acc @ part_data r (fst st);
    if pr_transfer_flag r = PLDM_EVENT_END then Some (Some (acc, r), st)
    else collect_parts lib max_size fuel (pr_next_handle r) acc st }"

definition poll_event ::
  "'r pldm_lib \<Rightarrow> u32 \<Rightarrow> nat \<Rightarrow> poll_state \<times> pldm_event_queue
    \<Rightarrow> ((u8 list \<times> poll_resp) option \<times> poll_state \<times> pldm_event_queue) option" where
  "poll_event lib max_size fuel st = do {
    (r, st) \<leftarrow> poll_transfer lib max_size (pldm_const lib PLDM_GET_FIRSTPART) 0 0 st;
    if pr_transfer_flag r = PLDM_EVENT_START_AND_END then Some (Some (part_data r (fst st), r), st)
    else collect_parts lib max_size fuel (pr_next_handle r) (part_data r (fst st)) st }"

text \<open>The three transfer operation flags differ.\<close>

definition poll_flags_distinct :: "'r pldm_lib \<Rightarrow> bool" where
  "poll_flags_distinct lib \<longleftrightarrow>
    distinct (map (pldm_const lib) [PLDM_ACKNOWLEDGEMENT_ONLY, PLDM_GET_FIRSTPART, PLDM_GET_NEXTPART])"

definition poll_state_wf :: "poll_state \<Rightarrow> bool" where
  "poll_state_wf po \<longleftrightarrow> length (po_event_data po) = 256 \<and> unat (po_event_size po) \<le> 256"

lemma poll_transfer_next:
  "poll_flags_distinct lib \<Longrightarrow>
    poll_transfer lib m (pldm_const lib PLDM_GET_NEXTPART) h a st = Some (poll_next_part lib m h a (fst st), st)"
  by (auto simp: poll_transfer_def poll_flags_distinct_def)

lemma poll_transfer_first:
  "poll_flags_distinct lib \<Longrightarrow>
    poll_transfer lib m (pldm_const lib PLDM_GET_FIRSTPART) h a st = poll_first_part lib m h st"
  by (auto simp: poll_transfer_def poll_flags_distinct_def)

lemmas event_flags = PLDM_EVENT_START_def PLDM_EVENT_MIDDLE_def PLDM_EVENT_END_def PLDM_EVENT_START_AND_END_def

section \<open>One part\<close>

lemma max_xfer_size_le: "unat (max_xfer_size ctx) \<le> 65535"
proof -
  have "unat (ucast (w :: u16) :: u32) \<le> 65535" for w
    using unsigned_less [of w, where 'a = nat] by (simp add: unsigned_ucast_eq take_bit_nat_eq_self)
  then show ?thesis by (simp add: max_xfer_size_def)
qed

lemma poll_next_part_ok:
  fixes m h :: u32
  assumes "po_event_id po \<noteq> 0" "unat h \<le> unat (po_event_size po)" "unat m \<le> 65535"
    and x: "x = min (unat (po_event_size po) - unat h) (unat m)"
  shows "unat (pr_xfer_size (poll_next_part lib m h 0xffff po)) = x"
    and "unat (pr_next_handle (poll_next_part lib m h 0xffff po)) = unat h + x"
    and "pr_handle (poll_next_part lib m h 0xffff po) = h"
    and "pr_transfer_flag (poll_next_part lib m h 0xffff po) =
      (if x + 4 \<le> unat m then PLDM_EVENT_END else PLDM_EVENT_MIDDLE)"
    and "pr_completion_code (poll_next_part lib m h 0xffff po) = pldm_const lib PLDM_SUCCESS"
    and "pr_xfer_id (poll_next_part lib m h 0xffff po) = po_event_id po"
proof -
  have h: "\<not> po_event_size po < h" using assms(2) by (simp add: word_less_nat_alt)
  define xs where "xs = (if m < po_event_size po - h then m else po_event_size po - h)"
  have left: "unat (po_event_size po - h) = unat (po_event_size po) - unat h"
    using assms(2) by (simp add: unat_sub word_le_nat_alt)
  have xs: "unat xs = x" using left by (auto simp: xs_def x word_less_nat_alt)
  have "unat (xs + 4) = x + 4"
    using xs assms(3) x by (subst unat_word_ariths) simp
  then have le: "xs + 4 \<le> m \<longleftrightarrow> x + 4 \<le> unat m" by (simp add: word_le_nat_alt)
  have "unat h + x \<le> unat (po_event_size po)" using x assms(2) by simp
  then have nh: "unat (h + xs) = unat h + x"
    using xs le_less_trans [OF _ unat_u32_less] by (subst unat_word_ariths) (simp add: mod_less)
  show "unat (pr_xfer_size (poll_next_part lib m h 0xffff po)) = x"
    "unat (pr_next_handle (poll_next_part lib m h 0xffff po)) = unat h + x"
    "pr_handle (poll_next_part lib m h 0xffff po) = h"
    "pr_transfer_flag (poll_next_part lib m h 0xffff po) =
      (if x + 4 \<le> unat m then PLDM_EVENT_END else PLDM_EVENT_MIDDLE)"
    "pr_completion_code (poll_next_part lib m h 0xffff po) = pldm_const lib PLDM_SUCCESS"
    "pr_xfer_id (poll_next_part lib m h 0xffff po) = po_event_id po"
    using assms(1) h xs nh le by (simp_all add: poll_next_part_def Let_def xs_def split: prod.splits if_splits)
qed

lemma collect_parts_rest:
  assumes lib: "poll_flags_distinct lib" and po: "po_event_id po \<noteq> 0" "poll_state_wf po"
    and m: "4 \<le> unat m" "unat m \<le> 65535" and h: "unat h \<le> unat (po_event_size po)"
    and fuel: "(unat (po_event_size po) - unat h + 3) div unat m + 1 \<le> fuel"
  shows "\<exists>r. collect_parts lib m fuel h (take (unat h) (po_event_data po)) (po, q) =
      Some (Some (take (unat (po_event_size po)) (po_event_data po), r), po, q) \<and>
    pr_xfer_id r = po_event_id po \<and> pr_completion_code r = pldm_const lib PLDM_SUCCESS \<and>
    pr_transfer_flag r = PLDM_EVENT_END"
  using h fuel
proof (induction fuel arbitrary: h)
  case 0
  then show ?case by simp
next
  case (Suc fuel)
  define x where "x = min (unat (po_event_size po) - unat h) (unat m)"
  define r where "r = poll_next_part lib m h 0xffff po"
  note part = poll_next_part_ok [OF po(1) Suc.prems(1) m(2) x_def, of lib, folded r_def]
  have data: "take (unat h) (po_event_data po) @ part_data r po = take (unat h + x) (po_event_data po)"
    by (simp add: part_data_def part take_add)
  have step: "collect_parts lib m (Suc fuel) h (take (unat h) (po_event_data po)) (po, q) =
    (if x + 4 \<le> unat m then Some (Some (take (unat h + x) (po_event_data po), r), po, q)
     else collect_parts lib m fuel (pr_next_handle r) (take (unat h + x) (po_event_data po)) (po, q))"
    by (simp add: poll_transfer_next [OF lib] r_def [symmetric] part data event_flags)
  show ?case
  proof (cases "x + 4 \<le> unat m")
    case True
    then have "unat h + x = unat (po_event_size po)" using x_def Suc.prems(1) by simp
    with step True part show ?thesis by simp
  next
    case False
    have nxt: "unat (pr_next_handle r) = unat h + x" "unat h + x \<le> unat (po_event_size po)"
      using part x_def Suc.prems(1) by simp_all
    have "Suc ((unat (po_event_size po) - (unat h + x) + 3) div unat m)
      \<le> (unat (po_event_size po) - unat h + 3) div unat m"
    proof (cases "unat (po_event_size po) - unat h \<le> unat m")
      case True
      then have e: "unat (po_event_size po) - (unat h + x) = 0" using x_def by simp
      have "unat m \<le> unat (po_event_size po) - unat h + 3" using True False x_def by simp
      then have "0 < (unat (po_event_size po) - unat h + 3) div unat m"
        using m by (simp add: div_greater_zero_iff)
      then show ?thesis using e m by simp
    next
      case False
      then have "x = unat m" using x_def by simp
      then have "(unat (po_event_size po) - unat h + 3) div unat m =
          Suc ((unat (po_event_size po) - (unat h + x) + 3) div unat m)"
        using False m by (simp add: le_div_geq)
      then show ?thesis by (simp only: le_refl)
    qed
    with Suc.prems(2) have "(unat (po_event_size po) - (unat h + x) + 3) div unat m + 1 \<le> fuel" by linarith
    with Suc.IH [of "pr_next_handle r"] nxt step False show ?thesis by simp
  qed
qed

section \<open>The whole event\<close>

lemma poll_first_part_take:
  fixes lib :: "'r pldm_lib"
  assumes "po_event_id po = 0" "length (po_event_data po) = 256" "queue_wf q"
    and "queue_contents q = (i, c, k, data) # es" "i \<noteq> 0"
  shows "\<exists>po' q'. (\<forall>m h. poll_first_part lib m h (po, q) = poll_first_part lib m h (po', q')) \<and>
    po_event_id po' = i \<and> po_event_class po' = c \<and> po_checksum po' = k \<and> poll_state_wf po' \<and>
    unat (po_event_size po') = length data \<and> take (length data) (po_event_data po') = data \<and>
    queue_wf q' \<and> queue_contents q' = es"
proof -
  from event_queue_get_law(2) [OF assms(3,2,4)] obtain d q' where get: "event_queue_get (po_event_data po) q =
      Some (\<lparr>go_data = d, go_size = of_nat (length data), go_id = i, go_class = c, go_checksum = k\<rparr>, q')"
      "length data \<le> 256" "length d = 256" "take (length data) d = data" "queue_wf q'" "queue_contents q' = es"
    by blast
  let ?po = "\<lparr>po_event_data = d, po_event_id = i, po_event_size = of_nat (length data), po_checksum = k,
    po_event_class = c\<rparr>"
  have n: "unat (of_nat (length data) :: u32) = length data"
    using get(2) by (simp add: unat_of_nat)
  have "\<forall>m h. poll_first_part lib m h (po, q) = poll_first_part lib m h (?po, q')"
    using get(1) assms(1,5) by (simp add: poll_first_part_def)
  with n get show ?thesis
    by (intro exI [of _ ?po] exI [of _ q']) (simp add: poll_state_wf_def)
qed

lemma poll_event_pending:
  assumes lib: "poll_flags_distinct lib" and po: "po_event_id po \<noteq> 0" "poll_state_wf po"
    and m: "4 \<le> unat m" "unat m \<le> 65535"
    and fuel: "(unat (po_event_size po) + 3) div unat m + 1 \<le> fuel"
  shows "\<exists>r. poll_event lib m fuel (po, q) =
      Some (Some (take (unat (po_event_size po)) (po_event_data po), r), po, q) \<and>
    pr_xfer_id r = po_event_id po \<and> pr_completion_code r = pldm_const lib PLDM_SUCCESS \<and>
    pr_transfer_flag r \<in> {PLDM_EVENT_END, PLDM_EVENT_START_AND_END}"
proof (cases "po_event_size po \<ge> m")
  case True
  then have le: "unat m \<le> unat (po_event_size po)" by (simp add: word_le_nat_alt)
  have "(unat (po_event_size po) - unat m + 3) div unat m + 1 \<le> fuel"
  proof -
    have "(unat (po_event_size po) - unat m + 3) div unat m \<le> (unat (po_event_size po) + 3) div unat m"
      by (intro div_le_mono) simp
    with fuel show ?thesis by simp
  qed
  from collect_parts_rest [OF lib po m le this, of q] True po(1) show ?thesis
    by (auto simp: poll_event_def poll_transfer_first [OF lib] poll_first_part_def part_data_def event_flags)
next
  case False
  then show ?thesis using po(1)
    by (auto simp: poll_event_def poll_transfer_first [OF lib] poll_first_part_def part_data_def)
qed

lemma poll_event_oldest:
  assumes lib: "poll_flags_distinct lib"
    and idle: "po_event_id po = 0" "length (po_event_data po) = 256"
    and queue: "queue_wf q" "queue_contents q = (i, c, k, data) # es" "i \<noteq> 0"
    and size: "4 \<le> unat (max_xfer_size ctx)"
    and fuel: "(length data + 3) div unat (max_xfer_size ctx) + 1 \<le> fuel"
  shows "\<exists>r po' q'. poll_event lib (max_xfer_size ctx) fuel (po, q) = Some (Some (data, r), po', q') \<and>
    pr_xfer_id r = i \<and> po_event_class po' = c \<and> po_checksum po' = k \<and>
    pr_completion_code r = pldm_const lib PLDM_SUCCESS \<and>
    queue_wf q' \<and> queue_contents q' = es \<and>
    pr_completion_code (fst (poll_acknowledge lib i (po', q'))) = pldm_const lib PLDM_SUCCESS \<and>
    po_event_id (snd (poll_acknowledge lib i (po', q'))) = 0"
proof -
  from poll_first_part_take [OF idle queue, of lib] obtain po' q' where t:
      "\<forall>m h. poll_first_part lib m h (po, q) = poll_first_part lib m h (po', q')"
      "po_event_id po' = i" "po_event_class po' = c" "po_checksum po' = k" "poll_state_wf po'"
      "unat (po_event_size po') = length data" "take (length data) (po_event_data po') = data"
      "queue_wf q'" "queue_contents q' = es"
    by blast
  have "poll_event lib (max_xfer_size ctx) fuel (po, q) = poll_event lib (max_xfer_size ctx) fuel (po', q')"
    using t(1) by (simp add: poll_event_def poll_transfer_first [OF lib])
  with poll_event_pending [OF lib, of po' "max_xfer_size ctx" fuel q'] queue(3) t size max_xfer_size_le [of ctx] fuel
  obtain r where "poll_event lib (max_xfer_size ctx) fuel (po, q) = Some (Some (data, r), po', q')"
      "pr_xfer_id r = i" "pr_completion_code r = pldm_const lib PLDM_SUCCESS"
    by auto
  with t show ?thesis by (auto simp: poll_acknowledge_def)
qed

text \<open>C13. Polling delivers the oldest event. When no event is being transferred, the queue is not empty
  and both buffer limits allow at least 4 bytes, a receiver that asks for the first part and then follows
  the handles obtains, within \<open>(size + 3) / max + 2\<close> polls, exactly the bytes of the oldest event with its
  identifier, class and checksum; the queue then holds the other events, and acknowledging the identifier
  ends the transfer, so that the next poll serves the next event.\<close>

theorem poll_delivers_event:
  assumes lib: "poll_flags_distinct lib"
    and idle: "po_event_id po = 0" "length (po_event_data po) = 256"
    and queue: "queue_wf q" "queue_contents q = (i, c, k, data) # es" "i \<noteq> 0"
    and size: "4 \<le> unat (max_xfer_size ctx)"
    and fuel: "(length data + 3) div unat (max_xfer_size ctx) + 1 \<le> fuel"
  shows "\<exists>r po' q'. poll_event lib (max_xfer_size ctx) fuel (po, q) = Some (Some (data, r), po', q') \<and>
    pr_xfer_id r = i \<and> po_event_class po' = c \<and> po_checksum po' = k \<and>
    pr_completion_code r = pldm_const lib PLDM_SUCCESS \<and>
    queue_wf q' \<and> queue_contents q' = es \<and>
    pr_completion_code (fst (poll_acknowledge lib i (po', q'))) = pldm_const lib PLDM_SUCCESS \<and>
    po_event_id (snd (poll_acknowledge lib i (po', q'))) = 0"
  using assms by (rule poll_event_oldest)

section \<open>Limits of the transfer\<close>

text \<open>With room for less than four bytes in a response no part is ever the last.\<close>

lemma collect_parts_starved:
  assumes lib: "poll_flags_distinct lib" and po: "po_event_id po \<noteq> 0"
    and m: "unat m < 4" and h: "unat h \<le> unat (po_event_size po)"
  shows "collect_parts lib m fuel h acc (po, q) = Some (None, po, q)"
  using h
proof (induction fuel arbitrary: h acc)
  case (Suc fuel)
  have m': "unat m \<le> 65535" using m by simp
  note part = poll_next_part_ok [OF po Suc.prems m' refl, of lib]
  have "unat (pr_next_handle (poll_next_part lib m h 0xffff po)) \<le> unat (po_event_size po)"
    using part(2) Suc.prems by simp
  then show ?case using Suc.IH m
    by (simp add: poll_transfer_next [OF lib] part event_flags)
qed simp

text \<open>C19. A receiver that announces a buffer of less than four bytes never receives the end of an event
  that does not fit into one response: every poll is answered, but however often it polls, no part is
  marked as the last. The request that sets the buffer size accepts such a value.\<close>

theorem poll_small_buffer_never_ends:
  assumes "poll_flags_distinct lib" and "po_event_id po \<noteq> 0"
    and "unat (max_xfer_size ctx) < 4" and "max_xfer_size ctx \<le> po_event_size po"
  shows "poll_event lib (max_xfer_size ctx) fuel (po, q) = Some (None, po, q)"
proof -
  have "unat (max_xfer_size ctx) \<le> unat (po_event_size po)" using assms(4) by (simp add: word_le_nat_alt)
  from collect_parts_starved [OF assms(1-3) this, of fuel _ q] assms show ?thesis
    by (simp add: poll_event_def poll_transfer_first poll_first_part_def event_flags part_data_def)
qed

text \<open>What every response keeps to, for a maximum of \<open>m\<close> bytes.\<close>

definition resp_within :: "'r pldm_lib \<Rightarrow> u32 \<Rightarrow> poll_resp \<Rightarrow> poll_state \<Rightarrow> bool" where
  "resp_within lib m r po \<longleftrightarrow> unat (pr_xfer_size r) \<le> unat m \<and>
    (pr_xfer_size r = 0 \<or> unat (pr_handle r) + unat (pr_xfer_size r) \<le> unat (po_event_size po)) \<and>
    pr_payload_length r \<le> max (pldm_size lib PLDM_POLL_FOR_PLATFORM_EVENT_MESSAGE_MIN_RESP_BYTES)
      (pldm_size lib PLDM_POLL_FOR_PLATFORM_EVENT_MESSAGE_RESP_BYTES + unat m + 4)"

lemma poll_first_pending_within:
  assumes "po_event_id po \<noteq> 0"
  shows "\<exists>r. poll_first_part lib m h (po, q) = Some (r, po, q) \<and> resp_within lib m r po"
  using assms by (auto simp: poll_first_part_def resp_within_def word_le_nat_alt Let_def)

lemma poll_first_part_within:
  assumes "poll_state_wf po" "queue_wf q"
  shows "\<exists>r po' q'. poll_first_part lib m h (po, q) = Some (r, po', q') \<and> poll_state_wf po' \<and> queue_wf q' \<and>
    resp_within lib m r po'"
proof (cases "po_event_id po = 0")
  case False
  then show ?thesis using poll_first_pending_within assms by blast
next
  case True
  have len: "length (po_event_data po) = 256" using assms(1) by (simp add: poll_state_wf_def)
  show ?thesis
  proof (cases "queue_contents q")
    case Nil
    then have "eq_length q = 0" by (metis length_queue_contents list.size(3))
    then show ?thesis using True event_queue_get_law(1) [OF assms(2) len] assms(2) len
      by (simp add: poll_first_part_def resp_within_def poll_state_wf_def)
  next
    case (Cons e es)
    obtain i c k data where e: "e = (i, c, k, data)" by (cases e) auto
    show ?thesis
    proof (cases "i = 0")
      case False
      from poll_first_part_take [OF True len assms(2) Cons [unfolded e] False, of lib] obtain po' q' where t:
          "poll_first_part lib m h (po, q) = poll_first_part lib m h (po', q')" "po_event_id po' = i"
          "poll_state_wf po'" "queue_wf q'"
        by blast
      with poll_first_pending_within [of po' lib m h q'] False show ?thesis by auto
    next
      case i0: True
      from event_queue_get_law(2) [OF assms(2) len Cons [unfolded e]] show ?thesis
        by (auto simp: poll_first_part_def True i0 resp_within_def poll_state_wf_def unat_of_nat)
    qed
  qed
qed

lemma poll_next_part_within:
  assumes "unat m \<le> 65535"
  shows "resp_within lib m (poll_next_part lib m h a po) po"
proof (cases "a = 0xffff \<and> po_event_id po \<noteq> 0 \<and> h \<le> po_event_size po")
  case True
  then have h: "unat h \<le> unat (po_event_size po)" by (simp add: word_le_nat_alt)
  note part = poll_next_part_ok [OF _ h assms refl, of lib]
  have "pr_payload_length (poll_next_part lib m h 0xffff po) \<le>
      pldm_size lib PLDM_POLL_FOR_PLATFORM_EVENT_MESSAGE_RESP_BYTES +
      unat (pr_xfer_size (poll_next_part lib m h 0xffff po)) + 4"
    by (simp add: poll_next_part_def Let_def split: prod.splits if_splits)
  with part True h show ?thesis by (auto simp: resp_within_def)
next
  case False
  then show ?thesis by (auto simp: resp_within_def poll_next_part_def not_le)
qed

lemma poll_transfer_within:
  assumes "poll_state_wf po" and "queue_wf q"
  shows "\<exists>r po' q'. poll_transfer lib (max_xfer_size ctx) flag handle ack (po, q) = Some (r, po', q') \<and>
    poll_state_wf po' \<and> queue_wf q' \<and> unat (pr_xfer_size r) \<le> unat (max_xfer_size ctx) \<and>
    (pr_xfer_size r = 0 \<or> unat (pr_handle r) + unat (pr_xfer_size r) \<le> unat (po_event_size po')) \<and>
    pr_payload_length r \<le> max (pldm_size lib PLDM_POLL_FOR_PLATFORM_EVENT_MESSAGE_MIN_RESP_BYTES)
      (pldm_size lib PLDM_POLL_FOR_PLATFORM_EVENT_MESSAGE_RESP_BYTES + unat (max_xfer_size ctx) + 4)"
proof -
  consider "flag = pldm_const lib PLDM_ACKNOWLEDGEMENT_ONLY"
    | "flag \<noteq> pldm_const lib PLDM_ACKNOWLEDGEMENT_ONLY" "flag = pldm_const lib PLDM_GET_FIRSTPART"
    | "flag \<noteq> pldm_const lib PLDM_ACKNOWLEDGEMENT_ONLY" "flag \<noteq> pldm_const lib PLDM_GET_FIRSTPART"
    by blast
  then show ?thesis
  proof cases
    case 1
    then show ?thesis using assms
      by (simp add: poll_transfer_def poll_acknowledge_def poll_state_wf_def Let_def)
  next
    case 2
    then show ?thesis
      using poll_first_part_within [OF assms, of lib "max_xfer_size ctx" handle]
      by (simp add: poll_transfer_def resp_within_def)
  next
    case 3
    then show ?thesis
      using poll_next_part_within [OF max_xfer_size_le [of ctx], of lib handle ack po] assms
      by (simp add: poll_transfer_def resp_within_def)
  qed
qed

text \<open>C18. Whatever a receiver asks for, the handler stays within the event buffer and the limits both
  sides announced: for any flag, handle and acknowledged identifier the switch returns, the bytes handed to
  the encoder lie inside the 256 bytes of the event and below its size, no more than the agreed maximum is
  transferred and the payload is at most that maximum plus the fixed members and the checksum; the event
  queue and the transfer state stay well formed.\<close>

theorem poll_transfer_bounds:
  assumes "poll_state_wf po" and "queue_wf q"
  shows "\<exists>r po' q'. poll_transfer lib (max_xfer_size ctx) flag handle ack (po, q) = Some (r, po', q') \<and>
    poll_state_wf po' \<and> queue_wf q' \<and> unat (pr_xfer_size r) \<le> unat (max_xfer_size ctx) \<and>
    (pr_xfer_size r = 0 \<or> unat (pr_handle r) + unat (pr_xfer_size r) \<le> unat (po_event_size po')) \<and>
    pr_payload_length r \<le> max (pldm_size lib PLDM_POLL_FOR_PLATFORM_EVENT_MESSAGE_MIN_RESP_BYTES)
      (pldm_size lib PLDM_POLL_FOR_PLATFORM_EVENT_MESSAGE_RESP_BYTES + unat (max_xfer_size ctx) + 4)"
  using assms by (rule poll_transfer_within)

end
