(* ===== verification/Pldm_Discovery.thy ===== *)
theory Pldm_Discovery
  imports Pldm_Fw
begin

unbundle bit_operations_syntax

text \<open>
  Discovery from end to end: the BMC side of the module asks, the MCP side answers, and the BMC side
  stores the answer. libpldm appears through \<open>pldm_codec\<close>: its documented promise that a decoder reads
  back what the encoder of the same message wrote, for the instance identifiers of DSP0240 and successful
  responses.
\<close>

section \<open>Bit fields\<close>

definition has_bit :: "u8 list \<Rightarrow> nat \<Rightarrow> bool" where
  "has_bit bits v = bit (bits ! (v div 8)) (v mod 8)"

lemma and_exp_0: "(w :: u8) AND 2 ^ j = 0 \<longleftrightarrow> \<not> (j < 8 \<and> bit w j)"
proof -
  have "w AND 2 ^ j = 0 \<longleftrightarrow> (\<forall>n < 8. \<not> (bit w n \<and> n = j))"
    by (auto simp: bit_eq_iff bit_simps)
  then show ?thesis by (auto dest: bit_imp_le_length)
qed

lemma set_bits_filter: "set_bits bits = filter (has_bit bits) [0..<8 * length bits]"
proof -
  have one: "(if bits ! i \<noteq> 0
      then map (\<lambda>j. i * 8 + j) (filter (\<lambda>j. bits ! i AND push_bit j 1 \<noteq> 0) [0..<8]) else []) =
    filter (has_bit bits) [8 * i..<8 * i + 8]" for i
  proof -
    have shift: "[8 * i..<8 * i + 8] = map (\<lambda>j. i * 8 + j) [0..<8]"
      using map_add_upt [of "8 * i" 8] by (simp add: add.commute mult.commute)
    have "filter (has_bit bits) (map (\<lambda>j. i * 8 + j) [0..<8]) =
        map (\<lambda>j. i * 8 + j) (filter (\<lambda>j. bits ! i AND push_bit j 1 \<noteq> 0) [0..<8])"
      unfolding filter_map o_def has_bit_def
      by (intro arg_cong [where f = "map _"] filter_cong refl) (auto simp: and_exp_0)
    moreover have "filter (\<lambda>j. bits ! i AND push_bit j 1 \<noteq> 0) [0..<8] = []" if "bits ! i = 0"
      using that by simp
    ultimately show ?thesis unfolding shift by auto
  qed
  have "concat (map (\<lambda>i. filter (has_bit bits) [8 * i..<8 * i + 8]) [0..<n]) =
      filter (has_bit bits) [0..<8 * n]" for n
  proof (induction n)
    case (Suc n)
    have "[0..<8 * Suc n] = [0..<8 * n] @ [8 * n..<8 * n + 8]"
      using upt_add_eq_append [of 0 "8 * n" 8] by (simp add: add.commute)
    with Suc show ?case by simp
  qed simp
  then show ?thesis
    unfolding set_bits_def PLDM_TYPES_COUNT_def BITS_PER_BYTE_def one by simp
qed

lemma set_bit_of_has_bit:
  assumes "unat v < 8 * length bits"
  shows "\<exists>bits'. set_bit_of v bits = Some bits' \<and> length bits' = length bits \<and>
    (\<forall>w < 8 * length bits. has_bit bits' w \<longleftrightarrow> has_bit bits w \<or> w = unat v)"
proof -
  have d: "unat v div 8 < length bits" using assms by (simp add: less_mult_imp_div_less mult.commute)
  have "w = unat v \<longleftrightarrow> w div 8 = unat v div 8 \<and> w mod 8 = unat v mod 8" for w
    by (metis div_mult_mod_eq)
  with d show ?thesis by (auto simp: set_bit_of_def BITS_PER_BYTE_def has_bit_def nth_list_update bit_simps)
qed

lemma for_each_set_bit:
  assumes "\<forall>v \<in> set vs. unat v < 8 * length bits"
  shows "\<exists>bits'. for_each set_bit_of vs bits = Some bits' \<and> length bits' = length bits \<and>
    (\<forall>w < 8 * length bits. has_bit bits' w \<longleftrightarrow> has_bit bits w \<or> w \<in> unat ` set vs)"
  using assms
proof (induction vs arbitrary: bits)
  case (Cons v vs)
  then obtain b where b: "set_bit_of v bits = Some b" "length b = length bits"
      "\<forall>w < 8 * length bits. has_bit b w \<longleftrightarrow> has_bit bits w \<or> w = unat v"
    using set_bit_of_has_bit [of v bits] by auto
  with Cons.IH [of b] Cons.prems show ?case by fastforce
qed simp

text \<open>Marking numbers in an empty field and reading it back gives them sorted, each once.\<close>

lemma mark_then_read:
  assumes "\<forall>v \<in> set vs. unat v < 8 * n"
  shows "\<exists>bits. for_each set_bit_of vs (replicate n 0) = Some bits \<and> length bits = n \<and>
    set_bits bits = sorted_list_of_set (unat ` set vs)"
proof -
  from for_each_set_bit [of vs "replicate n 0"] assms obtain bits where bits:
      "for_each set_bit_of vs (replicate n 0) = Some bits" "length bits = n"
      "\<forall>w < 8 * n. has_bit bits w \<longleftrightarrow> has_bit (replicate n 0) w \<or> w \<in> unat ` set vs"
    by auto
  have "\<not> has_bit (replicate n 0) w" if "w < 8 * n" for w
    using that by (simp add: has_bit_def less_mult_imp_div_less mult.commute)
  with bits have "set (filter (has_bit bits) [0..<8 * n]) = unat ` set vs"
    using assms by auto
  moreover have "sorted (filter (has_bit bits) [0..<8 * n])" "distinct (filter (has_bit bits) [0..<8 * n])"
    by (simp_all add: sorted_wrt_filter)
  ultimately have "set_bits bits = sorted_list_of_set (unat ` set vs)"
    unfolding set_bits_filter bits(2) by (metis sorted_list_of_set.idem_if_sorted_distinct)
  with bits show ?thesis by blast
qed

lemma for_each_map: "for_each (\<lambda>x. f (g x)) xs s = for_each f (map g xs) s"
proof (induction xs arbitrary: s)
  case (Cons x xs)
  then have "for_each (\<lambda>x. f (g x)) xs = for_each f (map g xs)" by (intro ext) simp
  then show ?case by simp
qed simp

section \<open>What is assumed of libpldm\<close>

text \<open>A message written without error whose header says what it is, with the instance identifier \<open>i\<close>, and of
  which the decoder \<open>P\<close> is true.\<close>

definition encoded ::
  "'r pldm_lib \<Rightarrow> bool \<Rightarrow> pldm_const \<Rightarrow> u8 \<Rightarrow> int \<times> pldm_msg \<Rightarrow> (pldm_msg \<Rightarrow> bool) \<Rightarrow> bool" where
  "encoded lib is_request cmd i r P \<longleftrightarrow> (case r of (rc, m) \<Rightarrow>
    rc = uint (pldm_const lib PLDM_SUCCESS) \<and>
    (msg_request m = pldm_const lib PLDM_REQUEST \<longleftrightarrow> is_request) \<and> msg_instance_id m = i \<and>
    msg_type m = pldm_const lib PLDM_BASE \<and> msg_command m = pldm_const lib cmd \<and> P m)"

definition decoded :: "'r pldm_lib \<Rightarrow> int \<times> 'b \<Rightarrow> ('b \<Rightarrow> bool) \<Rightarrow> bool" where
  "decoded lib r Q \<longleftrightarrow> fst r = uint (pldm_const lib PLDM_SUCCESS) \<and> Q (snd r)"

text \<open>The labels of the switch of \<open>process_pldm_packet\<close> for the commands of discovery are distinct.\<close>

definition base_labels :: "'r pldm_lib \<Rightarrow> u16 list" where
  "base_labels lib = PLDM_HASH (pldm_const lib PLDM_BASE) PLDM_SET_TID #
    map (\<lambda>c. PLDM_HASH (pldm_const lib PLDM_BASE) (pldm_const lib c))
      [PLDM_GET_TID, PLDM_GET_PLDM_TYPES, PLDM_GET_PLDM_VERSION, PLDM_GET_PLDM_COMMANDS] @
    [PLDM_HASH (pldm_const lib PLDM_PLATFORM) (pldm_const lib PLDM_SET_EVENT_RECEIVER)]"

text \<open>The promises, each for the instance identifiers a header has room for (\<open>PLDM_INSTANCE_MAX\<close> is 31; the
  encoders refuse greater ones) and for the completion code PLDM_SUCCESS, with which alone a response carries
  data. The other arguments are the ones the module passes: the buffers it allocates, the lengths it hands to
  the decoders, the first part of a version as a request and the whole of it as a response.\<close>

definition instance_ok :: "u8 \<Rightarrow> bool" where
  "instance_ok i \<longleftrightarrow> i < 32"

definition codec_types_req :: "'r pldm_lib \<Rightarrow> bool" where
  "codec_types_req lib \<longleftrightarrow> (\<forall>i. instance_ok i \<longrightarrow> encoded lib True PLDM_GET_PLDM_TYPES i
      (encode_get_types_req lib i (calloc_msg lib (pldm_size lib PLDM_MSG_T_SIZE))) (\<lambda>_. True))"

definition codec_types_resp :: "'r pldm_lib \<Rightarrow> bool" where
  "codec_types_resp lib \<longleftrightarrow> (\<forall>i types. instance_ok i \<longrightarrow> length types = 8 \<longrightarrow>
    encoded lib False PLDM_GET_PLDM_TYPES i
      (encode_get_types_resp lib i (pldm_const lib PLDM_SUCCESS) types (calloc_msg lib
        (pldm_size lib PLDM_MSG_HDR_T_SIZE + pldm_size lib SIZEOF_pldm_get_types_resp)))
      (\<lambda>m. decoded lib (decode_get_types_resp lib m (pldm_size lib SIZEOF_pldm_get_types_resp))
        (\<lambda>v. snd v = types)))"

definition codec_version_req :: "'r pldm_lib \<Rightarrow> bool" where
  "codec_version_req lib \<longleftrightarrow> (\<forall>i type. instance_ok i \<longrightarrow> encoded lib True PLDM_GET_PLDM_VERSION i
      (encode_get_version_req lib i 0 (pldm_const lib PLDM_GET_FIRSTPART) type (calloc_msg lib
        (pldm_size lib PLDM_MSG_HDR_T_SIZE + pldm_size lib PLDM_GET_VERSION_REQ_BYTES)))
      (\<lambda>m. decoded lib (decode_get_version_req lib m (pldm_size lib PLDM_GET_VERSION_REQ_BYTES))
        (\<lambda>v. snd (snd v) = type)))"

definition codec_version_resp :: "'r pldm_lib \<Rightarrow> bool" where
  "codec_version_resp lib \<longleftrightarrow> (\<forall>i v len. instance_ok i \<longrightarrow>
    len = pldm_size lib PLDM_MSG_HDR_T_SIZE + pldm_size lib SIZEOF_pldm_get_version_resp +
        pldm_size lib SIZEOF_ver32 \<longrightarrow> encoded lib False PLDM_GET_PLDM_VERSION i
      (encode_get_version_resp lib i (pldm_const lib PLDM_SUCCESS) 1 (pldm_const lib PLDM_START_AND_END) (Some v)
        (pldm_size lib SIZEOF_ver32) (calloc_msg lib len))
      (\<lambda>m. decoded lib (decode_get_version_resp lib m len) (\<lambda>w. snd (snd (snd w)) = v)))"

definition codec_commands_req :: "'r pldm_lib \<Rightarrow> bool" where
  "codec_commands_req lib \<longleftrightarrow> (\<forall>i type v. instance_ok i \<longrightarrow> encoded lib True PLDM_GET_PLDM_COMMANDS i
      (encode_get_commands_req lib i type v (calloc_msg lib
        (pldm_size lib PLDM_MSG_HDR_T_SIZE + pldm_size lib PLDM_GET_COMMANDS_REQ_BYTES)))
      (\<lambda>m. decoded lib (decode_get_commands_req lib m (pldm_size lib PLDM_GET_COMMANDS_REQ_BYTES))
        (\<lambda>w. w = (type, v))))"

definition codec_commands_resp :: "'r pldm_lib \<Rightarrow> bool" where
  "codec_commands_resp lib \<longleftrightarrow> (\<forall>i commands. instance_ok i \<longrightarrow> length commands = 32 \<longrightarrow>
    encoded lib False PLDM_GET_PLDM_COMMANDS i
      (encode_get_commands_resp lib i (pldm_const lib PLDM_SUCCESS) commands (calloc_msg lib
        (pldm_size lib PLDM_MSG_HDR_T_SIZE + pldm_size lib SIZEOF_pldm_get_commands_resp)))
      (\<lambda>m. decoded lib (decode_get_commands_resp lib m (pldm_size lib PLDM_GET_COMMANDS_RESP_BYTES))
        (\<lambda>w. snd w = commands)))"

definition pldm_codec :: "'r pldm_lib \<Rightarrow> bool" where
  "pldm_codec lib \<longleftrightarrow> distinct (base_labels lib) \<and> codec_types_req lib \<and> codec_types_resp lib \<and> codec_version_req lib \<and>
    codec_version_resp lib \<and> codec_commands_req lib \<and> codec_commands_resp lib"

section \<open>A round of discovery\<close>

text \<open>The last packet sent reaches the module again, as it does over a serial line that connects it with
  a peer running the same module.\<close>

definition deliver_last ::
  "'r pldm_lib \<Rightarrow> ('r, 'a) pldm_fw_scheme \<Rightarrow> ('r, 'a) pldm_fw_scheme option" where
  "deliver_last lib s = (if fw_sent s = [] then None else do {
    let p = last (fw_sent s);
    m \<leftarrow> sp_packet p;
    pldm_fw_receive_from_transport_layer lib (sp_bus p) m (sp_size p) s })"

definition discovery_round ::
  "'r pldm_lib \<Rightarrow> pldm_info \<Rightarrow> ('r, 'a) pldm_fw_scheme \<Rightarrow> ('r, 'a) pldm_fw_scheme option" where
  "discovery_round lib stray s = do {
    s \<leftarrow> pldm_fw_send_next_request lib stray BMC s;
    s \<leftarrow> deliver_last lib s;
    deliver_last lib s }"

fun run_discovery ::
  "'r pldm_lib \<Rightarrow> pldm_info \<Rightarrow> nat \<Rightarrow> ('r, 'a) pldm_fw_scheme \<Rightarrow> ('r, 'a) pldm_fw_scheme option" where
  "run_discovery lib stray 0 s = Some s"
| "run_discovery lib stray (Suc fuel) s =
    (if fw_discovery s = PLDM_FW_DISCOVERY_DONE then Some s
     else do { s \<leftarrow> discovery_round lib stray s; run_discovery lib stray fuel s })"

lemma send_pldm_packet_simps [simp]:
  "fw_sent (send_pldm_packet b o' g m z s) = fw_sent s @
    [\<lparr>sp_bus = b, sp_tag_owner = o', sp_msg_tag = g, sp_packet = m, sp_size = z\<rparr>]"
  "fw_discovery (send_pldm_packet b o' g m z s) = fw_discovery s"
  "fw_state (send_pldm_packet b o' g m z s) = fw_state s"
  "ctx_of t (send_pldm_packet b o' g m z s) = ctx_of t s"
  by (simp_all add: send_pldm_packet_def)

text \<open>One exchange, from the request the BMC side sends to the response it handles.\<close>

lemma exchange:
  assumes "pldm_fw_send_next_request lib stray BMC s =
      Some (send_pldm_packet bus True 0 (Some m) sz s1)"
    and "msg_request m = pldm_const lib PLDM_REQUEST"
    and "process_pldm_request lib m sz (pldm_get_hash m) MCP (send_pldm_packet bus True 0 (Some m) sz s1) =
      Some ((m', sz'), s2)"
    and "msg_request m' \<noteq> pldm_const lib PLDM_REQUEST"
    and "process_pldm_response lib m' sz' (pldm_get_hash m') BMC (send_pldm_packet bus False 0 (Some m') sz' s2) =
      Some s'"
  shows "discovery_round lib stray s = Some s'"
  using assms
  by (simp add: discovery_round_def deliver_last_def pldm_fw_receive_from_transport_layer_def
      get_pldm_request_def)

lemma fw_state_eq [simp]: "pldm_fw_send_next_request lib stray t s = pldm_fw_discovery lib stray t s"
  by (cases "fw_state s") (simp add: pldm_fw_send_next_request_def)

lemma encode_checked_ok:
  "encoded lib q cmd i r P \<Longrightarrow> encode_checked lib r = Some (snd r)"
  by (auto simp: encoded_def encode_checked_def)

lemma decode_checked_ok: "decoded lib r Q \<Longrightarrow> decode_checked lib r = Some (snd r) \<and> Q (snd r)"
  by (cases r) (simp add: decoded_def decode_checked_def)

lemma encodedD:
  assumes "encoded lib q cmd i r P"
  shows "encode_checked lib r = Some (snd r)" "P (snd r)" "msg_instance_id (snd r) = i"
    "msg_request (snd r) = pldm_const lib PLDM_REQUEST \<longleftrightarrow> q"
    "pldm_get_hash (snd r) = PLDM_HASH (pldm_const lib PLDM_BASE) (pldm_const lib cmd)"
  using assms by (auto simp: encoded_def encode_checked_def pldm_get_hash_def split: prod.splits)

text \<open>The switches, for the commands of discovery.\<close>

lemma base_request:
  assumes "pldm_codec lib"
  shows "process_pldm_request lib m n (PLDM_HASH (pldm_const lib PLDM_BASE) (pldm_const lib PLDM_GET_PLDM_TYPES)) t s =
      handle_pldm_get_pldm_types_req lib m t s"
    and "process_pldm_request lib m n (PLDM_HASH (pldm_const lib PLDM_BASE) (pldm_const lib PLDM_GET_PLDM_VERSION)) t s =
      handle_pldm_get_version_req lib m t s"
    and "process_pldm_request lib m n (PLDM_HASH (pldm_const lib PLDM_BASE) (pldm_const lib PLDM_GET_PLDM_COMMANDS)) t s =
      handle_pldm_get_commands_req lib m t s"
    and "process_pldm_response lib m n (PLDM_HASH (pldm_const lib PLDM_BASE) (pldm_const lib PLDM_GET_PLDM_TYPES)) t s =
      handle_pldm_get_pldm_types_resp lib m t s"
    and "process_pldm_response lib m n (PLDM_HASH (pldm_const lib PLDM_BASE) (pldm_const lib PLDM_GET_PLDM_VERSION)) t s =
      handle_pldm_get_version_resp lib m n t s"
    and "process_pldm_response lib m n (PLDM_HASH (pldm_const lib PLDM_BASE) (pldm_const lib PLDM_GET_PLDM_COMMANDS)) t s =
      handle_pldm_get_commands_resp lib m t s"
proof -
  from assms have d: "distinct (base_labels lib)" by (simp add: pldm_codec_def)
  then show "process_pldm_request lib m n (PLDM_HASH (pldm_const lib PLDM_BASE) (pldm_const lib PLDM_GET_PLDM_TYPES)) t s =
      handle_pldm_get_pldm_types_req lib m t s"
    "process_pldm_request lib m n (PLDM_HASH (pldm_const lib PLDM_BASE) (pldm_const lib PLDM_GET_PLDM_VERSION)) t s =
      handle_pldm_get_version_req lib m t s"
    "process_pldm_request lib m n (PLDM_HASH (pldm_const lib PLDM_BASE) (pldm_const lib PLDM_GET_PLDM_COMMANDS)) t s =
      handle_pldm_get_commands_req lib m t s"
    "process_pldm_response lib m n (PLDM_HASH (pldm_const lib PLDM_BASE) (pldm_const lib PLDM_GET_PLDM_TYPES)) t s =
      handle_pldm_get_pldm_types_resp lib m t s"
    "process_pldm_response lib m n (PLDM_HASH (pldm_const lib PLDM_BASE) (pldm_const lib PLDM_GET_PLDM_VERSION)) t s =
      handle_pldm_get_version_resp lib m n t s"
    "process_pldm_response lib m n (PLDM_HASH (pldm_const lib PLDM_BASE) (pldm_const lib PLDM_GET_PLDM_COMMANDS)) t s =
      handle_pldm_get_commands_resp lib m t s"
    by (auto simp: process_pldm_request_def process_pldm_response_def base_labels_def Let_def)
qed

section \<open>The table of the MCP and the view of it\<close>

text \<open>A table with one version for each type, as \<open>mcp_set_ctx\<close> builds it.\<close>

definition one_version :: "pldm_info \<Rightarrow> bool" where
  "one_version info \<longleftrightarrow> unat (inf_type info) < 64 \<and> inf_version_count info = 1 \<and> length (inf_version info) = 1 \<and>
    unat (ver_commands_count (inf_version info ! 0)) = length (ver_commands (inf_version info ! 0))"

definition mcp_table_ok :: "'r terminus_ctx \<Rightarrow> bool" where
  "mcp_table_ok ctx \<longleftrightarrow> tc_pldm_info ctx \<noteq> [] \<and> distinct (map inf_type (tc_pldm_info ctx)) \<and>
    unat (types_count ctx) = length (tc_pldm_info ctx) \<and> (\<forall>info \<in> set (tc_pldm_info ctx). one_version info)"

text \<open>What discovery records of an entry: its type and version, and its commands in order, each once.\<close>

definition view_info :: "pldm_info \<Rightarrow> pldm_info" where
  "view_info info =
    (let ver = inf_version info ! 0; commands = sorted_list_of_set (unat ` set (ver_commands ver))
     in \<lparr>inf_type = inf_type info, inf_idx = 1, inf_version_count = 1,
       inf_version = [\<lparr>ver_idx = 0, ver_commands_count = of_nat (length commands),
         ver_commands = map of_nat commands, ver_version = ver_version ver\<rparr>]\<rparr>)"

definition blank_info :: "pldm_info \<Rightarrow> pldm_info" where
  "blank_info info = pldm_info_zero\<lparr>inf_type := inf_type info\<rparr>"

definition by_type :: "pldm_info list \<Rightarrow> pldm_info list" where
  "by_type infos = sort_key (\<lambda>info. unat (inf_type info)) infos"

lemma set_by_type [simp]: "set (by_type infos) = set infos" "length (by_type infos) = length infos"
  by (simp_all add: by_type_def)

lemma unat_inj: "unat x = unat y \<longleftrightarrow> x = y" for x y :: "'a :: len word"
  by (auto dest: unsigned_word_eqI)

lemma types_sorted:
  assumes "distinct (map inf_type infos)"
  shows "sorted_list_of_set (unat ` set (map inf_type infos)) = map (\<lambda>info. unat (inf_type info)) (by_type infos)"
proof -
  have "distinct (map (\<lambda>info. unat (inf_type info)) infos)"
    using assms by (auto simp: distinct_map inj_on_def unat_inj)
  then have "distinct (map (\<lambda>info. unat (inf_type info)) (by_type infos))"
    by (metis by_type_def mset_map mset_sort mset_eq_imp_distinct_iff)
  moreover have "sorted (map (\<lambda>info. unat (inf_type info)) (by_type infos))"
    by (simp add: by_type_def)
  ultimately have "sorted_list_of_set (set (map (\<lambda>info. unat (inf_type info)) (by_type infos))) =
      map (\<lambda>info. unat (inf_type info)) (by_type infos)"
    by (metis sorted_list_of_set.idem_if_sorted_distinct)
  then show ?thesis by (simp add: image_image)
qed

lemma table_length:
  assumes "mcp_table_ok ctx"
  shows "length (tc_pldm_info ctx) \<le> 64"
proof -
  have "card (unat ` inf_type ` set (tc_pldm_info ctx)) \<le> card {..<64 :: nat}"
    using assms by (intro card_mono) (auto simp: mcp_table_ok_def one_version_def)
  moreover have "card (unat ` inf_type ` set (tc_pldm_info ctx)) = length (tc_pldm_info ctx)"
    using assms distinct_card [of "map inf_type (tc_pldm_info ctx)"]
    by (simp add: mcp_table_ok_def card_image inj_on_def unat_inj)
  ultimately show ?thesis by simp
qed

lemma version_of_type_unique:
  assumes "distinct (map inf_type infos)" "\<forall>info \<in> set infos. one_version info" "info \<in> set infos"
  shows "version_of_type (inf_type info) infos v = Some (Some (ver_version (inf_version info ! 0)))"
  using assms
proof (induction infos arbitrary: v)
  case (Cons x xs)
  have none: "version_of_type t ys v = Some v" if "t \<notin> inf_type ` set ys" for t ys v
    using that by (induction ys) auto
  show ?case
  proof (cases "x = info")
    case True
    then show ?thesis using Cons.prems none [of "inf_type info" xs] by (auto simp: one_version_def)
  next
    case False
    then have "info \<in> set xs" "inf_type x \<noteq> inf_type info" using Cons.prems by auto
    then show ?thesis using Cons.IH Cons.prems by simp
  qed
qed simp

lemma commands_of_type_unique:
  assumes "distinct (map inf_type infos)" "\<forall>info \<in> set infos. one_version info" "info \<in> set infos"
  shows "for_each (mark_commands_of_info (inf_type info) (ver_version (inf_version info ! 0))) infos bits =
    for_each set_bit_of (ver_commands (inf_version info ! 0)) bits"
  using assms
proof (induction infos arbitrary: bits)
  case (Cons x xs)
  have none: "for_each (mark_commands_of_info t w) ys b = Some b" if "t \<notin> inf_type ` set ys" for t w ys b
    using that by (induction ys) (auto simp: mark_commands_of_info_def)
  show ?case
  proof (cases "x = info")
    case True
    obtain v where v: "inf_version info = [v]"
      using Cons.prems True by (cases "inf_version info"; cases "tl (inf_version info)") (auto simp: one_version_def)
    then have "mark_commands_of_info (inf_type info) (ver_version (inf_version info ! 0)) x bits =
        for_each set_bit_of (ver_commands (inf_version info ! 0)) bits"
      using Cons.prems True
      by (cases "for_each set_bit_of (ver_commands v) bits")
        (simp_all add: mark_commands_of_info_def mark_commands_def one_version_def)
    then show ?thesis using Cons.prems True none [of "inf_type info" xs]
      by (cases "for_each set_bit_of (ver_commands (inf_version info ! 0)) bits") auto
  next
    case False
    then have "info \<in> set xs" "inf_type x \<noteq> inf_type info" using Cons.prems by auto
    then show ?thesis using Cons.IH Cons.prems by (simp add: mark_commands_of_info_def)
  qed
qed simp

section \<open>The rounds\<close>

lemma codec_laws:
  assumes "pldm_codec lib" "instance_ok i"
  shows "encoded lib True PLDM_GET_PLDM_TYPES i
      (encode_get_types_req lib i (calloc_msg lib (pldm_size lib PLDM_MSG_T_SIZE))) (\<lambda>_. True)"
    and "length types = 8 \<Longrightarrow> encoded lib False PLDM_GET_PLDM_TYPES i
      (encode_get_types_resp lib i (pldm_const lib PLDM_SUCCESS) types (calloc_msg lib
        (pldm_size lib PLDM_MSG_HDR_T_SIZE + pldm_size lib SIZEOF_pldm_get_types_resp)))
      (\<lambda>m. decoded lib (decode_get_types_resp lib m (pldm_size lib SIZEOF_pldm_get_types_resp))
        (\<lambda>v. snd v = types))"
    and "encoded lib True PLDM_GET_PLDM_VERSION i
      (encode_get_version_req lib i 0 (pldm_const lib PLDM_GET_FIRSTPART) type (calloc_msg lib
        (pldm_size lib PLDM_MSG_HDR_T_SIZE + pldm_size lib PLDM_GET_VERSION_REQ_BYTES)))
      (\<lambda>m. decoded lib (decode_get_version_req lib m (pldm_size lib PLDM_GET_VERSION_REQ_BYTES))
        (\<lambda>v. snd (snd v) = type))"
    and "len = pldm_size lib PLDM_MSG_HDR_T_SIZE + pldm_size lib SIZEOF_pldm_get_version_resp +
        pldm_size lib SIZEOF_ver32 \<Longrightarrow> encoded lib False PLDM_GET_PLDM_VERSION i
      (encode_get_version_resp lib i (pldm_const lib PLDM_SUCCESS) 1 (pldm_const lib PLDM_START_AND_END) (Some v)
        (pldm_size lib SIZEOF_ver32) (calloc_msg lib len))
      (\<lambda>m. decoded lib (decode_get_version_resp lib m len) (\<lambda>w. snd (snd (snd w)) = v))"
    and "encoded lib True PLDM_GET_PLDM_COMMANDS i
      (encode_get_commands_req lib i type v (calloc_msg lib
        (pldm_size lib PLDM_MSG_HDR_T_SIZE + pldm_size lib PLDM_GET_COMMANDS_REQ_BYTES)))
      (\<lambda>m. decoded lib (decode_get_commands_req lib m (pldm_size lib PLDM_GET_COMMANDS_REQ_BYTES))
        (\<lambda>w. w = (type, v)))"
    and "length commands = 32 \<Longrightarrow> encoded lib False PLDM_GET_PLDM_COMMANDS i
      (encode_get_commands_resp lib i (pldm_const lib PLDM_SUCCESS) commands (calloc_msg lib
        (pldm_size lib PLDM_MSG_HDR_T_SIZE + pldm_size lib SIZEOF_pldm_get_commands_resp)))
      (\<lambda>m. decoded lib (decode_get_commands_resp lib m (pldm_size lib PLDM_GET_COMMANDS_RESP_BYTES))
        (\<lambda>w. snd w = commands))"
  using assms
  by (simp_all add: pldm_codec_def codec_types_req_def codec_types_resp_def codec_version_req_def
      codec_version_resp_def codec_commands_req_def codec_commands_resp_def del: split_paired_All)

text \<open>The module asks with one fixed instance identifier and answers with the one it was asked with.\<close>

lemma instance_ok_own: "instance_ok PLDM_INSTANCE_ID"
  by (simp add: instance_ok_def PLDM_INSTANCE_ID_def)

lemma round_types:
  assumes codec: "pldm_codec lib" and ok: "mcp_table_ok (ctx_of MCP s)"
    and disc: "fw_discovery s = PLDM_FW_REQ_TYPES"
  shows "\<exists>s'. discovery_round lib stray s = Some s' \<and> ctx_of MCP s' = ctx_of MCP s \<and>
    fw_discovery s' = PLDM_FW_REQ_VERSION \<and>
    ctx_of BMC s' = (ctx_of BMC s)\<lparr>types_count := of_nat (length (tc_pldm_info (ctx_of MCP s))),
      tc_pldm_info := map blank_info (by_type (tc_pldm_info (ctx_of MCP s)))\<rparr>"
proof -
  let ?infos = "tc_pldm_info (ctx_of MCP s)"
  let ?len = "pldm_size lib PLDM_MSG_HDR_T_SIZE + pldm_size lib SIZEOF_pldm_get_types_resp"
  from ok have small: "\<forall>v \<in> set (map inf_type ?infos). unat v < 8 * 8"
    by (auto simp: mcp_table_ok_def one_version_def)
  from mark_then_read [OF small] obtain bits where bits: "length bits = 8"
      "for_each set_bit_of (map inf_type ?infos) (replicate 8 0) = Some bits"
      "set_bits bits = sorted_list_of_set (unat ` set (map inf_type ?infos))"
    by blast
  define req where "req = encode_get_types_req lib PLDM_INSTANCE_ID (calloc_msg lib (pldm_size lib PLDM_MSG_T_SIZE))"
  define resp where "resp = encode_get_types_resp lib (msg_instance_id (snd req)) (pldm_const lib PLDM_SUCCESS)
    bits (calloc_msg lib ?len)"
  note req = encodedD [OF codec_laws(1) [OF codec instance_ok_own, folded req_def]]
  have own: "instance_ok (msg_instance_id (snd req))" by (simp add: req(3) instance_ok_own)
  note resp = encodedD [OF codec_laws(2) [OF codec own bits(1), folded resp_def]]
  obtain cc where dec: "decode_checked lib (decode_get_types_resp lib (snd resp)
      (pldm_size lib SIZEOF_pldm_get_types_resp)) = Some (cc, bits)"
    using decode_checked_ok [OF resp(2)] by (metis prod.collapse)
  define s1 where "s1 = s\<lparr>fw_discovery := PLDM_FW_REQ_VERSION\<rparr>"
  define s2 where "s2 = send_pldm_packet MCTP_FW_BIND_SERIAL_API_IDX True 0 (Some (snd req))
    (pldm_size lib PLDM_MSG_T_SIZE) s1"
  define s3 where "s3 = send_pldm_packet MCTP_FW_BIND_SERIAL_API_IDX False 0 (Some (snd resp)) ?len s2"
  define s4 where "s4 = upd_ctx BMC (\<lambda>c. c\<lparr>types_count := of_nat (length ?infos),
      tc_pldm_info := map blank_info (by_type ?infos)\<rparr>) s3"
  have "pldm_fw_send_next_request lib stray BMC s = Some s2"
    by (simp add: pldm_fw_discovery_def disc send_request_def req_def [symmetric] req(1) s1_def s2_def Let_def)
  moreover have "process_pldm_request lib (snd req) (pldm_size lib PLDM_MSG_T_SIZE) (pldm_get_hash (snd req)) MCP s2 =
      Some ((snd resp, ?len), s2)"
    using ok resp(1) bits(2)
    by (simp add: req(5) base_request [OF codec] handle_pldm_get_pldm_types_req_def s2_def s1_def
        for_each_map [of set_bit_of inf_type] PLDM_TYPES_COUNT_def resp_def mcp_table_ok_def Let_def)
  moreover have "process_pldm_response lib (snd resp) ?len (pldm_get_hash (snd resp)) BMC s3 = Some s4"
  proof -
    have "set_bits bits = map (\<lambda>info. unat (inf_type info)) (by_type ?infos)"
      using ok types_sorted [of ?infos] bits(3) by (simp add: mcp_table_ok_def)
    then show ?thesis using dec bits(1)
      by (simp add: resp(5) base_request [OF codec] handle_pldm_get_pldm_types_resp_def PLDM_TYPES_COUNT_def
          s4_def blank_info_def [abs_def] o_def Let_def)
  qed
  ultimately have "discovery_round lib stray s = Some s4"
    using exchange [of lib stray s MCTP_FW_BIND_SERIAL_API_IDX "snd req" "pldm_size lib PLDM_MSG_T_SIZE" s1
        "snd resp" ?len s2 s4] req(4) resp(4)
    by (simp add: s2_def s3_def)
  then show ?thesis by (simp add: s4_def s3_def s2_def s1_def)
qed

text \<open>The entry of the type asked about exists in the table of the MCP.\<close>

lemma round_version:
  assumes codec: "pldm_codec lib" and ok: "mcp_table_ok (ctx_of MCP s)"
    and disc: "fw_discovery s = PLDM_FW_REQ_VERSION"
    and k: "unat (tc_idx (ctx_of BMC s)) = k" "k < unat (types_count (ctx_of BMC s))"
      "k < length (tc_pldm_info (ctx_of BMC s))"
    and info: "info \<in> set (tc_pldm_info (ctx_of MCP s))"
      "inf_type (tc_pldm_info (ctx_of BMC s) ! k) = inf_type info"
  shows "\<exists>s'. discovery_round lib stray s = Some s' \<and> ctx_of MCP s' = ctx_of MCP s \<and>
    fw_discovery s' = PLDM_FW_REQ_CMDS \<and>
    ctx_of BMC s' = (ctx_of BMC s)\<lparr>tc_pldm_info := (tc_pldm_info (ctx_of BMC s))[k :=
      (tc_pldm_info (ctx_of BMC s) ! k)\<lparr>inf_version_count := 1, inf_idx := 0,
        inf_version := [version_zero\<lparr>ver_version := ver_version (inf_version info ! 0)\<rparr>]\<rparr>]\<rparr>"
proof -
  let ?size = "pldm_size lib PLDM_MSG_HDR_T_SIZE + pldm_size lib PLDM_GET_VERSION_REQ_BYTES"
  let ?len = "pldm_size lib PLDM_MSG_HDR_T_SIZE + pldm_size lib SIZEOF_pldm_get_version_resp +
    pldm_size lib SIZEOF_ver32"
  let ?v = "ver_version (inf_version info ! 0)"
  define req where "req = encode_get_version_req lib PLDM_INSTANCE_ID 0 (pldm_const lib PLDM_GET_FIRSTPART)
    (inf_type info) (calloc_msg lib ?size)"
  define resp where "resp = encode_get_version_resp lib (msg_instance_id (snd req)) (pldm_const lib PLDM_SUCCESS) 1
    (pldm_const lib PLDM_START_AND_END) (Some ?v) (pldm_size lib SIZEOF_ver32) (calloc_msg lib ?len)"
  note req = encodedD [OF codec_laws(3) [OF codec instance_ok_own, of "inf_type info", folded req_def]]
  have own: "instance_ok (msg_instance_id (snd req))" by (simp add: req(3) instance_ok_own)
  note resp = encodedD [OF codec_laws(4) [OF codec own refl, of ?v, folded resp_def]]
  obtain h f where dec_req: "decode_checked lib (decode_get_version_req lib (snd req)
      (pldm_size lib PLDM_GET_VERSION_REQ_BYTES)) = Some (h, f, inf_type info)"
    using decode_checked_ok [OF req(2)] by (metis prod.collapse)
  obtain cc n g where dec_resp: "decode_checked lib (decode_get_version_resp lib (snd resp) ?len) = Some (cc, n, g, ?v)"
    using decode_checked_ok [OF resp(2)] by (metis prod.collapse)
  define s1 where "s1 = s\<lparr>fw_discovery := PLDM_FW_REQ_CMDS\<rparr>"
  define s2 where "s2 = send_pldm_packet MCTP_FW_BIND_SERIAL_API_IDX True 0 (Some (snd req)) ?size s1"
  define s3 where "s3 = send_pldm_packet MCTP_FW_BIND_SERIAL_API_IDX False 0 (Some (snd resp)) ?len s2"
  define s4 where "s4 = upd_info BMC k (\<lambda>info. info\<lparr>inf_version_count := 1, inf_idx := 0,
      inf_version := [version_zero\<lparr>ver_version := ?v\<rparr>]\<rparr>) s3"
  have "tc_idx (ctx_of BMC s) < types_count (ctx_of BMC s)"
    using k by (simp add: word_less_nat_alt)
  then have "pldm_fw_send_next_request lib stray BMC s = Some s2"
    using k info(2)
    by (simp add: pldm_fw_discovery_def disc current_info_def send_request_def req_def [symmetric] req(1)
        s1_def s2_def Let_def)
  moreover have "process_pldm_request lib (snd req) ?size (pldm_get_hash (snd req)) MCP s2 =
      Some ((snd resp, ?len), s2)"
    using ok resp(1) dec_req info(1) version_of_type_unique [of "tc_pldm_info (ctx_of MCP s)" info None]
    by (simp add: req(5) base_request [OF codec] handle_pldm_get_version_req_def s2_def s1_def
        resp_def mcp_table_ok_def Let_def)
  moreover have "process_pldm_response lib (snd resp) ?len (pldm_get_hash (snd resp)) BMC s3 = Some s4"
    using dec_resp k
    by (simp add: resp(5) base_request [OF codec] handle_pldm_get_version_resp_def
        s4_def s3_def s2_def s1_def Let_def)
  ultimately have "discovery_round lib stray s = Some s4"
    using exchange [of lib stray s MCTP_FW_BIND_SERIAL_API_IDX "snd req" ?size s1 "snd resp" ?len s2 s4] req(4) resp(4)
    by (simp add: s2_def s3_def)
  then show ?thesis by (simp add: s4_def s3_def s2_def s1_def upd_info_def)
qed

lemma round_commands:
  assumes codec: "pldm_codec lib" and ok: "mcp_table_ok (ctx_of MCP s)"
    and disc: "fw_discovery s = PLDM_FW_REQ_CMDS"
    and k: "unat (tc_idx (ctx_of BMC s)) = k" "k < length (tc_pldm_info (ctx_of BMC s))"
    and info: "info \<in> set (tc_pldm_info (ctx_of MCP s))"
      "tc_pldm_info (ctx_of BMC s) ! k = (blank_info info)\<lparr>inf_version_count := 1, inf_idx := 0,
        inf_version := [version_zero\<lparr>ver_version := ver_version (inf_version info ! 0)\<rparr>]\<rparr>"
  shows "\<exists>s'. discovery_round lib stray s = Some s' \<and> ctx_of MCP s' = ctx_of MCP s \<and>
    fw_discovery s' =
      (if Suc k < unat (types_count (ctx_of BMC s)) then PLDM_FW_REQ_VERSION else PLDM_FW_DISCOVERY_DONE) \<and>
    ctx_of BMC s' = (ctx_of BMC s)\<lparr>tc_pldm_info := (tc_pldm_info (ctx_of BMC s))[k := view_info info],
      tc_idx := tc_idx (ctx_of BMC s) + 1\<rparr>"
proof -
  let ?size = "pldm_size lib PLDM_MSG_HDR_T_SIZE + pldm_size lib PLDM_GET_COMMANDS_REQ_BYTES"
  let ?len = "pldm_size lib PLDM_MSG_HDR_T_SIZE + pldm_size lib SIZEOF_pldm_get_commands_resp"
  let ?ver = "inf_version info ! 0" and ?cmds = "unat ` set (ver_commands (inf_version info ! 0))"
  have one: "one_version info" using ok info(1) by (simp add: mcp_table_ok_def)
  have small: "\<forall>v \<in> set (ver_commands ?ver). unat v < 8 * 32"
    using unsigned_less [where 'a = nat and 'b = 8] by auto
  from mark_then_read [OF small] obtain bits where bits: "length bits = 32"
      "for_each set_bit_of (ver_commands ?ver) (replicate 32 0) = Some bits"
      "set_bits bits = sorted_list_of_set ?cmds"
    by blast
  have count: "length (sorted_list_of_set ?cmds) < 256"
  proof -
    have "card ?cmds \<le> length (ver_commands ?ver)"
      by (metis card_length image_set length_map)
    also have "\<dots> < 256" using one unsigned_less [of "ver_commands_count ?ver", where 'a = nat]
      by (simp add: one_version_def)
    finally show ?thesis by simp
  qed
  define req where "req = encode_get_commands_req lib PLDM_INSTANCE_ID (inf_type info) (ver_version ?ver)
    (calloc_msg lib ?size)"
  define resp where "resp = encode_get_commands_resp lib (msg_instance_id (snd req)) (pldm_const lib PLDM_SUCCESS)
    bits (calloc_msg lib ?len)"
  note req = encodedD [OF codec_laws(5) [OF codec instance_ok_own, of "inf_type info" "ver_version ?ver",
      folded req_def]]
  have own: "instance_ok (msg_instance_id (snd req))" by (simp add: req(3) instance_ok_own)
  note resp = encodedD [OF codec_laws(6) [OF codec own bits(1), folded resp_def]]
  have dec_req: "decode_checked lib (decode_get_commands_req lib (snd req)
      (pldm_size lib PLDM_GET_COMMANDS_REQ_BYTES)) = Some (inf_type info, ver_version ?ver)"
    using decode_checked_ok [OF req(2)] by simp
  obtain cc where dec_resp: "decode_get_commands_resp lib (snd resp) (pldm_size lib PLDM_GET_COMMANDS_RESP_BYTES) =
      (uint (pldm_const lib PLDM_SUCCESS), cc, bits)"
    using resp(2) unfolding decoded_def by (metis prod.collapse)
  define s1 where "s1 = s\<lparr>fw_discovery :=
    (if Suc k < unat (types_count (ctx_of BMC s)) then PLDM_FW_REQ_VERSION else PLDM_FW_DISCOVERY_DONE)\<rparr>"
  define s2 where "s2 = send_pldm_packet MCTP_FW_BIND_SERIAL_API_IDX True 0 (Some (snd req)) ?size s1"
  define s3 where "s3 = send_pldm_packet MCTP_FW_BIND_SERIAL_API_IDX False 0 (Some (snd resp)) ?len s2"
  define s4 where "s4 = upd_ctx BMC (\<lambda>c. c\<lparr>tc_idx := tc_idx c + 1\<rparr>) (upd_info BMC k (\<lambda>_. view_info info) s3)"
  have "pldm_fw_send_next_request lib stray BMC s = Some s2"
    using k info(2)
    by (simp add: pldm_fw_discovery_def disc current_info_def send_request_def req_def [symmetric] req(1)
        s1_def s2_def Let_def blank_info_def version_zero_def)
  moreover have "process_pldm_request lib (snd req) ?size (pldm_get_hash (snd req)) MCP s2 =
      Some ((snd resp, ?len), s2)"
    using ok resp(1) dec_req bits(2) info(1)
      commands_of_type_unique [of "tc_pldm_info (ctx_of MCP s)" info "replicate 32 0"]
    by (simp add: req(5) base_request [OF codec] handle_pldm_get_commands_req_def s2_def s1_def
        resp_def mcp_table_ok_def Let_def)
  moreover have "process_pldm_response lib (snd resp) ?len (pldm_get_hash (snd resp)) BMC s3 = Some s4"
    using dec_resp k info(2) bits count
    by (simp add: resp(5) base_request [OF codec] handle_pldm_get_commands_resp_def
        s4_def s3_def s2_def s1_def Let_def view_info_def blank_info_def pldm_info_zero_def version_zero_def)
  ultimately have "discovery_round lib stray s = Some s4"
    using exchange [of lib stray s MCTP_FW_BIND_SERIAL_API_IDX "snd req" ?size s1 "snd resp" ?len s2 s4] req(4) resp(4)
    by (simp add: s2_def s3_def)
  then show ?thesis by (simp add: s4_def s3_def s2_def s1_def upd_info_def)
qed

section \<open>All rounds\<close>

definition partly_known :: "pldm_info list \<Rightarrow> nat \<Rightarrow> pldm_info list" where
  "partly_known infos j = map view_info (take j infos) @ map blank_info (drop j infos)"

lemma partly_known_simps:
  "length (partly_known infos j) = length infos"
  "j < length infos \<Longrightarrow> partly_known infos j ! j = blank_info (infos ! j)"
  "j < length infos \<Longrightarrow> (partly_known infos j)[j := view_info (infos ! j)] = partly_known infos (Suc j)"
  by (auto simp: partly_known_def nth_append list_update_append Cons_nth_drop_Suc [symmetric]
      take_Suc_conv_app_nth)

lemma rounds_from_version:
  assumes codec: "pldm_codec lib" and ok: "mcp_table_ok (ctx_of MCP s)"
    and disc: "fw_discovery s = PLDM_FW_REQ_VERSION"
    and bmc: "tc_idx (ctx_of BMC s) = of_nat j" "types_count (ctx_of BMC s) = of_nat n"
      "tc_pldm_info (ctx_of BMC s) = partly_known infos j"
    and infos: "infos = by_type (tc_pldm_info (ctx_of MCP s))" "n = length infos" "j < n"
    and fuel: "2 * (n - j) \<le> fuel"
  shows "\<exists>s'. run_discovery lib stray fuel s = Some s' \<and> fw_discovery s' = PLDM_FW_DISCOVERY_DONE \<and>
    ctx_of MCP s' = ctx_of MCP s \<and> ctx_of BMC s' = (ctx_of BMC s)\<lparr>tc_idx := of_nat n,
      tc_pldm_info := map view_info infos\<rparr>"
  using ok disc bmc infos fuel
proof (induction "n - j" arbitrary: s j fuel)
  case 0
  then show ?case by simp
next
  case (Suc d)
  from Suc.prems(1) Suc.prems(6,7) have n64: "n \<le> 64" using table_length by (metis set_by_type(2))
  then have u: "unat (of_nat j :: u8) = j" "unat (of_nat n :: u8) = n"
    using Suc.prems(8) by (simp_all add: unat_of_nat)
  define info where "info = infos ! j"
  have mem: "info \<in> set (tc_pldm_info (ctx_of MCP s))"
    using Suc.prems(6,7,8) by (metis info_def nth_mem set_by_type(1))
  have at: "tc_pldm_info (ctx_of BMC s) ! j = blank_info info"
    using Suc.prems(5,7,8) by (simp add: partly_known_simps info_def)
  have len: "j < length (tc_pldm_info (ctx_of BMC s))"
    using Suc.prems(5,7,8) by (simp add: partly_known_simps)
  from round_version [OF codec Suc.prems(1,2), of j info stray] u len mem at Suc.prems(3,4,8)
  obtain s1 where s1: "discovery_round lib stray s = Some s1" "ctx_of MCP s1 = ctx_of MCP s"
      "fw_discovery s1 = PLDM_FW_REQ_CMDS"
      "ctx_of BMC s1 = (ctx_of BMC s)\<lparr>tc_pldm_info := (partly_known infos j)[j :=
        (blank_info info)\<lparr>inf_version_count := 1, inf_idx := 0,
          inf_version := [version_zero\<lparr>ver_version := ver_version (inf_version info ! 0)\<rparr>]\<rparr>]\<rparr>"
    by (auto simp: blank_info_def Suc.prems(5) [symmetric])
  from round_commands [OF codec, of s1 j info stray] s1(2-4) u mem Suc.prems(1,3,4,7,8)
  obtain s2 where s2: "discovery_round lib stray s1 = Some s2" "ctx_of MCP s2 = ctx_of MCP s"
      "fw_discovery s2 = (if Suc j < n then PLDM_FW_REQ_VERSION else PLDM_FW_DISCOVERY_DONE)"
      "ctx_of BMC s2 = (ctx_of BMC s)\<lparr>tc_pldm_info := partly_known infos (Suc j), tc_idx := of_nat (Suc j)\<rparr>"
    by (auto simp: partly_known_simps info_def add.commute)
  obtain fuel' where fuel': "fuel = Suc (Suc fuel')" "2 * (n - Suc j) \<le> fuel'"
    using Suc.prems(8,9) by (cases fuel; cases "fuel - 1") auto
  have run: "run_discovery lib stray fuel s = run_discovery lib stray fuel' s2"
    using Suc.prems(2) s1(1,3) s2(1) by (simp add: fuel')
  show ?case
  proof (cases "Suc j < n")
    case True
    have "d = n - Suc j" using Suc.hyps(2) by simp
    from Suc.hyps(1) [OF this, of s2 fuel'] True s2 fuel' Suc.prems(1,4,6,7) run show ?thesis by simp
  next
    case False
    then have "Suc j = n" using Suc.prems(8) by simp
    moreover have "run_discovery lib stray fuel' s2 = Some s2"
      using s2(3) False by (cases fuel') simp_all
    ultimately show ?thesis using s2 run Suc.prems(7) by (simp add: partly_known_def)
  qed
qed

text \<open>C14. Discovery learns what the terminus offers. Assumed of libpldm is \<open>pldm_codec\<close>: for instance
  identifiers up to 31 and successful responses its decoders read back what its encoders wrote. Then, when the
  table of the MCP has one version for each type and the types are known to be next, \<open>2 n + 1\<close> exchanges for
  \<open>n\<close> types end the discovery: the BMC side holds each type once in ascending order, with the version the MCP
  reports and the commands of that version, sorted and without repetition, and the context of the MCP is
  unchanged.\<close>

theorem discovery_learns_mcp:
  assumes codec: "pldm_codec lib" and ok: "mcp_table_ok (ctx_of MCP s)"
    and start: "fw_discovery s = PLDM_FW_REQ_TYPES" "tc_idx (ctx_of BMC s) = 0"
    and fuel: "2 * length (tc_pldm_info (ctx_of MCP s)) + 1 \<le> fuel"
  shows "\<exists>s'. run_discovery lib stray fuel s = Some s' \<and> fw_discovery s' = PLDM_FW_DISCOVERY_DONE \<and>
    ctx_of MCP s' = ctx_of MCP s \<and>
    tc_pldm_info (ctx_of BMC s') = map view_info (by_type (tc_pldm_info (ctx_of MCP s))) \<and>
    unat (types_count (ctx_of BMC s')) = length (tc_pldm_info (ctx_of MCP s))"
proof -
  let ?infos = "by_type (tc_pldm_info (ctx_of MCP s))"
  from round_types [OF codec ok start(1), of stray] obtain s1 where s1: "discovery_round lib stray s = Some s1"
      "ctx_of MCP s1 = ctx_of MCP s" "fw_discovery s1 = PLDM_FW_REQ_VERSION"
      "ctx_of BMC s1 = (ctx_of BMC s)\<lparr>types_count := of_nat (length ?infos), tc_pldm_info := map blank_info ?infos\<rparr>"
    by auto
  obtain fuel' where fuel': "fuel = Suc fuel'" "2 * length ?infos \<le> fuel'" using fuel by (cases fuel) auto
  have pos: "0 < length ?infos" using ok by (simp add: mcp_table_ok_def)
  have pre: "mcp_table_ok (ctx_of MCP s1)" "tc_idx (ctx_of BMC s1) = of_nat 0"
      "types_count (ctx_of BMC s1) = of_nat (length ?infos)" "tc_pldm_info (ctx_of BMC s1) = partly_known ?infos 0"
      "?infos = by_type (tc_pldm_info (ctx_of MCP s1))" "2 * (length ?infos - 0) \<le> fuel'"
    using ok s1(2) start(2) fuel'(2) by (simp_all add: s1(4) partly_known_def)
  from rounds_from_version [OF codec pre(1) s1(3) pre(2-5) refl pos pre(6), of stray]
  obtain s2 where s2: "run_discovery lib stray fuel' s1 = Some s2" "fw_discovery s2 = PLDM_FW_DISCOVERY_DONE"
      "ctx_of MCP s2 = ctx_of MCP s1"
      "ctx_of BMC s2 = (ctx_of BMC s1)\<lparr>tc_idx := of_nat (length ?infos), tc_pldm_info := map view_info ?infos\<rparr>"
    by blast
  have "unat (of_nat (length (tc_pldm_info (ctx_of MCP s))) :: u8) = length (tc_pldm_info (ctx_of MCP s))"
    using table_length [OF ok] by (simp add: unat_of_nat)
  then show ?thesis using s1 s2 start(1) by (simp add: fuel')
qed

end
