(* ===== verification/Pldm_Props.thy ===== *)
theory Pldm_Props
  imports Pldm_Example Pldm_Poll Pldm_Discovery
begin

unbundle bit_operations_syntax

text \<open>
  What holds of every packet the module receives: a request is answered once and leaves the BMC side
  alone, a response is absorbed and leaves the MCP side alone, and the event queue and the transfer state
  stay well formed. The examples of the transfer and of discovery are at the end.
\<close>

section \<open>What a request handler leaves alone\<close>

text \<open>The part of the state no request changes.\<close>

definition bmc_side where
  "bmc_side s = (pldm_fw_bmc_mcp_ctx s, fw_discovery s, fw_state s, fw_sent s)"

lemma bmc_side_upd [simp]:
  "bmc_side (upd_ctx MCP f s) = bmc_side s" "bmc_side (s\<lparr>fw_sensor_value := v\<rparr>) = bmc_side s"
  "bmc_side (s\<lparr>fw_poll := po\<rparr>) = bmc_side s" "bmc_side (s\<lparr>fw_event_id := i\<rparr>) = bmc_side s"
  by (simp_all add: bmc_side_def upd_ctx_def)

text \<open>The invariant of the event queue and the transfer.\<close>

definition events_wf :: "('r, 'a) pldm_fw_scheme \<Rightarrow> bool" where
  "events_wf s \<longleftrightarrow> log_wf (event_queue_of (pldm_fw_mcp_ctx s), fw_event_id s) \<and> poll_state_wf (fw_poll s)"

text \<open>What every request handler promises of the state and the response.\<close>

definition answers ::
  "'r pldm_lib \<Rightarrow> ('r, 'a) pldm_fw_scheme \<Rightarrow> ((pldm_msg \<times> nat) \<times> ('r, 'a) pldm_fw_scheme) option \<Rightarrow> bool" where
  "answers lib s v \<longleftrightarrow> (\<forall>m sz s'. v = Some ((m, sz), s') \<longrightarrow>
    bmc_side s' = bmc_side s \<and> pldm_size lib PLDM_MSG_HDR_T_SIZE \<le> sz \<and> (events_wf s \<longrightarrow> events_wf s'))"

lemma answers_None [simp]: "answers lib s None"
  by (simp add: answers_def)

lemma answers_bind: "(\<And>x. v = Some x \<Longrightarrow> answers lib s (f x)) \<Longrightarrow> answers lib s (v \<bind> f)"
  by (cases v) (auto simp: answers_def)

lemma answers_ctx:
  assumes "\<And>c. event_queue_of (f c) = event_queue_of c" "pldm_size lib PLDM_MSG_HDR_T_SIZE \<le> sz"
  shows "answers lib s (Some ((m, sz), upd_ctx MCP f s))"
  using assms by (simp add: answers_def bmc_side_def events_wf_def upd_ctx_def)

lemma answers_same: "pldm_size lib PLDM_MSG_HDR_T_SIZE \<le> sz \<Longrightarrow> answers lib s (Some ((m, sz), s))"
  by (simp add: answers_def)

lemma base_requests_answer:
  "answers lib s (handle_pldm_set_tid_req lib p MCP s)"
  "answers lib s (handle_pldm_get_tid_req lib p MCP s)"
  "answers lib s (handle_pldm_get_pldm_types_req lib p MCP s)"
  "answers lib s (handle_pldm_get_version_req lib p MCP s)"
  "answers lib s (handle_pldm_get_commands_req lib p MCP s)"
  "answers lib s (handle_pldm_set_event_receiver_req lib p MCP s)"
  "answers lib s (handle_pldm_get_event_receiver_req lib p MCP s)"
  "answers lib s (handle_pldm_get_pdr_req lib p MCP s)"
  "answers lib s (handle_pldm_get_state_sensor_reading_req lib p MCP s)"
  "answers lib s (handle_pldm_event_message_buffer_req lib p MCP s)"
  "answers lib s (handle_pldm_get_fru_record_table lib p n s)"
  unfolding handle_pldm_set_tid_req_def handle_pldm_get_tid_req_def handle_pldm_get_pldm_types_req_def
    handle_pldm_get_version_req_def handle_pldm_get_commands_req_def handle_pldm_set_event_receiver_req_def
    handle_pldm_get_event_receiver_req_def handle_pldm_get_pdr_req_def
    handle_pldm_get_state_sensor_reading_req_def handle_pldm_event_message_buffer_req_def
    handle_pldm_get_fru_record_table_def Let_def
  by (auto simp: add.assoc split: prod.splits simp del: PLDM_ASSERT_bind
      intro!: answers_bind answers_ctx answers_same)

lemma sensor_request_answers: "answers lib s (handle_pldm_get_sensor_reading_req lib p MCP s)"
  unfolding handle_pldm_get_sensor_reading_req_def Let_def
  by (auto intro!: answers_bind simp: answers_def bmc_side_def events_wf_def)

lemma ctx_of_MCP: "ctx_of MCP s = pldm_fw_mcp_ctx s" "ctx_of BMC s = pldm_fw_bmc_mcp_ctx s"
  by (simp_all add: ctx_of_def)

lemma poll_transfer_queue:
  assumes "poll_transfer lib m f h a (po, q) = Some (r, po', q')" "log_wf (q, i)" "length (po_event_data po) = 256"
  shows "\<exists>n. queue_contents q' = drop n (queue_contents q)"
proof (cases "po_event_id po = 0 \<and> poll_transfer lib m f h a (po, q) = poll_first_part lib m h (po, q)")
  case False
  then have "q' = q" using assms(1)
    by (auto simp: poll_transfer_def poll_first_part_def Let_def split: if_splits prod.splits)
  then show ?thesis by (metis drop_0)
next
  case True
  from assms(2) have wf: "queue_wf q" by (simp add: log_wf_def)
  obtain out where out: "event_queue_get (po_event_data po) q = Some (out, q')"
    using True assms(1) by (fastforce simp: poll_first_part_def Let_def split: if_splits)
  show ?thesis
  proof (cases "queue_contents q")
    case Nil
    then have "eq_length q = 0" by (metis length_queue_contents list.size(3))
    with out event_queue_get_law(1) [OF wf assms(3)] have "q' = q" by simp
    then show ?thesis by (metis drop_0)
  next
    case (Cons e es)
    obtain j c k data where "e = (j, c, k, data)" by (cases e) auto
    with out event_queue_get_law(2) [OF wf assms(3)] Cons have "queue_contents q' = es" by fastforce
    then show ?thesis using Cons by (metis drop_Suc_Cons drop_0)
  qed
qed

lemma poll_request_answers:
  fixes lib :: "'r pldm_lib" and s :: "('r, 'a) pldm_fw_scheme"
  shows "answers lib s (handle_pldm_poll_for_platform_event_message lib p MCP s)"
proof -
  have step: "bmc_side t = bmc_side s \<and> (events_wf s \<longrightarrow> events_wf t)"
    if tr: "poll_transfer lib (max_xfer_size (ctx_of MCP s)) f h a (fw_poll s, event_queue_of (ctx_of MCP s)) =
        Some (r, po, q)" and t: "t = upd_ctx MCP (\<lambda>c. c\<lparr>event_queue_of := q\<rparr>) (s\<lparr>fw_poll := po\<rparr>)" for f h a r po q t
  proof -
    have "events_wf t" if wf: "events_wf s"
    proof -
      from wf have l: "log_wf (event_queue_of (ctx_of MCP s), fw_event_id s)" "poll_state_wf (fw_poll s)"
        by (simp_all add: events_wf_def ctx_of_MCP)
      then have w: "queue_wf (event_queue_of (ctx_of MCP s))" "length (po_event_data (fw_poll s)) = 256"
        by (simp_all add: log_wf_def poll_state_wf_def)
      obtain n where n: "queue_contents q = drop n (queue_contents (event_queue_of (ctx_of MCP s)))"
        using poll_transfer_queue [OF tr l(1) w(2)] by blast
      moreover have "poll_state_wf po \<and> queue_wf q"
        using poll_transfer_within [OF l(2) w(1), of lib "ctx_of MCP s" f h a] tr by auto
      ultimately have "log_wf (q, fw_event_id s)" "poll_state_wf po"
        using l(1) set_drop_subset [of n "queue_contents (event_queue_of (ctx_of MCP s))"]
        by (auto simp: log_wf_def)
      then show ?thesis by (simp add: t events_wf_def upd_ctx_def)
    qed
    then show ?thesis by (simp add: t)
  qed
  show ?thesis
    unfolding handle_pldm_poll_for_platform_event_message_def Let_def
    by (auto simp: answers_def split: prod.splits if_splits dest!: step [OF _ refl])
qed

lemma event_request_answers:
  fixes lib :: "'r pldm_lib" and s :: "('r, 'a) pldm_fw_scheme"
  shows "answers lib s (handle_pldm_platform_event_message_req lib p n s)"
proof -
  have put: "bmc_side t = bmc_side s \<and> (events_wf s \<longrightarrow> events_wf t)"
    if "put_platform_event data sz cls chk s = Some t" for data sz cls chk t
  proof -
    from that obtain rc q i where q: "event_queue_put data sz cls chk
        (event_queue_of (ctx_of MCP s), fw_event_id s) = Some (rc, q, i)"
        "t = upd_ctx MCP (\<lambda>c. c\<lparr>event_queue_of := q\<rparr>) (s\<lparr>fw_event_id := i\<rparr>)"
      by (auto simp: put_platform_event_def)
    have "events_wf t" if wf: "events_wf s"
    proof -
      from wf have l: "log_wf (event_queue_of (ctx_of MCP s), fw_event_id s)" "poll_state_wf (fw_poll s)"
        by (simp_all add: events_wf_def ctx_of_MCP)
      have "log_wf (q, i)"
      proof (cases "unat sz \<le> 256")
        case False
        then show ?thesis using q(1) l(1) by (simp add: event_queue_put_too_big)
      next
        case True
        then have "\<not> EVENT_MAX_SIZE < sz" by (simp add: EVENT_MAX_SIZE_def word_less_nat_alt)
        with q(1) have "unat sz \<le> length data"
          by (auto simp: event_queue_put_def mem_read_def Let_def split: if_splits)
        with event_queue_put_law [of "event_queue_of (ctx_of MCP s)" sz data cls chk "fw_event_id s"] l(1) True q(1)
        have "queue_wf q" "i = next_event_id (fw_event_id s)" "queue_contents q = last_n EVENT_QUEUE_SIZE
            (queue_contents (event_queue_of (ctx_of MCP s)) @ [(fw_event_id s, cls, chk, take (unat sz) data)])"
          by (auto simp: log_wf_def)
        with l(1) show ?thesis using set_last_n [of EVENT_QUEUE_SIZE] next_event_id_ok
          by (fastforce simp: log_wf_def)
      qed
      then show ?thesis using l(2) by (simp add: q(2) events_wf_def upd_ctx_def)
    qed
    then show ?thesis by (simp add: q(2))
  qed
  have sent: "bmc_side t = bmc_side u \<and> (events_wf u \<longrightarrow> events_wf t)"
    if "fwk_put_event e u = Some (r, t)" for e r t and u :: "('r, 'a) pldm_fw_scheme"
  proof -
    note f = fwk_put_event_frame(1) [OF that]
    have "bmc_side (event_frame u) = bmc_side u" "events_wf (event_frame u) = events_wf u"
      for u :: "('r, 'a) pldm_fw_scheme"
      by (simp_all add: bmc_side_def events_wf_def event_frame_def)
    then show ?thesis using f by metis
  qed
  show ?thesis
    unfolding handle_pldm_platform_event_message_req_def Let_def
    by (auto simp: answers_def split: prod.splits if_splits dest!: put sent)
qed

lemma answers_if: "answers lib s a \<Longrightarrow> answers lib s b \<Longrightarrow> answers lib s (if c then a else b)"
  by simp

lemma unsupport_answers: "answers lib s (Some (pldm_response_unsupport lib p, s))"
  by (simp add: pldm_response_unsupport_def Let_def answers_same)

lemma process_request_answers: "answers lib s (process_pldm_request lib p n h MCP s)"
  unfolding process_pldm_request_def Let_def
  by (intro answers_if base_requests_answer sensor_request_answers poll_request_answers
      event_request_answers unsupport_answers)

section \<open>What a response leaves alone\<close>

text \<open>The part of the state no response changes.\<close>

definition mcp_side where
  "mcp_side s = (pldm_fw_mcp_ctx s, fw_poll s, fw_event_id s, fw_sensor_value s, fw_sent s, fw_discovery s)"

lemma mcp_side_upd [simp]: "mcp_side (upd_ctx BMC f s) = mcp_side s" "mcp_side (upd_info BMC i g s) = mcp_side s"
  by (simp_all add: mcp_side_def upd_info_def upd_ctx_def)

lemma truncate_upd [simp]:
  "fwk_state.truncate (upd_ctx t f s) = fwk_state.truncate s"
  "fwk_state.truncate (upd_info t i g s) = fwk_state.truncate s"
  by (cases t; simp add: upd_info_def upd_ctx_def fwk_state.truncate_def)+

lemma responses_absorbed:
  assumes "process_pldm_response lib p n h BMC s = Some s'"
  shows "mcp_side s' = mcp_side s \<and> fwk_state.truncate s' = fwk_state.truncate s"
  using assms
  unfolding process_pldm_response_def Let_def handle_pldm_get_tid_resp_def handle_pldm_set_event_receiver_resp_def
    handle_pldm_get_pldm_types_resp_def handle_pldm_get_version_resp_def handle_pldm_get_commands_resp_def
    handle_pldm_get_pdr_resp_def handle_pldm_platform_event_message_resp_def
  by (auto split: if_splits prod.splits)

section \<open>Properties of every packet\<close>

text \<open>The labels of the switch of \<open>process_pldm_packet\<close>.\<close>

definition handled_labels :: "'r pldm_lib \<Rightarrow> u16 list" where
  "handled_labels lib =
    map (PLDM_HASH (pldm_const lib PLDM_BASE)) (PLDM_SET_TID #
      map (pldm_const lib) [PLDM_GET_TID, PLDM_GET_PLDM_TYPES, PLDM_GET_PLDM_VERSION, PLDM_GET_PLDM_COMMANDS]) @
    map (PLDM_HASH (pldm_const lib PLDM_PLATFORM)) (PLDM_GET_EVENT_RECEIVER #
      map (pldm_const lib) [PLDM_SET_EVENT_RECEIVER, PLDM_GET_PDR, PLDM_GET_SENSOR_READING,
        PLDM_GET_STATE_SENSOR_READINGS, PLDM_POLL_FOR_PLATFORM_EVENT_MESSAGE, PLDM_PLATFORM_EVENT_MESSAGE,
        PLDM_EVENT_MESSAGE_BUFFER_SIZE]) @
    [PLDM_HASH (pldm_const lib PLDM_FRU) (pldm_const lib PLDM_GET_FRU_RECORD_TABLE)]"

lemma unhandled_packets:
  assumes "hash \<notin> set (handled_labels lib)"
  shows "process_pldm_request lib p len hash t s = Some (pldm_response_unsupport lib p, s)"
    and "process_pldm_response lib p len hash t s = Some s"
  using assms by (simp_all add: handled_labels_def process_pldm_request_def process_pldm_response_def Let_def)

text \<open>C12. What a packet does, as long as the module does not stop: a decoder or encoder of libpldm that reports
  an error trips PLDM_ASSERT, and then nothing is sent. That can only happen for a command that has a handler.
  Otherwise every request is answered exactly once, on the bus it came from, without the tag owner bit and with
  a message no shorter than its header, and it changes nothing the discovery of the BMC side uses; the answer to
  a command without a handler is the refusal, with no other effect. A response sends nothing and changes neither
  the context of the MCP, the event in transfer, the counters nor the state of the framework.\<close>

theorem packet_dispatch:
  "case pldm_fw_receive_from_transport_layer lib bus p len s of
     None \<Rightarrow> pldm_get_hash p \<in> set (handled_labels lib)
   | Some s' \<Rightarrow>
      if get_pldm_request p = pldm_const lib PLDM_REQUEST
      then pldm_fw_bmc_mcp_ctx s' = pldm_fw_bmc_mcp_ctx s \<and> fw_discovery s' = fw_discovery s \<and>
        (\<exists>m sz. pldm_size lib PLDM_MSG_HDR_T_SIZE \<le> sz \<and> fw_sent s' = fw_sent s @
          [\<lparr>sp_bus = bus, sp_tag_owner = False, sp_msg_tag = 0, sp_packet = Some m, sp_size = sz\<rparr>] \<and>
          (if pldm_get_hash p \<in> set (handled_labels lib) then True
           else (m, sz) = pldm_response_unsupport lib p \<and> s' = send_pldm_packet bus False 0 (Some m) sz s))
      else pldm_fw_mcp_ctx s' = pldm_fw_mcp_ctx s \<and> fw_poll s' = fw_poll s \<and> fw_event_id s' = fw_event_id s \<and>
        fw_sensor_value s' = fw_sensor_value s \<and> fw_sent s' = fw_sent s \<and> fw_discovery s' = fw_discovery s \<and>
        fwk_state.truncate s' = fwk_state.truncate s"
proof (cases "pldm_fw_receive_from_transport_layer lib bus p len s")
  case None
  have "pldm_fw_receive_from_transport_layer lib bus p len s \<noteq> None" if "pldm_get_hash p \<notin> set (handled_labels lib)"
    by (simp add: unhandled_packets [OF that] pldm_fw_receive_from_transport_layer_def pldm_response_unsupport_def Let_def)
  with None show ?thesis by auto
next
  case (Some s')
  show ?thesis
  proof (cases "get_pldm_request p = pldm_const lib PLDM_REQUEST")
    case True
    with Some obtain m sz t where t: "process_pldm_request lib p len (pldm_get_hash p) MCP s = Some ((m, sz), t)"
        "s' = send_pldm_packet bus False 0 (Some m) sz t"
      by (auto simp: pldm_fw_receive_from_transport_layer_def)
    with process_request_answers [of lib s p len "pldm_get_hash p"] True Some
      unhandled_packets(1) [of "pldm_get_hash p" lib p len MCP s] show ?thesis
      by (auto simp: answers_def bmc_side_def send_pldm_packet_def)
  next
    case False
    with Some responses_absorbed [of lib p len "pldm_get_hash p" s s'] show ?thesis
      by (simp add: pldm_fw_receive_from_transport_layer_def mcp_side_def)
  qed
qed

text \<open>C16. No packet, request or response, valid or not, breaks the event queue: as long as the module
  does not stop, the ring keeps its five slots of 256 bytes with head, tail and length consistent, the
  identifiers in use are never 0 or 0xffff, and the event being transferred stays within its buffer.\<close>

theorem packets_keep_events:
  assumes "events_wf s" and "pldm_fw_receive_from_transport_layer lib bus p len s = Some s'"
  shows "events_wf s'"
proof (cases "get_pldm_request p = pldm_const lib PLDM_REQUEST")
  case True
  with assms(2) obtain m sz t where t: "process_pldm_request lib p len (pldm_get_hash p) MCP s = Some ((m, sz), t)"
      "s' = send_pldm_packet bus False 0 (Some m) sz t"
    by (auto simp: pldm_fw_receive_from_transport_layer_def)
  with process_request_answers [of lib s p len "pldm_get_hash p"] assms(1) have "events_wf t"
    by (simp add: answers_def)
  then show ?thesis by (simp add: t(2) events_wf_def send_pldm_packet_def)
next
  case False
  with assms responses_absorbed [of lib p len "pldm_get_hash p" s s'] show ?thesis
    by (simp add: pldm_fw_receive_from_transport_layer_def mcp_side_def events_wf_def)
qed

section \<open>An event from its report to its receiver\<close>

lemma put_event_keeps_fw:
  fixes s :: "('r, 'a) pldm_fw_scheme"
  assumes "fwk_put_event e s = Some (r, t)"
  shows "pldm_fw_mcp_ctx t = pldm_fw_mcp_ctx s" "fw_poll t = fw_poll s"
proof -
  have e: "pldm_fw_mcp_ctx (event_frame u) = pldm_fw_mcp_ctx u" "fw_poll (event_frame u) = fw_poll u"
    for u :: "('r, 'a) pldm_fw_scheme"
    by (simp_all add: event_frame_def)
  note f = fwk_put_event_frame(1) [OF assms]
  show "pldm_fw_mcp_ctx t = pldm_fw_mcp_ctx s" using e(1) [of t] e(1) [of s] f by simp
  show "fw_poll t = fw_poll s" using e(2) [of t] e(2) [of s] f by simp
qed

lemma report_reaches_queue:
  fixes s :: "('r, 'a) pldm_fw_scheme"
  assumes report: "handle_pldm_platform_event_message_req lib p n s = Some (r, s')"
    and dec: "decode_platform_event_message_req lib p (n - pldm_size lib PLDM_MSG_HDR_T_SIZE) = (rc, v, t, cls, off)"
    and size: "event_data_size lib cls (drop off (msg_payload p)) = Some sz" "unat sz \<le> 256"
    and wf: "queue_wf (event_queue_of (pldm_fw_mcp_ctx s))"
  shows "unat sz \<le> length (drop off (msg_payload p)) \<and> fw_poll s' = fw_poll s \<and>
    max_xfer_size (pldm_fw_mcp_ctx s') = max_xfer_size (pldm_fw_mcp_ctx s) \<and>
    queue_wf (event_queue_of (pldm_fw_mcp_ctx s')) \<and>
    queue_contents (event_queue_of (pldm_fw_mcp_ctx s')) = last_n EVENT_QUEUE_SIZE
      (queue_contents (event_queue_of (pldm_fw_mcp_ctx s)) @
        [(fw_event_id s, cls, crc32 lib (take (unat sz) (drop off (msg_payload p))),
          take (unat sz) (drop off (msg_payload p)))])"
proof -
  let ?data = "drop off (msg_payload p)"
  from report dec size obtain bytes rc' q i u st e where u: "mem_read ?data 0 (unat sz) = Some bytes"
      "event_queue_put ?data sz cls (crc32 lib bytes) (event_queue_of (pldm_fw_mcp_ctx s), fw_event_id s) =
        Some (rc', q, i)"
      "u = upd_ctx MCP (\<lambda>c. c\<lparr>event_queue_of := q\<rparr>) (s\<lparr>fw_event_id := i\<rparr>)"
      "fwk_put_event (Some (pldm_event_message (pldm_fw_idx u))) u = Some ((st, e), s')"
    by (auto simp: handle_pldm_platform_event_message_req_def put_platform_event_def decode_checked_def
        ctx_of_MCP Let_def split: if_splits)
  from u(1) have bytes: "unat sz \<le> length ?data" "bytes = take (unat sz) ?data"
    by (auto simp: mem_read_def split: if_splits)
  from event_queue_put_law [OF wf size(2) bytes(1), of cls "crc32 lib bytes" "fw_event_id s"] u(2)
  have "queue_wf q" "queue_contents q = last_n EVENT_QUEUE_SIZE
      (queue_contents (event_queue_of (pldm_fw_mcp_ctx s)) @ [(fw_event_id s, cls, crc32 lib bytes, bytes)])"
    by (auto simp: bytes(2))
  then show ?thesis using put_event_keeps_fw [OF u(4)] bytes
    by (simp add: u(3) upd_ctx_def max_xfer_size_def)
qed

text \<open>C15. An event reported to the terminus reaches its receiver: when the report is accepted while the
  queue is empty and nothing is in transfer, a receiver that polls afterwards obtains exactly the bytes of
  the report that belong to an event of its class, with the identifier the queue assigned, the class and
  the checksum of those bytes, within the polls that \<open>poll_event\<close> needs.\<close>

theorem reported_event_is_polled:
  fixes s :: "('r, 'a) pldm_fw_scheme"
  assumes report: "handle_pldm_platform_event_message_req lib p n s = Some (r, s')"
    and dec: "decode_platform_event_message_req lib p (n - pldm_size lib PLDM_MSG_HDR_T_SIZE) = (rc, v, t, cls, off)"
    and size: "event_data_size lib cls (drop off (msg_payload p)) = Some sz"
    and data: "data = take (unat sz) (drop off (msg_payload p))"
    and wf: "events_wf s" "queue_contents (event_queue_of (pldm_fw_mcp_ctx s)) = []" "po_event_id (fw_poll s) = 0"
    and lib: "poll_flags_distinct lib" and max: "4 \<le> unat (max_xfer_size (pldm_fw_mcp_ctx s))"
    and fuel: "(length data + 3) div unat (max_xfer_size (pldm_fw_mcp_ctx s)) + 1 \<le> fuel"
  shows "\<exists>resp po q. poll_event lib (max_xfer_size (pldm_fw_mcp_ctx s')) fuel
      (fw_poll s', event_queue_of (pldm_fw_mcp_ctx s')) = Some (Some (data, resp), po, q) \<and>
    pr_xfer_id resp = fw_event_id s \<and> po_event_class po = cls \<and> po_checksum po = crc32 lib data \<and>
    queue_contents q = []"
proof -
  from wf have q: "queue_wf (event_queue_of (pldm_fw_mcp_ctx s))" "fw_event_id s \<noteq> 0"
      "length (po_event_data (fw_poll s)) = 256"
    by (simp_all add: events_wf_def log_wf_def event_id_ok_def poll_state_wf_def)
  have "unat sz \<le> 256" using size
    by (auto simp: event_data_size_def SIZEOF_event_data_state_sensor_state_def
        SIZEOF_event_data_numeric_sensor_state_uint8_def SIZEOF_cper_event_data_def split: if_splits)
  from report_reaches_queue [OF report dec size this q(1)] wf(2) data
  have s': "fw_poll s' = fw_poll s" "max_xfer_size (pldm_fw_mcp_ctx s') = max_xfer_size (pldm_fw_mcp_ctx s)"
      "queue_wf (event_queue_of (pldm_fw_mcp_ctx s'))"
      "queue_contents (event_queue_of (pldm_fw_mcp_ctx s')) = [(fw_event_id s, cls, crc32 lib data, data)]"
    by (auto simp: last_n_def EVENT_QUEUE_SIZE_def)
  from poll_event_oldest [OF lib _ _ s'(3,4) q(2), of "fw_poll s'" "pldm_fw_mcp_ctx s'" fuel] wf(3) q(3) max fuel
  show ?thesis unfolding s'(1,2) by auto
qed

section \<open>Examples\<close>

lemma lib0_flags: "poll_flags_distinct lib0"
  by code_simp

text \<open>A queue with one event of 40 bytes, and a context with buffers of 16 bytes.\<close>

definition event40 :: "u8 list" where
  "event40 = map of_nat [0..<40]"

definition ctx16 :: "u16 \<Rightarrow> unit terminus_ctx" where
  "ctx16 n = terminus0\<lparr>event_terminus_max_buffer_size := 32, event_receiver_max_buffer_size := n\<rparr>"

lemma queue40:
  "\<exists>q. event_queue_put event40 40 7 9 (event_queue_init, 1) = Some (0, q, 2) \<and> queue_wf q \<and>
    queue_contents q = [(1, 7, 9, event40)]"
  using event_queue_put_law [OF event_queue_init_wf(1), of 40 event40 7 9 1] event_queue_init_wf(2)
  by (simp add: event40_def last_n_def EVENT_QUEUE_SIZE_def next_event_id_def)

theorem poll_delivers_event_witness:
  "\<exists>q r po' q'. event_queue_put event40 40 7 9 (event_queue_init, 1) = Some (0, q, 2) \<and>
    poll_event lib0 (max_xfer_size (ctx16 16)) 3 (poll0, q) = Some (Some (event40, r), po', q') \<and>
    pr_xfer_id r = 1 \<and> po_checksum po' = 9 \<and> queue_contents q' = []"
proof -
  obtain q where q: "event_queue_put event40 40 7 9 (event_queue_init, 1) = Some (0, q, 2)" "queue_wf q"
      "queue_contents q = [(1, 7, 9, event40)]"
    using queue40 by blast
  have "max_xfer_size (ctx16 16) = 16" "length event40 = 40" by (simp_all add: max_xfer_size_def ctx16_def event40_def)
  with poll_delivers_event [OF lib0_flags _ _ q(2,3), of poll0 "ctx16 16" 3] q(1) show ?thesis
    by (simp add: poll0_def) blast
qed

definition pending40 :: poll_state where
  "pending40 = \<lparr>po_event_data = event40 @ replicate 216 0, po_event_id = 1, po_event_size = 40, po_checksum = 9,
    po_event_class = 7\<rparr>"

theorem poll_small_buffer_never_ends_witness:
  "poll_event lib0 (max_xfer_size (ctx16 3)) 1000 (pending40, event_queue_init) =
    Some (None, pending40, event_queue_init)"
proof -
  have "max_xfer_size (ctx16 3) = 3" by (simp add: max_xfer_size_def ctx16_def)
  then show ?thesis using poll_small_buffer_never_ends [OF lib0_flags, of pending40 "ctx16 3" 1000 event_queue_init]
    by (simp add: pending40_def)
qed

theorem poll_transfer_bounds_witness:
  "\<exists>r po' q'. poll_transfer lib0 (max_xfer_size (ctx16 16)) 0 0xFFFFFFFF 0xffff (pending40, event_queue_init) =
      Some (r, po', q') \<and> poll_state_wf po' \<and>
    (pr_xfer_size r = 0 \<or> unat (pr_handle r) + unat (pr_xfer_size r) \<le> unat (po_event_size po'))"
  using poll_transfer_bounds [OF _ event_queue_init_wf(1), of pending40 lib0 "ctx16 16" 0 "0xFFFFFFFF" "0xffff"]
  by (auto simp: poll_state_wf_def pending40_def event40_def)

lemma lib0_codec: "pldm_codec lib0"
proof -
  have "distinct (base_labels lib0)" by code_simp
  then show ?thesis
    unfolding pldm_codec_def codec_types_req_def codec_types_resp_def codec_version_req_def
      codec_version_resp_def codec_commands_req_def codec_commands_resp_def
    by (auto simp: encoded_def decoded_def lib0_def put_msg_def on_success_def const0_def size0_def calloc_msg_def
        instance_ok_def byte_at_def ver_at_def word_bytes_def params_put32_def ver_bytes_def nth_append
        linorder_not_less word_less_nat_alt split: prod.splits)
qed

theorem discovery_learns_mcp_witness:
  "\<exists>s'. run_discovery lib0 pldm_info_zero 5 fw0 = Some s' \<and> fw_discovery s' = PLDM_FW_DISCOVERY_DONE \<and>
    map inf_type (tc_pldm_info (ctx_of BMC s')) = [0, 2] \<and>
    map (\<lambda>i. ver_commands (inf_version i ! 0)) (tc_pldm_info (ctx_of BMC s')) =
      [[2, 3, 4, 5], [4, 0xA, 0x31, 0x39, 0x51]]"
proof -
  have mcp: "ctx_of MCP fw0 = mcp_set_ctx lib0 terminus0" "fw_discovery fw0 = PLDM_FW_REQ_TYPES"
      "tc_idx (ctx_of BMC fw0) = 0" "length (tc_pldm_info (ctx_of MCP fw0)) = 2"
    by code_simp+
  have ok: "mcp_table_ok (ctx_of MCP fw0)" by code_simp
  have view: "map inf_type (map view_info (by_type (tc_pldm_info (ctx_of MCP fw0)))) = [0, 2]"
      "map (\<lambda>i. ver_commands (inf_version i ! 0)) (map view_info (by_type (tc_pldm_info (ctx_of MCP fw0)))) =
        [[2, 3, 4, 5], [4, 0xA, 0x31, 0x39, 0x51]]"
    by code_simp+
  from discovery_learns_mcp [OF lib0_codec ok mcp(2,3), of 5 pldm_info_zero] mcp(4) view show ?thesis by auto
qed

text \<open>A state sensor event reported to the MCP, and a module with buffers of 32 bytes.\<close>

definition report0 :: pldm_msg where
  "report0 = \<lparr>msg_request = 1, msg_datagram = 0, msg_reserved = 0, msg_instance_id = 3, msg_header_ver = 0,
    msg_type = 2, msg_command = 0xA, msg_payload = [1, 0, 0, 2, 0, 1, 1, 2, 1]\<rparr>"

lemma fw0_wf: "events_wf fw0"
  by (simp add: events_wf_def log_wf_def fw0_def fwk_state.extend_def pldm_fw.fields_def mcp_set_ctx_def
      terminus0_def event_queue_init_wf event_id_ok_def poll_state_wf_def poll0_def)

lemma report0_answered:
  "map_option (\<lambda>s. length (fw_sent s)) (pldm_fw_receive_from_transport_layer lib0 4 report0 12 fw0) = Some 1"
  by code_simp

theorem packet_dispatch_witness:
  "\<exists>s' m sz. pldm_fw_receive_from_transport_layer lib0 4 report0 12 fw0 = Some s' \<and>
    fw_sent s' = [\<lparr>sp_bus = 4, sp_tag_owner = False, sp_msg_tag = 0, sp_packet = Some m, sp_size = sz\<rparr>]"
proof -
  obtain s' where s': "pldm_fw_receive_from_transport_layer lib0 4 report0 12 fw0 = Some s'"
    using report0_answered by auto
  moreover have "get_pldm_request report0 = pldm_const lib0 PLDM_REQUEST" "fw_sent fw0 = []" by code_simp+
  ultimately show ?thesis using packet_dispatch [where lib = lib0 and bus = 4 and p = report0 and len = 12 and s = fw0]
    by auto
qed

theorem packets_keep_events_witness:
  "\<exists>s'. pldm_fw_receive_from_transport_layer lib0 4 report0 12 fw0 = Some s' \<and> events_wf s'"
proof -
  obtain s' where s': "pldm_fw_receive_from_transport_layer lib0 4 report0 12 fw0 = Some s'"
    using report0_answered by auto
  then show ?thesis using packets_keep_events [OF fw0_wf s'] by blast
qed

theorem reported_event_is_polled_witness:
  "\<exists>r s' resp po q. handle_pldm_platform_event_message_req lib0 report0 12 fw0 = Some (r, s') \<and>
    poll_event lib0 32 1 (fw_poll s', event_queue_of (pldm_fw_mcp_ctx s')) =
      Some (Some ([2, 0, 1, 1, 2, 1], resp), po, q) \<and> pr_xfer_id resp = 1 \<and> po_checksum po = 6"
proof -
  have "map_option (\<lambda>(r, s). max_xfer_size (pldm_fw_mcp_ctx s))
      (handle_pldm_platform_event_message_req lib0 report0 12 fw0) = Some 32" by code_simp
  then obtain r s' where s': "handle_pldm_platform_event_message_req lib0 report0 12 fw0 = Some (r, s')"
      "max_xfer_size (pldm_fw_mcp_ctx s') = 32"
    by auto
  have dec: "decode_platform_event_message_req lib0 report0 (12 - pldm_size lib0 PLDM_MSG_HDR_T_SIZE) = (0, 1, 0, 0, 3)"
    by code_simp
  have size: "event_data_size lib0 0 (drop 3 (msg_payload report0)) = Some 6" by code_simp
  have data: "[2, 0, 1, 1, 2, 1] = take (unat (6 :: u32)) (drop 3 (msg_payload report0))"
    by (simp add: report0_def)
  have st: "queue_contents (event_queue_of (pldm_fw_mcp_ctx fw0)) = []" "po_event_id (fw_poll fw0) = 0"
      "fw_event_id fw0 = 1" "max_xfer_size (pldm_fw_mcp_ctx fw0) = 32"
    by code_simp+
  have crc: "crc32 lib0 [2, 0, 1, 1, 2, 1] = 6" by code_simp
  from reported_event_is_polled [OF s'(1) dec size data fw0_wf st(1,2) lib0_flags, of 1] s' st crc
  show ?thesis by auto
qed

end
