(* ===== verification/Rp_Types.thy ===== *)
theory Rp_Types
  imports Fwk_Id
begin

text \<open>
  The data of the resource permissions module (\<open>module/resource_perms\<close>) and the SCMI constants it uses
  (\<open>mod_scmi_std.h\<close>). Every resource-managed protocol has the same members in the structures of the
  source (\<open>scmi_pd_perms\<close>, \<open>pd_count\<close>, \<open>pd_counters\<close>, \<open>scmi_perf_perms\<close> and so on); here a member is one
  function of the protocol, so that \<open>scmi_perms RP_PD\<close> stands for \<open>scmi_pd_perms\<close>. A pointer to a table
  is \<open>None\<close> for \<open>NULL\<close> and otherwise the contents of the table.
\<close>

section \<open>SCMI protocols and messages\<close>

definition MOD_SCMI_PLATFORM_PROTOCOL_ID_MIN :: u32 where "MOD_SCMI_PLATFORM_PROTOCOL_ID_MIN = 0x80"
definition MOD_SCMI_PLATFORM_PROTOCOL_ID_MAX :: u32 where "MOD_SCMI_PLATFORM_PROTOCOL_ID_MAX = 0xFF"

definition MOD_SCMI_PROTOCOL_ID_BASE :: u32 where "MOD_SCMI_PROTOCOL_ID_BASE = 0x10"
definition MOD_SCMI_PROTOCOL_ID_POWER_DOMAIN :: u32 where "MOD_SCMI_PROTOCOL_ID_POWER_DOMAIN = 0x11"
definition MOD_SCMI_PROTOCOL_ID_SYS_POWER :: u32 where "MOD_SCMI_PROTOCOL_ID_SYS_POWER = 0x12"
definition MOD_SCMI_PROTOCOL_ID_PERF :: u32 where "MOD_SCMI_PROTOCOL_ID_PERF = 0x13"
definition MOD_SCMI_PROTOCOL_ID_CLOCK :: u32 where "MOD_SCMI_PROTOCOL_ID_CLOCK = 0x14"
definition MOD_SCMI_PROTOCOL_ID_SENSOR :: u32 where "MOD_SCMI_PROTOCOL_ID_SENSOR = 0x15"
definition MOD_SCMI_PROTOCOL_ID_RESET_DOMAIN :: u32 where "MOD_SCMI_PROTOCOL_ID_RESET_DOMAIN = 0x16"
definition MOD_SCMI_PROTOCOL_ID_VOLTAGE_DOMAIN :: u32 where "MOD_SCMI_PROTOCOL_ID_VOLTAGE_DOMAIN = 0x17"
definition MOD_SCMI_PROTOCOL_ID_POWER_CAPPING :: u32 where "MOD_SCMI_PROTOCOL_ID_POWER_CAPPING = 0x18"

lemmas protocol_id_defs = MOD_SCMI_PLATFORM_PROTOCOL_ID_MIN_def MOD_SCMI_PLATFORM_PROTOCOL_ID_MAX_def
  MOD_SCMI_PROTOCOL_ID_BASE_def MOD_SCMI_PROTOCOL_ID_POWER_DOMAIN_def MOD_SCMI_PROTOCOL_ID_SYS_POWER_def
  MOD_SCMI_PROTOCOL_ID_PERF_def MOD_SCMI_PROTOCOL_ID_CLOCK_def MOD_SCMI_PROTOCOL_ID_SENSOR_def
  MOD_SCMI_PROTOCOL_ID_RESET_DOMAIN_def MOD_SCMI_PROTOCOL_ID_VOLTAGE_DOMAIN_def
  MOD_SCMI_PROTOCOL_ID_POWER_CAPPING_def

text \<open>The protocols with permissions per resource.\<close>

datatype res_protocol = RP_PD | RP_PERF | RP_CLOCK | RP_SENSOR | RP_RESET_DOMAIN | RP_VOLTD | RP_POWER_CAPPING

fun res_protocol_id :: "res_protocol \<Rightarrow> u32" where
  "res_protocol_id RP_PD = MOD_SCMI_PROTOCOL_ID_POWER_DOMAIN"
| "res_protocol_id RP_PERF = MOD_SCMI_PROTOCOL_ID_PERF"
| "res_protocol_id RP_CLOCK = MOD_SCMI_PROTOCOL_ID_CLOCK"
| "res_protocol_id RP_SENSOR = MOD_SCMI_PROTOCOL_ID_SENSOR"
| "res_protocol_id RP_RESET_DOMAIN = MOD_SCMI_PROTOCOL_ID_RESET_DOMAIN"
| "res_protocol_id RP_VOLTD = MOD_SCMI_PROTOCOL_ID_VOLTAGE_DOMAIN"
| "res_protocol_id RP_POWER_CAPPING = MOD_SCMI_PROTOCOL_ID_POWER_CAPPING"

text \<open>The messages of the enumerations \<open>scmi_<protocol>_command_id\<close> that bound the managed ranges:
  the first and the last message with permissions, and the number of commands. The last is
  \<open>MOD_SCMI_PD_POWER_STATE_NOTIFY\<close>, \<open>MOD_SCMI_PERF_DESCRIBE_FAST_CHANNEL\<close>, \<open>MOD_SCMI_CLOCK_CONFIG_SET\<close>,
  \<open>MOD_SCMI_SENSOR_READING_GET\<close>, \<open>MOD_SCMI_RESET_NOTIFY\<close>, \<open>MOD_SCMI_VOLTD_LEVEL_GET\<close> and
  \<open>MOD_SCMI_POWER_CAPPING_DESCRIBE_FAST_CHANNEL\<close>.\<close>

definition first_message :: u32 where
  "first_message = 3"

fun last_message :: "res_protocol \<Rightarrow> u32" where
  "last_message RP_PD = 0x06"
| "last_message RP_PERF = 0x0B"
| "last_message RP_CLOCK = 0x07"
| "last_message RP_SENSOR = 0x06"
| "last_message RP_RESET_DOMAIN = 0x05"
| "last_message RP_VOLTD = 0x08"
| "last_message RP_POWER_CAPPING = 0x0C"

text \<open>The sensor protocol has one command more with \<open>BUILD_HAS_SCMI_SENSOR_V2\<close>.\<close>

fun command_count :: "bool \<Rightarrow> res_protocol \<Rightarrow> u32" where
  "command_count v2 RP_PD = 0x08"
| "command_count v2 RP_PERF = 0x0C"
| "command_count v2 RP_CLOCK = 0x0B"
| "command_count v2 RP_SENSOR = (if v2 then 0x08 else 0x07)"
| "command_count v2 RP_RESET_DOMAIN = 0x06"
| "command_count v2 RP_VOLTD = 0x09"
| "command_count v2 RP_POWER_CAPPING = 0x0D"

definition MOD_SCMI_BASE_NOTIFY_ERRORS :: u32 where "MOD_SCMI_BASE_NOTIFY_ERRORS = 0x008"
definition MOD_SCMI_BASE_COMMAND_COUNT :: u32 where "MOD_SCMI_BASE_COMMAND_COUNT = 0x00C"
definition MOD_SCMI_SYS_POWER_STATE_NOTIFY :: u32 where "MOD_SCMI_SYS_POWER_STATE_NOTIFY = 0x005"
definition MOD_SCMI_SYS_POWER_COMMAND_COUNT :: u32 where "MOD_SCMI_SYS_POWER_COMMAND_COUNT = 0x006"

lemmas message_defs = first_message_def MOD_SCMI_BASE_NOTIFY_ERRORS_def MOD_SCMI_BASE_COMMAND_COUNT_def
  MOD_SCMI_SYS_POWER_STATE_NOTIFY_def MOD_SCMI_SYS_POWER_COMMAND_COUNT_def

section \<open>Permission bits\<close>

type_synonym mod_res_perms_t = "16 word"

definition MOD_RES_PERMS_TYPE_SHIFT :: nat where
  "MOD_RES_PERMS_TYPE_SHIFT = 4"

definition MOD_RES_PERMS_RESOURCE_ELEMENT :: "u32 \<Rightarrow> u32" where
  "MOD_RES_PERMS_RESOURCE_ELEMENT resource_id = drop_bit MOD_RES_PERMS_TYPE_SHIFT resource_id"

definition MOD_RES_PERMS_RESOURCE_BIT :: "u32 \<Rightarrow> u32" where
  "MOD_RES_PERMS_RESOURCE_BIT resource_id = resource_id AND (push_bit MOD_RES_PERMS_TYPE_SHIFT 1 - 1)"

datatype mod_res_perms_permissions = MOD_RES_PERMS_ACCESS_ALLOWED | MOD_RES_PERMS_ACCESS_DENIED

text \<open>\<open>perms & (1U << n)\<close> with the 16-bit table entry promoted to 32 bits; the shift is undefined from
  32 on.\<close>

definition perms_bit :: "mod_res_perms_t \<Rightarrow> u32 \<Rightarrow> bool option" where
  "perms_bit perms n = do {
    fwk_assert (n < 32);
    Some ((ucast perms :: u32) AND push_bit (unat n) 1 \<noteq> 0) }"

section \<open>Devices\<close>

datatype mod_res_domain_device_types =
    MOD_RES_POWER_DOMAIN_DEVICE
  | MOD_RES_PERF_DOMAIN_DEVICE
  | MOD_RES_CLOCK_DOMAIN_DEVICE
  | MOD_RES_SENSOR_DOMAIN_DEVICE
  | MOD_RES_RESET_DOMAIN_DEVICE
  | MOD_RES_VOLTAGE_DOMAIN_DEVICE
  | MOD_RES_POWER_CAPPING_DEVICE
  | MOD_RES_PLATFORM_DOMAIN_DEVICE
  | MOD_RES_DOMAIN_DEVICE_INVALID

record mod_res_domain_device =
  dd_device_id :: fwk_id
  dd_type :: mod_res_domain_device_types

text \<open>\<open>md_domain_devices\<close> is the memory from the pointer on: the array ends at the first element of the
  invalid type.\<close>

record mod_res_device =
  md_device_id :: "16 word"
  md_domain_devices :: "mod_res_domain_device list"

section \<open>Configuration and state\<close>

record protocol_permissions_counters =
  pc_count :: u32
  pc_cmd_count :: u32
  pc_resource_count :: u32

record mod_res_agent_permission =
  agent_protocol_permissions_tbl :: "mod_res_perms_t list option"
  agent_msg_permissions_tbl :: "mod_res_perms_t list list option"
  scmi_perms :: "res_protocol \<Rightarrow> mod_res_perms_t list option"

record mod_res_resource_perms_config =
  rc_agent_count :: u32
  rc_protocol_count :: u32
  rc_counters :: "res_protocol \<Rightarrow> protocol_permissions_counters"
  rc_device_count :: u32
  rc_agent_permissions :: "mod_res_agent_permission option"
  rc_domain_devices :: "mod_res_device list option"

text \<open>The two static objects of the module: \<open>resources_perms_ctx\<close> and \<open>resources_perms_backup\<close>. The context
  holds the addresses of the tables of the configuration, which only it writes.\<close>

record res_perms_ctx =
  config :: "mod_res_resource_perms_config option"
  agent_count :: u32
  protocol_count :: u32
  res_count :: "res_protocol \<Rightarrow> u32"
  device_count :: u32
  agent_permissions :: "mod_res_agent_permission option"
  domain_devices :: "mod_res_device list option"
  backup_perms :: "res_protocol \<Rightarrow> mod_res_perms_t list option"

definition res_perms_ctx_zero :: res_perms_ctx where
  "res_perms_ctx_zero = \<lparr>config = None, agent_count = 0, protocol_count = 0, res_count = (\<lambda>_. 0),
    device_count = 0, agent_permissions = None, domain_devices = None, backup_perms = (\<lambda>_. None)\<rparr>"

text \<open>What the build and the platform supply: the flags \<open>BUILD_HAS_MOD_SCMI_RESET_DOMAIN\<close> and
  \<open>BUILD_HAS_SCMI_SENSOR_V2\<close>, the functions that are weak definitions in the source, and \<open>malloc\<close> (the
  entries a table of so many entries holds when it is allocated). A function with an output parameter
  returns its status and what the parameter then holds.\<close>

record res_plat =
  has_reset_domain :: bool
  has_sensor_v2 :: bool
  plat_agent_id_to_index :: "u32 \<Rightarrow> u32 \<Rightarrow> int \<times> u32"
  plat_protocol_id_to_index :: "u32 \<Rightarrow> int \<times> u32"
  plat_message_id_to_index :: "u32 \<Rightarrow> u32 \<Rightarrow> int \<times> int"
  plat_resource_id_to_index :: "u32 \<Rightarrow> u32 \<Rightarrow> u32 \<Rightarrow> u32 \<Rightarrow> int \<times> int"
  plat_agent_protocol_permissions :: "u32 \<Rightarrow> u32 \<Rightarrow> mod_res_perms_permissions"
  plat_agent_message_permissions :: "u32 \<Rightarrow> u32 \<Rightarrow> u32 \<Rightarrow> mod_res_perms_permissions"
  plat_agent_resource_permissions :: "u32 \<Rightarrow> u32 \<Rightarrow> u32 \<Rightarrow> u32 \<Rightarrow> mod_res_perms_permissions"
  malloc_perms :: "nat \<Rightarrow> mod_res_perms_t list option"

end
