(* ===== verification/Rp_Perms.thy ===== *)
theory Rp_Perms
  imports Rp_Types Fwk_Status
begin

text \<open>
  The operations of \<open>mod_resource_perms.c\<close>: the maps from identifiers to table indices, the three
  permission checks, the functions that change the permissions of a device, the reset of an agent's
  permissions, and the module's \<open>init\<close> and \<open>process_bind_request\<close>. \<open>None\<close> is an access outside a
  table, a null pointer or an arithmetic overflow of a signed type.
\<close>

section \<open>The weak definitions\<close>

definition weak_agent_id_to_index :: "u32 \<Rightarrow> u32 \<Rightarrow> int \<times> u32" where
  "weak_agent_id_to_index n agent_id =
    (let idx = agent_id - 1 in if idx < n then (FWK_SUCCESS, idx) else (FWK_E_PARAM, 0))"

definition weak_protocol_id_to_index :: "u32 \<Rightarrow> int \<times> u32" where
  "weak_protocol_id_to_index protocol_id = (FWK_E_PARAM, 0)"

definition weak_message_id_to_index :: "u32 \<Rightarrow> u32 \<Rightarrow> int \<times> int" where
  "weak_message_id_to_index protocol_id message_id = (FWK_E_PARAM, - 1)"

definition weak_resource_id_to_index :: "u32 \<Rightarrow> u32 \<Rightarrow> u32 \<Rightarrow> u32 \<Rightarrow> int \<times> int" where
  "weak_resource_id_to_index agent_id protocol_id message_id resource_id = (FWK_E_PARAM, - 1)"

definition weak_agent_protocol_permissions :: "u32 \<Rightarrow> u32 \<Rightarrow> mod_res_perms_permissions" where
  "weak_agent_protocol_permissions agent_id protocol_id = MOD_RES_PERMS_ACCESS_DENIED"

definition weak_agent_message_permissions :: "u32 \<Rightarrow> u32 \<Rightarrow> u32 \<Rightarrow> mod_res_perms_permissions" where
  "weak_agent_message_permissions agent_id protocol_id message_id = MOD_RES_PERMS_ACCESS_DENIED"

definition weak_agent_resource_permissions :: "u32 \<Rightarrow> u32 \<Rightarrow> u32 \<Rightarrow> u32 \<Rightarrow> mod_res_perms_permissions" where
  "weak_agent_resource_permissions agent_id protocol_id message_id resource_id = MOD_RES_PERMS_ACCESS_DENIED"

text \<open>A platform that overrides none of them; the allocator clears what it returns.\<close>

definition default_plat :: "bool \<Rightarrow> bool \<Rightarrow> res_plat" where
  "default_plat reset v2 = \<lparr>has_reset_domain = reset, has_sensor_v2 = v2,
    plat_agent_id_to_index = weak_agent_id_to_index,
    plat_protocol_id_to_index = weak_protocol_id_to_index,
    plat_message_id_to_index = weak_message_id_to_index,
    plat_resource_id_to_index = weak_resource_id_to_index,
    plat_agent_protocol_permissions = weak_agent_protocol_permissions,
    plat_agent_message_permissions = weak_agent_message_permissions,
    plat_agent_resource_permissions = weak_agent_resource_permissions,
    malloc_perms = (\<lambda>n. Some (replicate n 0))\<rparr>"

section \<open>Indices\<close>

definition is_platform_protocol :: "u32 \<Rightarrow> bool" where
  "is_platform_protocol protocol_id \<longleftrightarrow>
    protocol_id \<ge> MOD_SCMI_PLATFORM_PROTOCOL_ID_MIN \<and> protocol_id \<le> MOD_SCMI_PLATFORM_PROTOCOL_ID_MAX"

definition mod_res_agent_id_to_index :: "res_plat \<Rightarrow> res_perms_ctx \<Rightarrow> u32 \<Rightarrow> int \<times> u32" where
  "mod_res_agent_id_to_index plat s agent_id = plat_agent_id_to_index plat (agent_count s) agent_id"

definition mod_res_protocol_id_to_index :: "res_plat \<Rightarrow> u32 \<Rightarrow> int \<times> u32" where
  "mod_res_protocol_id_to_index plat protocol_id =
    (if is_platform_protocol protocol_id then plat_protocol_id_to_index plat protocol_id
     else if protocol_id \<in> {MOD_SCMI_PROTOCOL_ID_BASE, MOD_SCMI_PROTOCOL_ID_POWER_DOMAIN,
       MOD_SCMI_PROTOCOL_ID_SYS_POWER, MOD_SCMI_PROTOCOL_ID_PERF, MOD_SCMI_PROTOCOL_ID_CLOCK,
       MOD_SCMI_PROTOCOL_ID_SENSOR, MOD_SCMI_PROTOCOL_ID_RESET_DOMAIN,
       MOD_SCMI_PROTOCOL_ID_VOLTAGE_DOMAIN, MOD_SCMI_PROTOCOL_ID_POWER_CAPPING}
     then (FWK_SUCCESS, protocol_id - MOD_SCMI_PROTOCOL_ID_BASE)
     else (FWK_E_PARAM, 0))"

text \<open>The cases of a message switch that test the managed range before the number of commands, and the one of
  the power domain protocol, which tests them the other way round.\<close>

definition message_index :: "u32 \<Rightarrow> u32 \<Rightarrow> u32 \<Rightarrow> int \<times> int" where
  "message_index last_id n message_id =
    (if message_id \<ge> first_message \<and> message_id \<le> last_id
     then (FWK_SUCCESS, sint (message_id - first_message))
     else if message_id \<ge> n then (FWK_E_PARAM, - 1) else (FWK_SUCCESS, - 1))"

definition pd_message_index :: "u32 \<Rightarrow> u32 \<Rightarrow> u32 \<Rightarrow> int \<times> int" where
  "pd_message_index last_id n message_id =
    (if message_id \<ge> n then (FWK_E_PARAM, - 1)
     else if message_id \<ge> first_message \<and> message_id \<le> last_id
     then (FWK_SUCCESS, sint (message_id - first_message))
     else (FWK_SUCCESS, - 1))"

definition base_message_index :: "u32 \<Rightarrow> int \<times> int" where
  "base_message_index message_id =
    (if message_id \<ge> MOD_SCMI_BASE_COMMAND_COUNT then (FWK_E_PARAM, - 1)
     else if message_id = MOD_SCMI_BASE_NOTIFY_ERRORS then (FWK_SUCCESS, 0) else (FWK_SUCCESS, - 1))"

definition mod_res_message_id_to_index :: "res_plat \<Rightarrow> u32 \<Rightarrow> u32 \<Rightarrow> int \<times> int" where
  "mod_res_message_id_to_index plat protocol_id message_id =
    (let managed = (\<lambda>p. message_index (last_message p) (command_count (has_sensor_v2 plat) p) message_id) in
     if is_platform_protocol protocol_id then plat_message_id_to_index plat protocol_id message_id
     else if message_id < 3 then (FWK_SUCCESS, - 1)
     else if protocol_id = MOD_SCMI_PROTOCOL_ID_BASE then base_message_index message_id
     else if protocol_id = MOD_SCMI_PROTOCOL_ID_POWER_DOMAIN
     then pd_message_index (last_message RP_PD) (command_count (has_sensor_v2 plat) RP_PD) message_id
     else if protocol_id = MOD_SCMI_PROTOCOL_ID_SYS_POWER
     then message_index MOD_SCMI_SYS_POWER_STATE_NOTIFY MOD_SCMI_SYS_POWER_COMMAND_COUNT message_id
     else if protocol_id = MOD_SCMI_PROTOCOL_ID_PERF then managed RP_PERF
     else if protocol_id = MOD_SCMI_PROTOCOL_ID_CLOCK then managed RP_CLOCK
     else if protocol_id = MOD_SCMI_PROTOCOL_ID_SENSOR then managed RP_SENSOR
     else if protocol_id = MOD_SCMI_PROTOCOL_ID_RESET_DOMAIN then managed RP_RESET_DOMAIN
     else if protocol_id = MOD_SCMI_PROTOCOL_ID_VOLTAGE_DOMAIN then managed RP_VOLTD
     else if protocol_id = MOD_SCMI_PROTOCOL_ID_POWER_CAPPING then managed RP_POWER_CAPPING
     else (FWK_E_PARAM, - 1))"

text \<open>The protocol a resource switch selects; the reset domain case is compiled in with the module only.\<close>

definition res_protocol_of :: "res_plat \<Rightarrow> u32 \<Rightarrow> res_protocol option" where
  "res_protocol_of plat protocol_id =
    (if protocol_id = MOD_SCMI_PROTOCOL_ID_POWER_DOMAIN then Some RP_PD
     else if protocol_id = MOD_SCMI_PROTOCOL_ID_PERF then Some RP_PERF
     else if protocol_id = MOD_SCMI_PROTOCOL_ID_CLOCK then Some RP_CLOCK
     else if protocol_id = MOD_SCMI_PROTOCOL_ID_SENSOR then Some RP_SENSOR
     else if protocol_id = MOD_SCMI_PROTOCOL_ID_RESET_DOMAIN \<and> has_reset_domain plat then Some RP_RESET_DOMAIN
     else if protocol_id = MOD_SCMI_PROTOCOL_ID_VOLTAGE_DOMAIN then Some RP_VOLTD
     else if protocol_id = MOD_SCMI_PROTOCOL_ID_POWER_CAPPING then Some RP_POWER_CAPPING
     else None)"

text \<open>Signed 32-bit multiplication, undefined when it overflows.\<close>

definition int_mult :: "int \<Rightarrow> int \<Rightarrow> int option" where
  "int_mult a b = do {
    fwk_assert (- (2 ^ 31) \<le> a * b \<and> a * b < 2 ^ 31);
    Some (a * b) }"

text \<open>The offset of an entry in the table \<open>agent[agent_idx].message[message_offset].resource[resource_id]\<close>;
  \<open>n\<close> is the number of resources. The products and sums with \<open>agent_idx\<close> are unsigned.\<close>

definition resource_table_index :: "u32 \<Rightarrow> int \<Rightarrow> int \<Rightarrow> u32 \<Rightarrow> u32 \<Rightarrow> int option" where
  "resource_table_index agent_idx message_count message_offset n resource_id = do {
    let resource_size = uint (MOD_RES_PERMS_RESOURCE_ELEMENT n) + 1;
    offset \<leftarrow> int_mult message_offset resource_size;
    Some (sint (agent_idx * word_of_int message_count * word_of_int resource_size + word_of_int offset
      + MOD_RES_PERMS_RESOURCE_ELEMENT resource_id)) }"

definition mod_res_resource_id_to_index ::
  "res_plat \<Rightarrow> res_perms_ctx \<Rightarrow> u32 \<Rightarrow> u32 \<Rightarrow> u32 \<Rightarrow> u32 \<Rightarrow> (int \<times> int) option" where
  "mod_res_resource_id_to_index plat s agent_id protocol_id message_id resource_id =
    (if is_platform_protocol protocol_id
     then Some (plat_resource_id_to_index plat agent_id protocol_id message_id resource_id)
     else if message_id < 3 then Some (FWK_SUCCESS, - 1)
     else case res_protocol_of plat protocol_id of
       None \<Rightarrow> Some (FWK_E_PARAM, - 1)
     | Some p \<Rightarrow>
         if \<not> (message_id \<ge> first_message \<and> message_id \<le> last_message p) then Some (FWK_E_PARAM, - 1)
         else do {
           let message_count = uint (last_message p) - uint first_message + 1;
           let message_offset = sint (message_id - first_message);
           let (status, agent_idx) = mod_res_agent_id_to_index plat s agent_id;
           if status \<noteq> FWK_SUCCESS \<or> agent_idx \<ge> agent_count s then Some (FWK_E_PARAM, - 1)
           else do {
             i \<leftarrow> resource_table_index agent_idx message_count message_offset (res_count s p) resource_id;
             Some (FWK_SUCCESS, i) } })"

section \<open>Checks\<close>

text \<open>An access to a table: outside of it the behaviour is undefined.\<close>

definition table_read :: "'a list \<Rightarrow> int \<Rightarrow> 'a option" where
  "table_read t i = do { fwk_assert (0 \<le> i \<and> i < int (length t)); Some (t ! nat i) }"

definition table_write :: "'a list \<Rightarrow> int \<Rightarrow> 'a \<Rightarrow> 'a list option" where
  "table_write t i x = do { fwk_assert (0 \<le> i \<and> i < int (length t)); Some (t[nat i := x]) }"

definition verdict :: "bool \<Rightarrow> mod_res_perms_permissions" where
  "verdict denied = (if denied then MOD_RES_PERMS_ACCESS_DENIED else MOD_RES_PERMS_ACCESS_ALLOWED)"

definition agent_protocol_permissions ::
  "res_plat \<Rightarrow> res_perms_ctx \<Rightarrow> u32 \<Rightarrow> u32 \<Rightarrow> mod_res_perms_permissions option" where
  "agent_protocol_permissions plat s agent_id protocol_id =
    (if agent_id = 0 then Some MOD_RES_PERMS_ACCESS_ALLOWED
     else case agent_permissions s of
       None \<Rightarrow> Some MOD_RES_PERMS_ACCESS_ALLOWED
     | Some ap \<Rightarrow>
       (case agent_protocol_permissions_tbl ap of
         None \<Rightarrow> Some MOD_RES_PERMS_ACCESS_ALLOWED
       | Some tbl \<Rightarrow>
         if is_platform_protocol protocol_id then Some (plat_agent_protocol_permissions plat agent_id protocol_id)
         else
           (let (status, agent_idx) = mod_res_agent_id_to_index plat s agent_id in
            if status \<noteq> FWK_SUCCESS \<or> agent_idx \<ge> agent_count s then Some MOD_RES_PERMS_ACCESS_DENIED
            else
              (let (status, protocol_idx) = mod_res_protocol_id_to_index plat protocol_id in
               if status \<noteq> FWK_SUCCESS \<or> protocol_idx \<ge> protocol_count s
               then Some MOD_RES_PERMS_ACCESS_DENIED
               else do {
                 perms \<leftarrow> table_read tbl (uint agent_idx);
                 denied \<leftarrow> perms_bit perms protocol_idx;
                 Some (verdict denied) }))))"

definition agent_message_permissions ::
  "res_plat \<Rightarrow> res_perms_ctx \<Rightarrow> u32 \<Rightarrow> u32 \<Rightarrow> u32 \<Rightarrow> mod_res_perms_permissions option" where
  "agent_message_permissions plat s agent_id protocol_id message_id =
    (if agent_id = 0 then Some MOD_RES_PERMS_ACCESS_ALLOWED
     else case agent_permissions s of
       None \<Rightarrow> Some MOD_RES_PERMS_ACCESS_ALLOWED
     | Some ap \<Rightarrow>
       if is_platform_protocol protocol_id
       then Some (plat_agent_message_permissions plat agent_id protocol_id message_id)
       else do {
         protocol_perms \<leftarrow> agent_protocol_permissions plat s agent_id protocol_id;
         if protocol_perms = MOD_RES_PERMS_ACCESS_DENIED then Some MOD_RES_PERMS_ACCESS_DENIED
         else case agent_msg_permissions_tbl ap of
           None \<Rightarrow> Some MOD_RES_PERMS_ACCESS_ALLOWED
         | Some tbl \<Rightarrow>
           (let (status, message_idx) = mod_res_message_id_to_index plat protocol_id message_id in
            if status \<noteq> FWK_SUCCESS then Some MOD_RES_PERMS_ACCESS_DENIED
            else if message_idx < 0 then Some MOD_RES_PERMS_ACCESS_ALLOWED
            else
              (let (status, agent_idx) = mod_res_agent_id_to_index plat s agent_id in
               if status \<noteq> FWK_SUCCESS then Some MOD_RES_PERMS_ACCESS_DENIED
               else
                 (let (status, protocol_idx) = mod_res_protocol_id_to_index plat protocol_id in
                  if status \<noteq> FWK_SUCCESS then Some MOD_RES_PERMS_ACCESS_DENIED
                  else do {
                    messages \<leftarrow> table_read tbl (uint agent_idx);
                    perms \<leftarrow> table_read messages (uint protocol_idx);
                    denied \<leftarrow> perms_bit perms (word_of_int message_idx);
                    Some (verdict denied) }))) })"

definition agent_resource_permissions ::
  "res_plat \<Rightarrow> res_perms_ctx \<Rightarrow> u32 \<Rightarrow> u32 \<Rightarrow> u32 \<Rightarrow> u32 \<Rightarrow> mod_res_perms_permissions option" where
  "agent_resource_permissions plat s agent_id protocol_id message_id resource_id =
    (if agent_id = 0 then Some MOD_RES_PERMS_ACCESS_ALLOWED
     else case agent_permissions s of
       None \<Rightarrow> Some MOD_RES_PERMS_ACCESS_ALLOWED
     | Some ap \<Rightarrow>
       if is_platform_protocol protocol_id
       then Some (plat_agent_resource_permissions plat agent_id protocol_id message_id resource_id)
       else do {
         message_perms \<leftarrow> agent_message_permissions plat s agent_id protocol_id message_id;
         if message_perms = MOD_RES_PERMS_ACCESS_DENIED then Some MOD_RES_PERMS_ACCESS_DENIED
         else
           (let (status, message_idx) = mod_res_message_id_to_index plat protocol_id message_id in
            if status \<noteq> FWK_SUCCESS then Some MOD_RES_PERMS_ACCESS_DENIED
            else if message_idx < 0 then Some MOD_RES_PERMS_ACCESS_ALLOWED
            else
              (let (status, agent_idx) = mod_res_agent_id_to_index plat s agent_id in
               if status \<noteq> FWK_SUCCESS then Some MOD_RES_PERMS_ACCESS_DENIED
               else do {
                 (status, resource_idx) \<leftarrow>
                   mod_res_resource_id_to_index plat s agent_id protocol_id message_id resource_id;
                 if status \<noteq> FWK_SUCCESS then Some MOD_RES_PERMS_ACCESS_DENIED
                 else if resource_idx < 0 then Some MOD_RES_PERMS_ACCESS_ALLOWED
                 else case res_protocol_of plat protocol_id of
                   None \<Rightarrow> Some MOD_RES_PERMS_ACCESS_DENIED
                 | Some p \<Rightarrow>
                   (case scmi_perms ap p of
                     None \<Rightarrow> Some MOD_RES_PERMS_ACCESS_ALLOWED
                   | Some tbl \<Rightarrow>
                     if resource_id \<ge> res_count s p then Some MOD_RES_PERMS_ACCESS_DENIED
                     else do {
                       perms \<leftarrow> table_read tbl resource_idx;
                       denied \<leftarrow> perms_bit perms (MOD_RES_PERMS_RESOURCE_BIT resource_id);
                       Some (verdict denied) }) })) })"

section \<open>Changing permissions\<close>

text \<open>\<open>perms | bit\<close> and \<open>perms & ~bit\<close>, computed in 32 bits and stored in 16.\<close>

definition perms_set :: "mod_res_perms_t \<Rightarrow> u32 \<Rightarrow> mod_res_perms_t" where
  "perms_set perms n = ucast ((ucast perms :: u32) OR push_bit (unat n) 1)"

definition perms_clear :: "mod_res_perms_t \<Rightarrow> u32 \<Rightarrow> mod_res_perms_t" where
  "perms_clear perms n = ucast ((ucast perms :: u32) AND NOT (push_bit (unat n) 1))"

definition set_agent_resource_message_perms ::
  "res_plat \<Rightarrow> res_perms_ctx \<Rightarrow> u32 \<Rightarrow> u32 \<Rightarrow> u32 \<Rightarrow> u32 \<Rightarrow> u32 \<Rightarrow> mod_res_perms_t list
    \<Rightarrow> (int \<times> mod_res_perms_t list) option" where
  "set_agent_resource_message_perms plat s agent_id protocol_id message_idx resource_id flags perms = do {
    (status, resource_idx) \<leftarrow> mod_res_resource_id_to_index plat s agent_id protocol_id message_idx resource_id;
    if status \<noteq> FWK_SUCCESS then Some (status, perms)
    else do {
      permissions \<leftarrow> table_read perms resource_idx;
      let flags = (if flags = 0 then MOD_RES_PERMS_ACCESS_DENIED else MOD_RES_PERMS_ACCESS_ALLOWED);
      let permissions =
        (if flags = MOD_RES_PERMS_ACCESS_ALLOWED
         then perms_clear permissions (MOD_RES_PERMS_RESOURCE_BIT resource_id)
         else perms_set permissions (MOD_RES_PERMS_RESOURCE_BIT resource_id));
      perms \<leftarrow> table_write perms resource_idx permissions;
      Some (FWK_SUCCESS, perms) } }"

text \<open>The copy of a table: \<open>agent_count * cmd_count * resource_count * sizeof(mod_res_perms_t)\<close> bytes,
  computed in 32 bits.\<close>

definition backup_resource_permission ::
  "res_perms_ctx \<Rightarrow> mod_res_perms_t list \<Rightarrow> mod_res_perms_t list \<Rightarrow> protocol_permissions_counters
    \<Rightarrow> mod_res_perms_t list option" where
  "backup_resource_permission s resource_permission backup counters = do {
    let n = unat (agent_count s * pc_cmd_count counters * pc_resource_count counters * 2) div 2;
    fwk_assert (n \<le> length resource_permission \<and> n \<le> length backup);
    Some (take n resource_permission @ drop n backup) }"

text \<open>The structure handed to \<open>set_agent_resource_permissions\<close>. The two tables it points to are members by
  value; the function returns them as it leaves them.\<close>

record agent_resource_permissions_params =
  pp_agent_id :: u32
  pp_resource_id :: u32
  pp_protocol_id :: u32
  pp_flags :: u32
  pp_start_message_idx :: u32
  pp_end_message_idx :: u32
  pp_resource_permission :: "mod_res_perms_t list option"
  pp_resource_permission_backup :: "mod_res_perms_t list option"
  pp_counters :: protocol_permissions_counters

text \<open>The loop counter has 32 bits and the last message of every protocol is far below \<open>0xFFFFFFFF\<close>, so the
  loop visits the messages from the first to the last.\<close>

definition set_agent_resource_permissions ::
  "res_plat \<Rightarrow> res_perms_ctx \<Rightarrow> agent_resource_permissions_params
    \<Rightarrow> (int \<times> mod_res_perms_t list option \<times> mod_res_perms_t list option) option" where
  "set_agent_resource_permissions plat s pp =
    (case pp_resource_permission pp of
      None \<Rightarrow> Some (FWK_SUCCESS, None, pp_resource_permission_backup pp)
    | Some perms \<Rightarrow>
      if pp_resource_id pp \<ge> pc_count (pp_counters pp)
      then Some (FWK_E_ACCESS, Some perms, pp_resource_permission_backup pp)
      else do {
        backup \<leftarrow> (case pp_resource_permission_backup pp of
          None \<Rightarrow> Some None
        | Some backup \<Rightarrow> map_option Some (backup_resource_permission s perms backup (pp_counters pp)));
        (status, perms) \<leftarrow> for_each_status
          (\<lambda>message_idx perms. set_agent_resource_message_perms plat s (pp_agent_id pp) (pp_protocol_id pp)
            (of_nat message_idx) (pp_resource_id pp) (pp_flags pp) perms)
          [unat (pp_start_message_idx pp)..<unat (pp_end_message_idx pp) + 1] perms;
        Some (status, Some perms, backup) })"

definition set_perms :: "res_protocol \<Rightarrow> mod_res_perms_t list option \<Rightarrow> res_perms_ctx \<Rightarrow> res_perms_ctx" where
  "set_perms p t s = s\<lparr>agent_permissions :=
    map_option (\<lambda>ap. ap\<lparr>scmi_perms := (scmi_perms ap)(p := t)\<rparr>) (agent_permissions s)\<rparr>"

definition set_backup :: "res_protocol \<Rightarrow> mod_res_perms_t list option \<Rightarrow> res_perms_ctx \<Rightarrow> res_perms_ctx" where
  "set_backup p t s = s\<lparr>backup_perms := (backup_perms s)(p := t)\<rparr>"

text \<open>The protocol of a domain device, for the types the switches have a case for.\<close>

definition res_protocol_of_type :: "res_plat \<Rightarrow> mod_res_domain_device_types \<Rightarrow> res_protocol option" where
  "res_protocol_of_type plat type =
    (case type of
      MOD_RES_POWER_DOMAIN_DEVICE \<Rightarrow> Some RP_PD
    | MOD_RES_PERF_DOMAIN_DEVICE \<Rightarrow> Some RP_PERF
    | MOD_RES_CLOCK_DOMAIN_DEVICE \<Rightarrow> Some RP_CLOCK
    | MOD_RES_SENSOR_DOMAIN_DEVICE \<Rightarrow> Some RP_SENSOR
    | MOD_RES_RESET_DOMAIN_DEVICE \<Rightarrow> (if has_reset_domain plat then Some RP_RESET_DOMAIN else None)
    | MOD_RES_VOLTAGE_DOMAIN_DEVICE \<Rightarrow> Some RP_VOLTD
    | MOD_RES_POWER_CAPPING_DEVICE \<Rightarrow> Some RP_POWER_CAPPING
    | _ \<Rightarrow> None)"

text \<open>\<open>mod_res_agent_set_permissions\<close> first stores the agent, the resource and the flags in the structure and
  then assigns the whole structure from a compound literal that names neither of the three: C sets the
  members a literal leaves out to zero.\<close>

definition mod_res_agent_set_permissions ::
  "res_plat \<Rightarrow> mod_res_domain_device_types \<Rightarrow> u32 \<Rightarrow> u32 \<Rightarrow> u32 \<Rightarrow> res_perms_ctx
    \<Rightarrow> (int \<times> res_perms_ctx) option" where
  "mod_res_agent_set_permissions plat type agent_id resource_id flags s =
    (case res_protocol_of_type plat type of
      None \<Rightarrow> Some (FWK_E_ACCESS, s)
    | Some p \<Rightarrow> do {
        ap \<leftarrow> agent_permissions s;
        cfg \<leftarrow> config s;
        let protocol_perms = \<lparr>pp_agent_id = 0, pp_resource_id = 0,
          pp_protocol_id = res_protocol_id p, pp_flags = 0,
          pp_start_message_idx = first_message, pp_end_message_idx = last_message p,
          pp_resource_permission = scmi_perms ap p,
          pp_resource_permission_backup = backup_perms s p,
          pp_counters = rc_counters cfg p\<rparr>;
        (status, perms, backup) \<leftarrow> set_agent_resource_permissions plat s protocol_perms;
        Some (status, set_backup p backup (set_perms p perms s)) })"

text \<open>The checks both device functions start with: the result is the status to return or the device found.\<close>

definition find_device :: "res_perms_ctx \<Rightarrow> u32 \<Rightarrow> u32 \<Rightarrow> (int + mod_res_device) option" where
  "find_device s device_id flags =
    (case domain_devices s of
      None \<Rightarrow> Some (Inl FWK_E_ACCESS)
    | Some devices \<Rightarrow>
      if device_count s = 0 then Some (Inl FWK_E_ACCESS)
      else if device_id \<ge> device_count s then Some (Inl FWK_E_PARAM)
      else if flags \<noteq> 0 \<and> flags \<noteq> 1 then Some (Inl FWK_E_PARAM)
      else case find (\<lambda>d. ucast (md_device_id d) = device_id) (take (unat (device_count s)) devices) of
        Some d \<Rightarrow> Some (Inr d)
      | None \<Rightarrow> do {
          fwk_assert (unat (device_count s) \<le> length devices);
          Some (Inl FWK_E_ACCESS) })"

text \<open>The walk over the domain devices of a device; \<open>only\<close> is the type the protocol variant looks for. A
  failure to set the permissions is logged and the walk goes on.\<close>

fun set_domain_devices ::
  "res_plat \<Rightarrow> mod_res_domain_device_types option \<Rightarrow> u32 \<Rightarrow> u32 \<Rightarrow> mod_res_domain_device list \<Rightarrow> res_perms_ctx
    \<Rightarrow> (int \<times> res_perms_ctx) option" where
  "set_domain_devices plat only agent_id flags [] s = None"
| "set_domain_devices plat only agent_id flags (dev # devs) s =
    (if dd_type dev = MOD_RES_DOMAIN_DEVICE_INVALID then Some (FWK_SUCCESS, s)
     else do {
       eq \<leftarrow> fwk_id_is_equal (dd_device_id dev) FWK_ID_NONE;
       if eq then Some (FWK_SUCCESS, s)
       else if only \<noteq> None \<and> only \<noteq> Some (dd_type dev) then set_domain_devices plat only agent_id flags devs s
       else do {
         resource_id \<leftarrow> fwk_id_get_element_idx (dd_device_id dev);
         (status, s) \<leftarrow> mod_res_agent_set_permissions plat (dd_type dev) agent_id resource_id flags s;
         set_domain_devices plat only agent_id flags devs s } })"

definition mod_res_agent_set_device_permission ::
  "res_plat \<Rightarrow> u32 \<Rightarrow> u32 \<Rightarrow> u32 \<Rightarrow> res_perms_ctx \<Rightarrow> (int \<times> res_perms_ctx) option" where
  "mod_res_agent_set_device_permission plat agent_id device_id flags s = do {
    found \<leftarrow> find_device s device_id flags;
    case found of
      Inl status \<Rightarrow> Some (status, s)
    | Inr d \<Rightarrow> set_domain_devices plat None agent_id flags (md_domain_devices d) s }"

definition device_type_of_protocol :: "u32 \<Rightarrow> mod_res_domain_device_types option" where
  "device_type_of_protocol protocol_id =
    (if protocol_id = MOD_SCMI_PROTOCOL_ID_POWER_DOMAIN then Some MOD_RES_POWER_DOMAIN_DEVICE
     else if protocol_id = MOD_SCMI_PROTOCOL_ID_PERF then Some MOD_RES_PERF_DOMAIN_DEVICE
     else if protocol_id = MOD_SCMI_PROTOCOL_ID_CLOCK then Some MOD_RES_CLOCK_DOMAIN_DEVICE
     else if protocol_id = MOD_SCMI_PROTOCOL_ID_SENSOR then Some MOD_RES_SENSOR_DOMAIN_DEVICE
     else if protocol_id = MOD_SCMI_PROTOCOL_ID_RESET_DOMAIN then Some MOD_RES_RESET_DOMAIN_DEVICE
     else if protocol_id = MOD_SCMI_PROTOCOL_ID_VOLTAGE_DOMAIN then Some MOD_RES_VOLTAGE_DOMAIN_DEVICE
     else None)"

definition mod_res_agent_set_device_protocol_permission ::
  "res_plat \<Rightarrow> u32 \<Rightarrow> u32 \<Rightarrow> u32 \<Rightarrow> u32 \<Rightarrow> res_perms_ctx \<Rightarrow> (int \<times> res_perms_ctx) option" where
  "mod_res_agent_set_device_protocol_permission plat agent_id device_id protocol_id flags s = do {
    found \<leftarrow> find_device s device_id flags;
    case found of
      Inl status \<Rightarrow> Some (status, s)
    | Inr d \<Rightarrow>
        (case device_type_of_protocol protocol_id of
          None \<Rightarrow> Some (FWK_E_ACCESS, s)
        | Some dev_type \<Rightarrow> set_domain_devices plat (Some dev_type) agent_id flags (md_domain_devices d) s) }"

section \<open>Reset of an agent's permissions\<close>

text \<open>One protocol: every entry of the agent, for the messages from 3 to the number of commands and as many
  resource numbers as the table has elements per message, is copied from the backup.\<close>

definition copy_entry ::
  "res_plat \<Rightarrow> res_perms_ctx \<Rightarrow> u32 \<Rightarrow> u32 \<Rightarrow> mod_res_perms_t list \<Rightarrow> nat \<Rightarrow> nat
    \<Rightarrow> mod_res_perms_t list option \<Rightarrow> mod_res_perms_t list option option" where
  "copy_entry plat s agent_id protocol_id backup i j perms = do {
    (status, resource_idx) \<leftarrow>
      mod_res_resource_id_to_index plat s agent_id protocol_id (of_nat i) (of_nat j);
    if status \<noteq> FWK_SUCCESS \<or> resource_idx < 0 then Some perms
    else do {
      x \<leftarrow> table_read backup resource_idx;
      tbl \<leftarrow> perms;
      tbl \<leftarrow> table_write tbl resource_idx x;
      Some (Some tbl) } }"

definition mod_res_agent_copy_config ::
  "res_plat \<Rightarrow> u32 \<Rightarrow> res_protocol \<Rightarrow> mod_res_perms_t list \<Rightarrow> res_perms_ctx \<Rightarrow> res_perms_ctx option" where
  "mod_res_agent_copy_config plat agent_id p backup s = do {
    cfg \<leftarrow> config s;
    ap \<leftarrow> agent_permissions s;
    let cmd_count = unat (command_count (has_sensor_v2 plat) p);
    let resource_count = unat (pc_resource_count (rc_counters cfg p));
    perms \<leftarrow> for_each (\<lambda>i. for_each (copy_entry plat s agent_id (res_protocol_id p) backup i)
      [0..<resource_count]) [3..<cmd_count] (scmi_perms ap p);
    Some (set_perms p perms s) }"

text \<open>The protocols that are restored, in order; power capping is not among them.\<close>

definition reset_protocols :: "res_plat \<Rightarrow> res_protocol list" where
  "reset_protocols plat =
    [RP_PD, RP_PERF, RP_CLOCK, RP_SENSOR] @ (if has_reset_domain plat then [RP_RESET_DOMAIN] else []) @ [RP_VOLTD]"

definition reset_protocol :: "res_plat \<Rightarrow> u32 \<Rightarrow> res_protocol \<Rightarrow> res_perms_ctx \<Rightarrow> res_perms_ctx option" where
  "reset_protocol plat agent_id p s =
    (case backup_perms s p of None \<Rightarrow> Some s | Some backup \<Rightarrow> mod_res_agent_copy_config plat agent_id p backup s)"

definition mod_res_agent_reset_config ::
  "res_plat \<Rightarrow> u32 \<Rightarrow> u32 \<Rightarrow> res_perms_ctx \<Rightarrow> (int \<times> res_perms_ctx) option" where
  "mod_res_agent_reset_config plat agent_id flags s =
    (if device_count s = 0 \<or> domain_devices s = None then Some (FWK_E_ACCESS, s)
     else if flags = 0 then Some (FWK_SUCCESS, s)
     else if agent_id \<ge> agent_count s then Some (FWK_E_ACCESS, s)
     else do {
       s \<leftarrow> for_each (reset_protocol plat agent_id) (reset_protocols plat) s;
       Some (FWK_SUCCESS, s) })"

section \<open>Module interface\<close>

datatype res_api = res_perms_api

definition mod_res_perms_process_bind_request ::
  "fwk_id \<Rightarrow> fwk_id \<Rightarrow> fwk_id \<Rightarrow> fwk_id \<Rightarrow> (int \<times> res_api option) option" where
  "mod_res_perms_process_bind_request fwk_module_id_resource_perms source_id target_id api_id = do {
    eq \<leftarrow> fwk_id_is_equal target_id fwk_module_id_resource_perms;
    if \<not> eq then Some (FWK_E_PARAM, None) else Some (FWK_SUCCESS, Some res_perms_api) }"

text \<open>The number of entries is a product of 32-bit values, their size in bytes is computed in 32 bits again;
  the allocator stops the firmware when it fails.\<close>

definition alloc_perms_backup ::
  "res_plat \<Rightarrow> u32 \<Rightarrow> protocol_permissions_counters \<Rightarrow> mod_res_perms_t list option option" where
  "alloc_perms_backup plat agents perms_counters =
    (if pc_cmd_count perms_counters \<noteq> 0 \<and> pc_resource_count perms_counters \<noteq> 0
     then map_option Some (malloc_perms plat
       (unat (agents * pc_cmd_count perms_counters * pc_resource_count perms_counters * 2) div 2))
     else Some None)"

definition init_protocol ::
  "res_plat \<Rightarrow> mod_res_resource_perms_config \<Rightarrow> res_protocol \<Rightarrow> res_perms_ctx \<Rightarrow> res_perms_ctx option" where
  "init_protocol plat cfg p s = do {
    let s = s\<lparr>res_count := (res_count s)(p := pc_count (rc_counters cfg p))\<rparr>;
    backup \<leftarrow> alloc_perms_backup plat (agent_count s) (rc_counters cfg p);
    Some (set_backup p backup s) }"

text \<open>The protocols in the order they are initialised. Power capping has counters in the configuration but no
  case here.\<close>

definition init_protocols :: "res_plat \<Rightarrow> res_protocol list" where
  "init_protocols plat =
    [RP_CLOCK, RP_SENSOR, RP_PD, RP_PERF] @ (if has_reset_domain plat then [RP_RESET_DOMAIN] else []) @ [RP_VOLTD]"

definition mod_res_perms_resources_init ::
  "res_plat \<Rightarrow> mod_res_resource_perms_config \<Rightarrow> res_perms_ctx \<Rightarrow> (int \<times> res_perms_ctx) option" where
  "mod_res_perms_resources_init plat cfg s = do {
    s \<leftarrow> (case rc_agent_permissions cfg of
      None \<Rightarrow> Some s
    | Some ap \<Rightarrow> do {
        let s = s\<lparr>agent_permissions := Some ap, agent_count := rc_agent_count cfg,
          protocol_count := rc_protocol_count cfg\<rparr>;
        s \<leftarrow> for_each (init_protocol plat cfg) (init_protocols plat) s;
        Some (s\<lparr>device_count := rc_device_count cfg, domain_devices := rc_domain_devices cfg\<rparr>) });
    Some (FWK_SUCCESS, s\<lparr>config := Some cfg\<rparr>) }"

end
