(* ===== verification/Rp_Layout.thy ===== *)
theory Rp_Layout
  imports Rp_Perms
begin

text \<open>
  The layout of the permission tables: the index of an entry is inside its table and belongs to one agent,
  message and table element only (the locale \<open>table_layout\<close>, interpreted on the index computation of the code),
  and the checks in terms of the deny bits.
\<close>

section \<open>Bits\<close>

lemma resource_bit_unat [simp]: "unat (MOD_RES_PERMS_RESOURCE_BIT r) = unat r mod 16"
proof -
  have "MOD_RES_PERMS_RESOURCE_BIT r = take_bit 4 r"
    unfolding MOD_RES_PERMS_RESOURCE_BIT_def MOD_RES_PERMS_TYPE_SHIFT_def
    by (simp add: take_bit_eq_mask mask_eq_exp_minus_1)
  then have "unat (MOD_RES_PERMS_RESOURCE_BIT r) = take_bit 4 (unat r)" by (simp only: unsigned_take_bit_eq)
  then show ?thesis by (simp add: take_bit_eq_mod)
qed

lemma resource_element_unat [simp]: "unat (MOD_RES_PERMS_RESOURCE_ELEMENT r) = unat r div 16"
proof -
  have "unat (MOD_RES_PERMS_RESOURCE_ELEMENT r) = drop_bit 4 (take_bit 32 (unat r))"
    unfolding MOD_RES_PERMS_RESOURCE_ELEMENT_def MOD_RES_PERMS_TYPE_SHIFT_def by (simp only: unsigned_drop_bit_eq) simp
  also have "take_bit 32 (unat r) = unat r" by (rule take_bit_nat_eq_self) simp
  finally show ?thesis by (simp add: drop_bit_eq_div)
qed

lemma and_push_bit_1: "(w :: u32) AND push_bit n 1 \<noteq> 0 \<longleftrightarrow> n < 32 \<and> bit w n"
proof -
  have "w AND push_bit n 1 = 0 \<longleftrightarrow> \<not> (n < 32 \<and> bit w n)"
    by (auto simp: bit_and_iff bit_exp_iff intro!: bit_word_eqI dest: arg_cong [where f = "\<lambda>v. bit v n"])
  then show ?thesis by blast
qed

lemma perms_bit_eq: "unat n < 16 \<Longrightarrow> perms_bit w n = Some (bit w (unat n))"
  by (simp add: perms_bit_def and_push_bit_1 [simplified] bit_ucast_iff word_less_nat_alt)

lemma perms_bit_simps:
  assumes "unat n < 16" "k < 16"
  shows "bit (perms_set w n) k \<longleftrightarrow> k = unat n \<or> bit w k"
    and "bit (perms_clear w n) k \<longleftrightarrow> k \<noteq> unat n \<and> bit w k"
  using assms
  by (auto simp: perms_set_def perms_clear_def bit_ucast_iff bit_or_iff bit_and_iff bit_not_iff bit_exp_iff)

section \<open>The layout of a resource table\<close>

text \<open>The number of messages with permissions, of table elements per message and of entries per agent, and
  the position of an entry, in natural numbers.\<close>

definition messages :: "res_protocol \<Rightarrow> nat" where
  "messages p = unat (last_message p) - 2"

definition elements :: "res_perms_ctx \<Rightarrow> res_protocol \<Rightarrow> nat" where
  "elements s p = unat (res_count s p) div 16 + 1"

definition table_size :: "res_perms_ctx \<Rightarrow> res_protocol \<Rightarrow> nat" where
  "table_size s p = unat (agent_count s) * messages p * elements s p"

definition entry_index :: "res_perms_ctx \<Rightarrow> res_protocol \<Rightarrow> nat \<Rightarrow> nat \<Rightarrow> nat \<Rightarrow> nat" where
  "entry_index s p a m r = (a * messages p + (m - 3)) * elements s p + r div 16"

lemma entry_index_bound:
  assumes "a < unat (agent_count s)" "3 \<le> m" "m \<le> unat (last_message p)" "r div 16 < elements s p"
  shows "entry_index s p a m r < table_size s p"
proof -
  have m: "m - 3 < messages p" using assms by (simp add: messages_def)
  have "a * messages p + (m - 3) < (a + 1) * messages p" using m by simp
  also have "\<dots> \<le> unat (agent_count s) * messages p" using assms(1) by (intro mult_right_mono) auto
  finally have "(a * messages p + (m - 3) + 1) * elements s p \<le> unat (agent_count s) * messages p * elements s p"
    by (intro mult_right_mono) auto
  then show ?thesis using assms(4) by (simp add: entry_index_def table_size_def)
qed

lemma pair_index_inj:
  fixes n :: nat
  assumes "x * n + y = x' * n + y'" "y < n" "y' < n"
  shows "x = x' \<and> y = y'"
proof -
  have "(x * n + y) div n = x" "(x' * n + y') div n = x'" using assms(2,3) by simp_all
  with assms(1) have "x = x'" by metis
  then show ?thesis using assms(1) by simp
qed

lemma entry_index_inj:
  assumes "entry_index s p a m r = entry_index s p a' m' r'"
    and "3 \<le> m" "m \<le> unat (last_message p)" "3 \<le> m'" "m' \<le> unat (last_message p)"
    and "r div 16 < elements s p" "r' div 16 < elements s p"
  shows "a = a' \<and> m = m' \<and> r div 16 = r' div 16"
proof -
  have m: "m - 3 < messages p" "m' - 3 < messages p" using assms by (simp_all add: messages_def)
  from assms have "a * messages p + (m - 3) = a' * messages p + (m' - 3)" and r: "r div 16 = r' div 16"
    using pair_index_inj [of "a * messages p + (m - 3)" "elements s p" "r div 16"] unfolding entry_index_def by auto
  then have "a = a' \<and> m - 3 = m' - 3" using pair_index_inj m by blast
  with assms r show ?thesis by auto
qed

text \<open>The agents are numbered from 1. The index arithmetic is exact for a table of fewer than \<open>2 ^ 31 - 2 ^ 28\<close>
  entries: whatever the resource number is, its element offset is below \<open>2 ^ 28\<close>.\<close>

definition table_fits :: "res_perms_ctx \<Rightarrow> res_protocol \<Rightarrow> bool" where
  "table_fits s p \<longleftrightarrow> table_size s p + 2 ^ 28 \<le> 2 ^ 31"

definition is_agent :: "res_perms_ctx \<Rightarrow> u32 \<Rightarrow> bool" where
  "is_agent s agent_id \<longleftrightarrow> agent_id \<noteq> 0 \<and> agent_id \<le> agent_count s"

definition managed :: "res_protocol \<Rightarrow> u32 \<Rightarrow> bool" where
  "managed p m \<longleftrightarrow> first_message \<le> m \<and> m \<le> last_message p"

lemma last_message_range: "5 \<le> unat (last_message p)" "unat (last_message p) \<le> 12"
  by (cases p; simp)+

lemma managed_unat: "managed p m \<longleftrightarrow> 3 \<le> unat m \<and> unat m \<le> unat (last_message p)"
  by (simp add: managed_def first_message_def word_le_nat_alt)

lemma agent_less: "a - 1 < agent_count s \<longleftrightarrow> is_agent s a"
proof (cases "a = 0")
  case True
  have "\<not> (- 1 :: u32) < agent_count s" by (rule word_order.extremum_strict)
  then show ?thesis using True by (simp add: is_agent_def)
next
  case False
  then have "0 < unat a" by (simp add: unat_gt_0)
  then show ?thesis using False by (simp add: is_agent_def word_less_nat_alt word_le_nat_alt unat_minus_one) linarith
qed

lemma weak_agent_index:
  "weak_agent_id_to_index (agent_count s) a = (if is_agent s a then (FWK_SUCCESS, a - 1) else (FWK_E_PARAM, 0))"
  by (simp add: weak_agent_id_to_index_def Let_def agent_less)


lemma sint_of_nat_u32: "n < 2 ^ 31 \<Longrightarrow> sint (of_nat n :: u32) = int n"
  using sint_sbintrunc' [of "int n", where 'a = 32] by (simp add: signed_take_bit_int_eq_self)

lemma sint_small: "unat (x :: u32) < 2 ^ 31 \<Longrightarrow> sint x = int (unat x)"
  using sint_of_nat_u32 [of "unat x"] by simp

lemma resource_index_value:
  assumes "table_fits s p" "is_agent s a" "managed p m"
  shows "resource_table_index (a - 1) (uint (last_message p) - uint first_message + 1)
      (sint (m - first_message)) (res_count s p) r
    = Some (int (entry_index s p (unat (a - 1)) (unat m) (unat r)))"
proof -
  define R where "R = elements s p"
  define M where "M = messages p"
  define k where "k = unat m - 3"
  have m: "3 \<le> unat m" "unat m \<le> unat (last_message p)" using assms(3) by (simp_all add: managed_unat)
  then have k: "k < M" by (simp add: k_def M_def messages_def)
  have a: "unat (a - 1) < unat (agent_count s)"
    using assms(2) agent_less [of a s] by (simp add: word_less_nat_alt)
  have ts: "unat (agent_count s) * M * R + 2 ^ 28 \<le> 2 ^ 31"
    using assms(1) by (simp add: table_fits_def table_size_def R_def M_def)
  have "(unat (a - 1) * M + k + 1) \<le> unat (agent_count s) * M"
  proof -
    have "unat (a - 1) * M + k + 1 \<le> (unat (a - 1) + 1) * M" using k by simp
    also have "\<dots> \<le> unat (agent_count s) * M" using a by (intro mult_right_mono) auto
    finally show ?thesis .
  qed
  then have "(unat (a - 1) * M + k + 1) * R \<le> unat (agent_count s) * M * R" by (intro mult_right_mono) auto
  moreover have "unat r div 16 < 2 ^ 28" using unat_u32_less [of r] by (simp add: div_less_iff_less_mult)
  ultimately have idx: "(unat (a - 1) * M + k) * R + unat r div 16 < 2 ^ 31"
    and kR: "k * R < 2 ^ 31" using ts by (auto simp: algebra_simps)
  have size: "uint (MOD_RES_PERMS_RESOURCE_ELEMENT (res_count s p)) + 1 = int R"
    unfolding R_def elements_def uint_nat resource_element_unat by simp
  have count: "uint (last_message p) - uint first_message + 1 = int M"
    by (cases p) (simp_all add: M_def messages_def first_message_def)
  have off: "sint (m - first_message) = int k"
  proof -
    have "unat (m - 3) = k" using m(1) unat_sub [of 3 m] by (simp add: k_def word_le_nat_alt)
    moreover have "k < 2 ^ 31" using k last_message_range [of p] by (simp add: M_def messages_def)
    ultimately show ?thesis using sint_small [of "m - 3"] by (simp add: first_message_def)
  qed
  have word: "(a - 1) * word_of_int (int M) * word_of_int (int R) + word_of_int (int k * int R)
      + MOD_RES_PERMS_RESOURCE_ELEMENT r = (of_nat ((unat (a - 1) * M + k) * R + unat r div 16) :: u32)"
    by (simp add: algebra_simps flip: resource_element_unat)
  have mult: "int_mult (int k) (int R) = Some (int k * int R)"
  proof -
    have "- (2 ^ 31) \<le> int k * int R" by (rule order_trans [of _ 0]) simp_all
    moreover have "int k * int R < 2 ^ 31"
      using kR of_nat_less_iff [of "k * R" "2 ^ 31", where 'a = int] by simp
    ultimately show ?thesis unfolding int_mult_def by simp
  qed
  show ?thesis
    unfolding resource_table_index_def size count off Let_def mult
    by (simp only: Option.bind.simps word sint_of_nat_u32 [OF idx])
      (simp only: entry_index_def R_def M_def k_def)
qed

section \<open>What the tables say\<close>

definition all_res_protocols :: "res_protocol list" where
  "all_res_protocols = [RP_PD, RP_PERF, RP_CLOCK, RP_SENSOR, RP_RESET_DOMAIN, RP_VOLTD, RP_POWER_CAPPING]"

lemma in_all_res_protocols [simp]: "p \<in> set all_res_protocols"
  by (cases p) (simp_all add: all_res_protocols_def)

text \<open>The tables of a platform: the default numbering of the agents, a row for every agent, nine protocols
  in a message row, and resource tables with the layout above.\<close>

definition tables_wf :: "res_perms_ctx \<Rightarrow> mod_res_agent_permission \<Rightarrow> bool" where
  "tables_wf s ap \<longleftrightarrow>
    (case agent_protocol_permissions_tbl ap of None \<Rightarrow> True | Some t \<Rightarrow> unat (agent_count s) \<le> length t) \<and>
    (case agent_msg_permissions_tbl ap of None \<Rightarrow> True
      | Some t \<Rightarrow> unat (agent_count s) \<le> length t \<and> (\<forall>row \<in> set t. 9 \<le> length row)) \<and>
    (\<forall>p \<in> set all_res_protocols. table_fits s p \<and>
      (case scmi_perms ap p of None \<Rightarrow> True | Some t \<Rightarrow> table_size s p \<le> length t))"

definition default_agents :: "res_plat \<Rightarrow> bool" where
  "default_agents plat \<longleftrightarrow> plat_agent_id_to_index plat = weak_agent_id_to_index"

definition compiled_in :: "res_plat \<Rightarrow> res_protocol \<Rightarrow> bool" where
  "compiled_in plat p \<longleftrightarrow> p = RP_RESET_DOMAIN \<longrightarrow> has_reset_domain plat"

definition protocol_number :: "res_protocol \<Rightarrow> nat" where
  "protocol_number p = unat (res_protocol_id p) - 16"

definition protocol_bit :: "mod_res_agent_permission \<Rightarrow> u32 \<Rightarrow> res_protocol \<Rightarrow> bool" where
  "protocol_bit ap a p =
    (case agent_protocol_permissions_tbl ap of None \<Rightarrow> False
     | Some t \<Rightarrow> bit (t ! (unat a - 1)) (protocol_number p))"

definition message_bit :: "mod_res_agent_permission \<Rightarrow> u32 \<Rightarrow> res_protocol \<Rightarrow> u32 \<Rightarrow> bool" where
  "message_bit ap a p m =
    (case agent_msg_permissions_tbl ap of None \<Rightarrow> False
     | Some t \<Rightarrow> bit (t ! (unat a - 1) ! protocol_number p) (unat m - 3))"

definition resource_bit :: "res_perms_ctx \<Rightarrow> mod_res_agent_permission \<Rightarrow> u32 \<Rightarrow> res_protocol \<Rightarrow> u32 \<Rightarrow> u32 \<Rightarrow> bool" where
  "resource_bit s ap a p m r =
    (case scmi_perms ap p of None \<Rightarrow> False
     | Some t \<Rightarrow> bit (t ! entry_index s p (unat a - 1) (unat m) (unat r)) (unat r mod 16))"

lemma protocol_number_le: "protocol_number p \<le> 8"
  by (cases p) (simp_all add: protocol_number_def protocol_id_defs)

lemma protocol_index:
  "mod_res_protocol_id_to_index plat (res_protocol_id p) = (FWK_SUCCESS, of_nat (protocol_number p))"
  "\<not> is_platform_protocol (res_protocol_id p)"
  by (cases p; simp add: mod_res_protocol_id_to_index_def is_platform_protocol_def protocol_number_def
      protocol_id_defs)+

lemma res_protocol_of_id: "compiled_in plat p \<Longrightarrow> res_protocol_of plat (res_protocol_id p) = Some p"
  by (cases p) (simp_all add: res_protocol_of_def compiled_in_def protocol_id_defs)

lemma managed_message_index:
  assumes "managed p m"
  shows "mod_res_message_id_to_index plat (res_protocol_id p) m = (FWK_SUCCESS, int (unat m - 3))"
    and "\<not> m < 3"
proof -
  have m: "3 \<le> unat m" "unat m \<le> unat (last_message p)" using assms by (simp_all add: managed_unat)
  then show lt: "\<not> m < 3" by (simp add: word_less_nat_alt)
  have "unat (m - 3) = unat m - 3" using m(1) unat_sub [of 3 m] by (simp add: word_le_nat_alt)
  then have idx: "sint (m - 3) = int (unat m - 3)"
    using m last_message_range [of p] sint_small [of "m - 3"] by simp
  have "message_index (last_message p) n m = (FWK_SUCCESS, int (unat m - 3))" for n
    using assms idx by (simp add: message_index_def managed_def first_message_def)
  moreover have "pd_message_index 6 8 m = (FWK_SUCCESS, int (unat m - 3))" if "p = RP_PD"
    using assms idx that by (auto simp: pd_message_index_def managed_def first_message_def word_le_nat_alt)
  ultimately show "mod_res_message_id_to_index plat (res_protocol_id p) m = (FWK_SUCCESS, int (unat m - 3))"
    using lt protocol_index(2) [of p]
    by (cases p) (simp_all add: mod_res_message_id_to_index_def protocol_id_defs Let_def)
qed

lemma agent_minus_1: "is_agent s a \<Longrightarrow> unat (a - 1) = unat a - 1 \<and> unat a - 1 < unat (agent_count s)"
  by (auto simp: is_agent_def unat_minus_one word_le_nat_alt unat_gt_0 [symmetric])

lemma resource_index:
  assumes "default_agents plat" "is_agent s a" "managed p m" "compiled_in plat p" "table_fits s p"
  shows "mod_res_resource_id_to_index plat s a (res_protocol_id p) m r
    = Some (FWK_SUCCESS, int (entry_index s p (unat a - 1) (unat m) (unat r)))"
  using assms protocol_index(2) [of p] managed_message_index(2) [OF assms(3)] agent_less [of a s]
    resource_index_value [OF assms(5,2,3), of r] agent_minus_1 [OF assms(2)]
  by (simp add: mod_res_resource_id_to_index_def res_protocol_of_id default_agents_def Let_def
      mod_res_agent_id_to_index_def weak_agent_index managed_def not_le)

lemma table_read_nth: "i < length t \<Longrightarrow> table_read t (int i) = Some (t ! i)"
  by (simp add: table_read_def)

lemma table_write_nth: "i < length t \<Longrightarrow> table_write t (int i) x = Some (t[i := x])"
  by (simp add: table_write_def)

lemma protocol_check:
  assumes "tables_wf s ap" "agent_permissions s = Some ap" "default_agents plat" "is_agent s a"
    and "protocol_number p < unat (protocol_count s)"
  shows "agent_protocol_permissions plat s a (res_protocol_id p) = Some (verdict (protocol_bit ap a p))"
proof (cases "agent_protocol_permissions_tbl ap")
  case None
  then show ?thesis using assms(2) by (simp add: agent_protocol_permissions_def protocol_bit_def verdict_def)
next
  case (Some t)
  have n: "unat (of_nat (protocol_number p) :: u32) = protocol_number p"
    using protocol_number_le [of p] by (simp add: unat_of_nat)
  have len: "unat a - 1 < length t"
    using assms(1,4) Some agent_minus_1 [of s a] by (simp add: tables_wf_def)
  have bit: "perms_bit w (of_nat (protocol_number p)) = Some (bit w (protocol_number p))" for w
    using perms_bit_eq [of "of_nat (protocol_number p)" w] protocol_number_le [of p] by (simp add: n)
  have "a \<noteq> 0" and lt: "\<not> a - 1 \<ge> agent_count s"
    using assms(4) agent_less [of a s] by (simp_all add: is_agent_def not_le)
  moreover have "\<not> of_nat (protocol_number p) \<ge> protocol_count s"
    using assms(5) n by (simp add: word_le_nat_alt)
  moreover have "table_read t (uint (a - 1)) = Some (t ! (unat a - 1))"
    using len agent_minus_1 [OF assms(4)] table_read_nth [of "unat (a - 1)" t] by (simp only: uint_nat)
  ultimately show ?thesis
    using assms(2-4) Some protocol_index [where p = p]
    by (simp add: agent_protocol_permissions_def default_agents_def mod_res_agent_id_to_index_def
        weak_agent_index bit protocol_bit_def Let_def)
qed

lemma message_check:
  assumes "tables_wf s ap" "agent_permissions s = Some ap" "default_agents plat" "is_agent s a"
    and "protocol_number p < unat (protocol_count s)" "managed p m"
  shows "agent_message_permissions plat s a (res_protocol_id p) m
    = Some (verdict (protocol_bit ap a p \<or> message_bit ap a p m))"
proof (cases "agent_msg_permissions_tbl ap")
  case None
  have "a \<noteq> 0" using assms(4) by (simp add: is_agent_def)
  then show ?thesis using assms(2) None protocol_check [OF assms(1-5)] protocol_index(2) [of p]
    by (simp add: agent_message_permissions_def message_bit_def verdict_def)
next
  case (Some t)
  have k: "unat m - 3 < 16" using assms(6) last_message_range [of p] by (auto simp: managed_unat)
  have n: "unat (word_of_int (int (unat m - 3)) :: u32) = unat m - 3"
    using k by (simp add: unat_of_nat)
  have len: "unat a - 1 < length t" and row: "\<forall>row \<in> set t. 9 \<le> length row"
    using assms(1,4) Some agent_minus_1 [of s a] by (simp_all add: tables_wf_def)
  then have cols: "protocol_number p < length (t ! (unat a - 1))"
    using protocol_number_le [of p] nth_mem [OF len] by fastforce
  have "a \<noteq> 0" using assms(4) by (simp add: is_agent_def)
  moreover have "table_read t (uint (a - 1)) = Some (t ! (unat a - 1))"
    using len agent_minus_1 [OF assms(4)] table_read_nth [of "unat (a - 1)" t] by (simp only: uint_nat)
  moreover have "table_read (t ! (unat a - 1)) (uint (of_nat (protocol_number p) :: u32))
      = Some (t ! (unat a - 1) ! protocol_number p)"
    using table_read_nth [OF cols] protocol_number_le [of p] by (simp add: uint_nat unat_of_nat)
  moreover have "perms_bit w (word_of_int (int (unat m - 3))) = Some (bit w (unat m - 3))" for w
    using perms_bit_eq [of "word_of_int (int (unat m - 3))" w] k by (simp only: n)
  ultimately show ?thesis
    using assms(2-4) Some protocol_index [where p = p] protocol_check [OF assms(1-5)]
      managed_message_index(1) [OF assms(6), of plat]
    by (simp add: agent_message_permissions_def default_agents_def mod_res_agent_id_to_index_def
        weak_agent_index message_bit_def verdict_def Let_def del: of_int_of_nat_eq)
qed

lemma resource_check:
  assumes "tables_wf s ap" "agent_permissions s = Some ap" "default_agents plat" "is_agent s a"
    and "protocol_number p < unat (protocol_count s)" "managed p m" "compiled_in plat p" "r < res_count s p"
  shows "agent_resource_permissions plat s a (res_protocol_id p) m r
    = Some (verdict (protocol_bit ap a p \<or> message_bit ap a p m \<or> resource_bit s ap a p m r))"
proof -
  let ?i = "entry_index s p (unat a - 1) (unat m) (unat r)"
  have a: "a \<noteq> 0" using assms(4) by (simp add: is_agent_def)
  have fits: "table_fits s p" using assms(1) in_all_res_protocols [of p] unfolding tables_wf_def by blast
  note idx = resource_index [OF assms(3,4,6,7) fits, of r]
  have bit: "perms_bit w (MOD_RES_PERMS_RESOURCE_BIT r) = Some (bit w (unat r mod 16))" for w
    using perms_bit_eq [of "MOD_RES_PERMS_RESOURCE_BIT r" w] by simp
  have "table_read t (int ?i) = Some (t ! ?i)" if "scmi_perms ap p = Some t" for t
  proof (rule table_read_nth)
    have "table_size s p \<le> length t"
      using assms(1) in_all_res_protocols [of p] that unfolding tables_wf_def by (metis option.simps(5))
    moreover have "?i < table_size s p"
      using assms(4,6,8) agent_minus_1 [of s a]
      by (intro entry_index_bound) (auto simp: managed_unat elements_def word_less_nat_alt intro: div_le_mono
          le_imp_less_Suc)
    ultimately show "?i < length t" by simp
  qed
  moreover have "\<not> r \<ge> res_count s p" using assms(8) by (simp add: not_le)
  ultimately show ?thesis
    using a assms(2-4) protocol_index(2) [of p] message_check [OF assms(1-6)] idx
      managed_message_index(1) [OF assms(6), of plat] res_protocol_of_id [OF assms(7)]
    by (simp add: agent_resource_permissions_def default_agents_def mod_res_agent_id_to_index_def
        weak_agent_index resource_bit_def verdict_def bit Let_def split: option.splits)
qed

section \<open>Tables as maps\<close>

text \<open>A table whose entries are addressed by keys: distinct keys have distinct positions inside the table, so a
  write is seen under its own key and under no other.\<close>

locale table_layout =
  fixes pos :: "'k \<Rightarrow> nat" and valid :: "'k \<Rightarrow> bool" and space :: nat
  assumes pos_bound: "valid k \<Longrightarrow> pos k < space"
    and pos_inj: "valid k \<Longrightarrow> valid k' \<Longrightarrow> pos k = pos k' \<Longrightarrow> k = k'"
begin

lemma key_read: "space \<le> length t \<Longrightarrow> valid k \<Longrightarrow> table_read t (int (pos k)) = Some (t ! pos k)"
  using pos_bound [of k] by (simp add: table_read_nth)

lemma key_write: "space \<le> length t \<Longrightarrow> valid k \<Longrightarrow> table_write t (int (pos k)) x = Some (t[pos k := x])"
  using pos_bound [of k] by (simp add: table_write_nth)

lemma read_after_write:
  "space \<le> length t \<Longrightarrow> valid k \<Longrightarrow> valid k' \<Longrightarrow> t[pos k := x] ! pos k' = (if k' = k then x else t ! pos k')"
  using pos_bound [of k] pos_inj [of k k'] by (auto simp: nth_list_update)

end

definition entry_pos :: "res_perms_ctx \<Rightarrow> res_protocol \<Rightarrow> nat \<times> nat \<times> nat \<Rightarrow> nat" where
  "entry_pos s p = (\<lambda>(a, m, e). entry_index s p a m (16 * e))"

definition entry_valid :: "res_perms_ctx \<Rightarrow> res_protocol \<Rightarrow> nat \<times> nat \<times> nat \<Rightarrow> bool" where
  "entry_valid s p = (\<lambda>(a, m, e).
    a < unat (agent_count s) \<and> 3 \<le> m \<and> m \<le> unat (last_message p) \<and> e < elements s p)"

interpretation layout: table_layout "entry_pos s p" "entry_valid s p" "table_size s p" for s p
  by unfold_locales (auto simp: entry_pos_def entry_valid_def entry_index_bound dest: entry_index_inj)

lemma entry_index_pos: "entry_index s p a m r = entry_pos s p (a, m, r div 16)"
  by (simp add: entry_pos_def entry_index_def)

lemma resource_element_less: "r < res_count s p \<Longrightarrow> unat r div 16 < elements s p"
  by (auto simp: elements_def word_less_nat_alt intro: div_le_mono le_imp_less_Suc)

lemma entry_valid_intro:
  "is_agent s a \<Longrightarrow> managed p m \<Longrightarrow> r < res_count s p \<Longrightarrow> entry_valid s p (unat a - 1, unat m, unat r div 16)"
  using agent_minus_1 [of s a] resource_element_less [of r s p] by (simp add: entry_valid_def managed_unat)

end
