(* ===== verification/Rp_Props.thy ===== *)
theory Rp_Props
  imports Rp_Layout
begin

text \<open>
  Properties of the resource permissions: the checks decide as the three levels of tables say; setting a
  permission and resetting an agent change exactly the bits they name; the device functions change none.
\<close>

section \<open>Setting the permissions of a resource\<close>

definition flip_bit :: "u32 \<Rightarrow> u32 \<Rightarrow> mod_res_perms_t \<Rightarrow> mod_res_perms_t" where
  "flip_bit flags r w = (if flags = 0 then perms_set w (MOD_RES_PERMS_RESOURCE_BIT r)
    else perms_clear w (MOD_RES_PERMS_RESOURCE_BIT r))"

lemma bit_flip_bit:
  "k < 16 \<Longrightarrow> bit (flip_bit flags r w) k \<longleftrightarrow> (if k = unat r mod 16 then flags = 0 else bit w k)"
  using perms_bit_simps [of "MOD_RES_PERMS_RESOURCE_BIT r" k w] by (auto simp: flip_bit_def)

lemma set_message_perms:
  assumes "default_agents plat" "is_agent s a" "managed p m" "compiled_in plat p" "table_fits s p"
    and "table_size s p \<le> length t" "r < res_count s p"
  shows "set_agent_resource_message_perms plat s a (res_protocol_id p) m r flags t =
    Some (FWK_SUCCESS, let k = (unat a - 1, unat m, unat r div 16) in
      t[entry_pos s p k := flip_bit flags r (t ! entry_pos s p k)])"
  using resource_index [OF assms(1-5), of r] layout.key_read [OF assms(6) entry_valid_intro [OF assms(2,3,7)]]
    layout.key_write [OF assms(6) entry_valid_intro [OF assms(2,3,7)]]
  by (simp add: set_agent_resource_message_perms_def entry_index_pos flip_bit_def Let_def)

text \<open>The permission bit of a key, and the effect of the loop over the messages of the protocol.\<close>

definition table_bit :: "res_perms_ctx \<Rightarrow> res_protocol \<Rightarrow> mod_res_perms_t list \<Rightarrow> nat \<Rightarrow> nat \<Rightarrow> nat \<Rightarrow> bool" where
  "table_bit s p t a m r = bit (t ! entry_pos s p (a, m, r div 16)) (r mod 16)"

lemma same_resource: "(r :: nat) div 16 = r' div 16 \<Longrightarrow> r mod 16 = r' mod 16 \<Longrightarrow> r = r'"
  by (metis mult_div_mod_eq)

lemma table_bit_write:
  assumes "table_size s p \<le> length t" "entry_valid s p (a, m, unat r div 16)" "entry_valid s p (a', m', r' div 16)"
  shows "table_bit s p (t[entry_pos s p (a, m, unat r div 16) :=
        flip_bit flags r (t ! entry_pos s p (a, m, unat r div 16))]) a' m' r'
    = (if a' = a \<and> m' = m \<and> r' = unat r then flags = 0 else table_bit s p t a' m' r')"
  using layout.read_after_write [OF assms] same_resource [of r' "unat r"]
  by (auto simp: table_bit_def bit_flip_bit)

lemma set_all_messages:
  assumes "default_agents plat" "is_agent s a" "compiled_in plat p" "table_fits s p"
    and "table_size s p \<le> length t" "r < res_count s p"
  shows "\<exists>t'. for_each_status (\<lambda>m t. set_agent_resource_message_perms plat s a (res_protocol_id p) (of_nat m) r flags t)
      [unat first_message..<unat (last_message p) + 1] t = Some (FWK_SUCCESS, t') \<and> length t' = length t \<and>
    (\<forall>a' m' r'. entry_valid s p (a', m', r' div 16) \<longrightarrow> table_bit s p t' a' m' r' =
      (if a' = unat a - 1 \<and> r' = unat r then flags = 0 else table_bit s p t a' m' r'))"
proof -
  let ?xs = "[unat first_message..<unat (last_message p) + 1]"
  define P where "P k t' \<longleftrightarrow> length t' = length t \<and>
    (\<forall>a' m' r'. entry_valid s p (a', m', r' div 16) \<longrightarrow> table_bit s p t' a' m' r' =
      (if a' = unat a - 1 \<and> r' = unat r \<and> m' < 3 + k then flags = 0 else table_bit s p t a' m' r'))" for k t'
  have "\<exists>t'. for_each_status (\<lambda>m t. set_agent_resource_message_perms plat s a (res_protocol_id p) (of_nat m) r flags t)
      ?xs t = Some (FWK_SUCCESS, t') \<and> P (length ?xs) t'"
  proof (rule for_each_status_total)
    show "P 0 t" by (auto simp: P_def entry_valid_def)
    fix k u
    assume k: "k < length ?xs" and u: "P k u"
    define m where "m = 3 + k"
    have last: "m \<le> unat (last_message p)"
      using k last_message_range [of p] by (simp add: m_def first_message_def)
    then have m: "unat (of_nat m :: u32) = m" using last_message_range [of p] by (simp add: unat_of_nat)
    have xs: "?xs ! k = m" using last nth_upt [of 3 k "unat (last_message p) + 1"]
      by (simp add: m_def first_message_def del: upt_Suc)
    from m last have mng: "managed p (of_nat m)" by (simp add: managed_unat) (simp add: m_def)
    let ?e = "entry_pos s p (unat a - 1, m, unat r div 16)"
    have len: "table_size s p \<le> length u" using u assms(5) by (simp add: P_def)
    have v: "entry_valid s p (unat a - 1, m, unat r div 16)"
      using entry_valid_intro [OF assms(2) mng assms(6)] m by simp
    have "P (Suc k) (u[?e := flip_bit flags r (u ! ?e)])"
      using u table_bit_write [OF len v] by (auto simp: P_def m_def)
    then show "\<exists>u'. set_agent_resource_message_perms plat s a (res_protocol_id p) (of_nat (?xs ! k)) r flags u
        = Some (FWK_SUCCESS, u') \<and> P (Suc k) u'"
      using set_message_perms [OF assms(1,2) mng assms(3,4) len assms(6), of flags] m xs by (simp add: Let_def)
  qed
  then obtain t' where loop: "for_each_status (\<lambda>m t. set_agent_resource_message_perms plat s a
      (res_protocol_id p) (of_nat m) r flags t) ?xs t = Some (FWK_SUCCESS, t')" and P: "P (length ?xs) t'"
    by blast
  have "table_bit s p t' a' m' r' = (if a' = unat a - 1 \<and> r' = unat r then flags = 0 else table_bit s p t a' m' r')"
    if v: "entry_valid s p (a', m', r' div 16)" for a' m' r'
  proof -
    have "m' < 3 + length ?xs" using v by (simp add: entry_valid_def first_message_def)
    then show ?thesis using P v unfolding P_def by simp
  qed
  then show ?thesis using loop P unfolding P_def by blast
qed

text \<open>Replacing a table by one that is not shorter.\<close>

lemma set_perms_fields [simp]:
  "agent_count (set_perms p t s) = agent_count s" "res_count (set_perms p t s) = res_count s"
  "protocol_count (set_perms p t s) = protocol_count s" "backup_perms (set_perms p t s) = backup_perms s"
  "config (set_perms p t s) = config s" "device_count (set_perms p t s) = device_count s"
  "domain_devices (set_perms p t s) = domain_devices s"
  "agent_permissions (set_perms p t s) =
    map_option (\<lambda>ap. ap\<lparr>scmi_perms := (scmi_perms ap)(p := t)\<rparr>) (agent_permissions s)"
  by (simp_all add: set_perms_def)

lemma set_perms_layout [simp]:
  "elements (set_perms p t s) q = elements s q" "table_size (set_perms p t s) q = table_size s q"
  "table_fits (set_perms p t s) q = table_fits s q" "is_agent (set_perms p t s) a = is_agent s a"
  "entry_pos (set_perms p t s) = entry_pos s" "table_bit (set_perms p t s) q = table_bit s q"
  by (simp_all add: elements_def table_size_def table_fits_def is_agent_def entry_pos_def entry_index_def
      table_bit_def fun_eq_iff)

lemma resource_bit_table:
  "resource_bit s ap a p m r = (case scmi_perms ap p of None \<Rightarrow> False
    | Some t \<Rightarrow> table_bit s p t (unat a - 1) (unat m) (unat r))"
  by (simp add: resource_bit_def table_bit_def entry_index_pos split: option.splits)

lemma tables_wf_set_perms:
  "tables_wf s ap \<Longrightarrow> table_size s p \<le> length t \<Longrightarrow>
    tables_wf (set_perms p (Some t) s) (ap\<lparr>scmi_perms := (scmi_perms ap)(p := Some t)\<rparr>)"
  by (auto simp: tables_wf_def cong: option.case_cong)

text \<open>The arguments with which a resource permission is decided by the tables.\<close>

definition addressable :: "res_plat \<Rightarrow> res_perms_ctx \<Rightarrow> res_protocol \<Rightarrow> u32 \<Rightarrow> u32 \<Rightarrow> u32 \<Rightarrow> bool" where
  "addressable plat s p a m r \<longleftrightarrow> is_agent s a \<and> managed p m \<and> compiled_in plat p \<and> r < res_count s p \<and>
    protocol_number p < unat (protocol_count s)"

lemma addressable_set_perms [simp]: "addressable plat (set_perms p t s) = addressable plat s"
  by (simp add: addressable_def fun_eq_iff)

lemma addressable_check:
  "tables_wf s ap \<Longrightarrow> agent_permissions s = Some ap \<Longrightarrow> default_agents plat \<Longrightarrow> addressable plat s p a m r \<Longrightarrow>
    agent_resource_permissions plat s a (res_protocol_id p) m r
    = Some (verdict (protocol_bit ap a p \<or> message_bit ap a p m \<or> resource_bit s ap a p m r))"
  by (rule resource_check) (simp_all add: addressable_def)

lemma protocol_bit_update [simp]: "protocol_bit (ap\<lparr>scmi_perms := x\<rparr>) = protocol_bit ap"
  "message_bit (ap\<lparr>scmi_perms := x\<rparr>) = message_bit ap"
  by (simp_all add: protocol_bit_def message_bit_def fun_eq_iff)

text \<open>The check after a table has been replaced.\<close>

lemma check_after_set_perms:
  assumes "tables_wf s ap" "agent_permissions s = Some ap" "default_agents plat" "table_size s p \<le> length t"
    and "addressable plat s q a m r"
  shows "agent_resource_permissions plat (set_perms p (Some t) s) a (res_protocol_id q) m r
    = (if q = p then Some (verdict (protocol_bit ap a p \<or> message_bit ap a p m \<or>
        table_bit s p t (unat a - 1) (unat m) (unat r)))
       else agent_resource_permissions plat s a (res_protocol_id q) m r)"
  using addressable_check [OF tables_wf_set_perms [OF assms(1,4)], of plat q a m r] assms(2,3,5)
    addressable_check [OF assms(1-3,5)]
  by (auto simp: resource_bit_table cong: option.case_cong)

lemma agent_eq: "is_agent s a \<Longrightarrow> is_agent s a' \<Longrightarrow> unat a' - 1 = unat a - 1 \<longleftrightarrow> a' = a"
proof -
  assume "is_agent s a" "is_agent s a'"
  then have "0 < unat a" "0 < unat a'" by (simp_all add: is_agent_def unat_gt_0)
  then have "unat a' - 1 = unat a - 1 \<longleftrightarrow> unat a' = unat a" by linarith
  then show ?thesis by (simp only: word_unat_eq_iff)
qed

text \<open>C22. Setting a resource permission is seen by the check of exactly that agent and resource: when
  \<open>set_agent_resource_permissions\<close> is called for an agent, a protocol and a resource of the platform, it
  succeeds; afterwards every message of the protocol on that resource is denied to the agent if the flags are
  0 and otherwise allowed unless the agent's protocol or message bits deny it, and the answer of every other
  check, for another agent, another resource or another protocol, is what it was.\<close>

theorem set_permission_then_check:
  assumes "tables_wf s ap" "agent_permissions s = Some ap" "default_agents plat"
    and "is_agent s a" "compiled_in plat p" "scmi_perms ap p = Some t" "r < res_count s p"
    and "pc_count counters = res_count s p" "backup = None \<or>
      (\<exists>b b'. backup = Some b \<and> backup_resource_permission s t b counters = Some b')"
  shows "\<exists>t' backup'. set_agent_resource_permissions plat s \<lparr>pp_agent_id = a, pp_resource_id = r,
        pp_protocol_id = res_protocol_id p, pp_flags = flags, pp_start_message_idx = first_message,
        pp_end_message_idx = last_message p, pp_resource_permission = Some t,
        pp_resource_permission_backup = backup, pp_counters = counters\<rparr> = Some (FWK_SUCCESS, Some t', backup') \<and>
    (\<forall>q a' m' r'. addressable plat s q a' m' r' \<longrightarrow>
      agent_resource_permissions plat (set_perms p (Some t') s) a' (res_protocol_id q) m' r' =
        (if q = p \<and> a' = a \<and> r' = r then Some (verdict (protocol_bit ap a p \<or> message_bit ap a p m' \<or> flags = 0))
         else agent_resource_permissions plat s a' (res_protocol_id q) m' r'))"
proof -
  have fits: "table_fits s p" and len: "table_size s p \<le> length t"
    using assms(1,6) in_all_res_protocols [of p] unfolding tables_wf_def by (blast, metis option.simps(5))
  obtain t' where loop: "for_each_status (\<lambda>m t. set_agent_resource_message_perms plat s a (res_protocol_id p)
        (of_nat m) r flags t) [unat first_message..<unat (last_message p) + 1] t = Some (FWK_SUCCESS, t')"
    and len': "length t' = length t"
    and bits: "\<And>a' m' r'. entry_valid s p (a', m', r' div 16) \<Longrightarrow> table_bit s p t' a' m' r' =
      (if a' = unat a - 1 \<and> r' = unat r then flags = 0 else table_bit s p t a' m' r')"
    using set_all_messages [OF assms(3-5) fits len assms(7), of flags] by blast
  have "\<exists>backup'. set_agent_resource_permissions plat s \<lparr>pp_agent_id = a, pp_resource_id = r,
        pp_protocol_id = res_protocol_id p, pp_flags = flags, pp_start_message_idx = first_message,
        pp_end_message_idx = last_message p, pp_resource_permission = Some t,
        pp_resource_permission_backup = backup, pp_counters = counters\<rparr> = Some (FWK_SUCCESS, Some t', backup')"
    using assms(7-9) loop by (auto simp: set_agent_resource_permissions_def not_le [symmetric] simp del: upt_Suc)
  moreover have "agent_resource_permissions plat (set_perms p (Some t') s) a' (res_protocol_id q) m' r' =
        (if q = p \<and> a' = a \<and> r' = r then Some (verdict (protocol_bit ap a p \<or> message_bit ap a p m' \<or> flags = 0))
         else agent_resource_permissions plat s a' (res_protocol_id q) m' r')"
    if adr: "addressable plat s q a' m' r'" for q a' m' r'
  proof (cases "q = p")
    case True
    have v: "entry_valid s p (unat a' - 1, unat m', unat r' div 16)" and a': "is_agent s a'"
      using adr True entry_valid_intro [of s a' p m' r'] by (simp_all add: addressable_def)
    from bits [OF v] show ?thesis
      using check_after_set_perms [OF assms(1-3) len [folded len'] adr] addressable_check [OF assms(1-3) adr] True
        agent_eq [OF assms(4) a'] assms(6) word_unat_eq_iff [of r' r] by (simp add: resource_bit_table)
  qed (use check_after_set_perms [OF assms(1-3) len [folded len'] adr] in simp)
  ultimately show ?thesis by blast
qed

section \<open>Restoring the permissions of an agent\<close>

lemma unmanaged_index:
  assumes "compiled_in plat p" "\<not> managed p m" "\<not> m < 3"
  shows "mod_res_resource_id_to_index plat s a (res_protocol_id p) m r = Some (FWK_E_PARAM, - 1)"
  using assms protocol_index(2) [of p]
  by (auto simp: mod_res_resource_id_to_index_def res_protocol_of_id managed_def)

lemma elements_less: "elements s p < 2 ^ 32"
proof -
  have "x < 4294967296 \<Longrightarrow> x div 16 + 1 < 4294967296" for x :: nat by presburger
  from this [OF unat_u32_less] show ?thesis by (simp add: elements_def)
qed

text \<open>The loops visit the resource numbers below \<open>n\<close>, that is the elements \<open>e\<close> with \<open>16 * e < n\<close>.\<close>

definition copied ::
  "res_perms_ctx \<Rightarrow> res_protocol \<Rightarrow> nat \<Rightarrow> (nat \<Rightarrow> nat \<Rightarrow> bool) \<Rightarrow> mod_res_perms_t list \<Rightarrow> mod_res_perms_t list
    \<Rightarrow> mod_res_perms_t list \<Rightarrow> bool" where
  "copied s p a cover backup t t' \<longleftrightarrow> length t' = length t \<and>
    (\<forall>k. entry_valid s p k \<longrightarrow> t' ! entry_pos s p k =
      (if fst k = a \<and> cover (fst (snd k)) (snd (snd k)) then backup ! entry_pos s p k else t ! entry_pos s p k))"

lemma copied_cong:
  assumes "copied s p a cover backup t t'"
    and "\<And>m e. entry_valid s p (a, m, e) \<Longrightarrow> cover m e = cover' m e"
  shows "copied s p a cover' backup t t'"
  using assms by (auto simp: copied_def)

lemma copied_write:
  assumes "copied s p a cover backup t t'" "table_size s p \<le> length t" "entry_valid s p (a, m, e)"
  shows "copied s p a (\<lambda>m' e'. cover m' e' \<or> m' = m \<and> e' = e) backup t
    (t'[entry_pos s p (a, m, e) := backup ! entry_pos s p (a, m, e)])"
  using assms layout.read_after_write [of s p t' "(a, m, e)"] by (auto simp: copied_def)

lemma copy_entry_write:
  assumes "default_agents plat" "is_agent s a" "compiled_in plat p" "table_fits s p" "managed p (of_nat i)"
    and "i < 2 ^ 32" "j < 2 ^ 32" "entry_valid s p (unat a - 1, i, j div 16)"
    and "table_size s p \<le> length t" "table_size s p \<le> length backup"
  shows "copy_entry plat s a (res_protocol_id p) backup i j (Some t)
    = Some (Some (t[entry_pos s p (unat a - 1, i, j div 16) := backup ! entry_pos s p (unat a - 1, i, j div 16)]))"
  using resource_index [OF assms(1,2,5,3,4), of "of_nat j"] assms(6,7)
    layout.key_read [OF assms(10,8)] layout.key_write [OF assms(9,8)]
  by (simp add: copy_entry_def entry_index_pos unat_of_nat)

lemma copy_row:
  assumes "default_agents plat" "is_agent s a" "compiled_in plat p" "table_fits s p"
    and "3 \<le> i" "i \<le> unat (last_message p)" "n \<le> elements s p"
    and "table_size s p \<le> length t" "table_size s p \<le> length backup"
    and "copied s p (unat a - 1) (\<lambda>m e. m < i \<and> 16 * e < n) backup t u"
  shows "\<exists>u'. for_each (copy_entry plat s a (res_protocol_id p) backup i) [0..<n] (Some u) = Some (Some u') \<and>
    copied s p (unat a - 1) (\<lambda>m e. m < Suc i \<and> 16 * e < n) backup t u'"
proof -
  let ?f = "copy_entry plat s a (res_protocol_id p) backup i"
  define P where "P k st \<longleftrightarrow> (\<exists>u'. st = Some u' \<and> copied s p (unat a - 1)
    (\<lambda>m e. m < i \<and> 16 * e < n \<or> m = i \<and> 16 * e < k) backup t u')" for k st
  have i: "i < 2 ^ 32" "managed p (of_nat i)"
    using assms(5,6) last_message_range [of p] by (simp_all add: managed_unat unat_of_nat)
  have "\<exists>st. for_each ?f [0..<n] (Some u) = Some st \<and> P (length [0..<n]) st"
  proof (rule for_each_total)
    show "P 0 (Some u)" using assms(10) by (simp add: P_def)
    fix k st
    assume k: "k < length [0..<n]" and "P k st"
    then obtain v where st: "st = Some v"
      and v: "copied s p (unat a - 1) (\<lambda>m e. m < i \<and> 16 * e < n \<or> m = i \<and> 16 * e < k) backup t v"
      by (auto simp: P_def)
    have "k < 2 ^ 32" using k assms(7) elements_less [of s p] by simp
    moreover have "k div 16 < elements s p" using k assms(7) by (simp add: less_mult_imp_div_less)
    then have e: "entry_valid s p (unat a - 1, i, k div 16)"
      using assms(2,5,6) agent_minus_1 [of s a] by (simp add: entry_valid_def)
    ultimately have "?f k (Some v) = Some (Some (v[entry_pos s p (unat a - 1, i, k div 16) :=
        backup ! entry_pos s p (unat a - 1, i, k div 16)]))"
      using v assms(8,9) copy_entry_write [OF assms(1-4) i(2,1) _ e, of v backup] by (simp add: copied_def)
    moreover have "copied s p (unat a - 1) (\<lambda>m e. m < i \<and> 16 * e < n \<or> m = i \<and> 16 * e < Suc k) backup t
        (v[entry_pos s p (unat a - 1, i, k div 16) := backup ! entry_pos s p (unat a - 1, i, k div 16)])"
      by (rule copied_cong [OF copied_write [OF v assms(8) e]]) auto
    ultimately show "\<exists>st'. ?f ([0..<n] ! k) st = Some st' \<and> P (Suc k) st'"
      using k st by (auto simp: P_def)
  qed
  then obtain u' where "for_each ?f [0..<n] (Some u) = Some (Some u')"
    and c: "copied s p (unat a - 1) (\<lambda>m e. m < i \<and> 16 * e < n \<or> m = i \<and> 16 * e < n) backup t u'"
    by (auto simp: P_def)
  moreover have "copied s p (unat a - 1) (\<lambda>m e. m < Suc i \<and> 16 * e < n) backup t u'"
    by (rule copied_cong [OF c]) (auto simp: less_Suc_eq)
  ultimately show ?thesis by blast
qed

lemma skipped_row:
  assumes "compiled_in plat p" "\<not> managed p (of_nat i)" "3 \<le> i" "i < 2 ^ 32"
  shows "for_each (copy_entry plat s a (res_protocol_id p) backup i) xs st = Some st"
proof -
  have "\<not> (of_nat i :: u32) < 3" using assms(3,4) by (simp add: word_less_nat_alt unat_of_nat)
  then show ?thesis using assms(1,2) by (induction xs) (simp_all add: copy_entry_def unmanaged_index)
qed

lemma command_count_range: "unat (last_message p) < unat (command_count v2 p)" "unat (command_count v2 p) \<le> 13"
  by (cases p; simp)+

lemma copy_config_restores:
  assumes "default_agents plat" "is_agent s a" "compiled_in plat p" "table_fits s p"
    and "agent_permissions s = Some ap" "scmi_perms ap p = Some t" "config s = Some cfg"
    and "unat (pc_resource_count (rc_counters cfg p)) \<le> elements s p"
    and "table_size s p \<le> length t" "table_size s p \<le> length backup"
  shows "\<exists>t'. mod_res_agent_copy_config plat a p backup s = Some (set_perms p (Some t') s) \<and>
    copied s p (unat a - 1) (\<lambda>m e. 16 * e < unat (pc_resource_count (rc_counters cfg p))) backup t t'"
proof -
  define n where "n = unat (pc_resource_count (rc_counters cfg p))"
  let ?f = "\<lambda>i. for_each (copy_entry plat s a (res_protocol_id p) backup i) [0..<n]"
  let ?xs = "[3..<unat (command_count (has_sensor_v2 plat) p)]"
  define P where "P k st \<longleftrightarrow> (\<exists>u. st = Some u \<and>
    copied s p (unat a - 1) (\<lambda>m e. m < 3 + k \<and> 16 * e < n) backup t u)" for k st
  have "\<exists>st. for_each ?f ?xs (Some t) = Some st \<and> P (length ?xs) st"
  proof (rule for_each_total)
    show "P 0 (Some t)" by (auto simp: P_def copied_def entry_valid_def)
    fix k st
    assume k: "k < length ?xs" and "P k st"
    then obtain u where st: "st = Some u"
      and u: "copied s p (unat a - 1) (\<lambda>m e. m < 3 + k \<and> 16 * e < n) backup t u" by (auto simp: P_def)
    have i: "?xs ! k = 3 + k" "3 + k < 2 ^ 32" using k command_count_range(2) [of "has_sensor_v2 plat" p] by (auto intro: nth_upt)
    show "\<exists>st'. ?f (?xs ! k) st = Some st' \<and> P (Suc k) st'"
    proof (cases "3 + k \<le> unat (last_message p)")
      case True
      then show ?thesis
        using copy_row [OF assms(1-4) _ True assms(8) [folded n_def] assms(9,10) u] i st by (auto simp: P_def)
    next
      case False
      have "unat (of_nat (3 + k) :: u32) = 3 + k" using i(2) by (simp only: unat_of_nat) simp
      with False have "\<not> managed p (of_nat (3 + k))" by (simp only: managed_unat) simp
      moreover have "copied s p (unat a - 1) (\<lambda>m e. m < 3 + Suc k \<and> 16 * e < n) backup t u"
        by (rule copied_cong [OF u]) (use False in \<open>auto simp: entry_valid_def\<close>)
      ultimately show ?thesis
        using skipped_row [OF assms(3), of "3 + k"] i st by (auto simp: P_def)
    qed
  qed
  then obtain t' where loop: "for_each ?f ?xs (Some t) = Some (Some t')"
    and c: "copied s p (unat a - 1) (\<lambda>m e. m < 3 + length ?xs \<and> 16 * e < n) backup t t'"
    by (auto simp: P_def)
  have "copied s p (unat a - 1) (\<lambda>m e. 16 * e < n) backup t t'"
    by (rule copied_cong [OF c]) (use command_count_range(1) [of p "has_sensor_v2 plat"] in \<open>auto simp: entry_valid_def\<close>)
  then show ?thesis using loop assms(5-7) by (auto simp: mod_res_agent_copy_config_def n_def Let_def)
qed

text \<open>What \<open>reset_config\<close> relies on: a table and a backup of the full size for every protocol that has a backup,
  and a configured number of elements that the layout has.\<close>

definition backups_ok :: "res_perms_ctx \<Rightarrow> mod_res_agent_permission \<Rightarrow> mod_res_resource_perms_config \<Rightarrow> bool" where
  "backups_ok s ap cfg \<longleftrightarrow> (\<forall>p \<in> set all_res_protocols.
    case backup_perms s p of None \<Rightarrow> True
    | Some b \<Rightarrow> scmi_perms ap p \<noteq> None \<and> table_size s p \<le> length b \<and>
        unat (pc_resource_count (rc_counters cfg p)) \<le> elements s p)"

abbreviation with_perms ::
  "mod_res_agent_permission \<Rightarrow> (res_protocol \<Rightarrow> mod_res_perms_t list option) \<Rightarrow> res_perms_ctx \<Rightarrow> res_perms_ctx" where
  "with_perms ap f s \<equiv> s\<lparr>agent_permissions := Some (ap\<lparr>scmi_perms := f\<rparr>)\<rparr>"

lemma with_perms_layout [simp]:
  "elements (s\<lparr>agent_permissions := x\<rparr>) q = elements s q" "table_size (s\<lparr>agent_permissions := x\<rparr>) q = table_size s q"
  "table_fits (s\<lparr>agent_permissions := x\<rparr>) q = table_fits s q" "is_agent (s\<lparr>agent_permissions := x\<rparr>) = is_agent s"
  "entry_pos (s\<lparr>agent_permissions := x\<rparr>) = entry_pos s" "table_bit (s\<lparr>agent_permissions := x\<rparr>) q = table_bit s q"
  "entry_valid (s\<lparr>agent_permissions := x\<rparr>) = entry_valid s" "copied (s\<lparr>agent_permissions := x\<rparr>) = copied s"
  "addressable plat (s\<lparr>agent_permissions := x\<rparr>) = addressable plat s"
  by (simp_all add: elements_def table_size_def table_fits_def is_agent_def entry_pos_def entry_index_def
      table_bit_def entry_valid_def copied_def addressable_def fun_eq_iff)

lemma set_perms_with_perms: "set_perms p t (with_perms ap f s) = with_perms ap (f(p := t)) s"
  by (simp add: set_perms_def)

definition restored ::
  "res_perms_ctx \<Rightarrow> mod_res_agent_permission \<Rightarrow> mod_res_resource_perms_config \<Rightarrow> u32 \<Rightarrow> res_protocol set
    \<Rightarrow> (res_protocol \<Rightarrow> mod_res_perms_t list option) \<Rightarrow> bool" where
  "restored s ap cfg a ps f \<longleftrightarrow> (\<forall>q.
    case (if q \<in> ps then backup_perms s q else None) of None \<Rightarrow> f q = scmi_perms ap q
    | Some b \<Rightarrow> (\<exists>t t'. scmi_perms ap q = Some t \<and> f q = Some t' \<and>
        copied s q (unat a - 1) (\<lambda>m e. 16 * e < unat (pc_resource_count (rc_counters cfg q))) b t t'))"

lemma restored_bit:
  assumes "restored s ap cfg a ps f" "addressable plat s q a' m r" "is_agent s a"
  shows "resource_bit (with_perms ap f s) (ap\<lparr>scmi_perms := f\<rparr>) a' q m r =
    (case (if a' = a \<and> q \<in> ps \<and> 16 * (unat r div 16) < unat (pc_resource_count (rc_counters cfg q))
        then backup_perms s q else None) of
      None \<Rightarrow> resource_bit s ap a' q m r
    | Some b \<Rightarrow> table_bit s q b (unat a - 1) (unat m) (unat r))"
proof -
  have v: "entry_valid s q (unat a' - 1, unat m, unat r div 16)" and a': "is_agent s a'"
    using assms(2) entry_valid_intro [of s a' q m r] by (simp_all add: addressable_def)
  show ?thesis
    using assms(1) [unfolded restored_def, rule_format, of q] v agent_eq [OF assms(3) a']
    by (auto simp: resource_bit_table copied_def table_bit_def split: option.splits if_splits)
qed

lemma restored_wf:
  assumes "tables_wf s ap" "restored s ap cfg a ps f"
  shows "tables_wf (with_perms ap f s) (ap\<lparr>scmi_perms := f\<rparr>)"
proof -
  have "table_size s q \<le> length t" if "f q = Some t" for q t
    using assms(2) [unfolded restored_def, rule_format, of q] that assms(1) in_all_res_protocols [of q]
    unfolding tables_wf_def by (auto simp: copied_def split: option.splits if_splits)
  then show ?thesis using assms(1) by (auto simp: tables_wf_def split: option.splits)
qed

lemma reset_loop_restores:
  assumes "tables_wf s ap" "agent_permissions s = Some ap" "default_agents plat" "is_agent s a"
    and "config s = Some cfg" "backups_ok s ap cfg" "distinct ps" "\<forall>p \<in> set ps. compiled_in plat p"
  shows "\<exists>s'. for_each (reset_protocol plat a) ps s = Some s' \<and>
    (\<exists>f. s' = with_perms ap f s \<and> restored s ap cfg a (set (take (length ps) ps)) f)"
proof (rule for_each_total)
  show "\<exists>f. s = with_perms ap f s \<and> restored s ap cfg a (set (take 0 ps)) f"
    using assms(2) by (intro exI [of _ "scmi_perms ap"]) (simp add: restored_def)
  fix k s'
  assume k: "k < length ps" and "\<exists>f. s' = with_perms ap f s \<and> restored s ap cfg a (set (take k ps)) f"
  then obtain f where s': "s' = with_perms ap f s" and f: "restored s ap cfg a (set (take k ps)) f" by blast
  define p where "p = ps ! k"
  have tk: "set (take (Suc k) ps) = insert p (set (take k ps))" using k by (simp add: take_Suc_conv_app_nth p_def)
  have new: "p \<notin> set (take k ps)"
    using assms(7) k by (auto simp: p_def in_set_conv_nth nth_eq_iff_index_eq)
  have fits: "table_fits s p" using assms(1) in_all_res_protocols [of p] unfolding tables_wf_def by blast
  have cin: "compiled_in plat p" using assms(8) k by (simp add: p_def)
  have fp: "f p = scmi_perms ap p" using spec [OF f [unfolded restored_def], of p] new by simp
  show "\<exists>s''. reset_protocol plat a (ps ! k) s' = Some s'' \<and>
    (\<exists>f. s'' = with_perms ap f s \<and> restored s ap cfg a (set (take (Suc k) ps)) f)"
  proof (cases "backup_perms s p")
    case None
    then have "restored s ap cfg a (set (take (Suc k) ps)) f"
      using f fp unfolding restored_def tk by (auto split: if_splits)
    then show ?thesis using None s' by (auto simp: reset_protocol_def p_def [symmetric])
  next
    case (Some b)
    then obtain t where t: "scmi_perms ap p = Some t" and b: "table_size s p \<le> length b"
      and n: "unat (pc_resource_count (rc_counters cfg p)) \<le> elements s p"
      using bspec [OF assms(6) [unfolded backups_ok_def] in_all_res_protocols [of p]] by auto
    have len: "table_size s p \<le> length t"
      using assms(1) t in_all_res_protocols [of p] unfolding tables_wf_def by (metis option.simps(5))
    obtain t' where step: "mod_res_agent_copy_config plat a p b s' = Some (set_perms p (Some t') s')"
      and c: "copied s p (unat a - 1) (\<lambda>m e. 16 * e < unat (pc_resource_count (rc_counters cfg p))) b t t'"
      using copy_config_restores [of plat s' a p "ap\<lparr>scmi_perms := f\<rparr>" t cfg b] assms(3-5) s' cin fits t fp n len b
      by auto
    have "restored s ap cfg a (set (take (Suc k) ps)) (f(p := Some t'))"
      unfolding restored_def tk
    proof
      fix q
      show "case (if q \<in> insert p (set (take k ps)) then backup_perms s q else None) of
          None \<Rightarrow> (f(p := Some t')) q = scmi_perms ap q
        | Some b \<Rightarrow> (\<exists>t t''. scmi_perms ap q = Some t \<and> (f(p := Some t')) q = Some t'' \<and>
            copied s q (unat a - 1) (\<lambda>m e. 16 * e < unat (pc_resource_count (rc_counters cfg q))) b t t'')"
        using spec [OF f [unfolded restored_def], of q] t c Some
        by (cases "q = p"; cases "backup_perms s q") (simp_all split: if_splits)
    qed
    then show ?thesis
      using step Some s' by (auto simp: reset_protocol_def p_def [symmetric] set_perms_with_perms)
  qed
qed

lemma reset_protocols_ok: "distinct (reset_protocols plat)" "\<forall>p \<in> set (reset_protocols plat). compiled_in plat p"
  by (simp_all add: reset_protocols_def compiled_in_def)

text \<open>C23. Resetting an agent gives back the backed-up permissions, for that agent only. With a non-zero flag,
  devices configured and an agent below the guard of the code, \<open>mod_res_agent_reset_config\<close> succeeds and then
  every check answers from the backup table for this agent, a protocol that has a backup and is not power
  capping, and a resource whose number rounded down to a multiple of 16 is below the configured element count;
  every other check answers as before. The element count bounds resource numbers in the loop, so with 16 or
  more resources the elements after the first are restored only in part.\<close>

theorem reset_restores_permissions:
  assumes "tables_wf s ap" "agent_permissions s = Some ap" "default_agents plat" "is_agent s a"
    and "a < agent_count s" "flags \<noteq> 0" "device_count s \<noteq> 0" "domain_devices s \<noteq> None"
    and "config s = Some cfg" "backups_ok s ap cfg"
  shows "\<exists>s'. mod_res_agent_reset_config plat a flags s = Some (FWK_SUCCESS, s') \<and>
    (\<forall>q a' m r. addressable plat s q a' m r \<longrightarrow>
      agent_resource_permissions plat s' a' (res_protocol_id q) m r =
        (case (if a' = a \<and> q \<in> set (reset_protocols plat) \<and>
              16 * (unat r div 16) < unat (pc_resource_count (rc_counters cfg q)) then backup_perms s q else None) of
          None \<Rightarrow> agent_resource_permissions plat s a' (res_protocol_id q) m r
        | Some b \<Rightarrow> Some (verdict (protocol_bit ap a q \<or> message_bit ap a q m \<or>
            table_bit s q b (unat a - 1) (unat m) (unat r)))))"
proof -
  obtain s' f where loop: "for_each (reset_protocol plat a) (reset_protocols plat) s = Some s'"
    and s': "s' = with_perms ap f s" and f: "restored s ap cfg a (set (reset_protocols plat)) f"
    using reset_loop_restores [OF assms(1-4,9,10) reset_protocols_ok] by auto
  have "mod_res_agent_reset_config plat a flags s = Some (FWK_SUCCESS, s')"
    using loop assms(5-8) by (simp add: mod_res_agent_reset_config_def not_le [symmetric])
  moreover have "agent_resource_permissions plat s' a' (res_protocol_id q) m r =
        (case (if a' = a \<and> q \<in> set (reset_protocols plat) \<and>
              16 * (unat r div 16) < unat (pc_resource_count (rc_counters cfg q)) then backup_perms s q else None) of
          None \<Rightarrow> agent_resource_permissions plat s a' (res_protocol_id q) m r
        | Some b \<Rightarrow> Some (verdict (protocol_bit ap a q \<or> message_bit ap a q m \<or>
            table_bit s q b (unat a - 1) (unat m) (unat r))))"
    if adr: "addressable plat s q a' m r" for q a' m r
    using addressable_check [OF restored_wf [OF assms(1) f], of plat q a' m r] assms(3) adr s'
      restored_bit [OF f adr assms(4)] addressable_check [OF assms(1-3) adr]
    by (auto split: option.splits if_splits)
  ultimately show ?thesis by blast
qed

section \<open>The checks\<close>

text \<open>C21. The checks decide as the tables say. For an agent of the platform, a protocol below the configured
  number, a message with permissions and a resource below the count, on tables of the documented layout, all
  three checks return (no access leaves a table), and their answers are the disjunctions of the deny bits: the
  agent's protocol bit; that or its message bit; those or its resource bit. A table that is absent denies
  nothing.\<close>

theorem checks_follow_tables:
  assumes "tables_wf s ap" "agent_permissions s = Some ap" "default_agents plat" "addressable plat s p a m r"
  shows "agent_protocol_permissions plat s a (res_protocol_id p) = Some (verdict (protocol_bit ap a p)) \<and>
    agent_message_permissions plat s a (res_protocol_id p) m
      = Some (verdict (protocol_bit ap a p \<or> message_bit ap a p m)) \<and>
    agent_resource_permissions plat s a (res_protocol_id p) m r
      = Some (verdict (protocol_bit ap a p \<or> message_bit ap a p m \<or> resource_bit s ap a p m r))"
  using protocol_check [OF assms(1-3)] message_check [OF assms(1-3)] resource_check [OF assms(1-3)] assms(4)
  by (simp add: addressable_def)

text \<open>Denial is inherited: in every state and for every platform, a protocol that is denied to an agent is
  denied with all its messages, and a message that is denied is denied for all resources, except for the
  platform-defined protocols, whose three checks are three independent functions of the platform.\<close>

theorem denial_is_inherited:
  assumes "\<not> is_platform_protocol protocol_id"
  shows "(agent_protocol_permissions plat s a protocol_id = Some MOD_RES_PERMS_ACCESS_DENIED \<longrightarrow>
      agent_message_permissions plat s a protocol_id m = Some MOD_RES_PERMS_ACCESS_DENIED) \<and>
    (agent_message_permissions plat s a protocol_id m = Some MOD_RES_PERMS_ACCESS_DENIED \<longrightarrow>
      agent_resource_permissions plat s a protocol_id m r = Some MOD_RES_PERMS_ACCESS_DENIED)"
proof -
  have "a \<noteq> 0 \<and> agent_permissions s \<noteq> None"
    if "agent_protocol_permissions plat s a protocol_id = Some MOD_RES_PERMS_ACCESS_DENIED \<or>
      agent_message_permissions plat s a protocol_id m = Some MOD_RES_PERMS_ACCESS_DENIED"
    using that by (auto simp: agent_protocol_permissions_def agent_message_permissions_def split: option.splits)
  then show ?thesis
    using assms by (auto simp: agent_message_permissions_def [of plat s a protocol_id m]
        agent_resource_permissions_def)
qed

section \<open>Device permissions\<close>

lemma agent_0_index:
  assumes "default_agents plat" "compiled_in plat p" "managed p m"
  shows "mod_res_resource_id_to_index plat s 0 (res_protocol_id p) m r = Some (FWK_E_PARAM, - 1)"
proof -
  have "\<not> is_agent s 0" by (simp add: is_agent_def)
  then show ?thesis
    using assms protocol_index(2) [of p] managed_message_index(2) [OF assms(3)]
    by (simp add: mod_res_resource_id_to_index_def res_protocol_of_id default_agents_def
        mod_res_agent_id_to_index_def weak_agent_index managed_def Let_def)
qed

lemma res_protocol_of_type_compiled: "res_protocol_of_type plat type = Some p \<Longrightarrow> compiled_in plat p"
  by (auto simp: res_protocol_of_type_def compiled_in_def split: mod_res_domain_device_types.splits if_splits)

lemma first_is_managed: "managed p first_message"
  using last_message_range(1) [of p] by (simp add: managed_unat first_message_def)

lemma set_agent_0_keeps_table:
  assumes "default_agents plat" "compiled_in plat p"
    and "set_agent_resource_permissions plat s \<lparr>pp_agent_id = 0, pp_resource_id = r,
        pp_protocol_id = res_protocol_id p, pp_flags = flags, pp_start_message_idx = first_message,
        pp_end_message_idx = last_message p, pp_resource_permission = tbl,
        pp_resource_permission_backup = backup, pp_counters = counters\<rparr> = Some (status, tbl', backup')"
  shows "tbl' = tbl"
proof -
  have "[unat first_message..<unat (last_message p) + 1] = unat first_message # [4..<unat (last_message p) + 1]"
    using last_message_range(1) [of p] by (simp add: first_message_def upt_conv_Cons)
  moreover have "set_agent_resource_message_perms plat s 0 (res_protocol_id p) (of_nat (unat first_message)) r flags t
      = Some (FWK_E_PARAM, t)" for t
    using agent_0_index [OF assms(1,2) first_is_managed] by (simp add: set_agent_resource_message_perms_def)
  ultimately show ?thesis
    using assms(3) by (auto simp: set_agent_resource_permissions_def split: option.splits if_splits)
qed

lemma set_perms_same: "agent_permissions s = Some ap \<Longrightarrow> set_perms p (scmi_perms ap p) s = s"
  by (simp add: set_perms_def)

lemma set_permissions_no_effect:
  assumes "default_agents plat"
    and "mod_res_agent_set_permissions plat type agent_id resource_id flags s = Some (status, s')"
  shows "\<exists>b. s' = s\<lparr>backup_perms := b\<rparr>"
proof (cases "res_protocol_of_type plat type")
  case None
  then have "s' = s\<lparr>backup_perms := backup_perms s\<rparr>" using assms(2) by (simp add: mod_res_agent_set_permissions_def)
  then show ?thesis by blast
next
  case (Some p)
  obtain ap cfg tbl backup where ap: "agent_permissions s = Some ap" and "config s = Some cfg"
    and set: "set_agent_resource_permissions plat s \<lparr>pp_agent_id = 0, pp_resource_id = 0,
        pp_protocol_id = res_protocol_id p, pp_flags = 0, pp_start_message_idx = first_message,
        pp_end_message_idx = last_message p, pp_resource_permission = scmi_perms ap p,
        pp_resource_permission_backup = backup_perms s p, pp_counters = rc_counters cfg p\<rparr>
        = Some (status, tbl, backup)"
    and s': "s' = set_backup p backup (set_perms p tbl s)"
    using assms(2) Some by (auto simp: mod_res_agent_set_permissions_def Let_def split: prod.splits)
  have "tbl = scmi_perms ap p"
    by (rule set_agent_0_keeps_table [OF assms(1) res_protocol_of_type_compiled [OF Some] set])
  then show ?thesis using s' ap by (auto simp: set_perms_same set_backup_def)
qed

lemma set_domain_devices_no_effect:
  assumes "default_agents plat" "set_domain_devices plat only agent_id flags devs s = Some (status, s')"
  shows "status = FWK_SUCCESS \<and> (\<exists>b. s' = s\<lparr>backup_perms := b\<rparr>)"
  using assms(2)
proof (induction devs arbitrary: s)
  case (Cons dev devs)
  have refl: "\<exists>b. s = s\<lparr>backup_perms := b\<rparr>" by (rule exI [of _ "backup_perms s"]) simp
  show ?case
  proof (cases "set_domain_devices plat only agent_id flags devs s = Some (status, s')")
    case True
    then show ?thesis by (rule Cons.IH)
  next
    case False
    then have "(status = FWK_SUCCESS \<and> s' = s) \<or> (\<exists>r st t.
        mod_res_agent_set_permissions plat (dd_type dev) agent_id r flags s = Some (st, t) \<and>
        set_domain_devices plat only agent_id flags devs t = Some (status, s'))"
      using Cons.prems by (auto split: if_splits)
    then show ?thesis
    proof
      assume "\<exists>r st t. mod_res_agent_set_permissions plat (dd_type dev) agent_id r flags s = Some (st, t) \<and>
        set_domain_devices plat only agent_id flags devs t = Some (status, s')"
      then obtain r st t where one: "mod_res_agent_set_permissions plat (dd_type dev) agent_id r flags s = Some (st, t)"
        and rest: "set_domain_devices plat only agent_id flags devs t = Some (status, s')"
        by blast
      from set_permissions_no_effect [OF assms(1) one] obtain b where t: "t = s\<lparr>backup_perms := b\<rparr>" ..
      from Cons.IH [OF rest] obtain b' where "status = FWK_SUCCESS" "s' = t\<lparr>backup_perms := b'\<rparr>" by blast
      moreover have "t\<lparr>backup_perms := b'\<rparr> = s\<lparr>backup_perms := b'\<rparr>" using t by simp
      ultimately show ?thesis by metis
    qed (use refl in metis)
  qed
qed simp

lemma backup_fields:
  "agent_permissions (s\<lparr>backup_perms := b\<rparr>) = agent_permissions s" "agent_count (s\<lparr>backup_perms := b\<rparr>) = agent_count s"
  "protocol_count (s\<lparr>backup_perms := b\<rparr>) = protocol_count s" "res_count (s\<lparr>backup_perms := b\<rparr>) = res_count s"
  by simp_all

lemma checks_ignore_backup:
  "agent_protocol_permissions plat (s\<lparr>backup_perms := b\<rparr>) = agent_protocol_permissions plat s"
  "agent_message_permissions plat (s\<lparr>backup_perms := b\<rparr>) = agent_message_permissions plat s"
  "agent_resource_permissions plat (s\<lparr>backup_perms := b\<rparr>) = agent_resource_permissions plat s"
proof -
  show p: "agent_protocol_permissions plat (s\<lparr>backup_perms := b\<rparr>) = agent_protocol_permissions plat s"
    by (intro ext) (unfold agent_protocol_permissions_def mod_res_agent_id_to_index_def backup_fields, rule refl)
  show m: "agent_message_permissions plat (s\<lparr>backup_perms := b\<rparr>) = agent_message_permissions plat s"
    by (intro ext) (unfold agent_message_permissions_def mod_res_agent_id_to_index_def backup_fields p, rule refl)
  have i: "mod_res_resource_id_to_index plat (s\<lparr>backup_perms := b\<rparr>) = mod_res_resource_id_to_index plat s"
    by (intro ext) (unfold mod_res_resource_id_to_index_def mod_res_agent_id_to_index_def backup_fields, rule refl)
  show "agent_resource_permissions plat (s\<lparr>backup_perms := b\<rparr>) = agent_resource_permissions plat s"
    by (intro ext) (unfold agent_resource_permissions_def mod_res_agent_id_to_index_def backup_fields m i, rule refl)
qed

text \<open>C20. With the default numbering of the agents the two functions that set the permissions of a device never
  change any. Once the device is found and its list of domain devices ends properly they report success,
  whatever the agent, the flags and the tables, and every protocol, message and resource check answers exactly
  as before: the agent, the resource and the flags are lost when the parameter structure is assigned, and the
  failures this causes are only logged.\<close>

theorem set_device_permission_changes_nothing:
  assumes "default_agents plat"
    and "mod_res_agent_set_device_permission plat agent_id device_id flags s = Some (status, s') \<or>
      mod_res_agent_set_device_protocol_permission plat agent_id device_id protocol_id flags s = Some (status, s')"
    and "find_device s device_id flags = Some (Inr dev)" "device_type_of_protocol protocol_id \<noteq> None"
  shows "status = FWK_SUCCESS \<and>
    agent_protocol_permissions plat s' = agent_protocol_permissions plat s \<and>
    agent_message_permissions plat s' = agent_message_permissions plat s \<and>
    agent_resource_permissions plat s' = agent_resource_permissions plat s"
proof -
  obtain only where "set_domain_devices plat only agent_id flags (md_domain_devices dev) s = Some (status, s')"
    using assms(2-4) by (auto simp: mod_res_agent_set_device_permission_def
        mod_res_agent_set_device_protocol_permission_def)
  from set_domain_devices_no_effect [OF assms(1) this] show ?thesis
    by (auto simp: checks_ignore_backup)
qed

section \<open>An example platform\<close>

text \<open>Two agents; the second has no clock protocol and no \<open>PERF_LIMITS_SET\<close>. Only the performance protocol has a
  resource table, for three resources, with a backup; the third resource is denied to agent 1 for the last
  message. One device owns the first performance domain.\<close>

definition perm_plat0 :: res_plat where
  "perm_plat0 = default_plat False False"

definition perm_table0 :: mod_res_agent_permission where
  "perm_table0 = \<lparr>agent_protocol_permissions_tbl = Some [0, 0x10],
    agent_msg_permissions_tbl = Some [replicate 9 0, (replicate 9 0)[3 := 4]],
    scmi_perms = (\<lambda>_. None)(RP_PERF := Some ((replicate 18 0)[8 := 4]))\<rparr>"

definition perm_config0 :: mod_res_resource_perms_config where
  "perm_config0 = \<lparr>rc_agent_count = 2, rc_protocol_count = 7,
    rc_counters = (\<lambda>_. \<lparr>pc_count = 0, pc_cmd_count = 0, pc_resource_count = 0\<rparr>)
      (RP_PERF := \<lparr>pc_count = 3, pc_cmd_count = 9, pc_resource_count = 1\<rparr>),
    rc_device_count = 1, rc_agent_permissions = Some perm_table0,
    rc_domain_devices = Some [\<lparr>md_device_id = 0, md_domain_devices =
      [\<lparr>dd_device_id = FWK_ID_ELEMENT 5 0, dd_type = MOD_RES_PERF_DOMAIN_DEVICE\<rparr>,
       \<lparr>dd_device_id = FWK_ID_NONE, dd_type = MOD_RES_DOMAIN_DEVICE_INVALID\<rparr>]\<rparr>]\<rparr>"

definition perm_state0 :: res_perms_ctx where
  "perm_state0 = \<lparr>config = Some perm_config0, agent_count = 2, protocol_count = 7,
    res_count = (\<lambda>_. 0)(RP_PERF := 3), device_count = 1, agent_permissions = Some perm_table0,
    domain_devices = rc_domain_devices perm_config0, backup_perms = (\<lambda>_. None)(RP_PERF := Some (replicate 18 0))\<rparr>"

lemma perm_state0_init:
  "mod_res_perms_resources_init perm_plat0 perm_config0 res_perms_ctx_zero = Some (FWK_SUCCESS, perm_state0)"
proof -
  have "(\<lambda>_. 0 :: u32)(RP_CLOCK := 0, RP_SENSOR := 0, RP_PD := 0, RP_PERF := 3, RP_VOLTD := 0) = (\<lambda>_. 0)(RP_PERF := 3)"
    and "(\<lambda>_. None)(RP_CLOCK := None, RP_SENSOR := None, RP_PD := None, RP_PERF := t, RP_VOLTD := None)
      = (\<lambda>_. None)(RP_PERF := t)" for t :: "mod_res_perms_t list option"
    by (rule ext, simp)+
  then show ?thesis
    by (simp add: perm_state0_def mod_res_perms_resources_init_def perm_config0_def init_protocols_def
        init_protocol_def alloc_perms_backup_def set_backup_def perm_plat0_def default_plat_def
        res_perms_ctx_zero_def)
qed

lemma perm_plat0_agents: "default_agents perm_plat0"
  by (simp add: default_agents_def perm_plat0_def default_plat_def)

lemma perm_state0_wf: "tables_wf perm_state0 perm_table0"
  by (simp add: tables_wf_def perm_state0_def perm_table0_def all_res_protocols_def table_fits_def table_size_def
      elements_def messages_def)

lemma perm_state0_fields:
  "agent_permissions perm_state0 = Some perm_table0" "config perm_state0 = Some perm_config0"
  "device_count perm_state0 = 1" "agent_count perm_state0 = 2" "res_count perm_state0 RP_PERF = 3"
  "scmi_perms perm_table0 RP_PERF = Some ((replicate 18 0)[8 := 4])"
  "domain_devices perm_state0 \<noteq> None"
  by (simp_all add: perm_state0_def perm_table0_def perm_config0_def)

lemma perm_addressable0:
  "addressable perm_plat0 perm_state0 RP_PERF 1 0x0B 2" "addressable perm_plat0 perm_state0 RP_PERF 1 0x0B 1"
  "addressable perm_plat0 perm_state0 RP_PERF 1 0x0B 0" "addressable perm_plat0 perm_state0 RP_PERF 2 5 1"
  by code_simp+

lemma perm_backup0:
  "backup_resource_permission perm_state0 ((replicate 18 0)[8 := 4]) (replicate 18 0)
    \<lparr>pc_count = 3, pc_cmd_count = 9, pc_resource_count = 1\<rparr> = Some ((replicate 18 0)[8 := 4])"
  by (simp add: backup_resource_permission_def perm_state0_def)

lemma perm_bits0:
  "\<not> protocol_bit perm_table0 1 RP_PERF" "\<not> message_bit perm_table0 1 RP_PERF 0x0B"
  "resource_bit perm_state0 perm_table0 1 RP_PERF 0x0B 2" "\<not> resource_bit perm_state0 perm_table0 1 RP_PERF 0x0B 1"
  "\<not> table_bit perm_state0 RP_PERF (replicate 18 0) 0 0x0B 2"
  by code_simp+

theorem checks_follow_tables_witness:
  "agent_resource_permissions perm_plat0 perm_state0 1 0x13 0x0B 2 = Some MOD_RES_PERMS_ACCESS_DENIED \<and>
    agent_resource_permissions perm_plat0 perm_state0 1 0x13 0x0B 1 = Some MOD_RES_PERMS_ACCESS_ALLOWED \<and>
    agent_message_permissions perm_plat0 perm_state0 2 0x13 5 = Some MOD_RES_PERMS_ACCESS_DENIED"
proof -
  note check = checks_follow_tables [OF perm_state0_wf perm_state0_fields(1) perm_plat0_agents]
  have "message_bit perm_table0 2 RP_PERF 5" by code_simp
  then show ?thesis
    using check [OF perm_addressable0(1)] check [OF perm_addressable0(2)] check [OF perm_addressable0(4)] perm_bits0
    by (simp add: verdict_def MOD_SCMI_PROTOCOL_ID_PERF_def)
qed

theorem denial_is_inherited_witness:
  "agent_message_permissions perm_plat0 perm_state0 2 0x14 3 = Some MOD_RES_PERMS_ACCESS_DENIED \<and>
    agent_resource_permissions perm_plat0 perm_state0 2 0x14 3 7 = Some MOD_RES_PERMS_ACCESS_DENIED"
proof -
  have "\<not> is_platform_protocol 0x14"
    "agent_protocol_permissions perm_plat0 perm_state0 2 0x14 = Some MOD_RES_PERMS_ACCESS_DENIED" by code_simp+
  then show ?thesis
    using denial_is_inherited [of "0x14" perm_plat0 perm_state0 2 3 7] by blast
qed

theorem set_permission_then_check_witness:
  "\<exists>t' backup'. set_agent_resource_permissions perm_plat0 perm_state0 \<lparr>pp_agent_id = 1, pp_resource_id = 1,
        pp_protocol_id = 0x13, pp_flags = 0, pp_start_message_idx = 3, pp_end_message_idx = 0x0B,
        pp_resource_permission = Some ((replicate 18 0)[8 := 4]),
        pp_resource_permission_backup = Some (replicate 18 0),
        pp_counters = \<lparr>pc_count = 3, pc_cmd_count = 9, pc_resource_count = 1\<rparr>\<rparr> = Some (FWK_SUCCESS, Some t', backup') \<and>
    agent_resource_permissions perm_plat0 (set_perms RP_PERF (Some t') perm_state0) 1 0x13 0x0B 1
      = Some MOD_RES_PERMS_ACCESS_DENIED \<and>
    agent_resource_permissions perm_plat0 (set_perms RP_PERF (Some t') perm_state0) 1 0x13 0x0B 0
      = Some MOD_RES_PERMS_ACCESS_ALLOWED"
proof -
  have agent: "is_agent perm_state0 1" and cin: "compiled_in perm_plat0 RP_PERF" and count: "1 < res_count perm_state0 RP_PERF"
    by code_simp+
  have old: "agent_resource_permissions perm_plat0 perm_state0 1 (res_protocol_id RP_PERF) 0x0B 0
      = Some MOD_RES_PERMS_ACCESS_ALLOWED" by code_simp
  from set_permission_then_check [OF perm_state0_wf perm_state0_fields(1) perm_plat0_agents agent cin
      perm_state0_fields(6) count, of "\<lparr>pc_count = 3, pc_cmd_count = 9, pc_resource_count = 1\<rparr>"
      "Some (replicate 18 0)" 0] perm_backup0
  show ?thesis
    using perm_addressable0(2,3) old
    by (fastforce simp: perm_state0_fields MOD_SCMI_PROTOCOL_ID_PERF_def first_message_def verdict_def)
qed

theorem reset_restores_permissions_witness:
  "\<exists>s'. mod_res_agent_reset_config perm_plat0 1 1 perm_state0 = Some (FWK_SUCCESS, s') \<and>
    agent_resource_permissions perm_plat0 s' 1 0x13 0x0B 2 = Some MOD_RES_PERMS_ACCESS_ALLOWED"
proof -
  have agent: "is_agent perm_state0 1" "1 < agent_count perm_state0" by code_simp+
  have "backups_ok perm_state0 perm_table0 perm_config0"
    by (simp add: backups_ok_def all_res_protocols_def perm_state0_def perm_table0_def perm_config0_def
        table_size_def elements_def messages_def)
  then obtain s' where "mod_res_agent_reset_config perm_plat0 1 1 perm_state0 = Some (FWK_SUCCESS, s')"
    and checks: "\<forall>q a' m r. addressable perm_plat0 perm_state0 q a' m r \<longrightarrow>
      agent_resource_permissions perm_plat0 s' a' (res_protocol_id q) m r =
        (case (if a' = 1 \<and> q \<in> set (reset_protocols perm_plat0) \<and>
              16 * (unat r div 16) < unat (pc_resource_count (rc_counters perm_config0 q))
            then backup_perms perm_state0 q else None) of
          None \<Rightarrow> agent_resource_permissions perm_plat0 perm_state0 a' (res_protocol_id q) m r
        | Some b \<Rightarrow> Some (verdict (protocol_bit perm_table0 1 q \<or> message_bit perm_table0 1 q m \<or>
            table_bit perm_state0 q b (unat (1 :: u32) - 1) (unat m) (unat r))))"
    using reset_restores_permissions [OF perm_state0_wf perm_state0_fields(1) perm_plat0_agents agent, of 1 perm_config0]
      perm_state0_fields by auto
  moreover have "RP_PERF \<in> set (reset_protocols perm_plat0)" "backup_perms perm_state0 RP_PERF = Some (replicate 18 0)"
    "pc_resource_count (rc_counters perm_config0 RP_PERF) = 1"
    by (simp_all add: reset_protocols_def perm_state0_def perm_config0_def)
  ultimately show ?thesis
    using checks [rule_format, OF perm_addressable0(1)] perm_bits0
    by (auto simp: verdict_def MOD_SCMI_PROTOCOL_ID_PERF_def)
qed

theorem set_device_permission_changes_nothing_witness:
  "\<exists>s'. mod_res_agent_set_device_permission perm_plat0 1 0 0 perm_state0 = Some (FWK_SUCCESS, s') \<and>
    agent_resource_permissions perm_plat0 s' 1 0x13 0x0B 0 = Some MOD_RES_PERMS_ACCESS_ALLOWED"
proof -
  have find: "find_device perm_state0 0 0 = Some (Inr \<lparr>md_device_id = 0, md_domain_devices =
      [\<lparr>dd_device_id = FWK_ID_ELEMENT 5 0, dd_type = MOD_RES_PERF_DOMAIN_DEVICE\<rparr>,
       \<lparr>dd_device_id = FWK_ID_NONE, dd_type = MOD_RES_DOMAIN_DEVICE_INVALID\<rparr>]\<rparr>)"
    by code_simp
  have "mod_res_agent_set_device_permission perm_plat0 1 0 0 perm_state0 \<noteq> None"
    "agent_resource_permissions perm_plat0 perm_state0 1 0x13 0x0B 0 = Some MOD_RES_PERMS_ACCESS_ALLOWED"
    "device_type_of_protocol 0x13 \<noteq> None"
    by code_simp+
  then show ?thesis
    using set_device_permission_changes_nothing [OF perm_plat0_agents _ find, of 1 _ _ "0x13"] by force
qed

end
