(* ===== verification/Mctp_Fw.thy ===== *)
theory Mctp_Fw
  imports Pldm_Fw
begin

unbundle bit_operations_syntax

text \<open>
  The MCTP firmware module (\<open>module/mctp_fw\<close>): the control commands of an MCTP endpoint, the routing of
  received messages to the control handler or to the PLDM module, and the sending of what either answers.
  libmctp is a submodule that is not part of the repository: its constants are the function \<open>mctp_const\<close>,
  the calls the module makes into it are recorded in order in \<open>mf_calls\<close>, and what they return is a
  function of the calls made so far. The PLDM module is the model of \<open>Pldm_Fw\<close>; the layout of a PLDM message
  in memory belongs to libpldm and is given by two functions.
\<close>

section \<open>libmctp\<close>

datatype mctp_const =
    MCTP_CTRL_HDR_MSG_TYPE | MCTP_CTRL_HDR_FLAG_REQUEST | MCTP_CTRL_HDR_INSTANCE_ID_MASK
  | MCTP_CTRL_CC_SUCCESS | MCTP_CTRL_CC_ERROR_INVALID_DATA | MCTP_EID_NULL | MCTP_EID_BROADCAST
  | MCTP_CTRL_CMD_SET_ENDPOINT_ID | MCTP_CTRL_CMD_GET_ENDPOINT_ID | MCTP_CTRL_CMD_GET_ENDPOINT_UUID
  | MCTP_CTRL_CMD_GET_VERSION_SUPPORT | MCTP_CTRL_CMD_GET_MESSAGE_TYPE_SUPPORT
  | MCTP_CTRL_CMD_PREPARE_ENDPOINT_DISCOVERY | MCTP_CTRL_CMD_ENDPOINT_DISCOVERY

text \<open>The calls, with the handles of the MCTP instance and of the binding; \<open>Set_rx_all\<close> carries the bus
  whose messages it sends to \<open>mctp_fw_receive_from_mctp\<close>.\<close>

datatype mctp_call =
    Register_bus nat nat u8
  | Unregister_bus nat nat
  | Set_rx_all nat u32
  | Set_tx_enabled nat bool
  | Message_tx nat u8 bool u8 "u8 list"

record mctp_lib =
  mctp_const :: "mctp_const \<Rightarrow> u8"
  mctp_ctx_init :: "mctp_call list \<Rightarrow> nat option"
  mctp_message_tx :: "mctp_call list \<Rightarrow> int"
  mctp_serial_register_tx :: "nat option"
  mctp_pcc_register_tx :: "nat option"
  pldm_of_bytes :: "u8 list \<Rightarrow> pldm_msg"
  bytes_of_pldm :: "pldm_msg \<Rightarrow> nat \<Rightarrow> u8 list"
  has_mctp_pcc :: bool

definition MCTP_FW_BIND_PCC_API_IDX :: u32 where "MCTP_FW_BIND_PCC_API_IDX = 1"
definition TX_BUFFER_SIZE :: nat where "TX_BUFFER_SIZE = 256"
definition PLDM_MSG_TYPE :: u8 where "PLDM_MSG_TYPE = 1"
definition MCTP_MSG_TYPE_PLDM :: u8 where "MCTP_MSG_TYPE_PLDM = 1"
definition MCTP_GET_ENDPOINT_ID_RESP_BYTES :: int where "MCTP_GET_ENDPOINT_ID_RESP_BYTES = 4"
definition MCTP_SET_ENDPOINT_ID_RESP_BYTES :: int where "MCTP_SET_ENDPOINT_ID_RESP_BYTES = 4"
definition MCTP_GET_MESSAGE_TYPE_MIN_RESP_BYTES :: int where "MCTP_GET_MESSAGE_TYPE_MIN_RESP_BYTES = 2"
definition MCTP_GET_ENDPOINT_UUID_RESP_BYTES :: int where "MCTP_GET_ENDPOINT_UUID_RESP_BYTES = 17"

lemmas mctp_sizes = MCTP_GET_ENDPOINT_ID_RESP_BYTES_def MCTP_SET_ENDPOINT_ID_RESP_BYTES_def
  MCTP_GET_MESSAGE_TYPE_MIN_RESP_BYTES_def MCTP_GET_ENDPOINT_UUID_RESP_BYTES_def TX_BUFFER_SIZE_def

section \<open>State\<close>

text \<open>The two members of the union of an element start with the MCTP instance and hold the binding of their
  driver; they are one member each here, and so are the configuration pointer's values that are copied at
  initialisation.\<close>

record mctp_fw_elem_config =
  ec_local_eid :: u8
  ec_remote_eid :: u8
  ec_bus_policy :: u8

record mctp_fw_elem_ctx =
  me_id :: fwk_id
  me_local_eid :: u8
  me_remote_eid :: u8
  me_bus :: u32
  me_bus_policy :: u8
  me_mctp :: "nat option"
  me_binding :: "nat option"

record 'r mctp_fw =
  elem_ctx_table :: "mctp_fw_elem_ctx list"
  txbuf :: "u8 list"
  mf_calls :: "mctp_call list"
  mf_pldm :: "'r pldm_fw"

text \<open>An access to the element of a bus; \<open>fwk_assert\<close> of a string literal never fails, so a bus without an
  element is an access outside the table.\<close>

definition elem_of :: "u32 \<Rightarrow> 'r mctp_fw \<Rightarrow> mctp_fw_elem_ctx option" where
  "elem_of bus s = (if unat bus < length (elem_ctx_table s) then Some (elem_ctx_table s ! unat bus) else None)"

definition upd_elem :: "u32 \<Rightarrow> (mctp_fw_elem_ctx \<Rightarrow> mctp_fw_elem_ctx) \<Rightarrow> 'r mctp_fw \<Rightarrow> 'r mctp_fw" where
  "upd_elem bus f s = s\<lparr>elem_ctx_table := (elem_ctx_table s)[unat bus := f (elem_ctx_table s ! unat bus)]\<rparr>"

definition mctp_log :: "mctp_call \<Rightarrow> 'r mctp_fw \<Rightarrow> 'r mctp_fw" where
  "mctp_log c s = s\<lparr>mf_calls := mf_calls s @ [c]\<rparr>"

section \<open>Control commands\<close>

text \<open>A write to \<open>data[i]\<close> of the response in the transmit buffer, behind the three header bytes.\<close>

definition put_data :: "nat \<Rightarrow> u8 \<Rightarrow> 'r mctp_fw \<Rightarrow> 'r mctp_fw option" where
  "put_data i v s = do { fwk_assert (3 + i < length (txbuf s)); Some (s\<lparr>txbuf := (txbuf s)[3 + i := v]\<rparr>) }"

definition get_data :: "nat \<Rightarrow> u8 list \<Rightarrow> u8 option" where
  "get_data i msg = (if 3 + i < length msg then Some (msg ! (3 + i)) else None)"

text \<open>The MCTP instance a bus stands for: none for an unknown bus, and none before the start of the module.\<close>

definition mctp_of_bus :: "mctp_lib \<Rightarrow> u32 \<Rightarrow> 'r mctp_fw \<Rightarrow> (nat option \<times> nat option) option" where
  "mctp_of_bus lib bus s =
    (if bus = MCTP_FW_BIND_SERIAL_API_IDX \<or> has_mctp_pcc lib \<and> bus = MCTP_FW_BIND_PCC_API_IDX
     then do { e \<leftarrow> elem_of bus s; Some (me_mctp e, me_binding e) }
     else Some (None, None))"

definition mctp_init_bus_register :: "mctp_lib \<Rightarrow> u32 \<Rightarrow> u8 \<Rightarrow> 'r mctp_fw \<Rightarrow> 'r mctp_fw option" where
  "mctp_init_bus_register lib bus eid s = do {
    (mctp, binding) \<leftarrow> mctp_of_bus lib bus s;
    case mctp of
      None \<Rightarrow> Some s
    | Some m \<Rightarrow> do {
        b \<leftarrow> binding;
        Some (mctp_log (Register_bus m b eid) (mctp_log (Unregister_bus m b) s)) } }"

definition mctp_cmd_get_endpoint_uuid :: "mctp_lib \<Rightarrow> 'r mctp_fw \<Rightarrow> (int \<times> 'r mctp_fw) option" where
  "mctp_cmd_get_endpoint_uuid lib s = do {
    s \<leftarrow> put_data 0 (mctp_const lib MCTP_CTRL_CC_SUCCESS) s;
    s \<leftarrow> for_each (\<lambda>i. put_data i (of_nat i)) [1..<nat MCTP_GET_ENDPOINT_UUID_RESP_BYTES] s;
    Some (MCTP_GET_ENDPOINT_UUID_RESP_BYTES, s) }"

definition mctp_cmd_get_endpoint_id :: "mctp_lib \<Rightarrow> u32 \<Rightarrow> 'r mctp_fw \<Rightarrow> (int \<times> 'r mctp_fw) option" where
  "mctp_cmd_get_endpoint_id lib bus s = do {
    s \<leftarrow> put_data 0 (mctp_const lib MCTP_CTRL_CC_SUCCESS) s;
    e \<leftarrow> elem_of bus s;
    s \<leftarrow> put_data 1 (me_local_eid e) s;
    s \<leftarrow> put_data 2 0 s;
    s \<leftarrow> put_data 3 0 s;
    Some (MCTP_GET_ENDPOINT_ID_RESP_BYTES, s) }"

definition mctp_cmd_set_endpoint_id :: "mctp_lib \<Rightarrow> u32 \<Rightarrow> u8 list \<Rightarrow> 'r mctp_fw \<Rightarrow> (int \<times> 'r mctp_fw) option" where
  "mctp_cmd_set_endpoint_id lib bus req s = do {
    eid \<leftarrow> get_data 1 req;
    s \<leftarrow> (if eid = mctp_const lib MCTP_EID_NULL \<or> eid = mctp_const lib MCTP_EID_BROADCAST
      then do {
        s \<leftarrow> put_data 0 (mctp_const lib MCTP_CTRL_CC_ERROR_INVALID_DATA) s;
        e \<leftarrow> elem_of bus s;
        put_data 2 (me_local_eid e) s }
      else do {
        e \<leftarrow> elem_of bus s;
        s \<leftarrow> mctp_init_bus_register lib bus eid (upd_elem bus (\<lambda>e. e\<lparr>me_local_eid := eid\<rparr>) s);
        s \<leftarrow> put_data 0 (mctp_const lib MCTP_CTRL_CC_SUCCESS) s;
        put_data 2 eid s });
    s \<leftarrow> put_data 1 0 s;
    s \<leftarrow> put_data 3 0 s;
    Some (MCTP_SET_ENDPOINT_ID_RESP_BYTES, s) }"

definition mctp_cmd_get_msg_type :: "mctp_lib \<Rightarrow> 'r mctp_fw \<Rightarrow> (int \<times> 'r mctp_fw) option" where
  "mctp_cmd_get_msg_type lib s = do {
    s \<leftarrow> put_data 0 (mctp_const lib MCTP_CTRL_CC_SUCCESS) s;
    s \<leftarrow> put_data 1 2 s;
    s \<leftarrow> put_data 2 (mctp_const lib MCTP_CTRL_HDR_MSG_TYPE) s;
    s \<leftarrow> put_data 3 PLDM_MSG_TYPE s;
    Some (MCTP_GET_MESSAGE_TYPE_MIN_RESP_BYTES + 2, s) }"

text \<open>The length of the request is never looked at. The three commands that are not implemented, like the
  unknown ones, leave \<open>rc\<close> at -1.\<close>

definition mctp_ctrl_cmd_handle ::
  "mctp_lib \<Rightarrow> u32 \<Rightarrow> u8 \<Rightarrow> u8 list \<Rightarrow> 'r mctp_fw \<Rightarrow> (int \<times> 'r mctp_fw) option" where
  "mctp_ctrl_cmd_handle lib bus src msg s = do {
    fwk_assert (2 < length msg);
    let cmd = msg ! 2;
    (rc, s) \<leftarrow>
      (if cmd = mctp_const lib MCTP_CTRL_CMD_SET_ENDPOINT_ID
       then do {
         (rc, s) \<leftarrow> mctp_cmd_set_endpoint_id lib bus msg s;
         e \<leftarrow> elem_of bus s;
         Some (rc, upd_elem bus (\<lambda>e. e\<lparr>me_remote_eid := src\<rparr>) s) }
       else if cmd = mctp_const lib MCTP_CTRL_CMD_GET_ENDPOINT_ID then mctp_cmd_get_endpoint_id lib bus s
       else if cmd = mctp_const lib MCTP_CTRL_CMD_GET_ENDPOINT_UUID then mctp_cmd_get_endpoint_uuid lib s
       else if cmd = mctp_const lib MCTP_CTRL_CMD_GET_VERSION_SUPPORT then Some (- 1, s)
       else if cmd = mctp_const lib MCTP_CTRL_CMD_GET_MESSAGE_TYPE_SUPPORT then mctp_cmd_get_msg_type lib s
       else Some (- 1, s));
    if rc > 0
    then do {
      fwk_assert (2 < length (txbuf s));
      Some (rc + 3, s\<lparr>txbuf := (txbuf s)[0 := msg ! 0, 2 := cmd,
        1 := mctp_const lib MCTP_CTRL_HDR_INSTANCE_ID_MASK AND msg ! 1]\<rparr>) }
    else Some (rc, s) }"

section \<open>Messages\<close>

text \<open>A null instance is logged and then used: what libmctp does with it is undefined.\<close>

definition process_mctp_fw_tx ::
  "mctp_lib \<Rightarrow> u32 \<Rightarrow> bool \<Rightarrow> u8 \<Rightarrow> u8 list \<Rightarrow> u8 \<Rightarrow> 'r mctp_fw \<Rightarrow> (int \<times> 'r mctp_fw) option" where
  "process_mctp_fw_tx lib bus tag_owner msg_tag msg dst s = do {
    (mctp, binding) \<leftarrow> mctp_of_bus lib bus s;
    m \<leftarrow> mctp;
    let s = mctp_log (Message_tx m dst tag_owner msg_tag msg) s;
    Some (mctp_message_tx lib (mf_calls s), s) }"

text \<open>\<open>msg\<close> is the memory of \<open>len\<close> bytes the application layer passes.\<close>

definition mctp_fw_receive_from_app_layer ::
  "mctp_lib \<Rightarrow> u32 \<Rightarrow> bool \<Rightarrow> u8 \<Rightarrow> u8 \<Rightarrow> u8 list \<Rightarrow> 'r mctp_fw \<Rightarrow> 'r mctp_fw option" where
  "mctp_fw_receive_from_app_layer lib bus tag_owner msg_tag type msg s = do {
    e \<leftarrow> elem_of bus s;
    (rc, s) \<leftarrow> process_mctp_fw_tx lib bus tag_owner msg_tag (type # msg) (me_remote_eid e) s;
    fwk_assert (rc = 0);
    Some s }"

text \<open>The packets the PLDM module hands over (\<open>send_pldm_packet\<close>); a null message cannot be copied.\<close>

definition deliver_pldm_packet :: "mctp_lib \<Rightarrow> sent_packet \<Rightarrow> 'r mctp_fw \<Rightarrow> 'r mctp_fw option" where
  "deliver_pldm_packet lib pk s = do {
    m \<leftarrow> sp_packet pk;
    mctp_fw_receive_from_app_layer lib (sp_bus pk) (sp_tag_owner pk) (sp_msg_tag pk) MCTP_MSG_TYPE_PLDM
      (bytes_of_pldm lib m (sp_size pk)) s }"

definition pldm_receive :: "'r pldm_lib \<Rightarrow> mctp_lib \<Rightarrow> u32 \<Rightarrow> u8 list \<Rightarrow> 'r mctp_fw \<Rightarrow> 'r mctp_fw option" where
  "pldm_receive plib lib bus packet s = do {
    p \<leftarrow> pldm_fw_receive_from_transport_layer plib bus (pldm_of_bytes lib packet) (length packet) (mf_pldm s);
    for_each (deliver_pldm_packet lib) (drop (length (fw_sent (mf_pldm s))) (fw_sent p)) (s\<lparr>mf_pldm := p\<rparr>) }"

definition mctp_fw_receive_from_mctp ::
  "'r pldm_lib \<Rightarrow> mctp_lib \<Rightarrow> u8 \<Rightarrow> u32 \<Rightarrow> u8 list \<Rightarrow> 'r mctp_fw \<Rightarrow> 'r mctp_fw option" where
  "mctp_fw_receive_from_mctp plib lib eid bus msg s = do {
    fwk_assert (0 < length msg);
    fwk_assert (msg ! 0 = mctp_const lib MCTP_CTRL_HDR_MSG_TYPE \<longrightarrow> 1 < length msg);
    if msg ! 0 = mctp_const lib MCTP_CTRL_HDR_MSG_TYPE \<and> msg ! 1 AND mctp_const lib MCTP_CTRL_HDR_FLAG_REQUEST \<noteq> 0
    then do {
      (rc, s) \<leftarrow> mctp_ctrl_cmd_handle lib bus eid msg s;
      if rc > 0 then do {
        (_, s) \<leftarrow> process_mctp_fw_tx lib bus False 0 (take (nat rc) (txbuf s)) eid s;
        Some s }
      else Some s }
    else pldm_receive plib lib bus (drop 1 msg) s }"

section \<open>Start-up\<close>

text \<open>\<open>mctp_fw_init\<close> and \<open>mctp_fw_elem_init\<close>: a zeroed table, then the values of each configuration.\<close>

definition elem_ctx_zero :: mctp_fw_elem_ctx where
  "elem_ctx_zero = \<lparr>me_id = 0, me_local_eid = 0, me_remote_eid = 0, me_bus = 0, me_bus_policy = 0,
    me_mctp = None, me_binding = None\<rparr>"

definition mctp_fw_init :: "u32 \<Rightarrow> 'r mctp_fw \<Rightarrow> int \<times> 'r mctp_fw" where
  "mctp_fw_init elem_count s = (FWK_SUCCESS, s\<lparr>elem_ctx_table := replicate (unat elem_count) elem_ctx_zero\<rparr>)"

definition mctp_fw_elem_init :: "fwk_id \<Rightarrow> mctp_fw_elem_config \<Rightarrow> 'r mctp_fw \<Rightarrow> (int \<times> 'r mctp_fw) option" where
  "mctp_fw_elem_init elem_id cfg s = do {
    i \<leftarrow> fwk_id_get_element_idx elem_id;
    e \<leftarrow> elem_of i s;
    Some (FWK_SUCCESS, upd_elem i (\<lambda>e. e\<lparr>me_id := elem_id, me_local_eid := ec_local_eid cfg,
      me_remote_eid := ec_remote_eid cfg, me_bus_policy := ec_bus_policy cfg\<rparr>) s) }"

text \<open>The part of \<open>mctp_fw_start\<close> for one bus: an MCTP instance and the driver's binding are stored, registered
  under the local identifier, and connected to the receiver.\<close>

definition start_bus :: "mctp_lib \<Rightarrow> u32 \<Rightarrow> nat option \<Rightarrow> 'r mctp_fw \<Rightarrow> (int \<times> 'r mctp_fw) option" where
  "start_bus lib bus driver s = do {
    e \<leftarrow> elem_of bus s;
    case mctp_ctx_init lib (mf_calls s) of
      None \<Rightarrow> Some (FWK_E_PARAM, s)
    | Some m \<Rightarrow>
        (let s = upd_elem bus (\<lambda>e. e\<lparr>me_mctp := Some m\<rparr>) s in
         case driver of
           None \<Rightarrow> Some (FWK_E_PARAM, s)
         | Some b \<Rightarrow>
             (let s = upd_elem bus (\<lambda>e. e\<lparr>me_binding := Some b\<rparr>) s;
                  s = mctp_log (Register_bus m b (me_local_eid e)) s;
                  s = upd_elem bus (\<lambda>e. e\<lparr>me_bus := bus\<rparr>) s;
                  s = mctp_log (Set_rx_all m bus) s
              in Some (FWK_SUCCESS, mctp_log (Set_tx_enabled b True) s))) }"

definition mctp_fw_start :: "mctp_lib \<Rightarrow> u32 \<Rightarrow> fwk_id \<Rightarrow> 'r mctp_fw \<Rightarrow> (int \<times> 'r mctp_fw) option" where
  "mctp_fw_start lib mctp_fw_idx ident s = do {
    module \<leftarrow> fwk_id_is_type ident FWK_ID_TYPE_MODULE;
    idx \<leftarrow> (if module then fwk_id_get_module_idx ident else Some 0);
    if \<not> (module \<and> idx = mctp_fw_idx) then Some (FWK_SUCCESS, s)
    else do {
      (status, s) \<leftarrow> start_bus lib MCTP_FW_BIND_SERIAL_API_IDX (mctp_serial_register_tx lib) s;
      if status \<noteq> FWK_SUCCESS then Some (status, s)
      else if has_mctp_pcc lib then start_bus lib MCTP_FW_BIND_PCC_API_IDX (mctp_pcc_register_tx lib) s
      else Some (FWK_SUCCESS, s) } }"

datatype mctp_api = mctp_fw_api

definition mctp_fw_process_bind_request :: "fwk_id \<Rightarrow> (int \<times> mctp_api option) option" where
  "mctp_fw_process_bind_request api_id = do {
    i \<leftarrow> fwk_id_get_api_idx api_id;
    Some (if i = 0 then (FWK_SUCCESS, Some mctp_fw_api) else (FWK_E_PARAM, None)) }"

end
