(* ===== verification/Mctp_Props.thy ===== *)
theory Mctp_Props
  imports Mctp_Fw Pldm_Props
begin

unbundle bit_operations_syntax

text \<open>
  What the MCTP firmware module does with every message: a control request is answered as the table of the
  protocol says and changes only the identifiers of its bus; after the bus owner has assigned an endpoint
  identifier, PLDM requests on that bus are answered to it.
\<close>

section \<open>A started module\<close>

text \<open>The buses that are built in have an element each, with an instance and a binding, and the transmit buffer
  has its size.\<close>

definition known_bus :: "mctp_lib \<Rightarrow> u32 \<Rightarrow> bool" where
  "known_bus lib bus \<longleftrightarrow> bus = MCTP_FW_BIND_SERIAL_API_IDX \<or> has_mctp_pcc lib \<and> bus = MCTP_FW_BIND_PCC_API_IDX"

definition mctp_started :: "mctp_lib \<Rightarrow> u32 \<Rightarrow> 'r mctp_fw \<Rightarrow> bool" where
  "mctp_started lib bus s \<longleftrightarrow> known_bus lib bus \<and> length (txbuf s) = TX_BUFFER_SIZE \<and>
    (case elem_of bus s of None \<Rightarrow> False | Some e \<Rightarrow> me_mctp e \<noteq> None \<and> me_binding e \<noteq> None)"

definition element :: "u32 \<Rightarrow> 'r mctp_fw \<Rightarrow> mctp_fw_elem_ctx" where
  "element bus s = elem_ctx_table s ! unat bus"

lemma started_elem:
  assumes "mctp_started lib bus s"
  shows "elem_of bus s = Some (element bus s)" "unat bus < length (elem_ctx_table s)"
    and "\<exists>m b. me_mctp (element bus s) = Some m \<and> me_binding (element bus s) = Some b"
  using assms by (auto simp: mctp_started_def elem_of_def element_def split: if_splits)

lemma elem_simps [simp]:
  "elem_of bus (s\<lparr>txbuf := t\<rparr>) = elem_of bus s" "elem_of bus (mctp_log c s) = elem_of bus s"
  "element bus (s\<lparr>txbuf := t\<rparr>) = element bus s" "element bus (mctp_log c s) = element bus s"
  "txbuf (mctp_log c s) = txbuf s" "mf_pldm (mctp_log c s) = mf_pldm s"
  "mf_calls (mctp_log c s) = mf_calls s @ [c]"
  "txbuf (upd_elem bus f s) = txbuf s" "mf_calls (upd_elem bus f s) = mf_calls s"
  "mf_pldm (upd_elem bus f s) = mf_pldm s" "elem_ctx_table (mctp_log c s) = elem_ctx_table s"
  by (simp_all add: elem_of_def element_def mctp_log_def upd_elem_def)

lemma elem_of_upd:
  "unat bus < length (elem_ctx_table s) \<Longrightarrow> elem_of bus (upd_elem bus f s) = Some (f (element bus s))"
  by (simp add: elem_of_def element_def upd_elem_def)

lemma put_data_Some: "3 + i < length (txbuf s) \<Longrightarrow> put_data i v s = Some (s\<lparr>txbuf := (txbuf s)[3 + i := v]\<rparr>)"
  by (simp add: put_data_def)

section \<open>The answers of the control protocol\<close>

text \<open>The data of the response to a command, from the identifier of the bus and the request. Only the assignment of
  an identifier reads beyond the three bytes of the header.\<close>

definition control_answer :: "mctp_lib \<Rightarrow> u8 \<Rightarrow> u8 list \<Rightarrow> u8 list option" where
  "control_answer lib local msg =
    (let ok = mctp_const lib MCTP_CTRL_CC_SUCCESS; cmd = msg ! 2 in
     if cmd = mctp_const lib MCTP_CTRL_CMD_SET_ENDPOINT_ID
     then if msg ! 4 = mctp_const lib MCTP_EID_NULL \<or> msg ! 4 = mctp_const lib MCTP_EID_BROADCAST
       then Some [mctp_const lib MCTP_CTRL_CC_ERROR_INVALID_DATA, 0, local, 0]
       else Some [ok, 0, msg ! 4, 0]
     else if cmd = mctp_const lib MCTP_CTRL_CMD_GET_ENDPOINT_ID then Some [ok, local, 0, 0]
     else if cmd = mctp_const lib MCTP_CTRL_CMD_GET_ENDPOINT_UUID then Some (ok # map of_nat [1..<17])
     else if cmd = mctp_const lib MCTP_CTRL_CMD_GET_VERSION_SUPPORT then None
     else if cmd = mctp_const lib MCTP_CTRL_CMD_GET_MESSAGE_TYPE_SUPPORT
     then Some [ok, 2, mctp_const lib MCTP_CTRL_HDR_MSG_TYPE, PLDM_MSG_TYPE]
     else None)"

text \<open>The new identifier, when the request assigns one.\<close>

definition assigns :: "mctp_lib \<Rightarrow> u8 list \<Rightarrow> u8 option" where
  "assigns lib msg =
    (if msg ! 2 = mctp_const lib MCTP_CTRL_CMD_SET_ENDPOINT_ID \<and> msg ! 4 \<noteq> mctp_const lib MCTP_EID_NULL \<and>
       msg ! 4 \<noteq> mctp_const lib MCTP_EID_BROADCAST then Some (msg ! 4) else None)"

text \<open>The identifiers of the element afterwards, and the calls into libmctp before the response.\<close>

definition control_elem :: "mctp_lib \<Rightarrow> u8 \<Rightarrow> u8 list \<Rightarrow> mctp_fw_elem_ctx \<Rightarrow> mctp_fw_elem_ctx" where
  "control_elem lib src msg e =
    (let e = (case assigns lib msg of None \<Rightarrow> e | Some eid \<Rightarrow> e\<lparr>me_local_eid := eid\<rparr>)
     in if msg ! 2 = mctp_const lib MCTP_CTRL_CMD_SET_ENDPOINT_ID then e\<lparr>me_remote_eid := src\<rparr> else e)"

definition control_calls :: "mctp_lib \<Rightarrow> mctp_fw_elem_ctx \<Rightarrow> u8 list \<Rightarrow> mctp_call list" where
  "control_calls lib e msg =
    (case assigns lib msg of None \<Rightarrow> []
     | Some eid \<Rightarrow> [Unregister_bus (the (me_mctp e)) (the (me_binding e)),
         Register_bus (the (me_mctp e)) (the (me_binding e)) eid])"

definition control_header :: "mctp_lib \<Rightarrow> u8 list \<Rightarrow> u8 list" where
  "control_header lib msg = [msg ! 0, mctp_const lib MCTP_CTRL_HDR_INSTANCE_ID_MASK AND msg ! 1, msg ! 2]"

lemma uuid_loop:
  assumes "length (txbuf s) = TX_BUFFER_SIZE"
  shows "\<exists>t. for_each (\<lambda>i. put_data i (of_nat i)) [1..<17] s = Some (s\<lparr>txbuf := t\<rparr>) \<and> length t = TX_BUFFER_SIZE \<and>
    take 4 t = take 4 (txbuf s) \<and> take 16 (drop 4 t) = map of_nat [1..<17]"
proof -
  let ?f = "\<lambda>i. put_data i (of_nat i) :: 'a mctp_fw \<Rightarrow> 'a mctp_fw option"
  define P where "P k u \<longleftrightarrow> (\<exists>t. u = s\<lparr>txbuf := t\<rparr> \<and> length t = TX_BUFFER_SIZE \<and> take 4 t = take 4 (txbuf s) \<and>
      take k (drop 4 t) = map of_nat [1..<Suc k])" for k u
  have "\<exists>u. for_each ?f [1..<17] s = Some u \<and> P (length [1..<17]) u"
  proof (rule for_each_total)
    show "P 0 s" using assms by (auto simp: P_def intro!: exI [of _ "txbuf s"])
    fix k u
    assume k: "k < length [1..<17]" and "P k u"
    then obtain t where u: "u = s\<lparr>txbuf := t\<rparr>" and t: "length t = TX_BUFFER_SIZE" "take 4 t = take 4 (txbuf s)"
        "take k (drop 4 t) = map of_nat [1..<Suc k]" by (auto simp: P_def)
    have i: "[1..<17] ! k = Suc k" using k by (simp add: nth_upt)
    let ?t = "t[4 + k := of_nat (Suc k)]"
    have "?f (Suc k) u = Some (s\<lparr>txbuf := ?t\<rparr>)"
      using u t(1) k by (simp add: put_data_def TX_BUFFER_SIZE_def numeral_eq_Suc)
    moreover have "take (Suc k) (drop 4 ?t) = map of_nat [1..<Suc (Suc k)]"
    proof -
      have "drop 4 ?t = (drop 4 t)[k := of_nat (Suc k)]" by (simp add: drop_update_swap)
      then have "take (Suc k) (drop 4 ?t) = take k (drop 4 t) @ [of_nat (Suc k)]"
        using t(1) k by (subst take_Suc_conv_app_nth) (simp_all add: TX_BUFFER_SIZE_def take_update_cancel del: of_nat_Suc)
      also have "\<dots> = map of_nat ([1..<Suc k] @ [Suc k])" unfolding t(3) by (simp del: of_nat_Suc upt_Suc)
      also have "[1..<Suc k] @ [Suc k] = [1..<Suc (Suc k)]" by simp
      finally show ?thesis .
    qed
    then have "P (Suc k) (s\<lparr>txbuf := ?t\<rparr>)"
      unfolding P_def using t(1,2)
      by (intro exI [of _ ?t]) (simp add: take_update_cancel del: upt_Suc of_nat_Suc)
    ultimately show "\<exists>u'. ?f ([1..<17] ! k) u = Some u' \<and> P (Suc k) u'"
      using i by simp
  qed
  then show ?thesis by (auto simp: P_def)
qed

lemma txbuf_head:
  assumes "length t = TX_BUFFER_SIZE"
  shows "\<exists>a b c d e f g rest. t = a # b # c # d # e # f # g # rest"
proof -
  have "Suc (Suc (Suc (Suc (Suc (Suc (Suc 0)))))) \<le> length t" using assms by (simp add: TX_BUFFER_SIZE_def)
  then show ?thesis by (simp only: Suc_le_length_iff) blast
qed

lemma take_7: "take 7 (a # b # c # d # e # f # g # rest) = [a, b, c, d, e, f, g]"
  by (simp add: numeral_eq_Suc)

text \<open>The commands: the transmit buffer they leave and the rest of the state.\<close>

lemma get_endpoint_id_answer:
  assumes "mctp_started lib bus s"
  shows "\<exists>t. mctp_cmd_get_endpoint_id lib bus s = Some (4, s\<lparr>txbuf := t\<rparr>) \<and> length t = TX_BUFFER_SIZE \<and>
    take 4 (drop 3 t) = [mctp_const lib MCTP_CTRL_CC_SUCCESS, me_local_eid (element bus s), 0, 0]"
proof -
  have "length (txbuf s) = TX_BUFFER_SIZE" using assms by (simp add: mctp_started_def)
  with txbuf_head [OF this] show ?thesis
    using started_elem(1) [OF assms] by (auto simp: mctp_cmd_get_endpoint_id_def put_data_def mctp_sizes)
qed

lemma get_msg_type_answer:
  assumes "length (txbuf s) = TX_BUFFER_SIZE"
  shows "\<exists>t. mctp_cmd_get_msg_type lib s = Some (4, s\<lparr>txbuf := t\<rparr>) \<and> length t = TX_BUFFER_SIZE \<and>
    take 4 (drop 3 t) = [mctp_const lib MCTP_CTRL_CC_SUCCESS, 2, mctp_const lib MCTP_CTRL_HDR_MSG_TYPE, PLDM_MSG_TYPE]"
  using assms txbuf_head [OF assms] by (auto simp: mctp_cmd_get_msg_type_def put_data_def mctp_sizes)

lemma get_endpoint_uuid_answer:
  assumes "length (txbuf s) = TX_BUFFER_SIZE"
  shows "\<exists>t. mctp_cmd_get_endpoint_uuid lib s = Some (17, s\<lparr>txbuf := t\<rparr>) \<and> length t = TX_BUFFER_SIZE \<and>
    take 17 (drop 3 t) = mctp_const lib MCTP_CTRL_CC_SUCCESS # map of_nat [1..<17]"
proof -
  let ?s = "s\<lparr>txbuf := (txbuf s)[3 := mctp_const lib MCTP_CTRL_CC_SUCCESS]\<rparr>"
  have "length (txbuf ?s) = TX_BUFFER_SIZE" using assms by simp
  from uuid_loop [OF this] obtain t where loop: "for_each (\<lambda>i. put_data i (of_nat i)) [1..<17] ?s = Some (?s\<lparr>txbuf := t\<rparr>)"
    and t: "length t = TX_BUFFER_SIZE" "take 4 t = take 4 (txbuf ?s)" "take 16 (drop 4 t) = map of_nat [1..<17]"
    by blast
  have "t ! 3 = take 4 t ! 3" by simp
  also have "\<dots> = mctp_const lib MCTP_CTRL_CC_SUCCESS" using t(2) assms by (simp add: TX_BUFFER_SIZE_def)
  finally have "drop 3 t = mctp_const lib MCTP_CTRL_CC_SUCCESS # drop 4 t"
    using t(1) Cons_nth_drop_Suc [of 3 t] by (simp add: TX_BUFFER_SIZE_def)
  then have "take 17 (drop 3 t) = mctp_const lib MCTP_CTRL_CC_SUCCESS # map of_nat [1..<17]"
    using t(3) take_Suc_Cons [of 16] by simp
  then show ?thesis using loop t(1) assms
    by (intro exI [of _ t]) (simp add: mctp_cmd_get_endpoint_uuid_def put_data_def mctp_sizes del: upt_Suc)
qed

lemma set_endpoint_id_answer:
  assumes "mctp_started lib bus s" "4 < length msg" "msg ! 2 = mctp_const lib MCTP_CTRL_CMD_SET_ENDPOINT_ID"
  shows "\<exists>t. mctp_cmd_set_endpoint_id lib bus msg s = Some (4,
      (case assigns lib msg of
        None \<Rightarrow> s
      | Some eid \<Rightarrow> mctp_log (Register_bus (the (me_mctp (element bus s))) (the (me_binding (element bus s))) eid)
          (mctp_log (Unregister_bus (the (me_mctp (element bus s))) (the (me_binding (element bus s))))
            (upd_elem bus (\<lambda>e. e\<lparr>me_local_eid := eid\<rparr>) s)))\<lparr>txbuf := t\<rparr>) \<and>
    length t = TX_BUFFER_SIZE \<and>
    control_answer lib (me_local_eid (element bus s)) msg = Some (take 4 (drop 3 t))"
proof -
  have len: "length (txbuf s) = TX_BUFFER_SIZE" and bus: "known_bus lib bus"
    using assms by (simp_all add: mctp_started_def)
  obtain m b where mb: "me_mctp (element bus s) = Some m" "me_binding (element bus s) = Some b"
    using started_elem(3) [OF assms(1)] by blast
  have "mctp_of_bus lib bus (upd_elem bus (\<lambda>e. e\<lparr>me_local_eid := eid\<rparr>) s) = Some (Some m, Some b)" for eid
    using elem_of_upd [OF started_elem(2) [OF assms(1)]] mb bus by (simp add: mctp_of_bus_def known_bus_def)
  then show ?thesis
    using txbuf_head [OF len] len assms(2) started_elem(1) [OF assms(1)] mb
    by (auto simp: mctp_cmd_set_endpoint_id_def get_data_def put_data_def mctp_init_bus_register_def mctp_sizes
        assigns_def control_answer_def assms(3))
qed

lemma response_bytes:
  assumes "length t = TX_BUFFER_SIZE" "take n (drop 3 t) = d"
  shows "take (n + 3) (t[0 := x, 2 := y, 1 := z]) = [x, z, y] @ d"
  using txbuf_head [OF assms(1)] assms(2) by (auto simp: eval_nat_numeral)

lemma control_elem_handles [simp]:
  "me_mctp (control_elem lib src msg e) = me_mctp e" "me_binding (control_elem lib src msg e) = me_binding e"
  by (simp_all add: control_elem_def Let_def split: option.splits)

text \<open>The state after a command, before the response is sent.\<close>

definition control_state :: "mctp_lib \<Rightarrow> u32 \<Rightarrow> u8 \<Rightarrow> u8 list \<Rightarrow> u8 list \<Rightarrow> 'r mctp_fw \<Rightarrow> 'r mctp_fw" where
  "control_state lib bus src msg t s = s\<lparr>txbuf := t,
    elem_ctx_table := (elem_ctx_table s)[unat bus := control_elem lib src msg (element bus s)],
    mf_calls := mf_calls s @ control_calls lib (element bus s) msg\<rparr>"

lemma control_state_simps [simp]:
  "txbuf (control_state lib bus src msg t s) = t" "mf_pldm (control_state lib bus src msg t s) = mf_pldm s"
  "mf_calls (control_state lib bus src msg t s) = mf_calls s @ control_calls lib (element bus s) msg"
  by (simp_all add: control_state_def)

lemma control_state_same:
  assumes "msg ! 2 \<noteq> mctp_const lib MCTP_CTRL_CMD_SET_ENDPOINT_ID"
  shows "control_state lib bus src msg t s = s\<lparr>txbuf := t\<rparr>"
  using assms by (simp add: control_state_def control_elem_def control_calls_def assigns_def element_def)

text \<open>The bytes a control message must have: the header, and the identifier for its assignment. The messages that
  only ask for something carry no data.\<close>

definition control_complete :: "mctp_lib \<Rightarrow> u8 list \<Rightarrow> bool" where
  "control_complete lib msg \<longleftrightarrow> 2 < length msg \<and>
    (msg ! 2 = mctp_const lib MCTP_CTRL_CMD_SET_ENDPOINT_ID \<longrightarrow> 4 < length msg)"

lemma control_handled:
  assumes "mctp_started lib bus s" "control_complete lib msg"
  shows "\<exists>rc t. mctp_ctrl_cmd_handle lib bus src msg s = Some (rc, control_state lib bus src msg t s) \<and>
    length t = TX_BUFFER_SIZE \<and>
    (case control_answer lib (me_local_eid (element bus s)) msg of
      None \<Rightarrow> rc \<le> 0
    | Some d \<Rightarrow> 0 < rc \<and> take (nat rc) t = control_header lib msg @ d)"
proof -
  have len: "length (txbuf s) = TX_BUFFER_SIZE" using assms by (simp add: mctp_started_def)
  have hdr: "2 < length msg" using assms(2) by (simp add: control_complete_def)
  have reply: "\<exists>rc t. mctp_ctrl_cmd_handle lib bus src msg s = Some (rc, control_state lib bus src msg t s) \<and>
      length t = TX_BUFFER_SIZE \<and> 0 < rc \<and> take (nat rc) t = control_header lib msg @ d"
    if "mctp_ctrl_cmd_handle lib bus src msg s = Some (int n + 3, control_state lib bus src msg
        (t[0 := msg ! 0, 2 := msg ! 2, 1 := mctp_const lib MCTP_CTRL_HDR_INSTANCE_ID_MASK AND msg ! 1]) s)"
      "length t = TX_BUFFER_SIZE" "take n (drop 3 t) = d" for n t d
    using that response_bytes [OF that(2,3)]
    by (intro exI [of _ "int n + 3"] exI) (auto simp: control_header_def nat_add_distrib)
  note defs = mctp_ctrl_cmd_handle_def control_answer_def Let_def
  consider (set) "msg ! 2 = mctp_const lib MCTP_CTRL_CMD_SET_ENDPOINT_ID"
    | (get) "msg ! 2 \<noteq> mctp_const lib MCTP_CTRL_CMD_SET_ENDPOINT_ID" "msg ! 2 = mctp_const lib MCTP_CTRL_CMD_GET_ENDPOINT_ID"
    | (uuid) "msg ! 2 \<noteq> mctp_const lib MCTP_CTRL_CMD_SET_ENDPOINT_ID"
        "msg ! 2 \<noteq> mctp_const lib MCTP_CTRL_CMD_GET_ENDPOINT_ID" "msg ! 2 = mctp_const lib MCTP_CTRL_CMD_GET_ENDPOINT_UUID"
    | (types) "msg ! 2 \<noteq> mctp_const lib MCTP_CTRL_CMD_SET_ENDPOINT_ID"
        "msg ! 2 \<noteq> mctp_const lib MCTP_CTRL_CMD_GET_ENDPOINT_ID" "msg ! 2 \<noteq> mctp_const lib MCTP_CTRL_CMD_GET_ENDPOINT_UUID"
        "msg ! 2 \<noteq> mctp_const lib MCTP_CTRL_CMD_GET_VERSION_SUPPORT"
        "msg ! 2 = mctp_const lib MCTP_CTRL_CMD_GET_MESSAGE_TYPE_SUPPORT"
    | (other) "msg ! 2 \<noteq> mctp_const lib MCTP_CTRL_CMD_SET_ENDPOINT_ID"
        "msg ! 2 \<noteq> mctp_const lib MCTP_CTRL_CMD_GET_ENDPOINT_ID" "msg ! 2 \<noteq> mctp_const lib MCTP_CTRL_CMD_GET_ENDPOINT_UUID"
        "msg ! 2 = mctp_const lib MCTP_CTRL_CMD_GET_VERSION_SUPPORT \<or>
          msg ! 2 \<noteq> mctp_const lib MCTP_CTRL_CMD_GET_MESSAGE_TYPE_SUPPORT"
    by blast
  then show ?thesis
  proof cases
    case get
    obtain t where "mctp_cmd_get_endpoint_id lib bus s = Some (4, s\<lparr>txbuf := t\<rparr>)" "length t = TX_BUFFER_SIZE"
      "take 4 (drop 3 t) = [mctp_const lib MCTP_CTRL_CC_SUCCESS, me_local_eid (element bus s), 0, 0]"
      using get_endpoint_id_answer [OF assms(1)] by blast
    with reply [of 4 t] get hdr show ?thesis
      by (auto simp: defs control_state_same TX_BUFFER_SIZE_def)
  next
    case uuid
    obtain t where "mctp_cmd_get_endpoint_uuid lib s = Some (17, s\<lparr>txbuf := t\<rparr>)" "length t = TX_BUFFER_SIZE"
      "take 17 (drop 3 t) = mctp_const lib MCTP_CTRL_CC_SUCCESS # map of_nat [1..<17]"
      using get_endpoint_uuid_answer [OF len] by blast
    with reply [of 17 t] uuid hdr show ?thesis
      by (auto simp: defs control_state_same TX_BUFFER_SIZE_def simp del: upt_Suc)
  next
    case types
    obtain t where "mctp_cmd_get_msg_type lib s = Some (4, s\<lparr>txbuf := t\<rparr>)" "length t = TX_BUFFER_SIZE"
      "take 4 (drop 3 t) = [mctp_const lib MCTP_CTRL_CC_SUCCESS, 2, mctp_const lib MCTP_CTRL_HDR_MSG_TYPE, PLDM_MSG_TYPE]"
      using get_msg_type_answer [OF len] by blast
    with reply [of 4 t] types hdr show ?thesis
      by (auto simp: defs control_state_same TX_BUFFER_SIZE_def)
  next
    case other
    then have "mctp_ctrl_cmd_handle lib bus src msg s = Some (- 1, s)"
      "control_answer lib (me_local_eid (element bus s)) msg = None"
      using hdr by (auto simp: defs)
    then show ?thesis using other(1) len control_state_same [of msg lib bus src "txbuf s" s]
      by (intro exI [of _ "- 1"] exI [of _ "txbuf s"]) simp
  next
    case set
    let ?e = "element bus s"
    have data: "4 < length msg" using assms(2) set by (simp add: control_complete_def)
    obtain t where cmd: "mctp_cmd_set_endpoint_id lib bus msg s = Some (4, (case assigns lib msg of None \<Rightarrow> s
        | Some eid \<Rightarrow> mctp_log (Register_bus (the (me_mctp ?e)) (the (me_binding ?e)) eid)
            (mctp_log (Unregister_bus (the (me_mctp ?e)) (the (me_binding ?e)))
              (upd_elem bus (\<lambda>e. e\<lparr>me_local_eid := eid\<rparr>) s)))\<lparr>txbuf := t\<rparr>)"
      and t: "length t = TX_BUFFER_SIZE"
      and d: "control_answer lib (me_local_eid ?e) msg = Some (take 4 (drop 3 t))"
      using set_endpoint_id_answer [OF assms(1) data set] by blast
    have "mctp_ctrl_cmd_handle lib bus src msg s = Some (int 4 + 3, control_state lib bus src msg
        (t[0 := msg ! 0, 2 := msg ! 2, 1 := mctp_const lib MCTP_CTRL_HDR_INSTANCE_ID_MASK AND msg ! 1]) s)"
      using cmd set hdr t started_elem(1,2) [OF assms(1)] elem_of_upd [OF started_elem(2) [OF assms(1)]]
      by (cases "assigns lib msg")
        (simp_all add: mctp_ctrl_cmd_handle_def Let_def control_state_def control_elem_def control_calls_def
          upd_elem_def element_def mctp_log_def TX_BUFFER_SIZE_def elem_of_def)
    from reply [OF this t refl] d show ?thesis by simp
  qed
qed

section \<open>Properties\<close>

text \<open>A control message as the protocol has it: the bytes of its command, the type and the request bit.\<close>

definition control_request :: "mctp_lib \<Rightarrow> u8 list \<Rightarrow> bool" where
  "control_request lib msg \<longleftrightarrow> control_complete lib msg \<and> msg ! 0 = mctp_const lib MCTP_CTRL_HDR_MSG_TYPE \<and>
    msg ! 1 AND mctp_const lib MCTP_CTRL_HDR_FLAG_REQUEST \<noteq> 0"

lemma known_bus_mctp:
  "known_bus lib bus \<Longrightarrow> elem_of bus s = Some e \<Longrightarrow> mctp_of_bus lib bus s = Some (me_mctp e, me_binding e)"
  by (simp add: mctp_of_bus_def known_bus_def)

lemma control_state_elem:
  assumes "mctp_started lib bus s" "length t = TX_BUFFER_SIZE"
  shows "elem_of bus (control_state lib bus src msg t s) = Some (control_elem lib src msg (element bus s))"
    and "element bus (control_state lib bus src msg t s) = control_elem lib src msg (element bus s)"
    and "mctp_started lib bus (mctp_log c (control_state lib bus src msg t s))"
    and "mctp_started lib bus (control_state lib bus src msg t s)"
  using assms started_elem [OF assms(1)] by (auto simp: control_state_def elem_of_def element_def mctp_started_def)

lemma control_request_step:
  assumes "mctp_started lib bus s" "control_request lib msg"
  shows "\<exists>s'. mctp_fw_receive_from_mctp plib lib src bus msg s = Some s' \<and> mctp_started lib bus s' \<and>
    mf_pldm s' = mf_pldm s \<and> element bus s' = control_elem lib src msg (element bus s) \<and>
    elem_ctx_table s' = (elem_ctx_table s)[unat bus := control_elem lib src msg (element bus s)] \<and>
    mf_calls s' = mf_calls s @ control_calls lib (element bus s) msg @
      (case control_answer lib (me_local_eid (element bus s)) msg of None \<Rightarrow> []
       | Some d \<Rightarrow> [Message_tx (the (me_mctp (element bus s))) src False 0 (control_header lib msg @ d)])"
proof -
  obtain rc t where handle: "mctp_ctrl_cmd_handle lib bus src msg s = Some (rc, control_state lib bus src msg t s)"
    and t: "length t = TX_BUFFER_SIZE"
    and rc: "case control_answer lib (me_local_eid (element bus s)) msg of None \<Rightarrow> rc \<le> 0
      | Some d \<Rightarrow> 0 < rc \<and> take (nat rc) t = control_header lib msg @ d"
    using control_handled [OF assms(1), of msg src] assms(2) by (auto simp: control_request_def)
  obtain m where m: "me_mctp (element bus s) = Some m" using started_elem(3) [OF assms(1)] by blast
  have bus: "known_bus lib bus" using assms(1) by (simp add: mctp_started_def)
  have ne: "1 < length msg" "msg \<noteq> []" using assms(2) by (auto simp: control_request_def control_complete_def)
  let ?s = "control_state lib bus src msg t s"
  have tab: "elem_ctx_table ?s = (elem_ctx_table s)[unat bus := control_elem lib src msg (element bus s)]"
    by (simp add: control_state_def)
  note facts = control_state_elem [OF assms(1) t] known_bus_mctp [OF bus control_state_elem(1) [OF assms(1) t]]
  show ?thesis
  proof (cases "control_answer lib (me_local_eid (element bus s)) msg")
    case None
    then show ?thesis using handle rc facts tab assms(2) ne
      by (simp add: mctp_fw_receive_from_mctp_def control_request_def)
  next
    case (Some d)
    then show ?thesis using handle rc facts tab assms(2) m ne
      by (simp add: mctp_fw_receive_from_mctp_def control_request_def process_mctp_fw_tx_def Let_def)
  qed
qed

text \<open>C33. Every control request that reaches a started bus with the bytes of its command - three, and five for the
  assignment of an endpoint identifier - is handled without a stop and exactly as the table \<open>control_answer\<close>
  says: at most one response, to the sender, with the tag 0, made of the request's type, its instance identifier
  and command and the data of the command, all inside the 256-byte buffer; no response to a command that is not
  supported. Setting the endpoint identifier re-registers the bus and changes the local identifier unless the
  new one is reserved, and makes the sender the remote of the bus even then; no other command changes an
  identifier, and none touches another bus or the PLDM module.\<close>

theorem control_request_answered:
  assumes "mctp_started lib bus s" "control_request lib msg"
  shows "\<exists>s'. mctp_fw_receive_from_mctp plib lib src bus msg s = Some s' \<and> mf_pldm s' = mf_pldm s \<and>
    length (txbuf s') = TX_BUFFER_SIZE \<and>
    elem_ctx_table s' = (elem_ctx_table s)[unat bus := control_elem lib src msg (element bus s)] \<and>
    mf_calls s' = mf_calls s @ control_calls lib (element bus s) msg @
      (case control_answer lib (me_local_eid (element bus s)) msg of None \<Rightarrow> []
       | Some d \<Rightarrow> [Message_tx (the (me_mctp (element bus s))) src False 0 (control_header lib msg @ d)])"
  using control_request_step [OF assms, of plib src] by (auto simp: mctp_started_def)

lemma packet_sent:
  assumes "pldm_fw_receive_from_transport_layer plib bus p len s = Some s'"
    and "get_pldm_request p = pldm_const plib PLDM_REQUEST"
  shows "\<exists>m sz. fw_sent s' = fw_sent s @
    [\<lparr>sp_bus = bus, sp_tag_owner = False, sp_msg_tag = 0, sp_packet = Some m, sp_size = sz\<rparr>]"
proof -
  obtain m sz t where "process_pldm_request plib p len (pldm_get_hash p) MCP s = Some ((m, sz), t)"
      "s' = send_pldm_packet bus False 0 (Some m) sz t"
    using assms by (auto simp: pldm_fw_receive_from_transport_layer_def)
  then show ?thesis
    using process_request_answers [of plib s p len "pldm_get_hash p"]
    by (auto simp: answers_def bmc_side_def send_pldm_packet_def)
qed

text \<open>The one packet a PLDM request makes the module send, whether libmctp takes it or not.\<close>

lemma pldm_request_sent:
  assumes "mctp_started lib bus s" "PLDM_MSG_TYPE \<noteq> mctp_const lib MCTP_CTRL_HDR_MSG_TYPE"
    and "pldm_fw_receive_from_transport_layer plib bus (pldm_of_bytes lib packet) (length packet) (mf_pldm s) = Some p"
    and "fw_sent p = fw_sent (mf_pldm s) @
      [\<lparr>sp_bus = bus, sp_tag_owner = False, sp_msg_tag = 0, sp_packet = Some m, sp_size = sz\<rparr>]"
    and "tx = Message_tx (the (me_mctp (element bus s))) (me_remote_eid (element bus s)) False 0
      (MCTP_MSG_TYPE_PLDM # bytes_of_pldm lib m sz)"
  shows "if mctp_message_tx lib (mf_calls s @ [tx]) \<noteq> 0
    then mctp_fw_receive_from_mctp plib lib src bus (PLDM_MSG_TYPE # packet) s = None
    else \<exists>s'. mctp_fw_receive_from_mctp plib lib src bus (PLDM_MSG_TYPE # packet) s = Some s' \<and>
      mctp_started lib bus s' \<and> mf_pldm s' = p \<and> element bus s' = element bus s \<and>
      mf_calls s' = mf_calls s @ [tx]"
proof -
  obtain h where h: "me_mctp (element bus s) = Some h" using started_elem(3) [OF assms(1)] by blast
  have bus: "known_bus lib bus" using assms(1) by (simp add: mctp_started_def)
  have e: "elem_of bus (s\<lparr>mf_pldm := p\<rparr>) = Some (element bus s)" and st: "mctp_started lib bus (s\<lparr>mf_pldm := p\<rparr>)"
    and el: "element bus (s\<lparr>mf_pldm := p\<rparr>) = element bus s"
    using started_elem(1,2) [OF assms(1)] assms(1) by (simp_all add: elem_of_def mctp_started_def element_def)
  have st': "mctp_started lib bus (mctp_log c (s\<lparr>mf_pldm := p\<rparr>))" for c
    using st by (simp add: mctp_started_def)
  show ?thesis
    using assms(2,3,4,5) e el h known_bus_mctp [OF bus e] st'
    by (simp add: mctp_fw_receive_from_mctp_def pldm_receive_def deliver_pldm_packet_def
        mctp_fw_receive_from_app_layer_def process_mctp_fw_tx_def Let_def)
qed

text \<open>C34. The endpoint and the application layer together. After the bus owner has assigned a permitted
  endpoint identifier on a bus, which is answered and re-registers the bus, a PLDM request on that bus is handed
  to the PLDM module without its type byte. If the PLDM module stops on it (an error of libpldm trips
  PLDM_ASSERT), so does this one. Otherwise the one packet the PLDM module makes goes to libmctp behind the PLDM
  type byte on the same instance, addressed to the owner that assigned the identifier, whichever endpoint the
  request came from; if libmctp refuses it, the module stops, and if not, a later query of the identifier, from
  anyone and of as little as three bytes, reads the one assigned. Nothing else is sent.
  The command codes and message types of libmctp that the branches compare are taken to be distinct.\<close>

theorem endpoint_assignment_routes_pldm:
  assumes "mctp_started lib bus s" "control_request lib req" "assigns lib req = Some eid"
    and "control_request lib query" "query ! 2 = mctp_const lib MCTP_CTRL_CMD_GET_ENDPOINT_ID"
    and "mctp_const lib MCTP_CTRL_CMD_GET_ENDPOINT_ID \<noteq> mctp_const lib MCTP_CTRL_CMD_SET_ENDPOINT_ID"
    and "PLDM_MSG_TYPE \<noteq> mctp_const lib MCTP_CTRL_HDR_MSG_TYPE"
    and "get_pldm_request (pldm_of_bytes lib packet) = pldm_const plib PLDM_REQUEST"
  shows "\<exists>s1 h b. me_mctp (element bus s) = Some h \<and> me_binding (element bus s) = Some b \<and>
    mctp_fw_receive_from_mctp plib lib owner bus req s = Some s1 \<and> mf_pldm s1 = mf_pldm s \<and>
    mf_calls s1 = mf_calls s @ [Unregister_bus h b, Register_bus h b eid,
      Message_tx h owner False 0 (control_header lib req @ [mctp_const lib MCTP_CTRL_CC_SUCCESS, 0, eid, 0])] \<and>
    (case pldm_fw_receive_from_transport_layer plib bus (pldm_of_bytes lib packet) (length packet) (mf_pldm s) of
       None \<Rightarrow> mctp_fw_receive_from_mctp plib lib peer bus (PLDM_MSG_TYPE # packet) s1 = None
     | Some p \<Rightarrow>
        \<exists>m sz tx. fw_sent p = fw_sent (mf_pldm s) @
          [\<lparr>sp_bus = bus, sp_tag_owner = False, sp_msg_tag = 0, sp_packet = Some m, sp_size = sz\<rparr>] \<and>
        tx = Message_tx h owner False 0 (MCTP_MSG_TYPE_PLDM # bytes_of_pldm lib m sz) \<and>
        (if mctp_message_tx lib (mf_calls s1 @ [tx]) \<noteq> 0
         then mctp_fw_receive_from_mctp plib lib peer bus (PLDM_MSG_TYPE # packet) s1 = None
         else \<exists>s2 s3. mctp_fw_receive_from_mctp plib lib peer bus (PLDM_MSG_TYPE # packet) s1 = Some s2 \<and>
           mf_pldm s2 = p \<and> mf_calls s2 = mf_calls s1 @ [tx] \<and>
           mctp_fw_receive_from_mctp plib lib reader bus query s2 = Some s3 \<and> mf_pldm s3 = p \<and>
           mf_calls s3 = mf_calls s2 @ [Message_tx h reader False 0
             (control_header lib query @ [mctp_const lib MCTP_CTRL_CC_SUCCESS, eid, 0, 0])]))"
proof -
  obtain h b where hb: "me_mctp (element bus s) = Some h" "me_binding (element bus s) = Some b"
    using started_elem(3) [OF assms(1)] by blast
  have cmd: "req ! 2 = mctp_const lib MCTP_CTRL_CMD_SET_ENDPOINT_ID"
    and answer: "control_answer lib l req = Some [mctp_const lib MCTP_CTRL_CC_SUCCESS, 0, eid, 0]" for l
    using assms(3) by (auto simp: assigns_def control_answer_def Let_def split: if_splits)
  obtain s1 where s1: "mctp_fw_receive_from_mctp plib lib owner bus req s = Some s1" "mctp_started lib bus s1"
      "mf_pldm s1 = mf_pldm s" "element bus s1 = control_elem lib owner req (element bus s)"
      "mf_calls s1 = mf_calls s @ [Unregister_bus h b, Register_bus h b eid,
        Message_tx h owner False 0 (control_header lib req @ [mctp_const lib MCTP_CTRL_CC_SUCCESS, 0, eid, 0])]"
    using control_request_step [OF assms(1,2), of plib owner] answer assms(3) hb by (auto simp: control_calls_def)
  have e1: "me_mctp (element bus s1) = Some h" "me_local_eid (element bus s1) = eid" "me_remote_eid (element bus s1) = owner"
    using s1(4) hb assms(3) cmd by (simp_all add: control_elem_def Let_def)
  have query: "control_answer lib l query = Some [mctp_const lib MCTP_CTRL_CC_SUCCESS, l, 0, 0]"
    "assigns lib query = None" for l
    using assms(5,6) by (simp_all add: control_answer_def assigns_def Let_def)
  show ?thesis
  proof (cases "pldm_fw_receive_from_transport_layer plib bus (pldm_of_bytes lib packet) (length packet) (mf_pldm s)")
    case None
    then have "mctp_fw_receive_from_mctp plib lib peer bus (PLDM_MSG_TYPE # packet) s1 = None"
      using assms(7) s1(3) by (simp add: mctp_fw_receive_from_mctp_def pldm_receive_def)
    then show ?thesis using None hb s1 by auto
  next
    case (Some p)
    obtain m sz where sent: "fw_sent p = fw_sent (mf_pldm s) @
        [\<lparr>sp_bus = bus, sp_tag_owner = False, sp_msg_tag = 0, sp_packet = Some m, sp_size = sz\<rparr>]"
      using packet_sent [OF Some assms(8)] by blast
    let ?tx = "Message_tx h owner False 0 (MCTP_MSG_TYPE_PLDM # bytes_of_pldm lib m sz)"
    note out = pldm_request_sent [OF s1(2) assms(7), of plib packet p m sz ?tx peer, unfolded s1(3), OF Some sent]
    show ?thesis
    proof (cases "mctp_message_tx lib (mf_calls s1 @ [?tx]) = 0")
      case False
      then show ?thesis using Some hb s1 sent out e1 by auto
    next
      case True
      with out e1 obtain s2 where s2: "mctp_fw_receive_from_mctp plib lib peer bus (PLDM_MSG_TYPE # packet) s1 = Some s2"
          "mctp_started lib bus s2" "mf_pldm s2 = p" "element bus s2 = element bus s1" "mf_calls s2 = mf_calls s1 @ [?tx]"
        by auto
      obtain s3 where "mctp_fw_receive_from_mctp plib lib reader bus query s2 = Some s3" "mf_pldm s3 = p"
          "mf_calls s3 = mf_calls s2 @ [Message_tx h reader False 0
            (control_header lib query @ [mctp_const lib MCTP_CTRL_CC_SUCCESS, eid, 0, 0])]"
        using control_request_step [OF s2(2) assms(4), of plib reader] query s2(3,4) e1 by (auto simp: control_calls_def)
      then show ?thesis using True Some hb s1 s2 sent by auto
    qed
  qed
qed

section \<open>An example\<close>

text \<open>The constants of DSP0236, the wire format of DSP0240 for the PLDM header, both buses started with the
  identifiers of the \<open>rdv3r1\<close> configuration, and the PLDM module of \<open>Pldm_Example\<close>.\<close>

definition mctp_const0 :: "mctp_const \<Rightarrow> u8" where
  "mctp_const0 c = (case c of
      MCTP_CTRL_HDR_MSG_TYPE \<Rightarrow> 0 | MCTP_CTRL_HDR_FLAG_REQUEST \<Rightarrow> 0x80 | MCTP_CTRL_HDR_INSTANCE_ID_MASK \<Rightarrow> 0x1F
    | MCTP_CTRL_CC_SUCCESS \<Rightarrow> 0 | MCTP_CTRL_CC_ERROR_INVALID_DATA \<Rightarrow> 2 | MCTP_EID_NULL \<Rightarrow> 0 | MCTP_EID_BROADCAST \<Rightarrow> 0xFF
    | MCTP_CTRL_CMD_SET_ENDPOINT_ID \<Rightarrow> 1 | MCTP_CTRL_CMD_GET_ENDPOINT_ID \<Rightarrow> 2 | MCTP_CTRL_CMD_GET_ENDPOINT_UUID \<Rightarrow> 3
    | MCTP_CTRL_CMD_GET_VERSION_SUPPORT \<Rightarrow> 4 | MCTP_CTRL_CMD_GET_MESSAGE_TYPE_SUPPORT \<Rightarrow> 5
    | MCTP_CTRL_CMD_PREPARE_ENDPOINT_DISCOVERY \<Rightarrow> 0xB | MCTP_CTRL_CMD_ENDPOINT_DISCOVERY \<Rightarrow> 0xC)"

definition pldm_parse0 :: "u8 list \<Rightarrow> pldm_msg" where
  "pldm_parse0 bs = \<lparr>msg_request = drop_bit 7 (bs ! 0), msg_datagram = 0, msg_reserved = 0,
    msg_instance_id = bs ! 0 AND 0x1F, msg_header_ver = 0, msg_type = bs ! 1 AND 0x3F, msg_command = bs ! 2,
    msg_payload = drop 3 bs\<rparr>"

definition pldm_bytes0 :: "pldm_msg \<Rightarrow> nat \<Rightarrow> u8 list" where
  "pldm_bytes0 m n = take n ([push_bit 7 (msg_request m) OR msg_instance_id m, msg_type m, msg_command m] @ msg_payload m)"

definition mctp_lib0 :: mctp_lib where
  "mctp_lib0 = \<lparr>mctp_const = mctp_const0, mctp_ctx_init = (\<lambda>calls. Some (length calls)),
    mctp_message_tx = (\<lambda>_. 0), mctp_serial_register_tx = Some 5, mctp_pcc_register_tx = Some 6,
    pldm_of_bytes = pldm_parse0, bytes_of_pldm = pldm_bytes0, has_mctp_pcc = True\<rparr>"

definition mctp_state0 :: "unit mctp_fw" where
  "mctp_state0 = \<lparr>elem_ctx_table =
      [\<lparr>me_id = FWK_ID_ELEMENT 9 0, me_local_eid = 18, me_remote_eid = 8, me_bus = 0, me_bus_policy = 0,
         me_mctp = Some 1, me_binding = Some 5\<rparr>,
       \<lparr>me_id = FWK_ID_ELEMENT 9 1, me_local_eid = 9, me_remote_eid = 8, me_bus = 1, me_bus_policy = 1,
         me_mctp = Some 2, me_binding = Some 6\<rparr>],
    txbuf = replicate 256 0, mf_calls = [], mf_pldm = fw0\<rparr>"

lemma mctp_state0_started: "mctp_started mctp_lib0 0 mctp_state0"
  by (simp add: mctp_started_def known_bus_def elem_of_def mctp_state0_def TX_BUFFER_SIZE_def
      MCTP_FW_BIND_SERIAL_API_IDX_def)

theorem control_request_answered_witness:
  "\<exists>s'. mctp_fw_receive_from_mctp lib0 mctp_lib0 8 0 [0, 0x83, 2] mctp_state0 = Some s' \<and>
    mf_calls s' = [Message_tx 1 8 False 0 [0, 3, 2, 0, 18, 0, 0]]"
proof -
  let ?m = "[0, 0x83, 2] :: u8 list"
  have "control_request mctp_lib0 ?m" by code_simp
  moreover have "control_answer mctp_lib0 (me_local_eid (element 0 mctp_state0)) ?m = Some [0, 18, 0, 0]"
    "control_calls mctp_lib0 (element 0 mctp_state0) ?m = []" "control_header mctp_lib0 ?m = [0, 3, 2]"
    "me_mctp (element 0 mctp_state0) = Some 1" "mf_calls mctp_state0 = []"
    by code_simp+
  ultimately show ?thesis
    using control_request_answered [OF mctp_state0_started, of ?m lib0 8] by auto
qed

theorem endpoint_assignment_routes_pldm_witness:
  "\<exists>s1 s2 s3 m sz. mctp_fw_receive_from_mctp lib0 mctp_lib0 8 0 [0, 0x80, 1, 0, 30] mctp_state0 = Some s1 \<and>
    mctp_fw_receive_from_mctp lib0 mctp_lib0 40 0 [1, 0x80, 0, 2] s1 = Some s2 \<and>
    mctp_fw_receive_from_mctp lib0 mctp_lib0 41 0 [0, 0x80, 2] s2 = Some s3 \<and>
    mf_calls s3 = [Unregister_bus 1 5, Register_bus 1 5 30, Message_tx 1 8 False 0 [0, 0, 1, 0, 0, 30, 0],
      Message_tx 1 8 False 0 (1 # pldm_bytes0 m sz), Message_tx 1 41 False 0 [0, 0, 2, 0, 30, 0, 0]]"
proof -
  let ?rq = "[0, 0x80, 1, 0, 30] :: u8 list" and ?qy = "[0, 0x80, 2] :: u8 list"
  have rq: "control_request mctp_lib0 ?rq" "assigns mctp_lib0 ?rq = Some 30"
    and qy: "control_request mctp_lib0 ?qy" "?qy ! 2 = mctp_const mctp_lib0 MCTP_CTRL_CMD_GET_ENDPOINT_ID"
    and cs: "mctp_const mctp_lib0 MCTP_CTRL_CMD_GET_ENDPOINT_ID \<noteq> mctp_const mctp_lib0 MCTP_CTRL_CMD_SET_ENDPOINT_ID"
      "PLDM_MSG_TYPE \<noteq> mctp_const mctp_lib0 MCTP_CTRL_HDR_MSG_TYPE"
    and req: "get_pldm_request (pldm_of_bytes mctp_lib0 [0x80, 0, 2]) = pldm_const lib0 PLDM_REQUEST"
    and heads: "control_header mctp_lib0 ?rq = [0, 0, 1]" "control_header mctp_lib0 ?qy = [0, 0, 2]"
      "mctp_const mctp_lib0 MCTP_CTRL_CC_SUCCESS = 0" "mf_calls mctp_state0 = []"
      "me_mctp (element 0 mctp_state0) = Some 1" "me_binding (element 0 mctp_state0) = Some 5"
      "PLDM_MSG_TYPE = 1" "MCTP_MSG_TYPE_PLDM = 1"
    by code_simp+
  have tx: "mctp_message_tx mctp_lib0 calls = 0" for calls by (simp add: mctp_lib0_def)
  have bytes: "bytes_of_pldm mctp_lib0 = pldm_bytes0" by (simp add: mctp_lib0_def)
  have "pldm_fw_receive_from_transport_layer lib0 0 (pldm_of_bytes mctp_lib0 [0x80, 0, 2]) (length [0x80 :: u8, 0, 2])
      (mf_pldm mctp_state0) \<noteq> None" by code_simp
  then obtain p where p: "pldm_fw_receive_from_transport_layer lib0 0 (pldm_of_bytes mctp_lib0 [0x80, 0, 2])
      (length [0x80 :: u8, 0, 2]) (mf_pldm mctp_state0) = Some p" by blast
  from endpoint_assignment_routes_pldm [OF mctp_state0_started rq qy cs req, of 8 40 41]
  show ?thesis by (auto simp: heads bytes tx p [simplified]) blast
qed

end
