(* ===== verification/Mctp_Pcc.thy ===== *)
theory Mctp_Pcc
  imports Pldm_Queue Fwk_Event
begin

unbundle bit_operations_syntax

text \<open>
  The PCC binding of MCTP (\<open>mod_mctp_pcc.c\<close>): MCTP packets are framed with a 16-byte header for a shared
  memory channel. The transport module and libmctp are parameters: the calls into them are recorded in
  order, and the results are functions of the channel or of the calls made so far.
\<close>

section \<open>Data\<close>

definition PCC_SUBSPACE_0 :: u32 where "PCC_SUBSPACE_0 = 0x50434300"
definition PCC_SUBSPACE_1 :: u32 where "PCC_SUBSPACE_1 = 0x50434301"
definition PCC_MCTP_COMMAND :: u32 where "PCC_MCTP_COMMAND = 0x5054434D"
definition PCC_TX_BUFFER_SIZE :: nat where "PCC_TX_BUFFER_SIZE = 128"

text \<open>The packed members of \<open>mctp_pcc_pkt\<close>: offsets of the words and of the payload.\<close>

definition PCC_SIGNATURE :: nat where "PCC_SIGNATURE = 0"
definition PCC_FLAGS :: nat where "PCC_FLAGS = 4"
definition PCC_LENGTH :: nat where "PCC_LENGTH = 8"
definition PCC_COMMAND :: nat where "PCC_COMMAND = 12"
definition PCC_PAYLOAD :: nat where "PCC_PAYLOAD = 16"

lemmas pcc_layout = PCC_SIGNATURE_def PCC_FLAGS_def PCC_LENGTH_def PCC_COMMAND_def PCC_PAYLOAD_def
  PCC_TX_BUFFER_SIZE_def

datatype pcc_call =
    Transmit fwk_id u32 "u8 list" bool
  | Pcc_rx "u8 list"
  | Release_lock fwk_id

record pcc_env =
  transport_get_payload :: "fwk_id \<Rightarrow> u8 list"
  transport_transmit :: "pcc_call list \<Rightarrow> int"
  pcc_init :: "nat option"
  fwk_module_idx_mctp_pcc :: u32

record mctp_pcc_ctx =
  pcc_channel_id :: fwk_id
  pcc_config_count :: nat
  pcc_binding :: "nat option"
  pcc_calls :: "pcc_call list"

definition pcc_log :: "pcc_call \<Rightarrow> mctp_pcc_ctx \<Rightarrow> mctp_pcc_ctx" where
  "pcc_log c s = s\<lparr>pcc_calls := pcc_calls s @ [c]\<rparr>"

section \<open>Operations\<close>

definition mod_mctp_pcc_init :: "pcc_env \<Rightarrow> bool \<Rightarrow> u32 \<Rightarrow> mctp_pcc_ctx \<Rightarrow> (int \<times> mctp_pcc_ctx) option" where
  "mod_mctp_pcc_init env debug element_count s =
    (if element_count = 0 then do { fwk_unexpected debug; Some (FWK_E_PARAM, s) }
     else Some (FWK_SUCCESS, s\<lparr>pcc_config_count := unat element_count,
       pcc_channel_id := FWK_ID_ELEMENT (fwk_module_idx_mctp_pcc env) 0\<rparr>))"

definition mod_mctp_pcc_start :: "pcc_env \<Rightarrow> fwk_id \<Rightarrow> mctp_pcc_ctx \<Rightarrow> (int \<times> mctp_pcc_ctx) option" where
  "mod_mctp_pcc_start env ident s = do {
    module \<leftarrow> fwk_id_is_type ident FWK_ID_TYPE_MODULE;
    if \<not> module then Some (FWK_SUCCESS, s)
    else do {
      fwk_assert (pcc_init env \<noteq> None);
      Some (FWK_SUCCESS, s\<lparr>pcc_binding := pcc_init env\<rparr>) } }"

text \<open>The frame is built in a zeroed buffer on the stack; sizes are 32-bit.\<close>

definition pcc_header :: "u32 \<Rightarrow> u32 \<Rightarrow> u8 list \<Rightarrow> u8 list" where
  "pcc_header signature len buf =
    params_put32 PCC_COMMAND PCC_MCTP_COMMAND
      (params_put32 PCC_LENGTH (len + 4) (params_put32 PCC_FLAGS 0 (params_put32 PCC_SIGNATURE signature buf)))"

definition mod_mctp_pcc_tx_fn :: "pcc_env \<Rightarrow> u8 list \<Rightarrow> mctp_pcc_ctx \<Rightarrow> (int \<times> mctp_pcc_ctx) option" where
  "mod_mctp_pcc_tx_fn env buf s =
    (let len = of_nat (length buf) :: u32;
         tx_buf = pcc_header PCC_SUBSPACE_1 len (replicate PCC_TX_BUFFER_SIZE 0);
         tx_buf_size = len + of_nat PCC_PAYLOAD
     in if unat tx_buf_size > PCC_TX_BUFFER_SIZE then Some (FWK_E_NOMEM, s)
     else do {
       tx_buf \<leftarrow> mem_write tx_buf PCC_PAYLOAD buf;
       let s = pcc_log (Transmit (pcc_channel_id s) 0 (take (unat tx_buf_size) tx_buf) False) s;
       Some (if transport_transmit env (pcc_calls s) \<noteq> FWK_SUCCESS then FWK_E_BUSY else FWK_SUCCESS, s) })"

definition mctp_pcc_signal_error :: "fwk_id \<Rightarrow> mctp_pcc_ctx \<Rightarrow> int \<times> mctp_pcc_ctx" where
  "mctp_pcc_signal_error channel_id s = (FWK_SUCCESS, s)"

text \<open>The payload of the channel is read in place; only the signature and the command are compared. libmctp
  copies as many bytes as the length says.\<close>

definition mctp_pcc_signal_message :: "pcc_env \<Rightarrow> fwk_id \<Rightarrow> mctp_pcc_ctx \<Rightarrow> (int \<times> mctp_pcc_ctx) option" where
  "mctp_pcc_signal_message env channel_id s = do {
    let msg = transport_get_payload env channel_id;
    fwk_assert (PCC_SIGNATURE + 4 \<le> length msg);
    if params_get32 PCC_SIGNATURE msg \<noteq> PCC_SUBSPACE_0 then Some (FWK_SUCCESS, s)
    else do {
      fwk_assert (PCC_COMMAND + 4 \<le> length msg);
      let payload_length = params_get32 PCC_LENGTH msg - 4;
      s \<leftarrow> (if params_get32 PCC_COMMAND msg = PCC_MCTP_COMMAND
        then do {
          payload \<leftarrow> mem_read msg PCC_PAYLOAD (unat payload_length);
          Some (pcc_log (Pcc_rx payload) s) }
        else Some s);
      Some (FWK_SUCCESS, pcc_log (Release_lock channel_id) s) } }"

definition mctp_pcc_register_tx :: "mctp_pcc_ctx \<Rightarrow> nat option" where
  "mctp_pcc_register_tx s = pcc_binding s"

datatype pcc_api = mctp_pcc_signal_api | mctp_pcc_api

definition mod_mctp_pcc_bind_request :: "fwk_id \<Rightarrow> (int \<times> pcc_api option) option" where
  "mod_mctp_pcc_bind_request api_id = do {
    i \<leftarrow> fwk_id_get_api_idx api_id;
    Some (if i = 0 then (FWK_SUCCESS, Some mctp_pcc_signal_api)
      else if i = 1 then (FWK_SUCCESS, Some mctp_pcc_api) else (FWK_E_PARAM, None)) }"

section \<open>Frames\<close>

text \<open>A frame for a payload, as either end builds it.\<close>

definition pcc_frame :: "u32 \<Rightarrow> u8 list \<Rightarrow> u8 list" where
  "pcc_frame signature payload =
    pcc_header signature (of_nat (length payload)) (replicate PCC_PAYLOAD 0) @ payload"

lemma length_pcc_header [simp]: "length (pcc_header signature n buf) = length buf"
  by (simp add: pcc_header_def)

lemma pcc_header_words:
  assumes "PCC_PAYLOAD \<le> length buf"
  shows "params_get32 PCC_SIGNATURE (pcc_header signature n buf) = signature"
    and "params_get32 PCC_LENGTH (pcc_header signature n buf) = n + 4"
    and "params_get32 PCC_COMMAND (pcc_header signature n buf) = PCC_MCTP_COMMAND"
  using assms by (simp_all add: pcc_header_def pcc_layout)

lemma params_get32_append: "off + 3 < length xs \<Longrightarrow> params_get32 off (xs @ ys) = params_get32 off xs"
  by (simp add: params_get32_def nth_append)

lemma pcc_frame_words:
  "params_get32 PCC_SIGNATURE (pcc_frame signature payload) = signature"
  "params_get32 PCC_LENGTH (pcc_frame signature payload) = of_nat (length payload) + 4"
  "params_get32 PCC_COMMAND (pcc_frame signature payload) = PCC_MCTP_COMMAND"
  using pcc_header_words [of "replicate PCC_PAYLOAD 0" signature "of_nat (length payload)"]
  by (simp_all add: pcc_frame_def params_get32_append pcc_layout)

lemma take_pcc_header:
  "16 \<le> n \<Longrightarrow> take 16 (pcc_header signature k (replicate n 0)) = pcc_header signature k (replicate 16 0)"
  by (simp add: pcc_header_def params_put32_def pcc_layout take_update_swap min_def)

lemma length_pcc_frame [simp]: "length (pcc_frame signature payload) = PCC_PAYLOAD + length payload"
  by (simp add: pcc_frame_def)

lemma tx_sends_frame:
  assumes "length payload \<le> 112"
  shows "mod_mctp_pcc_tx_fn env payload s =
    (let t = pcc_log (Transmit (pcc_channel_id s) 0 (pcc_frame PCC_SUBSPACE_1 payload) False) s
     in Some (if transport_transmit env (pcc_calls t) \<noteq> FWK_SUCCESS then FWK_E_BUSY else FWK_SUCCESS, t))"
proof -
  define n :: u32 where "n = of_nat (length payload)"
  have sz: "unat (n + of_nat PCC_PAYLOAD) = 16 + length payload"
  proof -
    have "unat (of_nat (16 + length payload) :: u32) = 16 + length payload"
      using assms by (simp only: unat_of_nat) simp
    then show ?thesis by (simp add: n_def pcc_layout add.commute)
  qed
  have "mem_write (pcc_header PCC_SUBSPACE_1 n (replicate PCC_TX_BUFFER_SIZE 0)) PCC_PAYLOAD payload
      = Some (pcc_frame PCC_SUBSPACE_1 payload @
          drop (16 + length payload) (pcc_header PCC_SUBSPACE_1 n (replicate PCC_TX_BUFFER_SIZE 0)))"
    using assms by (simp add: mem_write_def pcc_frame_def take_pcc_header n_def pcc_layout)
  then show ?thesis
    using sz assms by (simp add: mod_mctp_pcc_tx_fn_def Let_def PCC_TX_BUFFER_SIZE_def PCC_PAYLOAD_def
        flip: n_def)
qed

text \<open>C35. The frames of the PCC binding. A packet of at most 112 bytes is transmitted as one frame of its
  length plus 16 bytes, all inside the 128-byte buffer, and a longer one is refused with \<open>FWK_E_NOMEM\<close> before
  anything is copied or sent. A frame of the peer's signature, with whatever follows it in the channel, hands
  exactly its payload to libmctp and releases the channel; a frame with another signature is dropped and the
  channel stays locked.\<close>

theorem pcc_frame_roundtrip:
  assumes "length payload \<le> 112" "length long > 112" "length long + 16 < 2 ^ 32"
    and "transport_get_payload env ch = pcc_frame PCC_SUBSPACE_0 payload @ rest"
    and "transport_get_payload env ch' = pcc_frame signature payload @ rest" "signature \<noteq> PCC_SUBSPACE_0"
  shows "(\<exists>status. status \<in> {FWK_SUCCESS, FWK_E_BUSY} \<and> mod_mctp_pcc_tx_fn env payload s = Some (status,
        pcc_log (Transmit (pcc_channel_id s) 0 (pcc_frame PCC_SUBSPACE_1 payload) False) s)) \<and>
    mod_mctp_pcc_tx_fn env long s = Some (FWK_E_NOMEM, s) \<and>
    mctp_pcc_signal_message env ch s = Some (FWK_SUCCESS, pcc_log (Release_lock ch) (pcc_log (Pcc_rx payload) s)) \<and>
    mctp_pcc_signal_message env ch' s = Some (FWK_SUCCESS, s)"
proof (intro conjI)
  show "\<exists>status. status \<in> {FWK_SUCCESS, FWK_E_BUSY} \<and> mod_mctp_pcc_tx_fn env payload s = Some (status,
      pcc_log (Transmit (pcc_channel_id s) 0 (pcc_frame PCC_SUBSPACE_1 payload) False) s)"
    using tx_sends_frame [OF assms(1)] by (simp add: Let_def)
  have "unat (of_nat (length long) + of_nat PCC_PAYLOAD :: u32) = length long + 16"
  proof -
    have "unat (of_nat (length long + 16) :: u32) = length long + 16"
      using assms(3) by (simp only: unat_of_nat) simp
    then show ?thesis by (simp add: pcc_layout)
  qed
  then show "mod_mctp_pcc_tx_fn env long s = Some (FWK_E_NOMEM, s)"
    using assms(2) by (simp add: mod_mctp_pcc_tx_fn_def Let_def PCC_TX_BUFFER_SIZE_def)
  have head: "params_get32 off (pcc_frame sg payload @ rest) = params_get32 off (pcc_frame sg payload)"
    if "off \<le> PCC_COMMAND" for off sg
    using that by (intro params_get32_append) (simp add: pcc_layout)
  have len: "unat (of_nat (length payload) + 4 - 4 :: u32) = length payload"
    using assms(1) by (simp add: unat_of_nat)
  have "mem_read (pcc_frame PCC_SUBSPACE_0 payload @ rest) PCC_PAYLOAD (length payload) = Some payload"
    by (simp add: mem_read_def pcc_frame_def)
  then show "mctp_pcc_signal_message env ch s
      = Some (FWK_SUCCESS, pcc_log (Release_lock ch) (pcc_log (Pcc_rx payload) s))"
    using len head [of PCC_SIGNATURE] head [of PCC_LENGTH] head [of PCC_COMMAND]
    by (simp add: mctp_pcc_signal_message_def assms(4) pcc_frame_words Let_def) (simp add: pcc_layout)
  show "mctp_pcc_signal_message env ch' s = Some (FWK_SUCCESS, s)"
    using assms(6) head [of PCC_SIGNATURE] pcc_frame_words(1)
    by (simp add: mctp_pcc_signal_message_def assms(5) Let_def) (simp add: pcc_layout)
qed

definition pcc_env0 :: pcc_env where
  "pcc_env0 = \<lparr>transport_get_payload = (\<lambda>ch. pcc_frame (if ch = 3 then PCC_SUBSPACE_0 else PCC_SUBSPACE_1) [1, 8, 9, 0xC8] @ [7]),
    transport_transmit = (\<lambda>_. 0), pcc_init = Some 1, fwk_module_idx_mctp_pcc = 9\<rparr>"

definition pcc_ctx0 :: mctp_pcc_ctx where
  "pcc_ctx0 = \<lparr>pcc_channel_id = 3, pcc_config_count = 2, pcc_binding = Some 1, pcc_calls = []\<rparr>"

theorem pcc_frame_roundtrip_witness:
  "mod_mctp_pcc_tx_fn pcc_env0 (replicate 113 0) pcc_ctx0 = Some (FWK_E_NOMEM, pcc_ctx0) \<and>
    mctp_pcc_signal_message pcc_env0 3 pcc_ctx0
      = Some (FWK_SUCCESS, pcc_log (Release_lock 3) (pcc_log (Pcc_rx [1, 8, 9, 0xC8]) pcc_ctx0)) \<and>
    mctp_pcc_signal_message pcc_env0 4 pcc_ctx0 = Some (FWK_SUCCESS, pcc_ctx0)"
  using pcc_frame_roundtrip [of "[1, 8, 9, 0xC8]" "replicate 113 0" pcc_env0 3 "[7]" 4 PCC_SUBSPACE_1 pcc_ctx0]
  by (simp add: pcc_env0_def PCC_SUBSPACE_0_def PCC_SUBSPACE_1_def)

end
