(* ===== verification/Scmi_Types.thy ===== *)
theory Scmi_Types
  imports Fwk_Notification Rp_Perms
begin

unbundle bit_operations_syntax

text \<open>
  The data of the SCMI module (\<open>module/scmi\<close>): message headers, configuration, the contexts of services and
  protocols, the notification subscribers. A payload is the list of its bytes, \<open>None\<close> a null pointer. The calls
  into the transport are recorded in order; what the transport returns is a function of the calls so far.
\<close>

section \<open>Constants\<close>

definition SCMI_SUCCESS :: int where "SCMI_SUCCESS = 0"
definition SCMI_NOT_SUPPORTED :: int where "SCMI_NOT_SUPPORTED = - 1"
definition SCMI_INVALID_PARAMETERS :: int where "SCMI_INVALID_PARAMETERS = - 2"
definition SCMI_DENIED :: int where "SCMI_DENIED = - 3"
definition SCMI_NOT_FOUND :: int where "SCMI_NOT_FOUND = - 4"
definition SCMI_GENERIC_ERROR :: int where "SCMI_GENERIC_ERROR = - 8"
definition SCMI_PROTOCOL_ERROR :: int where "SCMI_PROTOCOL_ERROR = - 10"

lemmas scmi_errors = SCMI_SUCCESS_def SCMI_NOT_SUPPORTED_def SCMI_INVALID_PARAMETERS_def SCMI_DENIED_def
  SCMI_NOT_FOUND_def SCMI_GENERIC_ERROR_def SCMI_PROTOCOL_ERROR_def

definition MOD_SCMI_PLATFORM_ID :: u32 where "MOD_SCMI_PLATFORM_ID = 0"
definition MOD_SCMI_AGENT_ID_MAX :: u32 where "MOD_SCMI_AGENT_ID_MAX = 0xFF"
definition MOD_SCMI_PROTOCOL_ID_MAX :: nat where "MOD_SCMI_PROTOCOL_ID_MAX = 0xFF"
definition MOD_SCMI_PROTOCOL_ID_PIN_CONTROL :: u32 where "MOD_SCMI_PROTOCOL_ID_PIN_CONTROL = 0x19"
definition MOD_SCMI_MESSAGE_ID_ATTRIBUTE :: u32 where "MOD_SCMI_MESSAGE_ID_ATTRIBUTE = 3"
definition SCMI_PROTOCOL_VERSION_BASE :: u32 where "SCMI_PROTOCOL_VERSION_BASE = 0x20000"
definition MOD_RES_PERMS_PERMISSIONS_MASK :: u32 where "MOD_RES_PERMS_PERMISSIONS_MASK = 1"

definition PROTOCOL_TABLE_BASE_PROTOCOL_IDX :: u8 where "PROTOCOL_TABLE_BASE_PROTOCOL_IDX = 1"
definition PROTOCOL_TABLE_RESERVED_ENTRIES_COUNT :: u32 where "PROTOCOL_TABLE_RESERVED_ENTRIES_COUNT = 2"
definition MOD_SCMI_PROTOCOL_MAX_OPERATION_ID :: u32 where "MOD_SCMI_PROTOCOL_MAX_OPERATION_ID = 0x20"
definition MOD_SCMI_PROTOCOL_OPERATION_IDX_INVALID :: u8 where "MOD_SCMI_PROTOCOL_OPERATION_IDX_INVALID = 0xFF"

text \<open>\<open>enum mod_scmi_message_type\<close> is read from two bits of the header, \<open>enum scmi_agent_type\<close> is an index.\<close>

definition MOD_SCMI_MESSAGE_TYPE_COMMAND :: u8 where "MOD_SCMI_MESSAGE_TYPE_COMMAND = 0"
definition MOD_SCMI_MESSAGE_TYPE_DELAYED_RESPONSE :: u8 where "MOD_SCMI_MESSAGE_TYPE_DELAYED_RESPONSE = 2"
definition MOD_SCMI_MESSAGE_TYPE_NOTIFICATION :: u8 where "MOD_SCMI_MESSAGE_TYPE_NOTIFICATION = 3"
definition SCMI_AGENT_TYPE_PSCI :: u32 where "SCMI_AGENT_TYPE_PSCI = 0"
definition SCMI_AGENT_TYPE_COUNT :: u32 where "SCMI_AGENT_TYPE_COUNT = 4"

datatype mod_scmi_entity_role = MOD_SCMI_ROLE_PLATFORM | MOD_SCMI_ROLE_AGENT

section \<open>Message headers\<close>

definition SCMI_MESSAGE_HEADER_MESSAGE_ID_POS :: nat where "SCMI_MESSAGE_HEADER_MESSAGE_ID_POS = 0"
definition SCMI_MESSAGE_HEADER_MESSAGE_TYPE_POS :: nat where "SCMI_MESSAGE_HEADER_MESSAGE_TYPE_POS = 8"
definition SCMI_MESSAGE_HEADER_PROTOCOL_ID_POS :: nat where "SCMI_MESSAGE_HEADER_PROTOCOL_ID_POS = 10"
definition SCMI_MESSAGE_HEADER_TOKEN_POS :: nat where "SCMI_MESSAGE_HEADER_TOKEN_POS = 18"

definition SCMI_MESSAGE_HEADER_MESSAGE_ID_MASK :: u32 where
  "SCMI_MESSAGE_HEADER_MESSAGE_ID_MASK = push_bit SCMI_MESSAGE_HEADER_MESSAGE_ID_POS 0xFF"
definition SCMI_MESSAGE_HEADER_MESSAGE_TYPE_MASK :: u32 where
  "SCMI_MESSAGE_HEADER_MESSAGE_TYPE_MASK = push_bit SCMI_MESSAGE_HEADER_MESSAGE_TYPE_POS 0x3"
definition SCMI_MESSAGE_HEADER_PROTOCOL_ID_MASK :: u32 where
  "SCMI_MESSAGE_HEADER_PROTOCOL_ID_MASK = push_bit SCMI_MESSAGE_HEADER_PROTOCOL_ID_POS 0xFF"
definition SCMI_MESSAGE_HEADER_TOKEN_MASK :: u32 where
  "SCMI_MESSAGE_HEADER_TOKEN_MASK = push_bit SCMI_MESSAGE_HEADER_TOKEN_POS 0x3FF"

lemmas header_defs = SCMI_MESSAGE_HEADER_MESSAGE_ID_POS_def SCMI_MESSAGE_HEADER_MESSAGE_TYPE_POS_def
  SCMI_MESSAGE_HEADER_PROTOCOL_ID_POS_def SCMI_MESSAGE_HEADER_TOKEN_POS_def
  SCMI_MESSAGE_HEADER_MESSAGE_ID_MASK_def SCMI_MESSAGE_HEADER_MESSAGE_TYPE_MASK_def
  SCMI_MESSAGE_HEADER_PROTOCOL_ID_MASK_def SCMI_MESSAGE_HEADER_TOKEN_MASK_def

text \<open>The shifts are of \<open>uint8_t\<close> values promoted to \<open>int\<close>: at most 8 bits shifted by 18 places, so nothing is
  lost.\<close>

definition scmi_message_header :: "u8 \<Rightarrow> u8 \<Rightarrow> u8 \<Rightarrow> u8 \<Rightarrow> u32" where
  "scmi_message_header message_id message_type protocol_id token =
    (push_bit SCMI_MESSAGE_HEADER_MESSAGE_ID_POS (ucast message_id) AND SCMI_MESSAGE_HEADER_MESSAGE_ID_MASK) OR
    (push_bit SCMI_MESSAGE_HEADER_MESSAGE_TYPE_POS (ucast message_type) AND SCMI_MESSAGE_HEADER_MESSAGE_TYPE_MASK) OR
    (push_bit SCMI_MESSAGE_HEADER_PROTOCOL_ID_POS (ucast protocol_id) AND SCMI_MESSAGE_HEADER_PROTOCOL_ID_MASK) OR
    (push_bit SCMI_MESSAGE_HEADER_TOKEN_POS (ucast token) AND SCMI_MESSAGE_HEADER_TOKEN_MASK)"

definition read_message_id :: "u32 \<Rightarrow> 16 word" where
  "read_message_id message_header =
    ucast (drop_bit SCMI_MESSAGE_HEADER_MESSAGE_ID_POS (message_header AND SCMI_MESSAGE_HEADER_MESSAGE_ID_MASK))"

definition read_message_type :: "u32 \<Rightarrow> u8" where
  "read_message_type message_header =
    ucast (drop_bit SCMI_MESSAGE_HEADER_MESSAGE_TYPE_POS (message_header AND SCMI_MESSAGE_HEADER_MESSAGE_TYPE_MASK))"

definition read_protocol_id :: "u32 \<Rightarrow> u8" where
  "read_protocol_id message_header =
    ucast (drop_bit SCMI_MESSAGE_HEADER_PROTOCOL_ID_POS (message_header AND SCMI_MESSAGE_HEADER_PROTOCOL_ID_MASK))"

definition read_token :: "u32 \<Rightarrow> 16 word" where
  "read_token message_header =
    ucast (drop_bit SCMI_MESSAGE_HEADER_TOKEN_POS (message_header AND SCMI_MESSAGE_HEADER_TOKEN_MASK))"

section \<open>Configuration\<close>

record mod_scmi_agent =
  ag_type :: u32
  ag_name :: "string option"

record mod_scmi_config =
  cf_protocol_count_max :: u32
  cf_protocol_requester_count_max :: u32
  cf_dis_protocol_count_psci :: u32
  cf_dis_protocol_list_psci :: "u32 list option"
  cf_agent_count :: u32
  cf_agent_table :: "mod_scmi_agent list"
  cf_vendor_identifier :: "string option"
  cf_sub_vendor_identifier :: "string option"

record mod_scmi_service_config =
  sc_transport_id :: fwk_id
  sc_transport_api_id :: fwk_id
  sc_transport_notification_init_id :: fwk_id
  sc_scmi_agent_id :: u32
  sc_scmi_p2a_id :: fwk_id
  sc_scmi_entity_role :: mod_scmi_entity_role

section \<open>Contexts\<close>

text \<open>Which members of a transport interface are not null: the five that \<open>scmi_bind\<close> tests, and the others.\<close>

record mod_scmi_to_transport_api =
  ta_readers :: bool
  ta_respond :: bool
  ta_transmit :: bool
  ta_release :: bool

text \<open>A message handler: that of the base protocol, or the one in the interface of a module.\<close>

datatype scmi_handler = Base_message_handler | Module_handler fwk_id

record scmi_protocol =
  pr_message_handler :: "scmi_handler option"
  pr_id :: fwk_id
  pr_notification_handler :: "scmi_handler option"

text \<open>\<open>sv_respond\<close> and \<open>sv_transmit\<close> are the copies of the two function pointers: whether they are set.\<close>

record scmi_service_ctx =
  sv_config :: "mod_scmi_service_config option"
  sv_transport_id :: fwk_id
  sv_transport_api :: "mod_scmi_to_transport_api option"
  sv_respond :: bool
  sv_transmit :: bool
  sv_scmi_token :: "16 word"
  sv_scmi_protocol_id :: u32
  sv_scmi_message_id :: u32
  sv_scmi_message_type :: u8

record scmi_notification_subscribers =
  ns_agent_count :: u32
  ns_element_count :: u32
  ns_operation_count :: u32
  ns_operation_idx :: u32
  ns_operation_id_to_idx :: "u8 list"
  ns_agent_service_ids :: "fwk_id list"

record mod_scmi_ctx =
  sm_config :: "mod_scmi_config option"
  sm_protocol_table :: "scmi_protocol list"
  sm_protocol_count :: u32
  sm_protocol_requester_table :: "scmi_protocol list"
  sm_protocol_requester_count :: u32
  sm_scmi_protocol_id_to_idx :: "u8 list"
  sm_scmi_protocol_requester_id_to_idx :: "u8 list"
  sm_service_ctx_table :: "scmi_service_ctx list"
  sm_scmi_notif_subscribers :: "scmi_notification_subscribers list"

definition scmi_protocol_zero :: scmi_protocol where
  "scmi_protocol_zero = \<lparr>pr_message_handler = None, pr_id = 0, pr_notification_handler = None\<rparr>"

definition scmi_service_ctx_zero :: scmi_service_ctx where
  "scmi_service_ctx_zero = \<lparr>sv_config = None, sv_transport_id = 0, sv_transport_api = None, sv_respond = False,
    sv_transmit = False, sv_scmi_token = 0, sv_scmi_protocol_id = 0, sv_scmi_message_id = 0,
    sv_scmi_message_type = 0\<rparr>"

definition scmi_subscribers_zero :: scmi_notification_subscribers where
  "scmi_subscribers_zero = \<lparr>ns_agent_count = 0, ns_element_count = 0, ns_operation_count = 0, ns_operation_idx = 0,
    ns_operation_id_to_idx = replicate (unat MOD_SCMI_PROTOCOL_MAX_OPERATION_ID) 0, ns_agent_service_ids = []\<rparr>"

text \<open>The static \<open>scmi_ctx\<close>; a null table is an empty one.\<close>

definition mod_scmi_ctx_zero :: mod_scmi_ctx where
  "mod_scmi_ctx_zero = \<lparr>sm_config = None, sm_protocol_table = [], sm_protocol_count = 0,
    sm_protocol_requester_table = [], sm_protocol_requester_count = 0,
    sm_scmi_protocol_id_to_idx = replicate (MOD_SCMI_PROTOCOL_ID_MAX + 1) 0,
    sm_scmi_protocol_requester_id_to_idx = replicate (MOD_SCMI_PROTOCOL_ID_MAX + 1) 0,
    sm_service_ctx_table = [], sm_scmi_notif_subscribers = []\<rparr>"

section \<open>The transport\<close>

text \<open>\<open>Respond_written\<close> is a response whose payload has been written before (a null pointer and a size).\<close>

datatype scmi_call =
    Respond fwk_id "u8 list"
  | Respond_written fwk_id u32
  | Write_payload fwk_id u32 "u8 list"
  | Transmit_message fwk_id u32 "u8 list" bool
  | Release_channel fwk_id

record scmi_state = fwk_state +
  scmi_ctx :: mod_scmi_ctx
  scmi_calls :: "scmi_call list"
  res_perms_state :: res_perms_ctx

text \<open>What the build and the other modules give: the modules compiled in, the status of a call into the transport
  and what it reads, the interfaces a binding returns, the message handlers of the protocol modules.\<close>

record mod_scmi_to_protocol_api =
  pa_get_scmi_protocol_id :: "(int \<times> u8) option"
  pa_message_handler :: bool
  pa_notification_handler :: bool

record 's scmi_env =
  has_base_protocol :: bool
  has_mod_resource_perms :: bool
  has_scmi_notifications :: bool
  has_notification :: bool
  fwk_build_version :: u32
  env_scmi_idx :: u32
  env_res_plat :: res_plat
  env_service_config :: "addr \<Rightarrow> mod_scmi_service_config option"
  tr_status :: "scmi_call list \<Rightarrow> int"
  tr_get_message_header :: "fwk_id \<Rightarrow> scmi_call list \<Rightarrow> int \<times> u32"
  tr_get_payload :: "fwk_id \<Rightarrow> scmi_call list \<Rightarrow> int \<times> u8 list option"
  tr_get_max_payload_size :: "fwk_id \<Rightarrow> scmi_call list \<Rightarrow> int \<times> u32"
  bind_transport :: "fwk_id \<Rightarrow> fwk_id \<Rightarrow> int \<times> mod_scmi_to_transport_api"
  bind_protocol :: "fwk_id \<Rightarrow> int \<times> mod_scmi_to_protocol_api"
  bind_res_perms :: int
  env_message_handler :: "fwk_id \<Rightarrow> fwk_id \<Rightarrow> fwk_id \<Rightarrow> u8 list option \<Rightarrow> u32 \<Rightarrow> 's \<Rightarrow> (int \<times> 's) option"
  env_notification_handler :: "fwk_id \<Rightarrow> fwk_id \<Rightarrow> fwk_id \<Rightarrow> u8 list option \<Rightarrow> u32 \<Rightarrow> 's \<Rightarrow> (int \<times> 's) option"

definition upd_scmi :: "(mod_scmi_ctx \<Rightarrow> mod_scmi_ctx) \<Rightarrow> 'a scmi_state_scheme \<Rightarrow> 'a scmi_state_scheme" where
  "upd_scmi f s = s\<lparr>scmi_ctx := f (scmi_ctx s)\<rparr>"

definition scmi_call_transport ::
  "('a scmi_state_scheme) scmi_env \<Rightarrow> scmi_call \<Rightarrow> 'a scmi_state_scheme \<Rightarrow> int \<times> 'a scmi_state_scheme" where
  "scmi_call_transport env c s = (let s = s\<lparr>scmi_calls := scmi_calls s @ [c]\<rparr> in (tr_status env (scmi_calls s), s))"

text \<open>Little-endian members of a response.\<close>

definition le32 :: "u32 \<Rightarrow> u8 list" where
  "le32 w = [ucast w, ucast (drop_bit 8 w), ucast (drop_bit 16 w), ucast (drop_bit 24 w)]"

definition status_bytes :: "int \<Rightarrow> u8 list" where
  "status_bytes status = le32 (word_of_int status)"

text \<open>Reading a member of a payload.\<close>

definition payload_get32 :: "nat \<Rightarrow> u8 list \<Rightarrow> u32 option" where
  "payload_get32 off p = do { fwk_assert (off + 3 < length p); Some (params_get32 off p) }"

text \<open>\<open>fwk_str_strncpy(dest, src, sizeof(dest) - 1)\<close> into a cleared member of \<open>n\<close> characters.\<close>

definition strncpy_field :: "nat \<Rightarrow> string \<Rightarrow> u8 list" where
  "strncpy_field n src = take (n - 1) (map of_char src @ replicate n 0) @ [0]"

end
