(* ===== verification/Scmi_Core.thy ===== *)
theory Scmi_Core
  imports Scmi_Types
begin

unbundle bit_operations_syntax

text \<open>
  The interfaces of \<open>mod_scmi.c\<close> to the transports and the protocol modules: agents, payloads and responses, the
  validation of a message, notifications and the messages an agent sends. \<open>None\<close> is a null pointer, an access
  outside a table or an index reader that stops.
\<close>

type_synonym 'a scmi = "'a scmi_state_scheme"

section \<open>Services\<close>

definition service_ctx :: "fwk_id \<Rightarrow> 'a scmi \<Rightarrow> scmi_service_ctx option" where
  "service_ctx service_id s = do {
    i \<leftarrow> fwk_id_get_element_idx service_id;
    let table = sm_service_ctx_table (scmi_ctx s);
    fwk_assert (unat i < length table);
    Some (table ! unat i) }"

definition upd_service :: "fwk_id \<Rightarrow> (scmi_service_ctx \<Rightarrow> scmi_service_ctx) \<Rightarrow> 'a scmi \<Rightarrow> 'a scmi option" where
  "upd_service service_id f s = do {
    i \<leftarrow> fwk_id_get_element_idx service_id;
    let table = sm_service_ctx_table (scmi_ctx s);
    fwk_assert (unat i < length table);
    Some (upd_scmi (\<lambda>c. c\<lparr>sm_service_ctx_table := table[unat i := f (table ! unat i)]\<rparr>) s) }"

definition is_message_type_valid :: "scmi_service_ctx \<Rightarrow> bool" where
  "is_message_type_valid ctx \<longleftrightarrow> sv_scmi_message_type ctx \<in> {MOD_SCMI_MESSAGE_TYPE_COMMAND,
    MOD_SCMI_MESSAGE_TYPE_DELAYED_RESPONSE, MOD_SCMI_MESSAGE_TYPE_NOTIFICATION}"

section \<open>From the transport\<close>

text \<open>\<open>ctx->respond(transport_id, payload, size)\<close> with a payload.\<close>

definition ctx_respond ::
  "('a scmi) scmi_env \<Rightarrow> scmi_service_ctx \<Rightarrow> u8 list \<Rightarrow> 'a scmi \<Rightarrow> (int \<times> 'a scmi) option" where
  "ctx_respond env ctx payload s = do {
    fwk_assert (sv_respond ctx);
    Some (scmi_call_transport env (Respond (sv_transport_id ctx) payload) s) }"

definition signal_error :: "('a scmi) scmi_env \<Rightarrow> fwk_id \<Rightarrow> 'a scmi \<Rightarrow> (int \<times> 'a scmi) option" where
  "signal_error env service_id s = do {
    ctx \<leftarrow> service_ctx service_id s;
    ctx_respond env ctx (status_bytes SCMI_PROTOCOL_ERROR) s }"

definition signal_message :: "('a scmi) scmi_env \<Rightarrow> fwk_id \<Rightarrow> 'a scmi \<Rightarrow> (int \<times> 'a scmi) option" where
  "signal_message env service_id s = do {
    ((status, _), s) \<leftarrow> fwk_put_event_light
      (Some \<lparr>evl_source_id = FWK_ID_MODULE (env_scmi_idx env), evl_target_id = service_id,
        evl_id = FWK_ID_EVENT (env_scmi_idx env) 0, evl_response_requested = False\<rparr>) s;
    Some (status, s) }"

section \<open>From the protocols\<close>

definition get_agent_count :: "'a scmi \<Rightarrow> (int \<times> u32) option" where
  "get_agent_count s = do { cfg \<leftarrow> sm_config (scmi_ctx s); Some (FWK_SUCCESS, cf_agent_count cfg + 1) }"

definition get_agent_id :: "fwk_id \<Rightarrow> 'a scmi \<Rightarrow> (int \<times> u32) option" where
  "get_agent_id service_id s = do {
    ctx \<leftarrow> service_ctx service_id s;
    cfg \<leftarrow> sv_config ctx;
    Some (FWK_SUCCESS, sc_scmi_agent_id cfg) }"

definition get_agent_type :: "u32 \<Rightarrow> 'a scmi \<Rightarrow> (int \<times> u32) option" where
  "get_agent_type scmi_agent_id s = do {
    cfg \<leftarrow> sm_config (scmi_ctx s);
    if scmi_agent_id > cf_agent_count cfg \<or> scmi_agent_id = MOD_SCMI_PLATFORM_ID then Some (FWK_E_PARAM, 0)
    else do {
      fwk_assert (unat scmi_agent_id < length (cf_agent_table cfg));
      Some (FWK_SUCCESS, ag_type (cf_agent_table cfg ! unat scmi_agent_id)) } }"

definition get_max_payload_size :: "('a scmi) scmi_env \<Rightarrow> fwk_id \<Rightarrow> 'a scmi \<Rightarrow> (int \<times> u32) option" where
  "get_max_payload_size env service_id s = do {
    ctx \<leftarrow> service_ctx service_id s;
    _ \<leftarrow> sv_transport_api ctx;
    Some (tr_get_max_payload_size env (sv_transport_id ctx) (scmi_calls s)) }"

definition write_payload :: "('a scmi) scmi_env \<Rightarrow> fwk_id \<Rightarrow> u32 \<Rightarrow> u8 list \<Rightarrow> 'a scmi \<Rightarrow> (int \<times> 'a scmi) option" where
  "write_payload env service_id offset payload s = do {
    ctx \<leftarrow> service_ctx service_id s;
    _ \<leftarrow> sv_transport_api ctx;
    Some (scmi_call_transport env (Write_payload (sv_transport_id ctx) offset payload) s) }"

text \<open>The first word of a payload is read as the status that is logged.\<close>

definition respond ::
  "('a scmi) scmi_env \<Rightarrow> fwk_id \<Rightarrow> u8 list option \<Rightarrow> u32 \<Rightarrow> 'a scmi \<Rightarrow> (int \<times> 'a scmi) option" where
  "respond env service_id payload sz s = do {
    ctx \<leftarrow> service_ctx service_id s;
    _ \<leftarrow> fwk_module_get_element_name service_id s;
    _ \<leftarrow> sv_config ctx;
    case payload of
      Some bytes \<Rightarrow> do {
        fwk_assert (4 \<le> length bytes \<and> unat sz \<le> length bytes);
        ctx_respond env ctx (take (unat sz) bytes) s }
    | None \<Rightarrow> do {
        fwk_assert (sv_respond ctx);
        Some (scmi_call_transport env (Respond_written (sv_transport_id ctx) sz) s) } }"

definition scmi_permissions_handler ::
  "('a scmi) scmi_env \<Rightarrow> fwk_id \<Rightarrow> u32 \<Rightarrow> u32 \<Rightarrow> 'a scmi \<Rightarrow> int option" where
  "scmi_permissions_handler env service_id message_id protocol_id s = do {
    (status, agent_id) \<leftarrow> get_agent_id service_id s;
    if status \<noteq> FWK_SUCCESS then Some FWK_E_PARAM
    else if message_id < MOD_SCMI_MESSAGE_ID_ATTRIBUTE then do {
      perms \<leftarrow> agent_protocol_permissions (env_res_plat env) (res_perms_state s) agent_id protocol_id;
      Some (if perms = MOD_RES_PERMS_ACCESS_DENIED then FWK_E_ACCESS else FWK_SUCCESS) }
    else Some FWK_SUCCESS }"

text \<open>\<open>handler_table\<close> says which handlers are not null.\<close>

definition scmi_message_validation ::
  "('a scmi) scmi_env \<Rightarrow> u8 \<Rightarrow> fwk_id \<Rightarrow> u8 list option \<Rightarrow> u32 \<Rightarrow> u32 list option \<Rightarrow> u32 \<Rightarrow> bool list \<Rightarrow> 'a scmi
    \<Rightarrow> int option" where
  "scmi_message_validation env protocol_id service_id payload message_id payload_size_table commands handler_table s = do {
    payload \<leftarrow> payload;
    let protocol = (ucast protocol_id :: u32);
    case payload_size_table of
      None \<Rightarrow> Some SCMI_INVALID_PARAMETERS
    | Some sizes \<Rightarrow>
        if protocol < MOD_SCMI_PROTOCOL_ID_BASE \<or> protocol > MOD_SCMI_PROTOCOL_ID_PIN_CONTROL
        then Some SCMI_INVALID_PARAMETERS
        else if message_id \<ge> commands then Some SCMI_NOT_FOUND
        else do {
          fwk_assert (unat message_id < length sizes);
          if of_nat (length payload) \<noteq> sizes ! unat message_id then Some SCMI_PROTOCOL_ERROR
          else do {
            fwk_assert (unat message_id < length handler_table);
            if \<not> handler_table ! unat message_id then Some SCMI_NOT_SUPPORTED
            else if \<not> has_mod_resource_perms env then Some SCMI_SUCCESS
            else do {
              status \<leftarrow> scmi_permissions_handler env service_id message_id protocol s;
              Some (if status = FWK_E_PARAM then SCMI_INVALID_PARAMETERS
                else if status = FWK_E_ACCESS then SCMI_DENIED else SCMI_SUCCESS) } } } }"

section \<open>Sending messages\<close>

text \<open>The notification of an event to the agent of a service, on the channel configured for it.\<close>

definition scmi_notify ::
  "('a scmi) scmi_env \<Rightarrow> fwk_id \<Rightarrow> u8 \<Rightarrow> u8 \<Rightarrow> u8 list \<Rightarrow> 'a scmi \<Rightarrow> 'a scmi option" where
  "scmi_notify env i protocol_id message_id payload s = do {
    none \<leftarrow> fwk_id_is_equal i FWK_ID_NONE;
    if none then Some s
    else do {
      ctx \<leftarrow> service_ctx i s;
      cfg \<leftarrow> sv_config ctx;
      no_p2a \<leftarrow> fwk_id_is_equal (sc_scmi_p2a_id cfg) FWK_ID_NONE;
      if no_p2a then Some s
      else do {
        p2a \<leftarrow> service_ctx (sc_scmi_p2a_id cfg) s;
        if \<not> sv_transmit p2a then Some s
        else Some (snd (scmi_call_transport env (Transmit_message (sv_transport_id p2a)
          (scmi_message_header message_id MOD_SCMI_MESSAGE_TYPE_NOTIFICATION protocol_id 0) payload False) s)) } } }"

definition scmi_send_message ::
  "('a scmi) scmi_env \<Rightarrow> u8 \<Rightarrow> u8 \<Rightarrow> u8 \<Rightarrow> fwk_id \<Rightarrow> u8 list \<Rightarrow> bool \<Rightarrow> 'a scmi \<Rightarrow> (int \<times> 'a scmi) option" where
  "scmi_send_message env message_id protocol_id token service_id payload request_ack_by_interrupt s = do {
    let message_header = scmi_message_header message_id 0 protocol_id token;
    none \<leftarrow> fwk_id_is_equal service_id FWK_ID_NONE;
    if none then Some (FWK_E_DATA, s)
    else do {
      ctx \<leftarrow> service_ctx service_id s;
      api \<leftarrow> sv_transport_api ctx;
      fwk_assert (ta_transmit api);
      let (status, s) = scmi_call_transport env
        (Transmit_message (sv_transport_id ctx) message_header payload request_ack_by_interrupt) s;
      _ \<leftarrow> fwk_module_get_element_name service_id s;
      Some (status, s) } }"

definition release_channel :: "('a scmi) scmi_env \<Rightarrow> scmi_service_ctx \<Rightarrow> 'a scmi \<Rightarrow> (int \<times> 'a scmi) option" where
  "release_channel env ctx s = do {
    api \<leftarrow> sv_transport_api ctx;
    fwk_assert (ta_release api);
    Some (scmi_call_transport env (Release_channel (sv_transport_id ctx)) s) }"

definition response_message_handler :: "('a scmi) scmi_env \<Rightarrow> fwk_id \<Rightarrow> 'a scmi \<Rightarrow> (int \<times> 'a scmi) option" where
  "response_message_handler env service_id s = do { ctx \<leftarrow> service_ctx service_id s; release_channel env ctx s }"

section \<open>Notification subscribers\<close>

text \<open>The index of the subscribers of a protocol: an entry is reserved for the base protocol, and the index of a
  protocol that is not bound wraps around and is outside the table.\<close>

definition subscribers_index :: "u32 \<Rightarrow> 'a scmi \<Rightarrow> nat option" where
  "subscribers_index protocol_id s = do {
    let ids = sm_scmi_protocol_id_to_idx (scmi_ctx s);
    fwk_assert (unat protocol_id < length ids);
    let protocol_idx = (ucast (ids ! unat protocol_id) :: u32) - (PROTOCOL_TABLE_RESERVED_ENTRIES_COUNT - 1);
    fwk_assert (unat protocol_idx < length (sm_scmi_notif_subscribers (scmi_ctx s)));
    Some (unat protocol_idx) }"

definition notification_subscribers :: "u32 \<Rightarrow> 'a scmi \<Rightarrow> scmi_notification_subscribers option" where
  "notification_subscribers protocol_id s = do {
    i \<leftarrow> subscribers_index protocol_id s;
    Some (sm_scmi_notif_subscribers (scmi_ctx s) ! i) }"

definition set_subscribers :: "u32 \<Rightarrow> scmi_notification_subscribers \<Rightarrow> 'a scmi \<Rightarrow> 'a scmi option" where
  "set_subscribers protocol_id ns s = do {
    i \<leftarrow> subscribers_index protocol_id s;
    Some (upd_scmi (\<lambda>c. c\<lparr>sm_scmi_notif_subscribers := (sm_scmi_notif_subscribers c)[i := ns]\<rparr>) s) }"

text \<open>The number of entries is an \<open>int\<close> the product is converted to.\<close>

definition scmi_notification_init :: "u32 \<Rightarrow> u32 \<Rightarrow> u32 \<Rightarrow> u32 \<Rightarrow> 'a scmi \<Rightarrow> (int \<times> 'a scmi) option" where
  "scmi_notification_init protocol_id agents element_count operation_count s = do {
    ns \<leftarrow> notification_subscribers protocol_id s;
    let total_count = sint (operation_count * element_count * agents);
    fwk_assert (0 \<le> total_count);
    s \<leftarrow> set_subscribers protocol_id (ns\<lparr>ns_agent_count := agents, ns_element_count := element_count,
      ns_operation_count := operation_count,
      ns_operation_id_to_idx := replicate (unat MOD_SCMI_PROTOCOL_MAX_OPERATION_ID) MOD_SCMI_PROTOCOL_OPERATION_IDX_INVALID,
      ns_agent_service_ids := replicate (nat total_count) FWK_ID_NONE\<rparr>) s;
    Some (FWK_SUCCESS, s) }"

definition scmi_notification_service_idx :: "u32 \<Rightarrow> u32 \<Rightarrow> u32 \<Rightarrow> u32 \<Rightarrow> u32 \<Rightarrow> u32" where
  "scmi_notification_service_idx agent_idx element_idx operation_idx agents element_count =
    agent_idx + element_idx * agents + operation_idx * element_count * agents"

text \<open>A write to the table of service identifiers.\<close>

definition put_service_id ::
  "u32 \<Rightarrow> fwk_id \<Rightarrow> scmi_notification_subscribers \<Rightarrow> scmi_notification_subscribers option" where
  "put_service_id i service_id ns = do {
    fwk_assert (unat i < length (ns_agent_service_ids ns));
    Some (ns\<lparr>ns_agent_service_ids := (ns_agent_service_ids ns)[unat i := service_id]\<rparr>) }"

definition scmi_notification_add_subscriber ::
  "u32 \<Rightarrow> u32 \<Rightarrow> u32 \<Rightarrow> fwk_id \<Rightarrow> 'a scmi \<Rightarrow> (int \<times> 'a scmi) option" where
  "scmi_notification_add_subscriber protocol_id element_idx operation_id service_id s = do {
    ns \<leftarrow> notification_subscribers protocol_id s;
    (status, agent_idx) \<leftarrow> get_agent_id service_id s;
    if status \<noteq> FWK_SUCCESS then Some (status, s)
    else do {
      fwk_assert (operation_id < MOD_SCMI_PROTOCOL_MAX_OPERATION_ID);
      ns \<leftarrow> (if ns_operation_id_to_idx ns ! unat operation_id = MOD_SCMI_PROTOCOL_OPERATION_IDX_INVALID
        then do {
          fwk_assert (ns_operation_idx ns < ns_operation_count ns);
          Some (ns\<lparr>ns_operation_id_to_idx := (ns_operation_id_to_idx ns)[unat operation_id := ucast (ns_operation_idx ns)],
            ns_operation_idx := ns_operation_idx ns + 1\<rparr>) }
        else Some ns);
      ns \<leftarrow> put_service_id (scmi_notification_service_idx agent_idx element_idx
        (ucast (ns_operation_id_to_idx ns ! unat operation_id)) (ns_agent_count ns) (ns_element_count ns)) service_id ns;
      s \<leftarrow> set_subscribers protocol_id ns s;
      Some (FWK_SUCCESS, s) } }"

definition scmi_notification_remove_subscriber ::
  "u32 \<Rightarrow> u32 \<Rightarrow> u32 \<Rightarrow> u32 \<Rightarrow> 'a scmi \<Rightarrow> (int \<times> 'a scmi) option" where
  "scmi_notification_remove_subscriber protocol_id agent_idx element_idx operation_id s = do {
    ns \<leftarrow> notification_subscribers protocol_id s;
    fwk_assert (operation_id < MOD_SCMI_PROTOCOL_MAX_OPERATION_ID);
    ns \<leftarrow> put_service_id (scmi_notification_service_idx agent_idx element_idx
      (ucast (ns_operation_id_to_idx ns ! unat operation_id)) (ns_agent_count ns) (ns_element_count ns)) FWK_ID_NONE ns;
    s \<leftarrow> set_subscribers protocol_id ns s;
    Some (FWK_SUCCESS, s) }"

text \<open>The body of the two loops for element \<open>i\<close> and agent \<open>j\<close>; the loops do not change the subscribers.\<close>

definition notify_subscriber ::
  "('a scmi) scmi_env \<Rightarrow> scmi_notification_subscribers \<Rightarrow> u32 \<Rightarrow> u8 \<Rightarrow> u8 \<Rightarrow> u8 list \<Rightarrow> nat \<Rightarrow> nat \<Rightarrow> 'a scmi \<Rightarrow> 'a scmi option" where
  "notify_subscriber env ns operation_idx protocol_id scmi_response_id payload i j s = do {
    let k = scmi_notification_service_idx (of_nat j) (of_nat i) operation_idx (ns_agent_count ns) (ns_element_count ns);
    fwk_assert (unat k < length (ns_agent_service_ids ns));
    let service_id = ns_agent_service_ids ns ! unat k;
    none \<leftarrow> fwk_id_is_equal service_id FWK_ID_NONE;
    if none then Some s else scmi_notify env service_id protocol_id scmi_response_id payload s }"

definition scmi_notification_notify ::
  "('a scmi) scmi_env \<Rightarrow> u32 \<Rightarrow> u32 \<Rightarrow> u32 \<Rightarrow> u8 list \<Rightarrow> 'a scmi \<Rightarrow> (int \<times> 'a scmi) option" where
  "scmi_notification_notify env protocol_id operation_id scmi_response_id payload s = do {
    ns \<leftarrow> notification_subscribers protocol_id s;
    fwk_assert (operation_id < MOD_SCMI_PROTOCOL_MAX_OPERATION_ID);
    let operation_idx = ns_operation_id_to_idx ns ! unat operation_id;
    if operation_idx = MOD_SCMI_PROTOCOL_OPERATION_IDX_INVALID then Some (FWK_SUCCESS, s)
    else do {
      s \<leftarrow> for_each (\<lambda>i. for_each (notify_subscriber env ns (ucast operation_idx) (ucast protocol_id)
          (ucast scmi_response_id) payload i) [1..<unat (ns_agent_count ns)])
        [0..<unat (ns_element_count ns)] s;
      Some (FWK_SUCCESS, s) } }"

end
