(* ===== verification/Scmi_Base.thy ===== *)
theory Scmi_Base
  imports Scmi_Core
begin

unbundle bit_operations_syntax

text \<open>
  The SCMI base protocol (\<open>mod_scmi_base.c\<close>). The two builds, with and without the resource permissions
  module, are told apart by \<open>has_mod_resource_perms\<close>. Response structures are lists of bytes.
\<close>

section \<open>Identification\<close>

definition scmi_base_protocol_version_handler ::
  "('a scmi) scmi_env \<Rightarrow> fwk_id \<Rightarrow> u8 list \<Rightarrow> 'a scmi \<Rightarrow> (int \<times> 'a scmi) option" where
  "scmi_base_protocol_version_handler env service_id payload s =
    respond env service_id (Some (status_bytes SCMI_SUCCESS @ le32 SCMI_PROTOCOL_VERSION_BASE)) 8 s"

definition SCMI_BASE_PROTOCOL_ATTRIBUTES :: "u32 \<Rightarrow> u32 \<Rightarrow> u32" where
  "SCMI_BASE_PROTOCOL_ATTRIBUTES num_protocols num_agents = (num_protocols AND 0xFF) OR (push_bit 8 num_agents AND 0xFF00)"

text \<open>Whether a PSCI agent is refused a protocol: the list must be there when its length is not 0.\<close>

definition disabled_for_psci :: "mod_scmi_config \<Rightarrow> u32 \<Rightarrow> bool option" where
  "disabled_for_psci cfg protocol_id =
    (if cf_dis_protocol_count_psci cfg = 0 then Some False
     else do {
       l \<leftarrow> cf_dis_protocol_list_psci cfg;
       let n = unat (cf_dis_protocol_count_psci cfg);
       if protocol_id \<in> set (take n l) then Some True
       else do { fwk_assert (n \<le> length l); Some False } })"

text \<open>The loop over the protocols the agent may use; \<open>counted\<close> holds the allowed and all bound protocols so far.\<close>

fun count_protocols :: "('a scmi) scmi_env \<Rightarrow> u32 \<Rightarrow> 'a scmi \<Rightarrow> nat list \<Rightarrow> nat \<times> nat \<Rightarrow> nat option" where
  "count_protocols env agent_id s [] counted = Some (fst counted)"
| "count_protocols env agent_id s (index # is) counted =
    (if \<not> snd counted < unat (sm_protocol_count (scmi_ctx s)) then Some (fst counted)
     else if sm_scmi_protocol_id_to_idx (scmi_ctx s) ! index = 0 \<or> of_nat index = MOD_SCMI_PROTOCOL_ID_BASE
     then count_protocols env agent_id s is counted
     else do {
       perms \<leftarrow> agent_protocol_permissions (env_res_plat env) (res_perms_state s) agent_id (of_nat index);
       count_protocols env agent_id s is
         (if perms = MOD_RES_PERMS_ACCESS_ALLOWED then fst counted + 1 else fst counted, snd counted + 1) })"

definition scmi_base_protocol_attributes_handler ::
  "('a scmi) scmi_env \<Rightarrow> fwk_id \<Rightarrow> u8 list \<Rightarrow> 'a scmi \<Rightarrow> (int \<times> 'a scmi) option" where
  "scmi_base_protocol_attributes_handler env service_id payload s = do {
    (status, agent_id) \<leftarrow> get_agent_id service_id s;
    if status \<noteq> FWK_SUCCESS then Some (status, s)
    else do {
      cfg \<leftarrow> sm_config (scmi_ctx s);
      (status, count) \<leftarrow>
        (if has_mod_resource_perms env
         then do { n \<leftarrow> count_protocols env agent_id s [0..<MOD_SCMI_PROTOCOL_ID_MAX + 1] (0, 0); Some (FWK_SUCCESS, of_nat n) }
         else do {
           (status, agent_type) \<leftarrow> get_agent_type agent_id s;
           if status \<noteq> FWK_SUCCESS then Some (status, 0)
           else if agent_type = SCMI_AGENT_TYPE_PSCI then do {
             fwk_assert (sm_protocol_count (scmi_ctx s) > cf_dis_protocol_count_psci cfg);
             Some (FWK_SUCCESS, sm_protocol_count (scmi_ctx s) - cf_dis_protocol_count_psci cfg) }
           else Some (FWK_SUCCESS, sm_protocol_count (scmi_ctx s)) });
      if status \<noteq> FWK_SUCCESS then Some (status, s)
      else respond env service_id
        (Some (status_bytes SCMI_SUCCESS @ le32 (SCMI_BASE_PROTOCOL_ATTRIBUTES count (cf_agent_count cfg)))) 8 s } }"

text \<open>Which messages have a handler; the entry of \<open>MOD_SCMI_BASE_NOTIFY_ERRORS\<close> is a null pointer in both builds.\<close>

definition base_handler_present :: "('a scmi) scmi_env \<Rightarrow> u32 \<Rightarrow> bool" where
  "base_handler_present env message_id \<longleftrightarrow> message_id \<le> 7 \<or>
    has_mod_resource_perms env \<and> message_id > MOD_SCMI_BASE_NOTIFY_ERRORS \<and> message_id < MOD_SCMI_BASE_COMMAND_COUNT"

definition scmi_base_protocol_message_attributes_handler ::
  "('a scmi) scmi_env \<Rightarrow> fwk_id \<Rightarrow> u8 list \<Rightarrow> 'a scmi \<Rightarrow> (int \<times> 'a scmi) option" where
  "scmi_base_protocol_message_attributes_handler env service_id payload s = do {
    message_id \<leftarrow> payload_get32 0 payload;
    if message_id < MOD_SCMI_BASE_COMMAND_COUNT \<and> base_handler_present env message_id
    then respond env service_id (Some (status_bytes SCMI_SUCCESS @ le32 0)) 8 s
    else respond env service_id (Some (status_bytes SCMI_NOT_FOUND @ le32 0)) 4 s }"

definition base_identifier :: "string option \<Rightarrow> u8 list" where
  "base_identifier ident = (case ident of None \<Rightarrow> replicate 16 0 | Some str \<Rightarrow> strncpy_field 16 str)"

definition scmi_base_discover_vendor_handler ::
  "('a scmi) scmi_env \<Rightarrow> fwk_id \<Rightarrow> u8 list \<Rightarrow> 'a scmi \<Rightarrow> (int \<times> 'a scmi) option" where
  "scmi_base_discover_vendor_handler env service_id payload s = do {
    cfg \<leftarrow> sm_config (scmi_ctx s);
    respond env service_id (Some (status_bytes SCMI_SUCCESS @ base_identifier (cf_vendor_identifier cfg))) 20 s }"

definition scmi_base_discover_sub_vendor_handler ::
  "('a scmi) scmi_env \<Rightarrow> fwk_id \<Rightarrow> u8 list \<Rightarrow> 'a scmi \<Rightarrow> (int \<times> 'a scmi) option" where
  "scmi_base_discover_sub_vendor_handler env service_id payload s = do {
    cfg \<leftarrow> sm_config (scmi_ctx s);
    respond env service_id (Some (status_bytes SCMI_SUCCESS @ base_identifier (cf_sub_vendor_identifier cfg))) 20 s }"

definition scmi_base_discover_implementation_version_handler ::
  "('a scmi) scmi_env \<Rightarrow> fwk_id \<Rightarrow> u8 list \<Rightarrow> 'a scmi \<Rightarrow> (int \<times> 'a scmi) option" where
  "scmi_base_discover_implementation_version_handler env service_id payload s =
    respond env service_id (Some (status_bytes SCMI_SUCCESS @ le32 (fwk_build_version env))) 8 s"

section \<open>The list of protocols\<close>

text \<open>Whether a bound protocol is left out for the agent.\<close>

definition protocol_hidden :: "('a scmi) scmi_env \<Rightarrow> mod_scmi_config \<Rightarrow> u32 \<Rightarrow> u32 \<Rightarrow> u32 \<Rightarrow> 'a scmi \<Rightarrow> bool option" where
  "protocol_hidden env cfg agent_id agent_type protocol_id s =
    (if has_mod_resource_perms env
     then do {
       perms \<leftarrow> agent_protocol_permissions (env_res_plat env) (res_perms_state s) agent_id protocol_id;
       Some (perms = MOD_RES_PERMS_ACCESS_DENIED) }
     else if agent_type = SCMI_AGENT_TYPE_PSCI then disabled_for_psci cfg protocol_id
     else Some False)"

text \<open>The loop; \<open>(n, sz, avail)\<close> are \<open>protocol_count\<close>, \<open>payload_size\<close> and \<open>avail_protocol_count\<close>. A failing write
  ends it with its status.\<close>

fun list_protocols_loop ::
  "('a scmi) scmi_env \<Rightarrow> fwk_id \<Rightarrow> (u32 \<Rightarrow> 'a scmi \<Rightarrow> bool option) \<Rightarrow> nat \<Rightarrow> nat \<Rightarrow> nat list \<Rightarrow> nat \<times> nat \<times> nat
    \<Rightarrow> 'a scmi \<Rightarrow> (int \<times> (nat \<times> nat \<times> nat) \<times> 'a scmi) option" where
  "list_protocols_loop env service_id hidden skip n_max [] st s = Some (FWK_SUCCESS, st, s)"
| "list_protocols_loop env service_id hidden skip n_max (index # is) (n, sz, avail) s =
    (if \<not> n < n_max then Some (FWK_SUCCESS, (n, sz, avail), s)
     else if sm_scmi_protocol_id_to_idx (scmi_ctx s) ! index = 0 \<or> of_nat index = MOD_SCMI_PROTOCOL_ID_BASE
     then list_protocols_loop env service_id hidden skip n_max is (n, sz, avail) s
     else do {
       h \<leftarrow> hidden (of_nat index) s;
       if h then list_protocols_loop env service_id hidden skip n_max is (n, sz, avail) s
       else if n + 1 \<le> skip then list_protocols_loop env service_id hidden skip n_max is (n + 1, sz, avail) s
       else do {
         (status, s) \<leftarrow> write_payload env service_id (of_nat sz) [of_nat index] s;
         if status \<noteq> FWK_SUCCESS then Some (status, (n + 1, sz, avail), s)
         else list_protocols_loop env service_id hidden skip n_max is (n + 1, sz + 1, avail + 1) s } })"

definition list_protocols_p2a_size :: u32 where "list_protocols_p2a_size = 8"

text \<open>The label \<open>error\<close>: the whole structure is sent when its status is already success.\<close>

definition list_protocols_error ::
  "('a scmi) scmi_env \<Rightarrow> fwk_id \<Rightarrow> int \<Rightarrow> u32 \<Rightarrow> int \<Rightarrow> 'a scmi \<Rightarrow> (int \<times> 'a scmi) option" where
  "list_protocols_error env service_id rv_status num_protocols status s = do {
    (_, s) \<leftarrow> respond env service_id (Some (status_bytes rv_status @ le32 num_protocols))
      (if rv_status = SCMI_SUCCESS then list_protocols_p2a_size else 4) s;
    Some (status, s) }"

text \<open>\<open>size_t\<close> has 32 bits, so \<open>skip + entry_count\<close> wraps.\<close>

definition protocol_count_max :: "u32 \<Rightarrow> u32 \<Rightarrow> u32 \<Rightarrow> u32" where
  "protocol_count_max available skip entry_count = (if available < skip + entry_count then available else skip + entry_count)"

definition scmi_base_discover_list_protocols_handler ::
  "('a scmi) scmi_env \<Rightarrow> fwk_id \<Rightarrow> u8 list \<Rightarrow> 'a scmi \<Rightarrow> (int \<times> 'a scmi) option" where
  "scmi_base_discover_list_protocols_handler env service_id payload s = do {
    (status, agent_id) \<leftarrow> get_agent_id service_id s;
    if status \<noteq> FWK_SUCCESS then list_protocols_error env service_id SCMI_GENERIC_ERROR 0 status s
    else do {
      (status, agent_type) \<leftarrow> (if has_mod_resource_perms env then Some (FWK_SUCCESS, 0) else get_agent_type agent_id s);
      if status \<noteq> FWK_SUCCESS then list_protocols_error env service_id SCMI_GENERIC_ERROR 0 status s
      else do {
        (status, max_payload_size) \<leftarrow> get_max_payload_size env service_id s;
        if status \<noteq> FWK_SUCCESS then list_protocols_error env service_id SCMI_GENERIC_ERROR 0 status s
        else if max_payload_size < list_protocols_p2a_size + 4
        then list_protocols_error env service_id SCMI_GENERIC_ERROR 0 FWK_E_SIZE s
        else do {
          let entry_count = max_payload_size - list_protocols_p2a_size;
          skip \<leftarrow> payload_get32 0 payload;
          cfg \<leftarrow> sm_config (scmi_ctx s);
          available \<leftarrow>
            (if \<not> has_mod_resource_perms env \<and> agent_type = SCMI_AGENT_TYPE_PSCI
             then do {
               fwk_assert (sm_protocol_count (scmi_ctx s) > cf_dis_protocol_count_psci cfg);
               Some (sm_protocol_count (scmi_ctx s) - cf_dis_protocol_count_psci cfg) }
             else Some (sm_protocol_count (scmi_ctx s)));
          (status, (n, sz, avail), s) \<leftarrow>
            list_protocols_loop env service_id (protocol_hidden env cfg agent_id agent_type) (unat skip)
              (unat (protocol_count_max available skip entry_count)) [0..<MOD_SCMI_PROTOCOL_ID_MAX + 1]
              (0, unat list_protocols_p2a_size, 0) s;
          if status \<noteq> FWK_SUCCESS then list_protocols_error env service_id SCMI_GENERIC_ERROR 0 status s
          else if unat skip > n then list_protocols_error env service_id SCMI_INVALID_PARAMETERS 0 FWK_SUCCESS s
          else do {
            (status, s) \<leftarrow> write_payload env service_id 0 (status_bytes SCMI_SUCCESS @ le32 (of_nat avail)) s;
            if status \<noteq> FWK_SUCCESS then list_protocols_error env service_id SCMI_SUCCESS (of_nat avail) status s
            else respond env service_id None (of_nat ((sz + 3) div 4 * 4)) s } } } } }"

section \<open>Agents\<close>

definition default_agent_names :: "string list" where
  "default_agent_names = [''PSCI'', ''MANAGEMENT'', ''OSPM'', ''OTHER'']"

text \<open>\<open>scmi_base_discover_agent_p2a\<close> after its status.\<close>

definition agent_reply :: "u32 \<Rightarrow> u8 list \<Rightarrow> u8 list" where
  "agent_reply agent_id agent_name = status_bytes SCMI_SUCCESS @ le32 agent_id @ agent_name"

definition scmi_base_discover_agent_handler ::
  "('a scmi) scmi_env \<Rightarrow> fwk_id \<Rightarrow> u8 list \<Rightarrow> 'a scmi \<Rightarrow> (int \<times> 'a scmi) option" where
  "scmi_base_discover_agent_handler env service_id payload s = do {
    agent \<leftarrow> payload_get32 0 payload;
    cfg \<leftarrow> sm_config (scmi_ctx s);
    if agent > cf_agent_count cfg \<and> agent \<noteq> 0xFFFFFFFF
    then respond env service_id (Some (status_bytes SCMI_NOT_FOUND @ replicate 20 0)) 4 s
    else if agent = MOD_SCMI_PLATFORM_ID
    then respond env service_id (Some (agent_reply MOD_SCMI_PLATFORM_ID (strncpy_field 16 ''platform''))) 24 s
    else if agent = 0xFFFFFFFF then do {
      (status, agent_id) \<leftarrow> get_agent_id service_id s;
      if status \<noteq> FWK_SUCCESS then Some (FWK_E_ACCESS, s)
      else do {
        name_p \<leftarrow> fwk_module_get_element_name service_id s;
        el \<leftarrow> name_p;
        respond env service_id (Some (agent_reply agent_id (strncpy_field 16 el))) 24 s } }
    else do {
      fwk_assert (unat agent < length (cf_agent_table cfg));
      let a = cf_agent_table cfg ! unat agent;
      str \<leftarrow> (case ag_name a of
        Some str \<Rightarrow> Some str
      | None \<Rightarrow> do { fwk_assert (unat (ag_type a) < length default_agent_names); Some (default_agent_names ! unat (ag_type a)) });
      respond env service_id (Some (agent_reply agent (strncpy_field 16 str))) 24 s } }"

section \<open>Permissions of agents\<close>

text \<open>The status reported for a status of the resource permissions module.\<close>

definition permission_status :: "int \<Rightarrow> int" where
  "permission_status status =
    (if status = FWK_SUCCESS then SCMI_SUCCESS
     else if status = FWK_E_PARAM then SCMI_INVALID_PARAMETERS
     else if status = FWK_E_ACCESS then SCMI_NOT_FOUND
     else SCMI_NOT_SUPPORTED)"

definition respond_status :: "('a scmi) scmi_env \<Rightarrow> fwk_id \<Rightarrow> int \<Rightarrow> 'a scmi \<Rightarrow> (int \<times> 'a scmi) option" where
  "respond_status env service_id rv_status s = respond env service_id (Some (status_bytes rv_status)) 4 s"

definition scmi_base_set_device_permissions ::
  "('a scmi) scmi_env \<Rightarrow> fwk_id \<Rightarrow> u8 list \<Rightarrow> 'a scmi \<Rightarrow> (int \<times> 'a scmi) option" where
  "scmi_base_set_device_permissions env service_id payload s = do {
    agent \<leftarrow> payload_get32 0 payload;
    device_id \<leftarrow> payload_get32 4 payload;
    flags \<leftarrow> payload_get32 8 payload;
    cfg \<leftarrow> sm_config (scmi_ctx s);
    (rv_status, status, s) \<leftarrow>
      (if agent > cf_agent_count cfg then Some (SCMI_NOT_FOUND, FWK_E_ACCESS, s)
       else if agent = MOD_SCMI_PLATFORM_ID then Some (SCMI_SUCCESS, FWK_SUCCESS, s)
       else if flags AND NOT MOD_RES_PERMS_PERMISSIONS_MASK \<noteq> 0 then Some (SCMI_INVALID_PARAMETERS, FWK_E_PARAM, s)
       else do {
         (status, rp) \<leftarrow> mod_res_agent_set_device_permission (env_res_plat env) agent device_id flags (res_perms_state s);
         Some (permission_status status, status, s\<lparr>res_perms_state := rp\<rparr>) });
    (_, s) \<leftarrow> respond_status env service_id rv_status s;
    Some (status, s) }"

definition scmi_base_set_protocol_permissions ::
  "('a scmi) scmi_env \<Rightarrow> fwk_id \<Rightarrow> u8 list \<Rightarrow> 'a scmi \<Rightarrow> (int \<times> 'a scmi) option" where
  "scmi_base_set_protocol_permissions env service_id payload s = do {
    agent \<leftarrow> payload_get32 0 payload;
    device_id \<leftarrow> payload_get32 4 payload;
    command_id \<leftarrow> payload_get32 8 payload;
    flags \<leftarrow> payload_get32 12 payload;
    cfg \<leftarrow> sm_config (scmi_ctx s);
    (rv_status, status, s) \<leftarrow>
      (if agent > cf_agent_count cfg then Some (SCMI_NOT_FOUND, FWK_E_ACCESS, s)
       else if agent = MOD_SCMI_PLATFORM_ID then Some (SCMI_SUCCESS, FWK_SUCCESS, s)
       else if flags AND NOT MOD_RES_PERMS_PERMISSIONS_MASK \<noteq> 0 then Some (SCMI_INVALID_PARAMETERS, FWK_E_PARAM, s)
       else if command_id = MOD_SCMI_PROTOCOL_ID_BASE then Some (SCMI_DENIED, FWK_SUCCESS, s)
       else do {
         (status, rp) \<leftarrow> mod_res_agent_set_device_protocol_permission (env_res_plat env) agent device_id command_id flags
           (res_perms_state s);
         Some (permission_status status, status, s\<lparr>res_perms_state := rp\<rparr>) });
    (_, s) \<leftarrow> respond_status env service_id rv_status s;
    Some (status, s) }"

definition scmi_base_reset_agent_config ::
  "('a scmi) scmi_env \<Rightarrow> fwk_id \<Rightarrow> u8 list \<Rightarrow> 'a scmi \<Rightarrow> (int \<times> 'a scmi) option" where
  "scmi_base_reset_agent_config env service_id payload s = do {
    agent \<leftarrow> payload_get32 0 payload;
    flags \<leftarrow> payload_get32 4 payload;
    cfg \<leftarrow> sm_config (scmi_ctx s);
    (rv_status, s) \<leftarrow>
      (if agent > cf_agent_count cfg then Some (SCMI_NOT_FOUND, s)
       else if agent = MOD_SCMI_PLATFORM_ID then Some (SCMI_SUCCESS, s)
       else if flags AND NOT MOD_RES_PERMS_PERMISSIONS_MASK \<noteq> 0 then Some (SCMI_INVALID_PARAMETERS, s)
       else do {
         (status, rp) \<leftarrow> mod_res_agent_reset_config (env_res_plat env) agent flags (res_perms_state s);
         Some (permission_status status, s\<lparr>res_perms_state := rp\<rparr>) });
    respond_status env service_id rv_status s }"

definition scmi_base_permissions_handler :: "('a scmi) scmi_env \<Rightarrow> fwk_id \<Rightarrow> u32 \<Rightarrow> 'a scmi \<Rightarrow> int option" where
  "scmi_base_permissions_handler env service_id message_id s = do {
    (status, agent_id) \<leftarrow> get_agent_id service_id s;
    if status \<noteq> FWK_SUCCESS then Some FWK_E_ACCESS
    else if message_id < 3 then Some FWK_SUCCESS
    else do {
      perms \<leftarrow> agent_message_permissions (env_res_plat env) (res_perms_state s) agent_id MOD_SCMI_PROTOCOL_ID_BASE message_id;
      Some (if perms = MOD_RES_PERMS_ACCESS_ALLOWED then FWK_SUCCESS else FWK_E_ACCESS) } }"

section \<open>Dispatch\<close>

definition base_payload_size_table :: "('a scmi) scmi_env \<Rightarrow> u32 list" where
  "base_payload_size_table env =
    [0, 0, 4, 0, 0, 0, 4, 4, 0] @ (if has_mod_resource_perms env then [12, 16, 8] else [0, 0, 0])"

definition base_handler_table ::
  "('a scmi) scmi_env \<Rightarrow> (fwk_id \<Rightarrow> u8 list \<Rightarrow> 'a scmi \<Rightarrow> (int \<times> 'a scmi) option) option list" where
  "base_handler_table env =
    [Some (scmi_base_protocol_version_handler env), Some (scmi_base_protocol_attributes_handler env),
     Some (scmi_base_protocol_message_attributes_handler env), Some (scmi_base_discover_vendor_handler env),
     Some (scmi_base_discover_sub_vendor_handler env), Some (scmi_base_discover_implementation_version_handler env),
     Some (scmi_base_discover_list_protocols_handler env), Some (scmi_base_discover_agent_handler env), None] @
    (if has_mod_resource_perms env
     then [Some (scmi_base_set_device_permissions env), Some (scmi_base_set_protocol_permissions env),
       Some (scmi_base_reset_agent_config env)]
     else [None, None, None])"

text \<open>A call through the null entry of the table stops.\<close>

definition scmi_base_message_handler ::
  "('a scmi) scmi_env \<Rightarrow> fwk_id \<Rightarrow> u8 list option \<Rightarrow> u32 \<Rightarrow> 'a scmi \<Rightarrow> (int \<times> 'a scmi) option" where
  "scmi_base_message_handler env service_id payload_p message_id s = do {
    payload \<leftarrow> payload_p;
    if message_id \<ge> MOD_SCMI_BASE_COMMAND_COUNT then respond_status env service_id SCMI_NOT_FOUND s
    else if of_nat (length payload) \<noteq> base_payload_size_table env ! unat message_id
    then respond_status env service_id SCMI_PROTOCOL_ERROR s
    else do {
      permitted \<leftarrow> (if has_mod_resource_perms env then scmi_base_permissions_handler env service_id message_id s
        else Some FWK_SUCCESS);
      if permitted \<noteq> FWK_SUCCESS then respond_status env service_id SCMI_DENIED s
      else do {
        handler \<leftarrow> base_handler_table env ! unat message_id;
        handler service_id payload s } } }"

end
