(* ===== verification/Scmi_Module.thy ===== *)
theory Scmi_Module
  imports Scmi_Base
begin

unbundle bit_operations_syntax

text \<open>
  The framework handlers of the SCMI module (\<open>mod_scmi.c\<close>): initialisation, binding, start, and the dispatch of a
  received message to the handler of its protocol.
\<close>

section \<open>Messages\<close>

definition call_handler ::
  "('a scmi) scmi_env \<Rightarrow> scmi_handler option \<Rightarrow> fwk_id \<Rightarrow> fwk_id \<Rightarrow> u8 list option \<Rightarrow> u32 \<Rightarrow> 'a scmi \<Rightarrow> (int \<times> 'a scmi) option" where
  "call_handler env handler protocol_id service_id payload message_id s = (case handler of
      None \<Rightarrow> None
    | Some Base_message_handler \<Rightarrow> scmi_base_message_handler env service_id payload message_id s
    | Some (Module_handler m) \<Rightarrow> env_message_handler env m protocol_id service_id payload message_id s)"

definition call_notification_handler ::
  "('a scmi) scmi_env \<Rightarrow> scmi_handler option \<Rightarrow> fwk_id \<Rightarrow> fwk_id \<Rightarrow> u8 list option \<Rightarrow> u32 \<Rightarrow> 'a scmi \<Rightarrow> (int \<times> 'a scmi) option" where
  "call_notification_handler env handler protocol_id service_id payload message_id s = (case handler of
      Some (Module_handler m) \<Rightarrow> env_notification_handler env m protocol_id service_id payload message_id s
    | _ \<Rightarrow> None)"

definition send_to_message_handler ::
  "('a scmi) scmi_env \<Rightarrow> scmi_service_ctx \<Rightarrow> scmi_protocol \<Rightarrow> u8 list option \<Rightarrow> fwk_id \<Rightarrow> 'a scmi \<Rightarrow> (int \<times> 'a scmi) option" where
  "send_to_message_handler env ctx protocol payload target_id s =
    (if has_scmi_notifications env \<and> sv_scmi_message_type ctx = MOD_SCMI_MESSAGE_TYPE_NOTIFICATION
     then call_notification_handler env (pr_notification_handler protocol) (pr_id protocol) target_id payload
       (sv_scmi_message_id ctx) s
     else call_handler env (pr_message_handler protocol) (pr_id protocol) target_id payload (sv_scmi_message_id ctx) s)"

text \<open>Without the resource permissions: whether the agent of the service may not use the protocol of the message;
  the status of a failure otherwise.\<close>

definition psci_denied :: "fwk_id \<Rightarrow> u32 \<Rightarrow> 'a scmi \<Rightarrow> (int + bool) option" where
  "psci_denied service_id protocol_id s = do {
    (status, agent_id) \<leftarrow> get_agent_id service_id s;
    if status \<noteq> FWK_SUCCESS then Some (Inl status)
    else do {
      (status, agent_type) \<leftarrow> get_agent_type agent_id s;
      if status \<noteq> FWK_SUCCESS then Some (Inl status)
      else if agent_type \<noteq> SCMI_AGENT_TYPE_PSCI then Some (Inr False)
      else do {
        cfg \<leftarrow> sm_config (scmi_ctx s);
        d \<leftarrow> disabled_for_psci cfg protocol_id;
        Some (Inr d) } } }"

text \<open>The protocol a message of a service goes to, for the two roles; on the left the status it is answered with
  (\<open>Some\<close>) or a failure of the handler (\<open>None\<close> and its status).\<close>

definition protocol_of_platform ::
  "('a scmi) scmi_env \<Rightarrow> fwk_id \<Rightarrow> u32 \<Rightarrow> 'a scmi \<Rightarrow> ((int option \<times> int) + scmi_protocol) option" where
  "protocol_of_platform env service_id protocol_id s = do {
    let ids = sm_scmi_protocol_id_to_idx (scmi_ctx s);
    fwk_assert (unat protocol_id < length ids);
    let protocol_idx = ids ! unat protocol_id;
    if protocol_idx = 0 then Some (Inl (Some SCMI_NOT_SUPPORTED, FWK_SUCCESS))
    else do {
      denied \<leftarrow> (if has_mod_resource_perms env then Some (Inr False) else psci_denied service_id protocol_id s);
      case denied of
        Inl status \<Rightarrow> Some (Inl (None, status))
      | Inr True \<Rightarrow> Some (Inl (Some SCMI_DENIED, FWK_SUCCESS))
      | Inr False \<Rightarrow> do {
          fwk_assert (unat protocol_idx < length (sm_protocol_table (scmi_ctx s)));
          Some (Inr (sm_protocol_table (scmi_ctx s) ! unat protocol_idx)) } } }"

definition protocol_of_agent :: "u32 \<Rightarrow> 'a scmi \<Rightarrow> scmi_protocol option" where
  "protocol_of_agent protocol_id s = do {
    let ids = sm_scmi_protocol_requester_id_to_idx (scmi_ctx s);
    fwk_assert (unat protocol_id < length ids);
    let protocol_idx = unat (ids ! unat protocol_id);
    fwk_assert (protocol_idx < length (sm_protocol_requester_table (scmi_ctx s)));
    Some (sm_protocol_requester_table (scmi_ctx s) ! protocol_idx) }"

text \<open>The part after the header has been read; a role is one of two, so \<open>FWK_E_INIT\<close> is never returned.\<close>

definition dispatch_message ::
  "('a scmi) scmi_env \<Rightarrow> fwk_id \<Rightarrow> u8 list option \<Rightarrow> 'a scmi \<Rightarrow> (int \<times> 'a scmi) option" where
  "dispatch_message env service_id payload s = do {
    ctx \<leftarrow> service_ctx service_id s;
    if \<not> is_message_type_valid ctx then do {
      (_, s) \<leftarrow> ctx_respond env ctx (status_bytes SCMI_PROTOCOL_ERROR) s;
      Some (FWK_SUCCESS, s) }
    else do {
      cfg \<leftarrow> sv_config ctx;
      target \<leftarrow> (case sc_scmi_entity_role cfg of
          MOD_SCMI_ROLE_PLATFORM \<Rightarrow> protocol_of_platform env service_id (sv_scmi_protocol_id ctx) s
        | MOD_SCMI_ROLE_AGENT \<Rightarrow> map_option Inr (protocol_of_agent (sv_scmi_protocol_id ctx) s));
      case target of
        Inl (None, status) \<Rightarrow> Some (status, s)
      | Inl (Some answer, status) \<Rightarrow> do { (_, s) \<leftarrow> ctx_respond env ctx (status_bytes answer) s; Some (status, s) }
      | Inr protocol \<Rightarrow> do {
          (status, s) \<leftarrow> send_to_message_handler env ctx protocol payload service_id s;
          if status = FWK_SUCCESS \<and> sc_scmi_entity_role cfg = MOD_SCMI_ROLE_AGENT
          then do { ctx \<leftarrow> service_ctx service_id s; (_, s) \<leftarrow> release_channel env ctx s; Some (FWK_SUCCESS, s) }
          else Some (FWK_SUCCESS, s) } } }"

definition scmi_process_event ::
  "('a scmi) scmi_env \<Rightarrow> fwk_event \<Rightarrow> fwk_event \<Rightarrow> 'a scmi \<Rightarrow> ((int \<times> fwk_event) \<times> 'a scmi) option" where
  "scmi_process_event env event resp s = do {
    let service_id = ev_target_id event;
    ctx \<leftarrow> service_ctx service_id s;
    _ \<leftarrow> sv_transport_api ctx;
    _ \<leftarrow> fwk_module_get_element_name service_id s;
    let (status, message_header) = tr_get_message_header env (sv_transport_id ctx) (scmi_calls s);
    if status \<noteq> FWK_SUCCESS then Some ((status, resp), s)
    else do {
      let (status, payload) = tr_get_payload env (sv_transport_id ctx) (scmi_calls s);
      if status \<noteq> FWK_SUCCESS then Some ((status, resp), s)
      else do {
        s \<leftarrow> upd_service service_id (\<lambda>c. c\<lparr>sv_scmi_protocol_id := ucast (read_protocol_id message_header),
          sv_scmi_message_id := ucast (read_message_id message_header),
          sv_scmi_message_type := read_message_type message_header,
          sv_scmi_token := read_token message_header\<rparr>) s;
        (status, s) \<leftarrow> dispatch_message env service_id payload s;
        Some ((status, resp), s) } } }"

section \<open>Initialisation\<close>

definition scmi_init ::
  "('a scmi) scmi_env \<Rightarrow> u32 \<Rightarrow> mod_scmi_config option \<Rightarrow> 'a scmi \<Rightarrow> (int \<times> 'a scmi) option" where
  "scmi_init env service_count cfg_p s = (case cfg_p of
      None \<Rightarrow> Some (FWK_E_PARAM, s)
    | Some cfg \<Rightarrow>
        if cf_agent_count cfg > MOD_SCMI_AGENT_ID_MAX then Some (FWK_E_PARAM, s)
        else do {
          let agents = take (unat (cf_agent_count cfg)) (drop 1 (cf_agent_table cfg));
          if list_ex (\<lambda>a. ag_type a \<ge> SCMI_AGENT_TYPE_COUNT) agents then Some (FWK_E_PARAM, s)
          else do {
            fwk_assert (unat (cf_agent_count cfg) < length (cf_agent_table cfg) \<or> cf_agent_count cfg = 0);
            let table = replicate (unat (cf_protocol_count_max cfg + PROTOCOL_TABLE_RESERVED_ENTRIES_COUNT)) scmi_protocol_zero;
            fwk_assert (has_base_protocol env \<longrightarrow> 1 < length table);
            Some (FWK_SUCCESS, upd_scmi (\<lambda>c. c\<lparr>sm_config := Some cfg,
              sm_protocol_table := (if has_base_protocol env
                then table[unat PROTOCOL_TABLE_BASE_PROTOCOL_IDX := scmi_protocol_zero\<lparr>pr_message_handler := Some Base_message_handler\<rparr>]
                else table),
              sm_protocol_requester_table := replicate (unat (cf_protocol_requester_count_max cfg)) scmi_protocol_zero,
              sm_service_ctx_table := replicate (unat service_count) scmi_service_ctx_zero,
              sm_scmi_protocol_id_to_idx := (if has_base_protocol env
                then (sm_scmi_protocol_id_to_idx c)[unat MOD_SCMI_PROTOCOL_ID_BASE := PROTOCOL_TABLE_BASE_PROTOCOL_IDX]
                else sm_scmi_protocol_id_to_idx c)\<rparr>) s) } })"

definition scmi_service_init :: "fwk_id \<Rightarrow> mod_scmi_service_config \<Rightarrow> 'a scmi \<Rightarrow> (int \<times> 'a scmi) option" where
  "scmi_service_init service_id cfg s = do {
    m \<leftarrow> sm_config (scmi_ctx s);
    if (sc_scmi_agent_id cfg = MOD_SCMI_PLATFORM_ID \<or> sc_scmi_agent_id cfg > cf_agent_count m) \<and>
       sc_scmi_entity_role cfg = MOD_SCMI_ROLE_PLATFORM
    then Some (FWK_E_PARAM, s)
    else do {
      s \<leftarrow> upd_service service_id (\<lambda>c. c\<lparr>sv_config := Some cfg\<rparr>) s;
      Some (FWK_SUCCESS, s) } }"

section \<open>Binding\<close>

definition bind_service :: "('a scmi) scmi_env \<Rightarrow> fwk_id \<Rightarrow> 'a scmi \<Rightarrow> (int \<times> 'a scmi) option" where
  "bind_service env i s = do {
    ctx \<leftarrow> service_ctx i s;
    cfg \<leftarrow> sv_config ctx;
    let (status, api) = bind_transport env (sc_transport_id cfg) (sc_transport_api_id cfg);
    if status \<noteq> FWK_SUCCESS then Some (status, s)
    else if \<not> ta_readers api then Some (FWK_E_DATA, s)
    else do {
      s \<leftarrow> upd_service i (\<lambda>c. c\<lparr>sv_transport_api := Some api, sv_transport_id := sc_transport_id cfg,
        sv_respond := ta_respond api, sv_transmit := ta_transmit api\<rparr>) s;
      Some (FWK_SUCCESS, s) } }"

text \<open>The common part of the two loops: the interface of a module and the number of its protocol.\<close>

definition protocol_interface :: "('a scmi) scmi_env \<Rightarrow> fwk_id \<Rightarrow> (int + mod_scmi_to_protocol_api \<times> u8) option" where
  "protocol_interface env i = do {
    _ \<leftarrow> fwk_id_get_module_idx i;
    let (status, api) = bind_protocol env i;
    if status \<noteq> FWK_SUCCESS then Some (Inl status)
    else case pa_get_scmi_protocol_id api of
      None \<Rightarrow> Some (Inl FWK_E_DATA)
    | Some (status, scmi_protocol_id) \<Rightarrow>
        if \<not> pa_message_handler api then Some (Inl FWK_E_DATA)
        else if status \<noteq> FWK_SUCCESS then Some (Inl status)
        else Some (Inr (api, scmi_protocol_id)) }"

definition bind_protocol_step :: "('a scmi) scmi_env \<Rightarrow> nat \<Rightarrow> 'a scmi \<Rightarrow> (int \<times> 'a scmi) option" where
  "bind_protocol_step env k s = do {
    let n = unat PROTOCOL_TABLE_RESERVED_ENTRIES_COUNT + k;
    fwk_assert (n < length (sm_protocol_table (scmi_ctx s)));
    let protocol = sm_protocol_table (scmi_ctx s) ! n;
    r \<leftarrow> protocol_interface env (pr_id protocol);
    case r of
      Inl status \<Rightarrow> Some (status, s)
    | Inr (api, scmi_protocol_id) \<Rightarrow>
        if sm_scmi_protocol_id_to_idx (scmi_ctx s) ! unat scmi_protocol_id \<noteq> 0 then Some (FWK_E_STATE, s)
        else Some (FWK_SUCCESS, upd_scmi (\<lambda>c. c\<lparr>
          sm_scmi_protocol_id_to_idx := (sm_scmi_protocol_id_to_idx c)[unat scmi_protocol_id := of_nat n],
          sm_protocol_table := (sm_protocol_table c)[n := protocol\<lparr>
            pr_message_handler := Some (Module_handler (pr_id protocol)),
            pr_notification_handler := (if has_scmi_notifications env \<and> pa_notification_handler api
              then Some (Module_handler (pr_id protocol)) else pr_notification_handler protocol)\<rparr>]\<rparr>) s) }"

definition bind_requester_step :: "('a scmi) scmi_env \<Rightarrow> nat \<Rightarrow> 'a scmi \<Rightarrow> (int \<times> 'a scmi) option" where
  "bind_requester_step env k s = do {
    fwk_assert (k < length (sm_protocol_requester_table (scmi_ctx s)));
    let protocol = sm_protocol_requester_table (scmi_ctx s) ! k;
    r \<leftarrow> protocol_interface env (pr_id protocol);
    case r of
      Inl status \<Rightarrow> Some (status, s)
    | Inr (api, scmi_protocol_id) \<Rightarrow> Some (FWK_SUCCESS, upd_scmi (\<lambda>c. c\<lparr>
          sm_scmi_protocol_requester_id_to_idx := (sm_scmi_protocol_requester_id_to_idx c)[unat scmi_protocol_id := of_nat k],
          sm_protocol_requester_table := (sm_protocol_requester_table c)[k := protocol\<lparr>
            pr_message_handler := Some (Module_handler (pr_id protocol)),
            pr_notification_handler := (if has_scmi_notifications env
              then if pa_notification_handler api then Some (Module_handler (pr_id protocol)) else None
              else pr_notification_handler protocol)\<rparr>]\<rparr>) s) }"

definition scmi_bind :: "('a scmi) scmi_env \<Rightarrow> fwk_id \<Rightarrow> nat \<Rightarrow> 'a scmi \<Rightarrow> (int \<times> 'a scmi) option" where
  "scmi_bind env i round s =
    (if round = 0 then do {
       is_module \<leftarrow> fwk_id_is_type i FWK_ID_TYPE_MODULE;
       if is_module then Some (FWK_SUCCESS, s) else bind_service env i s }
     else do {
       is_element \<leftarrow> fwk_id_is_type i FWK_ID_TYPE_ELEMENT;
       if is_element then Some (FWK_SUCCESS, s)
       else do {
         (status, s) \<leftarrow> for_each_status (bind_protocol_step env) [0..<unat (sm_protocol_count (scmi_ctx s))] s;
         if status \<noteq> FWK_SUCCESS then Some (status, s)
         else do {
           (status, s) \<leftarrow> for_each_status (bind_requester_step env)
             [0..<unat (sm_protocol_requester_count (scmi_ctx s))] s;
           if status \<noteq> FWK_SUCCESS then Some (status, s)
           else Some (if has_mod_resource_perms env then bind_res_perms env else FWK_SUCCESS, s) } } })"

definition MOD_SCMI_API_IDX_PROTOCOL :: u32 where "MOD_SCMI_API_IDX_PROTOCOL = 0"
definition MOD_SCMI_API_IDX_PROTOCOL_REQ :: u32 where "MOD_SCMI_API_IDX_PROTOCOL_REQ = 1"
definition MOD_SCMI_API_IDX_TRANSPORT :: u32 where "MOD_SCMI_API_IDX_TRANSPORT = 2"
definition MOD_SCMI_API_IDX_NOTIFICATION :: u32 where "MOD_SCMI_API_IDX_NOTIFICATION = 3"

datatype scmi_api = scmi_from_protocol_api | scmi_from_protocol_req_api | scmi_from_transport_api | mod_scmi_notif_api

definition scmi_process_bind_request ::
  "('a scmi) scmi_env \<Rightarrow> fwk_id \<Rightarrow> fwk_id \<Rightarrow> fwk_id \<Rightarrow> 'a scmi \<Rightarrow> ((int \<times> scmi_api option) \<times> 'a scmi) option" where
  "scmi_process_bind_request env source_id target_id api_id s = do {
    api_idx \<leftarrow> fwk_id_get_api_idx api_id;
    let c = scmi_ctx s;
    if api_idx = MOD_SCMI_API_IDX_PROTOCOL then do {
      is_module \<leftarrow> fwk_id_is_type target_id FWK_ID_TYPE_MODULE;
      if \<not> is_module then Some ((FWK_E_SUPPORT, None), s)
      else do {
       cfg \<leftarrow> sm_config c;
       if sm_protocol_count c \<ge> cf_protocol_count_max cfg then Some ((FWK_E_NOMEM, None), s)
       else do {
         let n = unat (PROTOCOL_TABLE_RESERVED_ENTRIES_COUNT + sm_protocol_count c);
         fwk_assert (n < length (sm_protocol_table c));
         Some ((FWK_SUCCESS, Some scmi_from_protocol_api), upd_scmi (\<lambda>c. c\<lparr>
           sm_protocol_table := (sm_protocol_table c)[n := (sm_protocol_table c ! n)\<lparr>pr_id := source_id\<rparr>],
           sm_protocol_count := sm_protocol_count c + 1\<rparr>) s) } } }
    else if api_idx = MOD_SCMI_API_IDX_PROTOCOL_REQ then do {
      is_module \<leftarrow> fwk_id_is_type target_id FWK_ID_TYPE_MODULE;
      if \<not> is_module then Some ((FWK_E_SUPPORT, None), s)
      else do {
       cfg \<leftarrow> sm_config c;
       if sm_protocol_requester_count c \<ge> cf_protocol_requester_count_max cfg then Some ((FWK_E_PARAM, None), s)
       else do {
         let n = unat (sm_protocol_requester_count c);
         fwk_assert (n < length (sm_protocol_requester_table c));
         Some ((FWK_SUCCESS, Some scmi_from_protocol_req_api), upd_scmi (\<lambda>c. c\<lparr>
           sm_protocol_requester_table := (sm_protocol_requester_table c)[n := (sm_protocol_requester_table c ! n)\<lparr>pr_id := source_id\<rparr>],
           sm_protocol_requester_count := sm_protocol_requester_count c + 1\<rparr>) s) } } }
    else if api_idx = MOD_SCMI_API_IDX_TRANSPORT then do {
      is_element \<leftarrow> fwk_id_is_type target_id FWK_ID_TYPE_ELEMENT;
      if \<not> is_element then Some ((FWK_E_SUPPORT, None), s)
      else do {
         ctx \<leftarrow> service_ctx target_id s;
         eq \<leftarrow> fwk_id_is_equal source_id (sv_transport_id ctx);
         if \<not> eq then Some ((FWK_E_ACCESS, None), s) else Some ((FWK_SUCCESS, Some scmi_from_transport_api), s) } }
    else if api_idx = MOD_SCMI_API_IDX_NOTIFICATION \<and> has_scmi_notifications env then do {
      is_module \<leftarrow> fwk_id_is_type target_id FWK_ID_TYPE_MODULE;
      if \<not> is_module then Some ((FWK_E_SUPPORT, None), s) else Some ((FWK_SUCCESS, Some mod_scmi_notif_api), s) }
    else Some ((FWK_E_SUPPORT, None), s) }"

section \<open>Start\<close>

definition mod_scmi_notification_id_initialized :: "('a scmi) scmi_env \<Rightarrow> fwk_id" where
  "mod_scmi_notification_id_initialized env = FWK_ID_NOTIFICATION (env_scmi_idx env) 0"

definition notify_initialized :: "('a scmi) scmi_env \<Rightarrow> fwk_id \<Rightarrow> 'a scmi \<Rightarrow> (int \<times> 'a scmi) option" where
  "notify_initialized env source_id s = do {
    ((status, _), s) \<leftarrow> fwk_notification_notify
      (Some (event_zero\<lparr>ev_id := mod_scmi_notification_id_initialized env, ev_source_id := source_id\<rparr>)) (Some 0) s;
    Some (status, s) }"

definition scmi_start :: "('a scmi) scmi_env \<Rightarrow> fwk_id \<Rightarrow> 'a scmi \<Rightarrow> (int \<times> 'a scmi) option" where
  "scmi_start env i s =
    (if \<not> has_notification env then Some (FWK_SUCCESS, s)
     else do {
       is_module \<leftarrow> fwk_id_is_type i FWK_ID_TYPE_MODULE;
       if is_module then Some (FWK_SUCCESS,
         if has_scmi_notifications env
         then upd_scmi (\<lambda>c. c\<lparr>sm_scmi_notif_subscribers :=
           replicate (unat (sm_protocol_count c + 1)) scmi_subscribers_zero\<rparr>) s
         else s)
       else do {
         data \<leftarrow> fwk_module_get_data i s;
         cfg \<leftarrow> env_service_config env data;
         none \<leftarrow> fwk_id_is_equal (sc_transport_notification_init_id cfg) FWK_ID_NONE;
         if none then notify_initialized env i s
         else fwk_notification_subscribe (sc_transport_notification_init_id cfg) (sc_transport_id cfg) i s } })"

definition scmi_process_notification ::
  "('a scmi) scmi_env \<Rightarrow> fwk_event \<Rightarrow> fwk_event \<Rightarrow> 'a scmi \<Rightarrow> ((int \<times> fwk_event) \<times> 'a scmi) option" where
  "scmi_process_notification env event resp_event s = do {
    is_element \<leftarrow> fwk_id_is_type (ev_target_id event) FWK_ID_TYPE_ELEMENT;
    fwk_assert is_element;
    data \<leftarrow> fwk_module_get_data (ev_target_id event) s;
    case env_service_config env data of
      None \<Rightarrow> Some ((FWK_E_PARAM, resp_event), s)
    | Some cfg \<Rightarrow> do {
        eq \<leftarrow> fwk_id_is_equal (ev_id event) (sc_transport_notification_init_id cfg);
        fwk_assert eq;
        (status, s) \<leftarrow> notify_initialized env FWK_ID_NONE s;
        Some ((status, resp_event), s) } }"

end
