(* ===== verification/Tp_Types.thy ===== *)
theory Tp_Types
  imports Scmi_Module
begin

unbundle bit_operations_syntax

text \<open>
  The data of the transport module (\<open>module/transport\<close>): messages in mailboxes and internal buffers, the
  configuration and the contexts of the channels, the interfaces of its neighbours. The state extends that of the
  SCMI module, whose services a channel may signal. A pointer to a mailbox is its address, \<open>size_t\<close> has 32 bits.
\<close>

section \<open>Constants\<close>

definition MOD_TRANSPORT_MAILBOX_STATUS_FREE_MASK :: u32 where "MOD_TRANSPORT_MAILBOX_STATUS_FREE_MASK = push_bit 0 1"
definition MOD_TRANSPORT_MAILBOX_STATUS_ERROR_MASK :: u32 where "MOD_TRANSPORT_MAILBOX_STATUS_ERROR_MASK = push_bit 1 1"
definition MOD_TRANSPORT_MAILBOX_FLAGS_IENABLED_MASK :: u32 where "MOD_TRANSPORT_MAILBOX_FLAGS_IENABLED_MASK = push_bit 0 1"
definition MOD_TRANSPORT_POLICY_SECURE :: u32 where "MOD_TRANSPORT_POLICY_SECURE = push_bit 0 1"
definition MOD_TRANSPORT_POLICY_INIT_MAILBOX :: u32 where "MOD_TRANSPORT_POLICY_INIT_MAILBOX = push_bit 1 1"
definition MOD_TRANSPORT_NOTIFICATION_IDX_INITIALIZED :: u32 where "MOD_TRANSPORT_NOTIFICATION_IDX_INITIALIZED = 0"
definition MOD_SCMI_API_IDX_TRANSPORT :: u32 where "MOD_SCMI_API_IDX_TRANSPORT = 2"
definition MOD_PD_NOTIFICATION_IDX_TRANSITION :: u32 where "MOD_PD_NOTIFICATION_IDX_TRANSITION = 0"
definition PD_STATE_OFF :: u32 where "PD_STATE_OFF = 0"
definition PD_STATE_ON :: u32 where "PD_STATE_ON = 1"

lemmas mailbox_masks = MOD_TRANSPORT_MAILBOX_STATUS_FREE_MASK_def MOD_TRANSPORT_MAILBOX_STATUS_ERROR_MASK_def
  MOD_TRANSPORT_MAILBOX_FLAGS_IENABLED_MASK_def

datatype mod_transport_channel_type =
    MOD_TRANSPORT_CHANNEL_TYPE_REQUESTER
  | MOD_TRANSPORT_CHANNEL_TYPE_COMPLETER
  | MOD_TRANSPORT_CHANNEL_TYPE_COUNT

text \<open>The constructors that a build leaves out occur in no configuration of that build.\<close>

datatype mod_transport_channel_transport_type =
    MOD_TRANSPORT_CHANNEL_TRANSPORT_TYPE_OUT_BAND
  | MOD_TRANSPORT_CHANNEL_TRANSPORT_TYPE_IN_BAND
  | MOD_TRANSPORT_CHANNEL_TRANSPORT_TYPE_NONE
  | MOD_TRANSPORT_CHANNEL_TRANSPORT_TYPE_FAST_CHANNELS
  | MOD_TRANSPORT_CHANNEL_TRANSPORT_TYPE_COUNT

section \<open>Messages\<close>

text \<open>\<open>struct mod_transport_buffer\<close>; \<open>tb_payload\<close> is the memory from the flexible member to the end of the mailbox or
  buffer. The members before it take 28 bytes; the structure is aligned to 8, so \<open>sizeof\<close> is 32 and a copy of the
  structure takes the first four bytes of the payload along.\<close>

record mod_transport_buffer =
  tb_reserved0 :: u32
  tb_status :: u32
  tb_reserved1 :: "64 word"
  tb_flags :: u32
  tb_length :: u32
  tb_message_header :: u32
  tb_payload :: "u8 list"

definition buffer_payload_offset :: nat where "buffer_payload_offset = 28"
definition sizeof_transport_buffer :: u32 where "sizeof_transport_buffer = 32"
definition sizeof_message_header :: u32 where "sizeof_message_header = 4"

definition buffer_tail :: nat where "buffer_tail = unat sizeof_transport_buffer - buffer_payload_offset"

lemma buffer_tail_4 [simp]: "buffer_tail = 4"
  by (simp add: buffer_tail_def sizeof_transport_buffer_def buffer_payload_offset_def)

text \<open>\<open>fwk_str_memcpy(dest, src, sizeof(struct mod_transport_buffer))\<close>\<close>

definition copy_structure :: "mod_transport_buffer \<Rightarrow> mod_transport_buffer \<Rightarrow> mod_transport_buffer option" where
  "copy_structure dest src = do {
    fwk_assert (buffer_tail \<le> length (tb_payload dest) \<and> buffer_tail \<le> length (tb_payload src));
    Some (src\<lparr>tb_payload := take buffer_tail (tb_payload src) @ drop buffer_tail (tb_payload dest)\<rparr>) }"

text \<open>Copying \<open>n\<close> bytes into the payload at an offset; the source and the destination must be long enough.\<close>

definition copy_payload :: "nat \<Rightarrow> u8 list \<Rightarrow> nat \<Rightarrow> mod_transport_buffer \<Rightarrow> mod_transport_buffer option" where
  "copy_payload off src n buf = do {
    fwk_assert (n \<le> length src \<and> off + n \<le> length (tb_payload buf));
    Some (buf\<lparr>tb_payload := take off (tb_payload buf) @ take n src @ drop (off + n) (tb_payload buf)\<rparr>) }"

section \<open>Configuration\<close>

record mod_transport_channel_config =
  cc_transport_type :: mod_transport_channel_transport_type
  cc_channel_type :: mod_transport_channel_type
  cc_out_band_mailbox_address :: addr
  cc_out_band_mailbox_size :: u32
  cc_in_band_mailbox_size :: u32
  cc_pd_source_id :: fwk_id
  cc_platform_notification_id :: fwk_id
  cc_platform_source_id :: fwk_id
  cc_signal_api_id :: fwk_id
  cc_policies :: u32
  cc_driver_id :: fwk_id
  cc_driver_api_id :: fwk_id

section \<open>Contexts\<close>

text \<open>The union of the two signal interfaces; both are the same pair of functions, so a call through one member finds
  the function of the other.\<close>

datatype mod_transport_signal_api = Scmi_signal_api | Firmware_signal_api

record transport_channel_ctx =
  ch_id :: fwk_id
  ch_config :: "mod_transport_channel_config option"
  ch_in :: "mod_transport_buffer option"
  ch_out :: "mod_transport_buffer option"
  ch_locked :: bool
  ch_max_payload_size :: u32
  ch_service_id :: fwk_id
  ch_driver_api :: bool
  ch_transport_signal :: "mod_transport_signal_api option"
  ch_is_scmi :: bool
  ch_out_band_mailbox_ready :: bool
  ch_wait_on_notifications :: u32

definition transport_channel_ctx_zero :: transport_channel_ctx where
  "transport_channel_ctx_zero = \<lparr>ch_id = 0, ch_config = None, ch_in = None, ch_out = None, ch_locked = False,
    ch_max_payload_size = 0, ch_service_id = 0, ch_driver_api = False, ch_transport_signal = None,
    ch_is_scmi = False, ch_out_band_mailbox_ready = False, ch_wait_on_notifications = 0\<rparr>"

text \<open>The calls into the drivers, in order; the message that is sent is a pointer to a buffer.\<close>

datatype transport_call =
    Send_message "mod_transport_buffer option" fwk_id
  | Get_message fwk_id
  | Trigger_event fwk_id
  | Fch_register_callback fwk_id addr addr

record transport_state = scmi_state +
  tp_channel_ctx_table :: "transport_channel_ctx list"
  tp_channel_count :: nat
  tp_mailboxes :: "addr \<Rightarrow> mod_transport_buffer option"
  tp_calls :: "transport_call list"

type_synonym 'a tp = "'a transport_state_scheme"

section \<open>The neighbours\<close>

record mod_transport_fast_channel_addr =
  fa_local_view_address :: addr
  fa_target_view_address :: addr
  fa_length :: u32

record mod_transport_fch_doorbell_info =
  fd_doorbell_register_width :: u32
  fd_doorbell_support :: bool

datatype mod_transport_fch_interrupt_type =
    MOD_TRANSPORT_FCH_INTERRUPT_TYPE_TIMER
  | MOD_TRANSPORT_FCH_INTERRUPT_TYPE_HW
  | MOD_TRANSPORT_FCH_INTERRUPT_TYPE_COUNT

text \<open>The build and the other side. \<open>tp_agent\<close> is what the agent does to the shared mailbox before the module reads
  its header (0) and its payload (1); \<open>tp_padding\<close> the padding an assignment of the structure writes, \<open>tp_alloc\<close> a
  fresh buffer of a size; \<open>driver_status\<close> the status of a call into a driver after the calls before it, \<open>driver_message\<close>
  what \<open>get_message\<close> puts into the buffer, whatever it returns.\<close>

record 's transport_env =
  has_outband :: bool
  has_inband :: bool
  has_transport_fc :: bool
  has_mod_scmi :: bool
  has_mod_power_domain :: bool
  env_transport_idx :: u32
  env_power_domain_idx :: u32
  env_channel_config :: "addr \<Rightarrow> mod_transport_channel_config option"
  tp_agent :: "nat \<Rightarrow> addr \<Rightarrow> mod_transport_buffer \<Rightarrow> mod_transport_buffer"
  tp_padding :: "u8 list"
  tp_alloc :: "u32 \<Rightarrow> mod_transport_buffer option"
  driver_status :: "transport_call list \<Rightarrow> int"
  driver_message :: "transport_call list \<Rightarrow> mod_transport_buffer \<Rightarrow> mod_transport_buffer"
  driver_fch_address :: "fwk_id \<Rightarrow> int \<times> mod_transport_fast_channel_addr"
  driver_fch_interrupt_type :: "fwk_id \<Rightarrow> int \<times> mod_transport_fch_interrupt_type"
  driver_fch_doorbell_info :: "fwk_id \<Rightarrow> int \<times> mod_transport_fch_doorbell_info"
  driver_fch_rate_limit :: "fwk_id \<Rightarrow> int \<times> u32"
  bind_interface :: "fwk_id \<Rightarrow> fwk_id \<Rightarrow> int"
  firmware_signal_error :: "fwk_id \<Rightarrow> 's \<Rightarrow> (int \<times> 's) option"
  firmware_signal_message :: "fwk_id \<Rightarrow> 's \<Rightarrow> (int \<times> 's) option"
  env_scmi :: "'s scmi_env"

section \<open>Access to the state\<close>

definition channel_ctx :: "fwk_id \<Rightarrow> 'a tp \<Rightarrow> transport_channel_ctx option" where
  "channel_ctx channel_id s = do {
    i \<leftarrow> fwk_id_get_element_idx channel_id;
    fwk_assert (unat i < length (tp_channel_ctx_table s));
    Some (tp_channel_ctx_table s ! unat i) }"

definition upd_channel :: "fwk_id \<Rightarrow> (transport_channel_ctx \<Rightarrow> transport_channel_ctx) \<Rightarrow> 'a tp \<Rightarrow> 'a tp option" where
  "upd_channel channel_id f s = do {
    i \<leftarrow> fwk_id_get_element_idx channel_id;
    fwk_assert (unat i < length (tp_channel_ctx_table s));
    Some (s\<lparr>tp_channel_ctx_table := (tp_channel_ctx_table s)[unat i := f (tp_channel_ctx_table s ! unat i)]\<rparr>) }"

text \<open>Where \<open>buffer\<close> points to in \<open>transport_respond\<close> and \<open>transport_transmit\<close>.\<close>

datatype buffer_pointer = Mailbox addr | Write_buffer fwk_id

definition read_buffer :: "buffer_pointer \<Rightarrow> 'a tp \<Rightarrow> mod_transport_buffer option" where
  "read_buffer p s = (case p of Mailbox a \<Rightarrow> tp_mailboxes s a
    | Write_buffer channel_id \<Rightarrow> do { ctx \<leftarrow> channel_ctx channel_id s; ch_out ctx })"

definition put_buffer :: "buffer_pointer \<Rightarrow> mod_transport_buffer \<Rightarrow> 'a tp \<Rightarrow> 'a tp option" where
  "put_buffer p b s = (case p of Mailbox a \<Rightarrow> Some (s\<lparr>tp_mailboxes := (tp_mailboxes s)(a := Some b)\<rparr>)
    | Write_buffer channel_id \<Rightarrow> upd_channel channel_id (\<lambda>c. c\<lparr>ch_out := Some b\<rparr>) s)"

text \<open>A call through the interface of the driver, which must be bound.\<close>

definition call_driver :: "('a tp) transport_env \<Rightarrow> transport_channel_ctx \<Rightarrow> transport_call \<Rightarrow> 'a tp \<Rightarrow> (int \<times> 'a tp) option" where
  "call_driver env ctx c s = do {
    fwk_assert (ch_driver_api ctx);
    let s = s\<lparr>tp_calls := tp_calls s @ [c]\<rparr>;
    Some (driver_status env (tp_calls s), s) }"

end
