(* ===== verification/Tp_Core.thy ===== *)
theory Tp_Core
  imports Tp_Types
begin

unbundle bit_operations_syntax

text \<open>
  The interfaces of \<open>mod_transport.c\<close>: for the SCMI and firmware services, for fast channels, and the signal of a
  driver with the handling of an incoming message. \<open>None\<close> is a failed assertion, a null pointer that is followed, or
  an access outside a buffer.
\<close>

section \<open>Reading a message\<close>

text \<open>A pointer argument is \<open>None\<close> when it is null, or what it points to; it is returned as the call leaves it.\<close>

definition transport_get_secure :: "fwk_id \<Rightarrow> bool option \<Rightarrow> 'a tp \<Rightarrow> (int \<times> bool option) option" where
  "transport_get_secure channel_id secure s = (case secure of
      None \<Rightarrow> do { fwk_unexpected (dbg s); Some (FWK_E_PARAM, None) }
    | Some _ \<Rightarrow> do {
        ctx \<leftarrow> channel_ctx channel_id s;
        cfg \<leftarrow> ch_config ctx;
        Some (FWK_SUCCESS, Some (cc_policies cfg AND MOD_TRANSPORT_POLICY_SECURE \<noteq> 0)) })"

definition transport_get_max_payload_size :: "fwk_id \<Rightarrow> u32 option \<Rightarrow> 'a tp \<Rightarrow> (int \<times> u32 option) option" where
  "transport_get_max_payload_size channel_id sz s = (case sz of
      None \<Rightarrow> do { fwk_unexpected (dbg s); Some (FWK_E_PARAM, None) }
    | Some _ \<Rightarrow> do { ctx \<leftarrow> channel_ctx channel_id s; Some (FWK_SUCCESS, Some (ch_max_payload_size ctx)) })"

definition has_messages :: "mod_transport_channel_config \<Rightarrow> bool" where
  "has_messages cfg \<longleftrightarrow> cc_transport_type cfg \<noteq> MOD_TRANSPORT_CHANNEL_TRANSPORT_TYPE_NONE"

definition transport_get_message_header :: "fwk_id \<Rightarrow> u32 option \<Rightarrow> 'a tp \<Rightarrow> (int \<times> u32 option) option" where
  "transport_get_message_header channel_id header s = (case header of
      None \<Rightarrow> do { fwk_unexpected (dbg s); Some (FWK_E_PARAM, None) }
    | Some _ \<Rightarrow> do {
        ctx \<leftarrow> channel_ctx channel_id s;
        cfg \<leftarrow> ch_config ctx;
        fwk_assert (has_messages cfg);
        if \<not> ch_locked ctx then Some (FWK_E_ACCESS, header)
        else do { inb \<leftarrow> ch_in ctx; Some (FWK_SUCCESS, Some (tb_message_header inb)) } })"

text \<open>The payload is the pointer into the read buffer, as the memory from there on, and the size.\<close>

definition transport_get_payload :: "fwk_id \<Rightarrow> (u8 list \<times> u32) option \<Rightarrow> 'a tp \<Rightarrow> (int \<times> (u8 list \<times> u32) option) option" where
  "transport_get_payload channel_id payload s = (case payload of
      None \<Rightarrow> do { fwk_unexpected (dbg s); Some (FWK_E_PARAM, None) }
    | Some _ \<Rightarrow> do {
        ctx \<leftarrow> channel_ctx channel_id s;
        cfg \<leftarrow> ch_config ctx;
        fwk_assert (has_messages cfg);
        if \<not> ch_locked ctx then Some (FWK_E_ACCESS, payload)
        else do {
          inb \<leftarrow> ch_in ctx;
          Some (FWK_SUCCESS, Some (tb_payload inb, tb_length inb - sizeof_message_header)) } })"

section \<open>Writing a message\<close>

definition transport_write_payload :: "fwk_id \<Rightarrow> u32 \<Rightarrow> u8 list option \<Rightarrow> u32 \<Rightarrow> 'a tp \<Rightarrow> (int \<times> 'a tp) option" where
  "transport_write_payload channel_id offset payload sz s = do {
    ctx \<leftarrow> channel_ctx channel_id s;
    cfg \<leftarrow> ch_config ctx;
    fwk_assert (has_messages cfg);
    case payload of
      Some bytes \<Rightarrow>
        if \<not> fwk_str_is_in_boundry (unat (ch_max_payload_size ctx)) (unat offset) (unat sz)
        then do { fwk_unexpected (dbg s); Some (FWK_E_PARAM, s) }
        else if \<not> ch_locked ctx then Some (FWK_E_ACCESS, s)
        else do {
          outb \<leftarrow> ch_out ctx;
          outb \<leftarrow> copy_payload (unat offset) bytes (unat sz) outb;
          s \<leftarrow> upd_channel channel_id (\<lambda>c. c\<lparr>ch_out := Some outb\<rparr>) s;
          Some (FWK_SUCCESS, s) }
    | None \<Rightarrow> do { fwk_unexpected (dbg s); Some (FWK_E_PARAM, s) } }"

text \<open>The first part of \<open>transport_respond\<close>: the buffer, with the payload in it. The in-band branch is compiled only
  without out-band support.\<close>

definition respond_buffer ::
  "('a tp) transport_env \<Rightarrow> fwk_id \<Rightarrow> transport_channel_ctx \<Rightarrow> mod_transport_channel_config \<Rightarrow> u8 list option \<Rightarrow> u32 \<Rightarrow> 'a tp
    \<Rightarrow> (buffer_pointer option \<times> 'a tp) option" where
  "respond_buffer env channel_id ctx cfg payload sz s =
    (if has_outband env then
       (if cc_transport_type cfg = MOD_TRANSPORT_CHANNEL_TRANSPORT_TYPE_OUT_BAND
        then do {
          let p = Mailbox (cc_out_band_mailbox_address cfg);
          buffer \<leftarrow> read_buffer p s;
          outb \<leftarrow> ch_out ctx;
          buffer \<leftarrow> copy_structure buffer outb;
          buffer \<leftarrow> copy_payload 0 (case payload of None \<Rightarrow> tb_payload outb | Some bytes \<Rightarrow> bytes) (unat sz) buffer;
          s \<leftarrow> put_buffer p buffer s;
          Some (Some p, s) }
        else Some (None, s))
     else if has_inband env \<and> cc_transport_type cfg = MOD_TRANSPORT_CHANNEL_TRANSPORT_TYPE_IN_BAND
     then do {
       let p = Write_buffer channel_id;
       s \<leftarrow> (case payload of None \<Rightarrow> Some s | Some bytes \<Rightarrow> do {
         buffer \<leftarrow> read_buffer p s;
         buffer \<leftarrow> copy_payload 0 bytes (unat sz) buffer;
         put_buffer p buffer s });
       Some (Some p, s) }
     else Some (None, s))"

definition transport_respond ::
  "('a tp) transport_env \<Rightarrow> fwk_id \<Rightarrow> u8 list option \<Rightarrow> u32 \<Rightarrow> 'a tp \<Rightarrow> (int \<times> 'a tp) option" where
  "transport_respond env channel_id payload sz s = do {
    ctx \<leftarrow> channel_ctx channel_id s;
    cfg \<leftarrow> ch_config ctx;
    fwk_assert (has_messages cfg);
    (buffer_p, s) \<leftarrow> respond_buffer env channel_id ctx cfg payload sz s;
    case buffer_p of
      None \<Rightarrow> Some (FWK_E_PANIC, s)
    | Some p \<Rightarrow> do {
        s \<leftarrow> upd_channel channel_id (\<lambda>c. c\<lparr>ch_locked := False\<rparr>) s;
        buffer \<leftarrow> read_buffer p s;
        let buffer = buffer\<lparr>tb_length := sizeof_message_header + sz,
          tb_status := tb_status buffer OR MOD_TRANSPORT_MAILBOX_STATUS_FREE_MASK\<rparr>;
        s \<leftarrow> put_buffer p buffer s;
        (status, s) \<leftarrow>
          (if has_inband env \<and> cc_transport_type cfg = MOD_TRANSPORT_CHANNEL_TRANSPORT_TYPE_IN_BAND
           then call_driver env ctx (Send_message (Some buffer) (cc_driver_id cfg)) s
           else Some (FWK_SUCCESS, s));
        if status \<noteq> FWK_SUCCESS then Some (status, s)
        else if tb_flags buffer AND MOD_TRANSPORT_MAILBOX_FLAGS_IENABLED_MASK \<noteq> 0
        then call_driver env ctx (Trigger_event (cc_driver_id cfg)) s
        else Some (status, s) } }"

text \<open>The first part of \<open>transport_transmit\<close>: the buffer, or the status it returns with.\<close>

definition transmit_buffer ::
  "('a tp) transport_env \<Rightarrow> fwk_id \<Rightarrow> mod_transport_channel_config \<Rightarrow> 'a tp \<Rightarrow> ((int + buffer_pointer) \<times> 'a tp) option" where
  "transmit_buffer env channel_id cfg s =
    (if has_outband env \<and> cc_transport_type cfg = MOD_TRANSPORT_CHANNEL_TRANSPORT_TYPE_OUT_BAND
     then do {
       let p = Mailbox (cc_out_band_mailbox_address cfg);
       buffer \<leftarrow> read_buffer p s;
       Some (if tb_status buffer AND MOD_TRANSPORT_MAILBOX_STATUS_FREE_MASK = 0 then Inl FWK_E_BUSY else Inr p, s) }
     else if has_outband env \<and> \<not> has_inband env then Some (Inl FWK_E_SUPPORT, s)
     else if has_inband env \<and> cc_transport_type cfg = MOD_TRANSPORT_CHANNEL_TRANSPORT_TYPE_IN_BAND
     then do {
       let p = Write_buffer channel_id;
       buffer \<leftarrow> read_buffer p s;
       s \<leftarrow> put_buffer p (buffer\<lparr>tb_reserved0 := 0, tb_reserved1 := 0\<rparr>) s;
       Some (Inr p, s) }
     else if has_inband env \<and> \<not> has_outband env then Some (Inl FWK_E_SUPPORT, s)
     else Some (Inl FWK_E_PANIC, s))"

text \<open>With in-band support the write buffer is sent whatever the type of the channel.\<close>

definition transport_transmit ::
  "('a tp) transport_env \<Rightarrow> fwk_id \<Rightarrow> u32 \<Rightarrow> u8 list option \<Rightarrow> u32 \<Rightarrow> bool \<Rightarrow> 'a tp \<Rightarrow> (int \<times> 'a tp) option" where
  "transport_transmit env channel_id message_header payload sz request_ack_by_interrupt s = do {
    ctx \<leftarrow> channel_ctx channel_id s;
    cfg \<leftarrow> ch_config ctx;
    fwk_assert (has_messages cfg);
    (buffer_p, s) \<leftarrow> transmit_buffer env channel_id cfg s;
    case buffer_p of
      Inl status \<Rightarrow> Some (status, s)
    | Inr p \<Rightarrow> do {
        buffer \<leftarrow> read_buffer p s;
        let buffer = buffer\<lparr>tb_message_header := message_header,
          tb_flags := if request_ack_by_interrupt then tb_flags buffer OR MOD_TRANSPORT_MAILBOX_FLAGS_IENABLED_MASK
            else tb_flags buffer AND NOT MOD_TRANSPORT_MAILBOX_FLAGS_IENABLED_MASK\<rparr>;
        buffer \<leftarrow> (case payload of
            Some bytes \<Rightarrow> if sz \<noteq> 0 then copy_payload 0 bytes (unat sz) buffer else Some buffer
          | None \<Rightarrow> Some buffer);
        let buffer = buffer\<lparr>tb_length := sizeof_message_header + sz,
          tb_status := tb_status buffer AND NOT MOD_TRANSPORT_MAILBOX_STATUS_FREE_MASK\<rparr>;
        s \<leftarrow> put_buffer p buffer s;
        (status, s) \<leftarrow>
          (if has_inband env then do {
             ctx \<leftarrow> channel_ctx channel_id s;
             call_driver env ctx (Send_message (ch_out ctx) (cc_driver_id cfg)) s }
           else Some (FWK_SUCCESS, s));
        if status \<noteq> FWK_SUCCESS then Some (status, s)
        else call_driver env ctx (Trigger_event (cc_driver_id cfg)) s } }"

definition transport_release_channel_lock :: "fwk_id \<Rightarrow> 'a tp \<Rightarrow> (int \<times> 'a tp) option" where
  "transport_release_channel_lock channel_id s = do {
    s \<leftarrow> upd_channel channel_id (\<lambda>c. c\<lparr>ch_locked := False\<rparr>) s;
    Some (FWK_SUCCESS, s) }"

definition transport_trigger_interrupt :: "('a tp) transport_env \<Rightarrow> fwk_id \<Rightarrow> 'a tp \<Rightarrow> (int \<times> 'a tp) option" where
  "transport_trigger_interrupt env channel_id s = do {
    ctx \<leftarrow> channel_ctx channel_id s;
    cfg \<leftarrow> ch_config ctx;
    fwk_assert (\<not> has_messages cfg);
    call_driver env ctx (Trigger_event (cc_driver_id cfg)) s }"

section \<open>Fast channels\<close>

definition fch_driver :: "fwk_id \<Rightarrow> 'a tp \<Rightarrow> fwk_id option" where
  "fch_driver fch_id s = do {
    ctx \<leftarrow> channel_ctx fch_id s;
    cfg \<leftarrow> ch_config ctx;
    fwk_assert (cc_transport_type cfg = MOD_TRANSPORT_CHANNEL_TRANSPORT_TYPE_FAST_CHANNELS);
    fwk_assert (ch_driver_api ctx);
    Some (cc_driver_id cfg) }"

definition transport_get_fch_address ::
  "('a tp) transport_env \<Rightarrow> fwk_id \<Rightarrow> 'a tp \<Rightarrow> (int \<times> mod_transport_fast_channel_addr) option" where
  "transport_get_fch_address env fch_id s = do { d \<leftarrow> fch_driver fch_id s; Some (driver_fch_address env d) }"

definition transport_get_fch_interrupt_type ::
  "('a tp) transport_env \<Rightarrow> fwk_id \<Rightarrow> 'a tp \<Rightarrow> (int \<times> mod_transport_fch_interrupt_type) option" where
  "transport_get_fch_interrupt_type env fch_id s = do { d \<leftarrow> fch_driver fch_id s; Some (driver_fch_interrupt_type env d) }"

definition transport_get_fch_doorbell_info ::
  "('a tp) transport_env \<Rightarrow> fwk_id \<Rightarrow> 'a tp \<Rightarrow> (int \<times> mod_transport_fch_doorbell_info) option" where
  "transport_get_fch_doorbell_info env fch_id s = do { d \<leftarrow> fch_driver fch_id s; Some (driver_fch_doorbell_info env d) }"

definition transport_get_fch_rate_limit :: "('a tp) transport_env \<Rightarrow> fwk_id \<Rightarrow> 'a tp \<Rightarrow> (int \<times> u32) option" where
  "transport_get_fch_rate_limit env fch_id s = do { d \<leftarrow> fch_driver fch_id s; Some (driver_fch_rate_limit env d) }"

definition transport_fch_register_callback ::
  "('a tp) transport_env \<Rightarrow> fwk_id \<Rightarrow> addr \<Rightarrow> addr \<Rightarrow> 'a tp \<Rightarrow> (int \<times> 'a tp) option" where
  "transport_fch_register_callback env fch_id param fch_callback s =
    (if fch_callback = NULL then Some (FWK_E_PARAM, s)
     else do {
       d \<leftarrow> fch_driver fch_id s;
       ctx \<leftarrow> channel_ctx fch_id s;
       call_driver env ctx (Fch_register_callback d param fch_callback) s })"

section \<open>Incoming messages\<close>

text \<open>A call through the signal interface of the service.\<close>

definition call_signal_message :: "('a tp) transport_env \<Rightarrow> transport_channel_ctx \<Rightarrow> 'a tp \<Rightarrow> (int \<times> 'a tp) option" where
  "call_signal_message env ctx s = (case ch_transport_signal ctx of
      None \<Rightarrow> None
    | Some Scmi_signal_api \<Rightarrow> signal_message (env_scmi env) (ch_service_id ctx) s
    | Some Firmware_signal_api \<Rightarrow> firmware_signal_message env (ch_service_id ctx) s)"

definition call_signal_error :: "('a tp) transport_env \<Rightarrow> transport_channel_ctx \<Rightarrow> 'a tp \<Rightarrow> (int \<times> 'a tp) option" where
  "call_signal_error env ctx s = (case ch_transport_signal ctx of
      None \<Rightarrow> None
    | Some Scmi_signal_api \<Rightarrow> signal_error (env_scmi env) (ch_service_id ctx) s
    | Some Firmware_signal_api \<Rightarrow> firmware_signal_error env (ch_service_id ctx) s)"

text \<open>Whether the module owns the shared mailbox; the status bit is 1 when it is free.\<close>

definition owns_mailbox :: "mod_transport_channel_config \<Rightarrow> mod_transport_buffer \<Rightarrow> bool" where
  "owns_mailbox cfg shared_memory = (case cc_channel_type cfg of
      MOD_TRANSPORT_CHANNEL_TYPE_COMPLETER \<Rightarrow> tb_status shared_memory AND MOD_TRANSPORT_MAILBOX_STATUS_FREE_MASK = 0
    | MOD_TRANSPORT_CHANNEL_TYPE_REQUESTER \<Rightarrow> tb_status shared_memory AND MOD_TRANSPORT_MAILBOX_STATUS_FREE_MASK \<noteq> 0
    | _ \<Rightarrow> True)"

text \<open>The agent's next access to the mailbox.\<close>

definition agent_access :: "('a tp) transport_env \<Rightarrow> nat \<Rightarrow> addr \<Rightarrow> 'a tp \<Rightarrow> 'a tp" where
  "agent_access env k a s = s\<lparr>tp_mailboxes := (tp_mailboxes s)(a := map_option (tp_agent env k a) (tp_mailboxes s a))\<rparr>"

definition is_out_band :: "('a tp) transport_env \<Rightarrow> mod_transport_channel_config \<Rightarrow> bool" where
  "is_out_band env cfg \<longleftrightarrow> has_outband env \<and> cc_transport_type cfg = MOD_TRANSPORT_CHANNEL_TRANSPORT_TYPE_OUT_BAND"

definition is_in_band :: "('a tp) transport_env \<Rightarrow> mod_transport_channel_config \<Rightarrow> bool" where
  "is_in_band env cfg \<longleftrightarrow> has_inband env \<and> cc_transport_type cfg = MOD_TRANSPORT_CHANNEL_TRANSPORT_TYPE_IN_BAND"

text \<open>The structure of an out-band message, copied out of the shared mailbox; the message of an in-band channel, asked
  from the driver.\<close>

definition fetch_structure ::
  "('a tp) transport_env \<Rightarrow> mod_transport_channel_config \<Rightarrow> mod_transport_buffer \<Rightarrow> 'a tp \<Rightarrow> (mod_transport_buffer \<times> 'a tp) option" where
  "fetch_structure env cfg inb s =
    (if is_out_band env cfg
     then do {
       let s = agent_access env 0 (cc_out_band_mailbox_address cfg) s;
       shared_memory \<leftarrow> tp_mailboxes s (cc_out_band_mailbox_address cfg);
       inb \<leftarrow> copy_structure inb shared_memory;
       Some (inb, s) }
     else Some (inb, s))"

definition fetch_in_band ::
  "('a tp) transport_env \<Rightarrow> fwk_id \<Rightarrow> transport_channel_ctx \<Rightarrow> mod_transport_channel_config \<Rightarrow> mod_transport_buffer \<Rightarrow> 'a tp
    \<Rightarrow> (mod_transport_buffer \<times> 'a tp) option" where
  "fetch_in_band env channel_id ctx cfg inb s =
    (if is_in_band env cfg
     then do {
       (_, s) \<leftarrow> call_driver env ctx (Get_message (cc_driver_id cfg)) s;
       let inb = driver_message env (tp_calls s) inb;
       s \<leftarrow> upd_channel channel_id (\<lambda>c. c\<lparr>ch_in := Some inb\<rparr>) s;
       Some (inb, s) }
     else Some (inb, s))"

text \<open>The message in the read buffer, without its payload for an out-band channel, and the channel locked.\<close>

definition fetch_message ::
  "('a tp) transport_env \<Rightarrow> fwk_id \<Rightarrow> transport_channel_ctx \<Rightarrow> mod_transport_channel_config \<Rightarrow> 'a tp
    \<Rightarrow> (mod_transport_buffer \<times> 'a tp) option" where
  "fetch_message env channel_id ctx cfg s = do {
    inb \<leftarrow> ch_in ctx;
    (inb, s) \<leftarrow> fetch_structure env cfg inb s;
    s \<leftarrow> upd_channel channel_id (\<lambda>c. c\<lparr>ch_in := Some inb, ch_locked := True\<rparr>) s;
    fetch_in_band env channel_id ctx cfg inb s }"

text \<open>The test of the length.\<close>

definition length_invalid :: "transport_channel_ctx \<Rightarrow> mod_transport_buffer \<Rightarrow> bool" where
  "length_invalid ctx inb \<longleftrightarrow> tb_length inb < sizeof_message_header \<or>
    tb_length inb - sizeof_message_header > ch_max_payload_size ctx"

text \<open>The payload copied out of the shared mailbox.\<close>

definition fetch_payload ::
  "('a tp) transport_env \<Rightarrow> fwk_id \<Rightarrow> mod_transport_channel_config \<Rightarrow> mod_transport_buffer \<Rightarrow> 'a tp \<Rightarrow> 'a tp option" where
  "fetch_payload env channel_id cfg inb s =
    (if is_out_band env cfg \<and> tb_length inb - sizeof_message_header \<noteq> 0
     then do {
       let s = agent_access env 1 (cc_out_band_mailbox_address cfg) s;
       shared_memory \<leftarrow> tp_mailboxes s (cc_out_band_mailbox_address cfg);
       inb \<leftarrow> copy_payload 0 (tb_payload shared_memory) (unat (tb_length inb - sizeof_message_header)) inb;
       upd_channel channel_id (\<lambda>c. c\<lparr>ch_in := Some inb\<rparr>) s }
     else Some s)"

text \<open>The message mirrored in the write buffer, its length tested, and the service signalled.\<close>

definition hand_over_message ::
  "('a tp) transport_env \<Rightarrow> fwk_id \<Rightarrow> transport_channel_ctx \<Rightarrow> mod_transport_channel_config \<Rightarrow> mod_transport_buffer \<Rightarrow> 'a tp
    \<Rightarrow> (int \<times> 'a tp) option" where
  "hand_over_message env channel_id ctx cfg inb s = do {
    outb \<leftarrow> ch_out ctx;
    outb \<leftarrow> copy_structure outb inb;
    let outb = outb\<lparr>tb_status := tb_status outb AND NOT MOD_TRANSPORT_MAILBOX_STATUS_ERROR_MASK\<rparr>;
    if length_invalid ctx inb
    then do {
      let outb = outb\<lparr>tb_status := tb_status outb OR MOD_TRANSPORT_MAILBOX_STATUS_ERROR_MASK\<rparr>;
      s \<leftarrow> upd_channel channel_id (\<lambda>c. c\<lparr>ch_out := Some outb\<rparr>) s;
      if ch_is_scmi ctx \<and> \<not> has_mod_scmi env then Some (FWK_E_SUPPORT, s)
      else call_signal_error env ctx s }
    else do {
      s \<leftarrow> upd_channel channel_id (\<lambda>c. c\<lparr>ch_out := Some outb\<rparr>) s;
      s \<leftarrow> fetch_payload env channel_id cfg inb s;
      if ch_is_scmi ctx \<and> \<not> has_mod_scmi env then Some (FWK_E_SUPPORT, s)
      else do {
        (status, s) \<leftarrow> call_signal_message env ctx s;
        Some (if status \<noteq> FWK_SUCCESS then FWK_E_HANDLER else status, s) } } }"

definition transport_message_handler :: "('a tp) transport_env \<Rightarrow> fwk_id \<Rightarrow> 'a tp \<Rightarrow> (int \<times> 'a tp) option" where
  "transport_message_handler env channel_id s = do {
    ctx \<leftarrow> channel_ctx channel_id s;
    if ch_locked ctx then Some (FWK_E_STATE, s)
    else do {
      cfg \<leftarrow> ch_config ctx;
      owned \<leftarrow> (if is_out_band env cfg
        then do { shared_memory \<leftarrow> tp_mailboxes s (cc_out_band_mailbox_address cfg); Some (owns_mailbox cfg shared_memory) }
        else Some True);
      if \<not> owned then Some (FWK_E_STATE, s)
      else do {
        (inb, s) \<leftarrow> fetch_message env channel_id ctx cfg s;
        hand_over_message env channel_id ctx cfg inb s } } }"

text \<open>The signal of a driver. An out-band message is discarded before the mailbox is ready.\<close>

definition transport_signal_message :: "('a tp) transport_env \<Rightarrow> fwk_id \<Rightarrow> 'a tp \<Rightarrow> (int \<times> 'a tp) option" where
  "transport_signal_message env channel_id s = do {
    ctx \<leftarrow> channel_ctx channel_id s;
    cfg \<leftarrow> ch_config ctx;
    if \<not> has_messages cfg then call_signal_message env ctx s
    else if is_out_band env cfg \<and> \<not> ch_out_band_mailbox_ready ctx then Some (FWK_SUCCESS, s)
    else transport_message_handler env channel_id s }"

end
