(* ===== verification/Tp_Module.thy ===== *)
theory Tp_Module
  imports Tp_Core
begin

unbundle bit_operations_syntax

text \<open>
  The framework interface of \<open>mod_transport.c\<close>: initialisation of the module and its channels, binding in both
  directions, start, and the notifications a channel waits for before its mailbox is initialised.
\<close>

section \<open>Mailboxes\<close>

text \<open>The assignment of the structure clears the members but \<open>status\<close> and leaves its padding in the payload.\<close>

definition mailbox_initial :: "('a tp) transport_env \<Rightarrow> mod_transport_buffer \<Rightarrow> mod_transport_buffer option" where
  "mailbox_initial env old = copy_structure old \<lparr>tb_reserved0 = 0, tb_status = MOD_TRANSPORT_MAILBOX_STATUS_FREE_MASK,
    tb_reserved1 = 0, tb_flags = 0, tb_length = 0, tb_message_header = 0, tb_payload = tp_padding env\<rparr>"

definition mod_transport_notification_id_initialized :: "('a tp) transport_env \<Rightarrow> fwk_id" where
  "mod_transport_notification_id_initialized env =
    FWK_ID_NOTIFICATION (env_transport_idx env) MOD_TRANSPORT_NOTIFICATION_IDX_INITIALIZED"

definition transport_mailbox_init :: "('a tp) transport_env \<Rightarrow> fwk_id \<Rightarrow> 'a tp \<Rightarrow> (int \<times> 'a tp) option" where
  "transport_mailbox_init env channel_id s = do {
    ctx \<leftarrow> channel_ctx channel_id s;
    cfg \<leftarrow> ch_config ctx;
    if cc_policies cfg AND MOD_TRANSPORT_POLICY_INIT_MAILBOX = 0 then Some (FWK_SUCCESS, s)
    else do {
      s \<leftarrow> (if cc_channel_type cfg = MOD_TRANSPORT_CHANNEL_TYPE_COMPLETER
        then do {
          old \<leftarrow> tp_mailboxes s (cc_out_band_mailbox_address cfg);
          new \<leftarrow> mailbox_initial env old;
          put_buffer (Mailbox (cc_out_band_mailbox_address cfg)) new s }
        else Some s);
      s \<leftarrow> upd_channel channel_id (\<lambda>c. c\<lparr>ch_out_band_mailbox_ready := True\<rparr>) s;
      ((status, _), s) \<leftarrow> fwk_notification_notify
        (Some (event_zero\<lparr>ev_id := mod_transport_notification_id_initialized env, ev_source_id := ch_id ctx\<rparr>)) (Some 0) s;
      Some (status, s) } }"

section \<open>Initialisation\<close>

definition transport_init :: "nat \<Rightarrow> 'a tp \<Rightarrow> (int \<times> 'a tp) option" where
  "transport_init element_count s =
    Some (FWK_SUCCESS, s\<lparr>tp_channel_ctx_table := replicate element_count transport_channel_ctx_zero,
      tp_channel_count := element_count\<rparr>)"

text \<open>The switch over the transport type: the two buffers and the maximal payload. \<open>size_t\<close> wraps when the mailbox is
  smaller than the structure.\<close>

definition channel_buffers ::
  "('a tp) transport_env \<Rightarrow> mod_transport_channel_config
    \<Rightarrow> (mod_transport_buffer option \<times> mod_transport_buffer option \<times> u32) option" where
  "channel_buffers env cfg = (case cc_transport_type cfg of
      MOD_TRANSPORT_CHANNEL_TRANSPORT_TYPE_OUT_BAND \<Rightarrow>
        if has_outband env then Some (tp_alloc env (cc_out_band_mailbox_size cfg), tp_alloc env (cc_out_band_mailbox_size cfg),
          cc_out_band_mailbox_size cfg - sizeof_transport_buffer) else None
    | MOD_TRANSPORT_CHANNEL_TRANSPORT_TYPE_IN_BAND \<Rightarrow>
        if has_inband env then Some (tp_alloc env (cc_in_band_mailbox_size cfg), tp_alloc env (cc_in_band_mailbox_size cfg),
          cc_in_band_mailbox_size cfg - sizeof_transport_buffer) else None
    | MOD_TRANSPORT_CHANNEL_TRANSPORT_TYPE_NONE \<Rightarrow> Some (None, None, 0)
    | MOD_TRANSPORT_CHANNEL_TRANSPORT_TYPE_FAST_CHANNELS \<Rightarrow> if has_transport_fc env then Some (None, None, 0) else None
    | MOD_TRANSPORT_CHANNEL_TRANSPORT_TYPE_COUNT \<Rightarrow> None)"

definition config_invalid :: "('a tp) transport_env \<Rightarrow> mod_transport_channel_config \<Rightarrow> bool" where
  "config_invalid env cfg \<longleftrightarrow>
    cc_channel_type cfg = MOD_TRANSPORT_CHANNEL_TYPE_COUNT \<or>
    cc_transport_type cfg = MOD_TRANSPORT_CHANNEL_TRANSPORT_TYPE_COUNT \<or>
    is_out_band env cfg \<and> (cc_out_band_mailbox_address cfg = NULL \<or> cc_out_band_mailbox_size cfg = 0) \<or>
    is_in_band env cfg \<and> cc_in_band_mailbox_size cfg = 0"

definition transport_channel_init :: "('a tp) transport_env \<Rightarrow> fwk_id \<Rightarrow> addr \<Rightarrow> 'a tp \<Rightarrow> (int \<times> 'a tp) option" where
  "transport_channel_init env channel_id data s = do {
    s \<leftarrow> upd_channel channel_id (\<lambda>c. c\<lparr>ch_config := env_channel_config env data\<rparr>) s;
    cfg \<leftarrow> env_channel_config env data;
    if config_invalid env cfg then do { fwk_unexpected (dbg s); Some (FWK_E_DATA, s) }
    else do {
      s \<leftarrow> upd_channel channel_id (\<lambda>c. c\<lparr>ch_id := channel_id\<rparr>) s;
      case channel_buffers env cfg of
        None \<Rightarrow> Some (FWK_E_DATA, s)
      | Some (inb, outb, max_payload_size) \<Rightarrow> do {
          s \<leftarrow> upd_channel channel_id (\<lambda>c. c\<lparr>ch_in := inb, ch_out := outb, ch_max_payload_size := max_payload_size\<rparr>) s;
          Some (FWK_SUCCESS, s) } } }"

section \<open>Binding\<close>

definition bind_driver :: "('a tp) transport_env \<Rightarrow> fwk_id \<Rightarrow> 'a tp \<Rightarrow> (int \<times> 'a tp) option" where
  "bind_driver env i s = do {
    is_module \<leftarrow> fwk_id_is_type i FWK_ID_TYPE_MODULE;
    if is_module then Some (FWK_SUCCESS, s)
    else do {
      ctx \<leftarrow> channel_ctx i s;
      cfg \<leftarrow> ch_config ctx;
      let status = bind_interface env (cc_driver_id cfg) (cc_driver_api_id cfg);
      s \<leftarrow> (if status = FWK_SUCCESS then upd_channel i (\<lambda>c. c\<lparr>ch_driver_api := True\<rparr>) s else Some s);
      Some (status, s) } }"

definition bind_signal :: "('a tp) transport_env \<Rightarrow> fwk_id \<Rightarrow> 'a tp \<Rightarrow> (int \<times> 'a tp) option" where
  "bind_signal env i s = do {
    is_element \<leftarrow> fwk_id_is_type i FWK_ID_TYPE_ELEMENT;
    if \<not> is_element then Some (FWK_SUCCESS, s)
    else do {
      ctx \<leftarrow> channel_ctx i s;
      cfg \<leftarrow> ch_config ctx;
      if has_transport_fc env \<and> cc_transport_type cfg = MOD_TRANSPORT_CHANNEL_TRANSPORT_TYPE_FAST_CHANNELS
      then Some (FWK_SUCCESS, s)
      else do {
        scmi \<leftarrow> (if has_mod_scmi env
          then do { m \<leftarrow> fwk_id_build_module_id (ch_service_id ctx); fwk_id_is_equal m (FWK_ID_MODULE (env_scmi_idx (env_scmi env))) }
          else Some False);
        let status = bind_interface env (ch_service_id ctx)
          (if scmi then FWK_ID_API (env_scmi_idx (env_scmi env)) MOD_SCMI_API_IDX_TRANSPORT else cc_signal_api_id cfg);
        s \<leftarrow> upd_channel i (\<lambda>c. c\<lparr>ch_is_scmi := scmi, ch_transport_signal := if status \<noteq> FWK_SUCCESS then ch_transport_signal c
          else Some (if scmi then Scmi_signal_api else Firmware_signal_api)\<rparr>) s;
        Some (status, s) } } }"

definition transport_bind :: "('a tp) transport_env \<Rightarrow> fwk_id \<Rightarrow> nat \<Rightarrow> 'a tp \<Rightarrow> (int \<times> 'a tp) option" where
  "transport_bind env i round s =
    (if round = 0 then bind_driver env i s
     else if round = 1 then bind_signal env i s
     else Some (FWK_SUCCESS, s))"

text \<open>The interfaces and their indices, which depend on the build.\<close>

datatype mod_transport_api =
    Driver_input_api
  | Mod_scmi_to_transport_api
  | Transport_firmware_api
  | Transport_fast_channels_api

definition mod_transport_api_idx :: "('a tp) transport_env \<Rightarrow> mod_transport_api list" where
  "mod_transport_api_idx env = [Driver_input_api] @ (if has_mod_scmi env then [Mod_scmi_to_transport_api] else []) @
    [Transport_firmware_api] @ (if has_transport_fc env then [Transport_fast_channels_api] else [])"

definition transport_process_bind_request ::
  "('a tp) transport_env \<Rightarrow> fwk_id \<Rightarrow> fwk_id \<Rightarrow> fwk_id \<Rightarrow> 'a tp \<Rightarrow> ((int \<times> mod_transport_api option) \<times> 'a tp) option" where
  "transport_process_bind_request env source_id target_id api_id s = do {
    is_element \<leftarrow> fwk_id_is_type target_id FWK_ID_TYPE_ELEMENT;
    if \<not> is_element then do { fwk_unexpected (dbg s); Some ((FWK_E_PARAM, None), s) }
    else do {
      ctx \<leftarrow> channel_ctx target_id s;
      api_idx \<leftarrow> fwk_id_get_api_idx api_id;
      if unat api_idx \<ge> length (mod_transport_api_idx env) then do { fwk_unexpected (dbg s); Some ((FWK_E_PARAM, None), s) }
      else if mod_transport_api_idx env ! unat api_idx = Driver_input_api then do {
        cfg \<leftarrow> ch_config ctx;
        driver_module \<leftarrow> fwk_id_get_module_idx (cc_driver_id cfg);
        source_module \<leftarrow> fwk_id_get_module_idx source_id;
        same \<leftarrow> (if driver_module = source_module
          then do {
            driver_element \<leftarrow> fwk_id_get_element_idx (cc_driver_id cfg);
            source_element \<leftarrow> fwk_id_get_element_idx source_id;
            Some (driver_element = source_element) }
          else Some False);
        if same then Some ((FWK_SUCCESS, Some Driver_input_api), s)
        else do { fwk_unexpected (dbg s); Some ((FWK_E_ACCESS, None), s) } }
      else do {
        s \<leftarrow> upd_channel target_id (\<lambda>c. c\<lparr>ch_service_id := source_id\<rparr>) s;
        Some ((FWK_SUCCESS, Some (mod_transport_api_idx env ! unat api_idx)), s) } } }"

section \<open>Start and notifications\<close>

definition pd_transition_notification_id :: "('a tp) transport_env \<Rightarrow> fwk_id" where
  "pd_transition_notification_id env = FWK_ID_NOTIFICATION (env_power_domain_idx env) MOD_PD_NOTIFICATION_IDX_TRANSITION"

text \<open>Subscribing to one of the notifications and counting it.\<close>

definition await_notification :: "fwk_id \<Rightarrow> fwk_id \<Rightarrow> fwk_id \<Rightarrow> 'a tp \<Rightarrow> (int \<times> 'a tp) option" where
  "await_notification notification_id source_id i s = do {
    (status, s) \<leftarrow> fwk_notification_subscribe notification_id source_id i s;
    if status \<noteq> FWK_SUCCESS then Some (status, s)
    else do {
      s \<leftarrow> upd_channel i (\<lambda>c. c\<lparr>ch_wait_on_notifications := ch_wait_on_notifications c + 1\<rparr>) s;
      Some (FWK_SUCCESS, s) } }"

definition transport_start :: "('a tp) transport_env \<Rightarrow> fwk_id \<Rightarrow> 'a tp \<Rightarrow> (int \<times> 'a tp) option" where
  "transport_start env i s = do {
    is_element \<leftarrow> fwk_id_is_type i FWK_ID_TYPE_ELEMENT;
    if \<not> is_element \<or> \<not> has_outband env then Some (FWK_SUCCESS, s)
    else do {
      ctx \<leftarrow> channel_ctx i s;
      s \<leftarrow> upd_channel i (\<lambda>c. c\<lparr>ch_wait_on_notifications := 0\<rparr>) s;
      cfg \<leftarrow> ch_config ctx;
      if \<not> is_out_band env cfg then Some (FWK_SUCCESS, s)
      else do {
        (status, s) \<leftarrow>
          (if has_mod_power_domain env \<and> fwk_id_type_is_valid (cc_pd_source_id cfg)
           then await_notification (pd_transition_notification_id env) (cc_pd_source_id cfg) i s
           else Some (FWK_SUCCESS, s));
        if status \<noteq> FWK_SUCCESS then Some (status, s)
        else do {
          platform \<leftarrow> (if fwk_id_type_is_valid (cc_platform_source_id cfg)
            then do { none \<leftarrow> fwk_id_is_equal (cc_platform_source_id cfg) FWK_ID_NONE; Some (\<not> none) }
            else Some False);
          (status, s) \<leftarrow>
            (if platform then await_notification (cc_platform_notification_id cfg) (cc_platform_source_id cfg) i s
             else Some (FWK_SUCCESS, s));
          if status \<noteq> FWK_SUCCESS then Some (status, s)
          else do {
            ctx \<leftarrow> channel_ctx i s;
            if ch_wait_on_notifications ctx = 0 then transport_mailbox_init env i s
            else Some (FWK_SUCCESS, s) } } } } }"

text \<open>An awaited notification that has come: the subscription is cancelled and the counter goes down, wrapping.\<close>

definition notification_received :: "fwk_event \<Rightarrow> 'a tp \<Rightarrow> (int \<times> 'a tp) option" where
  "notification_received event s = do {
    (status, s) \<leftarrow> fwk_notification_unsubscribe (ev_id event) (ev_source_id event) (ev_target_id event) s;
    if status \<noteq> FWK_SUCCESS then Some (status, s)
    else do {
      s \<leftarrow> upd_channel (ev_target_id event) (\<lambda>c. c\<lparr>ch_wait_on_notifications := ch_wait_on_notifications c - 1\<rparr>) s;
      Some (FWK_SUCCESS, s) } }"

definition transport_process_notification ::
  "('a tp) transport_env \<Rightarrow> fwk_event \<Rightarrow> fwk_event \<Rightarrow> 'a tp \<Rightarrow> ((int \<times> fwk_event) \<times> 'a tp) option" where
  "transport_process_notification env event resp_event s = do {
    is_element \<leftarrow> fwk_id_is_type (ev_target_id event) FWK_ID_TYPE_ELEMENT;
    fwk_assert is_element;
    ctx \<leftarrow> channel_ctx (ev_target_id event) s;
    (status, s) \<leftarrow>
      (if has_mod_power_domain env
       then do {
         transition \<leftarrow> fwk_id_is_equal (ev_id event) (pd_transition_notification_id env);
         if \<not> transition then Some (FWK_SUCCESS, s)
         else if params_get32 0 (ev_params event) \<noteq> PD_STATE_ON
         then do {
           s \<leftarrow> (if params_get32 0 (ev_params event) = PD_STATE_OFF
             then upd_channel (ev_target_id event) (\<lambda>c. c\<lparr>ch_out_band_mailbox_ready := False\<rparr>) s
             else Some s);
           Some (FWK_SUCCESS, s) }
         else notification_received event s }
       else Some (FWK_SUCCESS, s));
    if status \<noteq> FWK_SUCCESS then Some ((status, resp_event), s)
    else do {
      cfg \<leftarrow> ch_config ctx;
      platform \<leftarrow> fwk_id_is_equal (ev_id event) (cc_platform_notification_id cfg);
      (status, s) \<leftarrow> (if platform then notification_received event s else Some (FWK_SUCCESS, s));
      if status \<noteq> FWK_SUCCESS then Some ((status, resp_event), s)
      else do {
        ctx \<leftarrow> channel_ctx (ev_target_id event) s;
        (status, s) \<leftarrow> (if ch_wait_on_notifications ctx = 0 then transport_mailbox_init env (ev_target_id event) s
          else Some (FWK_SUCCESS, s));
        Some ((status, resp_event), s) } } }"

end
