(* ===== verification/Scmi_Notify.thy ===== *)
theory Scmi_Notify
  imports Scmi_Module Rp_Layout
begin

unbundle bit_operations_syntax

text \<open>
  Headers and notifications of the SCMI module: a header gives back the fields it was built from, and the table
  of subscribers refines a function from operation, element and agent to the subscribed service.
\<close>

section \<open>Headers\<close>

lemma field_masks: "(0xFF :: u32) = mask 8" "(0x3 :: u32) = mask 2" "(0x3FF :: u32) = mask 10"
  by (simp_all add: mask_eq_exp_minus_1)

lemma header_fields:
  "read_message_id (scmi_message_header m t p k) = ucast m"
  "read_message_type (scmi_message_header m t p k) = take_bit 2 t"
  "read_protocol_id (scmi_message_header m t p k) = p"
  "read_token (scmi_message_header m t p k) = ucast k"
  by (rule bit_eqI; auto simp: read_message_id_def read_message_type_def read_protocol_id_def read_token_def
    scmi_message_header_def header_defs field_masks bit_simps dest: bit_imp_le_length)+

lemma header_rebuilt:
  "scmi_message_header (ucast (read_message_id h)) (read_message_type h) (read_protocol_id h) (ucast (read_token h)) = h AND mask 26"
proof (rule bit_eqI)
  fix n assume "possible_bit TYPE(32 word) n"
  then have "n < 32" by simp
  consider "n < 8" | "8 \<le> n \<and> n < 10" | "10 \<le> n \<and> n < 18" | "18 \<le> n \<and> n < 26" | "26 \<le> n" by linarith
  then show "bit (scmi_message_header (ucast (read_message_id h)) (read_message_type h) (read_protocol_id h) (ucast (read_token h))) n
      \<longleftrightarrow> bit (h AND mask 26) n"
    using \<open>n < 32\<close> by cases (auto simp: read_message_id_def read_message_type_def read_protocol_id_def read_token_def
      scmi_message_header_def header_defs field_masks bit_simps)
qed

section \<open>The table of subscribers\<close>

definition service_pos :: "nat \<Rightarrow> nat \<Rightarrow> nat \<times> nat \<times> nat \<Rightarrow> nat" where
  "service_pos agents els = (\<lambda>(operation, e, a). (operation * els + e) * agents + a)"

definition service_valid :: "nat \<Rightarrow> nat \<Rightarrow> nat \<Rightarrow> nat \<times> nat \<times> nat \<Rightarrow> bool" where
  "service_valid agents els operations = (\<lambda>(operation, e, a). operation < operations \<and> e < els \<and> a < agents)"

lemma pair_bound: "x < m \<Longrightarrow> y < n \<Longrightarrow> x * n + y < m * (n :: nat)"
proof -
  assume "x < m" "y < n"
  then have "x * n + y < Suc x * n" by simp
  also have "\<dots> \<le> m * n" using \<open>x < m\<close> by (intro mult_le_mono1) simp
  finally show ?thesis .
qed

text \<open>The interface of the permission tables, on the index of the subscribers.\<close>

interpretation services: table_layout "service_pos agents els" "service_valid agents els operations"
    "operations * els * agents" for agents els operations
proof
  show "service_pos agents els k < operations * els * agents" if "service_valid agents els operations k" for k
    using that by (auto simp: service_pos_def service_valid_def intro!: pair_bound)
  show "k = k'" if "service_valid agents els operations k" "service_valid agents els operations k'"
      and "service_pos agents els k = service_pos agents els k'" for k k'
    using that by (auto simp: service_pos_def service_valid_def dest!: pair_index_inj)
qed

text \<open>The sizes a table of subscribers is created with, as numbers.\<close>

definition ns_agents :: "scmi_notification_subscribers \<Rightarrow> nat" where "ns_agents ns = unat (ns_agent_count ns)"
definition ns_elements :: "scmi_notification_subscribers \<Rightarrow> nat" where "ns_elements ns = unat (ns_element_count ns)"
definition ns_operations :: "scmi_notification_subscribers \<Rightarrow> nat" where "ns_operations ns = unat (ns_operation_count ns)"

definition registered :: "scmi_notification_subscribers \<Rightarrow> nat \<Rightarrow> bool" where
  "registered ns operation \<longleftrightarrow> ns_operation_id_to_idx ns ! operation \<noteq> MOD_SCMI_PROTOCOL_OPERATION_IDX_INVALID"

definition operation_key :: "scmi_notification_subscribers \<Rightarrow> nat \<Rightarrow> nat" where
  "operation_key ns operation = unat (ns_operation_id_to_idx ns ! operation)"

definition ns_entry :: "scmi_notification_subscribers \<Rightarrow> nat \<times> nat \<times> nat \<Rightarrow> fwk_id" where
  "ns_entry ns k = ns_agent_service_ids ns ! service_pos (ns_agents ns) (ns_elements ns) k"

text \<open>The abstract table: the service an agent has subscribed with.\<close>

definition subscription :: "scmi_notification_subscribers \<Rightarrow> nat \<times> nat \<times> nat \<Rightarrow> fwk_id option" where
  "subscription ns = (\<lambda>(operation, e, a).
    if registered ns operation \<and> ns_entry ns (operation_key ns operation, e, a) \<noteq> FWK_ID_NONE
    then Some (ns_entry ns (operation_key ns operation, e, a)) else None)"

definition ns_wf :: "scmi_notification_subscribers \<Rightarrow> bool" where
  "ns_wf ns \<longleftrightarrow> ns_operations ns \<le> 255 \<and> 256 * ns_elements ns * ns_agents ns < 2 ^ 32 \<and>
    length (ns_agent_service_ids ns) = ns_operations ns * ns_elements ns * ns_agents ns \<and>
    length (ns_operation_id_to_idx ns) = 32 \<and> unat (ns_operation_idx ns) \<le> ns_operations ns \<and>
    (\<forall>o1 < 32. registered ns o1 \<longrightarrow> operation_key ns o1 < unat (ns_operation_idx ns)) \<and>
    (\<forall>o1 < 32. \<forall>o2 < 32. registered ns o1 \<and> registered ns o2 \<and> operation_key ns o1 = operation_key ns o2 \<longrightarrow> o1 = o2) \<and>
    (\<forall>k. service_valid (ns_agents ns) (ns_elements ns) (ns_operations ns) k \<and> unat (ns_operation_idx ns) \<le> fst k
      \<longrightarrow> ns_entry ns k = FWK_ID_NONE)"

lemma service_idx:
  assumes "256 * unat els * unat agents < 2 ^ 32" "operation < 256" "unat e < unat els" "unat a < unat agents"
  shows "unat (scmi_notification_service_idx a e (word_of_nat operation) agents els)
    = service_pos (unat agents) (unat els) (operation, unat e, unat a)"
proof -
  let ?n = "unat a + unat e * unat agents + operation * unat els * unat agents"
  have pos: "service_pos (unat agents) (unat els) (operation, unat e, unat a) = ?n"
    by (simp add: service_pos_def algebra_simps)
  have "service_pos (unat agents) (unat els) (operation, unat e, unat a) < 256 * unat els * unat agents"
    using assms by (intro services.pos_bound) (simp add: service_valid_def)
  then have "?n < 2 ^ 32" using assms(1) pos by linarith
  moreover have "scmi_notification_service_idx a e (word_of_nat operation) agents els = word_of_nat ?n"
    by (simp add: scmi_notification_service_idx_def)
  ultimately have "unat (scmi_notification_service_idx a e (word_of_nat operation) agents els) = ?n"
    by (simp only: unat_of_nat) simp
  then show ?thesis using pos by simp
qed

section \<open>Changes of the table\<close>

definition register_operation :: "nat \<Rightarrow> scmi_notification_subscribers \<Rightarrow> scmi_notification_subscribers" where
  "register_operation operation ns = (if registered ns operation then ns
    else ns\<lparr>ns_operation_id_to_idx := (ns_operation_id_to_idx ns)[operation := ucast (ns_operation_idx ns)],
      ns_operation_idx := ns_operation_idx ns + 1\<rparr>)"

definition put_entry :: "nat \<times> nat \<times> nat \<Rightarrow> fwk_id \<Rightarrow> scmi_notification_subscribers \<Rightarrow> scmi_notification_subscribers" where
  "put_entry k v ns = ns\<lparr>ns_agent_service_ids :=
    (ns_agent_service_ids ns)[service_pos (ns_agents ns) (ns_elements ns) k := v]\<rparr>"

lemma ns_sizes [simp]:
  "ns_agents (register_operation oper ns) = ns_agents ns" "ns_elements (register_operation oper ns) = ns_elements ns"
  "ns_operations (register_operation oper ns) = ns_operations ns"
  "ns_agents (put_entry k v ns) = ns_agents ns" "ns_elements (put_entry k v ns) = ns_elements ns"
  "ns_operations (put_entry k v ns) = ns_operations ns"
  by (simp_all add: ns_agents_def ns_elements_def ns_operations_def register_operation_def put_entry_def)

lemma put_entry_simps [simp]:
  "registered (put_entry k v ns) oper = registered ns oper" "operation_key (put_entry k v ns) oper = operation_key ns oper"
  "ns_operation_idx (put_entry k v ns) = ns_operation_idx ns"
  "ns_operation_id_to_idx (put_entry k v ns) = ns_operation_id_to_idx ns"
  "ns_agent_service_ids (put_entry k v ns) =
    (ns_agent_service_ids ns)[service_pos (ns_agents ns) (ns_elements ns) k := v]"
  by (simp_all add: registered_def operation_key_def put_entry_def)

lemma ns_entry_put:
  assumes "ns_wf ns" "service_valid (ns_agents ns) (ns_elements ns) (ns_operations ns) k"
    and "service_valid (ns_agents ns) (ns_elements ns) (ns_operations ns) k'"
  shows "ns_entry (put_entry k v ns) k' = (if k' = k then v else ns_entry ns k')"
proof -
  have "ns_operations ns * ns_elements ns * ns_agents ns \<le> length (ns_agent_service_ids ns)"
    using assms(1) by (simp add: ns_wf_def)
  from services.read_after_write [OF this assms(2,3), of v] show ?thesis by (simp add: ns_entry_def)
qed

lemma operation_key_less: "ns_wf ns \<Longrightarrow> oper < 32 \<Longrightarrow> registered ns oper \<Longrightarrow> operation_key ns oper < ns_operations ns"
  unfolding ns_wf_def by (meson less_le_trans)

lemma put_entry_wf:
  assumes "ns_wf ns" "oper < 32" "registered ns oper" "e < ns_elements ns" "a < ns_agents ns"
  shows "ns_wf (put_entry (operation_key ns oper, e, a) v ns)"
proof -
  let ?k = "(operation_key ns oper, e, a)"
  have k: "service_valid (ns_agents ns) (ns_elements ns) (ns_operations ns) ?k" "fst ?k < unat (ns_operation_idx ns)"
    using assms operation_key_less [OF assms(1-3)] by (simp_all add: service_valid_def) (simp add: ns_wf_def)
  have "ns_entry (put_entry ?k v ns) k' = FWK_ID_NONE"
    if "service_valid (ns_agents ns) (ns_elements ns) (ns_operations ns) k'" "unat (ns_operation_idx ns) \<le> fst k'" for k'
  proof -
    have "ns_entry ns k' = FWK_ID_NONE" using assms(1) that unfolding ns_wf_def by blast
    then show ?thesis using ns_entry_put [OF assms(1) k(1) that(1), of v] that(2) k(2) by auto
  qed
  then show ?thesis using assms(1) by (simp add: ns_wf_def)
qed

lemma put_entry_subscription:
  assumes "ns_wf ns" "o1 < 32" "registered ns o1" "e < ns_elements ns" "a < ns_agents ns"
    and "o2 < 32" "e' < ns_elements ns" "a' < ns_agents ns"
  shows "subscription (put_entry (operation_key ns o1, e, a) v ns) (o2, e', a') =
    (if (o2, e', a') = (o1, e, a) then (if v = FWK_ID_NONE then None else Some v) else subscription ns (o2, e', a'))"
proof (cases "registered ns o2")
  case True
  have v: "service_valid (ns_agents ns) (ns_elements ns) (ns_operations ns) (operation_key ns o1, e, a)"
    "service_valid (ns_agents ns) (ns_elements ns) (ns_operations ns) (operation_key ns o2, e', a')"
    using assms operation_key_less [OF assms(1,2,3)] operation_key_less [OF assms(1,6) True] by (simp_all add: service_valid_def)
  have "operation_key ns o2 = operation_key ns o1 \<longleftrightarrow> o2 = o1" using assms True unfolding ns_wf_def by metis
  then show ?thesis using ns_entry_put [OF assms(1) v] True by (auto simp: subscription_def)
next
  case False
  then show ?thesis using assms(3) by (auto simp: subscription_def)
qed

lemma register_wf:
  assumes "ns_wf ns" "oper < 32" "registered ns oper \<or> unat (ns_operation_idx ns) < ns_operations ns"
  shows "ns_wf (register_operation oper ns)" "registered (register_operation oper ns) oper"
    and "o2 < 32 \<Longrightarrow> e < ns_elements ns \<Longrightarrow> a < ns_agents ns \<Longrightarrow>
      subscription (register_operation oper ns) (o2, e, a) = subscription ns (o2, e, a)"
    and "o2 < 32 \<Longrightarrow> registered (register_operation oper ns) o2 \<longleftrightarrow> registered ns o2 \<or> o2 = oper"
    and "unat (ns_operation_idx (register_operation oper ns)) = unat (ns_operation_idx ns) + (if registered ns oper then 0 else 1)"
proof -
  let ?ns = "register_operation oper ns" and ?n = "unat (ns_operation_idx ns)"
  have "ns_wf ?ns \<and> registered ?ns oper \<and> (\<forall>o2 < 32. registered ?ns o2 \<longleftrightarrow> registered ns o2 \<or> o2 = oper) \<and>
      (\<forall>o2 < 32. \<forall>e < ns_elements ns. \<forall>a < ns_agents ns. subscription ?ns (o2, e, a) = subscription ns (o2, e, a)) \<and>
      unat (ns_operation_idx ?ns) = ?n + (if registered ns oper then 0 else 1)"
  proof (cases "registered ns oper")
    case True
    then have "?ns = ns" by (simp add: register_operation_def)
    then show ?thesis using assms(1) True by auto
  next
    case False
    then have n: "?n < ns_operations ns" and sz: "ns_operations ns \<le> 255" "length (ns_operation_id_to_idx ns) = 32"
      using assms by (auto simp: ns_wf_def)
    have u: "unat (ucast (ns_operation_idx ns) :: u8) = ?n" using n sz by (simp add: unsigned_ucast_eq take_bit_nat_eq_self_iff)
    have key: "operation_key ?ns o2 = (if o2 = oper then ?n else operation_key ns o2)" for o2
      using assms(2) sz False u by (auto simp: operation_key_def register_operation_def nth_list_update)
    have reg: "registered ?ns o2 \<longleftrightarrow> registered ns o2 \<or> o2 = oper" for o2
    proof (cases "o2 = oper")
      case True
      have "ucast (ns_operation_idx ns) \<noteq> MOD_SCMI_PROTOCOL_OPERATION_IDX_INVALID"
        using u n sz by (auto simp: MOD_SCMI_PROTOCOL_OPERATION_IDX_INVALID_def)
      then show ?thesis using True False assms(2) sz by (simp add: registered_def register_operation_def)
    qed (use False in \<open>simp add: registered_def register_operation_def\<close>)
    have idx: "unat (ns_operation_idx ?ns) = Suc ?n"
      using False n sz by (simp add: register_operation_def unat_word_ariths)
    have ent: "ns_entry ?ns k = ns_entry ns k" for k
      using False by (simp add: ns_entry_def) (simp add: register_operation_def)
    have below: "operation_key ns o2 < ?n" if "o2 < 32" "registered ns o2" for o2 using assms(1) that by (simp add: ns_wf_def)
    have len: "length (ns_operation_id_to_idx ?ns) = 32" "ns_agent_service_ids ?ns = ns_agent_service_ids ns"
      using sz False by (simp_all add: register_operation_def)
    have less: "operation_key ?ns o1 < unat (ns_operation_idx ?ns)" if "o1 < 32" "registered ?ns o1" for o1
      using that below [of o1] unfolding key reg idx by (auto intro: less_SucI)
    have inj: "o1 = o2" if "o1 < 32" "o2 < 32" "registered ?ns o1" "registered ?ns o2" "operation_key ?ns o1 = operation_key ?ns o2"
      for o1 o2
    proof -
      have "\<And>o1 o2. o1 < 32 \<Longrightarrow> o2 < 32 \<Longrightarrow> registered ns o1 \<Longrightarrow> registered ns o2 \<Longrightarrow>
          operation_key ns o1 = operation_key ns o2 \<Longrightarrow> o1 = o2"
        using assms(1) unfolding ns_wf_def by blast
      then show ?thesis using that below [of o1] below [of o2] unfolding key reg by (metis less_irrefl)
    qed
    have rest: "ns_entry ?ns k = FWK_ID_NONE"
      if "service_valid (ns_agents ns) (ns_elements ns) (ns_operations ns) k" "unat (ns_operation_idx ?ns) \<le> fst k" for k
      using assms(1) that unfolding ns_wf_def ent idx by (meson Suc_leD)
    have wf: "ns_wf ?ns"
      using assms(1) n less inj rest len idx unfolding ns_wf_def ns_sizes by simp
    have sub: "subscription ?ns (o2, e, a) = subscription ns (o2, e, a)"
      if "o2 < 32" "e < ns_elements ns" "a < ns_agents ns" for o2 e a
    proof (cases "o2 = oper")
      case True
      have "ns_entry ns (?n, e, a) = FWK_ID_NONE"
        using assms(1) n that by (auto simp: ns_wf_def service_valid_def)
      then show ?thesis using True False by (simp add: subscription_def reg key ent)
    qed (simp add: subscription_def reg key ent)
    show ?thesis using wf reg sub idx False by simp
  qed
  note all = this
  show "ns_wf ?ns" "registered ?ns oper"
    and "unat (ns_operation_idx ?ns) = ?n + (if registered ns oper then 0 else 1)" using all by simp_all
  show "o2 < 32 \<Longrightarrow> e < ns_elements ns \<Longrightarrow> a < ns_agents ns \<Longrightarrow> subscription ?ns (o2, e, a) = subscription ns (o2, e, a)"
    using all by simp
  show "o2 < 32 \<Longrightarrow> registered ?ns o2 \<longleftrightarrow> registered ns o2 \<or> o2 = oper" using all by simp
qed

section \<open>The operations\<close>

definition with_subscribers :: "nat \<Rightarrow> scmi_notification_subscribers \<Rightarrow> 'a scmi \<Rightarrow> 'a scmi" where
  "with_subscribers i ns s = upd_scmi (\<lambda>c. c\<lparr>sm_scmi_notif_subscribers := (sm_scmi_notif_subscribers c)[i := ns]\<rparr>) s"

lemma with_subscribers_simps [simp]:
  "scmi_calls (with_subscribers i ns s) = scmi_calls s"
  "subscribers_index p (with_subscribers i ns s) = subscribers_index p s"
  "service_ctx sid (with_subscribers i ns s) = service_ctx sid s"
  "get_agent_id sid (with_subscribers i ns s) = get_agent_id sid s"
  "with_subscribers i ns (with_subscribers i ns' s) = with_subscribers i ns s"
  by (simp_all add: with_subscribers_def upd_scmi_def subscribers_index_def service_ctx_def get_agent_id_def)

lemma subscribers_with [simp]:
  "subscribers_index p s = Some i \<Longrightarrow> notification_subscribers p (with_subscribers i ns s) = Some ns"
  "subscribers_index p s = Some i \<Longrightarrow> set_subscribers p ns s = Some (with_subscribers i ns s)"
  by (auto simp: notification_subscribers_def set_subscribers_def with_subscribers_def upd_scmi_def subscribers_index_def
      Let_def split: if_splits)

lemma operation_word: "(ucast (ns_operation_id_to_idx ns ! oper) :: u32) = word_of_nat (operation_key ns oper)"
  by (simp add: operation_key_def)

lemma operation_key_byte: "operation_key ns oper < 256"
  using unsigned_less [where w = "ns_operation_id_to_idx ns ! oper"] by (simp add: operation_key_def)

lemma ns_index:
  assumes "ns_wf ns" "unat e < ns_elements ns" "unat a < ns_agents ns"
  shows "unat (scmi_notification_service_idx a e (ucast (ns_operation_id_to_idx ns ! oper)) (ns_agent_count ns)
    (ns_element_count ns)) = service_pos (ns_agents ns) (ns_elements ns) (operation_key ns oper, unat e, unat a)"
proof -
  have "256 * unat (ns_element_count ns) * unat (ns_agent_count ns) < 2 ^ 32"
    using assms(1) by (simp add: ns_wf_def ns_agents_def ns_elements_def)
  from service_idx [OF this operation_key_byte] show ?thesis
    using assms(2,3) unfolding operation_word ns_agents_def ns_elements_def by blast
qed

lemma put_service_id_entry:
  assumes "ns_wf ns" "oper < 32" "registered ns oper" "unat e < ns_elements ns" "unat a < ns_agents ns"
  shows "put_service_id (scmi_notification_service_idx a e (ucast (ns_operation_id_to_idx ns ! oper)) (ns_agent_count ns)
    (ns_element_count ns)) v ns = Some (put_entry (operation_key ns oper, unat e, unat a) v ns)"
proof -
  have "service_valid (ns_agents ns) (ns_elements ns) (ns_operations ns) (operation_key ns oper, unat e, unat a)"
    using assms operation_key_less [OF assms(1-3)] by (simp add: service_valid_def)
  from services.pos_bound [OF this] show ?thesis
    using ns_index [OF assms(1,4,5), of oper] assms(1) by (simp add: put_service_id_def put_entry_def ns_wf_def)
qed

lemma add_subscriber:
  assumes "subscribers_index p s = Some i" "notification_subscribers p s = Some ns" "ns_wf ns"
    and "get_agent_id sid s = Some (FWK_SUCCESS, a)" "oper < 32" "unat e < ns_elements ns" "unat a < ns_agents ns"
    and "registered ns (unat oper) \<or> unat (ns_operation_idx ns) < ns_operations ns"
  shows "scmi_notification_add_subscriber p e oper sid s = Some (FWK_SUCCESS, with_subscribers i
    (let ns = register_operation (unat oper) ns in put_entry (operation_key ns (unat oper), unat e, unat a) sid ns) s)"
proof -
  have op32: "unat oper < 32" using assms(5) by (simp add: word_less_nat_alt)
  let ?ns = "register_operation (unat oper) ns"
  note r = register_wf [OF assms(3) op32 assms(8)]
  have put: "put_service_id (scmi_notification_service_idx a e (ucast (ns_operation_id_to_idx ?ns ! unat oper))
      (ns_agent_count ?ns) (ns_element_count ?ns)) sid ?ns = Some (put_entry (operation_key ?ns (unat oper), unat e, unat a) sid ?ns)"
    using assms(6,7) by (intro put_service_id_entry [OF r(1) op32 r(2)]) simp_all
  have reg: "(if ns_operation_id_to_idx ns ! unat oper = MOD_SCMI_PROTOCOL_OPERATION_IDX_INVALID
      then fwk_assert (ns_operation_idx ns < ns_operation_count ns) \<bind> (\<lambda>_. Some (ns\<lparr>ns_operation_id_to_idx :=
        (ns_operation_id_to_idx ns)[unat oper := ucast (ns_operation_idx ns)], ns_operation_idx := ns_operation_idx ns + 1\<rparr>))
      else Some ns) = Some ?ns"
    using assms(8) by (auto simp: register_operation_def registered_def ns_operations_def word_less_nat_alt)
  show ?thesis
    unfolding scmi_notification_add_subscriber_def
    using assms(1,2,4,5) by (simp add: reg put Let_def MOD_SCMI_PROTOCOL_MAX_OPERATION_ID_def)
qed

lemma remove_subscriber:
  assumes "subscribers_index p s = Some i" "notification_subscribers p s = Some ns" "ns_wf ns"
    and "oper < 32" "unat e < ns_elements ns" "unat a < ns_agents ns" "registered ns (unat oper)"
  shows "scmi_notification_remove_subscriber p a e oper s = Some (FWK_SUCCESS, with_subscribers i
    (put_entry (operation_key ns (unat oper), unat e, unat a) FWK_ID_NONE ns) s)"
proof -
  have "unat oper < 32" using assms(4) by (simp add: word_less_nat_alt)
  from put_service_id_entry [OF assms(3) this assms(7,5,6)] show ?thesis
    using assms(1,2,4) by (simp add: scmi_notification_remove_subscriber_def MOD_SCMI_PROTOCOL_MAX_OPERATION_ID_def)
qed

text \<open>The index of an operation nobody has subscribed to is that of a missing operation, far behind the table.\<close>

lemma remove_unregistered:
  assumes "notification_subscribers p s = Some ns" "ns_wf ns" "unat e < ns_elements ns" "unat a < ns_agents ns"
    and "\<not> registered ns (unat oper)"
  shows "scmi_notification_remove_subscriber p a e oper s = None"
proof -
  have key: "operation_key ns (unat oper) = 255"
    using assms(5) by (simp add: registered_def operation_key_def MOD_SCMI_PROTOCOL_OPERATION_IDX_INVALID_def)
  have "ns_operations ns * ns_elements ns * ns_agents ns \<le> 255 * ns_elements ns * ns_agents ns"
    using assms(2) by (intro mult_le_mono) (simp_all add: ns_wf_def)
  also have "\<dots> \<le> service_pos (ns_agents ns) (ns_elements ns) (255, unat e, unat a)"
    by (simp add: service_pos_def add_mult_distrib)
  finally have "length (ns_agent_service_ids ns) \<le> service_pos (ns_agents ns) (ns_elements ns) (255, unat e, unat a)"
    using assms(2) by (simp add: ns_wf_def)
  then show ?thesis
    using assms(1) ns_index [OF assms(2-4), of "unat oper"]
    by (auto simp: scmi_notification_remove_subscriber_def put_service_id_def key)
qed

section \<open>Histories of subscriptions\<close>

datatype sub_change =
    Subscribe u32 u32 fwk_id
  | Unsubscribe u32 u32 u32

fun run_change :: "u32 \<Rightarrow> sub_change \<Rightarrow> 'a scmi \<Rightarrow> 'a scmi option" where
  "run_change p (Subscribe e oper sid) s = map_option snd (scmi_notification_add_subscriber p e oper sid s)"
| "run_change p (Unsubscribe a e oper) s = map_option snd (scmi_notification_remove_subscriber p a e oper s)"

definition agent_of :: "'a scmi \<Rightarrow> fwk_id \<Rightarrow> nat" where
  "agent_of s sid = (case get_agent_id sid s of None \<Rightarrow> 0 | Some (_, a) \<Rightarrow> unat a)"

fun apply_change ::
  "(fwk_id \<Rightarrow> nat) \<Rightarrow> sub_change \<Rightarrow> (nat \<times> nat \<times> nat \<Rightarrow> fwk_id option) \<Rightarrow> (nat \<times> nat \<times> nat \<Rightarrow> fwk_id option)" where
  "apply_change agent (Subscribe e oper sid) m = m((unat oper, unat e, agent sid) := Some sid)"
| "apply_change agent (Unsubscribe a e oper) m = m((unat oper, unat e, unat a) := None)"

text \<open>A history the table is made for: elements and agents in range, at most as many operations as announced,
  cancellations of operations that somebody has subscribed to. \<open>known\<close> are the operations so far.\<close>

fun usable :: "nat \<Rightarrow> nat \<Rightarrow> nat \<Rightarrow> 'a scmi \<Rightarrow> nat list \<Rightarrow> sub_change list \<Rightarrow> bool" where
  "usable agents els operations s known [] \<longleftrightarrow> True"
| "usable agents els operations s known (Subscribe e oper sid # cs) \<longleftrightarrow>
    unat e < els \<and> oper < MOD_SCMI_PROTOCOL_MAX_OPERATION_ID \<and> sid \<noteq> FWK_ID_NONE \<and> agent_of s sid < agents \<and>
    (case get_agent_id sid s of None \<Rightarrow> False | Some (status, _) \<Rightarrow> status = FWK_SUCCESS) \<and>
    (unat oper \<in> set known \<or> length known < operations) \<and>
    usable agents els operations s (if unat oper \<in> set known then known else unat oper # known) cs"
| "usable agents els operations s known (Unsubscribe a e oper # cs) \<longleftrightarrow>
    unat a < agents \<and> unat e < els \<and> oper < MOD_SCMI_PROTOCOL_MAX_OPERATION_ID \<and> unat oper \<in> set known \<and>
    usable agents els operations s known cs"

lemma usable_with [simp]: "usable A E K (with_subscribers i ns s) known cs = usable A E K s known cs"
  by (induction A E K s known cs rule: usable.induct) (simp_all add: agent_of_def)

lemma agent_of_with [simp]: "agent_of (with_subscribers i ns s) = agent_of s"
  by (simp add: agent_of_def fun_eq_iff)

text \<open>The operations known to a table.\<close>

definition knows :: "scmi_notification_subscribers \<Rightarrow> nat list \<Rightarrow> bool" where
  "knows ns known \<longleftrightarrow> distinct known \<and> length known = unat (ns_operation_idx ns) \<and>
    (\<forall>oper < 32. registered ns oper \<longleftrightarrow> oper \<in> set known)"

fun knowing :: "nat list \<Rightarrow> sub_change \<Rightarrow> nat list" where
  "knowing known (Subscribe e oper sid) = (if unat oper \<in> set known then known else unat oper # known)"
| "knowing known (Unsubscribe a e oper) = known"

definition same_sizes :: "scmi_notification_subscribers \<Rightarrow> scmi_notification_subscribers \<Rightarrow> bool" where
  "same_sizes ns ns' \<longleftrightarrow> ns_agents ns' = ns_agents ns \<and> ns_elements ns' = ns_elements ns \<and> ns_operations ns' = ns_operations ns"

definition agrees :: "scmi_notification_subscribers \<Rightarrow> (nat \<times> nat \<times> nat \<Rightarrow> fwk_id option) \<Rightarrow> bool" where
  "agrees ns m \<longleftrightarrow> (\<forall>oper < 32. \<forall>e < ns_elements ns. \<forall>a < ns_agents ns. subscription ns (oper, e, a) = m (oper, e, a))"

lemma known_registered: "knows ns known \<Longrightarrow> oper < 32 \<Longrightarrow> registered ns oper \<longleftrightarrow> oper \<in> set known"
  by (simp add: knows_def)

lemma subscribe_step:
  assumes "subscribers_index p s = Some i" "notification_subscribers p s = Some ns" "ns_wf ns" "knows ns known"
    and "usable (ns_agents ns) (ns_elements ns) (ns_operations ns) s known (Subscribe e oper sid # cs)" "agrees ns m"
  shows "\<exists>ns'. run_change p (Subscribe e oper sid) s = Some (with_subscribers i ns' s) \<and> ns_wf ns' \<and> same_sizes ns ns' \<and>
    knows ns' (knowing known (Subscribe e oper sid)) \<and> agrees ns' (apply_change (agent_of s) (Subscribe e oper sid) m)"
proof -
  from assms(5) obtain a where a: "get_agent_id sid s = Some (FWK_SUCCESS, a)" and bounds: "unat e < ns_elements ns"
      "unat a < ns_agents ns" "oper < 32" "sid \<noteq> FWK_ID_NONE" "unat oper \<in> set known \<or> length known < ns_operations ns"
    by (auto simp: agent_of_def MOD_SCMI_PROTOCOL_MAX_OPERATION_ID_def split: option.splits)
  have op32: "unat oper < 32" using bounds(3) by (simp add: word_less_nat_alt)
  have room: "registered ns (unat oper) \<or> unat (ns_operation_idx ns) < ns_operations ns"
    using bounds(5) assms(4) op32 by (auto simp: knows_def)
  note r = register_wf [OF assms(3) op32 room]
  let ?ns = "register_operation (unat oper) ns"
  let ?ns' = "put_entry (operation_key ?ns (unat oper), unat e, unat a) sid ?ns"
  have "knows ?ns' (knowing known (Subscribe e oper sid))"
    using assms(4) r(4,5) known_registered [OF assms(4) op32] by (auto simp: knows_def)
  moreover have "agrees ?ns' (apply_change (agent_of s) (Subscribe e oper sid) m)"
    using assms(6) bounds a r(3) put_entry_subscription [OF r(1) op32 r(2), of "unat e" "unat a" _ _ _ sid]
    by (auto simp: agrees_def agent_of_def)
  ultimately show ?thesis
    using add_subscriber [OF assms(1-3) a bounds(3,1,2) room] put_entry_wf [OF r(1) op32 r(2)] bounds
    by (intro exI [of _ ?ns']) (simp add: Let_def same_sizes_def)
qed

lemma unsubscribe_step:
  assumes "subscribers_index p s = Some i" "notification_subscribers p s = Some ns" "ns_wf ns" "knows ns known"
    and "usable (ns_agents ns) (ns_elements ns) (ns_operations ns) s known (Unsubscribe a e oper # cs)" "agrees ns m"
  shows "\<exists>ns'. run_change p (Unsubscribe a e oper) s = Some (with_subscribers i ns' s) \<and> ns_wf ns' \<and> same_sizes ns ns' \<and>
    knows ns' (knowing known (Unsubscribe a e oper)) \<and> agrees ns' (apply_change (agent_of s) (Unsubscribe a e oper) m)"
proof -
  from assms(5) have bounds: "unat e < ns_elements ns" "unat a < ns_agents ns" "oper < 32" "unat oper \<in> set known"
    by (auto simp: MOD_SCMI_PROTOCOL_MAX_OPERATION_ID_def)
  have op32: "unat oper < 32" using bounds(3) by (simp add: word_less_nat_alt)
  have reg: "registered ns (unat oper)" using known_registered [OF assms(4) op32] bounds(4) by simp
  let ?ns' = "put_entry (operation_key ns (unat oper), unat e, unat a) FWK_ID_NONE ns"
  have "agrees ?ns' (apply_change (agent_of s) (Unsubscribe a e oper) m)"
    using assms(6) bounds put_entry_subscription [OF assms(3) op32 reg, of "unat e" "unat a" _ _ _ FWK_ID_NONE]
    by (auto simp: agrees_def)
  then show ?thesis
    using remove_subscriber [OF assms(1-3) bounds(3,1,2) reg] put_entry_wf [OF assms(3) op32 reg] bounds assms(4)
    by (intro exI [of _ ?ns']) (simp add: same_sizes_def knows_def)
qed

lemma change_step:
  assumes "subscribers_index p s = Some i" "notification_subscribers p s = Some ns" "ns_wf ns" "knows ns known"
    and "usable (ns_agents ns) (ns_elements ns) (ns_operations ns) s known (c # cs)" "agrees ns m"
  obtains ns' where "run_change p c s = Some (with_subscribers i ns' s)" "ns_wf ns'" "same_sizes ns ns'"
    and "knows ns' (knowing known c)" "agrees ns' (apply_change (agent_of s) c m)"
    and "usable (ns_agents ns') (ns_elements ns') (ns_operations ns') s (knowing known c) cs"
proof (cases c)
  case (Subscribe e oper sid)
  then show thesis using subscribe_step [OF assms(1-4) _ assms(6), of e oper sid cs] assms(5) that
    by (auto simp: same_sizes_def)
next
  case (Unsubscribe a e oper)
  then show thesis using unsubscribe_step [OF assms(1-4) _ assms(6), of a e oper cs] assms(5) that
    by (auto simp: same_sizes_def)
qed

lemma run_changes:
  assumes "subscribers_index p s = Some i" "notification_subscribers p s = Some ns" "ns_wf ns" "knows ns known"
    and "usable (ns_agents ns) (ns_elements ns) (ns_operations ns) s known cs" "agrees ns m"
  shows "\<exists>ns' s'. for_each (run_change p) cs s = Some s' \<and> notification_subscribers p s' = Some ns' \<and> ns_wf ns' \<and>
    same_sizes ns ns' \<and> agrees ns' (fold (apply_change (agent_of s)) cs m) \<and> scmi_calls s' = scmi_calls s \<and>
    (\<forall>sid. service_ctx sid s' = service_ctx sid s) \<and> knows ns' (fold (\<lambda>c k. knowing k c) cs known)"
  using assms
proof (induction cs arbitrary: s ns known m)
  case Nil
  then show ?case by (auto simp: same_sizes_def)
next
  case (Cons c cs)
  obtain ns' where step: "run_change p c s = Some (with_subscribers i ns' s)" "ns_wf ns'" "same_sizes ns ns'"
    "knows ns' (knowing known c)" "agrees ns' (apply_change (agent_of s) c m)"
    "usable (ns_agents ns') (ns_elements ns') (ns_operations ns') s (knowing known c) cs"
    using change_step [OF Cons.prems] by blast
  from Cons.IH [of "with_subscribers i ns' s" ns' "knowing known c" "apply_change (agent_of s) c m"] step Cons.prems(1)
  show ?case by (auto simp: same_sizes_def)
qed

section \<open>Sending notifications\<close>

lemma notification_init:
  assumes "subscribers_index p s = Some i" "notification_subscribers p s = Some scmi_subscribers_zero"
    and "256 * unat els * unat agents < 2 ^ 32" "unat opers \<le> 127"
  shows "\<exists>ns. scmi_notification_init p agents els opers s = Some (FWK_SUCCESS, with_subscribers i ns s) \<and> ns_wf ns \<and>
    knows ns [] \<and> agrees ns (\<lambda>_. None) \<and> ns_agents ns = unat agents \<and> ns_elements ns = unat els \<and> ns_operations ns = unat opers"
proof -
  let ?n = "unat opers * unat els * unat agents"
  let ?ns = "scmi_subscribers_zero\<lparr>ns_agent_count := agents, ns_element_count := els, ns_operation_count := opers,
      ns_operation_id_to_idx := replicate (unat MOD_SCMI_PROTOCOL_MAX_OPERATION_ID) MOD_SCMI_PROTOCOL_OPERATION_IDX_INVALID,
      ns_agent_service_ids := replicate ?n FWK_ID_NONE\<rparr>"
  have "?n \<le> 127 * (unat els * unat agents)" unfolding mult.assoc using assms(4) by (rule mult_le_mono1)
  moreover have "unat els * unat agents < 16777216" using assms(3) by (simp add: mult.commute)
  ultimately have n: "?n < 2147483648" by linarith
  have "opers * els * agents = word_of_nat ?n" by simp
  then have "sint (opers * els * agents) = int ?n"
    using sint_of_nat_u32 [of ?n] n by simp
  then have total: "0 \<le> sint (opers * els * agents)" "nat (sint (opers * els * agents)) = ?n"
    by (simp_all only: nat_int of_nat_0_le_iff)
  then have "scmi_notification_init p agents els opers s = Some (FWK_SUCCESS, with_subscribers i ?ns s)"
    using assms(1,2) by (simp add: scmi_notification_init_def total Let_def)
  moreover have none: "\<not> registered ?ns oper" if "oper < 32" for oper
    using that by (simp add: registered_def MOD_SCMI_PROTOCOL_MAX_OPERATION_ID_def)
  moreover have entry: "ns_entry ?ns k = FWK_ID_NONE" if "service_valid (unat agents) (unat els) (unat opers) k" for k
    using services.pos_bound [OF that] by (simp add: ns_entry_def ns_agents_def ns_elements_def)
  moreover have "ns_wf ?ns"
    using none entry assms(3,4) by (auto simp: ns_wf_def ns_agents_def ns_elements_def ns_operations_def
        scmi_subscribers_zero_def MOD_SCMI_PROTOCOL_MAX_OPERATION_ID_def)
  ultimately show ?thesis
    by (intro exI [of _ ?ns]) (auto simp: knows_def agrees_def subscription_def ns_agents_def ns_elements_def ns_operations_def
        scmi_subscribers_zero_def)
qed

text \<open>The message sent for a service: on the transport of its P2A service, when it has one that can transmit.\<close>

definition notification_of :: "'a scmi \<Rightarrow> u32 \<Rightarrow> u8 list \<Rightarrow> fwk_id \<Rightarrow> scmi_call list" where
  "notification_of s header payload sid =
    (case do { ctx \<leftarrow> service_ctx sid s; cfg \<leftarrow> sv_config ctx;
       if sc_scmi_p2a_id cfg = FWK_ID_NONE then None else service_ctx (sc_scmi_p2a_id cfg) s } of
      None \<Rightarrow> [] | Some p2a \<Rightarrow> if sv_transmit p2a then [Transmit_message (sv_transport_id p2a) header payload False] else [])"

definition notifiable :: "'a scmi \<Rightarrow> fwk_id \<Rightarrow> bool" where
  "notifiable s sid \<longleftrightarrow> fwk_id_type_is_valid sid \<and>
    (case do { ctx \<leftarrow> service_ctx sid s; sv_config ctx } of
      None \<Rightarrow> False
    | Some cfg \<Rightarrow> fwk_id_type_is_valid (sc_scmi_p2a_id cfg) \<and>
        (sc_scmi_p2a_id cfg = FWK_ID_NONE \<or> service_ctx (sc_scmi_p2a_id cfg) s \<noteq> None))"

definition logged :: "scmi_call list \<Rightarrow> 'a scmi \<Rightarrow> 'a scmi" where
  "logged cs s = s\<lparr>scmi_calls := scmi_calls s @ cs\<rparr>"

lemma logged_service [simp]: "service_ctx sid (logged cs s) = service_ctx sid s"
  by (simp add: logged_def service_ctx_def)

lemma logged_simps [simp]:
  "logged [] s = s" "logged ds (logged cs s) = logged (cs @ ds) s" "scmi_calls (logged cs s) = scmi_calls s @ cs"
  "notifiable (logged cs s) sid = notifiable s sid"
  "notification_of (logged cs s) h payload sid = notification_of s h payload sid"
  "snd (scmi_call_transport env c s) = logged [c] s"
  by (simp_all add: notifiable_def notification_of_def cong: option.case_cong Option.bind_cong if_cong)
    (simp_all add: logged_def scmi_call_transport_def Let_def)

lemma scmi_notify_log:
  assumes "notifiable s sid" "sid \<noteq> FWK_ID_NONE"
  shows "scmi_notify env sid proto m payload s =
    Some (logged (notification_of s (scmi_message_header m MOD_SCMI_MESSAGE_TYPE_NOTIFICATION proto 0) payload sid) s)"
proof -
  from assms(1) obtain ctx cfg where c: "service_ctx sid s = Some ctx" "sv_config ctx = Some cfg"
      "fwk_id_type_is_valid sid" "fwk_id_type_is_valid (sc_scmi_p2a_id cfg)"
      "sc_scmi_p2a_id cfg = FWK_ID_NONE \<or> service_ctx (sc_scmi_p2a_id cfg) s \<noteq> None"
    by (auto simp: notifiable_def split: option.splits)
  have eq: "fwk_id_is_equal sid FWK_ID_NONE = Some False"
    "fwk_id_is_equal (sc_scmi_p2a_id cfg) FWK_ID_NONE = Some (sc_scmi_p2a_id cfg = FWK_ID_NONE)"
    using c assms(2) by (simp_all add: fwk_id_is_equal_Some_iff)
  show ?thesis using c(1,2,5) by (auto simp: scmi_notify_def eq notification_of_def)
qed

lemma for_each_log:
  assumes "\<And>x cs. x \<in> set xs \<Longrightarrow> f x (logged cs s) = Some (logged (cs @ g x) s)"
  shows "for_each f xs (logged cs s) = Some (logged (cs @ concat (map g xs)) s)"
  using assms by (induction xs arbitrary: cs) auto

definition notification_header :: "u32 \<Rightarrow> u32 \<Rightarrow> u32" where
  "notification_header protocol_id response_id =
    scmi_message_header (ucast response_id) MOD_SCMI_MESSAGE_TYPE_NOTIFICATION (ucast protocol_id) 0"

lemma notify_loop:
  assumes "ns_wf ns" "agrees ns m" "oper < 32" "registered ns oper"
    and "\<And>e a sid. m (oper, e, a) = Some sid \<Longrightarrow> e < ns_elements ns \<Longrightarrow> a < ns_agents ns \<Longrightarrow> notifiable s sid"
  shows "for_each (\<lambda>i. for_each (notify_subscriber env ns (ucast (ns_operation_id_to_idx ns ! oper)) (ucast p) (ucast r) payload i)
      [1..<unat (ns_agent_count ns)]) [0..<unat (ns_element_count ns)] (logged cs s) =
    Some (logged (cs @ concat (map (\<lambda>e. concat (map (\<lambda>a. case m (oper, e, a) of None \<Rightarrow> []
      | Some sid \<Rightarrow> notification_of s (notification_header p r) payload sid) [1..<ns_agents ns])) [0..<ns_elements ns])) s)"
proof -
  have one: "notify_subscriber env ns (ucast (ns_operation_id_to_idx ns ! oper)) (ucast p) (ucast r) payload e a (logged cs s) =
      Some (logged (cs @ (case m (oper, e, a) of None \<Rightarrow> [] | Some sid \<Rightarrow> notification_of s (notification_header p r) payload sid)) s)"
    if "e < ns_elements ns" "a < ns_agents ns" for e a cs
  proof -
    have w: "unat (word_of_nat e :: u32) = e" "unat (word_of_nat a :: u32) = a"
    proof -
      have "e < 4294967296" "a < 4294967296"
        using that unat_u32_less [of "ns_element_count ns"] unat_u32_less [of "ns_agent_count ns"]
        unfolding ns_elements_def ns_agents_def by linarith+
      then show "unat (word_of_nat e :: u32) = e" "unat (word_of_nat a :: u32) = a" by (simp_all add: unat_of_nat)
    qed
    let ?k = "(operation_key ns oper, e, a)"
    have idx: "unat (scmi_notification_service_idx (word_of_nat a) (word_of_nat e) (ucast (ns_operation_id_to_idx ns ! oper))
        (ns_agent_count ns) (ns_element_count ns)) = service_pos (ns_agents ns) (ns_elements ns) ?k"
      using ns_index [OF assms(1), of "word_of_nat e" "word_of_nat a" oper] that by (simp add: w)
    have "service_valid (ns_agents ns) (ns_elements ns) (ns_operations ns) ?k"
      using operation_key_less [OF assms(1,3,4)] that by (simp add: service_valid_def)
    from services.pos_bound [OF this] have pos: "service_pos (ns_agents ns) (ns_elements ns) ?k < length (ns_agent_service_ids ns)"
      using assms(1) by (simp add: ns_wf_def)
    have m: "m (oper, e, a) = (if ns_entry ns ?k = FWK_ID_NONE then None else Some (ns_entry ns ?k))"
    proof -
      have "m (oper, e, a) = subscription ns (oper, e, a)" using assms(2,3) that by (simp add: agrees_def)
      then show ?thesis using assms(4) by (simp add: subscription_def)
    qed
    show ?thesis
    proof (cases "ns_entry ns ?k = FWK_ID_NONE")
      case True
      then have "fwk_id_is_equal (ns_entry ns ?k) FWK_ID_NONE = Some True" by (simp add: fwk_id_is_equal_Some_iff)
      then show ?thesis using pos True m
        by (simp add: notify_subscriber_def idx Let_def flip: ns_entry_def)
    next
      case False
      then have n: "notifiable s (ns_entry ns ?k)" using assms(5) [of e a] that m by simp
      then have "fwk_id_is_equal (ns_entry ns ?k) FWK_ID_NONE = Some False"
        using False by (simp add: fwk_id_is_equal_Some_iff notifiable_def)
      then show ?thesis using pos False m scmi_notify_log [of "logged cs s" "ns_entry ns ?k" env] n
        by (simp add: notify_subscriber_def idx Let_def notification_header_def flip: ns_entry_def)
    qed
  qed
  show ?thesis
    unfolding ns_agents_def [symmetric] ns_elements_def [symmetric]
    by (intro for_each_log one) simp_all
qed

definition known_after :: "sub_change list \<Rightarrow> nat list" where
  "known_after cs = fold (\<lambda>c k. knowing k c) cs []"

definition subscribed_after :: "'a scmi \<Rightarrow> sub_change list \<Rightarrow> nat \<times> nat \<times> nat \<Rightarrow> fwk_id option" where
  "subscribed_after s cs = fold (apply_change (agent_of s)) cs (\<lambda>_. None)"

definition services_notifiable :: "'a scmi \<Rightarrow> sub_change list \<Rightarrow> bool" where
  "services_notifiable s cs \<longleftrightarrow> list_all (\<lambda>c. case c of Subscribe _ _ sid \<Rightarrow> notifiable s sid | _ \<Rightarrow> True) cs"

lemma changes_notifiable:
  assumes "services_notifiable s cs" "\<And>k sid. m k = Some sid \<Longrightarrow> notifiable s sid"
    and "fold (apply_change (agent_of s)) cs m k = Some sid"
  shows "notifiable s sid"
  using assms
proof (induction cs arbitrary: m)
  case (Cons c cs)
  have step: "notifiable s sid'" if "apply_change (agent_of s) c m k' = Some sid'" for k' sid'
    using that Cons.prems(1) Cons.prems(2) [of k' sid'] by (cases c) (auto simp: services_notifiable_def split: if_splits)
  have "services_notifiable s cs" using Cons.prems(1) by (simp add: services_notifiable_def)
  from Cons.IH [OF this step] Cons.prems(3) show ?case by simp
qed simp

lemma subscribed_notifiable:
  "services_notifiable s cs \<Longrightarrow> subscribed_after s cs k = Some sid \<Longrightarrow> notifiable s sid"
  using changes_notifiable [of s cs "\<lambda>_. None"] by (simp add: subscribed_after_def)

text \<open>The messages of one notification, elements first, then agents; agent 0 is the platform.\<close>

definition notifications_for :: "'a scmi \<Rightarrow> (nat \<times> nat \<times> nat \<Rightarrow> fwk_id option) \<Rightarrow> nat \<Rightarrow> nat \<Rightarrow> nat \<Rightarrow> u32 \<Rightarrow> u8 list \<Rightarrow> scmi_call list" where
  "notifications_for s m els agents oper header payload =
    concat (map (\<lambda>e. concat (map (\<lambda>a. case m (oper, e, a) of None \<Rightarrow> [] | Some sid \<Rightarrow> notification_of s header payload sid)
      [1..<agents])) [0..<els])"

lemma notification_of_same:
  "(\<And>sid. service_ctx sid s' = service_ctx sid s) \<Longrightarrow> notification_of s' = notification_of s"
  by (simp add: notification_of_def fun_eq_iff cong: option.case_cong Option.bind_cong if_cong)

lemma notify_after_changes:
  assumes "subscribers_index p s = Some i" "notification_subscribers p s = Some scmi_subscribers_zero"
    and "256 * unat els * unat agents < 2 ^ 32" "unat opers \<le> 127"
    and "usable (unat agents) (unat els) (unat opers) s [] cs" "services_notifiable s cs"
    and "oper < MOD_SCMI_PROTOCOL_MAX_OPERATION_ID"
  shows "\<exists>s0 s1 s2. scmi_notification_init p agents els opers s = Some (FWK_SUCCESS, s0) \<and>
    for_each (run_change p) cs s0 = Some s1 \<and>
    scmi_notification_notify env p oper response payload s1 = Some (FWK_SUCCESS, s2) \<and>
    scmi_calls s2 = scmi_calls s @ notifications_for s (subscribed_after s cs) (unat els) (unat agents) (unat oper)
      (notification_header p response) payload \<and>
    (unat oper \<notin> set (known_after cs) \<longrightarrow>
      (\<forall>e a. e < els \<and> a < agents \<longrightarrow> scmi_notification_remove_subscriber p a e oper s1 = None))"
proof -
  have op: "oper < 32" "unat oper < 32" using assms(7) by (simp_all add: MOD_SCMI_PROTOCOL_MAX_OPERATION_ID_def word_less_nat_alt)
  obtain ns0 where init: "scmi_notification_init p agents els opers s = Some (FWK_SUCCESS, with_subscribers i ns0 s)"
      "ns_wf ns0" "knows ns0 []" "agrees ns0 (\<lambda>_. None)" "ns_agents ns0 = unat agents" "ns_elements ns0 = unat els"
      "ns_operations ns0 = unat opers"
    using notification_init [OF assms(1-4)] by blast
  let ?s0 = "with_subscribers i ns0 s" and ?m = "subscribed_after s cs"
  have "\<exists>ns s1. for_each (run_change p) cs ?s0 = Some s1 \<and> notification_subscribers p s1 = Some ns \<and> ns_wf ns \<and>
    same_sizes ns0 ns \<and> agrees ns ?m \<and> scmi_calls s1 = scmi_calls ?s0 \<and>
    (\<forall>sid. service_ctx sid s1 = service_ctx sid ?s0) \<and> knows ns (known_after cs)"
    using run_changes [of p ?s0 i ns0 "[]" cs "\<lambda>_. None"] init assms(1,5)
    by (simp add: subscribed_after_def known_after_def)
  then obtain ns s1 where run: "for_each (run_change p) cs ?s0 = Some s1" "notification_subscribers p s1 = Some ns" "ns_wf ns"
      "same_sizes ns0 ns" "agrees ns ?m" "scmi_calls s1 = scmi_calls s" "\<And>sid. service_ctx sid s1 = service_ctx sid s"
      "knows ns (known_after cs)" by auto
  have sz: "ns_agents ns = unat agents" "ns_elements ns = unat els" using run(4) init(5,6) by (simp_all add: same_sizes_def)
  have nf: "notifiable s1 sid" if "?m k = Some sid" for k sid
    using subscribed_notifiable [OF assms(6) that] run(7)
    by (simp add: notifiable_def cong: option.case_cong Option.bind_cong if_cong)
  have same: "notification_of s1 = notification_of s" using run(7) by (rule notification_of_same)
  let ?log = "notifications_for s ?m (unat els) (unat agents) (unat oper) (notification_header p response) payload"
  have "scmi_notification_notify env p oper response payload s1 = Some (FWK_SUCCESS, logged ?log s1)"
  proof (cases "registered ns (unat oper)")
    case True
    from notify_loop [OF run(3,5) op(2) True, of s1 env p response payload "[]", unfolded same] nf
    show ?thesis using run(2) True op(1)
      by (simp add: scmi_notification_notify_def Let_def registered_def MOD_SCMI_PROTOCOL_MAX_OPERATION_ID_def
          notifications_for_def sz)
  next
    case False
    then have "?m (unat oper, e, a) = None" if "e < unat els" "a < unat agents" for e a
      using run(5) op(2) that unfolding agrees_def sz by (auto simp: subscription_def)
    then have "?log = []" by (simp add: notifications_for_def)
    then show ?thesis using run(2) False op(1)
      by (simp add: scmi_notification_notify_def registered_def MOD_SCMI_PROTOCOL_MAX_OPERATION_ID_def)
  qed
  moreover have "scmi_notification_remove_subscriber p a e oper s1 = None"
    if "unat oper \<notin> set (known_after cs)" "e < els" "a < agents" for e a
    using remove_unregistered [OF run(2,3)] known_registered [OF run(8) op(2)] that sz by (simp add: word_less_nat_alt)
  ultimately show ?thesis using init(1) run(1,6) by auto
qed

end
