(* ===== verification/Scmi_Answers.thy ===== *)
theory Scmi_Answers
  imports Scmi_Notify
begin

unbundle bit_operations_syntax

text \<open>
  The answers of the base protocol: every handler answers its message once, so a message of a served agent is
  answered unless it calls a null handler.
\<close>

section \<open>Answers\<close>

definition service_ready :: "fwk_id \<Rightarrow> 'a scmi \<Rightarrow> bool" where
  "service_ready sid s \<longleftrightarrow> fwk_module_get_element_name sid s \<noteq> None \<and> sm_config (scmi_ctx s) \<noteq> None \<and>
    (case service_ctx sid s of None \<Rightarrow> False
     | Some ctx \<Rightarrow> sv_config ctx \<noteq> None \<and> sv_transport_api ctx \<noteq> None \<and> sv_respond ctx)"

definition transport_of :: "fwk_id \<Rightarrow> 'a scmi \<Rightarrow> fwk_id" where
  "transport_of sid s = (case service_ctx sid s of None \<Rightarrow> 0 | Some ctx \<Rightarrow> sv_transport_id ctx)"

lemma element_name_logged [simp]: "fwk_module_get_element_name sid (logged cs s) = fwk_module_get_element_name sid s"
  by (simp add: logged_def fwk_module_get_element_name_def fwk_module_is_valid_element_id_def fwk_module_get_element_ctx_def
      fwk_module_get_ctx_def cong: if_cong)

lemma logged_fields [simp]:
  "scmi_ctx (logged cs s) = scmi_ctx s" "res_perms_state (logged cs s) = res_perms_state s"
  "get_agent_id sid (logged cs s) = get_agent_id sid s" "get_agent_type a (logged cs s) = get_agent_type a s"
  "service_ready sid (logged cs s) = service_ready sid s" "transport_of sid (logged cs s) = transport_of sid s"
  by (simp_all add: get_agent_id_def get_agent_type_def service_ready_def transport_of_def) (simp_all add: logged_def)

lemma call_transport: "scmi_call_transport env c s = (tr_status env (scmi_calls s @ [c]), logged [c] s)"
  by (simp add: scmi_call_transport_def logged_def Let_def)

lemma ready_respond:
  assumes "service_ready sid s" "4 \<le> length bytes" "unat sz \<le> length bytes"
  shows "respond env sid (Some bytes) sz s = Some (scmi_call_transport env (Respond (transport_of sid s) (take (unat sz) bytes)) s)"
  using assms by (auto simp: respond_def service_ready_def transport_of_def ctx_respond_def split: option.splits)

lemma ready_respond_written:
  assumes "service_ready sid s"
  shows "respond env sid None sz s = Some (scmi_call_transport env (Respond_written (transport_of sid s) sz) s)"
  using assms by (auto simp: respond_def service_ready_def transport_of_def split: option.splits)

lemma ready_write:
  assumes "service_ready sid s"
  shows "write_payload env sid off bytes s = Some (scmi_call_transport env (Write_payload (transport_of sid s) off bytes) s)"
  using assms by (auto simp: write_payload_def service_ready_def transport_of_def split: option.splits)

text \<open>A write inside the payload of \<open>room\<close> bytes; an answer of at most 24 bytes, or one that has been written and is
  rounded up to a word.\<close>

fun is_write :: "fwk_id \<Rightarrow> nat \<Rightarrow> scmi_call \<Rightarrow> bool" where
  "is_write tid room (Write_payload t off bytes) \<longleftrightarrow> t = tid \<and> unat off + length bytes \<le> room"
| "is_write tid room _ \<longleftrightarrow> False"

fun is_answer :: "fwk_id \<Rightarrow> nat \<Rightarrow> scmi_call \<Rightarrow> bool" where
  "is_answer tid room (Respond t bytes) \<longleftrightarrow> t = tid \<and> length bytes \<le> 24"
| "is_answer tid room (Respond_written t sz) \<longleftrightarrow> t = tid \<and> unat sz \<le> room + 3"
| "is_answer tid room _ \<longleftrightarrow> False"

text \<open>One response on the transport, after writes to its payload, and nothing else.\<close>

definition answers_once :: "fwk_id \<Rightarrow> nat \<Rightarrow> scmi_call list \<Rightarrow> ('b \<times> 'a scmi) option \<Rightarrow> bool" where
  "answers_once tid room before r \<longleftrightarrow> (case r of None \<Rightarrow> False
    | Some (_, s') \<Rightarrow> \<exists>ws c. scmi_calls s' = before @ ws @ [c] \<and> list_all (is_write tid room) ws \<and> is_answer tid room c)"

text \<open>What the transport of a service says its payload can hold.\<close>

definition payload_room :: "('a scmi) scmi_env \<Rightarrow> fwk_id \<Rightarrow> 'a scmi \<Rightarrow> nat" where
  "payload_room env sid s = unat (snd (tr_get_max_payload_size env (transport_of sid s) (scmi_calls s)))"

abbreviation answered :: "('a scmi) scmi_env \<Rightarrow> fwk_id \<Rightarrow> 'a scmi \<Rightarrow> ('b \<times> 'a scmi) option \<Rightarrow> bool" where
  "answered env sid s \<equiv> answers_once (transport_of sid s) (payload_room env sid s) (scmi_calls s)"

lemma answers_respond:
  assumes "service_ready sid s" "4 \<le> length bytes" "unat sz \<le> length bytes" "length bytes \<le> 24"
    and "scmi_calls s = before @ ws" "list_all (is_write (transport_of sid s) room) ws"
  shows "answers_once (transport_of sid s) room before (respond env sid (Some bytes) sz s)"
  using assms by (auto simp: ready_respond call_transport answers_once_def)

lemma answers_respond_written:
  assumes "service_ready sid s" "scmi_calls s = before @ ws" "list_all (is_write (transport_of sid s) room) ws"
    and "unat sz \<le> room + 3"
  shows "answers_once (transport_of sid s) room before (respond env sid None sz s)"
  using assms by (auto simp: ready_respond_written call_transport answers_once_def)

lemma answers_after [simp]:
  "answers_once tid room before (r \<bind> (\<lambda>(_, s). Some (x, s))) = answers_once tid room before r"
  by (auto simp: answers_once_def split: option.splits)

lemma length_status_bytes [simp]: "length (status_bytes x) = 4" "length (le32 w) = 4"
  by (simp_all add: status_bytes_def le32_def)

lemma length_strncpy [simp]: "0 < n \<Longrightarrow> length (strncpy_field n str) = n"
  by (simp add: strncpy_field_def)

lemma answers_status:
  "service_ready sid s \<Longrightarrow> answered env sid s (respond_status env sid x s)"
  unfolding respond_status_def by (rule answers_respond [where ws = "[]"]) simp_all

section \<open>The base protocol\<close>

definition permissions_return :: "res_plat \<Rightarrow> res_perms_ctx \<Rightarrow> bool" where
  "permissions_return plat rp \<longleftrightarrow> (\<forall>a p. agent_protocol_permissions plat rp a p \<noteq> None) \<and>
    (\<forall>a p m. agent_message_permissions plat rp a p m \<noteq> None) \<and>
    (\<forall>a d f. mod_res_agent_set_device_permission plat a d f rp \<noteq> None) \<and>
    (\<forall>a d p f. mod_res_agent_set_device_protocol_permission plat a d p f rp \<noteq> None) \<and>
    (\<forall>a f. mod_res_agent_reset_config plat a f rp \<noteq> None)"

text \<open>Without the resource permissions: the agent is in the table, and the list of protocols closed to PSCI agents
  is there and shorter than the list of protocols.\<close>

definition agent_known :: "u32 \<Rightarrow> 'a scmi \<Rightarrow> bool" where
  "agent_known a s \<longleftrightarrow> (case sm_config (scmi_ctx s) of None \<Rightarrow> False
    | Some cfg \<Rightarrow> a \<noteq> MOD_SCMI_PLATFORM_ID \<and> a \<le> cf_agent_count cfg \<and>
        cf_dis_protocol_count_psci cfg < sm_protocol_count (scmi_ctx s) \<and>
        (cf_dis_protocol_count_psci cfg = 0 \<or> (case cf_dis_protocol_list_psci cfg of None \<Rightarrow> False
          | Some l \<Rightarrow> unat (cf_dis_protocol_count_psci cfg) \<le> length l)))"

text \<open>The configuration: a table entry for every agent, with a name or a type that has a default name.\<close>

definition agents_configured :: "mod_scmi_config \<Rightarrow> bool" where
  "agents_configured cfg \<longleftrightarrow> cf_agent_count cfg < 0xFFFFFFFF \<and> unat (cf_agent_count cfg) < length (cf_agent_table cfg) \<and>
    list_all (\<lambda>a. ag_name a \<noteq> None \<or> ag_type a < SCMI_AGENT_TYPE_COUNT) (cf_agent_table cfg)"

definition agent_id_of :: "fwk_id \<Rightarrow> 'a scmi \<Rightarrow> u32" where
  "agent_id_of sid s = (case service_ctx sid s of Some ctx \<Rightarrow> (case sv_config ctx of Some cfg \<Rightarrow> sc_scmi_agent_id cfg | None \<Rightarrow> 0)
    | None \<Rightarrow> 0)"

definition base_served :: "('a scmi) scmi_env \<Rightarrow> fwk_id \<Rightarrow> 'a scmi \<Rightarrow> bool" where
  "base_served env sid s \<longleftrightarrow> service_ready sid s \<and>
    (case sm_config (scmi_ctx s) of None \<Rightarrow> False | Some cfg \<Rightarrow> agents_configured cfg) \<and>
    (case fwk_module_get_element_name sid s of Some (Some _) \<Rightarrow> True | _ \<Rightarrow> False) \<and>
    (if has_mod_resource_perms env then permissions_return (env_res_plat env) (res_perms_state s)
     else agent_known (agent_id_of sid s) s)"

lemma served_agent:
  assumes "base_served env sid s"
  shows "get_agent_id sid s = Some (FWK_SUCCESS, agent_id_of sid s)"
  using assms by (auto simp: base_served_def service_ready_def get_agent_id_def agent_id_of_def split: option.splits)

lemma known_agent_type:
  assumes "base_served env sid s" "\<not> has_mod_resource_perms env"
  obtains ty where "get_agent_type (agent_id_of sid s) s = Some (FWK_SUCCESS, ty)"
proof -
  from assms obtain cfg where "sm_config (scmi_ctx s) = Some cfg" "agents_configured cfg" "agent_known (agent_id_of sid s) s"
    by (auto simp: base_served_def split: option.splits)
  moreover from this have "unat (agent_id_of sid s) < length (cf_agent_table cfg)"
    by (auto simp: agent_known_def agents_configured_def word_le_nat_alt)
  ultimately show thesis by (intro that) (auto simp: get_agent_type_def agent_known_def not_less)
qed

lemma disabled_returns: "agent_known a s \<Longrightarrow> sm_config (scmi_ctx s) = Some cfg \<Longrightarrow> disabled_for_psci cfg p \<noteq> None"
  by (auto simp: agent_known_def disabled_for_psci_def Let_def split: option.splits)

lemma payload_word: "off + 4 \<le> length p \<Longrightarrow> payload_get32 off p = Some (params_get32 off p)"
  by (simp add: payload_get32_def)

lemma count_returns:
  assumes "permissions_return (env_res_plat env) (res_perms_state s)"
  shows "count_protocols env a s is counted \<noteq> None"
proof (induction "is" arbitrary: counted)
  case (Cons i "is")
  obtain perms where "agent_protocol_permissions (env_res_plat env) (res_perms_state s) a (of_nat i) = Some perms"
    using assms unfolding permissions_return_def by blast
  then show ?case using Cons.IH by (simp del: not_None_eq)
qed simp

lemma attributes_answers:
  assumes "base_served env sid s"
  shows "answered env sid s (scmi_base_protocol_attributes_handler env sid p s)"
proof -
  from assms obtain cfg where r: "service_ready sid s" "sm_config (scmi_ctx s) = Some cfg"
    by (auto simp: base_served_def split: option.splits)
  have res: "answered env sid s (respond env sid (Some (status_bytes SCMI_SUCCESS @ le32 w)) 8 s)" for w
    by (rule answers_respond [where ws = "[]"]) (simp_all add: r)
  show ?thesis
  proof (cases "has_mod_resource_perms env")
    case True
    then have "permissions_return (env_res_plat env) (res_perms_state s)" using assms by (simp add: base_served_def)
    from count_returns [OF this] obtain n where
      "count_protocols env (agent_id_of sid s) s [0..<MOD_SCMI_PROTOCOL_ID_MAX + 1] (0, 0) = Some n" by blast
    then show ?thesis
      using True res r by (simp add: scmi_base_protocol_attributes_handler_def served_agent [OF assms])
  next
    case False
    obtain ty where ty: "get_agent_type (agent_id_of sid s) s = Some (FWK_SUCCESS, ty)"
      using known_agent_type [OF assms False] .
    have "agent_known (agent_id_of sid s) s" using assms False by (simp add: base_served_def)
    then have "cf_dis_protocol_count_psci cfg < sm_protocol_count (scmi_ctx s)" using r(2) by (simp add: agent_known_def)
    then show ?thesis
      using False res r ty by (simp add: scmi_base_protocol_attributes_handler_def served_agent [OF assms])
  qed
qed

lemma discover_agent_answers:
  assumes "base_served env sid s" "length p = 4"
  shows "answered env sid s (scmi_base_discover_agent_handler env sid p s)"
proof -
  from assms obtain cfg str where r: "service_ready sid s" "sm_config (scmi_ctx s) = Some cfg" "agents_configured cfg"
    "fwk_module_get_element_name sid s = Some (Some str)"
    by (auto simp: base_served_def split: option.splits)
  have short: "answered env sid s
      (respond env sid (Some (status_bytes SCMI_NOT_FOUND @ replicate 20 0)) 4 s)"
    by (rule answers_respond [where ws = "[]"]) (simp_all add: r)
  have full: "answered env sid s (respond env sid (Some (agent_reply a (strncpy_field 16 x))) 24 s)" for a x
    by (rule answers_respond [where ws = "[]"]) (simp_all add: r agent_reply_def)
  let ?a = "params_get32 0 p"
  have name: "\<exists>x. (case ag_name (cf_agent_table cfg ! unat ?a) of Some str \<Rightarrow> Some str
      | None \<Rightarrow> do { fwk_assert (unat (ag_type (cf_agent_table cfg ! unat ?a)) < length default_agent_names);
          Some (default_agent_names ! unat (ag_type (cf_agent_table cfg ! unat ?a))) }) = Some x"
    if "\<not> ?a > cf_agent_count cfg"
  proof -
    have "unat ?a < length (cf_agent_table cfg)"
      using that r(3) unfolding agents_configured_def word_less_nat_alt by linarith
    then have "ag_name (cf_agent_table cfg ! unat ?a) \<noteq> None \<or> ag_type (cf_agent_table cfg ! unat ?a) < SCMI_AGENT_TYPE_COUNT"
      using r(3) by (auto simp: agents_configured_def list_all_length)
    then show ?thesis
      by (auto simp: default_agent_names_def SCMI_AGENT_TYPE_COUNT_def word_less_nat_alt split: option.splits)
  qed
  have inside: "unat ?a < length (cf_agent_table cfg)" if "\<not> ?a > cf_agent_count cfg"
    using that r(3) unfolding agents_configured_def word_less_nat_alt by linarith
  consider "?a > cf_agent_count cfg \<and> ?a \<noteq> 0xFFFFFFFF" | "?a = 0xFFFFFFFF" | "\<not> ?a > cf_agent_count cfg" by blast
  then show ?thesis
  proof cases
    case 1
    then show ?thesis using short by (simp add: scmi_base_discover_agent_handler_def payload_word assms(2) r)
  next
    case 2
    then show ?thesis
      using full by (simp add: scmi_base_discover_agent_handler_def payload_word assms(2) r served_agent [OF assms(1)]
          MOD_SCMI_PLATFORM_ID_def)
  next
    case 3
    then have "?a \<noteq> 0xFFFFFFFF" using r(3) by (auto simp: agents_configured_def)
    moreover obtain x where "(case ag_name (cf_agent_table cfg ! unat ?a) of Some str \<Rightarrow> Some str
      | None \<Rightarrow> do { fwk_assert (unat (ag_type (cf_agent_table cfg ! unat ?a)) < length default_agent_names);
          Some (default_agent_names ! unat (ag_type (cf_agent_table cfg ! unat ?a))) }) = Some x"
      using name [OF 3] by blast
    ultimately show ?thesis using 3 inside [OF 3] full
      by (simp add: scmi_base_discover_agent_handler_def payload_word assms(2) r)
  qed
qed

section \<open>The list of protocols\<close>

lemma list_loop_returns:
  assumes "service_ready sid s" "\<And>i cs. hidden i (logged cs s) \<noteq> None"
    and "fst st \<le> n_max" "fst (snd st) = 8 + (fst st - skip)" "8 + (n_max - skip) \<le> room"
  shows "\<exists>status st' ws. list_protocols_loop env sid hidden skip n_max is st s = Some (status, st', logged ws s) \<and>
    list_all (is_write (transport_of sid s) room) ws \<and> fst (snd st') \<le> room"
  using assms
proof (induction "is" arbitrary: st s)
  case Nil
  then show ?case by (intro exI [of _ 0] exI [of _ st] exI [of _ "[]"]) simp
next
  case (Cons i "is")
  obtain n sz avail where st: "st = (n, sz, avail)" by (cases st)
  have inside: "n \<le> n_max" "sz = 8 + (n - skip)" "sz \<le> room" using Cons.prems(3-5) by (simp_all add: st)
  have stop: "?case" if "list_protocols_loop env sid hidden skip n_max (i # is) st s = Some (x, y, s)" "fst (snd y) \<le> room" for x y
    using that by (intro exI [of _ x] exI [of _ y] exI [of _ "[]"]) simp
  obtain h where h: "hidden (word_of_nat i) s = Some h" using Cons.prems(2) [of "of_nat i" "[]"] by auto
  let ?c = "Write_payload (transport_of sid s) (word_of_nat sz) [word_of_nat i]"
  have wr: "write_payload env sid (word_of_nat sz) [word_of_nat i] s = Some (tr_status env (scmi_calls s @ [?c]), logged [?c] s)"
    using ready_write [OF Cons.prems(1)] by (simp add: call_transport)
  consider (full) "\<not> n < n_max"
    | (unseen) "n < n_max" "sm_scmi_protocol_id_to_idx (scmi_ctx s) ! i = 0 \<or> (of_nat i :: u32) = MOD_SCMI_PROTOCOL_ID_BASE \<or> h"
    | (skip) "n < n_max" "sm_scmi_protocol_id_to_idx (scmi_ctx s) ! i \<noteq> 0" "(of_nat i :: u32) \<noteq> MOD_SCMI_PROTOCOL_ID_BASE" "\<not> h" "n + 1 \<le> skip"
    | (put) "n < n_max" "sm_scmi_protocol_id_to_idx (scmi_ctx s) ! i \<noteq> 0" "(of_nat i :: u32) \<noteq> MOD_SCMI_PROTOCOL_ID_BASE" "\<not> h" "\<not> n + 1 \<le> skip"
    by blast
  then show ?case
  proof cases
    case full
    then show ?thesis using inside by (intro stop [of FWK_SUCCESS "(n, sz, avail)"]) (simp_all add: st)
  next
    case unseen
    then have "list_protocols_loop env sid hidden skip n_max (i # is) st s = list_protocols_loop env sid hidden skip n_max is st s"
      by (auto simp: st h)
    then show ?thesis using Cons.IH [OF Cons.prems] by simp
  next
    case skip
    then have "list_protocols_loop env sid hidden skip n_max (i # is) st s =
        list_protocols_loop env sid hidden skip n_max is (n + 1, sz, avail) s"
      by (auto simp: st h)
    then show ?thesis using Cons.IH [OF Cons.prems(1,2), of "(n + 1, sz, avail)"] Cons.prems(5) skip(1,5) inside by simp
  next
    case put
    let ?s = "logged [?c] s"
    have r: "service_ready sid ?s" "\<And>i cs. hidden i (logged cs ?s) \<noteq> None"
      using Cons.prems(1) Cons.prems(2) [where cs = "[?c] @ _"] by simp_all
    have "unat (word_of_nat sz :: u32) \<le> sz" by (simp add: unat_of_nat)
    then have fits: "is_write (transport_of sid s) room ?c" "sz + 1 = 8 + (n + 1 - skip)"
      using put(1,5) inside Cons.prems(5) by simp_all
    show ?thesis
    proof (cases "tr_status env (scmi_calls s @ [?c]) = FWK_SUCCESS")
      case True
      obtain x y ws where "list_protocols_loop env sid hidden skip n_max is (n + 1, sz + 1, avail + 1) ?s = Some (x, y, logged ws ?s)"
        "list_all (is_write (transport_of sid s) room) ws" "fst (snd y) \<le> room"
        using Cons.IH [OF r, of "(n + 1, sz + 1, avail + 1)"] fits(2) put(1) Cons.prems(5) by auto
      then show ?thesis using put True fits(1)
        by (intro exI [of _ x] exI [of _ y] exI [of _ "?c # ws"]) (simp add: st h wr)
    next
      case False
      then show ?thesis using put fits(1) inside(3)
        by (intro exI [of _ "tr_status env (scmi_calls s @ [?c])"] exI [of _ "(n + 1, sz, avail)"] exI [of _ "[?c]"])
          (simp add: st h wr)
    qed
  qed
qed

lemma list_error_answers:
  assumes "service_ready sid s" "scmi_calls s = before @ ws" "list_all (is_write (transport_of sid s) room) ws"
  shows "answers_once (transport_of sid s) room before (list_protocols_error env sid rv n status s)"
  unfolding list_protocols_error_def answers_after
  by (rule answers_respond [OF assms(1) _ _ _ assms(2,3)]) (simp_all add: list_protocols_p2a_size_def)

lemma hidden_returns:
  assumes "base_served env sid s" "sm_config (scmi_ctx s) = Some cfg"
  shows "protocol_hidden env cfg (agent_id_of sid s) ty p (logged cs s) \<noteq> None"
proof (cases "has_mod_resource_perms env")
  case True
  then have "permissions_return (env_res_plat env) (res_perms_state s)" using assms by (simp add: base_served_def)
  then obtain x where "agent_protocol_permissions (env_res_plat env) (res_perms_state s) (agent_id_of sid s) p = Some x"
    unfolding permissions_return_def by blast
  then show ?thesis using True by (simp add: protocol_hidden_def)
next
  case False
  then have "agent_known (agent_id_of sid s) s" using assms by (simp add: base_served_def)
  from disabled_returns [OF this assms(2)] show ?thesis using False by (simp add: protocol_hidden_def del: not_None_eq)
qed

text \<open>The identifiers a page has room for: the sum of \<open>skip\<close> and the entries may wrap, then none are.\<close>

lemma page_fits:
  assumes "\<not> size_max < list_protocols_p2a_size + 4"
  shows "8 + (unat (protocol_count_max available skip (size_max - list_protocols_p2a_size)) - unat skip) \<le> unat size_max"
proof -
  let ?e = "size_max - list_protocols_p2a_size"
  have "unat (list_protocols_p2a_size + 4) = 12" by (simp add: list_protocols_p2a_size_def)
  then have large: "12 \<le> unat size_max" using assms by (simp add: not_less word_le_nat_alt)
  then have "unat ?e = unat size_max - 8"
    by (simp add: list_protocols_p2a_size_def unat_sub word_le_nat_alt)
  moreover have "unat (protocol_count_max available skip ?e) \<le> unat (skip + ?e)"
    by (simp add: protocol_count_max_def word_less_nat_alt)
  moreover have "unat (skip + ?e) \<le> unat skip + unat ?e" by (simp add: unat_word_ariths)
  ultimately show ?thesis using large by linarith
qed

lemma list_protocols_answers:
  assumes "base_served env sid s" "length p = 4"
  shows "answered env sid s (scmi_base_discover_list_protocols_handler env sid p s)"
proof -
  let ?ans = "answered env sid s" and ?w = "is_write (transport_of sid s) (payload_room env sid s)"
  from assms(1) obtain cfg where r: "service_ready sid s" "sm_config (scmi_ctx s) = Some cfg"
    by (auto simp: base_served_def split: option.splits)
  have err: "?ans (list_protocols_error env sid rv n status s)" for rv n status
    by (rule list_error_answers [OF r(1), where ws = "[]"]) simp_all
  have err_after: "?ans (list_protocols_error env sid rv n status (logged ws s))" if "list_all ?w ws" for rv n status ws
    using r(1) that by (intro list_error_answers [where s = "logged ws s", simplified]) simp_all
  obtain ty where ty: "(if has_mod_resource_perms env then Some (FWK_SUCCESS, 0) else get_agent_type (agent_id_of sid s) s)
      = Some (FWK_SUCCESS, ty)"
    by (metis known_agent_type [OF assms(1)])
  obtain status size_max where sz: "get_max_payload_size env sid s = Some (status, size_max)" "payload_room env sid s = unat size_max"
    using r(1) by (cases "tr_get_max_payload_size env (transport_of sid s) (scmi_calls s)")
      (auto simp: get_max_payload_size_def service_ready_def transport_of_def payload_room_def split: option.splits)
  obtain available where avail: "(if \<not> has_mod_resource_perms env \<and> ty = SCMI_AGENT_TYPE_PSCI
      then do {
        fwk_assert (sm_protocol_count (scmi_ctx s) > cf_dis_protocol_count_psci cfg);
        Some (sm_protocol_count (scmi_ctx s) - cf_dis_protocol_count_psci cfg) }
      else Some (sm_protocol_count (scmi_ctx s))) = Some available"
    using assms(1) r(2) by (cases "ty = SCMI_AGENT_TYPE_PSCI") (auto simp: base_served_def agent_known_def split: if_splits)
  let ?n = "unat (protocol_count_max available (params_get32 0 p) (size_max - list_protocols_p2a_size))"
  have skip: "payload_get32 0 p = Some (params_get32 0 p)" by (rule payload_word) (simp add: assms(2))
  show ?thesis
  proof (cases "size_max < list_protocols_p2a_size + 4")
    case True
    then show ?thesis
      unfolding scmi_base_discover_list_protocols_handler_def served_agent [OF assms(1)]
      by (simp only: Option.bind.simps prod.case simp_thms if_False if_True Let_def ty sz(1)) (simp add: err)
  next
    case False
    have hidden: "protocol_hidden env cfg (agent_id_of sid s) ty i (logged cs s) \<noteq> None" for i cs
      using hidden_returns [OF assms(1) r(2)] .
    have fits: "8 + (?n - unat (params_get32 0 p)) \<le> payload_room env sid s" using page_fits [OF False] by (simp add: sz(2))
    obtain status' st' ws where "list_protocols_loop env sid (protocol_hidden env cfg (agent_id_of sid s) ty)
        (unat (params_get32 0 p)) ?n [0..<MOD_SCMI_PROTOCOL_ID_MAX + 1] (0, unat list_protocols_p2a_size, 0) s
        = Some (status', st', logged ws s)" and ws: "list_all ?w ws" "fst (snd st') \<le> payload_room env sid s"
      using list_loop_returns [where hidden = "protocol_hidden env cfg (agent_id_of sid s) ty" and
          st = "(0, unat list_protocols_p2a_size, 0)", OF r(1) hidden _ _ fits]
      by (force simp: list_protocols_p2a_size_def)
    then obtain n sz' av where loop: "list_protocols_loop env sid (protocol_hidden env cfg (agent_id_of sid s) ty)
        (unat (params_get32 0 p)) ?n [0..<MOD_SCMI_PROTOCOL_ID_MAX + 1] (0, unat list_protocols_p2a_size, 0) s
        = Some (status', (n, sz', av), logged ws s)" and sz': "sz' \<le> payload_room env sid s"
      by (cases st') auto
    let ?s = "logged ws s" and ?b = "status_bytes SCMI_SUCCESS @ le32 (word_of_nat av)"
    let ?c = "Write_payload (transport_of sid s) 0 ?b"
    have "8 \<le> payload_room env sid s"
      using False sz(2) by (simp add: not_less word_le_nat_alt list_protocols_p2a_size_def)
    then have wc: "list_all ?w (ws @ [?c])" using ws by simp
    have wr: "write_payload env sid 0 ?b ?s = Some (tr_status env (scmi_calls s @ ws @ [?c]), logged (ws @ [?c]) s)"
      using ready_write [of sid ?s] r(1) by (simp add: call_transport)
    have last: "?ans (respond env sid None (of_nat ((sz' + 3) div 4 * 4)) (logged (ws @ [?c]) s))"
    proof -
      have "unat (of_nat ((sz' + 3) div 4 * 4) :: u32) \<le> (sz' + 3) div 4 * 4" by (simp only: unat_of_nat mod_less_eq_dividend)
      also have "\<dots> \<le> payload_room env sid s + 3" using sz' by presburger
      finally show ?thesis
        using answers_respond_written [of sid "logged (ws @ [?c]) s" "scmi_calls s", OF _ _ _ _] r(1) wc by simp
    qed
    show ?thesis
      unfolding scmi_base_discover_list_protocols_handler_def served_agent [OF assms(1)]
      by (simp only: Option.bind.simps prod.case simp_thms if_False Let_def ty sz(1) skip r(2) avail loop wr)
        (simp add: err err_after [OF ws(1)] err_after [OF wc] last [simplified])
  qed
qed

section \<open>Permissions of agents\<close>

lemma served_cong:
  "service_ready sid (s\<lparr>res_perms_state := rp\<rparr>) = service_ready sid s"
  "transport_of sid (s\<lparr>res_perms_state := rp\<rparr>) = transport_of sid s"
  by (simp_all add: service_ready_def transport_of_def service_ctx_def fwk_module_get_element_name_def
      fwk_module_is_valid_element_id_def fwk_module_get_element_ctx_def fwk_module_get_ctx_def
      cong: if_cong option.case_cong Option.bind_cong)

lemma answers_status_perms:
  "service_ready sid s \<Longrightarrow> answered env sid s (respond_status env sid x (s\<lparr>res_perms_state := rp\<rparr>))"
  using answers_status [of sid "s\<lparr>res_perms_state := rp\<rparr>" env x] by (simp add: served_cong payload_room_def)

lemma permission_handlers_answer:
  assumes "base_served env sid s" "has_mod_resource_perms env"
  shows "length p = 12 \<Longrightarrow> answered env sid s (scmi_base_set_device_permissions env sid p s)"
    and "length p = 16 \<Longrightarrow> answered env sid s (scmi_base_set_protocol_permissions env sid p s)"
    and "length p = 8 \<Longrightarrow> answered env sid s (scmi_base_reset_agent_config env sid p s)"
proof -
  from assms(1) obtain cfg where r: "service_ready sid s" "sm_config (scmi_ctx s) = Some cfg"
    by (auto simp: base_served_def split: option.splits)
  have ret: "permissions_return (env_res_plat env) (res_perms_state s)" using assms by (simp add: base_served_def)
  note ans = answers_status [OF r(1)] answers_status_perms [OF r(1)]
  show "answered env sid s (scmi_base_set_device_permissions env sid p s)" if "length p = 12"
  proof -
    have "mod_res_agent_set_device_permission (env_res_plat env) (params_get32 0 p) (params_get32 4 p)
        (params_get32 8 p) (res_perms_state s) \<noteq> None"
      using ret unfolding permissions_return_def by blast
    then obtain st rp where "mod_res_agent_set_device_permission (env_res_plat env) (params_get32 0 p) (params_get32 4 p)
        (params_get32 8 p) (res_perms_state s) = Some (st, rp)" by force
    then show ?thesis using ans that by (simp add: scmi_base_set_device_permissions_def payload_word r)
  qed
  show "answered env sid s (scmi_base_set_protocol_permissions env sid p s)" if "length p = 16"
  proof -
    have "mod_res_agent_set_device_protocol_permission (env_res_plat env) (params_get32 0 p) (params_get32 4 p)
        (params_get32 8 p) (params_get32 12 p) (res_perms_state s) \<noteq> None"
      using ret unfolding permissions_return_def by blast
    then obtain st rp where "mod_res_agent_set_device_protocol_permission (env_res_plat env) (params_get32 0 p) (params_get32 4 p)
        (params_get32 8 p) (params_get32 12 p) (res_perms_state s) = Some (st, rp)" by force
    then show ?thesis using ans that by (simp add: scmi_base_set_protocol_permissions_def payload_word r)
  qed
  show "answered env sid s (scmi_base_reset_agent_config env sid p s)" if "length p = 8"
  proof -
    have "mod_res_agent_reset_config (env_res_plat env) (params_get32 0 p) (params_get32 4 p)
        (res_perms_state s) \<noteq> None"
      using ret unfolding permissions_return_def by blast
    then obtain st rp where "mod_res_agent_reset_config (env_res_plat env) (params_get32 0 p) (params_get32 4 p)
        (res_perms_state s) = Some (st, rp)" by force
    then show ?thesis using ans that by (simp add: scmi_base_reset_agent_config_def payload_word r)
  qed
qed

section \<open>Every message is answered\<close>

lemma base_message_ids:
  assumes "message_id < MOD_SCMI_BASE_COMMAND_COUNT"
  shows "message_id \<in> {0, 1, 2, 3, 4, 5, 6, 7, 8, 9, 10, 11}"
proof -
  have "message_id = word_of_nat (unat message_id)" "unat message_id \<in> {..<12}"
    using assms by (simp_all add: MOD_SCMI_BASE_COMMAND_COUNT_def word_less_nat_alt)
  then have "message_id \<in> word_of_nat ` {..<12}" by (rule image_eqI)
  also have "{..<12} = {0, 1, 2, 3, 4, 5, 6, 7, 8, 9, 10, 11 :: nat}" by (rule set_eqI) (simp, presburger)
  finally show ?thesis by simp
qed

text \<open>The table of handlers has a null entry for the messages without a handler.\<close>

lemma base_table_entry:
  assumes "message_id < MOD_SCMI_BASE_COMMAND_COUNT"
  shows "base_handler_table env ! unat message_id \<noteq> None \<longleftrightarrow> base_handler_present env message_id"
proof -
  have "message_id \<in> {0, 1, 2, 3, 4, 5, 6, 7, 8, 9, 10, 11}" using base_message_ids [OF assms] .
  then show ?thesis
    by (auto simp: base_handler_table_def base_handler_present_def MOD_SCMI_BASE_COMMAND_COUNT_def MOD_SCMI_BASE_NOTIFY_ERRORS_def)
qed

lemma short_answers:
  assumes "service_ready sid s"
  shows "answered env sid s (respond env sid (Some (status_bytes x @ le32 w)) 8 s)"
    and "answered env sid s (respond env sid (Some (status_bytes x @ le32 w)) 4 s)"
    and "answered env sid s (respond env sid (Some (status_bytes x @ base_identifier str)) 20 s)"
  by (rule answers_respond [OF assms, where ws = "[]"]; simp add: base_identifier_def split: option.splits)+

text \<open>The messages that call a null handler: well-formed and permitted, without an entry in the table.\<close>

definition calls_null_handler :: "('a scmi) scmi_env \<Rightarrow> fwk_id \<Rightarrow> u8 list \<Rightarrow> u32 \<Rightarrow> 'a scmi \<Rightarrow> bool" where
  "calls_null_handler env sid payload message_id s \<longleftrightarrow> message_id < MOD_SCMI_BASE_COMMAND_COUNT \<and>
    of_nat (length payload) = base_payload_size_table env ! unat message_id \<and> \<not> base_handler_present env message_id \<and>
    (has_mod_resource_perms env \<longrightarrow> scmi_base_permissions_handler env sid message_id s = Some FWK_SUCCESS)"

lemma handler_answers:
  assumes "base_served env sid s" "message_id < MOD_SCMI_BASE_COMMAND_COUNT" "length p < 2 ^ 32"
    and "of_nat (length p) = base_payload_size_table env ! unat message_id"
    and "base_handler_table env ! unat message_id = Some handler"
  shows "answered env sid s (handler sid p s)"
proof -
  obtain cfg where r: "service_ready sid s" "sm_config (scmi_ctx s) = Some cfg"
    using assms(1) by (auto simp: base_served_def split: option.splits)
  have len: "length p = unat (base_payload_size_table env ! unat message_id)"
    using assms(3) by (simp flip: assms(4) add: unat_of_nat)
  have version: "?thesis" if "handler = scmi_base_protocol_version_handler env"
    by (simp add: that scmi_base_protocol_version_handler_def short_answers r)
  have build: "?thesis" if "handler = scmi_base_discover_implementation_version_handler env"
    by (simp add: that scmi_base_discover_implementation_version_handler_def short_answers r)
  have vendor: "?thesis" if "handler = scmi_base_discover_vendor_handler env \<or> handler = scmi_base_discover_sub_vendor_handler env"
    using that by (auto simp: scmi_base_discover_vendor_handler_def scmi_base_discover_sub_vendor_handler_def short_answers r)
  have attributes: "?thesis" if "handler = scmi_base_protocol_message_attributes_handler env" "length p = 4"
    by (simp add: that scmi_base_protocol_message_attributes_handler_def payload_word short_answers r)
  have "message_id \<in> {0, 1, 2, 3, 4, 5, 6, 7, 8, 9, 10, 11}" using base_message_ids [OF assms(2)] .
  then consider "message_id \<in> {0, 1, 3, 4, 5}" | "message_id \<in> {2, 6, 7}" | "message_id \<in> {8, 9, 10, 11}" by blast
  then show ?thesis
  proof cases
    case 1
    then show ?thesis using assms(5) version build vendor attributes_answers [OF assms(1)]
      by (auto simp: base_handler_table_def)
  next
    case 2
    then show ?thesis using assms(5) len attributes list_protocols_answers [OF assms(1)] discover_agent_answers [OF assms(1)]
      by (auto simp: base_handler_table_def base_payload_size_table_def)
  next
    case 3
    then show ?thesis using assms(5) len permission_handlers_answer [OF assms(1)]
      by (auto simp: base_handler_table_def base_payload_size_table_def split: if_splits)
  qed
qed

lemma base_message_answers:
  assumes "base_served env sid s" "length p < 2 ^ 32"
  shows "if calls_null_handler env sid p message_id s then scmi_base_message_handler env sid (Some p) message_id s = None
    else answered env sid s (scmi_base_message_handler env sid (Some p) message_id s)"
proof -
  have r: "service_ready sid s" using assms(1) by (simp add: base_served_def)
  have "permissions_return (env_res_plat env) (res_perms_state s)" if "has_mod_resource_perms env"
    using assms(1) that by (simp add: base_served_def)
  then have "has_mod_resource_perms env \<Longrightarrow> agent_message_permissions (env_res_plat env) (res_perms_state s) (agent_id_of sid s)
      MOD_SCMI_PROTOCOL_ID_BASE message_id \<noteq> None"
    unfolding permissions_return_def by blast
  then have "(if has_mod_resource_perms env then scmi_base_permissions_handler env sid message_id s else Some FWK_SUCCESS) \<noteq> None"
    by (auto simp: scmi_base_permissions_handler_def served_agent [OF assms(1)])
  then obtain permitted where perm: "(if has_mod_resource_perms env then scmi_base_permissions_handler env sid message_id s
      else Some FWK_SUCCESS) = Some permitted" by blast
  consider "message_id \<ge> MOD_SCMI_BASE_COMMAND_COUNT \<or> of_nat (length p) \<noteq> base_payload_size_table env ! unat message_id \<or>
      permitted \<noteq> FWK_SUCCESS"
    | "message_id < MOD_SCMI_BASE_COMMAND_COUNT" "of_nat (length p) = base_payload_size_table env ! unat message_id"
      "permitted = FWK_SUCCESS" "base_handler_table env ! unat message_id = None"
    | handler where "message_id < MOD_SCMI_BASE_COMMAND_COUNT" "of_nat (length p) = base_payload_size_table env ! unat message_id"
      "permitted = FWK_SUCCESS" "base_handler_table env ! unat message_id = Some handler"
    by (metis not_None_eq not_less)
  then show ?thesis
  proof cases
    case 1
    then have "\<not> calls_null_handler env sid p message_id s"
      using perm by (auto simp: calls_null_handler_def split: if_splits)
    then show ?thesis using 1 answers_status [OF r] perm by (auto simp: scmi_base_message_handler_def)
  next
    case 2
    then have "calls_null_handler env sid p message_id s"
      using perm base_table_entry [OF 2(1), of env] by (auto simp: calls_null_handler_def split: if_splits)
    then show ?thesis using 2 perm by (simp add: scmi_base_message_handler_def not_le [symmetric])
  next
    case 3
    then have "\<not> calls_null_handler env sid p message_id s"
      using base_table_entry [OF 3(1), of env] by (auto simp: calls_null_handler_def)
    then show ?thesis using 3 perm handler_answers [OF assms(1) 3(1) assms(2) 3(2,4)]
      by (simp add: scmi_base_message_handler_def not_le [symmetric])
  qed
qed

section \<open>Received messages\<close>

lemma upd_service_here:
  assumes "service_ctx sid s = Some ctx"
  obtains s1 where "upd_service sid f s = Some s1" "service_ctx sid s1 = Some (f ctx)" "scmi_calls s1 = scmi_calls s"
    "res_perms_state s1 = res_perms_state s" "fwk_module_get_element_name sid s1 = fwk_module_get_element_name sid s"
    "sm_config (scmi_ctx s1) = sm_config (scmi_ctx s)" "sm_protocol_count (scmi_ctx s1) = sm_protocol_count (scmi_ctx s)"
    "sm_scmi_protocol_id_to_idx (scmi_ctx s1) = sm_scmi_protocol_id_to_idx (scmi_ctx s)"
    "sm_protocol_table (scmi_ctx s1) = sm_protocol_table (scmi_ctx s)"
proof -
  obtain i where i: "fwk_id_get_element_idx sid = Some i" "unat i < length (sm_service_ctx_table (scmi_ctx s))"
    "ctx = sm_service_ctx_table (scmi_ctx s) ! unat i"
    using assms by (auto simp: service_ctx_def Let_def bind_eq_Some_conv split: if_splits)
  let ?s = "upd_scmi (\<lambda>c. c\<lparr>sm_service_ctx_table := (sm_service_ctx_table (scmi_ctx s))[unat i := f ctx]\<rparr>) s"
  have "fwk_module_get_element_name sid ?s = fwk_module_get_element_name sid s"
    by (simp add: upd_scmi_def fwk_module_get_element_name_def fwk_module_is_valid_element_id_def fwk_module_get_element_ctx_def
      fwk_module_get_ctx_def cong: if_cong)
  then show thesis using i by (intro that [of ?s]) (simp_all add: upd_service_def service_ctx_def upd_scmi_def Let_def)
qed

text \<open>The state after the header of a message has been stored.\<close>

definition store_header :: "u32 \<Rightarrow> scmi_service_ctx \<Rightarrow> scmi_service_ctx" where
  "store_header h c = c\<lparr>sv_scmi_protocol_id := ucast (read_protocol_id h), sv_scmi_message_id := ucast (read_message_id h),
    sv_scmi_message_type := read_message_type h, sv_scmi_token := read_token h\<rparr>"

lemma store_header_fields [simp]:
  "sv_config (store_header h c) = sv_config c" "sv_transport_api (store_header h c) = sv_transport_api c"
  "sv_respond (store_header h c) = sv_respond c" "sv_transport_id (store_header h c) = sv_transport_id c"
  "sv_scmi_message_type (store_header h c) = read_message_type h"
  "sv_scmi_message_id (store_header h c) = ucast (read_message_id h)"
  "sv_scmi_protocol_id (store_header h c) = ucast (read_protocol_id h)"
  by (simp_all add: store_header_def)

text \<open>A platform service of the base protocol: it is bound to its handler.\<close>

definition base_bound :: "fwk_id \<Rightarrow> 'a scmi \<Rightarrow> bool" where
  "base_bound sid s \<longleftrightarrow> length (sm_scmi_protocol_id_to_idx (scmi_ctx s)) = MOD_SCMI_PROTOCOL_ID_MAX + 1 \<and>
    sm_scmi_protocol_id_to_idx (scmi_ctx s) ! unat MOD_SCMI_PROTOCOL_ID_BASE = PROTOCOL_TABLE_BASE_PROTOCOL_IDX \<and>
    1 < length (sm_protocol_table (scmi_ctx s)) \<and>
    sm_protocol_table (scmi_ctx s) ! 1 = scmi_protocol_zero\<lparr>pr_message_handler := Some Base_message_handler\<rparr> \<and>
    (case service_ctx sid s of None \<Rightarrow> False | Some ctx \<Rightarrow> (case sv_config ctx of None \<Rightarrow> False
      | Some cfg \<Rightarrow> sc_scmi_entity_role cfg = MOD_SCMI_ROLE_PLATFORM))"

text \<open>Whether the agent of the service is refused the base protocol.\<close>

definition base_denied :: "('a scmi) scmi_env \<Rightarrow> fwk_id \<Rightarrow> 'a scmi \<Rightarrow> bool" where
  "base_denied env sid s \<longleftrightarrow> \<not> has_mod_resource_perms env \<and> psci_denied sid MOD_SCMI_PROTOCOL_ID_BASE s = Some (Inr True)"

text \<open>The messages that stop the platform: a null message handler, or the null notification handler of the base
  protocol.\<close>

definition stops_platform :: "('a scmi) scmi_env \<Rightarrow> fwk_id \<Rightarrow> u32 \<Rightarrow> u8 list \<Rightarrow> 'a scmi \<Rightarrow> bool" where
  "stops_platform env sid header payload s \<longleftrightarrow> read_message_type header \<noteq> 1 \<and> \<not> base_denied env sid s \<and>
    (if has_scmi_notifications env \<and> read_message_type header = MOD_SCMI_MESSAGE_TYPE_NOTIFICATION then True
     else calls_null_handler env sid payload (ucast (read_message_id header)) s)"

lemma message_type_range: "read_message_type h \<in> {0, 1, 2, 3}"
proof -
  let ?t = "read_message_type h"
  have "?t = ?t AND mask 2"
    by (rule bit_eqI) (auto simp: read_message_type_def header_defs field_masks bit_simps)
  also have "\<dots> \<le> mask 2" by (rule word_and_le1)
  finally have "unat ?t \<in> {..<4}" by (simp add: word_le_nat_alt mask_eq_exp_minus_1)
  moreover have "?t = word_of_nat (unat ?t)" by simp
  ultimately have "?t \<in> word_of_nat ` {..<4}" by blast
  also have "{..<4} = {0, 1, 2, 3 :: nat}" by auto
  finally show ?thesis by simp
qed

lemma message_type_valid:
  "is_message_type_valid (store_header h c) \<longleftrightarrow> read_message_type h \<noteq> 1"
  using message_type_range [of h]
  by (auto simp: is_message_type_valid_def MOD_SCMI_MESSAGE_TYPE_COMMAND_def MOD_SCMI_MESSAGE_TYPE_DELAYED_RESPONSE_def
      MOD_SCMI_MESSAGE_TYPE_NOTIFICATION_def)

lemma denied_returns:
  assumes "base_served env sid s" "\<not> has_mod_resource_perms env"
  shows "\<exists>d. psci_denied sid p s = Some (Inr d)"
proof -
  obtain cfg where cfg: "sm_config (scmi_ctx s) = Some cfg" "agent_known (agent_id_of sid s) s"
    using assms by (auto simp: base_served_def split: option.splits)
  obtain ty where ty: "get_agent_type (agent_id_of sid s) s = Some (FWK_SUCCESS, ty)"
    using known_agent_type [OF assms] .
  obtain d where "disabled_for_psci cfg p = Some d" using disabled_returns [OF cfg(2,1)] by blast
  then show ?thesis using cfg ty by (cases "ty = SCMI_AGENT_TYPE_PSCI") (auto simp: psci_denied_def served_agent [OF assms(1)])
qed

text \<open>The message handler of the base protocol, or the refusal of the message, once its header is stored.\<close>

lemma dispatch_base:
  assumes "base_served env sid s" "base_bound sid s" "service_ctx sid s = Some (store_header h c)"
    and "read_protocol_id h = ucast MOD_SCMI_PROTOCOL_ID_BASE" "length p < 2 ^ 32"
  shows "if stops_platform env sid h p s then dispatch_message env sid (Some p) s = None
    else \<exists>s'. dispatch_message env sid (Some p) s = Some (FWK_SUCCESS, s') \<and>
      answered env sid s (Some (FWK_SUCCESS, s'))"
proof -
  let ?c = "store_header h c" and ?ans = "answered env sid s"
  have r: "service_ready sid s" using assms(1) by (simp add: base_served_def)
  then obtain cfg where cfg: "sv_config c = Some cfg" "sv_respond c" "transport_of sid s = sv_transport_id c"
    using assms(3) by (auto simp: service_ready_def transport_of_def)
  have role: "sc_scmi_entity_role cfg = MOD_SCMI_ROLE_PLATFORM" using assms(2,3) cfg by (simp add: base_bound_def)
  have proto: "(ucast (read_protocol_id h) :: u32) = MOD_SCMI_PROTOCOL_ID_BASE"
    by (simp add: assms(4) MOD_SCMI_PROTOCOL_ID_BASE_def)
  have answer: "\<exists>s'. ctx_respond env ?c (status_bytes x) s = Some (tr_status env (scmi_calls s @ [Respond (transport_of sid s)
      (status_bytes x)]), s') \<and> ?ans (Some (FWK_SUCCESS, s'))" for x
    using cfg by (simp add: ctx_respond_def call_transport answers_once_def)
  have platform: "protocol_of_platform env sid MOD_SCMI_PROTOCOL_ID_BASE s = Some (if base_denied env sid s
      then Inl (Some SCMI_DENIED, FWK_SUCCESS) else Inr (scmi_protocol_zero\<lparr>pr_message_handler := Some Base_message_handler\<rparr>))"
    using assms(2) denied_returns [OF assms(1), of MOD_SCMI_PROTOCOL_ID_BASE]
    by (auto simp: base_bound_def protocol_of_platform_def base_denied_def Let_def PROTOCOL_TABLE_BASE_PROTOCOL_IDX_def
        MOD_SCMI_PROTOCOL_ID_BASE_def MOD_SCMI_PROTOCOL_ID_MAX_def split: bool.splits)
  consider "read_message_type h = 1" | "read_message_type h \<noteq> 1" "base_denied env sid s"
    | "read_message_type h \<noteq> 1" "\<not> base_denied env sid s" by blast
  then show ?thesis
  proof cases
    case 1
    then show ?thesis using answer [of SCMI_PROTOCOL_ERROR] assms(3)
      by (auto simp: dispatch_message_def message_type_valid stops_platform_def)
  next
    case 2
    then show ?thesis using answer [of SCMI_DENIED] assms(3) cfg
      by (auto simp: dispatch_message_def message_type_valid stops_platform_def role proto platform)
  next
    case 3
    have call: "send_to_message_handler env ?c (scmi_protocol_zero\<lparr>pr_message_handler := Some Base_message_handler\<rparr>) (Some p) sid s =
        (if has_scmi_notifications env \<and> read_message_type h = MOD_SCMI_MESSAGE_TYPE_NOTIFICATION then None
         else scmi_base_message_handler env sid (Some p) (ucast (read_message_id h)) s)"
      by (simp add: send_to_message_handler_def call_notification_handler_def call_handler_def scmi_protocol_zero_def)
    have dispatch: "dispatch_message env sid (Some p) s = do {
        (_, s') \<leftarrow> send_to_message_handler env ?c (scmi_protocol_zero\<lparr>pr_message_handler := Some Base_message_handler\<rparr>) (Some p) sid s;
        Some (FWK_SUCCESS, s') }"
      using 3 assms(3) cfg by (simp add: dispatch_message_def message_type_valid role proto platform)
    show ?thesis
      using base_message_answers [OF assms(1,5), of "ucast (read_message_id h)"] 3
      by (auto simp: dispatch call stops_platform_def answers_once_def split: option.splits if_splits)
  qed
qed

lemma base_event_answers:
  assumes "base_served env (ev_target_id event) s" "base_bound (ev_target_id event) s"
    and "tr_get_message_header env (transport_of (ev_target_id event) s) (scmi_calls s) = (FWK_SUCCESS, h)"
    and "tr_get_payload env (transport_of (ev_target_id event) s) (scmi_calls s) = (FWK_SUCCESS, Some p)"
    and "read_protocol_id h = ucast MOD_SCMI_PROTOCOL_ID_BASE" "length p < 2 ^ 32"
  shows "if stops_platform env (ev_target_id event) h p s then scmi_process_event env event resp s = None
    else \<exists>s'. scmi_process_event env event resp s = Some ((FWK_SUCCESS, resp), s') \<and>
      answered env (ev_target_id event) s (Some (FWK_SUCCESS, s'))"
proof -
  let ?sid = "ev_target_id event"
  obtain ctx api where c: "service_ctx ?sid s = Some ctx" "sv_transport_api ctx = Some api" "transport_of ?sid s = sv_transport_id ctx"
    using assms(1) by (auto simp: base_served_def service_ready_def transport_of_def split: option.splits)
  obtain name where name: "fwk_module_get_element_name ?sid s = Some name"
    using assms(1) by (auto simp: base_served_def service_ready_def)
  obtain s1 where s1: "upd_service ?sid (store_header h) s = Some s1" "service_ctx ?sid s1 = Some (store_header h ctx)"
      "scmi_calls s1 = scmi_calls s" "res_perms_state s1 = res_perms_state s"
      "fwk_module_get_element_name ?sid s1 = fwk_module_get_element_name ?sid s"
      "sm_config (scmi_ctx s1) = sm_config (scmi_ctx s)" "sm_protocol_count (scmi_ctx s1) = sm_protocol_count (scmi_ctx s)"
      "sm_scmi_protocol_id_to_idx (scmi_ctx s1) = sm_scmi_protocol_id_to_idx (scmi_ctx s)"
      "sm_protocol_table (scmi_ctx s1) = sm_protocol_table (scmi_ctx s)"
    by (rule upd_service_here [OF c(1), of "store_header h"])
  have agent: "agent_id_of ?sid s1 = agent_id_of ?sid s" by (simp add: agent_id_of_def c(1) s1(2))
  have known: "agent_known a s1 = agent_known a s" "get_agent_type a s1 = get_agent_type a s" for a
    by (simp_all add: agent_known_def get_agent_type_def s1 cong: option.case_cong)
  have ids: "get_agent_id ?sid s1 = get_agent_id ?sid s" by (simp add: get_agent_id_def c(1) s1(2))
  have "service_ready ?sid s1 = service_ready ?sid s" by (simp add: service_ready_def c(1) s1)
  then have served: "base_served env ?sid s1" using assms(1) by (simp add: base_served_def s1 agent known)
  have bound: "base_bound ?sid s1" using assms(2) by (simp add: base_bound_def c(1) s1)
  have "psci_denied ?sid MOD_SCMI_PROTOCOL_ID_BASE s1 = psci_denied ?sid MOD_SCMI_PROTOCOL_ID_BASE s"
    by (simp add: psci_denied_def ids known s1 cong: if_cong Option.bind_cong)
  then have stops: "stops_platform env ?sid h p s1 = stops_platform env ?sid h p s"
    by (simp add: stops_platform_def base_denied_def calls_null_handler_def scmi_base_permissions_handler_def ids s1(4)
        cong: if_cong Option.bind_cong)
  have tid: "transport_of ?sid s1 = transport_of ?sid s" by (simp add: transport_of_def c(1) s1(2))
  then have room: "payload_room env ?sid s1 = payload_room env ?sid s" by (simp add: payload_room_def s1(3))
  have "scmi_process_event env event resp s = do { (status, s) \<leftarrow> dispatch_message env ?sid (Some p) s1; Some ((status, resp), s) }"
    using assms(3,4) s1(1) unfolding store_header_def c(3) by (simp add: scmi_process_event_def c name)
  then show ?thesis
    using dispatch_base [OF served bound s1(2) assms(5,6)] unfolding stops tid room s1(3) by (auto split: if_splits)
qed

end
