(* ===== verification/Scmi_Discovery.thy ===== *)
theory Scmi_Discovery
  imports Scmi_Answers
begin

unbundle bit_operations_syntax

text \<open>
  The discovery of protocols: what an agent reads page by page with \<open>BASE_DISCOVER_LIST_PROTOCOLS\<close> and what
  \<open>PROTOCOL_ATTRIBUTES\<close> counts are the bound protocols its permissions allow.
\<close>

section \<open>What the agent receives\<close>

text \<open>The payload of the answer, when \<open>buf\<close> is what the buffer of the transport held before.\<close>

fun deliver :: "u8 list \<Rightarrow> scmi_call list \<Rightarrow> u8 list option" where
  "deliver buf [] = None"
| "deliver buf (Write_payload t off bytes # cs) =
    deliver (take (unat off) buf @ bytes @ drop (unat off + length bytes) buf) cs"
| "deliver buf (Respond t bytes # cs) = Some bytes"
| "deliver buf (Respond_written t sz # cs) = Some (take (unat sz) buf)"
| "deliver buf (_ # cs) = deliver buf cs"

definition read_protocols :: "u8 list \<Rightarrow> nat list option" where
  "read_protocols reply = do {
    status \<leftarrow> payload_get32 0 reply;
    fwk_assert (status = 0);
    n \<leftarrow> payload_get32 4 reply;
    Some (map unat (take (unat n) (drop 8 reply))) }"

text \<open>One message of the agent, and the messages that read the whole list; \<open>old\<close> is the payload of the transport.\<close>

definition read_page :: "('a scmi) scmi_env \<Rightarrow> fwk_id \<Rightarrow> u8 list \<Rightarrow> nat \<Rightarrow> 'a scmi \<Rightarrow> (nat list \<times> 'a scmi) option" where
  "read_page env sid old skip s = do {
    (_, s') \<leftarrow> scmi_base_discover_list_protocols_handler env sid (le32 (of_nat skip)) s;
    reply \<leftarrow> deliver old (drop (length (scmi_calls s)) (scmi_calls s'));
    ids \<leftarrow> read_protocols reply;
    Some (ids, s') }"

fun read_pages :: "('a scmi) scmi_env \<Rightarrow> fwk_id \<Rightarrow> u8 list \<Rightarrow> nat \<Rightarrow> nat list \<Rightarrow> 'a scmi \<Rightarrow> (nat list \<times> 'a scmi) option" where
  "read_pages env sid old 0 ids s = Some (ids, s)"
| "read_pages env sid old (Suc n) ids s = do {
    (page, s) \<leftarrow> read_page env sid old (length ids) s;
    read_pages env sid old n (ids @ page) s }"

text \<open>The protocols of an agent: bound, not the base protocol, and allowed.\<close>

definition protocol_bound :: "'a scmi \<Rightarrow> nat \<Rightarrow> bool" where
  "protocol_bound s i \<longleftrightarrow> sm_scmi_protocol_id_to_idx (scmi_ctx s) ! i \<noteq> 0 \<and> (of_nat i :: u32) \<noteq> MOD_SCMI_PROTOCOL_ID_BASE"

definition agent_protocols :: "('a scmi) scmi_env \<Rightarrow> fwk_id \<Rightarrow> 'a scmi \<Rightarrow> nat list" where
  "agent_protocols env sid s = filter (\<lambda>i. protocol_bound s i \<and>
      agent_protocol_permissions (env_res_plat env) (res_perms_state s) (agent_id_of sid s) (of_nat i) = Some MOD_RES_PERMS_ACCESS_ALLOWED)
    [0..<MOD_SCMI_PROTOCOL_ID_MAX + 1]"

text \<open>The number of bound protocols is the counter of the module, as binding leaves it.\<close>

definition protocols_counted :: "'a scmi \<Rightarrow> bool" where
  "protocols_counted s \<longleftrightarrow> unat (sm_protocol_count (scmi_ctx s)) = length (filter (protocol_bound s) [0..<MOD_SCMI_PROTOCOL_ID_MAX + 1])"

section \<open>The loop\<close>

fun page_writes :: "fwk_id \<Rightarrow> nat \<Rightarrow> nat list \<Rightarrow> scmi_call list" where
  "page_writes t off [] = []"
| "page_writes t off (i # is) = Write_payload t (of_nat off) [of_nat i] # page_writes t (Suc off) is"

lemma list_loop_writes:
  assumes "service_ready sid s" "\<And>cs. tr_status env cs = FWK_SUCCESS"
    and "\<And>i cs. hidden (of_nat i) (logged cs s) = Some (hid i)" "n \<le> n_max"
  shows "list_protocols_loop env sid hidden skip n_max indices (n, sz, avail) s =
    (let vs = take (n_max - n) (filter (\<lambda>i. protocol_bound s i \<and> \<not> hid i) indices); page = drop (skip - n) vs in
      Some (FWK_SUCCESS, (n + length vs, sz + length page, avail + length page), logged (page_writes (transport_of sid s) sz page) s))"
  using assms
proof (induction indices arbitrary: n sz avail s)
  case Nil
  then show ?case by simp
next
  case (Cons i indices)
  have h: "hidden (word_of_nat i) s = Some (hid i)" using Cons.prems(3) [of i "[]"] by simp
  consider (stop) "n = n_max" | (skip) "n < n_max" "\<not> (protocol_bound s i \<and> \<not> hid i)"
    | (seen) "n < n_max" "protocol_bound s i" "\<not> hid i" "n + 1 \<le> skip" | (put) "n < n_max" "protocol_bound s i" "\<not> hid i" "skip \<le> n"
    using Cons.prems(4) by linarith
  then show ?case
  proof cases
    case stop
    then show ?thesis by simp
  next
    case skip
    then show ?thesis using Cons.IH [OF Cons.prems] h by (auto simp: protocol_bound_def)
  next
    case seen
    have "n_max - n = Suc (n_max - Suc n)" "skip - n = Suc (skip - Suc n)" using seen by simp_all
    then show ?thesis using Cons.IH [OF Cons.prems(1-3), of "Suc n"] seen h
      by (auto simp: protocol_bound_def Let_def)
  next
    case put
    let ?c = "Write_payload (transport_of sid s) (word_of_nat sz) [word_of_nat i]"
    have wr: "write_payload env sid (word_of_nat sz) [word_of_nat i] s = Some (FWK_SUCCESS, logged [?c] s)"
      using ready_write [OF Cons.prems(1)] Cons.prems(2) by (simp add: call_transport)
    have r: "service_ready sid (logged [?c] s)" "\<And>i cs. hidden (of_nat i) (logged cs (logged [?c] s)) = Some (hid i)"
      using Cons.prems(1) Cons.prems(3) by simp_all
    have "n_max - n = Suc (n_max - Suc n)" using put by simp
    moreover have "protocol_bound (logged [?c] s) = protocol_bound s" by (simp add: protocol_bound_def fun_eq_iff)
    ultimately show ?thesis using Cons.IH [OF r(1) Cons.prems(2) r(2), of "Suc n" "Suc sz" "Suc avail"] put h wr
      by (auto simp: protocol_bound_def Let_def)
  qed
qed

section \<open>Pages\<close>

lemma get32_le32:
  "payload_get32 0 (le32 w @ rest) = Some w" "payload_get32 4 (le32 v @ le32 w @ rest) = Some w" "payload_get32 0 (le32 w) = Some w"
  by (simp_all add: payload_get32_def le32_def params_get32_def bytes_of_u32 nth_append)

lemma deliver_page:
  assumes "off + length ids \<le> length buf" "length buf < 2 ^ 32"
  shows "deliver buf (page_writes t off ids @ cs) = deliver (take off buf @ map of_nat ids @ drop (off + length ids) buf) cs"
  using assms
proof (induction ids arbitrary: off buf)
  case (Cons i ids)
  let ?buf = "take off buf @ [of_nat i] @ drop (off + 1) buf"
  have off: "unat (word_of_nat off :: u32) = off" using Cons.prems by (simp add: unat_of_nat)
  have "deliver buf (page_writes t off (i # ids) @ cs) = deliver ?buf (page_writes t (Suc off) ids @ cs)"
    by (simp add: off)
  also have "\<dots> = deliver (take (Suc off) ?buf @ map of_nat ids @ drop (Suc off + length ids) ?buf) cs"
    using Cons.prems by (intro Cons.IH) simp_all
  also have "take (Suc off) ?buf @ map of_nat ids @ drop (Suc off + length ids) ?buf =
      take off buf @ map of_nat (i # ids) @ drop (off + length (i # ids)) buf"
    using Cons.prems by (simp add: Suc_diff_le add.commute)
  finally show ?case .
qed simp

lemma deliver_reply:
  assumes "length hdr = 8" "8 + length ids \<le> n" "n \<le> length old" "length old < 2 ^ 32"
  shows "deliver old (page_writes t 8 ids @ [Write_payload t 0 hdr, Respond_written t (of_nat n)]) =
    Some (hdr @ map of_nat ids @ take (n - (8 + length ids)) (drop (8 + length ids) old))"
proof -
  have "unat (of_nat n :: u32) = n" using assms(3,4) by (simp add: unat_of_nat)
  moreover have "min (length old) 8 = 8" using assms(2,3) by simp
  moreover have "deliver old (page_writes t 8 ids @ cs) = deliver (take 8 old @ map of_nat ids @ drop (8 + length ids) old) cs" for cs
    using assms by (intro deliver_page) simp_all
  ultimately show ?thesis using assms(1,2) by simp
qed

lemma read_page_reply:
  assumes "list_all (\<lambda>i. i < 256) ids" "length ids < 2 ^ 32"
  shows "read_protocols (status_bytes SCMI_SUCCESS @ le32 (of_nat (length ids)) @ map of_nat ids @ pad) = Some ids"
proof -
  have "unat (of_nat i :: u8) = i" if "i \<in> set ids" for i
    using assms(1) that by (simp add: list_all_iff unat_of_nat)
  then have ids: "map (unat \<circ> (of_nat :: nat \<Rightarrow> u8)) ids = ids" by (simp add: map_idI)
  have "unat (word_of_nat (length ids) :: u32) = length ids" using assms(2) by (simp add: unat_of_nat)
  moreover have "status_bytes SCMI_SUCCESS = le32 0" by (simp add: status_bytes_def SCMI_SUCCESS_def)
  moreover have "drop 8 (le32 v @ le32 w @ rest) = rest" for v w rest by (simp add: le32_def)
  ultimately show ?thesis by (simp add: read_protocols_def get32_le32 ids)
qed

lemma protocols_bounded: "list_all (\<lambda>i. i < 256) (agent_protocols env sid s)" "length (agent_protocols env sid s) \<le> 256"
  using length_filter_le [of _ "[0..<MOD_SCMI_PROTOCOL_ID_MAX + 1]"]
  by (auto simp: agent_protocols_def list_all_iff MOD_SCMI_PROTOCOL_ID_MAX_def)

lemma protocols_at_most_counted:
  assumes "protocols_counted s"
  shows "length (agent_protocols env sid s) \<le> unat (sm_protocol_count (scmi_ctx s))"
proof -
  let ?P = "\<lambda>i. agent_protocol_permissions (env_res_plat env) (res_perms_state s) (agent_id_of sid s) (of_nat i) = Some MOD_RES_PERMS_ACCESS_ALLOWED"
  have "agent_protocols env sid s = filter ?P (filter (protocol_bound s) [0..<MOD_SCMI_PROTOCOL_ID_MAX + 1])"
    by (simp add: agent_protocols_def conj_commute)
  then show ?thesis using assms by (metis protocols_counted_def length_filter_le)
qed

lemma aligned_size:
  assumes "4 dvd m" "k \<le> m"
  shows "k \<le> (k + 3) div 4 * 4" "(k + 3) div 4 * 4 \<le> (m :: nat)"
  using assms by auto

text \<open>The transport accepts the writes; its payload has room for the fixed part and is a multiple of a word.\<close>

definition pages_writable :: "('a scmi) scmi_env \<Rightarrow> fwk_id \<Rightarrow> u32 \<Rightarrow> 'a scmi \<Rightarrow> bool" where
  "pages_writable env sid payload_max s \<longleftrightarrow> (\<forall>cs. tr_status env cs = FWK_SUCCESS) \<and>
    (\<forall>cs. tr_get_max_payload_size env (transport_of sid s) cs = (FWK_SUCCESS, payload_max)) \<and>
    12 \<le> unat payload_max \<and> 4 dvd unat payload_max \<and> unat payload_max < 2 ^ 31"

lemma read_page_correct:
  assumes "base_served env sid s" "has_mod_resource_perms env" "pages_writable env sid payload_max s" "protocols_counted s"
    and "length old = unat payload_max" "skip \<le> length (agent_protocols env sid s)"
  shows "\<exists>cs. read_page env sid old skip s = Some (take (unat payload_max - 8) (drop skip (agent_protocols env sid s)), logged cs s)"
proof -
  let ?V = "agent_protocols env sid s" and ?e = "unat payload_max - 8"
  let ?perms = "agent_protocol_permissions (env_res_plat env) (res_perms_state s) (agent_id_of sid s)"
  obtain cfg where r: "service_ready sid s" "sm_config (scmi_ctx s) = Some cfg"
    using assms(1) by (auto simp: base_served_def split: option.splits)
  have tr: "\<And>cs. tr_status env cs = FWK_SUCCESS" "12 \<le> unat payload_max" "4 dvd unat payload_max" "unat payload_max < 2147483648"
      "\<And>cs. tr_get_max_payload_size env (transport_of sid s) cs = (FWK_SUCCESS, payload_max)"
    using assms(3) by (simp_all add: pages_writable_def)
  have skip: "skip \<le> 256" using assms(6) protocols_bounded(2) [of env sid s] by linarith
  have words: "unat (of_nat skip :: u32) = skip" "unat (payload_max - list_protocols_p2a_size) = ?e"
      "unat list_protocols_p2a_size = 8" "\<not> payload_max < list_protocols_p2a_size + 4"
    using tr(2) skip by (simp_all add: unat_of_nat list_protocols_p2a_size_def word_less_nat_alt unat_sub word_le_nat_alt)
  have count: "unat (protocol_count_max (sm_protocol_count (scmi_ctx s)) (of_nat skip) (payload_max - list_protocols_p2a_size))
      = min (unat (sm_protocol_count (scmi_ctx s))) (skip + ?e)"
  proof -
    have "unat (of_nat skip + (payload_max - list_protocols_p2a_size)) = skip + ?e"
      using words skip tr(4) by (subst unat_plus_simple [THEN iffD1]) (simp_all add: no_olen_add_nat)
    then show ?thesis by (simp add: protocol_count_max_def word_less_nat_alt min_def)
  qed
  let ?hid = "\<lambda>i. ?perms (of_nat i) \<noteq> Some MOD_RES_PERMS_ACCESS_ALLOWED"
  have hid: "protocol_hidden env cfg (agent_id_of sid s) 0 (of_nat i) (logged cs s) = Some (?hid i)" for i cs
  proof -
    have "permissions_return (env_res_plat env) (res_perms_state s)" using assms(1,2) by (simp add: base_served_def)
    then obtain x where "?perms (of_nat i) = Some x" unfolding permissions_return_def by blast
    then show ?thesis using assms(2) by (cases x) (simp_all add: protocol_hidden_def)
  qed
  let ?n = "min (unat (sm_protocol_count (scmi_ctx s))) (skip + ?e)" and ?page = "take ?e (drop skip ?V)"
  have V: "filter (\<lambda>i. protocol_bound s i \<and> \<not> ?hid i) [0..<MOD_SCMI_PROTOCOL_ID_MAX + 1] = ?V"
    by (simp add: agent_protocols_def)
  have vs: "take (?n - 0) ?V = take (skip + ?e) ?V"
    using protocols_at_most_counted [OF assms(4), of env sid] by (auto simp: min_def)
  have page: "drop (skip - 0) (take (skip + ?e) ?V) = ?page" by (simp add: take_drop add.commute)
  have loop: "list_protocols_loop env sid (protocol_hidden env cfg (agent_id_of sid s) 0) skip ?n [0..<MOD_SCMI_PROTOCOL_ID_MAX + 1]
      (0, 8, 0) s = Some (FWK_SUCCESS, (length (take (skip + ?e) ?V), 8 + length ?page, length ?page),
        logged (page_writes (transport_of sid s) 8 ?page) s)"
    using list_loop_writes [where hidden = "protocol_hidden env cfg (agent_id_of sid s) 0" and hid = ?hid and s = s and env = env
        and n = 0 and n_max = ?n and skip = skip and indices = "[0..<MOD_SCMI_PROTOCOL_ID_MAX + 1]" and sz = 8 and avail = 0, OF r(1) tr(1) hid]
    unfolding V vs Let_def page by simp
  let ?t = "transport_of sid s" and ?hdr = "status_bytes SCMI_SUCCESS @ le32 (of_nat (length ?page))"
  let ?A = "(8 + length ?page + 3) div 4 * 4"
  let ?calls = "page_writes ?t 8 ?page @ [Write_payload ?t 0 ?hdr, Respond_written ?t (of_nat ?A)]"
  have ready: "service_ready sid (logged cs s)" for cs using r(1) by simp
  have put: "write_payload env sid off bytes (logged cs s) = Some (FWK_SUCCESS, logged (cs @ [Write_payload ?t off bytes]) s)" for off bytes cs
    using ready_write [OF ready] by (simp add: call_transport tr(1))
  have answer: "respond env sid None sz (logged cs s) = Some (FWK_SUCCESS, logged (cs @ [Respond_written ?t sz]) s)" for sz cs
    using ready_respond_written [OF ready] by (simp add: call_transport tr(1))
  have size: "get_max_payload_size env sid s = Some (FWK_SUCCESS, payload_max)"
    using r(1) tr(5) by (auto simp: get_max_payload_size_def service_ready_def transport_of_def split: option.splits)
  have n: "\<not> skip > length (take (skip + ?e) ?V)" using assms(6) by simp
  have handler: "scmi_base_discover_list_protocols_handler env sid (le32 (of_nat skip)) s = Some (FWK_SUCCESS, logged ?calls s)"
    unfolding scmi_base_discover_list_protocols_handler_def served_agent [OF assms(1)]
    by (simp only: Option.bind.simps prod.case simp_thms if_False if_True assms(2) Let_def size r(2) get32_le32 words count loop n put answer
        append_assoc append.simps)
  have len: "8 + length ?page \<le> length old" using tr(2) assms(5) by simp
  have A: "8 + length ?page \<le> ?A" "?A \<le> length old" using aligned_size [OF tr(3), of "8 + length ?page"] len assms(5) by simp_all
  have "deliver old ?calls = Some (?hdr @ map of_nat ?page @ take (?A - (8 + length ?page)) (drop (8 + length ?page) old))"
    using assms(5) tr(4) by (intro deliver_reply A) simp_all
  moreover have "list_all (\<lambda>i. i < 256) ?page"
    using protocols_bounded(1) [of env sid s] by (auto simp: list_all_iff dest: in_set_takeD in_set_dropD)
  ultimately show ?thesis
    using read_page_reply [of ?page] len assms(5) tr(4)
    by (intro exI [of _ ?calls]) (simp add: read_page_def handler del: page_writes.simps)
qed


section \<open>The whole list\<close>

lemma logged_unchanged [simp]:
  "agent_protocols env sid (logged cs s) = agent_protocols env sid s"
  "pages_writable env sid payload_max (logged cs s) = pages_writable env sid payload_max s"
  "protocols_counted (logged cs s) = protocols_counted s" "agent_id_of sid (logged cs s) = agent_id_of sid s"
proof -
  have "protocol_bound (logged cs s) = protocol_bound s" by (simp add: protocol_bound_def fun_eq_iff)
  then show "agent_protocols env sid (logged cs s) = agent_protocols env sid s" "protocols_counted (logged cs s) = protocols_counted s"
    by (simp_all only: agent_protocols_def protocols_counted_def logged_fields agent_id_of_def logged_service)
qed (simp_all add: pages_writable_def agent_id_of_def)

lemma logged_served [simp]: "base_served env sid (logged cs s) = base_served env sid s"
  by (simp add: base_served_def agent_known_def cong: option.case_cong)

lemma read_pages_correct:
  assumes "base_served env sid s" "has_mod_resource_perms env" "pages_writable env sid payload_max s" "protocols_counted s"
    and "length old = unat payload_max" "k \<le> length (agent_protocols env sid s)"
    and "length (agent_protocols env sid s) \<le> k + n * (unat payload_max - 8)"
  shows "\<exists>cs. read_pages env sid old n (take k (agent_protocols env sid s)) s = Some (agent_protocols env sid s, logged cs s)"
  using assms
proof (induction n arbitrary: k s)
  case 0
  then show ?case by (intro exI [of _ "[]"]) simp
next
  case (Suc n)
  let ?V = "agent_protocols env sid s" and ?e = "unat payload_max - 8"
  have k: "length (take k ?V) = k" using Suc.prems(6) by simp
  obtain cs where page: "read_page env sid old k s = Some (take ?e (drop k ?V), logged cs s)"
    using read_page_correct [OF Suc.prems(1-6)] by blast
  let ?k = "min (k + ?e) (length ?V)"
  have more: "take k ?V @ take ?e (drop k ?V) = take ?k ?V" by (simp add: take_add [symmetric] min_def)
  have "\<exists>ds. read_pages env sid old n (take ?k ?V) (logged cs s) = Some (?V, logged ds (logged cs s))"
    using Suc.IH [of "logged cs s" ?k] Suc.prems by (simp add: min_def)
  then obtain ds where "read_pages env sid old n (take ?k ?V) (logged cs s) = Some (?V, logged (cs @ ds) s)" by auto
  then show ?case by (intro exI [of _ "cs @ ds"]) (simp only: read_pages.simps k page Option.bind.simps prod.case more)
qed

text \<open>What \<open>PROTOCOL_ATTRIBUTES\<close> counts.\<close>

lemma count_protocols_bound:
  assumes "permissions_return (env_res_plat env) (res_perms_state s)"
    and "unat (sm_protocol_count (scmi_ctx s)) \<ge> snd counted + length (filter (protocol_bound s) indices)"
  shows "count_protocols env a s indices counted = Some (fst counted + length (filter (\<lambda>i. protocol_bound s i \<and>
    agent_protocol_permissions (env_res_plat env) (res_perms_state s) a (of_nat i) = Some MOD_RES_PERMS_ACCESS_ALLOWED) indices))"
  using assms(2)
proof (induction indices arbitrary: counted)
  case (Cons i indices)
  let ?perms = "agent_protocol_permissions (env_res_plat env) (res_perms_state s) a"
  obtain perms where p: "?perms (of_nat i) = Some perms"
    using assms(1) unfolding permissions_return_def by blast
  show ?case
  proof (cases "snd counted < unat (sm_protocol_count (scmi_ctx s))")
    case True
    then show ?thesis using Cons.IH [of counted] Cons.IH [of "(Suc (fst counted), Suc (snd counted))"]
        Cons.IH [of "(fst counted, Suc (snd counted))"] Cons.prems p
      by (auto simp: protocol_bound_def)
  next
    case False
    then have "filter (protocol_bound s) (i # indices) = []" using Cons.prems by (cases "filter (protocol_bound s) (i # indices)") simp_all
    then have "filter (\<lambda>i. protocol_bound s i \<and> ?perms (of_nat i) = Some MOD_RES_PERMS_ACCESS_ALLOWED) (i # indices) = []"
      unfolding filter_empty_conv by blast
    then show ?thesis using False by simp
  qed
qed simp

text \<open>The agent reads the number of protocols and of agents from the second word of the answer.\<close>

lemma attributes_count:
  assumes "base_served env sid s" "has_mod_resource_perms env" "protocols_counted s" "sm_config (scmi_ctx s) = Some cfg"
  shows "\<exists>status. scmi_base_protocol_attributes_handler env sid p s = Some (status, logged [Respond (transport_of sid s)
    (status_bytes SCMI_SUCCESS @ le32 (SCMI_BASE_PROTOCOL_ATTRIBUTES (of_nat (length (agent_protocols env sid s))) (cf_agent_count cfg)))] s)"
proof -
  have r: "service_ready sid s" "permissions_return (env_res_plat env) (res_perms_state s)"
    using assms(1,2) by (simp_all add: base_served_def)
  have "count_protocols env (agent_id_of sid s) s [0..<MOD_SCMI_PROTOCOL_ID_MAX + 1] (0, 0) = Some (length (agent_protocols env sid s))"
    using count_protocols_bound [where counted = "(0, 0)" and indices = "[0..<MOD_SCMI_PROTOCOL_ID_MAX + 1]" and a = "agent_id_of sid s", OF r(2)] assms(3)
    by (simp only: protocols_counted_def agent_protocols_def fst_conv snd_conv add_0 order_refl)
  then show ?thesis using assms(2,4) ready_respond [OF r(1)]
    by (simp add: scmi_base_protocol_attributes_handler_def served_agent [OF assms(1)] call_transport)
qed

lemma attributes_fields:
  "SCMI_BASE_PROTOCOL_ATTRIBUTES protocols agents AND 0xFF = take_bit 8 protocols"
  "drop_bit 8 (SCMI_BASE_PROTOCOL_ATTRIBUTES protocols agents) AND 0xFF = take_bit 8 agents"
proof -
  have m: "(0xFF00 :: u32) = push_bit 8 (mask 8)" by (simp add: mask_eq_exp_minus_1)
  show "SCMI_BASE_PROTOCOL_ATTRIBUTES protocols agents AND 0xFF = take_bit 8 protocols"
    "drop_bit 8 (SCMI_BASE_PROTOCOL_ATTRIBUTES protocols agents) AND 0xFF = take_bit 8 agents"
    by (rule bit_eqI; auto simp: SCMI_BASE_PROTOCOL_ATTRIBUTES_def field_masks m bit_simps)+
qed

lemma protocols_fit:
  "length (agent_protocols env sid s) < 256"
proof -
  have "16 \<in> set [0..<MOD_SCMI_PROTOCOL_ID_MAX + 1]" "\<not> protocol_bound s 16"
    by (simp_all add: MOD_SCMI_PROTOCOL_ID_MAX_def protocol_bound_def MOD_SCMI_PROTOCOL_ID_BASE_def)
  then have "length (agent_protocols env sid s) < length [0..<MOD_SCMI_PROTOCOL_ID_MAX + 1]"
    unfolding agent_protocols_def by (intro length_filter_less [where x = 16]) simp_all
  then show ?thesis by (simp add: MOD_SCMI_PROTOCOL_ID_MAX_def)
qed

lemma attributes_protocols:
  "unat (SCMI_BASE_PROTOCOL_ATTRIBUTES (of_nat (length (agent_protocols env sid s))) agents AND 0xFF) = length (agent_protocols env sid s)"
  using protocols_fit [of env sid s] by (simp add: attributes_fields unsigned_take_bit_eq unat_of_nat take_bit_nat_eq_self_iff)

end
