(* ===== verification/Tp_Channel.thy ===== *)
theory Tp_Channel
  imports Tp_Module Scmi_Discovery
begin

unbundle bit_operations_syntax

text \<open>
  Channels with a shared mailbox: the invariant of their buffers, an incoming message against a reference, and the
  answer a service writes through the transport.
\<close>

section \<open>States\<close>

definition with_channel :: "fwk_id \<Rightarrow> transport_channel_ctx \<Rightarrow> 'a tp \<Rightarrow> 'a tp" where
  "with_channel c x s = s\<lparr>tp_channel_ctx_table := (tp_channel_ctx_table s)[unat (element_element_idx c) := x]\<rparr>"

definition with_mailbox :: "addr \<Rightarrow> mod_transport_buffer \<Rightarrow> 'a tp \<Rightarrow> 'a tp" where
  "with_mailbox a m s = s\<lparr>tp_mailboxes := (tp_mailboxes s)(a := Some m)\<rparr>"

lemma upd_channel_some: "channel_ctx c s = Some ctx \<Longrightarrow> upd_channel c f s = Some (with_channel c (f ctx) s)"
  by (auto simp: channel_ctx_def upd_channel_def with_channel_def fwk_id_get_element_idx_def split: if_splits)

lemma upd_channel_none: "channel_ctx c s = None \<Longrightarrow> upd_channel c f s = None"
  by (auto simp: channel_ctx_def upd_channel_def fwk_id_get_element_idx_def split: if_splits)

lemma put_write_buffer: "channel_ctx c s = Some ctx \<Longrightarrow> put_buffer (Write_buffer c) b s = Some (with_channel c (ctx\<lparr>ch_out := Some b\<rparr>) s)"
  by (simp add: put_buffer_def upd_channel_some)

lemma put_mailbox [simp]: "put_buffer (Mailbox a) b s = Some (with_mailbox a b s)"
  by (simp add: put_buffer_def with_mailbox_def)

lemma read_mailbox [simp]: "read_buffer (Mailbox a) s = tp_mailboxes s a"
  by (simp add: read_buffer_def)

lemma channel_states [simp]:
  "channel_ctx c (with_channel c x s) = map_option (\<lambda>_. x) (channel_ctx c s)"
  "channel_ctx c (with_mailbox a m s) = channel_ctx c s"
  "with_channel c x (with_channel c y s) = with_channel c x s"
  "with_channel c x (with_mailbox a m s) = with_mailbox a m (with_channel c x s)"
  "with_mailbox a m (with_mailbox a k s) = with_mailbox a m s"
  "tp_mailboxes (with_channel c x s) = tp_mailboxes s"
  "tp_mailboxes (with_mailbox a m s) = (tp_mailboxes s)(a := Some m)"
  "dbg (with_channel c x s) = dbg s" "dbg (with_mailbox a m s) = dbg s"
  "tp_calls (with_channel c x s) = tp_calls s" "tp_calls (with_mailbox a m s) = tp_calls s"
  "length (tp_channel_ctx_table (with_channel c x s)) = length (tp_channel_ctx_table s)"
  "tp_channel_ctx_table (with_mailbox a m s) = tp_channel_ctx_table s"
  by (auto simp: channel_ctx_def with_channel_def with_mailbox_def fwk_id_get_element_idx_def)

lemma channel_other:
  assumes "element_element_idx d \<noteq> element_element_idx c"
  shows "channel_ctx d (with_channel c x s) = channel_ctx d s"
proof -
  have "unat (element_element_idx c) \<noteq> unat (element_element_idx d)" using assms by (metis word_unat_eq_iff)
  then show ?thesis by (cases "fwk_id_get_element_idx d") (auto simp: channel_ctx_def with_channel_def fwk_id_get_element_idx_def split: if_splits)
qed

text \<open>The order in which the updates of a context are written.\<close>

lemma ctx_order:
  "x\<lparr>ch_out := o', ch_in := i\<rparr> = x\<lparr>ch_in := i, ch_out := o'\<rparr>"
  "x\<lparr>ch_locked := l, ch_in := i\<rparr> = x\<lparr>ch_in := i, ch_locked := l\<rparr>"
  "x\<lparr>ch_locked := l, ch_out := o'\<rparr> = x\<lparr>ch_out := o', ch_locked := l\<rparr>"
  by simp_all

lemma agent_access_some: "tp_mailboxes s a = Some m \<Longrightarrow> agent_access env k a s = with_mailbox a (tp_agent env k a m) s"
  by (simp add: agent_access_def with_mailbox_def)

section \<open>Buffers of a channel\<close>

text \<open>A channel with a mailbox: the mailbox and both buffers have the maximal payload and the tail of the structure.\<close>

definition room :: "transport_channel_ctx \<Rightarrow> nat" where "room ctx = unat (ch_max_payload_size ctx) + 4"

definition buffers_wf :: "('a tp) transport_env \<Rightarrow> transport_channel_ctx \<Rightarrow> 'a tp \<Rightarrow> bool" where
  "buffers_wf env ctx s \<longleftrightarrow> (case (ch_config ctx, ch_in ctx, ch_out ctx) of
      (Some cfg, Some inb, Some outb) \<Rightarrow> is_out_band env cfg \<and> length (tb_payload inb) = room ctx \<and>
        length (tb_payload outb) = room ctx \<and>
        (case tp_mailboxes s (cc_out_band_mailbox_address cfg) of None \<Rightarrow> False | Some m \<Rightarrow> length (tb_payload m) = room ctx)
    | _ \<Rightarrow> False)"

lemma buffers_wfE:
  assumes "buffers_wf env ctx s"
  obtains cfg inb outb m where "ch_config ctx = Some cfg" "ch_in ctx = Some inb" "ch_out ctx = Some outb"
    "tp_mailboxes s (cc_out_band_mailbox_address cfg) = Some m" "is_out_band env cfg"
    "length (tb_payload inb) = room ctx" "length (tb_payload outb) = room ctx" "length (tb_payload m) = room ctx"
  using assms by (auto simp: buffers_wf_def split: option.splits)

lemma copy_structure_some:
  "4 \<le> length (tb_payload d) \<Longrightarrow> 4 \<le> length (tb_payload b) \<Longrightarrow>
    copy_structure d b = Some (b\<lparr>tb_payload := take 4 (tb_payload b) @ drop 4 (tb_payload d)\<rparr>)"
  by (simp add: copy_structure_def)

lemma copy_payload_some:
  "n \<le> length src \<Longrightarrow> off + n \<le> length (tb_payload b) \<Longrightarrow>
    copy_payload off src n b = Some (b\<lparr>tb_payload := take off (tb_payload b) @ take n src @ drop (off + n) (tb_payload b)\<rparr>)"
  by (simp add: copy_payload_def)

lemma room_ge [simp]: "4 \<le> room ctx" by (simp add: room_def)

lemma max_payload_room: "\<not> n > ch_max_payload_size ctx \<Longrightarrow> unat n \<le> room ctx"
  by (simp add: room_def word_less_nat_alt)

section \<open>An incoming message\<close>

text \<open>The reference: what the module reads when the agent changes the mailbox from \<open>m\<close> to \<open>m0\<close> before the header is
  read, and to \<open>m1\<close> before the payload is.\<close>

definition structure_of :: "mod_transport_buffer \<Rightarrow> mod_transport_buffer \<Rightarrow> mod_transport_buffer" where
  "structure_of d b = b\<lparr>tb_payload := take 4 (tb_payload b) @ drop 4 (tb_payload d)\<rparr>"

definition error_bit :: "bool \<Rightarrow> mod_transport_buffer \<Rightarrow> mod_transport_buffer" where
  "error_bit e b = b\<lparr>tb_status := (if e then tb_status b AND NOT MOD_TRANSPORT_MAILBOX_STATUS_ERROR_MASK OR
    MOD_TRANSPORT_MAILBOX_STATUS_ERROR_MASK else tb_status b AND NOT MOD_TRANSPORT_MAILBOX_STATUS_ERROR_MASK)\<rparr>"

definition received_payload :: "nat \<Rightarrow> mod_transport_buffer \<Rightarrow> mod_transport_buffer \<Rightarrow> mod_transport_buffer" where
  "received_payload n m1 inb = inb\<lparr>tb_payload := take n (tb_payload m1) @ drop n (tb_payload inb)\<rparr>"

definition received ::
  "transport_channel_ctx \<Rightarrow> mod_transport_buffer \<Rightarrow> mod_transport_buffer \<Rightarrow> mod_transport_buffer \<Rightarrow> mod_transport_buffer
    \<Rightarrow> transport_channel_ctx" where
  "received ctx inb outb m0 m1 =
    (let inb0 = structure_of inb m0; bad = length_invalid ctx m0; n = unat (tb_length m0 - sizeof_message_header)
     in ctx\<lparr>ch_in := Some (if bad then inb0 else received_payload n m1 inb0),
          ch_out := Some (error_bit bad (structure_of outb inb0)), ch_locked := True\<rparr>)"

text \<open>The service of the channel is signalled, if its module is in the build.\<close>

definition signal_service :: "('a tp) transport_env \<Rightarrow> transport_channel_ctx \<Rightarrow> bool \<Rightarrow> 'a tp \<Rightarrow> (int \<times> 'a tp) option" where
  "signal_service env ctx bad s =
    (if ch_is_scmi ctx \<and> \<not> has_mod_scmi env then Some (FWK_E_SUPPORT, s)
     else if bad then call_signal_error env ctx s
     else do { (status, s) \<leftarrow> call_signal_message env ctx s; Some (if status \<noteq> FWK_SUCCESS then FWK_E_HANDLER else status, s) })"

definition incoming_message :: "('a tp) transport_env \<Rightarrow> fwk_id \<Rightarrow> transport_channel_ctx \<Rightarrow> 'a tp \<Rightarrow> (int \<times> 'a tp) option" where
  "incoming_message env c ctx s = do {
    cfg \<leftarrow> ch_config ctx;
    inb \<leftarrow> ch_in ctx;
    outb \<leftarrow> ch_out ctx;
    m \<leftarrow> tp_mailboxes s (cc_out_band_mailbox_address cfg);
    let a = cc_out_band_mailbox_address cfg;
    let m0 = tp_agent env 0 a m;
    let bad = length_invalid ctx m0;
    let m1 = (if bad \<or> tb_length m0 = sizeof_message_header then m0 else tp_agent env 1 a m0);
    if \<not> ch_out_band_mailbox_ready ctx then Some (FWK_SUCCESS, s)
    else if ch_locked ctx \<or> \<not> owns_mailbox cfg m then Some (FWK_E_STATE, s)
    else signal_service env ctx bad (with_mailbox a m1 (with_channel c (received ctx inb outb m0 m1) s)) }"

definition agent_keeps_size :: "('a tp) transport_env \<Rightarrow> bool" where
  "agent_keeps_size env \<longleftrightarrow> (\<forall>k a b. length (tb_payload (tp_agent env k a b)) = length (tb_payload b))"

lemma signal_is_incoming_message:
  assumes "channel_ctx c s = Some ctx" "buffers_wf env ctx s" "agent_keeps_size env"
  shows "transport_signal_message env c s = incoming_message env c ctx s"
proof -
  from assms(2) obtain cfg inb outb m where b: "ch_config ctx = Some cfg" "ch_in ctx = Some inb" "ch_out ctx = Some outb"
    "tp_mailboxes s (cc_out_band_mailbox_address cfg) = Some m" "is_out_band env cfg"
    and len: "length (tb_payload inb) = room ctx" "length (tb_payload outb) = room ctx" "length (tb_payload m) = room ctx"
    by (rule buffers_wfE)
  let ?a = "cc_out_band_mailbox_address cfg"
  let ?m0 = "tp_agent env 0 ?a m"
  let ?m1 = "tp_agent env 1 ?a ?m0"
  have size: "length (tb_payload ?m0) = room ctx" "length (tb_payload ?m1) = room ctx"
    using assms(3) len by (simp_all add: agent_keeps_size_def)
  have types: "has_messages cfg" "\<not> is_in_band env cfg"
    using b(5) by (auto simp: is_out_band_def is_in_band_def has_messages_def)
  have fetch: "fetch_message env c ctx cfg s =
      Some (structure_of inb ?m0, with_mailbox ?a ?m0 (with_channel c (ctx\<lparr>ch_in := Some (structure_of inb ?m0), ch_locked := True\<rparr>) s))"
    by (simp add: fetch_message_def fetch_structure_def fetch_in_band_def b types(2) agent_access_some copy_structure_some len size upd_channel_some assms(1)
        structure_of_def)
  have copy_out: "copy_structure outb (structure_of inb ?m0) = Some (structure_of outb (structure_of inb ?m0))"
    by (simp add: copy_structure_some len size structure_of_def)
  have payload: "fetch_payload env c cfg (structure_of inb ?m0) (with_mailbox ?a ?m0 (with_channel c x s)) =
      Some (if tb_length ?m0 = sizeof_message_header then with_mailbox ?a ?m0 (with_channel c x s)
        else with_mailbox ?a ?m1 (with_channel c (x\<lparr>ch_in := Some (received_payload (unat (tb_length ?m0 - sizeof_message_header)) ?m1
          (structure_of inb ?m0))\<rparr>) s))"
    if "\<not> length_invalid ctx ?m0" for x
  proof -
    have n: "unat (tb_length ?m0 - sizeof_message_header) \<le> room ctx"
      using that by (intro max_payload_room) (simp add: length_invalid_def)
    have "tb_length (structure_of inb ?m0) = tb_length ?m0" by (simp add: structure_of_def)
    then show ?thesis
      using n assms(1) by (simp add: fetch_payload_def b(5) agent_access_some [where m = ?m0] copy_payload_some len size [unfolded One_nat_def]
          structure_of_def received_payload_def upd_channel_some)
  qed
  have invalid: "length_invalid ctx (structure_of inb ?m0) = length_invalid ctx ?m0"
    by (simp add: length_invalid_def structure_of_def)
  have zero: "received_payload 0 k x = x" for k x by (simp add: received_payload_def)
  show ?thesis
  proof (cases "ch_out_band_mailbox_ready ctx \<and> \<not> ch_locked ctx \<and> owns_mailbox cfg m")
    case False
    then show ?thesis
      by (auto simp: transport_signal_message_def transport_message_handler_def incoming_message_def assms(1) b types(1))
  next
    case True
    show ?thesis
    proof (cases "length_invalid ctx ?m0")
      case True
      then show ?thesis using \<open>_ \<and> \<not> ch_locked ctx \<and> _\<close> assms(1)
        by (simp add: transport_signal_message_def transport_message_handler_def hand_over_message_def incoming_message_def b types(1) fetch copy_out
            invalid upd_channel_some received_def signal_service_def error_bit_def ctx_order Let_def)
    next
      case False
      then show ?thesis using \<open>_ \<and> \<not> ch_locked ctx \<and> _\<close> assms(1)
        by (simp add: transport_signal_message_def transport_message_handler_def hand_over_message_def incoming_message_def b types(1) fetch copy_out
            invalid upd_channel_some received_def signal_service_def error_bit_def ctx_order Let_def payload zero)
    qed
  qed
qed

section \<open>The answer of a service\<close>

text \<open>The calls that the SCMI module makes, as the transport executes them; the status is that of the last call.\<close>

definition scmi_to_transport :: "('a tp) transport_env \<Rightarrow> scmi_call \<Rightarrow> 'a tp \<Rightarrow> (int \<times> 'a tp) option" where
  "scmi_to_transport env call s = (case call of
      Respond c bytes \<Rightarrow> transport_respond env c (Some bytes) (of_nat (length bytes)) s
    | Respond_written c sz \<Rightarrow> transport_respond env c None sz s
    | Write_payload c off bytes \<Rightarrow> transport_write_payload c off (Some bytes) (of_nat (length bytes)) s
    | Transmit_message c header payload ack \<Rightarrow> transport_transmit env c header (Some payload) (of_nat (length payload)) ack s
    | Release_channel c \<Rightarrow> transport_release_channel_lock c s)"

fun transport_run :: "('a tp) transport_env \<Rightarrow> scmi_call list \<Rightarrow> int \<times> 'a tp \<Rightarrow> (int \<times> 'a tp) option" where
  "transport_run env [] r = Some r"
| "transport_run env (call # calls) r = do { r \<leftarrow> scmi_to_transport env call (snd r); transport_run env calls r }"

lemma transport_run_append: "transport_run env (cs @ ds) r = transport_run env cs r \<bind> transport_run env ds"
  by (induction cs arbitrary: r) (simp_all, metis Option.bind_assoc)

text \<open>The mailbox after a response: the structure of the write buffer, then the bytes.\<close>

definition response_in :: "mod_transport_buffer \<Rightarrow> mod_transport_buffer \<Rightarrow> u8 list \<Rightarrow> u32 \<Rightarrow> mod_transport_buffer" where
  "response_in m outb bytes sz = outb\<lparr>
    tb_payload := take (unat sz) bytes @ drop (unat sz) (take 4 (tb_payload outb) @ drop 4 (tb_payload m)),
    tb_length := sizeof_message_header + sz, tb_status := tb_status outb OR MOD_TRANSPORT_MAILBOX_STATUS_FREE_MASK\<rparr>"

lemma respond_out_band:
  assumes "channel_ctx c s = Some ctx" "buffers_wf env ctx s" "ch_config ctx = Some cfg" "ch_out ctx = Some outb"
    and "tp_mailboxes s (cc_out_band_mailbox_address cfg) = Some m" "unat sz \<le> room ctx"
    and "src = (case payload of None \<Rightarrow> tb_payload outb | Some bytes \<Rightarrow> bytes)" "unat sz \<le> length src"
  shows "transport_respond env c payload sz s =
    (let s' = with_mailbox (cc_out_band_mailbox_address cfg) (response_in m outb src sz) (with_channel c (ctx\<lparr>ch_locked := False\<rparr>) s)
     in if tb_flags outb AND MOD_TRANSPORT_MAILBOX_FLAGS_IENABLED_MASK \<noteq> 0
        then call_driver env ctx (Trigger_event (cc_driver_id cfg)) s' else Some (FWK_SUCCESS, s'))"
proof -
  have b: "is_out_band env cfg" "length (tb_payload outb) = room ctx" "length (tb_payload m) = room ctx"
    using assms(2-5) by (auto simp: buffers_wf_def split: option.splits)
  then have t: "has_outband env" "cc_transport_type cfg = MOD_TRANSPORT_CHANNEL_TRANSPORT_TYPE_OUT_BAND" "has_messages cfg"
    by (auto simp: is_out_band_def has_messages_def)
  let ?a = "cc_out_band_mailbox_address cfg"
  let ?b = "outb\<lparr>tb_payload := take (unat sz) src @ drop (unat sz) (take 4 (tb_payload outb) @ drop 4 (tb_payload m))\<rparr>"
  have "respond_buffer env c ctx cfg payload sz s = Some (Some (Mailbox ?a), with_mailbox ?a ?b s)"
    using assms(6,8) by (simp add: respond_buffer_def t assms(4,5) copy_structure_some copy_payload_some b flip: assms(7))
  then show ?thesis
    by (simp add: transport_respond_def assms(1,3) t upd_channel_some response_in_def Let_def)
qed

lemma write_inside:
  assumes "channel_ctx c s = Some ctx" "buffers_wf env ctx s" "ch_locked ctx" "ch_out ctx = Some outb"
    and "unat off + length bytes \<le> unat (ch_max_payload_size ctx)"
  shows "transport_write_payload c off (Some bytes) (of_nat (length bytes)) s =
    Some (FWK_SUCCESS, with_channel c (ctx\<lparr>ch_out := Some (outb\<lparr>tb_payload := take (unat off) (tb_payload outb) @ bytes @
      drop (unat off + length bytes) (tb_payload outb)\<rparr>)\<rparr>) s)"
proof -
  obtain cfg where b: "ch_config ctx = Some cfg" "is_out_band env cfg" "length (tb_payload outb) = room ctx"
    using assms(2,4) by (auto simp: buffers_wf_def split: option.splits)
  have n: "unat (of_nat (length bytes) :: u32) = length bytes"
  proof -
    have "length bytes < 4294967296" using assms(5) unat_u32_less [of "ch_max_payload_size ctx"] by linarith
    then show ?thesis by (simp add: unat_of_nat)
  qed
  show ?thesis using assms(5) b
    by (simp add: transport_write_payload_def assms(1,3,4) has_messages_def is_out_band_def n fwk_str_is_in_boundry_iff
        copy_payload_some room_def upd_channel_some)
qed

fun written :: "u8 list \<Rightarrow> scmi_call list \<Rightarrow> u8 list" where
  "written buf (Write_payload t off bytes # cs) = written (take (unat off) buf @ bytes @ drop (unat off + length bytes) buf) cs"
| "written buf cs = buf"

lemma run_writes:
  assumes "channel_ctx c s = Some ctx" "buffers_wf env ctx s" "ch_locked ctx" "ch_out ctx = Some outb"
    and "list_all (is_write c (unat (ch_max_payload_size ctx))) ws"
  shows "\<exists>status. transport_run env ws (st, s) = Some (if ws = [] then st else status,
      with_channel c (ctx\<lparr>ch_out := Some (outb\<lparr>tb_payload := written (tb_payload outb) ws\<rparr>)\<rparr>) s) \<and>
    length (written (tb_payload outb) ws) = room ctx"
  using assms
proof (induction ws arbitrary: s ctx outb st)
  case Nil
  then have "length (tb_payload outb) = room ctx" by (auto simp: buffers_wf_def split: option.splits)
  moreover have "with_channel c ctx s = s"
    using Nil(1) by (auto simp: channel_ctx_def with_channel_def fwk_id_get_element_idx_def split: if_splits)
  moreover have "ctx\<lparr>ch_out := Some outb\<rparr> = ctx" using Nil(4) by (simp flip: Nil(4))
  ultimately show ?case by simp
next
  case (Cons w ws)
  from Cons.prems(5) obtain off bytes where w: "w = Write_payload c off bytes"
    and fits: "unat off + length bytes \<le> unat (ch_max_payload_size ctx)" and rest: "list_all (is_write c (unat (ch_max_payload_size ctx))) ws"
    by (cases w) auto
  let ?o = "outb\<lparr>tb_payload := take (unat off) (tb_payload outb) @ bytes @ drop (unat off + length bytes) (tb_payload outb)\<rparr>"
  let ?ctx = "ctx\<lparr>ch_out := Some ?o\<rparr>"
  let ?s = "with_channel c ?ctx s"
  have step: "scmi_to_transport env w s = Some (FWK_SUCCESS, ?s)"
    using write_inside [OF Cons.prems(1-4) fits] by (simp add: scmi_to_transport_def w)
  have len: "length (tb_payload outb) = room ctx" using Cons.prems(2,4) by (auto simp: buffers_wf_def split: option.splits)
  have "buffers_wf env ?ctx ?s"
    using Cons.prems(2) len fits by (auto simp: buffers_wf_def room_def split: option.splits)
  then show ?case
    using Cons.IH [of ?s ?ctx ?o FWK_SUCCESS] Cons.prems(1,3) rest step
    by (auto simp: w room_def)
qed

lemma deliver_written:
  assumes "list_all (is_write c n) ws"
  shows "deliver buf (ws @ cs) = deliver (written buf ws) cs"
  using assms
proof (induction ws arbitrary: buf)
  case (Cons w ws)
  then show ?case by (cases w) simp_all
qed simp

text \<open>Writes and one answer on a locked channel: the mailbox holds the payload that the agent is said to receive, it is
  free again, and the channel is unlocked.\<close>

lemma answer_in_mailbox:
  assumes "channel_ctx c s = Some ctx" "buffers_wf env ctx s" "ch_locked ctx" "ch_driver_api ctx"
    and "ch_config ctx = Some cfg" "ch_out ctx = Some outb" "24 \<le> unat (ch_max_payload_size ctx)"
    and "list_all (is_write c (unat (ch_max_payload_size ctx))) ws" "is_answer c (unat (ch_max_payload_size ctx)) x"
  shows "\<exists>status s' m bytes ctx'. transport_run env (ws @ [x]) (st, s) = Some (status, s') \<and>
    deliver (tb_payload outb) (ws @ [x]) = Some bytes \<and>
    tp_mailboxes s' (cc_out_band_mailbox_address cfg) = Some m \<and>
    take (length bytes) (tb_payload m) = bytes \<and> tb_length m = sizeof_message_header + of_nat (length bytes) \<and>
    tb_message_header m = tb_message_header outb \<and>
    tb_status m = tb_status outb OR MOD_TRANSPORT_MAILBOX_STATUS_FREE_MASK \<and>
    channel_ctx c s' = Some ctx' \<and> \<not> ch_locked ctx' \<and> buffers_wf env ctx' s'"
proof -
  let ?o = "outb\<lparr>tb_payload := written (tb_payload outb) ws\<rparr>"
  let ?ctx = "ctx\<lparr>ch_out := Some ?o\<rparr>"
  let ?s = "with_channel c ?ctx s" and ?a = "cc_out_band_mailbox_address cfg"
  obtain st' where run: "transport_run env ws (st, s) = Some (st', ?s)" and len: "length (written (tb_payload outb) ws) = room ctx"
    using run_writes [OF assms(1-3,6,8)] by blast
  obtain m where m: "tp_mailboxes s ?a = Some m" "length (tb_payload m) = room ctx"
    using assms(2,5) by (auto simp: buffers_wf_def split: option.splits)
  have wf: "buffers_wf env ?ctx ?s"
    using assms(2) len by (auto simp: buffers_wf_def room_def split: option.splits)
  have ctx: "channel_ctx c ?s = Some ?ctx" by (simp add: assms(1))
  obtain payload sz where x: "\<And>s. scmi_to_transport env x s = transport_respond env c payload sz s"
    and fits: "unat sz \<le> room ctx" "unat sz \<le> length (case payload of None \<Rightarrow> tb_payload ?o | Some bytes \<Rightarrow> bytes)"
    and del: "deliver (tb_payload ?o) [x] = Some (take (unat sz) (case payload of None \<Rightarrow> tb_payload ?o | Some bytes \<Rightarrow> bytes))"
  proof (cases x)
    case (Respond t bytes)
    then have n: "unat (of_nat (length bytes) :: u32) = length bytes" "length bytes \<le> 24" "t = c"
      using assms(9) by (simp_all add: unat_of_nat)
    then show thesis using Respond assms(7) by (intro that [of "Some bytes" "of_nat (length bytes)"]) (simp_all add: scmi_to_transport_def room_def)
  next
    case (Respond_written t sz)
    then show thesis using assms(9) len by (intro that [of None sz]) (simp_all add: scmi_to_transport_def room_def)
  qed (use assms(9) in simp_all)
  let ?src = "case payload of None \<Rightarrow> tb_payload ?o | Some bytes \<Rightarrow> bytes"
  let ?m = "response_in m ?o ?src sz" and ?ctx' = "?ctx\<lparr>ch_locked := False\<rparr>"
  let ?s1 = "with_mailbox ?a ?m (with_channel c ?ctx' s)"
  have respond: "transport_respond env c payload sz ?s =
      (if tb_flags ?o AND MOD_TRANSPORT_MAILBOX_FLAGS_IENABLED_MASK \<noteq> 0
       then call_driver env ?ctx (Trigger_event (cc_driver_id cfg)) ?s1 else Some (FWK_SUCCESS, ?s1))"
    using respond_out_band [OF ctx wf, of cfg ?o m sz ?src payload] fits assms(5) m by (simp add: Let_def room_def)
  then obtain status s' where s': "transport_respond env c payload sz ?s = Some (status, s')"
    "tp_mailboxes s' = tp_mailboxes ?s1" "tp_channel_ctx_table s' = tp_channel_ctx_table ?s1"
    using assms(4) by (cases "tb_flags ?o AND MOD_TRANSPORT_MAILBOX_FLAGS_IENABLED_MASK \<noteq> 0") (auto simp: call_driver_def Let_def)
  have "transport_run env (ws @ [x]) (st, s) = Some (status, s')"
    by (simp add: transport_run_append run x s'(1))
  moreover have "deliver (tb_payload outb) (ws @ [x]) = Some (take (unat sz) ?src)"
    using del by (simp add: deliver_written [OF assms(8)])
  moreover have "tp_mailboxes s' ?a = Some ?m" by (simp add: s'(2))
  moreover have "length (take (unat sz) ?src) = unat sz" using fits(2) by simp
  moreover have "channel_ctx c s' = channel_ctx c ?s1" by (simp only: channel_ctx_def s'(3))
  then have "channel_ctx c s' = Some ?ctx'" using assms(1) by simp
  moreover have "buffers_wf env ?ctx' s'"
    using assms(2,5) len m fits by (auto simp: buffers_wf_def s'(2) room_def response_in_def split: option.splits)
  ultimately show ?thesis
    by (intro exI [of _ status] exI [of _ s'] exI [of _ ?m] exI [of _ "take (unat sz) ?src"] exI [of _ ?ctx'])
      (simp add: response_in_def)
qed

end
