(* ===== verification/Tp_Invariants.thy ===== *)
theory Tp_Invariants
  imports Tp_Channel Pd_Invariants
begin

unbundle bit_operations_syntax

text \<open>
  What every operation of the transport module keeps. The locale \<open>transport_invariant\<close> says what an assertion must
  stand: quiet updates of a channel, buffers and mailboxes written with their size, messages received on channels that
  are not held, and answers where they are allowed. It is interpreted on the sizes of all buffers, and on the message
  of a channel whose service has not answered.
\<close>

section \<open>The operations\<close>

definition quiet_update :: "(transport_channel_ctx \<Rightarrow> transport_channel_ctx) \<Rightarrow> bool" where
  "quiet_update f \<longleftrightarrow> (\<forall>x. ch_config (f x) = ch_config x \<and> ch_in (f x) = ch_in x \<and> ch_out (f x) = ch_out x \<and>
    ch_locked (f x) = ch_locked x \<and> ch_max_payload_size (f x) = ch_max_payload_size x)"

text \<open>The operations of the module after its initialisation, the agents' writes, and anything that leaves its data alone;
  \<open>may d\<close> says on which channels an answer or a release is allowed.\<close>

inductive transport_step :: "('a tp) transport_env \<Rightarrow> (fwk_id \<Rightarrow> bool) \<Rightarrow> 'a tp \<Rightarrow> 'a tp \<Rightarrow> bool"
  for env :: "('a tp) transport_env" and may :: "fwk_id \<Rightarrow> bool" where
  signalled: "transport_signal_message env d s = Some (r, s') \<Longrightarrow> transport_step env may s s'"
| writes: "transport_write_payload d off p sz s = Some (r, s') \<Longrightarrow> transport_step env may s s'"
| transmits: "transport_transmit env d h p sz ack s = Some (r, s') \<Longrightarrow> transport_step env may s s'"
| responds: "transport_respond env d p sz s = Some (r, s') \<Longrightarrow> may d \<Longrightarrow> transport_step env may s s'"
| releases: "transport_release_channel_lock d s = Some (r, s') \<Longrightarrow> may d \<Longrightarrow> transport_step env may s s'"
| interrupts: "transport_trigger_interrupt env d s = Some (r, s') \<Longrightarrow> transport_step env may s s'"
| registers: "transport_fch_register_callback env d p f s = Some (r, s') \<Longrightarrow> transport_step env may s s'"
| starts: "transport_start env d s = Some (r, s') \<Longrightarrow> transport_step env may s s'"
| notified: "transport_process_notification env e e' s = Some (r, s') \<Longrightarrow> transport_step env may s s'"
| agents: "tp_mailboxes s a = Some m \<Longrightarrow> length (tb_payload m') = length (tb_payload m) \<Longrightarrow>
    transport_step env may s (with_mailbox a m' s)"
| others: "tp_channel_ctx_table s' = tp_channel_ctx_table s \<Longrightarrow> tp_mailboxes s' = tp_mailboxes s \<Longrightarrow> transport_step env may s s'"

section \<open>Invariants\<close>

text \<open>The framework does not look at the state of the module.\<close>

lemma tables_of_more:
  fixes s s' :: "'a tp"
  assumes "fwk_state.more s' = fwk_state.more s"
  shows "tp_channel_ctx_table s' = tp_channel_ctx_table s" "tp_mailboxes s' = tp_mailboxes s"
  using assms by (cases s; cases s'; simp)+

lemma upd_subscription_more [simp]: "fwk_state.more (upd_subscription_dlist n i f s) = fwk_state.more s"
  by (simp add: upd_subscription_dlist_def upd_element_ctx_def Let_def)

lemma unsubscribe_more: "fwk_notification_unsubscribe n i t s = Some (r, s') \<Longrightarrow> fwk_state.more s' = fwk_state.more s"
  by (auto simp: fwk_notification_unsubscribe_def Let_def split: if_splits)

lemma subscribe_more: "fwk_notification_subscribe n i t s = Some (r, s') \<Longrightarrow> fwk_state.more s' = fwk_state.more s"
  by (auto simp: fwk_notification_subscribe_def Let_def split: if_splits prod.splits)

lemma notify_more: "fwk_notification_notify e n s = Some (r, s') \<Longrightarrow> fwk_state.more s' = fwk_state.more s"
  using notify_sends_only [of s s e n] by (auto simp: sends_only_def holds_def intro: event_frameD(10))

text \<open>The neighbours of the module: agents and drivers keep the size of a buffer, services leave its data alone.\<close>

definition neighbours_behave :: "('a tp) transport_env \<Rightarrow> bool" where
  "neighbours_behave env \<longleftrightarrow> agent_keeps_size env \<and>
    (\<forall>calls b. length (tb_payload (driver_message env calls b)) = length (tb_payload b)) \<and>
    (\<forall>i s r s'. firmware_signal_message env i s = Some (r, s') \<or> firmware_signal_error env i s = Some (r, s') \<longrightarrow>
      tp_channel_ctx_table s' = tp_channel_ctx_table s \<and> tp_mailboxes s' = tp_mailboxes s)"

locale transport_invariant =
  fixes env :: "('a tp) transport_env" and may :: "fwk_id \<Rightarrow> bool" and I :: "'a tp \<Rightarrow> bool"
  assumes behave: "I s \<Longrightarrow> neighbours_behave env"
    and other: "I s \<Longrightarrow> tp_channel_ctx_table s' = tp_channel_ctx_table s \<Longrightarrow> tp_mailboxes s' = tp_mailboxes s \<Longrightarrow> I s'"
    and quiet: "I s \<Longrightarrow> quiet_update f \<Longrightarrow> channel_ctx d s = Some ctx \<Longrightarrow> I (with_channel d (f ctx) s)"
    and mailbox: "I s \<Longrightarrow> tp_mailboxes s a = Some m \<Longrightarrow> length (tb_payload m') = length (tb_payload m) \<Longrightarrow> I (with_mailbox a m' s)"
    and out_buffer: "I s \<Longrightarrow> channel_ctx d s = Some ctx \<Longrightarrow> ch_out ctx = Some b \<Longrightarrow> length (tb_payload b') = length (tb_payload b) \<Longrightarrow>
      I (with_channel d (ctx\<lparr>ch_out := Some b'\<rparr>) s)"
    and in_buffer: "I s \<Longrightarrow> may d \<Longrightarrow> channel_ctx d s = Some ctx \<Longrightarrow> ch_in ctx = Some b \<Longrightarrow> length (tb_payload b') = length (tb_payload b) \<Longrightarrow>
      I (with_channel d (ctx\<lparr>ch_in := Some b', ch_locked := l\<rparr>) s)"
    and unlock: "I s \<Longrightarrow> may d \<Longrightarrow> channel_ctx d s = Some ctx \<Longrightarrow> I (with_channel d (ctx\<lparr>ch_locked := False\<rparr>) s)"
    and unlocked: "I s \<Longrightarrow> channel_ctx d s = Some ctx \<Longrightarrow> \<not> ch_locked ctx \<Longrightarrow> may d"
begin

lemma upd_quiet: "I s \<Longrightarrow> quiet_update f \<Longrightarrow> holds I (upd_channel d f s)"
  by (cases "channel_ctx d s") (auto simp: upd_channel_none upd_channel_some intro: quiet)

lemma framework_inv: "I s \<Longrightarrow> fwk_state.more s' = fwk_state.more s \<Longrightarrow> I s'"
  by (rule other [OF _ tables_of_more])

lemma call_inv: "I s \<Longrightarrow> holds (\<lambda>(r, s'). I s') (call_driver env ctx x s)"
  by (auto simp: call_driver_def Let_def fwk_assert_def intro: other)

lemma put_same_size:
  assumes "I s" "read_buffer p s = Some b" "length (tb_payload b') = length (tb_payload b)"
  shows "holds I (put_buffer p b' s)"
proof (cases p)
  case (Mailbox a)
  then show ?thesis using assms mailbox by simp
next
  case (Write_buffer d)
  then show ?thesis using assms out_buffer by (cases "channel_ctx d s") (auto simp: read_buffer_def put_write_buffer)
qed

lemma put_same_sizeD:
  "put_buffer p b' s = Some s' \<Longrightarrow> I s \<Longrightarrow> read_buffer p s = Some b \<Longrightarrow> length (tb_payload b') = length (tb_payload b) \<Longrightarrow> I s'"
  by (rule holdsD [OF put_same_size])

lemma release_inv: "I s \<Longrightarrow> may d \<Longrightarrow> holds (\<lambda>(r, s'). I s') (transport_release_channel_lock d s)"
  by (cases "channel_ctx d s") (simp_all add: transport_release_channel_lock_def upd_channel_none upd_channel_some unlock)

lemma write_inv: "I s \<Longrightarrow> holds (\<lambda>(r, s'). I s') (transport_write_payload d off p sz s)"
  unfolding transport_write_payload_def
  by (intro holds_steps) (auto simp: copy_payload_def upd_channel_some fwk_assert_def split: option.splits if_splits intro: out_buffer)

lemma copied_structure_size: "copy_structure d b = Some b' \<Longrightarrow> length (tb_payload b') = length (tb_payload d)"
  by (auto simp: copy_structure_def split: if_splits)

lemma copied_payload_size: "copy_payload off src n b = Some b' \<Longrightarrow> length (tb_payload b') = length (tb_payload b)"
  by (auto simp: copy_payload_def split: if_splits)

lemma respond_buffer_inv:
  assumes "I s" "channel_ctx d s = Some ctx"
  shows "holds (\<lambda>(p, s'). I s') (respond_buffer env d ctx cfg payload sz s)"
proof -
  have out_band: "holds (\<lambda>(p, s'). I s') (do {
      b \<leftarrow> read_buffer p s;
      outb \<leftarrow> ch_out ctx;
      b \<leftarrow> copy_structure b outb;
      b \<leftarrow> copy_payload 0 (src outb) (unat sz) b;
      s \<leftarrow> put_buffer p b s;
      Some (Some p, s) })" for p and src :: "mod_transport_buffer \<Rightarrow> u8 list"
  proof (intro holds_bind_any)
    fix b outb b1 b2 s' assume "read_buffer p s = Some b" "copy_structure b outb = Some b1" "copy_payload 0 (src outb) (unat sz) b1 = Some b2"
      "put_buffer p b2 s = Some s'"
    then show "holds (\<lambda>(p, s'). I s') (Some (Some p, s'))"
      using put_same_size [OF assms(1), of p b b2] by (simp add: copied_structure_size copied_payload_size holds_def)
  qed
  have in_band: "holds (\<lambda>(p, s'). I s') (do {
      b \<leftarrow> read_buffer p s; b \<leftarrow> copy_payload 0 bytes (unat sz) b; s \<leftarrow> put_buffer p b s; Some (Some p, s) })" for p bytes
    by (intro holds_bind_any holds_bind [OF put_same_size [OF assms(1)]]) (simp_all add: copied_payload_size)
  show ?thesis
    unfolding respond_buffer_def Let_def
    using out_band [where src = "\<lambda>outb. case payload of None \<Rightarrow> tb_payload outb | Some bytes \<Rightarrow> bytes"] in_band assms(1)
    by (auto intro!: holds_if simp del: read_mailbox put_mailbox split: option.splits)
qed

lemma respond_inv:
  assumes "I s" "may d"
  shows "holds (\<lambda>(r, s'). I s') (transport_respond env d payload sz s)"
  unfolding transport_respond_def
proof (intro holds_bind_any)
  fix ctx cfg u x assume ctx: "channel_ctx d s = Some ctx" and x: "respond_buffer env d ctx cfg payload sz s = Some x"
  obtain q s1 where q: "x = (q, s1)" by (cases x)
  have s1: "I s1" using holdsD [OF respond_buffer_inv [OF assms(1) ctx] x] by (simp add: q)
  have unlocked_state: "holds I (upd_channel d (\<lambda>c. c\<lparr>ch_locked := False\<rparr>) s1)"
    using s1 assms(2) by (cases "channel_ctx d s1") (auto simp: upd_channel_none upd_channel_some intro: unlock)
  have tail: "holds (\<lambda>(r, s'). I s') (do {
        b \<leftarrow> read_buffer p s2;
        let b' = b\<lparr>tb_length := sizeof_message_header + sz, tb_status := tb_status b OR MOD_TRANSPORT_MAILBOX_STATUS_FREE_MASK\<rparr>;
        s \<leftarrow> put_buffer p b' s2;
        (status, s) \<leftarrow> (if has_inband env \<and> cc_transport_type cfg = MOD_TRANSPORT_CHANNEL_TRANSPORT_TYPE_IN_BAND
          then call_driver env ctx (Send_message (Some b') (cc_driver_id cfg)) s else Some (FWK_SUCCESS, s));
        if status \<noteq> FWK_SUCCESS then Some (status, s)
        else if tb_flags b' AND MOD_TRANSPORT_MAILBOX_FLAGS_IENABLED_MASK \<noteq> 0
        then call_driver env ctx (Trigger_event (cc_driver_id cfg)) s else Some (status, s) })" if "I s2" for p s2
    unfolding Let_def
    by (rule holds_bind_any, rule holds_bind [OF put_same_size [OF that]], assumption, simp,
        rule holds_bind_pair [where K = I]) (auto intro!: holds_if call_inv)
  show "holds (\<lambda>(r, s'). I s') (case x of (buffer_p, s) \<Rightarrow> (case buffer_p of None \<Rightarrow> Some (FWK_E_PANIC, s) | Some p \<Rightarrow> do {
        s \<leftarrow> upd_channel d (\<lambda>c. c\<lparr>ch_locked := False\<rparr>) s;
        b \<leftarrow> read_buffer p s;
        let b' = b\<lparr>tb_length := sizeof_message_header + sz, tb_status := tb_status b OR MOD_TRANSPORT_MAILBOX_STATUS_FREE_MASK\<rparr>;
        s \<leftarrow> put_buffer p b' s;
        (status, s) \<leftarrow> (if has_inband env \<and> cc_transport_type cfg = MOD_TRANSPORT_CHANNEL_TRANSPORT_TYPE_IN_BAND
          then call_driver env ctx (Send_message (Some b') (cc_driver_id cfg)) s else Some (FWK_SUCCESS, s));
        if status \<noteq> FWK_SUCCESS then Some (status, s)
        else if tb_flags b' AND MOD_TRANSPORT_MAILBOX_FLAGS_IENABLED_MASK \<noteq> 0
        then call_driver env ctx (Trigger_event (cc_driver_id cfg)) s else Some (status, s) }))"
    using s1 by (auto simp: q split: option.splits intro!: holds_bind [OF unlocked_state] tail)
qed

lemma transmit_buffer_inv: "I s \<Longrightarrow> holds (\<lambda>(p, s'). I s') (transmit_buffer env d cfg s)"
  unfolding transmit_buffer_def Let_def
  by (intro holds_if holds_bind_any; simp del: put_mailbox) (erule put_same_sizeD, assumption, assumption, simp)+

lemma transmit_inv:
  assumes "I s"
  shows "holds (\<lambda>(r, s'). I s') (transport_transmit env d h payload sz ack s)"
  unfolding transport_transmit_def
proof (intro holds_bind_any)
  fix ctx cfg u x assume ctx: "channel_ctx d s = Some ctx" and x: "transmit_buffer env d cfg s = Some x"
  obtain q s1 where q: "x = (q, s1)" by (cases x)
  have s1: "I s1" using holdsD [OF transmit_buffer_inv [OF assms] x] by (simp add: q)
  have send: "holds (\<lambda>(r, s'). I s') (if has_inband env then do { ctx \<leftarrow> channel_ctx d s2; call_driver env ctx (k ctx) s2 }
      else Some (FWK_SUCCESS, s2))" if "I s2" for s2 k
    using that by (auto intro!: holds_if holds_bind_any call_inv)
  have payload: "length (tb_payload b') = length (tb_payload b)"
    if "(case payload of Some bytes \<Rightarrow> if sz \<noteq> 0 then copy_payload 0 bytes (unat sz) (b\<lparr>tb_message_header := h, tb_flags := f\<rparr>)
        else Some (b\<lparr>tb_message_header := h, tb_flags := f\<rparr>) | None \<Rightarrow> Some (b\<lparr>tb_message_header := h, tb_flags := f\<rparr>)) = Some b'" for b b' f
    using that by (auto split: option.splits if_splits dest: copied_payload_size)
  show "holds (\<lambda>(r, s'). I s') (case x of (buffer_p, s) \<Rightarrow> (case buffer_p of Inl status \<Rightarrow> Some (status, s) | Inr p \<Rightarrow> do {
        buffer \<leftarrow> read_buffer p s;
        let buffer = buffer\<lparr>tb_message_header := h, tb_flags := if ack then tb_flags buffer OR MOD_TRANSPORT_MAILBOX_FLAGS_IENABLED_MASK
          else tb_flags buffer AND NOT MOD_TRANSPORT_MAILBOX_FLAGS_IENABLED_MASK\<rparr>;
        buffer \<leftarrow> (case payload of
            Some bytes \<Rightarrow> if sz \<noteq> 0 then copy_payload 0 bytes (unat sz) buffer else Some buffer
          | None \<Rightarrow> Some buffer);
        let buffer = buffer\<lparr>tb_length := sizeof_message_header + sz,
          tb_status := tb_status buffer AND NOT MOD_TRANSPORT_MAILBOX_STATUS_FREE_MASK\<rparr>;
        s \<leftarrow> put_buffer p buffer s;
        (status, s) \<leftarrow>
          (if has_inband env then do {
             ctx \<leftarrow> channel_ctx d s;
             call_driver env ctx (Send_message (ch_out ctx) (cc_driver_id cfg)) s }
           else Some (FWK_SUCCESS, s));
        if status \<noteq> FWK_SUCCESS then Some (status, s)
        else call_driver env ctx (Trigger_event (cc_driver_id cfg)) s }))"
  proof (cases q)
    case (Inr p)
    show ?thesis
      unfolding q prod.case Inr sum.case Let_def
      by (rule holds_bind_any, rule holds_bind_any, rule holds_bind [OF put_same_size [OF s1]], assumption, drule payload, simp,
          rule holds_bind_pair [OF send], assumption, intro holds_if call_inv) simp_all
  qed (simp add: q s1)
qed

lemma in_same_size:
  assumes "I s" "may d" "channel_ctx d s = Some x" "ch_in x = Some b" "length (tb_payload b') = length (tb_payload b)"
  shows "I (with_channel d (x\<lparr>ch_in := Some b'\<rparr>) s)"
  using in_buffer [OF assms, of "ch_locked x"] by simp

lemma agent_inv: "I s \<Longrightarrow> tp_mailboxes s a \<noteq> None \<Longrightarrow> I (agent_access env k a s)"
  using behave mailbox by (auto simp: agent_access_some neighbours_behave_def agent_keeps_size_def)

lemma agent_access_fields [simp]:
  "channel_ctx d (agent_access env k a s) = channel_ctx d s"
  "tp_mailboxes (agent_access env k a s) a = map_option (tp_agent env k a) (tp_mailboxes s a)"
  by (simp_all add: agent_access_def channel_ctx_def)

text \<open>The channel after the message has been fetched: in its read buffer, the write buffer as before.\<close>

definition fetched :: "fwk_id \<Rightarrow> transport_channel_ctx \<Rightarrow> mod_transport_buffer \<Rightarrow> 'a tp \<Rightarrow> bool" where
  "fetched d ctx b s \<longleftrightarrow> I s \<and> (\<exists>x. channel_ctx d s = Some x \<and> ch_in x = Some b \<and> ch_out x = ch_out ctx)"

lemma fetch_structure_inv:
  assumes "I s" "channel_ctx d s = Some ctx"
  shows "holds (\<lambda>(b', s'). I s' \<and> channel_ctx d s' = Some ctx \<and> length (tb_payload b') = length (tb_payload b))
    (fetch_structure env cfg b s)"
  using assms agent_inv [OF assms(1)]
  by (auto simp: fetch_structure_def Let_def dest: copied_structure_size intro!: holds_if holds_bind_any)

lemma fetch_in_band_inv:
  assumes "fetched d ctx b s" "may d"
  shows "holds (\<lambda>(b', s'). fetched d ctx b' s') (fetch_in_band env d ctx cfg b s)"
proof -
  obtain x where x: "I s" "channel_ctx d s = Some x" "ch_in x = Some b" "ch_out x = ch_out ctx" using assms(1) by (auto simp: fetched_def)
  have called: "I s' \<and> channel_ctx d s' = Some x" if "call_driver env ctx c s = Some (st, s')" for c st s'
    using holdsD [OF call_inv [OF x(1)] that] that x(2) by (auto simp: call_driver_def Let_def channel_ctx_def split: if_splits)
  have size: "length (tb_payload (driver_message env cs b)) = length (tb_payload b)" for cs
    using behave [OF x(1)] by (simp add: neighbours_behave_def)
  have "fetched d ctx b' (with_channel d (x\<lparr>ch_in := Some b'\<rparr>) s')"
    if "call_driver env ctx c s = Some (st, s')" "length (tb_payload b') = length (tb_payload b)" for c st s' b'
    using in_same_size [OF _ assms(2) _ x(3) that(2), of s'] called [OF that(1)] x(4) by (auto simp: fetched_def)
  then show ?thesis
    using assms(1) called size by (auto simp: fetch_in_band_def Let_def upd_channel_some intro!: holds_if holds_bind_any)
qed

lemma fetch_message_inv:
  assumes "I s" "may d" "channel_ctx d s = Some ctx"
  shows "holds (\<lambda>(b, s'). fetched d ctx b s') (fetch_message env d ctx cfg s)"
  unfolding fetch_message_def
proof (rule holds_bind_any, rule holds_bind [OF fetch_structure_inv [OF assms(1,3)]])
  fix b and x :: "mod_transport_buffer \<times> 'a tp" assume b: "ch_in ctx = Some b" and x: "case x of (b', s') \<Rightarrow> I s' \<and> channel_ctx d s' = Some ctx \<and> length (tb_payload b') = length (tb_payload b)"
  obtain b' s' where s': "x = (b', s')" "I s'" "channel_ctx d s' = Some ctx" "length (tb_payload b') = length (tb_payload b)"
    using x by (cases x) auto
  have "fetched d ctx b' (with_channel d (ctx\<lparr>ch_in := Some b', ch_locked := True\<rparr>) s')"
    using in_buffer [OF s'(2) assms(2) s'(3) b s'(4), of True] s'(3) by (simp add: fetched_def)
  then show "holds (\<lambda>(b, s'). fetched d ctx b s') (case x of (inb, s) \<Rightarrow> do {
      s \<leftarrow> upd_channel d (\<lambda>c. c\<lparr>ch_in := Some inb, ch_locked := True\<rparr>) s;
      fetch_in_band env d ctx cfg inb s })"
    using fetch_in_band_inv [OF _ assms(2)] by (simp add: s' upd_channel_some)
qed

lemma fetch_payload_inv:
  assumes "fetched d ctx b s" "may d"
  shows "holds I (fetch_payload env d cfg b s)"
proof -
  obtain x where x: "I s" "channel_ctx d s = Some x" "ch_in x = Some b" using assms(1) by (auto simp: fetched_def)
  have "I (with_channel d (x\<lparr>ch_in := Some b'\<rparr>) (agent_access env 1 a s))"
    if "tp_mailboxes (agent_access env 1 a s) a = Some m" "copy_payload 0 src n b = Some b'" for a m src n b'
    using that x assms(2) copied_payload_size [OF that(2)] by (intro in_same_size [OF agent_inv, of _ _ _ _ x b]) auto
  then show ?thesis
    using x by (auto simp: fetch_payload_def Let_def upd_channel_some intro!: holds_if holds_bind_any)
qed

lemma signal_message_inv: "I s \<Longrightarrow> holds (\<lambda>(r, s'). I s') (call_signal_message env ctx s)"
  using behave
  by (auto simp: call_signal_message_def signal_message_def neighbours_behave_def holds_def split: option.splits mod_transport_signal_api.splits
      intro: other framework_inv [OF _ event_frameD(10) [OF fwk_put_event_frame(2)]])

lemma signal_error_inv: "I s \<Longrightarrow> holds (\<lambda>(r, s'). I s') (call_signal_error env ctx s)"
  using behave
  by (auto simp: call_signal_error_def signal_error_def neighbours_behave_def holds_def ctx_respond_def scmi_call_transport_def Let_def
      split: option.splits mod_transport_signal_api.splits if_splits intro: other)

lemma hand_over_inv:
  assumes "fetched d ctx inb s" "may d"
  shows "holds (\<lambda>(r, s'). I s') (hand_over_message env d ctx cfg inb s)"
  unfolding hand_over_message_def
proof (intro holds_bind_any)
  fix outb b assume out: "ch_out ctx = Some outb" "copy_structure outb inb = Some b"
  obtain x where x: "I s" "channel_ctx d s = Some x" "ch_in x = Some inb" "ch_out x = Some outb"
    using assms(1) out(1) by (auto simp: fetched_def)
  let ?s = "\<lambda>b'. with_channel d (x\<lparr>ch_out := Some b'\<rparr>) s"
  have written: "fetched d (x\<lparr>ch_out := Some b'\<rparr>) inb (?s b')" if "length (tb_payload b') = length (tb_payload b)" for b'
    using out_buffer [OF x(1,2,4), of b'] x that copied_structure_size [OF out(2)] by (auto simp: fetched_def)
  then have keeps: "I (?s b')" if "length (tb_payload b') = length (tb_payload b)" for b'
    using that by (auto simp: fetched_def)
  show "holds (\<lambda>(r, s'). I s') (let outb = b\<lparr>tb_status := tb_status b AND NOT MOD_TRANSPORT_MAILBOX_STATUS_ERROR_MASK\<rparr> in
      if length_invalid ctx inb
      then do {
        let outb = outb\<lparr>tb_status := tb_status outb OR MOD_TRANSPORT_MAILBOX_STATUS_ERROR_MASK\<rparr>;
        s \<leftarrow> upd_channel d (\<lambda>c. c\<lparr>ch_out := Some outb\<rparr>) s;
        if ch_is_scmi ctx \<and> \<not> has_mod_scmi env then Some (FWK_E_SUPPORT, s) else call_signal_error env ctx s }
      else do {
        s \<leftarrow> upd_channel d (\<lambda>c. c\<lparr>ch_out := Some outb\<rparr>) s;
        s \<leftarrow> fetch_payload env d cfg inb s;
        if ch_is_scmi ctx \<and> \<not> has_mod_scmi env then Some (FWK_E_SUPPORT, s)
        else do {
          (status, s) \<leftarrow> call_signal_message env ctx s;
          Some (if status \<noteq> FWK_SUCCESS then FWK_E_HANDLER else status, s) } })"
    unfolding Let_def upd_channel_some [OF x(2)] Option.bind.simps
    by (rule holds_if, rule holds_if, simp add: keeps, rule signal_error_inv, simp add: keeps,
        rule holds_bind [OF fetch_payload_inv [OF written assms(2)]], simp, rule holds_if, simp,
        rule holds_bind_pair [OF signal_message_inv], assumption, simp)
qed

lemma message_handler_inv:
  assumes "I s"
  shows "holds (\<lambda>(r, s'). I s') (transport_message_handler env d s)"
  unfolding transport_message_handler_def
proof (rule holds_bind_any)
  fix ctx assume ctx: "channel_ctx d s = Some ctx"
  have fetch: "holds (\<lambda>(r, s'). I s') (fetch_message env d ctx cfg s \<bind> (\<lambda>(inb, s). hand_over_message env d ctx cfg inb s))"
    if "\<not> ch_locked ctx" for cfg
    using fetch_message_inv [OF assms unlocked [OF assms ctx that] ctx, of cfg] hand_over_inv [OF _ unlocked [OF assms ctx that]]
    by (auto simp: holds_def)
  show "holds (\<lambda>(r, s'). I s') (if ch_locked ctx then Some (FWK_E_STATE, s) else do {
      cfg \<leftarrow> ch_config ctx;
      owned \<leftarrow> (if is_out_band env cfg
        then do { shared_memory \<leftarrow> tp_mailboxes s (cc_out_band_mailbox_address cfg); Some (owns_mailbox cfg shared_memory) }
        else Some True);
      if \<not> owned then Some (FWK_E_STATE, s)
      else do {
        (inb, s) \<leftarrow> fetch_message env d ctx cfg s;
        hand_over_message env d ctx cfg inb s } })"
    by (rule holds_if, simp add: assms, rule holds_bind_any, rule holds_bind_any, rule holds_if, simp add: assms, rule fetch, assumption)
qed

lemma signal_inv: "I s \<Longrightarrow> holds (\<lambda>(r, s'). I s') (transport_signal_message env d s)"
  unfolding transport_signal_message_def
  by (intro holds_bind_any holds_if signal_message_inv message_handler_inv) simp_all

lemma mailbox_init_inv:
  assumes "I s"
  shows "holds (\<lambda>(r, s'). I s') (transport_mailbox_init env d s)"
proof -
  have quiet_ready: "quiet_update (\<lambda>c. c\<lparr>ch_out_band_mailbox_ready := True\<rparr>)" by (simp add: quiet_update_def)
  have box: "holds I (if b then do { old \<leftarrow> tp_mailboxes s a; new \<leftarrow> mailbox_initial env old; put_buffer (Mailbox a) new s } else Some s)" for b a
    using assms mailbox by (auto intro!: holds_if holds_bind_any dest: copied_structure_size simp: mailbox_initial_def)
  have notify: "I s1 \<Longrightarrow> holds (\<lambda>(r, s'). I s') (fwk_notification_notify e n s1)" for e n s1
    using framework_inv [OF _ notify_more] by (auto simp: holds_def)
  show ?thesis
    unfolding transport_mailbox_init_def
    by (rule holds_bind_any, rule holds_bind_any, rule holds_if, simp add: assms, rule holds_bind [OF box],
        rule holds_bind [OF upd_quiet [OF _ quiet_ready]], assumption, rule holds_bind_pair [OF notify], assumption) auto
qed

lemma counted_inv: "I s \<Longrightarrow> holds I (upd_channel d (\<lambda>c. c\<lparr>ch_wait_on_notifications := f c\<rparr>) s)"
  by (rule upd_quiet) (simp_all add: quiet_update_def)

lemma notification_received_inv:
  assumes "I s"
  shows "holds (\<lambda>(r, s'). I s') (notification_received e s)"
proof -
  have "holds (\<lambda>(r, s'). I s') (fwk_notification_unsubscribe n i t s)" for n i t
    using framework_inv [OF assms unsubscribe_more] by (auto simp: holds_def)
  then show ?thesis unfolding notification_received_def
    by (rule holds_bind_pair) (rule holds_if, simp, rule holds_bind [OF counted_inv], assumption, simp)
qed

lemma await_inv:
  assumes "I s"
  shows "holds (\<lambda>(r, s'). I s') (await_notification n i d s)"
proof -
  have "holds (\<lambda>(r, s'). I s') (fwk_notification_subscribe n i d s)"
    using framework_inv [OF assms subscribe_more] by (auto simp: holds_def)
  then show ?thesis unfolding await_notification_def
    by (rule holds_bind_pair) (rule holds_if, simp, rule holds_bind [OF counted_inv], assumption, simp)
qed

lemma process_notification_inv:
  assumes "I s"
  shows "holds (\<lambda>(r, s'). I s') (transport_process_notification env e r s)"
proof -
  have off: "I s1 \<Longrightarrow> holds I (upd_channel d (\<lambda>c. c\<lparr>ch_out_band_mailbox_ready := False\<rparr>) s1)" for s1 d
    by (rule upd_quiet) (simp_all add: quiet_update_def)
  have transition: "holds (\<lambda>(r, s'). I s') (if has_mod_power_domain env
       then do {
         transition \<leftarrow> fwk_id_is_equal (ev_id e) (pd_transition_notification_id env);
         if \<not> transition then Some (FWK_SUCCESS, s)
         else if params_get32 0 (ev_params e) \<noteq> PD_STATE_ON
         then do {
           s \<leftarrow> (if params_get32 0 (ev_params e) = PD_STATE_OFF
             then upd_channel (ev_target_id e) (\<lambda>c. c\<lparr>ch_out_band_mailbox_ready := False\<rparr>) s
             else Some s);
           Some (FWK_SUCCESS, s) }
         else notification_received e s }
       else Some (FWK_SUCCESS, s))"
    using assms notification_received_inv [OF assms]
    by (auto intro!: holds_if holds_bind_any dest: holdsD [OF off [OF assms]])
  have received: "I s1 \<Longrightarrow> holds (\<lambda>(r, s'). I s') (if b then notification_received e s1 else Some (FWK_SUCCESS, s1))" for b s1
    using notification_received_inv by (auto intro: holds_if)
  have initialised: "I s1 \<Longrightarrow> holds (\<lambda>(r, s'). I s') (if b then transport_mailbox_init env d s1 else Some (FWK_SUCCESS, s1))" for b d s1
    using mailbox_init_inv by (auto intro: holds_if)
  show ?thesis
    unfolding transport_process_notification_def
    by (rule holds_bind_any, rule holds_bind_any, rule holds_bind_any, rule holds_bind_pair [OF transition], rule holds_if, simp,
        rule holds_bind_any, rule holds_bind_any, rule holds_bind_pair [OF received], assumption, rule holds_if, simp,
        rule holds_bind_any, rule holds_bind_pair [OF initialised], assumption, simp)
qed

lemma start_inv:
  assumes "I s"
  shows "holds (\<lambda>(r, s'). I s') (transport_start env d s)"
  unfolding transport_start_def
  by (rule holds_bind_any, rule holds_if, simp add: assms, rule holds_bind_any, rule holds_bind [OF counted_inv [OF assms]])
    (intro holds_bind_any holds_bind_pair [where K = I] holds_if await_inv mailbox_init_inv; simp)

text \<open>Every step keeps the assertion, and so does every run.\<close>

lemma step_inv: "transport_step env may s s' \<Longrightarrow> I s \<Longrightarrow> I s'"
proof (induction rule: transport_step.induct)
  case (registers d p f s r s')
  then show ?case by (auto simp: transport_fch_register_callback_def split: if_splits dest: holdsD [OF call_inv])
next
  case (interrupts d s r s')
  then show ?case by (auto simp: transport_trigger_interrupt_def split: if_splits dest: holdsD [OF call_inv])
qed (auto dest: holdsD [OF signal_inv] holdsD [OF write_inv] holdsD [OF transmit_inv] holdsD [OF respond_inv] holdsD [OF release_inv]
    holdsD [OF start_inv] holdsD [OF process_notification_inv] intro: mailbox other)

lemma run_inv: "(transport_step env may)\<^sup>*\<^sup>* s s' \<Longrightarrow> I s \<Longrightarrow> I s'"
  by (induction rule: rtranclp_induct) (auto intro: step_inv)

end

section \<open>The sizes of the buffers\<close>

text \<open>Every out-band channel has buffers of the size of its mailbox.\<close>

definition channel_wf :: "('a tp) transport_env \<Rightarrow> transport_channel_ctx \<Rightarrow> 'a tp \<Rightarrow> bool" where
  "channel_wf env ctx s \<longleftrightarrow> (\<forall>cfg. ch_config ctx = Some cfg \<longrightarrow> is_out_band env cfg \<longrightarrow> buffers_wf env ctx s)"

definition channels_wf :: "('a tp) transport_env \<Rightarrow> 'a tp \<Rightarrow> bool" where
  "channels_wf env s \<longleftrightarrow> (\<forall>ctx\<in>set (tp_channel_ctx_table s). channel_wf env ctx s)"

lemma channel_in_table: "channel_ctx c s = Some ctx \<Longrightarrow> ctx \<in> set (tp_channel_ctx_table s)"
  by (auto simp: channel_ctx_def split: if_splits)

lemma buffers_wf_same: "tp_mailboxes s' = tp_mailboxes s \<Longrightarrow> buffers_wf env y s' = buffers_wf env y s"
  by (auto simp: buffers_wf_def split: option.splits)

lemma channel_wf_same: "tp_mailboxes s' = tp_mailboxes s \<Longrightarrow> channel_wf env y s' = channel_wf env y s"
  by (simp add: channel_wf_def buffers_wf_same [of s' s])

lemma channels_wf_same:
  "channels_wf env s \<Longrightarrow> tp_channel_ctx_table s' = tp_channel_ctx_table s \<Longrightarrow> tp_mailboxes s' = tp_mailboxes s \<Longrightarrow> channels_wf env s'"
  by (simp add: channels_wf_def channel_wf_same [of s' s])

lemma channels_wf_put:
  assumes "channels_wf env s" "channel_wf env x s"
  shows "channels_wf env (with_channel d x s)"
proof -
  have "channel_wf env y s" if "y \<in> set (tp_channel_ctx_table (with_channel d x s))" for y
  proof -
    have "y = x \<or> y \<in> set (tp_channel_ctx_table s)"
      using that set_update_subset_insert by (fastforce simp: with_channel_def)
    then show ?thesis using assms by (auto simp: channels_wf_def)
  qed
  then show ?thesis by (simp add: channels_wf_def channel_wf_same [of "with_channel d x s" s])
qed

lemma channels_wf_with_channel:
  assumes "channels_wf env s" "channel_ctx d s = Some ctx"
    and "ch_config x = ch_config ctx" "ch_max_payload_size x = ch_max_payload_size ctx"
    and "map_option (\<lambda>b. length (tb_payload b)) (ch_in x) = map_option (\<lambda>b. length (tb_payload b)) (ch_in ctx)"
    and "map_option (\<lambda>b. length (tb_payload b)) (ch_out x) = map_option (\<lambda>b. length (tb_payload b)) (ch_out ctx)"
  shows "channels_wf env (with_channel d x s)"
proof -
  have "buffers_wf env x s = buffers_wf env ctx s"
    using assms(3-6) by (auto simp: buffers_wf_def room_def split: option.splits)
  then have x: "channel_wf env x s"
    using assms(1,3) channel_in_table [OF assms(2)] by (simp add: channels_wf_def channel_wf_def)
  then show ?thesis using channels_wf_put [OF assms(1)] by blast
qed

lemma channels_wf_with_mailbox:
  assumes "channels_wf env s" "tp_mailboxes s a = Some m" "length (tb_payload m') = length (tb_payload m)"
  shows "channels_wf env (with_mailbox a m' s)"
proof -
  have "buffers_wf env ctx (with_mailbox a m' s) = buffers_wf env ctx s" for ctx
    using assms(2,3) by (auto simp: buffers_wf_def split: option.splits)
  then show ?thesis using assms(1) by (simp add: channels_wf_def channel_wf_def)
qed

interpretation sizes: transport_invariant env "\<lambda>_. True" "\<lambda>s. neighbours_behave env \<and> channels_wf env s"
  for env :: "('a tp) transport_env"
  by unfold_locales
    (auto simp: quiet_update_def intro: channels_wf_with_channel channels_wf_same channels_wf_with_mailbox)

section \<open>The message of a held channel\<close>

definition same_channel :: "fwk_id \<Rightarrow> fwk_id \<Rightarrow> bool" where
  "same_channel c d \<longleftrightarrow> element_element_idx d = element_element_idx c"

text \<open>The channel is held with the read buffer and configuration of an earlier context.\<close>

definition holds_message :: "fwk_id \<Rightarrow> transport_channel_ctx \<Rightarrow> 'a tp \<Rightarrow> bool" where
  "holds_message c ctx s \<longleftrightarrow> (\<exists>x. channel_ctx c s = Some x \<and> ch_locked x \<and> ch_in x = ch_in ctx \<and> ch_config x = ch_config ctx)"

lemma same_channel_ctx:
  "same_channel c d \<Longrightarrow> channel_ctx c s = Some x \<Longrightarrow> channel_ctx d s = Some y \<Longrightarrow> x = y"
  by (auto simp: same_channel_def channel_ctx_def fwk_id_get_element_idx_def split: if_splits)

lemma same_channel_with: "same_channel c d \<Longrightarrow> with_channel d x s = with_channel c x s"
  by (simp add: same_channel_def with_channel_def)

lemma holds_message_with_channel:
  assumes "holds_message c ctx s" "channel_ctx d s = Some y"
    and "same_channel c d \<Longrightarrow> ch_locked x = ch_locked y \<and> ch_in x = ch_in y \<and> ch_config x = ch_config y"
  shows "holds_message c ctx (with_channel d x s)"
proof (cases "same_channel c d")
  case True
  then show ?thesis using assms same_channel_ctx [OF True]
    by (fastforce simp: holds_message_def same_channel_with [OF True])
next
  case False
  then show ?thesis using assms(1) by (simp add: holds_message_def channel_other same_channel_def)
qed

interpretation held: transport_invariant env "\<lambda>d. \<not> same_channel c d" "\<lambda>s. neighbours_behave env \<and> holds_message c ctx s"
  for env :: "('a tp) transport_env" and c ctx
proof
  show "\<not> same_channel c d"
    if "neighbours_behave env \<and> holds_message c ctx s" "channel_ctx d s = Some x" "\<not> ch_locked x" for s d x
    using that same_channel_ctx by (fastforce simp: holds_message_def)
qed (auto simp: quiet_update_def intro: holds_message_with_channel, auto simp: holds_message_def channel_ctx_def)

section \<open>From the initialisation\<close>

text \<open>The memory of the configured channels: a mailbox holds at least the structure, and an allocated buffer is as long as
  it is asked for.\<close>

definition memory_fits :: "('a tp) transport_env \<Rightarrow> 'a tp \<Rightarrow> bool" where
  "memory_fits env s \<longleftrightarrow> (\<forall>data cfg. env_channel_config env data = Some cfg \<longrightarrow> is_out_band env cfg \<longrightarrow>
    sizeof_transport_buffer \<le> cc_out_band_mailbox_size cfg \<and>
    (\<exists>b m. tp_alloc env (cc_out_band_mailbox_size cfg) = Some b \<and> tp_mailboxes s (cc_out_band_mailbox_address cfg) = Some m \<and>
      length (tb_payload b) = unat (cc_out_band_mailbox_size cfg) - buffer_payload_offset \<and>
      length (tb_payload m) = unat (cc_out_band_mailbox_size cfg) - buffer_payload_offset))"

inductive channels_initialised :: "('a tp) transport_env \<Rightarrow> 'a tp \<Rightarrow> 'a tp \<Rightarrow> bool"
  for env :: "('a tp) transport_env" and s0 :: "'a tp" where
  module: "transport_init n s0 = Some (r, s) \<Longrightarrow> channels_initialised env s0 s"
| element: "channels_initialised env s0 s \<Longrightarrow> transport_channel_init env d data s = Some (FWK_SUCCESS, s') \<Longrightarrow>
    channels_initialised env s0 s'"

lemma transport_init_wf: "transport_init n s0 = Some (r, s) \<Longrightarrow> channels_wf env s \<and> tp_mailboxes s = tp_mailboxes s0"
  by (auto simp: transport_init_def channels_wf_def channel_wf_def transport_channel_ctx_zero_def)

lemma channel_init_wf:
  assumes "channels_wf env s" "memory_fits env s" "transport_channel_init env d data s = Some (FWK_SUCCESS, s')"
  shows "channels_wf env s' \<and> tp_mailboxes s' = tp_mailboxes s"
proof -
  obtain ctx where ctx: "channel_ctx d s = Some ctx"
    using assms(3) by (cases "channel_ctx d s") (auto simp: transport_channel_init_def upd_channel_none)
  obtain cfg where cfg: "env_channel_config env data = Some cfg" "\<not> config_invalid env cfg"
    using assms(3) by (auto simp: transport_channel_init_def split: if_splits option.splits)
  then obtain inb outb sz where buffers: "channel_buffers env cfg = Some (inb, outb, sz)"
    using assms(3) by (cases "channel_buffers env cfg") (auto simp: transport_channel_init_def upd_channel_some ctx fwk_unexpected_def)
  let ?x = "ctx\<lparr>ch_config := Some cfg, ch_id := d, ch_in := inb, ch_out := outb, ch_max_payload_size := sz\<rparr>"
  have s': "s' = with_channel d ?x s"
    using assms(3) cfg buffers by (simp add: transport_channel_init_def upd_channel_some ctx)
  have "channel_wf env ?x s"
  proof -
    have "buffers_wf env ?x s" if out: "is_out_band env cfg"
    proof -
      from assms(2) cfg(1) out obtain b m where fits: "sizeof_transport_buffer \<le> cc_out_band_mailbox_size cfg"
        "tp_alloc env (cc_out_band_mailbox_size cfg) = Some b" "tp_mailboxes s (cc_out_band_mailbox_address cfg) = Some m"
        "length (tb_payload b) = unat (cc_out_band_mailbox_size cfg) - 28"
        "length (tb_payload m) = unat (cc_out_band_mailbox_size cfg) - 28"
        by (fastforce simp: memory_fits_def buffer_payload_offset_def)
      have alloc: "inb = Some b" "outb = Some b" "sz = cc_out_band_mailbox_size cfg - sizeof_transport_buffer"
        using buffers out fits(2) by (auto simp: channel_buffers_def is_out_band_def)
      have "unat sz + 4 = unat (cc_out_band_mailbox_size cfg) - 28"
        using fits(1) by (simp add: alloc unat_sub sizeof_transport_buffer_def word_le_nat_alt)
      then show ?thesis using out fits(3-5) by (simp add: buffers_wf_def room_def alloc)
    qed
    then show ?thesis by (simp add: channel_wf_def)
  qed
  then show ?thesis using channels_wf_put [OF assms(1)] by (simp add: s')
qed

lemma initialised_wf:
  "channels_initialised env s0 s \<Longrightarrow> memory_fits env s0 \<Longrightarrow> channels_wf env s \<and> tp_mailboxes s = tp_mailboxes s0"
proof (induction rule: channels_initialised.induct)
  case (module n r s)
  then show ?case using transport_init_wf by blast
next
  case (element s d data s')
  have "memory_fits env s" using element by (simp add: memory_fits_def)
  then show ?case using channel_init_wf [of env s d data s'] element by simp
qed

section \<open>A held channel\<close>

lemma held_message_same:
  assumes "channel_ctx c s = Some x" "channel_ctx c s' = Some y" "ch_locked x" "ch_locked y"
    and "ch_in y = ch_in x" "ch_config y = ch_config x"
  shows "transport_get_message_header c (Some h) s' = transport_get_message_header c (Some h) s"
    "transport_get_payload c (Some p) s' = transport_get_payload c (Some p) s"
  unfolding transport_get_message_header_def transport_get_payload_def using assms by (simp_all cong: if_cong Option.bind_cong)

end
