(* ===== verification/Tp_Exchange.thy ===== *)
theory Tp_Exchange
  imports Tp_Channel
begin

unbundle bit_operations_syntax

text \<open>
  Messages between two ends of a mailbox: a transmission, its reception at the other end, and the answer.
\<close>

section \<open>Transmission\<close>

definition transmitted :: "u32 \<Rightarrow> u8 list \<Rightarrow> bool \<Rightarrow> mod_transport_buffer \<Rightarrow> mod_transport_buffer" where
  "transmitted h bytes ack m = m\<lparr>tb_message_header := h,
    tb_flags := (if ack then tb_flags m OR MOD_TRANSPORT_MAILBOX_FLAGS_IENABLED_MASK
      else tb_flags m AND NOT MOD_TRANSPORT_MAILBOX_FLAGS_IENABLED_MASK),
    tb_payload := bytes @ drop (length bytes) (tb_payload m), tb_length := sizeof_message_header + of_nat (length bytes),
    tb_status := tb_status m AND NOT MOD_TRANSPORT_MAILBOX_STATUS_FREE_MASK\<rparr>"

lemma transmit_out_band:
  assumes "channel_ctx c s = Some ctx" "buffers_wf env ctx s" "ch_config ctx = Some cfg" "\<not> has_inband env"
    and "tp_mailboxes s (cc_out_band_mailbox_address cfg) = Some m" "length bytes \<le> room ctx" "length bytes < 2 ^ 32"
  shows "transport_transmit env c h (Some bytes) (of_nat (length bytes)) ack s =
    (if tb_status m AND MOD_TRANSPORT_MAILBOX_STATUS_FREE_MASK = 0 then Some (FWK_E_BUSY, s)
     else call_driver env ctx (Trigger_event (cc_driver_id cfg))
       (with_mailbox (cc_out_band_mailbox_address cfg) (transmitted h bytes ack m) s))"
proof -
  have b: "is_out_band env cfg" "length (tb_payload m) = room ctx"
    using assms(2,3,5) by (auto simp: buffers_wf_def split: option.splits)
  then have t: "has_outband env" "cc_transport_type cfg = MOD_TRANSPORT_CHANNEL_TRANSPORT_TYPE_OUT_BAND" "has_messages cfg"
    by (auto simp: is_out_band_def has_messages_def)
  have n: "unat (of_nat (length bytes) :: u32) = length bytes" using assms(7) by (simp add: unat_of_nat)
  have copy: "(if (of_nat (length bytes) :: u32) \<noteq> 0 then copy_payload 0 bytes (unat (of_nat (length bytes) :: u32)) b else Some b) =
      Some (b\<lparr>tb_payload := bytes @ drop (length bytes) (tb_payload b)\<rparr>)" if "tb_payload b = tb_payload m" for b
  proof (cases "bytes = []")
    case False
    then have "(of_nat (length bytes) :: u32) \<noteq> 0" using n by (metis length_0_conv unat_0)
    then show ?thesis using that assms(6) b(2) unfolding n by (simp add: copy_payload_some)
  qed simp
  have buffer: "transmit_buffer env c cfg s = Some (if tb_status m AND MOD_TRANSPORT_MAILBOX_STATUS_FREE_MASK = 0
      then Inl FWK_E_BUSY else Inr (Mailbox (cc_out_band_mailbox_address cfg)), s)"
    by (simp add: transmit_buffer_def t assms(5))
  show ?thesis
    using t(3) assms(4,5) by (simp add: transport_transmit_def assms(1,3) buffer copy transmitted_def Let_def del: word_of_nat_eq_0_iff)
qed

section \<open>Both ends of a mailbox\<close>

text \<open>The service of a firmware channel takes note of a message and leaves the channels alone.\<close>

definition service_takes_note :: "('a tp) transport_env \<Rightarrow> fwk_id \<Rightarrow> bool" where
  "service_takes_note env service_id \<longleftrightarrow> (\<forall>s. \<exists>s'. firmware_signal_message env service_id s = Some (FWK_SUCCESS, s') \<and>
    tp_channel_ctx_table s' = tp_channel_ctx_table s \<and> tp_mailboxes s' = tp_mailboxes s)"

text \<open>An end of a firmware channel that may take a message.\<close>

definition channel_end ::
  "('a tp) transport_env \<Rightarrow> fwk_id \<Rightarrow> transport_channel_ctx \<Rightarrow> mod_transport_channel_config \<Rightarrow> 'a tp \<Rightarrow> bool" where
  "channel_end env c ctx cfg s \<longleftrightarrow> channel_ctx c s = Some ctx \<and> buffers_wf env ctx s \<and> ch_config ctx = Some cfg \<and>
    ch_driver_api ctx \<and> ch_out_band_mailbox_ready ctx \<and> \<not> ch_locked ctx \<and> \<not> ch_is_scmi ctx \<and>
    ch_transport_signal ctx = Some Firmware_signal_api \<and> service_takes_note env (ch_service_id ctx) \<and>
    tp_agent env = (\<lambda>_ _ b. b)"

definition message_of :: "fwk_id \<Rightarrow> 'a tp \<Rightarrow> (u32 \<times> u8 list) option" where
  "message_of c s = (case (transport_get_message_header c (Some 0) s, transport_get_payload c (Some ([], 0)) s) of
      (Some (status, Some h), Some (status', Some (area, sz))) \<Rightarrow>
        if status = FWK_SUCCESS \<and> status' = FWK_SUCCESS then Some (h, take (unat sz) area) else None
    | _ \<Rightarrow> None)"

lemma message_of_locked:
  assumes "channel_ctx c s = Some ctx" "ch_config ctx = Some cfg" "has_messages cfg" "ch_locked ctx" "ch_in ctx = Some inb"
  shows "message_of c s = Some (tb_message_header inb, take (unat (tb_length inb - sizeof_message_header)) (tb_payload inb))"
  using assms by (simp add: message_of_def transport_get_message_header_def transport_get_payload_def)

text \<open>A signal at an end whose mailbox holds a message of valid length that it owns.\<close>

lemma signal_delivers:
  assumes "channel_end env c ctx cfg s" "tp_mailboxes s (cc_out_band_mailbox_address cfg) = Some m" "owns_mailbox cfg m"
    and "tb_length m = sizeof_message_header + of_nat (length bytes)" "take (length bytes) (tb_payload m) = bytes"
    and "length bytes \<le> unat (ch_max_payload_size ctx)" "length bytes < 2 ^ 32 - 4"
  shows "\<exists>s' inb outb. transport_signal_message env c s = Some (FWK_SUCCESS, s') \<and> ch_in ctx = Some inb \<and> ch_out ctx = Some outb \<and>
    channel_ctx c s' = Some (received ctx inb outb m m) \<and> tp_mailboxes s' = tp_mailboxes s \<and>
    buffers_wf env (received ctx inb outb m m) s' \<and> message_of c s' = Some (tb_message_header m, bytes)"
proof -
  have e: "channel_ctx c s = Some ctx" "buffers_wf env ctx s" "ch_config ctx = Some cfg" "ch_out_band_mailbox_ready ctx"
    "\<not> ch_locked ctx" "\<not> ch_is_scmi ctx" "ch_transport_signal ctx = Some Firmware_signal_api"
    "service_takes_note env (ch_service_id ctx)" "tp_agent env = (\<lambda>_ _ b. b)"
    using assms(1) by (simp_all add: channel_end_def)
  then obtain inb outb where b: "ch_in ctx = Some inb" "ch_out ctx = Some outb" "is_out_band env cfg"
    and len: "length (tb_payload inb) = room ctx" "length (tb_payload outb) = room ctx" "length (tb_payload m) = room ctx"
    using assms(2) by (auto elim!: buffers_wfE)
  have n: "unat (of_nat (length bytes) :: u32) = length bytes" using assms(7) by (simp add: unat_of_nat)
  have size: "tb_length m - sizeof_message_header = of_nat (length bytes)" by (simp add: assms(4))
  have "unat (tb_length m) = 4 + length bytes"
    using assms(7) n by (simp add: assms(4) sizeof_message_header_def unat_word_ariths)
  then have "\<not> tb_length m < sizeof_message_header" by (simp add: word_less_nat_alt sizeof_message_header_def)
  then have valid: "\<not> length_invalid ctx m" using assms(6) n by (simp add: length_invalid_def size word_less_nat_alt)
  let ?ctx = "received ctx inb outb m m"
  let ?S = "with_mailbox (cc_out_band_mailbox_address cfg) m (with_channel c ?ctx s)"
  have "agent_keeps_size env" by (simp add: agent_keeps_size_def e(9))
  then have signal: "transport_signal_message env c s = signal_service env ctx False ?S"
    by (simp add: signal_is_incoming_message [OF e(1,2)] incoming_message_def e b assms(2,3) valid Let_def)
  obtain s' where s': "firmware_signal_message env (ch_service_id ctx) ?S = Some (FWK_SUCCESS, s')"
    "tp_channel_ctx_table s' = tp_channel_ctx_table ?S" "tp_mailboxes s' = tp_mailboxes ?S"
    using e(8) unfolding service_takes_note_def by blast
  have "transport_signal_message env c s = Some (FWK_SUCCESS, s')"
    using e(6,7) s'(1) by (simp add: signal signal_service_def call_signal_message_def)
  moreover have "channel_ctx c s' = channel_ctx c ?S" by (simp only: channel_ctx_def s'(2))
  then have ctx: "channel_ctx c s' = Some ?ctx" by (simp add: e(1))
  moreover have boxes: "tp_mailboxes s' = tp_mailboxes s" using assms(2) by (simp add: s'(3) fun_upd_idem)
  moreover have "buffers_wf env ?ctx s'"
    using len valid assms(6) b(3)
    by (simp add: buffers_wf_def received_def Let_def e(3) boxes assms(2) room_def size n received_payload_def structure_of_def error_bit_def)
  moreover have "message_of c s' = Some (tb_message_header m, bytes)"
  proof -
    let ?in = "received_payload (length bytes) m (structure_of inb m)"
    have "has_messages cfg" using b(3) by (simp add: is_out_band_def has_messages_def)
    moreover have "ch_in ?ctx = Some ?in" "ch_config ?ctx = Some cfg" "ch_locked ?ctx"
      by (simp_all add: received_def Let_def valid e(3) size n)
    moreover have "tb_message_header ?in = tb_message_header m" "tb_length ?in = tb_length m"
      by (simp_all add: received_payload_def structure_of_def)
    moreover have "take (length bytes) (tb_payload ?in) = bytes"
      using assms(5,6) len(3) by (simp add: received_payload_def room_def)
    ultimately show ?thesis using message_of_locked [OF ctx] by (simp add: size n)
  qed
  ultimately show ?thesis using b(1,2) by blast
qed

text \<open>The other end sees what has been written into the mailbox.\<close>

definition same_mailbox :: "mod_transport_channel_config \<Rightarrow> 'a tp \<Rightarrow> mod_transport_channel_config \<Rightarrow> 'b tp \<Rightarrow> 'b tp" where
  "same_mailbox cfg s cfg' s' = s'\<lparr>tp_mailboxes := (tp_mailboxes s')(cc_out_band_mailbox_address cfg' :=
    tp_mailboxes s (cc_out_band_mailbox_address cfg))\<rparr>"

lemma same_mailbox_some:
  "tp_mailboxes s (cc_out_band_mailbox_address cfg) = Some m \<Longrightarrow>
    same_mailbox cfg s cfg' s' = with_mailbox (cc_out_band_mailbox_address cfg') m s'"
  by (simp add: same_mailbox_def with_mailbox_def)

lemma call_driver_frame:
  "ch_driver_api ctx \<Longrightarrow> \<exists>status s'. call_driver env ctx x s = Some (status, s') \<and> tp_channel_ctx_table s' = tp_channel_ctx_table s \<and>
    tp_mailboxes s' = tp_mailboxes s"
  by (simp add: call_driver_def Let_def)

lemma channel_end_frame:
  assumes "channel_end env c ctx cfg s" "tp_channel_ctx_table s' = tp_channel_ctx_table s"
    and "tp_mailboxes s' (cc_out_band_mailbox_address cfg) = Some m" "length (tb_payload m) = room ctx"
  shows "channel_end env c ctx cfg s'"
  using assms by (auto simp: channel_end_def channel_ctx_def buffers_wf_def split: option.splits)

lemma free_bit:
  fixes w :: u32
  shows "(w OR MOD_TRANSPORT_MAILBOX_STATUS_FREE_MASK) AND MOD_TRANSPORT_MAILBOX_STATUS_FREE_MASK \<noteq> 0"
    "(w AND NOT MOD_TRANSPORT_MAILBOX_STATUS_FREE_MASK) AND MOD_TRANSPORT_MAILBOX_STATUS_FREE_MASK = 0"
proof -
  have "bit ((w OR MOD_TRANSPORT_MAILBOX_STATUS_FREE_MASK) AND MOD_TRANSPORT_MAILBOX_STATUS_FREE_MASK) 0"
    by (simp add: mailbox_masks bit_simps)
  then show "(w OR MOD_TRANSPORT_MAILBOX_STATUS_FREE_MASK) AND MOD_TRANSPORT_MAILBOX_STATUS_FREE_MASK \<noteq> 0" by auto
  show "(w AND NOT MOD_TRANSPORT_MAILBOX_STATUS_FREE_MASK) AND MOD_TRANSPORT_MAILBOX_STATUS_FREE_MASK = 0"
    by (rule bit_eqI) (auto simp: mailbox_masks bit_simps)
qed

text \<open>A request and its answer between two processors.\<close>

lemma request_and_answer:
  assumes A: "channel_end envA a ctxA cfgA sA" "cc_channel_type cfgA = MOD_TRANSPORT_CHANNEL_TYPE_REQUESTER" "\<not> has_inband envA"
    and B: "channel_end envB b ctxB cfgB sB" "cc_channel_type cfgB = MOD_TRANSPORT_CHANNEL_TYPE_COMPLETER" "\<not> has_inband envB"
    and mailbox: "tp_mailboxes sA (cc_out_band_mailbox_address cfgA) = Some m" "tb_status m AND MOD_TRANSPORT_MAILBOX_STATUS_FREE_MASK \<noteq> 0"
    and size: "room ctxB = room ctxA" "length request \<le> unat (ch_max_payload_size ctxA)" "length answer \<le> unat (ch_max_payload_size ctxA)"
      "unat (ch_max_payload_size ctxA) < 2 ^ 32 - 4"
  shows "\<exists>statusA sA1 sB1 statusB sB2 sA2.
    transport_transmit envA a h (Some request) (of_nat (length request)) ack sA = Some (statusA, sA1) \<and>
    transport_signal_message envB b (same_mailbox cfgA sA1 cfgB sB) = Some (FWK_SUCCESS, sB1) \<and>
    message_of b sB1 = Some (h, request) \<and>
    transport_respond envB b (Some answer) (of_nat (length answer)) sB1 = Some (statusB, sB2) \<and>
    transport_signal_message envA a (same_mailbox cfgB sB2 cfgA sA1) = Some (FWK_SUCCESS, sA2) \<and>
    message_of a sA2 = Some (h, answer)"
proof -
  let ?aA = "cc_out_band_mailbox_address cfgA" and ?aB = "cc_out_band_mailbox_address cfgB"
  have a: "channel_ctx a sA = Some ctxA" "buffers_wf envA ctxA sA" "ch_config ctxA = Some cfgA" "ch_driver_api ctxA"
    using A(1) by (simp_all add: channel_end_def)
  have maxB: "ch_max_payload_size ctxB = ch_max_payload_size ctxA" using size(1) by (simp add: room_def word_unat_eq_iff)
  have n: "length request \<le> room ctxA" "length answer \<le> room ctxA" "length request < 2 ^ 32 - 4" "length answer < 2 ^ 32 - 4"
    using size by (simp_all add: room_def)
  have m: "length (tb_payload m) = room ctxA" using a(2,3) mailbox(1) by (auto simp: buffers_wf_def split: option.splits)
  let ?m1 = "transmitted h request ack m"
  have m1: "length (tb_payload ?m1) = room ctxA" using n(1) m by (simp add: transmitted_def)
  have "transport_transmit envA a h (Some request) (of_nat (length request)) ack sA =
      call_driver envA ctxA (Trigger_event (cc_driver_id cfgA)) (with_mailbox ?aA ?m1 sA)"
    using transmit_out_band [OF a(1-3) A(3) mailbox(1) n(1), of h ack] n(3) mailbox(2) by simp
  then obtain statusA sA1 where sA1: "transport_transmit envA a h (Some request) (of_nat (length request)) ack sA = Some (statusA, sA1)"
    "tp_channel_ctx_table sA1 = tp_channel_ctx_table sA" "tp_mailboxes sA1 ?aA = Some ?m1"
    using call_driver_frame [OF a(4)] by fastforce
  let ?sB = "with_mailbox ?aB ?m1 sB"
  have endB: "channel_end envB b ctxB cfgB ?sB"
    by (rule channel_end_frame [OF B(1), of _ ?m1]) (simp_all add: m1 size(1))
  have "owns_mailbox cfgB ?m1" using free_bit(2) by (simp add: owns_mailbox_def B(2) transmitted_def)
  from signal_delivers [OF endB _ this, of request] size(2) n(3) maxB
  obtain sB1 inb outb where sB1: "transport_signal_message envB b ?sB = Some (FWK_SUCCESS, sB1)" "ch_out ctxB = Some outb"
    "channel_ctx b sB1 = Some (received ctxB inb outb ?m1 ?m1)" "tp_mailboxes sB1 ?aB = Some ?m1"
    "buffers_wf envB (received ctxB inb outb ?m1 ?m1) sB1" "message_of b sB1 = Some (h, request)"
    by (auto simp: transmitted_def)
  let ?ctx = "received ctxB inb outb ?m1 ?m1"
  obtain out' where out': "ch_out ?ctx = Some out'" "tb_message_header out' = h"
    by (simp add: received_def Let_def error_bit_def structure_of_def transmitted_def)
  have ctx: "ch_config ?ctx = Some cfgB" "ch_driver_api ?ctx" "room ?ctx = room ctxA"
    using B(1) size(1) by (simp_all add: received_def channel_end_def room_def Let_def)
  have na: "unat (of_nat (length answer) :: u32) = length answer" using n(4) by (simp add: unat_of_nat)
  let ?m2 = "response_in ?m1 out' answer (of_nat (length answer))"
  have "length (tb_payload out') = room ctxA"
    using sB1(5) out'(1) ctx by (auto simp: buffers_wf_def split: option.splits)
  then have m2: "length (tb_payload ?m2) = room ctxA" using n(2) m1 by (simp add: response_in_def na room_def)
  obtain statusB sB2 where sB2: "transport_respond envB b (Some answer) (of_nat (length answer)) sB1 = Some (statusB, sB2)"
    "tp_mailboxes sB2 ?aB = Some ?m2"
    using respond_out_band [OF sB1(3,5) ctx(1) out'(1) sB1(4), of "of_nat (length answer)" answer "Some answer"] n(2) na ctx
      call_driver_frame [OF ctx(2), of envB "Trigger_event (cc_driver_id cfgB)"]
    by (fastforce simp: Let_def split: if_splits)
  let ?sA = "with_mailbox ?aA ?m2 sA1"
  have endA: "channel_end envA a ctxA cfgA ?sA"
    by (rule channel_end_frame [OF A(1), of _ ?m2]) (simp_all add: m2 sA1(2))
  have "owns_mailbox cfgA ?m2" using free_bit(1) by (simp add: owns_mailbox_def A(2) response_in_def)
  from signal_delivers [OF endA _ this, of answer] size(3) n(4)
  obtain sA2 where sA2: "transport_signal_message envA a ?sA = Some (FWK_SUCCESS, sA2)" "message_of a sA2 = Some (h, answer)"
    by (auto simp: response_in_def na out'(2))
  show ?thesis using sA1(1) sB1(1,6) sB2(1) sA2
    by (auto simp: same_mailbox_some [OF sA1(3)] same_mailbox_some [OF sB2(2)])
qed

end
