(* ===== verification/Tp_Scmi.thy ===== *)
theory Tp_Scmi
  imports Tp_Channel
begin

unbundle bit_operations_syntax

text \<open>
  The SCMI module over the transport module: a request of an agent in a shared mailbox, the signal of the driver, the
  event of the service, the calls back into the transport, and the answer in the mailbox.
\<close>

section \<open>The SCMI module over the transport\<close>

text \<open>What the SCMI module reads and the statuses it gets are those of the transport, after the calls it has made since
  the state \<open>s0\<close>. A call that stops the transport has no status.\<close>

definition transport_after :: "('a tp) transport_env \<Rightarrow> 'a tp \<Rightarrow> scmi_call list \<Rightarrow> (int \<times> 'a tp) option" where
  "transport_after env s0 calls = transport_run env (drop (length (scmi_calls s0)) calls) (FWK_SUCCESS, s0)"

definition scmi_over_transport :: "('a tp) transport_env \<Rightarrow> 'a tp \<Rightarrow> ('a tp) scmi_env" where
  "scmi_over_transport env s0 = (env_scmi env)\<lparr>
    tr_status := (\<lambda>calls. case transport_after env s0 calls of Some (status, _) \<Rightarrow> status | None \<Rightarrow> FWK_E_PANIC),
    tr_get_message_header := (\<lambda>c calls.
      case do { (_, s) \<leftarrow> transport_after env s0 calls; transport_get_message_header c (Some 0) s } of
        Some (status, Some h) \<Rightarrow> (status, h) | _ \<Rightarrow> (FWK_E_PANIC, 0)),
    tr_get_payload := (\<lambda>c calls.
      case do { (_, s) \<leftarrow> transport_after env s0 calls; transport_get_payload c (Some ([], 0)) s } of
        Some (status, Some (area, sz)) \<Rightarrow> (status, Some (take (unat sz) area)) | _ \<Rightarrow> (FWK_E_PANIC, None)),
    tr_get_max_payload_size := (\<lambda>c calls.
      case do { (_, s) \<leftarrow> transport_after env s0 calls; transport_get_max_payload_size c (Some 0) s } of
        Some (status, Some sz) \<Rightarrow> (status, sz) | _ \<Rightarrow> (FWK_E_PANIC, 0))\<rparr>"

lemma scmi_over_transport_fields [simp]:
  "has_mod_resource_perms (scmi_over_transport env s0) = has_mod_resource_perms (env_scmi env)"
  "has_scmi_notifications (scmi_over_transport env s0) = has_scmi_notifications (env_scmi env)"
  "env_res_plat (scmi_over_transport env s0) = env_res_plat (env_scmi env)"
  by (simp_all add: scmi_over_transport_def)

section \<open>The event of a signal\<close>

text \<open>The event that a signal put into the queue of its context.\<close>

definition queued_for :: "fwk_id \<Rightarrow> addr \<Rightarrow> 'a fwk_state_scheme \<Rightarrow> 'a fwk_state_scheme \<Rightarrow> bool" where
  "queued_for target a s s' \<longleftrightarrow> ev_target_id (events s' a) = target \<and> \<not> ev_is_response (events s' a) \<and>
    \<not> ev_is_notification (events s' a) \<and>
    (if interrupt_context s then isr_event_queue s' = isr_event_queue s @ [a] else event_queue s' = event_queue s @ [a])"

lemma light_event_queued:
  assumes "fwk_put_event_light (Some l) s = Some ((FWK_SUCCESS, r), s')"
  shows "\<exists>a. queued_for (evl_target_id l) a s s'"
proof -
  obtain intr src where resolved: "resolve_source (evl_source_id l) s = Some (Inr (intr, src))"
    and put: "put_event (FWK_EVENT_TYPE_LIGHT (l\<lparr>evl_source_id := src\<rparr>)) intr s = Some ((FWK_SUCCESS, FWK_EVENT_TYPE_LIGHT (l\<lparr>evl_source_id := src\<rparr>)), s')"
    using assms
    by (auto simp: fwk_put_event_light_def put_event_def Let_def resolve_source_def split: if_splits sum.splits prod.splits event_arg.splits)
  have intr: "intr = (if interrupt_context s then INTERRUPT_STATE else NOT_INTERRUPT_STATE)"
    using resolved by (auto simp: resolve_source_def Let_def split: if_splits)
  obtain a where "a = fst (fwk_list_pop_head (free_event_queue s))"
    and "s' = enqueue_event a intr (s\<lparr>free_event_queue := snd (fwk_list_pop_head (free_event_queue s)),
        events := (events s)(a := (events s a)\<lparr>ev_id := evl_id l, ev_source_id := src, ev_target_id := evl_target_id l,
          ev_is_notification := False, ev_response_requested := evl_response_requested l,
          ev_is_delayed_response := False, ev_is_response := False\<rparr>)\<rparr>)"
    using put by (auto simp: put_event_def allocate_for_def duplicate_event_def Let_def split: prod.splits if_splits)
  then show ?thesis
    by (intro exI [of _ a]) (auto simp: queued_for_def enqueue_event_def intr fwk_list_push_tail_def)
qed

lemma element_name_frame:
  assumes "event_frame s' = event_frame s"
  shows "fwk_module_get_element_name i s' = fwk_module_get_element_name i s"
proof (cases "fwk_id_get_module_idx i")
  case (Some m)
  note sk = event_frame_skeleton [OF assms]
  show ?thesis
  proof (cases "unat m < length (module_ctx_table s)")
    case True
    note n = skeleton_nth [OF sk True]
    have len: "length (mc_element_ctx_table (module_ctx_table s' ! unat m)) = length (mc_element_ctx_table (module_ctx_table s ! unat m))"
      using map_eq_imp_length_eq [OF n(7)] .
    have "el_name (ec_desc (mc_element_ctx_table (module_ctx_table s' ! unat m) ! e)) =
        el_name (ec_desc (mc_element_ctx_table (module_ctx_table s ! unat m) ! e))"
      if "e < length (mc_element_ctx_table (module_ctx_table s ! unat m))" for e
      using skeleton_element(3) [OF n(7) that] by simp
    then show ?thesis using Some True n(5) len skeleton_length [OF sk]
      by (simp add: fwk_module_get_element_name_def fwk_module_is_valid_element_id_def fwk_module_get_element_ctx_def
          fwk_module_get_ctx_def Let_def event_frameD(1) [OF assms] cong: if_cong option.case_cong Option.bind_cong)
  next
    case False
    then show ?thesis using Some skeleton_length [OF sk]
      by (simp add: fwk_module_get_element_name_def fwk_module_is_valid_element_id_def event_frameD(1) [OF assms]
          cong: if_cong Option.bind_cong)
  qed
qed (simp add: fwk_module_get_element_name_def fwk_module_is_valid_element_id_def fwk_module_get_element_ctx_def
    fwk_module_get_ctx_def event_frameD(1) [OF assms] cong: if_cong Option.bind_cong)

section \<open>From the request to the answer\<close>

text \<open>A request of an agent that the driver may signal: the mailbox of a channel of the platform holds a message of
  valid length, and the channel serves the SCMI service.\<close>

definition request_pending ::
  "('a tp) transport_env \<Rightarrow> fwk_id \<Rightarrow> transport_channel_ctx \<Rightarrow> mod_transport_channel_config \<Rightarrow> mod_transport_buffer \<Rightarrow> 'a tp \<Rightarrow> bool" where
  "request_pending env c ctx cfg m s \<longleftrightarrow> channel_ctx c s = Some ctx \<and> buffers_wf env ctx s \<and>
    ch_config ctx = Some cfg \<and> cc_channel_type cfg = MOD_TRANSPORT_CHANNEL_TYPE_COMPLETER \<and> ch_driver_api ctx \<and>
    ch_out_band_mailbox_ready ctx \<and> \<not> ch_locked ctx \<and> 24 \<le> unat (ch_max_payload_size ctx) \<and>
    has_mod_scmi env \<and> ch_transport_signal ctx = Some Scmi_signal_api \<and>
    tp_mailboxes s (cc_out_band_mailbox_address cfg) = Some m \<and>
    tb_status m AND MOD_TRANSPORT_MAILBOX_STATUS_FREE_MASK = 0 \<and> \<not> length_invalid ctx m"

definition request_payload :: "mod_transport_buffer \<Rightarrow> u8 list" where
  "request_payload m = take (unat (tb_length m - sizeof_message_header)) (tb_payload m)"

text \<open>The parts of the state that the SCMI module looks at.\<close>

lemma base_served_cong:
  assumes "scmi_ctx s' = scmi_ctx s" "res_perms_state s' = res_perms_state s"
    and "fwk_module_get_element_name sid s' = fwk_module_get_element_name sid s"
  shows "base_served env sid s' = base_served env sid s" "base_bound sid s' = base_bound sid s"
    "transport_of sid s' = transport_of sid s"
proof -
  have ctx: "service_ctx sid s' = service_ctx sid s" by (simp add: service_ctx_def assms(1))
  have "service_ready sid s' = service_ready sid s" by (simp add: service_ready_def ctx assms)
  moreover have "agent_id_of sid s' = agent_id_of sid s" by (simp add: agent_id_of_def ctx)
  moreover have "agent_known a s' = agent_known a s" for a by (simp add: agent_known_def assms(1) cong: option.case_cong)
  ultimately show "base_served env sid s' = base_served env sid s" by (simp add: base_served_def assms)
  show "base_bound sid s' = base_bound sid s" by (simp add: base_bound_def ctx assms(1))
  show "transport_of sid s' = transport_of sid s" by (simp add: transport_of_def ctx)
qed

text \<open>The signal: the event of the service is queued, the channel is locked with the message in its read buffer.\<close>

lemma signal_queues_request:
  assumes "request_pending env c ctx cfg m s" "tp_agent env = (\<lambda>_ _ b. b)"
    and "transport_signal_message env c s = Some (FWK_SUCCESS, s1)"
  shows "\<exists>a inb outb. queued_for (ch_service_id ctx) a s s1 \<and> ch_in ctx = Some inb \<and> ch_out ctx = Some outb \<and>
    channel_ctx c s1 = Some (received ctx inb outb m m) \<and> tp_mailboxes s1 = tp_mailboxes s \<and>
    scmi_ctx s1 = scmi_ctx s \<and> scmi_calls s1 = scmi_calls s \<and> res_perms_state s1 = res_perms_state s \<and> dbg s1 = dbg s \<and>
    fwk_module_get_element_name sid s1 = fwk_module_get_element_name sid s"
proof -
  from assms(1) obtain inb outb where b: "channel_ctx c s = Some ctx" "buffers_wf env ctx s" "ch_config ctx = Some cfg"
    "ch_in ctx = Some inb" "ch_out ctx = Some outb" "tp_mailboxes s (cc_out_band_mailbox_address cfg) = Some m"
    by (auto simp: request_pending_def elim: buffers_wfE)
  let ?S = "with_mailbox (cc_out_band_mailbox_address cfg) m (with_channel c (received ctx inb outb m m) s)"
  have "agent_keeps_size env" by (simp add: agent_keeps_size_def assms(2))
  then have "transport_signal_message env c s = signal_service env ctx False ?S"
    using assms(1) by (simp add: signal_is_incoming_message [OF b(1,2)] incoming_message_def request_pending_def b assms(2)
        owns_mailbox_def Let_def)
  then have "signal_service env ctx False ?S = Some (FWK_SUCCESS, s1)" using assms(3) by simp
  then have "\<exists>r. fwk_put_event_light (Some \<lparr>evl_source_id = FWK_ID_MODULE (env_scmi_idx (env_scmi env)), evl_target_id = ch_service_id ctx,
      evl_id = FWK_ID_EVENT (env_scmi_idx (env_scmi env)) 0, evl_response_requested = False\<rparr>) ?S = Some ((FWK_SUCCESS, r), s1)"
    using assms(1) by (auto simp: signal_service_def request_pending_def call_signal_message_def signal_message_def split: if_splits)
  then obtain r l where put: "fwk_put_event_light (Some l) ?S = Some ((FWK_SUCCESS, r), s1)" "evl_target_id l = ch_service_id ctx"
    by auto
  note frame = fwk_put_event_frame(2) [OF put(1)]
  obtain a where "queued_for (ch_service_id ctx) a ?S s1" using light_event_queued [OF put(1)] put(2) by auto
  then have "queued_for (ch_service_id ctx) a s s1" by (simp add: queued_for_def with_mailbox_def with_channel_def)
  moreover have more: "fwk_state.more s1 = fwk_state.more ?S" using event_frameD(10) [OF frame] .
  have tables: "tp_channel_ctx_table s1 = tp_channel_ctx_table ?S" "tp_mailboxes s1 = tp_mailboxes ?S" "scmi_ctx s1 = scmi_ctx ?S"
    "scmi_calls s1 = scmi_calls ?S" "res_perms_state s1 = res_perms_state ?S"
    using more by (cases s1; cases ?S; simp)+
  have "channel_ctx c s1 = channel_ctx c ?S" by (simp only: channel_ctx_def tables)
  then have "channel_ctx c s1 = Some (received ctx inb outb m m)" using b(1) by simp
  moreover have "tp_mailboxes s1 = tp_mailboxes s" using tables(2) b(6) by (simp add: fun_upd_idem)
  moreover have "scmi_ctx s1 = scmi_ctx s" "scmi_calls s1 = scmi_calls s" "res_perms_state s1 = res_perms_state s"
    using tables by (simp_all add: with_mailbox_def with_channel_def)
  moreover have "dbg s1 = dbg s" using event_frameD(1) [OF frame] by simp
  moreover have "fwk_module_get_element_name sid s1 = fwk_module_get_element_name sid s"
    using element_name_frame [OF frame, of sid]
    by (simp add: with_mailbox_def with_channel_def fwk_module_get_element_name_def fwk_module_is_valid_element_id_def
      fwk_module_get_element_ctx_def fwk_module_get_ctx_def cong: if_cong)
  ultimately show ?thesis using b by blast
qed

text \<open>What the SCMI module reads while the message is in the read buffer.\<close>

lemma reads_over_transport:
  assumes "channel_ctx c s1 = Some ctx'" "ch_locked ctx'" "ch_config ctx' = Some cfg" "has_messages cfg" "ch_in ctx' = Some inb"
  shows "tr_get_message_header (scmi_over_transport env s1) c (scmi_calls s1) = (FWK_SUCCESS, tb_message_header inb)"
    and "tr_get_payload (scmi_over_transport env s1) c (scmi_calls s1) =
      (FWK_SUCCESS, Some (take (unat (tb_length inb - sizeof_message_header)) (tb_payload inb)))"
    and "tr_get_max_payload_size (scmi_over_transport env s1) c (scmi_calls s1) = (FWK_SUCCESS, ch_max_payload_size ctx')"
  using assms by (simp_all add: scmi_over_transport_def transport_after_def transport_get_message_header_def
      transport_get_payload_def transport_get_max_payload_size_def)

lemma length_valid_payload: "\<not> length_invalid ctx m \<Longrightarrow> unat (tb_length m - sizeof_message_header) \<le> unat (ch_max_payload_size ctx)"
  by (simp add: length_invalid_def word_le_nat_alt not_less)

lemma request_answered:
  assumes "request_pending env c ctx cfg m s" "tp_agent env = (\<lambda>_ _ b. b)"
    and "transport_signal_message env c s = Some (FWK_SUCCESS, s1)"
    and "base_served (env_scmi env) (ch_service_id ctx) s" "base_bound (ch_service_id ctx) s" "transport_of (ch_service_id ctx) s = c"
    and "read_protocol_id (tb_message_header m) = ucast MOD_SCMI_PROTOCOL_ID_BASE"
    and "ev_target_id event = ch_service_id ctx"
  shows "if stops_platform (scmi_over_transport env s1) (ch_service_id ctx) (tb_message_header m) (request_payload m) s1
    then scmi_process_event (scmi_over_transport env s1) event resp s1 = None
    else \<exists>s2 status s3 reply bytes ctx'.
      scmi_process_event (scmi_over_transport env s1) event resp s1 = Some ((FWK_SUCCESS, resp), s2) \<and>
      transport_after env s1 (scmi_calls s2) = Some (status, s3) \<and>
      tp_mailboxes s3 (cc_out_band_mailbox_address cfg) = Some reply \<and>
      take (length bytes) (tb_payload reply) = bytes \<and>
      (\<exists>old. deliver old (drop (length (scmi_calls s1)) (scmi_calls s2)) = Some bytes) \<and>
      tb_length reply = sizeof_message_header + of_nat (length bytes) \<and>
      tb_message_header reply = tb_message_header m \<and>
      tb_status reply = tb_status m AND NOT MOD_TRANSPORT_MAILBOX_STATUS_ERROR_MASK OR MOD_TRANSPORT_MAILBOX_STATUS_FREE_MASK \<and>
      channel_ctx c s3 = Some ctx' \<and> \<not> ch_locked ctx' \<and> buffers_wf env ctx' s3"
proof -
  let ?sid = "ch_service_id ctx" and ?senv = "scmi_over_transport env s1"
  from signal_queues_request [OF assms(1-3), of ?sid]
  obtain inb outb where s1: "ch_in ctx = Some inb" "ch_out ctx = Some outb"
    "channel_ctx c s1 = Some (received ctx inb outb m m)" "tp_mailboxes s1 = tp_mailboxes s"
    "scmi_ctx s1 = scmi_ctx s" "scmi_calls s1 = scmi_calls s" "res_perms_state s1 = res_perms_state s"
    "fwk_module_get_element_name ?sid s1 = fwk_module_get_element_name ?sid s" by blast
  let ?ctx = "received ctx inb outb m m"
  let ?n = "unat (tb_length m - sizeof_message_header)"
  have p: "buffers_wf env ctx s" "ch_config ctx = Some cfg" "ch_driver_api ctx" "\<not> length_invalid ctx m"
    "tp_mailboxes s (cc_out_band_mailbox_address cfg) = Some m" "24 \<le> unat (ch_max_payload_size ctx)"
    using assms(1) by (simp_all add: request_pending_def)
  then have len: "length (tb_payload inb) = room ctx" "length (tb_payload outb) = room ctx" "length (tb_payload m) = room ctx"
    "is_out_band env cfg"
    using s1(1,2) by (auto simp: buffers_wf_def)
  then have n: "?n \<le> length (tb_payload m)" using length_valid_payload [OF p(4)] by (simp add: room_def)
  let ?in = "received_payload ?n m (structure_of inb m)" and ?out = "error_bit False (structure_of outb (structure_of inb m))"
  have ctx: "ch_locked ?ctx" "ch_config ?ctx = Some cfg" "ch_in ?ctx = Some ?in" "ch_out ?ctx = Some ?out" "ch_driver_api ?ctx"
    "ch_max_payload_size ?ctx = ch_max_payload_size ctx"
    using p by (simp_all add: received_def Let_def)
  have fields: "tb_message_header ?in = tb_message_header m" "tb_length ?in = tb_length m" "take ?n (tb_payload ?in) = request_payload m"
    "tb_message_header ?out = tb_message_header m" "tb_status ?out = tb_status m AND NOT MOD_TRANSPORT_MAILBOX_STATUS_ERROR_MASK"
    using n by (simp_all add: received_payload_def structure_of_def error_bit_def request_payload_def)
  have wf: "buffers_wf env ?ctx s1"
    using p(5) n len ctx by (simp add: buffers_wf_def s1(4) room_def received_payload_def structure_of_def error_bit_def)
  have messages: "has_messages cfg" using len(4) by (simp add: is_out_band_def has_messages_def)
  note reads = reads_over_transport [OF s1(3) ctx(1,2) messages ctx(3), of env]
  note same = base_served_cong [OF s1(5,7,8)]
  have t: "transport_of ?sid s1 = c" using assms(6) by (simp add: same(3))
  have served: "base_served ?senv ?sid s1" using assms(4) same(1) [of ?senv] by (simp add: base_served_def)
  have bound: "base_bound ?sid s1" using assms(5) by (simp add: same(2))
  have room: "payload_room ?senv ?sid s1 = unat (ch_max_payload_size ctx)" by (simp add: payload_room_def t reads(3) ctx(6))
  have "length (request_payload m) \<le> ?n" by (simp add: request_payload_def)
  then have "length (request_payload m) < 4294967296" using unat_u32_less [of "tb_length m - sizeof_message_header"] by linarith
  then have short: "length (request_payload m) < 2 ^ 32" by simp
  have result: "if stops_platform ?senv ?sid (tb_message_header m) (request_payload m) s1
    then scmi_process_event ?senv event resp s1 = None
    else \<exists>s2. scmi_process_event ?senv event resp s1 = Some ((FWK_SUCCESS, resp), s2) \<and>
      answers_once c (unat (ch_max_payload_size ctx)) (scmi_calls s1) (Some (FWK_SUCCESS, s2))"
    by (rule base_event_answers [of ?senv event s1 "tb_message_header m" "request_payload m" resp, unfolded assms(8) t room])
      (use served bound reads(1,2) fields assms(7) short in simp_all)
  show ?thesis
  proof (cases "stops_platform ?senv ?sid (tb_message_header m) (request_payload m) s1")
    case True
    then show ?thesis using result by simp
  next
    case False
    then obtain s2 ws x where s2: "scmi_process_event ?senv event resp s1 = Some ((FWK_SUCCESS, resp), s2)"
      "scmi_calls s2 = scmi_calls s1 @ ws @ [x]" "list_all (is_write c (unat (ch_max_payload_size ctx))) ws"
      "is_answer c (unat (ch_max_payload_size ctx)) x"
      using result by (auto simp: answers_once_def)
    have "24 \<le> unat (ch_max_payload_size ?ctx)" using p(6) by (simp add: ctx(6))
    from answer_in_mailbox [OF s1(3) wf ctx(1,5,2,4) this, of ws x FWK_SUCCESS] s2(3,4)
    obtain status s3 reply bytes ctx' where ans: "transport_run env (ws @ [x]) (FWK_SUCCESS, s1) = Some (status, s3)"
      "deliver (tb_payload ?out) (ws @ [x]) = Some bytes" "tp_mailboxes s3 (cc_out_band_mailbox_address cfg) = Some reply"
      "take (length bytes) (tb_payload reply) = bytes" "tb_length reply = sizeof_message_header + of_nat (length bytes)"
      "tb_message_header reply = tb_message_header ?out"
      "tb_status reply = tb_status ?out OR MOD_TRANSPORT_MAILBOX_STATUS_FREE_MASK"
      "channel_ctx c s3 = Some ctx'" "\<not> ch_locked ctx'" "buffers_wf env ctx' s3"
      by (auto simp: ctx(6))
    have "transport_after env s1 (scmi_calls s2) = Some (status, s3)" by (simp add: transport_after_def s2(2) ans(1))
    moreover have "deliver (tb_payload ?out) (drop (length (scmi_calls s1)) (scmi_calls s2)) = Some bytes" by (simp add: s2(2) ans(2))
    ultimately show ?thesis using False s2(1) ans(3-10) fields(4,5) by auto
  qed
qed

end
