(* ===== verification/Scmi_Binding.thy ===== *)
theory Scmi_Binding
  imports Scmi_Discovery
begin

unbundle bit_operations_syntax

text \<open>
  Binding and dispatch: once the module is bound, the identifier of a message leads to the handler of the module
  that announced the identifier, and the counter of protocols is the number of identifiers in use.
\<close>

section \<open>The modules of the protocols\<close>

definition protocol_number :: "('a scmi) scmi_env \<Rightarrow> fwk_id \<Rightarrow> u8 option" where
  "protocol_number env m = (case protocol_interface env m of Some (Inr (api, q)) \<Rightarrow> Some q | _ \<Rightarrow> None)"

definition module_at :: "'a scmi \<Rightarrow> nat \<Rightarrow> fwk_id" where
  "module_at s j = pr_id (sm_protocol_table (scmi_ctx s) ! (j + 2))"

definition module_of :: "('a scmi) scmi_env \<Rightarrow> 'a scmi \<Rightarrow> u8 \<Rightarrow> fwk_id option" where
  "module_of env s q = find (\<lambda>m. protocol_number env m = Some q)
    (map (module_at s) [0..<unat (sm_protocol_count (scmi_ctx s))])"

text \<open>The identifiers after \<open>scmi_init\<close>, and room for the indices of the protocols in a byte.\<close>

definition ids_initialised :: "'a scmi \<Rightarrow> bool" where
  "ids_initialised s \<longleftrightarrow> sm_scmi_protocol_id_to_idx (scmi_ctx s) = (replicate 256 0)[16 := 1] \<and>
    unat (sm_protocol_count (scmi_ctx s)) + 2 \<le> 256"

lemma init_ids:
  assumes "scmi_init env n cfg mod_state = Some (FWK_SUCCESS, s)" "has_base_protocol env"
    and "sm_scmi_protocol_id_to_idx (scmi_ctx mod_state) = replicate (MOD_SCMI_PROTOCOL_ID_MAX + 1) 0"
    and "sm_protocol_count (scmi_ctx mod_state) = 0"
  shows "ids_initialised s"
  using assms by (auto simp: scmi_init_def ids_initialised_def upd_scmi_def Let_def PROTOCOL_TABLE_BASE_PROTOCOL_IDX_def
      MOD_SCMI_PROTOCOL_ID_BASE_def MOD_SCMI_PROTOCOL_ID_MAX_def simp del: replicate_Suc split: option.splits if_splits)

section \<open>Binding\<close>

lemma unat_u8_less: "unat (x :: u8) < 256"
  using unsigned_less [where w = x] by simp

definition rebound :: "'a scmi \<Rightarrow> u8 list \<Rightarrow> scmi_protocol list \<Rightarrow> 'a scmi" where
  "rebound s ids tbl = upd_scmi (\<lambda>c. c\<lparr>sm_scmi_protocol_id_to_idx := ids, sm_protocol_table := tbl\<rparr>) s"

lemma rebound_fields [simp]:
  "sm_scmi_protocol_id_to_idx (scmi_ctx (rebound s ids tbl)) = ids" "sm_protocol_table (scmi_ctx (rebound s ids tbl)) = tbl"
  "sm_protocol_count (scmi_ctx (rebound s ids tbl)) = sm_protocol_count (scmi_ctx s)"
  "sm_config (scmi_ctx (rebound s ids tbl)) = sm_config (scmi_ctx s)"
  "sm_service_ctx_table (scmi_ctx (rebound s ids tbl)) = sm_service_ctx_table (scmi_ctx s)"
  "res_perms_state (rebound s ids tbl) = res_perms_state s" "scmi_calls (rebound s ids tbl) = scmi_calls s"
  by (simp_all add: rebound_def upd_scmi_def)

definition ids_upto :: "('a scmi) scmi_env \<Rightarrow> 'a scmi \<Rightarrow> nat \<Rightarrow> u8 list \<Rightarrow> bool" where
  "ids_upto env s0 k ids \<longleftrightarrow> length ids = 256 \<and>
    (\<forall>j<k. \<exists>q. protocol_number env (module_at s0 j) = Some q \<and> q \<noteq> 16 \<and> ids ! unat q = of_nat (j + 2)) \<and>
    (\<forall>q. (\<forall>j<k. protocol_number env (module_at s0 j) \<noteq> Some q) \<longrightarrow> ids ! unat q = (if q = 16 then 1 else 0))"

definition handlers_upto :: "'a scmi \<Rightarrow> nat \<Rightarrow> scmi_protocol list \<Rightarrow> bool" where
  "handlers_upto s0 k tbl \<longleftrightarrow> length tbl = length (sm_protocol_table (scmi_ctx s0)) \<and>
    (\<forall>i < length tbl. pr_id (tbl ! i) = pr_id (sm_protocol_table (scmi_ctx s0) ! i)) \<and>
    (\<forall>j<k. j + 2 < length tbl \<and> pr_message_handler (tbl ! (j + 2)) = Some (Module_handler (module_at s0 j)))"

lemma ids_upto_step:
  assumes "ids_upto env s0 k ids" "k + 2 < 256" "protocol_number env (module_at s0 k) = Some q" "ids ! unat q = 0"
  shows "ids_upto env s0 (Suc k) (ids[unat q := of_nat (k + 2)])"
proof -
  have len: "length ids = 256" and old: "\<And>j. j < k \<Longrightarrow> \<exists>q. protocol_number env (module_at s0 j) = Some q \<and> q \<noteq> 16 \<and>
      ids ! unat q = of_nat (j + 2)" and free: "\<And>q. \<forall>j<k. protocol_number env (module_at s0 j) \<noteq> Some q \<Longrightarrow>
      ids ! unat q = (if q = 16 then 1 else 0)"
    using assms(1) by (auto simp: ids_upto_def)
  have other: "ids[unat q := v] ! unat q' = ids ! unat q'" if "q' \<noteq> q" for q' v
    using that by (metis nth_list_update_neq word_unat_eq_iff)
  have "(of_nat (j + 2) :: u8) \<noteq> 0" if "j < k" for j
  proof -
    have "unat (of_nat (j + 2) :: u8) = j + 2" using that assms(2) by (simp only: unat_of_nat) simp
    then show ?thesis by (metis unsigned_0 add_is_0 zero_neq_numeral)
  qed
  then have keeps: "\<exists>q'. protocol_number env (module_at s0 j) = Some q' \<and> q' \<noteq> 16 \<and> ids[unat q := v] ! unat q' = of_nat (j + 2)"
    if "j < k" for j v
    using old [OF that] other assms(4) that by metis
  have "q \<noteq> 16"
  proof
    assume "q = 16"
    then have "ids ! unat (16 :: u8) = 1" using free [of 16] old by fastforce
    then show False using assms(4) \<open>q = 16\<close> by simp
  qed
  moreover have "ids[unat q := of_nat (k + 2)] ! unat q = of_nat (k + 2)"
    using len unsigned_less [where w = q] by (intro nth_list_update_eq) simp
  ultimately have "\<exists>q'. protocol_number env (module_at s0 j) = Some q' \<and> q' \<noteq> 16 \<and> ids[unat q := of_nat (k + 2)] ! unat q' = of_nat (j + 2)"
    if "j < Suc k" for j
    using keeps assms(3) that by (cases "j = k") auto
  moreover have "ids[unat q := of_nat (k + 2)] ! unat q' = (if q' = 16 then 1 else 0)"
    if "\<forall>j<Suc k. protocol_number env (module_at s0 j) \<noteq> Some q'" for q'
    using that free [of q'] other [of q'] assms(3) by auto
  ultimately show ?thesis using len unfolding ids_upto_def by simp
qed

lemma bind_protocol_step_cases:
  assumes "bind_protocol_step env k (rebound s0 ids tbl) = Some (FWK_SUCCESS, s')" "handlers_upto s0 k tbl"
  obtains q tbl' where "s' = rebound s0 (ids[unat q := of_nat (k + 2)]) tbl'" "handlers_upto s0 (Suc k) tbl'"
    and "protocol_number env (module_at s0 k) = Some q" "ids ! unat q = 0"
proof -
  have n: "k + 2 < length tbl" "unat PROTOCOL_TABLE_RESERVED_ENTRIES_COUNT + k = k + 2"
    using assms(1) by (auto simp: bind_protocol_step_def PROTOCOL_TABLE_RESERVED_ENTRIES_COUNT_def Let_def split: if_splits)
  have id: "pr_id (tbl ! (k + 2)) = module_at s0 k" using assms(2) n(1) by (simp add: handlers_upto_def module_at_def)
  obtain r where r: "protocol_interface env (module_at s0 k) = Some r"
    using assms(1) n id by (cases "protocol_interface env (module_at s0 k)") (auto simp: bind_protocol_step_def Let_def)
  show thesis
  proof (cases r)
    case (Inl x)
    then have "protocol_interface env (module_at s0 k) = Some (Inl FWK_SUCCESS)"
      using assms(1) r n id by (auto simp: bind_protocol_step_def Let_def)
    then show thesis
      by (auto simp: protocol_interface_def Let_def bind_eq_Some_conv split: if_splits option.splits prod.splits)
  next
    case (Inr p)
    then obtain api q where p: "protocol_interface env (module_at s0 k) = Some (Inr (api, q))" using r by (cases p) auto
    let ?pr = "(tbl ! (k + 2))\<lparr>pr_message_handler := Some (Module_handler (module_at s0 k)), pr_notification_handler :=
      (if has_scmi_notifications env \<and> pa_notification_handler api then Some (Module_handler (module_at s0 k))
       else pr_notification_handler (tbl ! (k + 2)))\<rparr>"
    have "ids ! unat q = 0 \<and> s' = rebound s0 (ids[unat q := of_nat (k + 2)]) (tbl[k + 2 := ?pr])"
      using assms(1) p n id by (auto simp: bind_protocol_step_def Let_def rebound_def upd_scmi_def split: if_splits)
    moreover have "handlers_upto s0 (Suc k) (tbl[k + 2 := ?pr])"
      using assms(2) n(1) by (auto simp: handlers_upto_def nth_list_update less_Suc_eq)
    moreover have "protocol_number env (module_at s0 k) = Some q" using p by (simp add: protocol_number_def)
    ultimately show thesis using that by blast
  qed
qed

text \<open>The protocols after the loop over the bound modules.\<close>

definition protocols_bound :: "('a scmi) scmi_env \<Rightarrow> 'a scmi \<Rightarrow> 'a scmi \<Rightarrow> bool" where
  "protocols_bound env s0 s \<longleftrightarrow> (let n = unat (sm_protocol_count (scmi_ctx s0)) in
    ids_upto env s0 n (sm_scmi_protocol_id_to_idx (scmi_ctx s)) \<and> handlers_upto s0 n (sm_protocol_table (scmi_ctx s)) \<and>
    sm_protocol_count (scmi_ctx s) = sm_protocol_count (scmi_ctx s0) \<and> sm_config (scmi_ctx s) = sm_config (scmi_ctx s0) \<and>
    sm_service_ctx_table (scmi_ctx s) = sm_service_ctx_table (scmi_ctx s0) \<and>
    res_perms_state s = res_perms_state s0 \<and> scmi_calls s = scmi_calls s0)"

lemma bind_protocols:
  assumes "for_each_status (bind_protocol_step env) [0..<unat (sm_protocol_count (scmi_ctx s0))] s0 = Some (FWK_SUCCESS, s1)"
    and "ids_initialised s0"
  shows "protocols_bound env s0 s1"
proof -
  let ?n = "unat (sm_protocol_count (scmi_ctx s0))"
  let ?P = "\<lambda>k s. \<exists>ids tbl. s = rebound s0 ids tbl \<and> ids_upto env s0 k ids \<and> handlers_upto s0 k tbl"
  have n: "?n + 2 \<le> 256" using assms(2) by (simp add: ids_initialised_def)
  have "s0 = rebound s0 (sm_scmi_protocol_id_to_idx (scmi_ctx s0)) (sm_protocol_table (scmi_ctx s0))"
    by (simp add: rebound_def upd_scmi_def)
  moreover have "ids_upto env s0 0 (sm_scmi_protocol_id_to_idx (scmi_ctx s0))"
    using assms(2) unat_u8_less by (auto simp: ids_upto_def ids_initialised_def nth_list_update word_unat_eq_iff)
  ultimately have start: "?P 0 s0" by (auto simp: handlers_upto_def)
  have "?P (length [0..<?n]) s1"
  proof (rule for_each_status_rule [OF assms(1), where P = ?P])
    fix k s s'
    assume k: "k < length [0..<?n]" and P: "?P k s" and step: "bind_protocol_step env ([0..<?n] ! k) s = Some (0, s')"
    from P obtain ids tbl where s: "s = rebound s0 ids tbl" "ids_upto env s0 k ids" "handlers_upto s0 k tbl" by blast
    from step k have "bind_protocol_step env k (rebound s0 ids tbl) = Some (FWK_SUCCESS, s')" by (simp add: s(1))
    from bind_protocol_step_cases [OF this s(3)] obtain q tbl' where
      "s' = rebound s0 (ids[unat q := of_nat (k + 2)]) tbl'" "handlers_upto s0 (Suc k) tbl'"
      "protocol_number env (module_at s0 k) = Some q" "ids ! unat q = 0" by blast
    moreover have "k + 2 < 256" using k n by simp
    ultimately show "?P (Suc k) s'" using ids_upto_step [OF s(2)] by blast
  qed (rule start)
  then show ?thesis by (auto simp: protocols_bound_def Let_def)
qed

lemma bind_requester_step_fields:
  assumes "bind_requester_step env k s = Some (FWK_SUCCESS, s')" "protocols_bound env s0 s"
  shows "protocols_bound env s0 s'"
proof -
  have k: "k < length (sm_protocol_requester_table (scmi_ctx s))"
    using assms(1) by (auto simp: bind_requester_step_def split: if_splits)
  obtain r where r: "protocol_interface env (pr_id (sm_protocol_requester_table (scmi_ctx s) ! k)) = Some r"
    using assms(1) k by (cases "protocol_interface env (pr_id (sm_protocol_requester_table (scmi_ctx s) ! k))")
      (auto simp: bind_requester_step_def Let_def)
  show ?thesis
  proof (cases r)
    case (Inl status)
    then have "s' = s" using assms(1) k r by (simp add: bind_requester_step_def Let_def)
    then show ?thesis using assms(2) by simp
  next
    case (Inr p)
    then show ?thesis using assms k r
      by (cases p) (auto simp: bind_requester_step_def protocols_bound_def upd_scmi_def Let_def)
  qed
qed

lemma bind_binds_protocols:
  assumes "scmi_bind env i 1 s0 = Some (FWK_SUCCESS, s)" "fwk_id_is_type i FWK_ID_TYPE_ELEMENT = Some False" "ids_initialised s0"
  shows "protocols_bound env s0 s"
proof -
  obtain status s1 where p: "for_each_status (bind_protocol_step env) [0..<unat (sm_protocol_count (scmi_ctx s0))] s0 = Some (status, s1)"
    using assms(1,2) by (auto simp: scmi_bind_def bind_eq_Some_conv)
  have ok: "status = FWK_SUCCESS" using assms(1,2) p by (auto simp: scmi_bind_def split: if_splits)
  have bound: "protocols_bound env s0 s1" using bind_protocols [OF p [unfolded ok] assms(3)] .
  obtain status' s2 where r: "for_each_status (bind_requester_step env) [0..<unat (sm_protocol_requester_count (scmi_ctx s1))] s1 = Some (status', s2)"
    using assms(1,2) p ok by (auto simp: scmi_bind_def bind_eq_Some_conv)
  have s2: "status' = FWK_SUCCESS" "s2 = s" using assms(1,2) p ok r by (auto simp: scmi_bind_def split: if_splits)
  show ?thesis
    using r [unfolded s2] bound by (rule for_each_status_rule [where P = "\<lambda>_. protocols_bound env s0"]) (rule bind_requester_step_fields)
qed

text \<open>An identifier that is not the base protocol's leads to the module with the number, or nowhere.\<close>

lemma bound_protocol:
  assumes "protocols_bound env s0 s" "ids_initialised s0" "q \<noteq> 16"
  shows "case module_of env s0 q of None \<Rightarrow> sm_scmi_protocol_id_to_idx (scmi_ctx s) ! unat q = 0
    | Some m \<Rightarrow> sm_scmi_protocol_id_to_idx (scmi_ctx s) ! unat q \<noteq> 0 \<and>
        unat (sm_scmi_protocol_id_to_idx (scmi_ctx s) ! unat q) < length (sm_protocol_table (scmi_ctx s)) \<and>
        (let pr = sm_protocol_table (scmi_ctx s) ! unat (sm_scmi_protocol_id_to_idx (scmi_ctx s) ! unat q) in
          pr_message_handler pr = Some (Module_handler m) \<and> pr_id pr = m)"
proof -
  let ?n = "unat (sm_protocol_count (scmi_ctx s0))" and ?ids = "sm_scmi_protocol_id_to_idx (scmi_ctx s)"
    and ?tbl = "sm_protocol_table (scmi_ctx s)"
  have b: "ids_upto env s0 ?n ?ids" "handlers_upto s0 ?n ?tbl" using assms(1) by (simp_all add: protocols_bound_def Let_def)
  have n: "?n + 2 \<le> 256" using assms(2) by (simp add: ids_initialised_def)
  show ?thesis
  proof (cases "module_of env s0 q")
    case None
    then have "\<forall>j<?n. protocol_number env (module_at s0 j) \<noteq> Some q" by (auto simp: module_of_def find_None_iff)
    then have "?ids ! unat q = 0" using b(1) assms(3) unfolding ids_upto_def by auto
    then show ?thesis using None by simp
  next
    case (Some m)
    then obtain j where j: "j < ?n" "m = module_at s0 j" "protocol_number env (module_at s0 j) = Some q"
      by (auto simp: module_of_def find_Some_iff)
    then have "?ids ! unat q = of_nat (j + 2)" using b(1) unfolding ids_upto_def by fastforce
    moreover have "unat (of_nat (j + 2) :: u8) = j + 2" using j(1) n by (simp only: unat_of_nat) simp
    ultimately have idx: "unat (?ids ! unat q) = j + 2" by simp
    have pr: "j + 2 < length ?tbl" "pr_message_handler (?tbl ! (j + 2)) = Some (Module_handler m)"
      using b(2) j(1,2) by (auto simp: handlers_upto_def)
    have "pr_id (?tbl ! (j + 2)) = m" using b(2) j(2) pr(1) by (auto simp: handlers_upto_def module_at_def)
    then show ?thesis using Some idx pr by (auto simp: Let_def)
  qed
qed

lemma bound_counted:
  assumes "protocols_bound env s0 s" "ids_initialised s0"
  shows "protocols_counted s"
proof -
  let ?n = "unat (sm_protocol_count (scmi_ctx s0))" and ?ids = "sm_scmi_protocol_id_to_idx (scmi_ctx s)"
  have b: "ids_upto env s0 ?n ?ids" "unat (sm_protocol_count (scmi_ctx s)) = ?n" and n: "?n + 2 \<le> 256"
    using assms by (simp_all add: protocols_bound_def ids_initialised_def Let_def)
  from b(1) have "\<forall>j. \<exists>q. j < ?n \<longrightarrow> protocol_number env (module_at s0 j) = Some q \<and> q \<noteq> 16 \<and> ?ids ! unat q = of_nat (j + 2)"
    unfolding ids_upto_def by blast
  then obtain q where q: "\<And>j. j < ?n \<Longrightarrow> protocol_number env (module_at s0 j) = Some (q j) \<and> q j \<noteq> 16 \<and> ?ids ! unat (q j) = of_nat (j + 2)"
    by metis
  have idx: "unat (of_nat (j + 2) :: u8) = j + 2" if "j < ?n" for j using that n by (simp only: unat_of_nat) simp
  have inj: "inj_on (\<lambda>j. unat (q j)) {..<?n}"
    by (rule inj_onI) (metis q idx add_right_cancel lessThan_iff)
  have "set (filter (protocol_bound s) [0..<256]) = (\<lambda>j. unat (q j)) ` {..<?n}"
  proof (intro set_eqI iffI)
    fix i assume "i \<in> set (filter (protocol_bound s) [0..<256])"
    then have i: "i < 256" "?ids ! i \<noteq> 0" "(of_nat i :: u32) \<noteq> 16"
      by (auto simp: protocol_bound_def MOD_SCMI_PROTOCOL_ID_BASE_def)
    have u: "unat (of_nat i :: u8) = i" using i(1) by (simp add: unat_of_nat)
    have "(of_nat i :: u8) \<noteq> 16" using i(3) u by auto
    then have "\<exists>j<?n. protocol_number env (module_at s0 j) = Some (of_nat i)"
      using b(1) i(2) u unfolding ids_upto_def by metis
    then obtain j where j: "j < ?n" "protocol_number env (module_at s0 j) = Some (of_nat i)" by blast
    then have "q j = of_nat i" using q [OF j(1)] by simp
    then show "i \<in> (\<lambda>j. unat (q j)) ` {..<?n}" using j(1) u by (intro image_eqI [of _ _ j]) simp_all
  next
    fix i assume "i \<in> (\<lambda>j. unat (q j)) ` {..<?n}"
    then obtain j where j: "j < ?n" "i = unat (q j)" by auto
    have "i < 256" "i \<noteq> 16" using j(2) q [OF j(1)] unsigned_less [where w = "q j"] by (auto simp: word_unat_eq_iff)
    then have "(of_nat i :: u32) \<noteq> 16" by (simp add: word_unat_eq_iff unat_of_nat)
    moreover have "?ids ! i \<noteq> 0" using q [OF j(1)] j(2) idx [OF j(1)] by (metis unsigned_0 add_is_0 zero_neq_numeral)
    ultimately show "i \<in> set (filter (protocol_bound s) [0..<256])"
      using \<open>i < 256\<close> by (simp add: protocol_bound_def MOD_SCMI_PROTOCOL_ID_BASE_def)
  qed
  then have "card (set (filter (protocol_bound s) [0..<256])) = ?n" using card_image [OF inj] by simp
  then show ?thesis
    using distinct_card [of "filter (protocol_bound s) [0..<256]"] b(2)
    by (simp add: protocols_counted_def MOD_SCMI_PROTOCOL_ID_MAX_def del: upt_conv_Cons)
qed

section \<open>Dispatch\<close>

definition platform_service :: "fwk_id \<Rightarrow> 'a scmi \<Rightarrow> bool" where
  "platform_service sid s \<longleftrightarrow> service_ready sid s \<and>
    (case service_ctx sid s of None \<Rightarrow> False | Some ctx \<Rightarrow> (case sv_config ctx of None \<Rightarrow> False
      | Some cfg \<Rightarrow> sc_scmi_entity_role cfg = MOD_SCMI_ROLE_PLATFORM))"

lemma dispatch_to_module:
  assumes "protocols_bound env s0 s" "ids_initialised s0" "platform_service (ev_target_id event) s"
    and "tr_get_message_header env (transport_of (ev_target_id event) s) (scmi_calls s) = (FWK_SUCCESS, h)"
    and "tr_get_payload env (transport_of (ev_target_id event) s) (scmi_calls s) = (FWK_SUCCESS, payload)"
    and "read_message_type h = MOD_SCMI_MESSAGE_TYPE_COMMAND" "read_protocol_id h \<noteq> 16"
    and "has_mod_resource_perms env \<or> psci_denied (ev_target_id event) (ucast (read_protocol_id h)) s = Some (Inr False)"
  shows "\<exists>s1. upd_service (ev_target_id event) (store_header h) s = Some s1 \<and>
    scmi_process_event env event resp s =
      (case module_of env s0 (read_protocol_id h) of
        None \<Rightarrow> Some ((FWK_SUCCESS, resp),
          logged [Respond (transport_of (ev_target_id event) s) (status_bytes SCMI_NOT_SUPPORTED)] s1)
      | Some m \<Rightarrow> do {
          (_, s') \<leftarrow> env_message_handler env m m (ev_target_id event) payload (ucast (read_message_id h)) s1;
          Some ((FWK_SUCCESS, resp), s') })"
proof -
  let ?sid = "ev_target_id event" and ?q = "read_protocol_id h"
  have ready: "service_ready ?sid s" using assms(3) by (simp add: platform_service_def)
  then obtain ctx api cfg where c: "service_ctx ?sid s = Some ctx" "sv_transport_api ctx = Some api" "sv_respond ctx"
      "transport_of ?sid s = sv_transport_id ctx" "sv_config ctx = Some cfg"
    by (auto simp: service_ready_def transport_of_def split: option.splits)
  have role: "sc_scmi_entity_role cfg = MOD_SCMI_ROLE_PLATFORM" using assms(3) c by (simp add: platform_service_def)
  obtain name where name: "fwk_module_get_element_name ?sid s = Some name" using ready by (auto simp: service_ready_def)
  obtain s1 where s1: "upd_service ?sid (store_header h) s = Some s1" "service_ctx ?sid s1 = Some (store_header h ctx)"
      "sm_config (scmi_ctx s1) = sm_config (scmi_ctx s)"
      "sm_scmi_protocol_id_to_idx (scmi_ctx s1) = sm_scmi_protocol_id_to_idx (scmi_ctx s)"
      "sm_protocol_table (scmi_ctx s1) = sm_protocol_table (scmi_ctx s)"
    by (rule upd_service_here [OF c(1), of "store_header h"])
  have "psci_denied ?sid (ucast ?q) s1 = psci_denied ?sid (ucast ?q) s"
    by (simp add: psci_denied_def get_agent_id_def get_agent_type_def c(1) s1 cong: if_cong Option.bind_cong)
  then have open_to_agent: "(if has_mod_resource_perms env then Some (Inr False) else psci_denied ?sid (ucast ?q) s1) = Some (Inr False)"
    using assms(8) by auto
  have ids: "length (sm_scmi_protocol_id_to_idx (scmi_ctx s)) = 256"
    using assms(1) by (simp add: protocols_bound_def ids_upto_def Let_def)
  have q: "unat (ucast ?q :: u32) = unat ?q"
    using unat_u8_less [of ?q] by (simp add: unsigned_ucast_eq take_bit_nat_eq_self_iff)
  have event: "scmi_process_event env event resp s = do { (status, s) \<leftarrow> dispatch_message env ?sid payload s1; Some ((status, resp), s) }"
    using assms(4,5) s1(1) unfolding store_header_def c(4) by (simp add: scmi_process_event_def c name)
  have valid: "is_message_type_valid (store_header h ctx)"
    using assms(6) by (simp add: message_type_valid MOD_SCMI_MESSAGE_TYPE_COMMAND_def)
  note bound = bound_protocol [OF assms(1,2,7)]
  have "dispatch_message env ?sid payload s1 = (case module_of env s0 ?q of
        None \<Rightarrow> Some (FWK_SUCCESS, logged [Respond (transport_of ?sid s) (status_bytes SCMI_NOT_SUPPORTED)] s1)
      | Some m \<Rightarrow> do { (_, s') \<leftarrow> env_message_handler env m m ?sid payload (ucast (read_message_id h)) s1; Some (FWK_SUCCESS, s') })"
  proof (cases "module_of env s0 ?q")
    case None
    then have "sm_scmi_protocol_id_to_idx (scmi_ctx s) ! unat ?q = 0" using bound by simp
    then have "protocol_of_platform env ?sid (ucast ?q) s1 = Some (Inl (Some SCMI_NOT_SUPPORTED, FWK_SUCCESS))"
      using ids unat_u8_less [of ?q] by (simp add: protocol_of_platform_def s1 q Let_def)
    then show ?thesis
      using None s1(2) c by (simp add: dispatch_message_def valid role ctx_respond_def call_transport)
  next
    case (Some m)
    let ?i = "unat (sm_scmi_protocol_id_to_idx (scmi_ctx s) ! unat ?q)"
    let ?pr = "sm_protocol_table (scmi_ctx s) ! ?i"
    have pr: "sm_scmi_protocol_id_to_idx (scmi_ctx s) ! unat ?q \<noteq> 0" "?i < length (sm_protocol_table (scmi_ctx s))"
        "pr_message_handler ?pr = Some (Module_handler m)" "pr_id ?pr = m"
      using bound Some by (simp_all add: Let_def)
    have "protocol_of_platform env ?sid (ucast ?q) s1 = Some (Inr ?pr)"
      unfolding protocol_of_platform_def Let_def s1 q open_to_agent using pr(1,2) ids unat_u8_less [of ?q] by simp
    moreover have "send_to_message_handler env (store_header h ctx) ?pr payload ?sid s1 =
        env_message_handler env m m ?sid payload (ucast (read_message_id h)) s1"
      using pr(3,4) assms(6) by (simp add: send_to_message_handler_def call_handler_def MOD_SCMI_MESSAGE_TYPE_COMMAND_def
          MOD_SCMI_MESSAGE_TYPE_NOTIFICATION_def)
    ultimately show ?thesis using Some s1(2) c by (simp add: dispatch_message_def valid role)
  qed
  then show ?thesis using s1(1) event by (simp add: case_prod_unfold split: option.splits)
qed

end
