(* ===== verification/Scmi_Props.thy ===== *)
theory Scmi_Props
  imports Scmi_Binding
begin

unbundle bit_operations_syntax

text \<open>
  What the SCMI module promises: a header is read as it was written, notifications follow the history of
  subscriptions, every message of the base protocol is answered once unless it calls a null handler, an agent
  discovers exactly the protocols it may use, and after binding a message reaches the module of its protocol.
\<close>

section \<open>An instance\<close>

text \<open>Service \<open>FWK_ID_ELEMENT 1 0\<close> of agent 1, modules 5 to 7 with the protocols 0x11, 0x13 and 0x14; the agent may
  not use 0x14. The transport accepts everything and has 16 bytes of payload.\<close>

definition scmi_perms0 :: res_perms_ctx where
  "scmi_perms0 = res_perms_ctx_zero\<lparr>agent_count := 1, protocol_count := 7,
    agent_permissions := Some \<lparr>agent_protocol_permissions_tbl = Some [0x10], agent_msg_permissions_tbl = None,
      scmi_perms = (\<lambda>_. None)\<rparr>\<rparr>"

definition scmi_service0 :: mod_scmi_service_config where
  "scmi_service0 = \<lparr>sc_transport_id = FWK_ID_ELEMENT 2 0, sc_transport_api_id = FWK_ID_API 2 0,
    sc_transport_notification_init_id = FWK_ID_NONE, sc_scmi_agent_id = 1, sc_scmi_p2a_id = FWK_ID_ELEMENT 1 0,
    sc_scmi_entity_role = MOD_SCMI_ROLE_PLATFORM\<rparr>"

definition scmi_config0 :: mod_scmi_config where
  "scmi_config0 = \<lparr>cf_protocol_count_max = 3, cf_protocol_requester_count_max = 0, cf_dis_protocol_count_psci = 0,
    cf_dis_protocol_list_psci = None, cf_agent_count = 1,
    cf_agent_table = [\<lparr>ag_type = 3, ag_name = None\<rparr>, \<lparr>ag_type = 2, ag_name = Some ''OSPM''\<rparr>],
    cf_vendor_identifier = Some ''arm'', cf_sub_vendor_identifier = None\<rparr>"

definition scmi_api0 :: mod_scmi_to_transport_api where
  "scmi_api0 = \<lparr>ta_readers = True, ta_respond = True, ta_transmit = True, ta_release = True\<rparr>"

definition scmi_number0 :: "fwk_id \<Rightarrow> u8" where
  "scmi_number0 m = (if m = FWK_ID_MODULE 5 then 0x11 else if m = FWK_ID_MODULE 6 then 0x13 else 0x14)"

definition scmi_env0 :: "u32 \<Rightarrow> u8 list \<Rightarrow> ('a scmi) scmi_env" where
  "scmi_env0 header payload = \<lparr>has_base_protocol = True, has_mod_resource_perms = True, has_scmi_notifications = True,
    has_notification = True, fwk_build_version = 0x20F0000, env_scmi_idx = 1, env_res_plat = default_plat False False,
    env_service_config = (\<lambda>_. None), tr_status = (\<lambda>_. FWK_SUCCESS),
    tr_get_message_header = (\<lambda>_ _. (FWK_SUCCESS, header)), tr_get_payload = (\<lambda>_ _. (FWK_SUCCESS, Some payload)),
    tr_get_max_payload_size = (\<lambda>_ _. (FWK_SUCCESS, 16)), bind_transport = (\<lambda>_ _. (FWK_SUCCESS, scmi_api0)),
    bind_protocol = (\<lambda>m. (FWK_SUCCESS, \<lparr>pa_get_scmi_protocol_id = Some (FWK_SUCCESS, scmi_number0 m),
      pa_message_handler = True, pa_notification_handler = False\<rparr>)),
    bind_res_perms = FWK_SUCCESS, env_message_handler = (\<lambda>_ _ _ _ _ s. Some (FWK_SUCCESS, s)),
    env_notification_handler = (\<lambda>_ _ _ _ _ s. None)\<rparr>"

lemma scmi_env0_fields [simp]:
  "has_base_protocol (scmi_env0 h p)" "has_mod_resource_perms (scmi_env0 h p)" "has_scmi_notifications (scmi_env0 h p)"
  "env_res_plat (scmi_env0 h p) = default_plat False False" "tr_status (scmi_env0 h p) cs = FWK_SUCCESS"
  "tr_get_message_header (scmi_env0 h p) t cs = (FWK_SUCCESS, h)" "tr_get_payload (scmi_env0 h p) t cs = (FWK_SUCCESS, Some p)"
  "tr_get_max_payload_size (scmi_env0 h p) t cs = (FWK_SUCCESS, 16)" "bind_res_perms (scmi_env0 h p) = FWK_SUCCESS"
  "bind_protocol (scmi_env0 h p) m = (FWK_SUCCESS, \<lparr>pa_get_scmi_protocol_id = Some (FWK_SUCCESS, scmi_number0 m),
    pa_message_handler = True, pa_notification_handler = False\<rparr>)"
  "env_message_handler (scmi_env0 h p) m i sid payload k s = Some (FWK_SUCCESS, s)"
  by (simp_all add: scmi_env0_def)

definition scmi_ctx0 :: mod_scmi_ctx where
  "scmi_ctx0 = mod_scmi_ctx_zero\<lparr>sm_config := Some scmi_config0,
    sm_protocol_table := [scmi_protocol_zero, scmi_protocol_zero\<lparr>pr_message_handler := Some Base_message_handler\<rparr>,
      scmi_protocol_zero\<lparr>pr_id := FWK_ID_MODULE 5\<rparr>, scmi_protocol_zero\<lparr>pr_id := FWK_ID_MODULE 6\<rparr>,
      scmi_protocol_zero\<lparr>pr_id := FWK_ID_MODULE 7\<rparr>],
    sm_protocol_count := 3, sm_scmi_protocol_id_to_idx := (replicate 256 0)[16 := 1],
    sm_service_ctx_table := [scmi_service_ctx_zero\<lparr>sv_config := Some scmi_service0, sv_transport_id := FWK_ID_ELEMENT 2 0,
      sv_transport_api := Some scmi_api0, sv_respond := True, sv_transmit := True\<rparr>],
    sm_scmi_notif_subscribers := replicate 4 scmi_subscribers_zero\<rparr>"

definition scmi_state0 :: "unit scmi" where
  "scmi_state0 = fwk_state.extend state2 (scmi_state.fields scmi_ctx0 [] scmi_perms0)"

text \<open>The state after binding.\<close>

definition scmi_state1 :: "unit scmi" where
  "scmi_state1 = snd (the (scmi_bind (scmi_env0 0 []) (FWK_ID_MODULE 1) 1 scmi_state0))"

lemma scmi_bound0: "scmi_bind (scmi_env0 h p) (FWK_ID_MODULE 1) 1 scmi_state0 = Some (FWK_SUCCESS, scmi_state1)"
proof -
  have "map_option fst (scmi_bind (scmi_env0 0 []) (FWK_ID_MODULE 1) 1 scmi_state0) = Some FWK_SUCCESS" by code_simp
  then have "scmi_bind (scmi_env0 0 []) (FWK_ID_MODULE 1) 1 scmi_state0 = Some (FWK_SUCCESS, scmi_state1)"
    by (auto simp: scmi_state1_def)
  moreover have "scmi_bind (scmi_env0 h p) (FWK_ID_MODULE 1) 1 scmi_state0 = scmi_bind (scmi_env0 0 []) (FWK_ID_MODULE 1) 1 scmi_state0"
  proof -
    have same: "bind_protocol_step (scmi_env0 h p) = bind_protocol_step (scmi_env0 0 [] :: (unit scmi) scmi_env)"
      "bind_requester_step (scmi_env0 h p) = bind_requester_step (scmi_env0 0 [] :: (unit scmi) scmi_env)"
      by (simp_all add: fun_eq_iff bind_protocol_step_def bind_requester_step_def protocol_interface_def Let_def cong: if_cong)
    have "has_mod_resource_perms (scmi_env0 h p :: (unit scmi) scmi_env) = has_mod_resource_perms (scmi_env0 0 [] :: (unit scmi) scmi_env)"
      "bind_res_perms (scmi_env0 h p :: (unit scmi) scmi_env) = bind_res_perms (scmi_env0 0 [] :: (unit scmi) scmi_env)" by simp_all
    then show ?thesis unfolding scmi_bind_def same by (simp only: one_neq_zero if_False)
  qed
  ultimately show ?thesis by simp
qed

lemma permissions_return0: "permissions_return (default_plat False False) scmi_perms0"
proof -
  have dev: "device_count scmi_perms0 = 0" "domain_devices scmi_perms0 = None"
    by (simp_all add: scmi_perms0_def res_perms_ctx_zero_def)
  have bit: "perms_bit x n = Some ((ucast x :: u32) AND push_bit (unat n) 1 \<noteq> 0)" if "\<not> 7 \<le> n" for x n
    using that by (simp add: perms_bit_def word_less_nat_alt word_le_nat_alt)
  have index: "agent_idx = 0" if "weak_agent_id_to_index 1 a = (FWK_SUCCESS, agent_idx)" for a agent_idx
  proof -
    have "agent_idx < 1" using that by (auto simp: weak_agent_id_to_index_def Let_def split: if_splits)
    then show ?thesis by (simp add: word_less_nat_alt word_unat_eq_iff)
  qed
  have protocols: "agent_protocol_permissions (default_plat False False) scmi_perms0 a p \<noteq> None" for a p
    by (auto dest!: index simp: bit agent_protocol_permissions_def scmi_perms0_def res_perms_ctx_zero_def
        mod_res_agent_id_to_index_def default_plat_def table_read_def split: prod.splits)
  have messages: "agent_message_permissions (default_plat False False) scmi_perms0 a p m \<noteq> None" for a p m
    using protocols [of a p] by (auto simp: agent_message_permissions_def scmi_perms0_def)
  have "mod_res_agent_set_device_permission (default_plat False False) a d f scmi_perms0 \<noteq> None"
    "mod_res_agent_set_device_protocol_permission (default_plat False False) a d p f scmi_perms0 \<noteq> None"
    "mod_res_agent_reset_config (default_plat False False) a f scmi_perms0 \<noteq> None" for a d p f
    by (simp_all add: mod_res_agent_set_device_permission_def mod_res_agent_set_device_protocol_permission_def
        mod_res_agent_reset_config_def find_device_def dev)
  then show ?thesis using protocols messages unfolding permissions_return_def by blast
qed


lemma scmi_ids0: "ids_initialised scmi_state0" by code_simp

lemma scmi_protocols0: "protocols_bound (scmi_env0 h p) scmi_state0 scmi_state1"
proof -
  have "fwk_id_is_type (FWK_ID_MODULE 1) FWK_ID_TYPE_ELEMENT = Some False" by code_simp
  then show ?thesis using bind_binds_protocols [OF scmi_bound0 _ scmi_ids0] by blast
qed

lemma scmi_state1_fields:
  "res_perms_state scmi_state1 = scmi_perms0" "scmi_calls scmi_state1 = []" "sm_config (scmi_ctx scmi_state1) = Some scmi_config0"
proof -
  have "res_perms_state scmi_state0 = scmi_perms0" "scmi_calls scmi_state0 = []" "sm_config (scmi_ctx scmi_state0) = Some scmi_config0"
    by (simp_all add: scmi_state0_def fwk_state.defs scmi_state.defs scmi_ctx0_def)
  then show "res_perms_state scmi_state1 = scmi_perms0" "scmi_calls scmi_state1 = []" "sm_config (scmi_ctx scmi_state1) = Some scmi_config0"
    using scmi_protocols0 [of 0 "[]"] by (simp_all add: protocols_bound_def Let_def)
qed

lemma scmi_served0: "base_served (scmi_env0 h p) (FWK_ID_ELEMENT 1 0) scmi_state1"
proof -
  have "service_ready (FWK_ID_ELEMENT 1 0) scmi_state1" by code_simp
  moreover have "agents_configured scmi_config0" by code_simp
  moreover have "(case fwk_module_get_element_name (FWK_ID_ELEMENT 1 0) scmi_state1 of Some (Some _) \<Rightarrow> True | _ \<Rightarrow> False)" by code_simp
  ultimately show ?thesis using permissions_return0 by (simp add: base_served_def scmi_state1_fields)
qed

lemma scmi_base_bound0: "base_bound (FWK_ID_ELEMENT 1 0) scmi_state1" by code_simp

lemma scmi_platform0: "platform_service (FWK_ID_ELEMENT 1 0) scmi_state1" by code_simp

lemma scmi_transport0: "transport_of (FWK_ID_ELEMENT 1 0) scmi_state1 = FWK_ID_ELEMENT 2 0" by code_simp

lemma scmi_agent_protocols0: "agent_protocols (scmi_env0 0 []) (FWK_ID_ELEMENT 1 0) scmi_state1 = [0x11, 0x13]" by code_simp

section \<open>The properties\<close>

text \<open>C28. A header gives back the fields it was built from, of the message type its two bits; and a header that is
  built from the fields of another one is the other one without the two upper bits of the 10-bit token, which the
  8-bit parameter of \<open>scmi_message_header\<close> does not carry.\<close>

theorem scmi_header_roundtrip:
  "read_message_id (scmi_message_header m t p k) = ucast m \<and> read_message_type (scmi_message_header m t p k) = take_bit 2 t \<and>
    read_protocol_id (scmi_message_header m t p k) = p \<and> read_token (scmi_message_header m t p k) = ucast k \<and>
    scmi_message_header (ucast (read_message_id h)) (read_message_type h) (read_protocol_id h) (ucast (read_token h)) = h AND mask 26"
proof -
  have "scmi_message_header (ucast (read_message_id h)) (read_message_type h) (read_protocol_id h) (ucast (read_token h)) = h AND mask 26"
    by (rule header_rebuilt)
  then show ?thesis by (simp add: header_fields)
qed

text \<open>C27. Notifications follow the subscriptions. After \<open>scmi_notification_init\<close> and any history of
  subscriptions and cancellations inside the announced sizes, a notification of an operation sends one message per
  element and agent that is subscribed then, to the P2A channel of the last service the agent subscribed with, elements
  first; nothing is sent for the platform (agent 0), for cancelled subscriptions or for other operations. Cancelling an
  operation nobody has ever subscribed to writes outside the table.\<close>

theorem notifications_follow_subscriptions:
  assumes "subscribers_index p s = Some i" "notification_subscribers p s = Some scmi_subscribers_zero"
    and "256 * unat els * unat agents < 2 ^ 32" "unat opers \<le> 127"
    and "usable (unat agents) (unat els) (unat opers) s [] cs" "services_notifiable s cs"
    and "oper < MOD_SCMI_PROTOCOL_MAX_OPERATION_ID"
  shows "\<exists>s0 s1 s2. scmi_notification_init p agents els opers s = Some (FWK_SUCCESS, s0) \<and>
    for_each (run_change p) cs s0 = Some s1 \<and>
    scmi_notification_notify env p oper response payload s1 = Some (FWK_SUCCESS, s2) \<and>
    scmi_calls s2 = scmi_calls s @ notifications_for s (subscribed_after s cs) (unat els) (unat agents) (unat oper)
      (notification_header p response) payload \<and>
    (unat oper \<notin> set (known_after cs) \<longrightarrow>
      (\<forall>e a. e < els \<and> a < agents \<longrightarrow> scmi_notification_remove_subscriber p a e oper s1 = None))"
  by (rule notify_after_changes [OF assms])

text \<open>C25. Every message of the base protocol is answered once. The event of a platform service that is bound, with a
  header and a payload from the transport, ends with success and exactly one response, after writes inside the payload
  of the service's transport only, and the response is at most 24 bytes long or, if it has been written, the payload
  rounded up to a word: the handler's answer, \<open>NOT_FOUND\<close>, \<open>PROTOCOL_ERROR\<close> for a wrong size
  or type, or \<open>DENIED\<close>. The exceptions are the messages that call a null pointer: \<open>NOTIFY_ERRORS\<close> with an
  empty payload, without the resource permissions also the three permission messages with an empty payload, and
  notifications when they are compiled in.\<close>

theorem base_messages_are_answered:
  assumes "base_served env (ev_target_id event) s" "base_bound (ev_target_id event) s"
    and "tr_get_message_header env (transport_of (ev_target_id event) s) (scmi_calls s) = (FWK_SUCCESS, h)"
    and "tr_get_payload env (transport_of (ev_target_id event) s) (scmi_calls s) = (FWK_SUCCESS, Some p)"
    and "read_protocol_id h = ucast MOD_SCMI_PROTOCOL_ID_BASE" "length p < 2 ^ 32"
  shows "if stops_platform env (ev_target_id event) h p s then scmi_process_event env event resp s = None
    else \<exists>s'. scmi_process_event env event resp s = Some ((FWK_SUCCESS, resp), s') \<and>
      answered env (ev_target_id event) s (Some (FWK_SUCCESS, s'))"
  by (rule base_event_answers [OF assms])

text \<open>C26. An agent discovers its protocols. Reading \<open>BASE_DISCOVER_LIST_PROTOCOLS\<close> page by page, each time
  with the number of identifiers read so far, gives in ascending order the identifiers that are bound and that the
  resource permissions allow the agent, whatever the payload of the transport held before; the byte the agent reads in
  the answer to \<open>PROTOCOL_ATTRIBUTES\<close> is their number.\<close>

theorem agent_discovers_its_protocols:
  assumes "base_served env sid s" "has_mod_resource_perms env" "pages_writable env sid payload_max s" "protocols_counted s"
    and "length old = unat payload_max" "length (agent_protocols env sid s) \<le> n * (unat payload_max - 8)"
  shows "\<exists>cs w status. read_pages env sid old n [] s = Some (agent_protocols env sid s, logged cs s) \<and>
    scmi_base_protocol_attributes_handler env sid [] s =
      Some (status, logged [Respond (transport_of sid s) (status_bytes SCMI_SUCCESS @ le32 w)] s) \<and>
    unat (w AND 0xFF) = length (agent_protocols env sid s)"
proof -
  obtain cfg where "sm_config (scmi_ctx s) = Some cfg" using assms(1) by (auto simp: base_served_def split: option.splits)
  then have "\<exists>w status. scmi_base_protocol_attributes_handler env sid [] s =
      Some (status, logged [Respond (transport_of sid s) (status_bytes SCMI_SUCCESS @ le32 w)] s) \<and>
      unat (w AND 0xFF) = length (agent_protocols env sid s)"
    using attributes_count [OF assms(1,2,4)] attributes_protocols by blast
  then show ?thesis using read_pages_correct [OF assms(1-5), where k = 0 and n = n] assms(6) by auto
qed

text \<open>C24. A bound protocol gets its messages. When the module has been bound with success, a command with the
  identifier that a bound module announced goes to the message handler of this module, with the service, the payload
  and the message identifier of the transport, and no other module sees it; a command with any other identifier is
  answered \<open>NOT_SUPPORTED\<close>. The counter of protocols is the number of identifiers in use.\<close>

theorem bound_protocols_get_their_messages:
  assumes "scmi_bind env i 1 s0 = Some (FWK_SUCCESS, s)" "fwk_id_is_type i FWK_ID_TYPE_ELEMENT = Some False"
    and "ids_initialised s0" "platform_service (ev_target_id event) s"
    and "tr_get_message_header env (transport_of (ev_target_id event) s) (scmi_calls s) = (FWK_SUCCESS, h)"
    and "tr_get_payload env (transport_of (ev_target_id event) s) (scmi_calls s) = (FWK_SUCCESS, payload)"
    and "read_message_type h = MOD_SCMI_MESSAGE_TYPE_COMMAND" "read_protocol_id h \<noteq> 16"
    and "has_mod_resource_perms env \<or> psci_denied (ev_target_id event) (ucast (read_protocol_id h)) s = Some (Inr False)"
  shows "protocols_counted s \<and> (\<exists>s1. upd_service (ev_target_id event) (store_header h) s = Some s1 \<and>
    scmi_process_event env event resp s =
      (case module_of env s0 (read_protocol_id h) of
        None \<Rightarrow> Some ((FWK_SUCCESS, resp),
          logged [Respond (transport_of (ev_target_id event) s) (status_bytes SCMI_NOT_SUPPORTED)] s1)
      | Some m \<Rightarrow> do {
          (_, s') \<leftarrow> env_message_handler env m m (ev_target_id event) payload (ucast (read_message_id h)) s1;
          Some ((FWK_SUCCESS, resp), s') }))"
proof -
  note bound = bind_binds_protocols [OF assms(1-3)]
  show ?thesis using bound_counted [OF bound assms(3)] dispatch_to_module [OF bound assms(3-9)] by blast
qed

section \<open>Witnesses\<close>

definition scmi_event0 :: fwk_event where
  "scmi_event0 = event_zero\<lparr>ev_target_id := FWK_ID_ELEMENT 1 0\<rparr>"

lemma scmi_event0_target [simp]: "ev_target_id scmi_event0 = FWK_ID_ELEMENT 1 0"
  by (simp add: scmi_event0_def)

theorem notifications_follow_subscriptions_witness:
  "\<exists>s0 s1 s2. scmi_notification_init 0x13 2 1 2 scmi_state1 = Some (FWK_SUCCESS, s0) \<and>
    for_each (run_change 0x13) [Subscribe 0 5 (FWK_ID_ELEMENT 1 0)] s0 = Some s1 \<and>
    scmi_notification_notify (scmi_env0 0 []) 0x13 5 1 [7] s1 = Some (FWK_SUCCESS, s2) \<and>
    scmi_calls s2 = [Transmit_message (FWK_ID_ELEMENT 2 0) (notification_header 0x13 1) [7] False]"
proof -
  have h: "subscribers_index 0x13 scmi_state1 = Some 2" "notification_subscribers 0x13 scmi_state1 = Some scmi_subscribers_zero"
    "(256 :: nat) * unat (1 :: u32) * unat (2 :: u32) < 2 ^ 32" "unat (2 :: u32) \<le> 127"
    "usable (unat (2 :: u32)) (unat (1 :: u32)) (unat (2 :: u32)) scmi_state1 [] [Subscribe 0 5 (FWK_ID_ELEMENT 1 0)]"
    "services_notifiable scmi_state1 [Subscribe 0 5 (FWK_ID_ELEMENT 1 0)]" "(5 :: u32) < MOD_SCMI_PROTOCOL_MAX_OPERATION_ID"
    by (code_simp, code_simp, simp, simp, code_simp, code_simp, code_simp)
  have "notifications_for scmi_state1 (subscribed_after scmi_state1 [Subscribe 0 5 (FWK_ID_ELEMENT 1 0)]) (unat (1 :: u32))
      (unat (2 :: u32)) (unat (5 :: u32)) (notification_header 0x13 1) [7] =
    [Transmit_message (FWK_ID_ELEMENT 2 0) (notification_header 0x13 1) [7] False]" by code_simp
  then show ?thesis
    using notifications_follow_subscriptions [OF h, of "scmi_env0 0 []" 1 "[7]"] by (auto simp: scmi_state1_fields)
qed

theorem base_messages_are_answered_witness:
  "(\<exists>s'. scmi_process_event (scmi_env0 (scmi_message_header 0 0 16 0) []) scmi_event0 event_zero scmi_state1 =
      Some ((FWK_SUCCESS, event_zero), s') \<and> answers_once (FWK_ID_ELEMENT 2 0) 16 [] (Some (FWK_SUCCESS, s'))) \<and>
    scmi_process_event (scmi_env0 (scmi_message_header 8 0 16 0) []) scmi_event0 event_zero scmi_state1 = None"
proof -
  have "\<not> stops_platform (scmi_env0 (scmi_message_header 0 0 16 0) []) (FWK_ID_ELEMENT 1 0) (scmi_message_header 0 0 16 0) [] scmi_state1"
    "stops_platform (scmi_env0 (scmi_message_header 8 0 16 0) []) (FWK_ID_ELEMENT 1 0) (scmi_message_header 8 0 16 0) [] scmi_state1"
    by code_simp+
  moreover have "read_protocol_id (scmi_message_header m 0 16 0) = ucast MOD_SCMI_PROTOCOL_ID_BASE" for m
    by (simp add: header_fields MOD_SCMI_PROTOCOL_ID_BASE_def)
  ultimately show ?thesis
    using base_messages_are_answered [of "scmi_env0 (scmi_message_header 0 0 16 0) []" scmi_event0 scmi_state1
        "scmi_message_header 0 0 16 0" "[]" event_zero]
      base_messages_are_answered [of "scmi_env0 (scmi_message_header 8 0 16 0) []" scmi_event0 scmi_state1
        "scmi_message_header 8 0 16 0" "[]" event_zero]
    by (simp add: scmi_served0 scmi_base_bound0 scmi_transport0 scmi_state1_fields payload_room_def)
qed

theorem agent_discovers_its_protocols_witness:
  "\<exists>cs w status. read_pages (scmi_env0 0 []) (FWK_ID_ELEMENT 1 0) (replicate 16 0xAA) 1 [] scmi_state1 = Some ([0x11, 0x13], logged cs scmi_state1) \<and>
    scmi_base_protocol_attributes_handler (scmi_env0 0 []) (FWK_ID_ELEMENT 1 0) [] scmi_state1 =
      Some (status, logged [Respond (FWK_ID_ELEMENT 2 0) (status_bytes SCMI_SUCCESS @ le32 w)] scmi_state1) \<and> unat (w AND 0xFF) = 2"
proof -
  have "pages_writable (scmi_env0 0 []) (FWK_ID_ELEMENT 1 0) 16 scmi_state1"
    by (simp add: pages_writable_def)
  moreover have "protocols_counted scmi_state1" using bound_counted [OF scmi_protocols0 scmi_ids0] .
  ultimately show ?thesis
    unfolding numeral_2_eq_2
    using agent_discovers_its_protocols [of "scmi_env0 0 []" "FWK_ID_ELEMENT 1 0" scmi_state1 16 "replicate 16 0xAA" 1]
    by (simp add: scmi_served0 scmi_agent_protocols0 scmi_transport0)
qed

theorem bound_protocols_get_their_messages_witness:
  "(\<exists>s'. upd_service (FWK_ID_ELEMENT 1 0) (store_header (scmi_message_header 3 0 0x13 0)) scmi_state1 = Some s' \<and>
      scmi_process_event (scmi_env0 (scmi_message_header 3 0 0x13 0) []) scmi_event0 event_zero scmi_state1 =
        Some ((FWK_SUCCESS, event_zero), s')) \<and>
    (\<exists>s1. scmi_process_event (scmi_env0 (scmi_message_header 3 0 0x15 0) []) scmi_event0 event_zero scmi_state1 =
        Some ((FWK_SUCCESS, event_zero), logged [Respond (FWK_ID_ELEMENT 2 0) (status_bytes SCMI_NOT_SUPPORTED)] s1))"
proof -
  have t: "fwk_id_is_type (FWK_ID_MODULE 1) FWK_ID_TYPE_ELEMENT = Some False" by code_simp
  have m: "module_of (scmi_env0 h p) scmi_state0 0x13 = Some (FWK_ID_MODULE 6)" "module_of (scmi_env0 h p) scmi_state0 0x15 = None" for h p
  proof -
    have number: "protocol_number (scmi_env0 h p) m = protocol_number (scmi_env0 0 [] :: (unit scmi) scmi_env) m" for m
      by (simp add: protocol_number_def protocol_interface_def Let_def)
    have same: "module_of (scmi_env0 h p) scmi_state0 = module_of (scmi_env0 0 []) scmi_state0"
      by (rule ext) (simp add: module_of_def number)
    show "module_of (scmi_env0 h p) scmi_state0 0x13 = Some (FWK_ID_MODULE 6)" "module_of (scmi_env0 h p) scmi_state0 0x15 = None"
      unfolding same by code_simp+
  qed
  show ?thesis
    using bound_protocols_get_their_messages [OF scmi_bound0 t scmi_ids0, of scmi_event0 "scmi_message_header 3 0 0x13 0" "[]"
        "scmi_message_header 3 0 0x13 0" "Some []" event_zero]
      bound_protocols_get_their_messages [OF scmi_bound0 t scmi_ids0, of scmi_event0 "scmi_message_header 3 0 0x15 0" "[]"
        "scmi_message_header 3 0 0x15 0" "Some []" event_zero]
    by (auto simp: scmi_platform0 scmi_transport0 scmi_state1_fields header_fields m MOD_SCMI_MESSAGE_TYPE_COMMAND_def)
qed

end
