(* ===== verification/Tp_Props.thy ===== *)
theory Tp_Props
  imports Tp_Invariants Tp_Exchange Tp_Scmi Scmi_Props
begin

unbundle bit_operations_syntax

text \<open>
  What the transport module promises: every channel with a mailbox reads and writes inside its buffers from the
  initialisation on, a message stays in its channel until its service has answered, a request of the base protocol is
  answered in its mailbox, and two processors exchange a request and an answer.
\<close>

section \<open>The properties\<close>

text \<open>C29. Messages are read as the reference says. From the initialisation of the module and its channels, and after
  any sequence of signals, writes, transmissions, responses, releases, starts and notifications, of writes of the agents
  into the mailboxes and of steps elsewhere, a channel with a mailbox still has two buffers of the size of the mailbox,
  and a signal of its driver does what the reference \<open>incoming_message\<close> says, whatever the agent writes into the mailbox
  between the two reads of the module: nothing until the mailbox is ready; \<open>FWK_E_STATE\<close> while the channel is
  held or the agent owns the mailbox; otherwise the channel is locked with the message, the length of which is the one
  that was checked, and the service is told, of an error if the length does not fit. No signal reads or writes outside
  a buffer.\<close>

theorem channels_read_messages:
  assumes "neighbours_behave env" "memory_fits env s0" "channels_initialised env s0 s"
    and "(transport_step env (\<lambda>_. True))\<^sup>*\<^sup>* s s'"
    and "channel_ctx c s' = Some ctx" "ch_config ctx = Some cfg" "is_out_band env cfg"
  shows "buffers_wf env ctx s' \<and> transport_signal_message env c s' = incoming_message env c ctx s'"
proof -
  have "channels_wf env s" using initialised_wf [OF assms(3,2)] by simp
  then have "channels_wf env s'" using sizes.run_inv [OF assms(4)] assms(1) by blast
  then have wf: "buffers_wf env ctx s'"
    using channel_in_table [OF assms(5)] assms(6,7) by (simp add: channels_wf_def channel_wf_def)
  have "agent_keeps_size env" using assms(1) by (simp add: neighbours_behave_def)
  then show ?thesis using signal_is_incoming_message [OF assms(5) wf] wf by simp
qed

text \<open>C31. A message is kept until it is answered. While a channel is locked and neither a response nor a release
  names it, any sequence of operations on other channels, of writes and transmissions on any channel, of signals,
  notifications and starts, and of writes of the agents leaves the header and the payload that its service reads
  unchanged, and a signal for it changes nothing: it is refused with \<open>FWK_E_STATE\<close>, or ignored where the mailbox
  is not ready.\<close>

theorem message_kept_until_answered:
  assumes "neighbours_behave env" "channel_ctx c s = Some ctx" "ch_locked ctx" "ch_config ctx = Some cfg" "has_messages cfg"
    and "(transport_step env (\<lambda>d. \<not> same_channel c d))\<^sup>*\<^sup>* s s'"
  shows "transport_get_message_header c (Some h) s' = transport_get_message_header c (Some h) s \<and>
    transport_get_payload c (Some p) s' = transport_get_payload c (Some p) s \<and>
    (\<exists>status\<in>{FWK_SUCCESS, FWK_E_STATE}. transport_signal_message env c s' = Some (status, s'))"
proof -
  have "holds_message c ctx s" using assms(2,3) by (simp add: holds_message_def)
  then have "holds_message c ctx s'" using held.run_inv [OF assms(6), of ctx] assms(1) by blast
  then obtain x where x: "channel_ctx c s' = Some x" "ch_locked x" "ch_in x = ch_in ctx" "ch_config x = ch_config ctx"
    by (auto simp: holds_message_def)
  have "\<exists>status\<in>{FWK_SUCCESS, FWK_E_STATE}. transport_signal_message env c s' = Some (status, s')"
    using x assms(4,5) by (simp add: transport_signal_message_def transport_message_handler_def)
  then show ?thesis using held_message_same [OF assms(2) x(1) assms(3) x(2-4)] by simp
qed

text \<open>C30. A request of the base protocol is answered in its mailbox. The mailbox of a ready, free channel of the
  platform holds a message of valid length for a bound SCMI service. The driver's signal queues an event for the
  service; the SCMI module processes it, reading and writing through the transport, and unless the message calls a null
  handler the mailbox afterwards holds the answer: the payload of the one response, with its length and the header of
  the request, marked free and without error; and the channel is unlocked and keeps its buffers.\<close>

theorem base_request_answered_in_mailbox:
  assumes "request_pending env c ctx cfg m s" "tp_agent env = (\<lambda>_ _ b. b)"
    and "transport_signal_message env c s = Some (FWK_SUCCESS, s1)"
    and "base_served (env_scmi env) (ch_service_id ctx) s" "base_bound (ch_service_id ctx) s" "transport_of (ch_service_id ctx) s = c"
    and "read_protocol_id (tb_message_header m) = ucast MOD_SCMI_PROTOCOL_ID_BASE"
  shows "\<exists>a. queued_for (ch_service_id ctx) a s s1 \<and>
    (if stops_platform (scmi_over_transport env s1) (ch_service_id ctx) (tb_message_header m) (request_payload m) s1
     then scmi_process_event (scmi_over_transport env s1) (events s1 a) resp s1 = None
     else \<exists>s2 status s3 reply bytes ctx'.
       scmi_process_event (scmi_over_transport env s1) (events s1 a) resp s1 = Some ((FWK_SUCCESS, resp), s2) \<and>
       transport_after env s1 (scmi_calls s2) = Some (status, s3) \<and>
       tp_mailboxes s3 (cc_out_band_mailbox_address cfg) = Some reply \<and>
       take (length bytes) (tb_payload reply) = bytes \<and>
       (\<exists>old. deliver old (drop (length (scmi_calls s1)) (scmi_calls s2)) = Some bytes) \<and>
       tb_length reply = sizeof_message_header + of_nat (length bytes) \<and>
       tb_message_header reply = tb_message_header m \<and>
       tb_status reply = tb_status m AND NOT MOD_TRANSPORT_MAILBOX_STATUS_ERROR_MASK OR MOD_TRANSPORT_MAILBOX_STATUS_FREE_MASK \<and>
       channel_ctx c s3 = Some ctx' \<and> \<not> ch_locked ctx' \<and> buffers_wf env ctx' s3)"
proof -
  from signal_queues_request [OF assms(1-3)] obtain a where a: "queued_for (ch_service_id ctx) a s s1" by blast
  then have "ev_target_id (events s1 a) = ch_service_id ctx" by (simp add: queued_for_def)
  then show ?thesis using request_answered [OF assms, of "events s1 a" resp] a by blast
qed

text \<open>C32. Two processors exchange a request and an answer. One end of a mailbox is a requester, the other a completer,
  both ready and free, with firmware services. What the requester transmits into a free mailbox is, after the signal,
  the header and payload the completer's service reads; what this service then responds is, after the signal back,
  the payload the requester's service reads, under the header of the request.\<close>

theorem mailbox_exchange_roundtrip:
  assumes "channel_end envA a ctxA cfgA sA" "cc_channel_type cfgA = MOD_TRANSPORT_CHANNEL_TYPE_REQUESTER" "\<not> has_inband envA"
    and "channel_end envB b ctxB cfgB sB" "cc_channel_type cfgB = MOD_TRANSPORT_CHANNEL_TYPE_COMPLETER" "\<not> has_inband envB"
    and "tp_mailboxes sA (cc_out_band_mailbox_address cfgA) = Some m" "tb_status m AND MOD_TRANSPORT_MAILBOX_STATUS_FREE_MASK \<noteq> 0"
    and "room ctxB = room ctxA" "length request \<le> unat (ch_max_payload_size ctxA)" "length answer \<le> unat (ch_max_payload_size ctxA)"
      "unat (ch_max_payload_size ctxA) < 2 ^ 32 - 4"
  shows "\<exists>statusA sA1 sB1 statusB sB2 sA2.
    transport_transmit envA a h (Some request) (of_nat (length request)) ack sA = Some (statusA, sA1) \<and>
    transport_signal_message envB b (same_mailbox cfgA sA1 cfgB sB) = Some (FWK_SUCCESS, sB1) \<and>
    message_of b sB1 = Some (h, request) \<and>
    transport_respond envB b (Some answer) (of_nat (length answer)) sB1 = Some (statusB, sB2) \<and>
    transport_signal_message envA a (same_mailbox cfgB sB2 cfgA sA1) = Some (FWK_SUCCESS, sA2) \<and>
    message_of a sA2 = Some (h, answer)"
  by (rule request_and_answer [OF assms])

section \<open>An instance\<close>

text \<open>Channel \<open>FWK_ID_ELEMENT 2 0\<close> with a mailbox of 64 bytes at address 0x1000, its buffers and mailbox with 36 bytes from
  the payload on; it serves the SCMI service of \<open>scmi_state1\<close>, or with the firmware interface a service that takes
  note of every message.\<close>

definition tp_config0 :: "mod_transport_channel_type \<Rightarrow> mod_transport_channel_config" where
  "tp_config0 t = \<lparr>cc_transport_type = MOD_TRANSPORT_CHANNEL_TRANSPORT_TYPE_OUT_BAND, cc_channel_type = t,
    cc_out_band_mailbox_address = 0x1000, cc_out_band_mailbox_size = 64, cc_in_band_mailbox_size = 0,
    cc_pd_source_id = FWK_ID_NONE, cc_platform_notification_id = FWK_ID_NONE, cc_platform_source_id = FWK_ID_NONE,
    cc_signal_api_id = FWK_ID_API 1 2, cc_policies = 2, cc_driver_id = FWK_ID_ELEMENT 3 0, cc_driver_api_id = FWK_ID_API 3 0\<rparr>"

definition tp_buffer0 :: "u32 \<Rightarrow> mod_transport_buffer" where
  "tp_buffer0 status = \<lparr>tb_reserved0 = 0, tb_status = status, tb_reserved1 = 0, tb_flags = 0, tb_length = 4,
    tb_message_header = scmi_message_header 0 0 16 0, tb_payload = replicate 36 0xAA\<rparr>"

definition tp_ctx0 :: "mod_transport_signal_api \<Rightarrow> mod_transport_channel_type \<Rightarrow> transport_channel_ctx" where
  "tp_ctx0 api t = \<lparr>ch_id = FWK_ID_ELEMENT 2 0, ch_config = Some (tp_config0 t), ch_in = Some (tp_buffer0 0),
    ch_out = Some (tp_buffer0 0), ch_locked = False, ch_max_payload_size = 32, ch_service_id = FWK_ID_ELEMENT 1 0,
    ch_driver_api = True, ch_transport_signal = Some api, ch_is_scmi = (api = Scmi_signal_api),
    ch_out_band_mailbox_ready = True, ch_wait_on_notifications = 0\<rparr>"

definition tp_env0 :: "('a tp) transport_env" where
  "tp_env0 = \<lparr>has_outband = True, has_inband = False, has_transport_fc = False, has_mod_scmi = True, has_mod_power_domain = False,
    env_transport_idx = 2, env_power_domain_idx = 4,
    env_channel_config = (\<lambda>a. if a = 1 then Some (tp_config0 MOD_TRANSPORT_CHANNEL_TYPE_COMPLETER) else None),
    tp_agent = (\<lambda>_ _ b. b), tp_padding = [0, 0, 0, 0], tp_alloc = (\<lambda>_. Some (tp_buffer0 0)), driver_status = (\<lambda>_. FWK_SUCCESS),
    driver_message = (\<lambda>_ b. b), driver_fch_address = (\<lambda>_. (FWK_E_SUPPORT, \<lparr>fa_local_view_address = 0, fa_target_view_address = 0, fa_length = 0\<rparr>)),
    driver_fch_interrupt_type = (\<lambda>_. (FWK_E_SUPPORT, MOD_TRANSPORT_FCH_INTERRUPT_TYPE_TIMER)),
    driver_fch_doorbell_info = (\<lambda>_. (FWK_E_SUPPORT, \<lparr>fd_doorbell_register_width = 0, fd_doorbell_support = False\<rparr>)),
    driver_fch_rate_limit = (\<lambda>_. (FWK_E_SUPPORT, 0)), bind_interface = (\<lambda>_ _. FWK_SUCCESS),
    firmware_signal_error = (\<lambda>_ s. Some (FWK_SUCCESS, s)), firmware_signal_message = (\<lambda>_ s. Some (FWK_SUCCESS, s)),
    env_scmi = scmi_env0 0 []\<rparr>"

definition tp_state0 :: "transport_channel_ctx list \<Rightarrow> u32 \<Rightarrow> unit tp" where
  "tp_state0 table status = scmi_state.extend scmi_state1 (transport_state.fields table (length table)
    (\<lambda>a. if a = 0x1000 then Some (tp_buffer0 status) else None) [])"

lemma tp_env0_fields [simp]:
  "has_outband tp_env0" "\<not> has_inband tp_env0" "has_mod_scmi tp_env0" "tp_agent tp_env0 = (\<lambda>_ _ b. b)" "env_scmi tp_env0 = scmi_env0 0 []"
  "env_channel_config tp_env0 a = (if a = 1 then Some (tp_config0 MOD_TRANSPORT_CHANNEL_TYPE_COMPLETER) else None)"
  "tp_alloc tp_env0 n = Some (tp_buffer0 0)" "driver_message tp_env0 cs b = b"
  "firmware_signal_error tp_env0 i s = Some (FWK_SUCCESS, s)" "firmware_signal_message tp_env0 i s = Some (FWK_SUCCESS, s)"
  by (simp_all add: tp_env0_def)

lemma tp_config0_fields [simp]:
  "cc_out_band_mailbox_address (tp_config0 t) = 0x1000" "cc_out_band_mailbox_size (tp_config0 t) = 64" "cc_channel_type (tp_config0 t) = t"
  "cc_transport_type (tp_config0 t) = MOD_TRANSPORT_CHANNEL_TRANSPORT_TYPE_OUT_BAND" "is_out_band tp_env0 (tp_config0 t)" "has_messages (tp_config0 t)"
  by (simp_all add: tp_config0_def is_out_band_def has_messages_def)

lemma tp_buffer0_fields [simp]:
  "length (tb_payload (tp_buffer0 st)) = 36" "tb_status (tp_buffer0 st) = st" "tb_length (tp_buffer0 st) = 4"
  "tb_message_header (tp_buffer0 st) = scmi_message_header 0 0 16 0"
  by (simp_all add: tp_buffer0_def)

lemma tp_state0_fields [simp]:
  "tp_channel_ctx_table (tp_state0 table status) = table"
  "tp_mailboxes (tp_state0 table status) = (\<lambda>a. if a = 0x1000 then Some (tp_buffer0 status) else None)"
  by (simp_all add: tp_state0_def scmi_state.defs transport_state.defs)

lemma tp_channel0: "channel_ctx (FWK_ID_ELEMENT 2 0) (tp_state0 [ctx] status) = Some ctx"
proof -
  have "fwk_id_get_element_idx (FWK_ID_ELEMENT 2 0) = Some 0" by code_simp
  then show ?thesis by (simp add: channel_ctx_def)
qed

lemma tp_behaves0: "neighbours_behave tp_env0"
  by (auto simp: neighbours_behave_def agent_keeps_size_def)

lemma tp_wf0: "buffers_wf tp_env0 (tp_ctx0 api t) (tp_state0 table status)"
  by (simp add: buffers_wf_def tp_ctx0_def room_def)

section \<open>Witnesses\<close>

text \<open>The initialisation of one channel, and a write of the agent.\<close>

theorem channels_read_messages_witness:
  "\<exists>s ctx. channels_initialised tp_env0 (tp_state0 [] 1) s \<and> channel_ctx (FWK_ID_ELEMENT 2 0) (with_mailbox 0x1000 (tp_buffer0 0) s) = Some ctx \<and>
    buffers_wf tp_env0 ctx (with_mailbox 0x1000 (tp_buffer0 0) s) \<and>
    transport_signal_message tp_env0 (FWK_ID_ELEMENT 2 0) (with_mailbox 0x1000 (tp_buffer0 0) s) =
      incoming_message tp_env0 (FWK_ID_ELEMENT 2 0) ctx (with_mailbox 0x1000 (tp_buffer0 0) s)"
proof -
  let ?c = "FWK_ID_ELEMENT 2 0" and ?cfg = "tp_config0 MOD_TRANSPORT_CHANNEL_TYPE_COMPLETER"
  let ?s1 = "tp_state0 [] 1\<lparr>tp_channel_ctx_table := [transport_channel_ctx_zero], tp_channel_count := 1\<rparr>"
  let ?x = "transport_channel_ctx_zero\<lparr>ch_config := Some ?cfg, ch_id := ?c, ch_in := Some (tp_buffer0 0), ch_out := Some (tp_buffer0 0),
    ch_max_payload_size := 32\<rparr>"
  have idx: "fwk_id_get_element_idx ?c = Some 0" by code_simp
  have fits: "memory_fits tp_env0 (tp_state0 [] 1)"
    by (simp add: memory_fits_def buffer_payload_offset_def sizeof_transport_buffer_def)
  have start: "transport_init 1 (tp_state0 [] 1) = Some (FWK_SUCCESS, ?s1)" by (simp add: transport_init_def)
  have ctx1: "channel_ctx ?c ?s1 = Some transport_channel_ctx_zero" by (simp add: channel_ctx_def idx)
  have "transport_channel_init tp_env0 ?c 1 ?s1 = Some (FWK_SUCCESS, with_channel ?c ?x ?s1)"
    using ctx1 by (simp add: transport_channel_init_def upd_channel_some config_invalid_def channel_buffers_def is_in_band_def
        sizeof_transport_buffer_def)
  then have ready: "channels_initialised tp_env0 (tp_state0 [] 1) (with_channel ?c ?x ?s1)"
    using channels_initialised.intros start by blast
  let ?s = "with_channel ?c ?x ?s1"
  have ctx: "channel_ctx ?c ?s = Some ?x" using ctx1 by simp
  have step: "(transport_step tp_env0 (\<lambda>_. True))\<^sup>*\<^sup>* ?s (with_mailbox 0x1000 (tp_buffer0 0) ?s)"
    by (rule r_into_rtranclp, rule transport_step.agents [where m = "tp_buffer0 1"]) (simp_all)
  have "channel_ctx ?c (with_mailbox 0x1000 (tp_buffer0 0) ?s) = Some ?x" using ctx by simp
  moreover have "ch_config ?x = Some ?cfg" "is_out_band tp_env0 ?cfg" by simp_all
  ultimately show ?thesis using channels_read_messages [OF tp_behaves0 fits ready step] ready by blast
qed

text \<open>The agent overwrites the mailbox of a held channel.\<close>

theorem message_kept_until_answered_witness:
  "transport_get_message_header (FWK_ID_ELEMENT 2 0) (Some 0) (with_mailbox 0x1000 (tp_buffer0 1)
      (tp_state0 [tp_ctx0 Scmi_signal_api MOD_TRANSPORT_CHANNEL_TYPE_COMPLETER\<lparr>ch_locked := True\<rparr>] 0)) =
    Some (FWK_SUCCESS, Some (scmi_message_header 0 0 16 0))"
proof -
  let ?ctx = "tp_ctx0 Scmi_signal_api MOD_TRANSPORT_CHANNEL_TYPE_COMPLETER\<lparr>ch_locked := True\<rparr>"
  let ?s = "tp_state0 [?ctx] 0"
  have step: "(transport_step tp_env0 (\<lambda>d. \<not> same_channel (FWK_ID_ELEMENT 2 0) d))\<^sup>*\<^sup>* ?s (with_mailbox 0x1000 (tp_buffer0 1) ?s)"
    by (rule r_into_rtranclp, rule transport_step.agents [where m = "tp_buffer0 0"]) simp_all
  have "ch_locked ?ctx" "ch_config ?ctx = Some (tp_config0 MOD_TRANSPORT_CHANNEL_TYPE_COMPLETER)"
    "has_messages (tp_config0 MOD_TRANSPORT_CHANNEL_TYPE_COMPLETER)" by (simp_all add: tp_ctx0_def)
  from message_kept_until_answered [OF tp_behaves0 tp_channel0 this step, of 0]
  have "transport_get_message_header (FWK_ID_ELEMENT 2 0) (Some 0) (with_mailbox 0x1000 (tp_buffer0 1) ?s) =
    transport_get_message_header (FWK_ID_ELEMENT 2 0) (Some 0) ?s" by blast
  also have "\<dots> = Some (FWK_SUCCESS, Some (scmi_message_header 0 0 16 0))"
    by (simp add: transport_get_message_header_def tp_channel0) (simp add: tp_ctx0_def)
  finally show ?thesis .
qed

text \<open>A \<open>PROTOCOL_VERSION\<close> request.\<close>

definition tp_request0 :: "unit tp" where
  "tp_request0 = tp_state0 [tp_ctx0 Scmi_signal_api MOD_TRANSPORT_CHANNEL_TYPE_COMPLETER] 0"

lemma tp_pending0:
  "request_pending tp_env0 (FWK_ID_ELEMENT 2 0) (tp_ctx0 Scmi_signal_api MOD_TRANSPORT_CHANNEL_TYPE_COMPLETER)
    (tp_config0 MOD_TRANSPORT_CHANNEL_TYPE_COMPLETER) (tp_buffer0 0) tp_request0"
  using tp_wf0 [of Scmi_signal_api MOD_TRANSPORT_CHANNEL_TYPE_COMPLETER]
  by (simp add: request_pending_def tp_request0_def tp_channel0)
    (simp add: tp_ctx0_def length_invalid_def sizeof_message_header_def)

lemma tp_served0: "base_served (scmi_env0 0 []) (FWK_ID_ELEMENT 1 0) tp_request0"
proof -
  have "service_ready (FWK_ID_ELEMENT 1 0) tp_request0" by code_simp
  moreover have "agents_configured scmi_config0" by code_simp
  moreover have "(case fwk_module_get_element_name (FWK_ID_ELEMENT 1 0) tp_request0 of Some (Some _) \<Rightarrow> True | _ \<Rightarrow> False)" by code_simp
  moreover have "scmi_ctx tp_request0 = scmi_ctx scmi_state1" "res_perms_state tp_request0 = res_perms_state scmi_state1"
    by (simp_all add: tp_request0_def tp_state0_def scmi_state.defs)
  ultimately show ?thesis using permissions_return0 by (simp add: base_served_def scmi_state1_fields)
qed

lemma tp_bound0: "base_bound (FWK_ID_ELEMENT 1 0) tp_request0" "transport_of (FWK_ID_ELEMENT 1 0) tp_request0 = FWK_ID_ELEMENT 2 0"
  by code_simp+

theorem base_request_answered_in_mailbox_witness:
  "\<exists>s1 a s2 status s3 reply bytes.
    transport_signal_message tp_env0 (FWK_ID_ELEMENT 2 0) tp_request0 = Some (FWK_SUCCESS, s1) \<and>
    scmi_process_event (scmi_over_transport tp_env0 s1) (events s1 a) event_zero s1 = Some ((FWK_SUCCESS, event_zero), s2) \<and>
    transport_after tp_env0 s1 (scmi_calls s2) = Some (status, s3) \<and>
    tp_mailboxes s3 0x1000 = Some reply \<and> take (length bytes) (tb_payload reply) = bytes \<and>
    tb_length reply = sizeof_message_header + of_nat (length bytes) \<and> tb_status reply = MOD_TRANSPORT_MAILBOX_STATUS_FREE_MASK \<and> tb_message_header reply = scmi_message_header 0 0 16 0"
proof -
  let ?ctx = "tp_ctx0 Scmi_signal_api MOD_TRANSPORT_CHANNEL_TYPE_COMPLETER"
  define s1 where "s1 = snd (the (transport_signal_message tp_env0 (FWK_ID_ELEMENT 2 0) tp_request0))"
  have "map_option fst (transport_signal_message tp_env0 (FWK_ID_ELEMENT 2 0) tp_request0) = Some FWK_SUCCESS" by code_simp
  then have signal: "transport_signal_message tp_env0 (FWK_ID_ELEMENT 2 0) tp_request0 = Some (FWK_SUCCESS, s1)"
    by (auto simp: s1_def)
  have service: "ch_service_id ?ctx = FWK_ID_ELEMENT 1 0" by (simp add: tp_ctx0_def)
  have p: "read_protocol_id (tb_message_header (tp_buffer0 0)) = ucast MOD_SCMI_PROTOCOL_ID_BASE"
    by (simp add: header_fields MOD_SCMI_PROTOCOL_ID_BASE_def)
  have runs: "\<not> stops_platform (scmi_over_transport tp_env0 s1) (FWK_ID_ELEMENT 1 0) (scmi_message_header 0 0 16 0) (request_payload (tp_buffer0 0)) s1"
    by (simp add: stops_platform_def header_fields calls_null_handler_def MOD_SCMI_MESSAGE_TYPE_NOTIFICATION_def base_handler_present_def base_handler_table_def)
  have "\<exists>a. queued_for (FWK_ID_ELEMENT 1 0) a tp_request0 s1 \<and> (\<exists>s2 status s3 reply bytes ctx'.
       scmi_process_event (scmi_over_transport tp_env0 s1) (events s1 a) event_zero s1 = Some ((FWK_SUCCESS, event_zero), s2) \<and>
       transport_after tp_env0 s1 (scmi_calls s2) = Some (status, s3) \<and> tp_mailboxes s3 0x1000 = Some reply \<and>
       take (length bytes) (tb_payload reply) = bytes \<and>
       (\<exists>old. deliver old (drop (length (scmi_calls s1)) (scmi_calls s2)) = Some bytes) \<and>
       tb_length reply = sizeof_message_header + of_nat (length bytes) \<and>
       tb_message_header reply = scmi_message_header 0 0 16 0 \<and> tb_status reply = MOD_TRANSPORT_MAILBOX_STATUS_FREE_MASK \<and>
       channel_ctx (FWK_ID_ELEMENT 2 0) s3 = Some ctx' \<and> \<not> ch_locked ctx' \<and> buffers_wf tp_env0 ctx' s3)"
    using base_request_answered_in_mailbox [OF tp_pending0 _ signal, of event_zero] runs p
    by (simp add: service tp_served0 tp_bound0)
  then show ?thesis using signal by blast
qed

text \<open>Both ends with the mailbox of the instance, free.\<close>

theorem mailbox_exchange_roundtrip_witness:
  "\<exists>statusA sA1 sB1 statusB sB2 sA2.
    transport_transmit tp_env0 (FWK_ID_ELEMENT 2 0) 7 (Some [1, 2, 3]) 3 True
      (tp_state0 [tp_ctx0 Firmware_signal_api MOD_TRANSPORT_CHANNEL_TYPE_REQUESTER] 1) = Some (statusA, sA1) \<and>
    transport_signal_message tp_env0 (FWK_ID_ELEMENT 2 0) (same_mailbox (tp_config0 MOD_TRANSPORT_CHANNEL_TYPE_REQUESTER) sA1
      (tp_config0 MOD_TRANSPORT_CHANNEL_TYPE_COMPLETER)
      (tp_state0 [tp_ctx0 Firmware_signal_api MOD_TRANSPORT_CHANNEL_TYPE_COMPLETER] 1)) = Some (FWK_SUCCESS, sB1) \<and>
    message_of (FWK_ID_ELEMENT 2 0) sB1 = Some (7, [1, 2, 3]) \<and>
    transport_respond tp_env0 (FWK_ID_ELEMENT 2 0) (Some [4, 5]) 2 sB1 = Some (statusB, sB2) \<and>
    transport_signal_message tp_env0 (FWK_ID_ELEMENT 2 0) (same_mailbox (tp_config0 MOD_TRANSPORT_CHANNEL_TYPE_COMPLETER) sB2
      (tp_config0 MOD_TRANSPORT_CHANNEL_TYPE_REQUESTER) sA1) = Some (FWK_SUCCESS, sA2) \<and>
    message_of (FWK_ID_ELEMENT 2 0) sA2 = Some (7, [4, 5])"
proof -
  have "channel_end tp_env0 (FWK_ID_ELEMENT 2 0) (tp_ctx0 Firmware_signal_api t) (tp_config0 t)
      (tp_state0 [tp_ctx0 Firmware_signal_api t] 1 :: unit tp)" for t
    using tp_wf0 [of Firmware_signal_api t]
    by (simp add: channel_end_def tp_channel0 service_takes_note_def) (simp add: tp_ctx0_def)
  moreover have "room (tp_ctx0 api t) = 36" "ch_max_payload_size (tp_ctx0 api t) = 32" for api t by (simp_all add: tp_ctx0_def room_def)
  ultimately show ?thesis
    using mailbox_exchange_roundtrip [of tp_env0 "FWK_ID_ELEMENT 2 0" "tp_ctx0 Firmware_signal_api MOD_TRANSPORT_CHANNEL_TYPE_REQUESTER"
        "tp_config0 MOD_TRANSPORT_CHANNEL_TYPE_REQUESTER" "tp_state0 [tp_ctx0 Firmware_signal_api MOD_TRANSPORT_CHANNEL_TYPE_REQUESTER] 1"
        tp_env0 "FWK_ID_ELEMENT 2 0" "tp_ctx0 Firmware_signal_api MOD_TRANSPORT_CHANNEL_TYPE_COMPLETER"
        "tp_config0 MOD_TRANSPORT_CHANNEL_TYPE_COMPLETER" "tp_state0 [tp_ctx0 Firmware_signal_api MOD_TRANSPORT_CHANNEL_TYPE_COMPLETER] 1"
        "tp_buffer0 1" "[1, 2, 3]" "[4, 5]" 7 True]
    by (simp add: mailbox_masks)
qed

end
