(* ===== verification/Spec2Isabelle.thy ===== *)
theory Spec2Isabelle
  imports Fwk_Ring Fwk_Event_Props Fwk_Notification Fwk_Lifecycle Pd_System Pldm_Props Rp_Props Mctp_Props Mctp_Pcc Tp_Props
begin

text \<open>
  A model of the SCP firmware: the module framework (\<open>framework/\<close>) and the services above it: the power
  domain module, the SCMI core with its base protocol, the resource permissions of SCMI agents, the message
  transport, and the PLDM and MCTP firmware modules.

  \<^bold>\<open>How the program is put together.\<close>

  A firmware image is a table of modules with elements and sub-elements. The framework gives every entity
  an identifier, boots the modules in stages (initialise, bind, start), and then runs one loop: it takes
  events from a queue, calls the event handler of the target, and sends the response the handler filled in,
  unless the handler delays it. Entities meet in three ways only: interfaces handed out while binding,
  events, and notifications to subscribers. The modules below follow that pattern:

    \<^item> the power domain module keeps a tree of domains, receives the requests of SCMI and of the system as
      events, asks the drivers of the domains for transitions and takes their reports;
    \<^item> the transport module owns the channels: a driver signals a message in a shared mailbox or of its own, the
      module copies it, locks the channel and tells the service, and the service answers through the channel;
    \<^item> the SCMI module turns the signal into an event, and the event into a call of the protocol module whose
      identifier the header names, or of its own base protocol; it keeps who is subscribed to which
      notification, and who may use which protocol;
    \<^item> the resource permissions answer, for every SCMI message, whether an agent may use a protocol, a
      message or a resource;
    \<^item> the MCTP firmware module receives messages from a bus, answers control commands itself and passes
      PLDM packets on; the PLDM module answers requests out of what the MCP knows, discovers a terminus by
      a sequence of requests, and queues platform events until the receiver has polled them; the PCC
      binding frames the MCTP packets for a shared-memory channel.

  \<^bold>\<open>Conventions.\<close>

  Functions keep the names of the source; the two leading underscores of a framework function are dropped,
  and a prefix tells apart the members of records that would clash. A function that reads or writes state
  takes the state last and returns it updated. \<open>None\<close> stands for an execution that stops or has no defined
  result: a failed \<open>fwk_assert\<close>, \<open>fwk_trap\<close>, a null pointer or an access outside an object; a status code is
  an \<open>int\<close>. A theorem whose conclusion has the form \<open>... = Some ...\<close> therefore also says that the code runs
  to its end. The assertions are those of a Debug build, and \<open>fwk_check\<close>, \<open>fwk_expect\<close> and \<open>fwk_unexpected\<close>
  take the build as an argument; in a Release build the assertions vanish and the index readers of
  \<open>fwk_id.h\<close> are inline and unchecked, so a run the model stops goes on there with an undefined value.
  Machine integers are words of their width, identifiers the 32 bits of \<open>fwk_id_t\<close>. Allocation succeeds:
  \<open>fwk_mm_alloc\<close> traps otherwise. Log messages are left out.

  \<^bold>\<open>Theories and sources.\<close>

  Framework, \<open>framework/src\<close> and \<open>framework/include\<close>:
    \<^item> \<open>Prelude\<close>: the option monad, loops with their rules, generic lemmas, the collections \<open>model_defs\<close> and
      \<open>frame_simps\<close>.
    \<^item> \<open>Fwk_Status\<close> (\<open>fwk_status.c\<close>, \<open>fwk_assert.h\<close>, \<open>fwk_string.c\<close>), \<open>Fwk_Id\<close> (\<open>fwk_id.c\<close>): status codes and
      identifiers, and that an identifier gives back the indices it was built from.
    \<^item> \<open>Fwk_Ring\<close> (\<open>fwk_ring.c\<close>): the ring of bytes refines a queue that keeps its newest bytes, stated as the
      locale \<open>overwriting_fifo\<close> and interpreted on the operations of the code.
    \<^item> \<open>Fwk_List\<close> (\<open>fwk_slist.c\<close>, \<open>fwk_dlist.c\<close>): both linked lists on an explicit heap; the locale
      \<open>intrusive_list\<close> is interpreted three times, and connects them with the lists of addresses the
      theories above use.
    \<^item> \<open>Fwk_State\<close>, \<open>Fwk_Module\<close>, \<open>Fwk_Lifecycle\<close> (\<open>fwk_module.c\<close>): contexts and their tables, validity and
      queries of identifiers, and the boot stages: progress of every entity, total start and stop, and when
      a binding request reaches a module.
    \<^item> \<open>Fwk_Event\<close>, \<open>Fwk_Event_Props\<close> (\<open>fwk_core.c\<close>, \<open>fwk_delayed_resp.c\<close>): sending and processing events,
      conservation of the event structures, termination of the event loop, and requests with their
      immediate or delayed responses.
    \<^item> \<open>Fwk_Notification\<close> (\<open>fwk_notification.c\<close>): subscriptions, their pool, and what a notification queues.

  Power domains, \<open>module/power_domain/src\<close>:
    \<^item> \<open>Pd_States\<close> (\<open>power_domain_state_checks.c\<close>, the headers): states, composite states and their levels.
    \<^item> \<open>Pd_Core\<close>, \<open>Pd_Module\<close> (\<open>mod_power_domain.c\<close>, \<open>power_domain_notifications.c\<close>): the transition of a
      domain, the request, report and notification handlers, the interfaces and the framework handlers.
    \<^item> \<open>Pd_Invariants\<close>: the locales \<open>pd_request_invariant\<close> and \<open>pd_invariant\<close> prove once, for every property
      that the sending of events and the drivers keep, that all handlers keep it; they are interpreted on
      the pool of events, on the requested states of the tree and on its static part.
    \<^item> \<open>Pd_Props\<close>, \<open>Pd_System\<close>: consistency of the requested states, binding rights, construction of the
      tree, composite states, suspend and shutdown.

  PLDM, \<open>module/pldm_fw/src\<close>:
    \<^item> \<open>Pldm_Queue\<close> (\<open>mcp.c\<close>): the ring of five platform events refines a log (locale \<open>event_log\<close>).
    \<^item> \<open>Pldm_Types\<close>, \<open>Pldm_Fw\<close> (\<open>mod_pldm_fw.c\<close>, \<open>bmc.c\<close>): contexts, every request and response handler, the
      dispatch and the discovery state machine.
    \<^item> \<open>Pldm_Poll\<close>, \<open>Pldm_Discovery\<close>, \<open>Pldm_Props\<close>, \<open>Pldm_Example\<close>: transfer of an event in parts, discovery
      from end to end, one answer per request unless the module stops, invariants, and a concrete codec with the
      checks of libpldm's own for the examples.

  Resource permissions, \<open>module/resource_perms/src/mod_resource_perms.c\<close>:
    \<^item> \<open>Rp_Types\<close>, \<open>Rp_Perms\<close>: tables, index computations, checks, settings, reset and initialisation.
    \<^item> \<open>Rp_Layout\<close>, \<open>Rp_Props\<close>: entries of distinct resources never overlap (locale \<open>table_layout\<close>, interpreted
      on the index the code computes); the checks agree with a reference answer read off the tables.

  SCMI, \<open>module/scmi\<close>:
    \<^item> \<open>Scmi_Types\<close>, \<open>Scmi_Core\<close> (\<open>mod_scmi.c\<close>): message headers, contexts of services and protocols, the interfaces
      for the transports and the protocol modules, subscriptions and notifications.
    \<^item> \<open>Scmi_Base\<close> (\<open>mod_scmi_base.c\<close>): the handlers of the base protocol, with and without the resource
      permissions; the payload of a response is the bytes that are sent.
    \<^item> \<open>Scmi_Module\<close> (\<open>mod_scmi.c\<close>): dispatch, initialisation, binding and start.
    \<^item> \<open>Scmi_Notify\<close>: the tables of subscribers against a map from operation, element and agent to a service.
    \<^item> \<open>Scmi_Answers\<close>: what one message of the base protocol sends (\<open>answers_once\<close>), and which messages stop the
      platform at a null handler (\<open>stops_platform\<close>).
    \<^item> \<open>Scmi_Discovery\<close>: what an agent reads page by page; \<open>Scmi_Binding\<close>: the tables after binding, and that a
      command reaches the module of its protocol. \<open>Scmi_Props\<close>: the properties, on a concrete service.

  Transport, \<open>module/transport\<close>:
    \<^item> \<open>Tp_Types\<close>, \<open>Tp_Core\<close> (\<open>mod_transport.c\<close>): buffers and mailboxes, channels, both directions of a message, fast
      channels, and the handling of an incoming message with the accesses of the agent between the two reads.
    \<^item> \<open>Tp_Module\<close>: initialisation, binding, start, and the notifications a channel waits for.
    \<^item> \<open>Tp_Channel\<close>: an incoming message refines \<open>incoming_message\<close>; the writes and the response of a service leave
      in the mailbox what the agent is said to receive.
    \<^item> \<open>Tp_Invariants\<close>: the locale \<open>transport_invariant\<close> proves once that every operation keeps an assertion on
      channels and mailboxes; it is interpreted on the sizes of all buffers and on the message of a held channel.
    \<^item> \<open>Tp_Scmi\<close>: the SCMI module over this transport, from the request in the mailbox to the answer in it;
      \<open>Tp_Exchange\<close>: two processors at both ends of a mailbox. \<open>Tp_Props\<close>: the properties, on a concrete channel.

  MCTP, \<open>module/mctp_fw\<close> and \<open>module/mctp_pcc\<close>:
    \<^item> \<open>Mctp_Fw\<close>, \<open>Mctp_Props\<close> (\<open>mctp_fw_msg.c\<close>, \<open>mod_mctp_fw.c\<close>): control commands, routing, the composition
      with the PLDM module, and the reference answer to a control request, of three bytes or more.
    \<^item> \<open>Mctp_Pcc\<close> (\<open>mod_mctp_pcc.c\<close>): frames sent, refused, delivered and dropped.

  \<^bold>\<open>Parameters.\<close>

  Code outside the repository, or supplied by a product, is an argument of the definitions that use it:
    \<^item> \<open>module_ops\<close>: the callbacks of the modules, for the framework;
    \<^item> \<open>pd_env\<close>: the drivers of the power domains and the platform's answers;
    \<^item> \<open>res_plat\<close>: the weak functions a platform may override; the versions of the module itself are defined;
    \<^item> \<open>scmi_env\<close>: the build, what a binding returns, the statuses and contents of the transport, which may depend
      on all calls before, and the message handlers of the protocol modules;
    \<^item> \<open>transport_env\<close>: the build, the drivers, fresh memory, the signals of firmware services, and what the agent
      does to a mailbox before each of the two reads;
    \<^item> \<open>pldm_lib\<close>, \<open>mctp_lib\<close>, \<open>pcc_env\<close>: libpldm and libmctp, which are submodules, and the transport.

  A hypothesis on a parameter states documented behaviour (a decoder reads back what the encoder wrote,
  for the instance identifiers a header has room for and successful responses,
  drivers neither keep nor lose event structures, callbacks succeed) and every theorem with a hypothesis has
  an example in which all of them hold.

  Loops are recursion over lists wherever the code runs over a table. Only four need fuel. The event loop
  returns within the weight of its queues when handlers send nothing: two turns for an event that asks for a
  response, one for any other, one more for an event that still waits in the interrupt queue. The transfer
  of an event needs one poll per part, discovery \<open>2 n + 1\<close> exchanges for \<open>n\<close> types, and the protocols of an SCMI agent as many
  pages as their identifiers fill; these bounds are part of the theorems.

  \<^bold>\<open>Not modelled.\<close>

  Interrupt masking around single queue operations (an operation is one step; an interrupt handler is a
  caller with its context flag set), the main loop around \<open>fwk_process_event_queue\<close>, logging and streams, the
  memory and time services, and the architecture layer. Of the modelled modules: the constant tables of
  the PDRs and the debugger commands of PLDM, the bind functions of PLDM and MCTP that only store interface
  pointers, and the element table helper of the power domains. The transport copies a message in one step
  between two accesses of the agent, and a response is one step, as it is made under disabled interrupts; a
  service that answers after the SCMI event (a delayed answer of a protocol module) is a later step of the
  channel. The other modules, among them the SCMI protocols above the base protocol, the mailbox and doorbell
  drivers, the clock and sensor abstractions and the device drivers, the products and the vendored kernel are
  listed in the manifest with the reason.
\<close>

end
